(* ===== verification/GoPrelude.thy ===== *)
theory GoPrelude
  imports Main "HOL-Library.Word" "HOL-Library.Monad_Syntax"
begin

unbundle bit_operations_syntax

text \<open>
  The language layer shared by every component: Go's fixed-width integers as words, byte
  slices as lists of bytes, the byte orders of package \<open>encoding/binary\<close>, and the
  compilation target (host byte order, word size, alignment of 64-bit integers) on which
  the kernel ABI of the program depends.

  A Go run-time panic (a slice index or a \<open>binary\<close> read out of range) is the value
  \<open>None\<close> of an \<open>option\<close>: a definition that reads or writes a slice returns an
  \<open>option\<close>, and a statement that it is never \<open>None\<close> says that the code does not panic.
  Go's error results are values of their own (theory \<open>Errors\<close>) inside that option.
\<close>

section \<open>Machine integers, slices and targets\<close>

type_synonym byte = "8 word"
type_synonym bytes = "byte list"
type_synonym u16 = "16 word"
type_synonym u32 = "32 word"
type_synonym u64 = "64 word"

datatype byte_order = LittleEndian | BigEndian

text \<open>The build target: what \<open>binary.NativeEndian\<close>, \<open>bits.UintSize / 8\<close> and
  \<open>u64Align\<close> are on it.\<close>

record target =
  native :: byte_order
  wordSize :: nat
  u64Align :: nat

text \<open>The combinations Linux has: 64-bit targets align 64-bit integers to 8; of the
  32-bit ones, 386 aligns them to 4 and the others to 8.\<close>

definition wf_target :: "target \<Rightarrow> bool" where
  "wf_target T \<longleftrightarrow> (wordSize T = 8 \<and> u64Align T = 8) \<or>
     (wordSize T = 4 \<and> (u64Align T = 4 \<or> u64Align T = 8))"

definition amd64 :: target where
  "amd64 = \<lparr>native = LittleEndian, wordSize = 8, u64Align = 8\<rparr>"

definition i386 :: target where
  "i386 = \<lparr>native = LittleEndian, wordSize = 4, u64Align = 4\<rparr>"

definition s390x :: target where
  "s390x = \<lparr>native = BigEndian, wordSize = 8, u64Align = 8\<rparr>"

text \<open>\<open>codec_rw\<close> collects the read-after-write laws of the slice codecs, \<open>no_panic\<close> the
  facts that resolve a guarded read or write, and \<open>abi_layout\<close> the constants of the ABI.\<close>

named_theorems codec_rw "reads after writes of byte slices"
named_theorems no_panic "guarded reads and writes in range"
named_theorems abi_layout "numeric values of the kernel ABI constants"

lemma wf_target_cases:
  assumes "wf_target T"
  obtains (w8) "wordSize T = 8" "u64Align T = 8"
    | (w4a4) "wordSize T = 4" "u64Align T = 4"
    | (w4a8) "wordSize T = 4" "u64Align T = 8"
  using assms by (auto simp: wf_target_def)

lemma wf_amd64 [simp]: "wf_target amd64"
  by (simp add: wf_target_def amd64_def)

lemma wf_i386 [simp]: "wf_target i386"
  by (simp add: wf_target_def i386_def)

lemma wf_s390x [simp]: "wf_target s390x"
  by (simp add: wf_target_def s390x_def)

section \<open>Integers as bytes\<close>

text \<open>\<open>le_dec\<close> and \<open>le_enc\<close> are the shifts and masks of \<open>binary.LittleEndian\<close>, for every
  width; the big-endian order is the same on the reversed slice.\<close>

fun le_dec :: "bytes \<Rightarrow> 'a::len word" where
  "le_dec [] = 0"
| "le_dec (b # bs) = ucast b OR push_bit 8 (le_dec bs)"

fun le_enc :: "nat \<Rightarrow> 'a::len word \<Rightarrow> bytes" where
  "le_enc 0 w = []"
| "le_enc (Suc n) w = ucast w # le_enc n (drop_bit 8 w)"

definition in_order :: "byte_order \<Rightarrow> bytes \<Rightarrow> bytes" where
  "in_order bo bs = (case bo of LittleEndian \<Rightarrow> bs | BigEndian \<Rightarrow> rev bs)"

definition dec_int :: "byte_order \<Rightarrow> bytes \<Rightarrow> 'a::len word" where
  "dec_int bo bs = le_dec (in_order bo bs)"

definition enc_int :: "byte_order \<Rightarrow> 'a::len word \<Rightarrow> bytes" where
  "enc_int bo w = in_order bo (le_enc (LENGTH('a) div 8) w)"

lemma length_le_enc [simp]: "length (le_enc n w) = n"
  by (induction n w rule: le_enc.induct) auto

lemma length_in_order [simp]: "length (in_order bo bs) = length bs"
  by (simp add: in_order_def split: byte_order.split)

lemma in_order_in_order [simp]: "in_order bo (in_order bo bs) = bs"
  by (simp add: in_order_def split: byte_order.split)

lemma length_enc_int [simp]: "length (enc_int bo (w :: 'a::len word)) = LENGTH('a) div 8"
  by (simp add: enc_int_def)

lemma bit_le_dec_le_enc:
  fixes w :: "'a::len word"
  shows "bit (le_dec (le_enc n w) :: 'a word) i \<longleftrightarrow> bit w i \<and> i < 8 * n"
proof (induction n arbitrary: w i)
  case 0
  show ?case by simp
next
  case (Suc n)
  show ?case
  proof (cases "i < 8")
    case True
    then show ?thesis
      by (auto simp: bit_or_iff bit_push_bit_iff bit_ucast_iff dest: bit_imp_le_length)
  next
    case False
    then obtain j where i: "i = 8 + j" by (metis le_add_diff_inverse not_less)
    have "\<not> bit (ucast (ucast w :: byte) :: 'a word) i"
      using False by (auto simp: bit_ucast_iff dest: bit_imp_le_length)
    then show ?thesis
      using Suc.IH [of "drop_bit 8 w" j]
      by (auto simp: i bit_or_iff bit_push_bit_iff bit_drop_bit_eq dest: bit_imp_le_length)
  qed
qed

lemma le_dec_le_enc:
  fixes w :: "'a::len word"
  assumes "LENGTH('a) \<le> 8 * n"
  shows "le_dec (le_enc n w) = w"
  by (rule bit_word_eqI) (use assms in \<open>simp add: bit_le_dec_le_enc\<close>)

lemma le_enc_take_bit:
  fixes w :: "'a::len word"
  assumes "8 * n \<le> m"
  shows "le_enc n (take_bit m w) = le_enc n w"
  using assms
proof (induction n arbitrary: m w)
  case 0
  show ?case by simp
next
  case (Suc n)
  have "(ucast (take_bit m w) :: byte) = ucast w"
    using Suc.prems by (intro bit_word_eqI) (auto simp: bit_ucast_iff bit_take_bit_iff)
  moreover have "drop_bit 8 (take_bit m w) = take_bit (m - 8) (drop_bit 8 w)"
    by (intro bit_word_eqI) (auto simp: bit_drop_bit_eq bit_take_bit_iff)
  ultimately show ?case using Suc.IH [of "m - 8" "drop_bit 8 w"] Suc.prems by simp
qed

lemma le_enc_le_dec:
  assumes "8 * length bs \<le> LENGTH('a::len)"
  shows "le_enc (length bs) (le_dec bs :: 'a word) = bs"
  using assms
proof (induction bs)
  case Nil
  show ?case by simp
next
  case (Cons b bs)
  have head: "ucast (ucast b OR push_bit 8 (le_dec bs) :: 'a word) = b"
    using Cons.prems
    by (intro bit_word_eqI) (auto simp: bit_ucast_iff bit_or_iff bit_push_bit_iff)
  have tail: "drop_bit 8 (ucast b OR push_bit 8 (le_dec bs) :: 'a word)
      = take_bit (LENGTH('a) - 8) (le_dec bs)"
    by (intro bit_word_eqI)
      (auto simp: bit_drop_bit_eq bit_or_iff bit_push_bit_iff bit_ucast_iff bit_take_bit_iff
        dest: bit_imp_le_length)
  show ?case using Cons head tail by (simp add: le_enc_take_bit)
qed

text \<open>The contract of a fixed-width codec, on which every reader and writer of a slice
  rests: what is decoded from what was encoded, and back.\<close>

locale fixed_codec =
  fixes enc :: "'v \<Rightarrow> bytes" and dec :: "bytes \<Rightarrow> 'v" and width :: nat
  assumes dec_enc: "dec (enc v) = v"
    and length_enc: "length (enc v) = width"
    and enc_dec: "length b = width \<Longrightarrow> enc (dec b) = b"
begin

lemma enc_inject: "enc v = enc w \<longleftrightarrow> v = w"
  by (metis dec_enc)

lemma dec_inject: "length a = width \<Longrightarrow> length b = width \<Longrightarrow> dec a = dec b \<longleftrightarrow> a = b"
  by (metis enc_dec)

end

lemma int_codec:
  assumes "8 dvd LENGTH('a::len)"
  shows "fixed_codec (enc_int bo :: 'a word \<Rightarrow> bytes) (dec_int bo) (LENGTH('a) div 8)"
proof
  fix v :: "'a word"
  show "dec_int bo (enc_int bo v) = v"
    using assms by (simp add: dec_int_def enc_int_def le_dec_le_enc)
  show "length (enc_int bo v) = LENGTH('a) div 8" by simp
next
  fix b :: bytes
  assume len: "length b = LENGTH('a) div 8"
  have "8 * length (in_order bo b) \<le> LENGTH('a)"
    using assms by (simp add: len)
  from le_enc_le_dec [OF this] show "enc_int bo (dec_int bo b :: 'a word) = b"
    by (simp add: dec_int_def enc_int_def len)
qed

interpretation c16: fixed_codec "enc_int bo :: u16 \<Rightarrow> bytes" "dec_int bo" 2 for bo
  using int_codec [where 'a = 16] by simp

interpretation c32: fixed_codec "enc_int bo :: u32 \<Rightarrow> bytes" "dec_int bo" 4 for bo
  using int_codec [where 'a = 32] by simp

interpretation c64: fixed_codec "enc_int bo :: u64 \<Rightarrow> bytes" "dec_int bo" 8 for bo
  using int_codec [where 'a = 64] by simp

section \<open>Slices\<close>

text \<open>\<open>slice off n b\<close> is Go's \<open>b[off:off+n]\<close> where it is in range; \<open>splice off bs b\<close> is
  \<open>b\<close> after \<open>copy(b[off:], bs)\<close> where that fits.\<close>

definition slice :: "nat \<Rightarrow> nat \<Rightarrow> bytes \<Rightarrow> bytes" where
  "slice off n b = take n (drop off b)"

definition splice :: "nat \<Rightarrow> bytes \<Rightarrow> bytes \<Rightarrow> bytes" where
  "splice off bs b = take off b @ bs @ drop (off + length bs) b"

definition subslice :: "nat \<Rightarrow> nat \<Rightarrow> bytes \<Rightarrow> bytes option" where
  "subslice i j b = (if i \<le> j \<and> j \<le> length b then Some (slice i (j - i) b) else None)"

definition put_bytes :: "nat \<Rightarrow> bytes \<Rightarrow> bytes \<Rightarrow> bytes option" where
  "put_bytes off bs b = (if off + length bs \<le> length b then Some (splice off bs b) else None)"

definition rd16 :: "byte_order \<Rightarrow> bytes \<Rightarrow> nat \<Rightarrow> u16" where
  "rd16 bo b off = dec_int bo (slice off 2 b)"

definition rd32 :: "byte_order \<Rightarrow> bytes \<Rightarrow> nat \<Rightarrow> u32" where
  "rd32 bo b off = dec_int bo (slice off 4 b)"

definition rd64 :: "byte_order \<Rightarrow> bytes \<Rightarrow> nat \<Rightarrow> u64" where
  "rd64 bo b off = dec_int bo (slice off 8 b)"

text \<open>\<open>order.Uint16(b[off:])\<close> and \<open>order.PutUint16(b[off:], v)\<close>, and so on: they panic
  unless the whole integer lies in the slice.\<close>

definition get16 :: "byte_order \<Rightarrow> bytes \<Rightarrow> nat \<Rightarrow> u16 option" where
  "get16 bo b off = (if off + 2 \<le> length b then Some (rd16 bo b off) else None)"

definition get32 :: "byte_order \<Rightarrow> bytes \<Rightarrow> nat \<Rightarrow> u32 option" where
  "get32 bo b off = (if off + 4 \<le> length b then Some (rd32 bo b off) else None)"

definition get64 :: "byte_order \<Rightarrow> bytes \<Rightarrow> nat \<Rightarrow> u64 option" where
  "get64 bo b off = (if off + 8 \<le> length b then Some (rd64 bo b off) else None)"

definition put16 :: "byte_order \<Rightarrow> nat \<Rightarrow> u16 \<Rightarrow> bytes \<Rightarrow> bytes option" where
  "put16 bo off v b = put_bytes off (enc_int bo v) b"

definition put32 :: "byte_order \<Rightarrow> nat \<Rightarrow> u32 \<Rightarrow> bytes \<Rightarrow> bytes option" where
  "put32 bo off v b = put_bytes off (enc_int bo v) b"

definition put64 :: "byte_order \<Rightarrow> nat \<Rightarrow> u64 \<Rightarrow> bytes \<Rightarrow> bytes option" where
  "put64 bo off v b = put_bytes off (enc_int bo v) b"

text \<open>\<open>copy(dst, src)\<close> on whole slices: it moves as many bytes as both hold.\<close>

definition go_copy :: "bytes \<Rightarrow> bytes \<Rightarrow> bytes" where
  "go_copy dst src = take (length dst) src @ drop (length src) dst"

lemma length_slice [simp]: "length (slice off n b) = min n (length b - off)"
  by (simp add: slice_def)

lemma length_splice [simp]: "off + length bs \<le> length b \<Longrightarrow> length (splice off bs b) = length b"
  by (simp add: splice_def)

lemma length_go_copy [simp]: "length (go_copy dst src) = length dst"
  by (simp add: go_copy_def)

lemma slice_splice_same [codec_rw]:
  "n = length bs \<Longrightarrow> off + n \<le> length b \<Longrightarrow> slice off n (splice off bs b) = bs"
  by (simp add: slice_def splice_def)

lemma slice_splice_other [codec_rw]:
  assumes "off' + n \<le> off \<or> off + length bs \<le> off'" and "off + length bs \<le> length b"
  shows "slice off' n (splice off bs b) = slice off' n b"
  using assms
proof (elim disjE)
  assume le: "off' + n \<le> off"
  have "take n (drop off' (take off b @ bs @ drop (off + length bs) b))
      = take n (drop off' (take off b))"
    using le assms(2) by simp
  also have "\<dots> = take n (drop off' b)"
    using le by (simp add: drop_take min_def)
  finally show ?thesis by (simp add: slice_def splice_def)
next
  assume "off + length bs \<le> off'"
  then obtain k where "off' = off + length bs + k" by (metis le_add_diff_inverse)
  then show ?thesis using assms(2) by (simp add: slice_def splice_def add.commute)
qed

lemma splice_0: "splice 0 bs b = bs @ drop (length bs) b"
  by (simp add: splice_def)

lemma splice_append: "length a \<le> off \<Longrightarrow> splice off bs (a @ b) = a @ splice (off - length a) bs b"
proof -
  assume "length a \<le> off"
  then obtain k where "off = length a + k" by (metis le_add_diff_inverse)
  then show ?thesis by (simp add: splice_def add.assoc)
qed

lemmas splice_rw = splice_0 splice_append

lemma slice_slice: "a + n \<le> m \<Longrightarrow> slice a n (slice off m b) = slice (off + a) n b"
  by (simp add: slice_def drop_take min_def add.commute)

lemma slice_append_left [codec_rw]: "off + n \<le> length a \<Longrightarrow> slice off n (a @ b) = slice off n a"
  by (simp add: slice_def)

lemma slice_append_right [codec_rw]:
  "length a \<le> off \<Longrightarrow> slice off n (a @ b) = slice (off - length a) n b"
  by (simp add: slice_def)

lemma slice_take [simp]: "off + n \<le> m \<Longrightarrow> slice off n (take m b) = slice off n b"
  by (simp add: slice_def drop_take min_def)

lemma slice_whole [simp]: "length b \<le> n \<Longrightarrow> slice 0 n b = b"
  by (simp add: slice_def)

lemmas int_defs = rd16_def rd32_def rd64_def c16.dec_enc c32.dec_enc c64.dec_enc

lemma get_in_range [no_panic]:
  "off + 2 \<le> length b \<Longrightarrow> get16 bo b off = Some (rd16 bo b off)"
  "off + 4 \<le> length b \<Longrightarrow> get32 bo b off = Some (rd32 bo b off)"
  "off + 8 \<le> length b \<Longrightarrow> get64 bo b off = Some (rd64 bo b off)"
  by (simp_all add: get16_def get32_def get64_def)

lemma put_in_range [no_panic]:
  "off + 2 \<le> length b \<Longrightarrow> put16 bo off v b = Some (splice off (enc_int bo v) b)"
  "off + 4 \<le> length b \<Longrightarrow> put32 bo off w b = Some (splice off (enc_int bo w) b)"
  "off + 8 \<le> length b \<Longrightarrow> put64 bo off x b = Some (splice off (enc_int bo x) b)"
  "off + length bs \<le> length b \<Longrightarrow> put_bytes off bs b = Some (splice off bs b)"
  by (simp_all add: put16_def put32_def put64_def put_bytes_def)

lemma subslice_in_range [no_panic]:
  "i \<le> j \<Longrightarrow> j \<le> length b \<Longrightarrow> subslice i j b = Some (slice i (j - i) b)"
  by (simp add: subslice_def)

lemma rd_splice_same [codec_rw]:
  "off + 2 \<le> length b \<Longrightarrow> rd16 bo (splice off (enc_int bo v) b) off = v"
  "off + 4 \<le> length b \<Longrightarrow> rd32 bo (splice off (enc_int bo w) b) off = w"
  "off + 8 \<le> length b \<Longrightarrow> rd64 bo (splice off (enc_int bo x) b) off = x"
  by (simp_all add: int_defs codec_rw)

lemma rd_splice_other [codec_rw]:
  "off' + 2 \<le> off \<or> off + length bs \<le> off' \<Longrightarrow> off + length bs \<le> length b \<Longrightarrow>
     rd16 bo (splice off bs b) off' = rd16 bo b off'"
  "off' + 4 \<le> off \<or> off + length bs \<le> off' \<Longrightarrow> off + length bs \<le> length b \<Longrightarrow>
     rd32 bo (splice off bs b) off' = rd32 bo b off'"
  "off' + 8 \<le> off \<or> off + length bs \<le> off' \<Longrightarrow> off + length bs \<le> length b \<Longrightarrow>
     rd64 bo (splice off bs b) off' = rd64 bo b off'"
  by (simp_all add: rd16_def rd32_def rd64_def codec_rw)

lemma rd_take [simp]:
  "off + 2 \<le> n \<Longrightarrow> rd16 bo (take n b) off = rd16 bo b off"
  "off + 4 \<le> n \<Longrightarrow> rd32 bo (take n b) off = rd32 bo b off"
  "off + 8 \<le> n \<Longrightarrow> rd64 bo (take n b) off = rd64 bo b off"
  by (simp_all add: rd16_def rd32_def rd64_def)

lemma rd_slice [codec_rw]:
  "off' + 2 \<le> n \<Longrightarrow> rd16 bo (slice off n b) off' = rd16 bo b (off + off')"
  "off' + 4 \<le> n \<Longrightarrow> rd32 bo (slice off n b) off' = rd32 bo b (off + off')"
  "off' + 8 \<le> n \<Longrightarrow> rd64 bo (slice off n b) off' = rd64 bo b (off + off')"
  by (simp_all add: rd16_def rd32_def rd64_def slice_slice)

lemma rd_append_right [codec_rw]:
  "length a \<le> off \<Longrightarrow> rd16 bo (a @ b) off = rd16 bo b (off - length a)"
  "length a \<le> off \<Longrightarrow> rd32 bo (a @ b) off = rd32 bo b (off - length a)"
  "length a \<le> off \<Longrightarrow> rd64 bo (a @ b) off = rd64 bo b (off - length a)"
  by (simp_all add: rd16_def rd32_def rd64_def slice_append_right)

lemma rd_append_left:
  "off + 2 \<le> length a \<Longrightarrow> rd16 bo (a @ b) off = rd16 bo a off"
  "off + 4 \<le> length a \<Longrightarrow> rd32 bo (a @ b) off = rd32 bo a off"
  "off + 8 \<le> length a \<Longrightarrow> rd64 bo (a @ b) off = rd64 bo a off"
  by (simp_all add: rd16_def rd32_def rd64_def slice_append_left)

lemma rd_here [codec_rw]:
  "rd16 bo (enc_int bo v @ b) 0 = v" "rd16 bo (enc_int bo v) 0 = v"
  "rd32 bo (enc_int bo w @ b) 0 = w" "rd32 bo (enc_int bo w) 0 = w"
  "rd64 bo (enc_int bo x @ b) 0 = x" "rd64 bo (enc_int bo x) 0 = x"
  by (simp_all add: int_defs slice_append_left)

lemma those_map_Some [simp]: "those (List.map (\<lambda>x. Some (f x)) xs) = Some (List.map f xs)"
  by (induction xs) simp_all

lemma those_map_cong: "(\<And>x. x \<in> set xs \<Longrightarrow> g x = Some (f x)) \<Longrightarrow> those (List.map g xs) = Some (List.map f xs)"
  by (induction xs) simp_all

text \<open>A guarded monadic step that cannot panic is its continuation.\<close>

lemma bind_Some_conv [simp]: "Option.bind (Some x) f = f x"
  by simp

section \<open>Bits\<close>

text \<open>Go's \<open>x &^ m\<close> and the flag test \<open>x&m != 0\<close>.\<close>

definition and_not :: "'a::len word \<Rightarrow> 'a word \<Rightarrow> 'a word" where
  "and_not x m = x AND NOT m"

definition has_flag :: "'a::len word \<Rightarrow> 'a word \<Rightarrow> bool" where
  "has_flag x m \<longleftrightarrow> x AND m \<noteq> 0"

lemma and_not_zero_iff: "and_not x m = 0 \<longleftrightarrow> x AND m = x"
proof -
  have "and_not x m = 0 \<longleftrightarrow> (\<forall>i. bit x i \<longrightarrow> bit m i)"
    by (auto simp: and_not_def bit_eq_iff bit_and_iff bit_not_iff dest: bit_imp_le_length)
  moreover have "x AND m = x \<longleftrightarrow> (\<forall>i. bit x i \<longrightarrow> bit m i)"
    by (auto simp: bit_eq_iff bit_and_iff dest: bit_imp_le_length)
  ultimately show ?thesis by simp
qed

lemma has_flag_zero [simp]: "\<not> has_flag 0 m" "\<not> has_flag x 0"
  by (simp_all add: has_flag_def)

text \<open>\<open>(n + a - 1) &^ (a - 1)\<close>, the round-up of the ABI formulas on Go's \<open>int\<close>; for a
  power of two \<open>a\<close> it is the next multiple of \<open>a\<close>.\<close>

definition align_up :: "nat \<Rightarrow> nat \<Rightarrow> nat" where
  "align_up n a = nat ((int n + int a - 1) AND NOT (int a - 1))"

lemma and_not_mask_int: "x AND NOT (2 ^ k - 1 :: int) = x div 2 ^ k * 2 ^ k"
proof -
  have "x AND NOT (mask k) = push_bit k (drop_bit k x)"
    by (rule bit_eqI) (auto simp: bit_and_iff bit_not_iff bit_mask_iff bit_push_bit_iff bit_drop_bit_eq)
  then show ?thesis by (simp add: mask_eq_exp_minus_1 push_bit_eq_mult drop_bit_eq_div)
qed

lemma align_up_eq: "align_up n (2 ^ k) = (n + 2 ^ k - 1) div 2 ^ k * 2 ^ k"
proof -
  define m where "m = n + 2 ^ k - 1"
  have "(1::nat) \<le> 2 ^ k" by simp
  then have m: "int n + int (2 ^ k) - 1 = int m" unfolding m_def by linarith
  have "align_up n (2 ^ k) = nat (int m AND NOT (int (2 ^ k) - 1))"
    by (simp only: align_up_def m)
  also have "\<dots> = nat (int m div 2 ^ k * 2 ^ k)"
    by (simp add: and_not_mask_int)
  also have "int m div 2 ^ k * 2 ^ k = int (m div 2 ^ k * 2 ^ k)"
    by (simp add: of_nat_div)
  finally show ?thesis by (simp only: nat_int m_def)
qed

lemma align_up_48 [simp]:
  "align_up n 4 = (n + 3) div 4 * 4" "align_up n 8 = (n + 7) div 8 * 8"
  using align_up_eq [of n 2] align_up_eq [of n 3] by simp_all

end
