(* ===== verification/Enums.thy ===== *)
theory Enums
  imports GoPrelude
begin

unbundle bit_operations_syntax

text \<open>
  The enumerations of \<open>enums.go\<close>: each Go integer type is a word of its width, each named
  value a constant, each name table an association list in the source's order, and each
  \<open>String\<close> method the lookup with the source's fallback (the type's name and the decimal
  number, or, for the bit sets, the names joined with a bar and the rest in hexadecimal).
  \<open>named_enum\<close> is the contract of such a table; it is interpreted on every one of them.
\<close>

section \<open>Numbers as text\<close>

text \<open>\<open>%d\<close> and \<open>%x\<close> of a non-negative number.\<close>

definition digit_char :: "nat \<Rightarrow> char" where
  "digit_char d = (if d < 10 then char_of (48 + d) else char_of (87 + d))"

fun show_base :: "nat \<Rightarrow> nat \<Rightarrow> string" where
  "show_base b n = (if b \<le> 1 \<or> n < b then [digit_char n] else show_base b (n div b) @ [digit_char (n mod b)])"

declare show_base.simps [simp del]

definition showUnsigned :: "'a::len word \<Rightarrow> string" where
  "showUnsigned w = show_base 10 (unat w)"

definition showSigned :: "'a::len word \<Rightarrow> string" where
  "showSigned w = (if sint w < 0 then CHR ''-'' # show_base 10 (nat (- sint w)) else show_base 10 (nat (sint w)))"

definition enumString :: "('a::len word \<times> string) list \<Rightarrow> ('a word \<Rightarrow> string) \<Rightarrow> string \<Rightarrow> 'a word \<Rightarrow> string" where
  "enumString names shw ty v =
     (case map_of names v of Some name \<Rightarrow> name | None \<Rightarrow> ty @ ''('' @ shw v @ '')'')"

text \<open>\<open>joinBits\<close>: the loop over the named bits, with the names written so far and the bits
  still unreported.\<close>

definition barJoin :: "string \<Rightarrow> string \<Rightarrow> string" where
  "barJoin b name = (if b = [] then name else b @ ''|'' @ name)"

fun joinBits_loop :: "('a::len word \<times> string) list \<Rightarrow> string \<Rightarrow> 'a word \<Rightarrow> string \<times> 'a word" where
  "joinBits_loop [] b rem = (b, rem)"
| "joinBits_loop ((bt, name) # names) b rem =
     (if bt \<noteq> 0 \<and> rem AND bt = bt then joinBits_loop names (barJoin b name) (and_not rem bt)
      else joinBits_loop names b rem)"

definition joinBits :: "'a::len word \<Rightarrow> ('a word \<times> string) list \<Rightarrow> string" where
  "joinBits v names =
     (let (b, rem) = joinBits_loop names [] v
      in if rem \<noteq> 0 \<or> b = [] then barJoin b (''0x'' @ show_base 16 (unat rem)) else b)"

section \<open>The enumerations\<close>

subsection \<open>AssocID\<close>

type_synonym AssocID = u32

subsection \<open>AssocState\<close>

type_synonym AssocState = u32

definition StateEmpty :: AssocState where [simp]: "StateEmpty = 0"

definition StateClosed :: AssocState where [simp]: "StateClosed = 1"

definition StateCookieWait :: AssocState where [simp]: "StateCookieWait = 2"

definition StateCookieEchoed :: AssocState where [simp]: "StateCookieEchoed = 3"

definition StateEstablished :: AssocState where [simp]: "StateEstablished = 4"

definition StateShutdownPending :: AssocState where [simp]: "StateShutdownPending = 5"

definition StateShutdownSent :: AssocState where [simp]: "StateShutdownSent = 6"

definition StateShutdownReceived :: AssocState where [simp]: "StateShutdownReceived = 7"

definition StateShutdownAckSent :: AssocState where [simp]: "StateShutdownAckSent = 8"

definition assocStateNames :: "(AssocState \<times> string) list" where
  "assocStateNames =
    [(StateEmpty, ''StateEmpty''),
     (StateClosed, ''StateClosed''),
     (StateCookieWait, ''StateCookieWait''),
     (StateCookieEchoed, ''StateCookieEchoed''),
     (StateEstablished, ''StateEstablished''),
     (StateShutdownPending, ''StateShutdownPending''),
     (StateShutdownSent, ''StateShutdownSent''),
     (StateShutdownReceived, ''StateShutdownReceived''),
     (StateShutdownAckSent, ''StateShutdownAckSent'')]"

definition AssocState_String :: "AssocState \<Rightarrow> string" where
  "AssocState_String v = enumString assocStateNames showSigned ''AssocState'' v"

subsection \<open>PathState\<close>

type_synonym PathState = u32

definition PathInactive :: PathState where [simp]: "PathInactive = 0"

definition PathPotentiallyFailed :: PathState where [simp]: "PathPotentiallyFailed = 1"

definition PathActive :: PathState where [simp]: "PathActive = 2"

definition PathUnconfirmed :: PathState where [simp]: "PathUnconfirmed = 3"

definition PathUnknown :: PathState where [simp]: "PathUnknown = 65535"

definition pathStateNames :: "(PathState \<times> string) list" where
  "pathStateNames =
    [(PathInactive, ''PathInactive''),
     (PathPotentiallyFailed, ''PathPotentiallyFailed''),
     (PathActive, ''PathActive''),
     (PathUnconfirmed, ''PathUnconfirmed''),
     (PathUnknown, ''PathUnknown'')]"

definition PathState_String :: "PathState \<Rightarrow> string" where
  "PathState_String v = enumString pathStateNames showSigned ''PathState'' v"

subsection \<open>PRPolicy\<close>

type_synonym PRPolicy = u16

definition PRNone :: PRPolicy where [simp]: "PRNone = 0"

definition PRTTL :: PRPolicy where [simp]: "PRTTL = 16"

definition PRRtx :: PRPolicy where [simp]: "PRRtx = 32"

definition PRPrio :: PRPolicy where [simp]: "PRPrio = 48"

definition PRAll :: PRPolicy where [simp]: "PRAll = 128"

definition prPolicyNames :: "(PRPolicy \<times> string) list" where
  "prPolicyNames =
    [(PRNone, ''PRNone''),
     (PRTTL, ''PRTTL''),
     (PRRtx, ''PRRtx''),
     (PRPrio, ''PRPrio''),
     (PRAll, ''PRAll'')]"

definition PRPolicy_String :: "PRPolicy \<Rightarrow> string" where
  "PRPolicy_String v = enumString prPolicyNames showUnsigned ''PRPolicy'' v"

subsection \<open>Scheduler\<close>

type_synonym Scheduler = u32

definition SchedFCFS :: Scheduler where [simp]: "SchedFCFS = 0"

definition SchedPrio :: Scheduler where [simp]: "SchedPrio = 1"

definition SchedRR :: Scheduler where [simp]: "SchedRR = 2"

definition SchedFC :: Scheduler where [simp]: "SchedFC = 3"

definition SchedWFQ :: Scheduler where [simp]: "SchedWFQ = 4"

definition schedulerNames :: "(Scheduler \<times> string) list" where
  "schedulerNames =
    [(SchedFCFS, ''SchedFCFS''),
     (SchedPrio, ''SchedPrio''),
     (SchedRR, ''SchedRR''),
     (SchedFC, ''SchedFC''),
     (SchedWFQ, ''SchedWFQ'')]"

definition Scheduler_String :: "Scheduler \<Rightarrow> string" where
  "Scheduler_String v = enumString schedulerNames showUnsigned ''Scheduler'' v"

subsection \<open>FragmentInterleave\<close>

type_synonym FragmentInterleave = u32

definition InterleaveNone :: FragmentInterleave where [simp]: "InterleaveNone = 0"

definition InterleaveAssocs :: FragmentInterleave where [simp]: "InterleaveAssocs = 1"

definition InterleaveStreams :: FragmentInterleave where [simp]: "InterleaveStreams = 2"

definition fragmentInterleaveNames :: "(FragmentInterleave \<times> string) list" where
  "fragmentInterleaveNames =
    [(InterleaveNone, ''InterleaveNone''),
     (InterleaveAssocs, ''InterleaveAssocs''),
     (InterleaveStreams, ''InterleaveStreams'')]"

definition FragmentInterleave_String :: "FragmentInterleave \<Rightarrow> string" where
  "FragmentInterleave_String v = enumString fragmentInterleaveNames showSigned ''FragmentInterleave'' v"

subsection \<open>PFExposure\<close>

type_synonym PFExposure = u32

definition PFExposeUnset :: PFExposure where [simp]: "PFExposeUnset = 0"

definition PFExposeDisabled :: PFExposure where [simp]: "PFExposeDisabled = 1"

definition PFExposeEnabled :: PFExposure where [simp]: "PFExposeEnabled = 2"

definition pfExposureNames :: "(PFExposure \<times> string) list" where
  "pfExposureNames =
    [(PFExposeUnset, ''PFExposeUnset''),
     (PFExposeDisabled, ''PFExposeDisabled''),
     (PFExposeEnabled, ''PFExposeEnabled'')]"

definition PFExposure_String :: "PFExposure \<Rightarrow> string" where
  "PFExposure_String v = enumString pfExposureNames showUnsigned ''PFExposure'' v"

subsection \<open>StreamResetMask\<close>

type_synonym StreamResetMask = u32

definition EnableResetStreamReq :: StreamResetMask where [simp]: "EnableResetStreamReq = 1"

definition EnableResetAssocReq :: StreamResetMask where [simp]: "EnableResetAssocReq = 2"

definition EnableChangeAssocReq :: StreamResetMask where [simp]: "EnableChangeAssocReq = 4"

definition streamResetMaskBits :: "(StreamResetMask \<times> string) list" where
  "streamResetMaskBits = [(EnableResetStreamReq, ''EnableResetStreamReq''), (EnableResetAssocReq, ''EnableResetAssocReq''), (EnableChangeAssocReq, ''EnableChangeAssocReq'')]"

definition StreamResetMask_String :: "StreamResetMask \<Rightarrow> string" where
  "StreamResetMask_String v = joinBits v streamResetMaskBits"

subsection \<open>ResetDirection\<close>

type_synonym ResetDirection = u16

definition ResetIncoming :: ResetDirection where [simp]: "ResetIncoming = 1"

definition ResetOutgoing :: ResetDirection where [simp]: "ResetOutgoing = 2"

definition resetDirectionBits :: "(ResetDirection \<times> string) list" where
  "resetDirectionBits = [(ResetIncoming, ''ResetIncoming''), (ResetOutgoing, ''ResetOutgoing'')]"

definition ResetDirection_String :: "ResetDirection \<Rightarrow> string" where
  "ResetDirection_String v = joinBits v resetDirectionBits"

subsection \<open>HMACID\<close>

type_synonym HMACID = u16

definition HMACSHA1 :: HMACID where [simp]: "HMACSHA1 = 1"

definition HMACSHA256 :: HMACID where [simp]: "HMACSHA256 = 3"

definition hmacidNames :: "(HMACID \<times> string) list" where
  "hmacidNames =
    [(HMACSHA1, ''HMACSHA1''),
     (HMACSHA256, ''HMACSHA256'')]"

definition HMACID_String :: "HMACID \<Rightarrow> string" where
  "HMACID_String v = enumString hmacidNames showUnsigned ''HMACID'' v"

subsection \<open>ErrorCause\<close>

type_synonym ErrorCause = u16

definition CauseNone :: ErrorCause where [simp]: "CauseNone = 0"

definition CauseInvalidStream :: ErrorCause where [simp]: "CauseInvalidStream = 1"

definition CauseMissingParam :: ErrorCause where [simp]: "CauseMissingParam = 2"

definition CauseStaleCookie :: ErrorCause where [simp]: "CauseStaleCookie = 3"

definition CauseOutOfResource :: ErrorCause where [simp]: "CauseOutOfResource = 4"

definition CauseUnresolvableAddr :: ErrorCause where [simp]: "CauseUnresolvableAddr = 5"

definition CauseUnrecognizedChunk :: ErrorCause where [simp]: "CauseUnrecognizedChunk = 6"

definition CauseInvalidParam :: ErrorCause where [simp]: "CauseInvalidParam = 7"

definition CauseUnrecognizedParams :: ErrorCause where [simp]: "CauseUnrecognizedParams = 8"

definition CauseNoUserData :: ErrorCause where [simp]: "CauseNoUserData = 9"

definition CauseCookieInShutdown :: ErrorCause where [simp]: "CauseCookieInShutdown = 10"

definition CauseRestartNewAddrs :: ErrorCause where [simp]: "CauseRestartNewAddrs = 11"

definition CauseUserAbort :: ErrorCause where [simp]: "CauseUserAbort = 12"

definition CauseProtocolViolation :: ErrorCause where [simp]: "CauseProtocolViolation = 13"

definition CauseRestartNewEncapPort :: ErrorCause where [simp]: "CauseRestartNewEncapPort = 14"

definition CauseDeleteLastAddr :: ErrorCause where [simp]: "CauseDeleteLastAddr = 160"

definition CauseResourceShortage :: ErrorCause where [simp]: "CauseResourceShortage = 161"

definition CauseDeleteSourceAddr :: ErrorCause where [simp]: "CauseDeleteSourceAddr = 162"

definition CauseIllegalASCONFAck :: ErrorCause where [simp]: "CauseIllegalASCONFAck = 163"

definition CauseRequestRefused :: ErrorCause where [simp]: "CauseRequestRefused = 164"

definition CauseUnsupportedHMAC :: ErrorCause where [simp]: "CauseUnsupportedHMAC = 261"

definition errorCauseIANANames :: "(ErrorCause \<times> string) list" where
  "errorCauseIANANames =
    [(CauseNone, ''No Error''),
     (CauseInvalidStream, ''Invalid Stream Identifier''),
     (CauseMissingParam, ''Missing Mandatory Parameter''),
     (CauseStaleCookie, ''Stale Cookie''),
     (CauseOutOfResource, ''Out of Resource''),
     (CauseUnresolvableAddr, ''Unresolvable Address''),
     (CauseUnrecognizedChunk, ''Unrecognized Chunk Type''),
     (CauseInvalidParam, ''Invalid Mandatory Parameter''),
     (CauseUnrecognizedParams, ''Unrecognized Parameters''),
     (CauseNoUserData, ''No User Data''),
     (CauseCookieInShutdown, ''Cookie Received While Shutting Down''),
     (CauseRestartNewAddrs, ''Restart of an Association with New Addresses''),
     (CauseUserAbort, ''User-Initiated Abort''),
     (CauseProtocolViolation, ''Protocol Violation''),
     (CauseRestartNewEncapPort, ''Restart of an Association with New Encapsulation Port''),
     (CauseDeleteLastAddr, ''Request to Delete Last Remaining IP Address''),
     (CauseResourceShortage, ''Operation Refused Due to Resource Shortage''),
     (CauseDeleteSourceAddr, ''Request to Delete Source IP Address''),
     (CauseIllegalASCONFAck, ''Association Aborted due to illegal ASCONF-ACK''),
     (CauseRequestRefused, ''Request refused - no authorization''),
     (CauseUnsupportedHMAC, ''Unsupported HMAC Identifier'')]"

definition ErrorCause_String :: "ErrorCause \<Rightarrow> string" where
  "ErrorCause_String v = enumString errorCauseIANANames showUnsigned ''ErrorCause'' v"

subsection \<open>AbandonPolicy\<close>

type_synonym AbandonPolicy = byte

definition AbandonAbort :: AbandonPolicy where [simp]: "AbandonAbort = 0"

definition AbandonQuiet :: AbandonPolicy where [simp]: "AbandonQuiet = 1"

definition abandonPolicyNames :: "(AbandonPolicy \<times> string) list" where
  "abandonPolicyNames =
    [(AbandonAbort, ''AbandonAbort''),
     (AbandonQuiet, ''AbandonQuiet'')]"

definition AbandonPolicy_String :: "AbandonPolicy \<Rightarrow> string" where
  "AbandonPolicy_String v = enumString abandonPolicyNames showUnsigned ''AbandonPolicy'' v"

subsection \<open>SendFlags\<close>

type_synonym SendFlags = u16

definition SendUnordered :: SendFlags where [simp]: "SendUnordered = 1"

definition SendSACKImmediately :: SendFlags where [simp]: "SendSACKImmediately = 8"

definition sendFlagsBits :: "(SendFlags \<times> string) list" where
  "sendFlagsBits = [(SendUnordered, ''SendUnordered''), (SendSACKImmediately, ''SendSACKImmediately'')]"

definition SendFlags_String :: "SendFlags \<Rightarrow> string" where
  "SendFlags_String v = joinBits v sendFlagsBits"

subsection \<open>EventType\<close>

type_synonym EventType = u16

definition EventAssocChange :: EventType where [simp]: "EventAssocChange = 32769"

definition EventPeerAddrChange :: EventType where [simp]: "EventPeerAddrChange = 32770"

definition EventRemoteError :: EventType where [simp]: "EventRemoteError = 32772"

definition EventShutdown :: EventType where [simp]: "EventShutdown = 32773"

definition EventPartialDelivery :: EventType where [simp]: "EventPartialDelivery = 32774"

definition EventAdaptationIndication :: EventType where [simp]: "EventAdaptationIndication = 32775"

definition EventAuthentication :: EventType where [simp]: "EventAuthentication = 32776"

definition EventSenderDry :: EventType where [simp]: "EventSenderDry = 32777"

definition EventStreamReset :: EventType where [simp]: "EventStreamReset = 32778"

definition EventAssocReset :: EventType where [simp]: "EventAssocReset = 32779"

definition EventStreamChange :: EventType where [simp]: "EventStreamChange = 32780"

definition EventSendFailed :: EventType where [simp]: "EventSendFailed = 32781"

definition eventTypeNames :: "(EventType \<times> string) list" where
  "eventTypeNames =
    [(EventAssocChange, ''EventAssocChange''),
     (EventPeerAddrChange, ''EventPeerAddrChange''),
     (EventRemoteError, ''EventRemoteError''),
     (EventShutdown, ''EventShutdown''),
     (EventPartialDelivery, ''EventPartialDelivery''),
     (EventAdaptationIndication, ''EventAdaptationIndication''),
     (EventAuthentication, ''EventAuthentication''),
     (EventSenderDry, ''EventSenderDry''),
     (EventStreamReset, ''EventStreamReset''),
     (EventAssocReset, ''EventAssocReset''),
     (EventStreamChange, ''EventStreamChange''),
     (EventSendFailed, ''EventSendFailed'')]"

definition EventType_String :: "EventType \<Rightarrow> string" where
  "EventType_String v = enumString eventTypeNames showUnsigned ''EventType'' v"

subsection \<open>AssocChangeState\<close>

type_synonym AssocChangeState = u16

definition AssocCommUp :: AssocChangeState where [simp]: "AssocCommUp = 0"

definition AssocCommLost :: AssocChangeState where [simp]: "AssocCommLost = 1"

definition AssocRestart :: AssocChangeState where [simp]: "AssocRestart = 2"

definition AssocShutdownComplete :: AssocChangeState where [simp]: "AssocShutdownComplete = 3"

definition AssocCantStart :: AssocChangeState where [simp]: "AssocCantStart = 4"

definition assocChangeStateNames :: "(AssocChangeState \<times> string) list" where
  "assocChangeStateNames =
    [(AssocCommUp, ''AssocCommUp''),
     (AssocCommLost, ''AssocCommLost''),
     (AssocRestart, ''AssocRestart''),
     (AssocShutdownComplete, ''AssocShutdownComplete''),
     (AssocCantStart, ''AssocCantStart'')]"

definition AssocChangeState_String :: "AssocChangeState \<Rightarrow> string" where
  "AssocChangeState_String v = enumString assocChangeStateNames showUnsigned ''AssocChangeState'' v"

subsection \<open>AddrChangeState\<close>

type_synonym AddrChangeState = u32

definition AddrAvailable :: AddrChangeState where [simp]: "AddrAvailable = 0"

definition AddrUnreachable :: AddrChangeState where [simp]: "AddrUnreachable = 1"

definition AddrRemoved :: AddrChangeState where [simp]: "AddrRemoved = 2"

definition AddrAdded :: AddrChangeState where [simp]: "AddrAdded = 3"

definition AddrMadePrimary :: AddrChangeState where [simp]: "AddrMadePrimary = 4"

definition AddrConfirmed :: AddrChangeState where [simp]: "AddrConfirmed = 5"

definition AddrPotentiallyFailed :: AddrChangeState where [simp]: "AddrPotentiallyFailed = 6"

definition addrChangeStateNames :: "(AddrChangeState \<times> string) list" where
  "addrChangeStateNames =
    [(AddrAvailable, ''AddrAvailable''),
     (AddrUnreachable, ''AddrUnreachable''),
     (AddrRemoved, ''AddrRemoved''),
     (AddrAdded, ''AddrAdded''),
     (AddrMadePrimary, ''AddrMadePrimary''),
     (AddrConfirmed, ''AddrConfirmed''),
     (AddrPotentiallyFailed, ''AddrPotentiallyFailed'')]"

definition AddrChangeState_String :: "AddrChangeState \<Rightarrow> string" where
  "AddrChangeState_String v = enumString addrChangeStateNames showSigned ''AddrChangeState'' v"

subsection \<open>AuthIndication\<close>

type_synonym AuthIndication = u32

definition AuthNewKey :: AuthIndication where [simp]: "AuthNewKey = 0"

definition AuthFreeKey :: AuthIndication where [simp]: "AuthFreeKey = 1"

definition AuthNoAuth :: AuthIndication where [simp]: "AuthNoAuth = 2"

definition authIndicationNames :: "(AuthIndication \<times> string) list" where
  "authIndicationNames =
    [(AuthNewKey, ''AuthNewKey''),
     (AuthFreeKey, ''AuthFreeKey''),
     (AuthNoAuth, ''AuthNoAuth'')]"

definition AuthIndication_String :: "AuthIndication \<Rightarrow> string" where
  "AuthIndication_String v = enumString authIndicationNames showUnsigned ''AuthIndication'' v"

subsection \<open>AddrChangeReason\<close>

type_synonym AddrChangeReason = u32

definition ReasonNone :: AddrChangeReason where [simp]: "ReasonNone = 0"

definition ReasonFailedThreshold :: AddrChangeReason where [simp]: "ReasonFailedThreshold = 1"

definition ReasonReceivedSACK :: AddrChangeReason where [simp]: "ReasonReceivedSACK = 2"

definition ReasonHeartbeatSuccess :: AddrChangeReason where [simp]: "ReasonHeartbeatSuccess = 3"

definition ReasonResponseToUserReq :: AddrChangeReason where [simp]: "ReasonResponseToUserReq = 4"

definition ReasonInternalError :: AddrChangeReason where [simp]: "ReasonInternalError = 5"

definition ReasonShutdownGuardExpires :: AddrChangeReason where [simp]: "ReasonShutdownGuardExpires = 6"

definition ReasonPeerFaulty :: AddrChangeReason where [simp]: "ReasonPeerFaulty = 7"

definition addrChangeReasonNames :: "(AddrChangeReason \<times> string) list" where
  "addrChangeReasonNames =
    [(ReasonNone, ''ReasonNone''),
     (ReasonFailedThreshold, ''ReasonFailedThreshold''),
     (ReasonReceivedSACK, ''ReasonReceivedSACK''),
     (ReasonHeartbeatSuccess, ''ReasonHeartbeatSuccess''),
     (ReasonResponseToUserReq, ''ReasonResponseToUserReq''),
     (ReasonInternalError, ''ReasonInternalError''),
     (ReasonShutdownGuardExpires, ''ReasonShutdownGuardExpires''),
     (ReasonPeerFaulty, ''ReasonPeerFaulty'')]"

definition AddrChangeReason_String :: "AddrChangeReason \<Rightarrow> string" where
  "AddrChangeReason_String v = enumString addrChangeReasonNames showSigned ''AddrChangeReason'' v"

section \<open>The contract of a name table\<close>

lemma digit_char_inj:
  assumes "c < 16" "d < 16" "digit_char c = digit_char d"
  shows "c = d"
proof -
  have "(of_char (digit_char c) :: nat) = of_char (digit_char d)" using assms(3) by simp
  moreover have "(of_char (digit_char x) :: nat) = (if x < 10 then 48 + x else 87 + x)" if "x < 16" for x
    using that by (simp add: digit_char_def)
  ultimately show ?thesis using assms(1,2) by (simp split: if_splits)
qed

lemma show_base_ne [simp]: "show_base b n \<noteq> []"
  by (subst show_base.simps) simp

lemma show_base_inj:
  assumes "2 \<le> b" "b \<le> 16"
  shows "show_base b n = show_base b m \<Longrightarrow> n = m"
  using assms
proof (induction b n arbitrary: m rule: show_base.induct)
  case (1 b n)
  show ?case
  proof (cases "n < b \<or> m < b")
    case True
    have len: "length (show_base b k) = 1 \<longleftrightarrow> k < b" for k
      using "1.prems"(2) by (subst show_base.simps) simp
    from True len [of n] len [of m] "1.prems"(1) have "n < b" "m < b" by auto
    with "1.prems" show ?thesis
      by (auto simp: show_base.simps [of b n] show_base.simps [of b m] dest: digit_char_inj [rotated 2])
  next
    case False
    with "1.prems" have eq: "show_base b (n div b) @ [digit_char (n mod b)] =
        show_base b (m div b) @ [digit_char (m mod b)]"
      by (simp add: show_base.simps [of b n] show_base.simps [of b m])
    then have q: "show_base b (n div b) = show_base b (m div b)"
      and r: "digit_char (n mod b) = digit_char (m mod b)" by simp_all
    have "n div b = m div b"
      using "1.IH" [OF _ q] False "1.prems"(2,3) by simp
    moreover have "n mod b = m mod b"
    proof -
      have "n mod b < b" "m mod b < b" using "1.prems"(2) by simp_all
      then have "n mod b < 16" "m mod b < 16" using "1.prems"(3) by linarith+
      then show ?thesis using r by (rule digit_char_inj)
    qed
    ultimately show ?thesis by (metis div_mult_mod_eq)
  qed
qed

lemma showUnsigned_inj: "showUnsigned v = showUnsigned w \<Longrightarrow> v = w"
  unfolding showUnsigned_def by (drule show_base_inj [rotated 2]) (simp_all add: word_unat_eq_iff)

lemma digit_char_not_minus: "d < 16 \<Longrightarrow> digit_char d \<noteq> CHR ''-''"
proof
  assume "d < 16" and eq: "digit_char d = CHR ''-''"
  then have "(of_char (digit_char d) :: nat) = 45" by simp
  moreover have "(of_char (digit_char d) :: nat) = (if d < 10 then 48 + d else 87 + d)"
    using \<open>d < 16\<close> by (simp add: digit_char_def)
  ultimately show False by (simp split: if_splits)
qed

lemma show_base_no_minus: "2 \<le> b \<Longrightarrow> b \<le> 16 \<Longrightarrow> hd (show_base b n) \<noteq> CHR ''-''"
  by (induction b n rule: show_base.induct) (subst show_base.simps, auto simp: digit_char_not_minus hd_append)

lemma showSigned_inj:
  assumes eq: "showSigned v = showSigned w"
  shows "v = w"
proof -
  have no: "show_base 10 n \<noteq> CHR ''-'' # cs" for n cs
    using show_base_no_minus [of 10 n] by (auto simp del: show_base_ne)
  have "sint v = sint w"
    using eq no no [symmetric] show_base_inj [of 10 "nat (- sint v)" "nat (- sint w)"]
      show_base_inj [of 10 "nat (sint v)" "nat (sint w)"]
    by (auto simp: showSigned_def split: if_splits)
  then show ?thesis by (simp add: signed_word_eqI)
qed

text \<open>A name table whose names are distinct and free of parentheses, over an injective
  rendering of numbers, gives an injective \<open>String\<close>: no two values print alike, named or
  not.\<close>

locale named_enum =
  fixes names :: "('a::len word \<times> string) list" and shw :: "'a word \<Rightarrow> string" and ty :: string
  assumes distinct_names: "distinct (map snd names)"
    and no_paren: "list_all (\<lambda>n. CHR ''('' \<notin> set n) (map snd names)"
    and shw_inj: "shw v = shw w \<Longrightarrow> v = w"
begin

lemma named: "map_of names v = Some n \<Longrightarrow> CHR ''('' \<notin> set n"
  using no_paren by (fastforce simp: list_all_iff dest: map_of_SomeD)

lemma names_inj: "map_of names v = Some n \<Longrightarrow> map_of names w = Some n \<Longrightarrow> v = w"
proof -
  assume "map_of names v = Some n" "map_of names w = Some n"
  then have "(v, n) \<in> set names" "(w, n) \<in> set names" by (auto dest: map_of_SomeD)
  moreover have "inj_on snd (set names)" using distinct_names by (simp add: distinct_map)
  ultimately show "v = w" using inj_onD [of snd "set names" "(v, n)" "(w, n)"] by simp
qed

lemma String_inj: "enumString names shw ty v = enumString names shw ty w \<Longrightarrow> v = w"
proof -
  assume eq: "enumString names shw ty v = enumString names shw ty w"
  have fallback: "CHR ''('' \<in> set (ty @ ''('' @ shw x @ '')'')" for x by simp
  show "v = w"
  proof (cases "map_of names v"; cases "map_of names w")
    fix a b
    assume v: "map_of names v = Some a" and w: "map_of names w = Some b"
    with eq show ?thesis by (auto simp: enumString_def intro: names_inj)
  next
    fix a
    assume "map_of names v = Some a" "map_of names w = None"
    with eq named [of v a] fallback [of w] show ?thesis by (simp add: enumString_def)
  next
    fix b
    assume "map_of names v = None" "map_of names w = Some b"
    with eq named [of w b] fallback [of v] show ?thesis by (auto simp: enumString_def)
  next
    assume "map_of names v = None" "map_of names w = None"
    with eq show ?thesis by (auto simp: enumString_def intro: shw_inj)
  qed
qed

end

interpretation assocState: named_enum assocStateNames showSigned "''AssocState''"
  by unfold_locales (simp_all add: assocStateNames_def showSigned_inj)

interpretation pathState: named_enum pathStateNames showSigned "''PathState''"
  by unfold_locales (simp_all add: pathStateNames_def showSigned_inj)

interpretation prPolicy: named_enum prPolicyNames showUnsigned "''PRPolicy''"
  by unfold_locales (simp_all add: prPolicyNames_def showUnsigned_inj)

interpretation scheduler: named_enum schedulerNames showUnsigned "''Scheduler''"
  by unfold_locales (simp_all add: schedulerNames_def showUnsigned_inj)

interpretation fragmentInterleave: named_enum fragmentInterleaveNames showSigned "''FragmentInterleave''"
  by unfold_locales (simp_all add: fragmentInterleaveNames_def showSigned_inj)

interpretation pfExposure: named_enum pfExposureNames showUnsigned "''PFExposure''"
  by unfold_locales (simp_all add: pfExposureNames_def showUnsigned_inj)

interpretation hmacid: named_enum hmacidNames showUnsigned "''HMACID''"
  by unfold_locales (simp_all add: hmacidNames_def showUnsigned_inj)

interpretation errorCause: named_enum errorCauseIANANames showUnsigned "''ErrorCause''"
  by unfold_locales (simp_all add: errorCauseIANANames_def showUnsigned_inj)

interpretation abandonPolicy: named_enum abandonPolicyNames showUnsigned "''AbandonPolicy''"
  by unfold_locales (simp_all add: abandonPolicyNames_def showUnsigned_inj)

interpretation eventType: named_enum eventTypeNames showUnsigned "''EventType''"
  by unfold_locales (simp_all add: eventTypeNames_def showUnsigned_inj)

interpretation assocChangeState: named_enum assocChangeStateNames showUnsigned "''AssocChangeState''"
  by unfold_locales (simp_all add: assocChangeStateNames_def showUnsigned_inj)

interpretation addrChangeState: named_enum addrChangeStateNames showSigned "''AddrChangeState''"
  by unfold_locales (simp_all add: addrChangeStateNames_def showSigned_inj)

interpretation authIndication: named_enum authIndicationNames showUnsigned "''AuthIndication''"
  by unfold_locales (simp_all add: authIndicationNames_def showUnsigned_inj)

interpretation addrChangeReason: named_enum addrChangeReasonNames showSigned "''AddrChangeReason''"
  by unfold_locales (simp_all add: addrChangeReasonNames_def showSigned_inj)

section \<open>The contract of a bit table\<close>

text \<open>What \<open>joinBits\<close> promises for a table of pairwise disjoint bits: the names of the
  entries set in the value, in table order, and the bits no entry covers.\<close>

definition setNames :: "('a::len word \<times> string) list \<Rightarrow> 'a word \<Rightarrow> string list" where
  "setNames names v = map snd (filter (\<lambda>(bt, n). v AND bt = bt) names)"

definition coveredBits :: "('a::len word \<times> string) list \<Rightarrow> 'a word" where
  "coveredBits names = foldr (\<lambda>(bt, n) m. bt OR m) names 0"

fun disjoint_bits :: "('a::len word \<times> string) list \<Rightarrow> bool" where
  "disjoint_bits [] \<longleftrightarrow> True"
| "disjoint_bits ((bt, n) # names) \<longleftrightarrow> bt AND coveredBits names = 0 \<and> disjoint_bits names"

definition power_bits :: "('a::len word \<times> string) list \<Rightarrow> bool" where
  "power_bits names \<longleftrightarrow> list_all (\<lambda>(bt, n). bt \<noteq> 0 \<and> bt AND (bt - 1) = 0) names"

text \<open>The rendering \<open>joinBits\<close> is meant to give: the set names, then the uncovered bits in
  hexadecimal when there are some or when nothing else is printed, joined with bars.\<close>

definition renderBits :: "('a::len word \<times> string) list \<Rightarrow> 'a word \<Rightarrow> string" where
  "renderBits names v =
     (let ns = setNames names v; rem = and_not v (coveredBits names)
      in foldl barJoin [] (ns @ (if rem \<noteq> 0 \<or> ns = [] then [''0x'' @ show_base 16 (unat rem)] else [])))"

lemma and_not_disjoint: "c AND bt = 0 \<Longrightarrow> and_not v bt AND c = v AND c"
  by (rule bit_word_eqI) (auto simp: and_not_def bit_simps bit_eq_iff)

lemma coveredBits_mono: "(bt, n) \<in> set names \<Longrightarrow> c AND coveredBits names = 0 \<Longrightarrow> bt AND c = 0"
proof (induction names)
  case (Cons e names)
  obtain bt' n' where e: "e = (bt', n')" by fastforce
  have "c AND bt' = 0" "c AND coveredBits names = 0"
    using Cons.prems(2) by (auto simp: e coveredBits_def bit_eq_iff bit_simps)
  with Cons show ?case by (auto simp: e and.commute)
qed simp

lemma setNames_and_not:
  assumes "bt AND coveredBits names = 0"
  shows "setNames names (and_not v bt) = setNames names v"
proof -
  have "and_not v bt AND b = b \<longleftrightarrow> v AND b = b" if "(b, n) \<in> set names" for b n
    using coveredBits_mono [OF that assms] and_not_disjoint [of b bt v] by simp
  then show ?thesis unfolding setNames_def by (auto intro!: arg_cong [where f = "map snd"] filter_cong)
qed

text \<open>A bit that is one power of two is either wholly set or wholly clear in a value.\<close>

lemma single_bit:
  fixes bt :: "'a::len word"
  assumes "bt \<noteq> 0" "bt AND (bt - 1) = 0"
  shows "\<exists>k < LENGTH('a). bt = push_bit k 1"
proof -
  obtain k where k: "bit bt k" using assms(1) by (auto simp: bit_eq_iff)
  define m where "m = (LEAST k. bit bt k)"
  have m: "bit bt m" unfolding m_def using k by (rule LeastI)
  have low: "\<not> bit bt j" if "j < m" for j using that not_less_Least unfolding m_def by blast
  have mL: "m < LENGTH('a)" using m by (rule bit_imp_le_length)
  define h where "h = and_not bt (push_bit m 1)"
  have split: "bt = h + push_bit m 1"
  proof -
    have "bt = h OR push_bit m 1"
      using m by (intro bit_word_eqI) (auto simp: h_def and_not_def bit_simps)
    also have "\<dots> = h + push_bit m 1"
      by (rule disjunctive_add [symmetric]) (auto simp: h_def and_not_def bit_simps)
    finally show ?thesis .
  qed
  have "bt - 1 = h + mask m" unfolding split by (simp add: mask_eq_exp_minus_1 push_bit_eq_mult)
  also have "\<dots> = h OR mask m"
    by (rule disjunctive_add) (auto simp: h_def and_not_def bit_simps low)
  finally have dec: "bt - 1 = h OR mask m" .
  have "h = 0"
  proof (rule bit_word_eqI)
    fix j assume "j < LENGTH('a)"
    have "\<not> bit (bt AND (bt - 1)) j" using assms(2) by simp
    then show "bit h j \<longleftrightarrow> bit (0 :: 'a word) j"
      unfolding dec by (auto simp: h_def and_not_def bit_simps)
  qed
  with split mL show ?thesis by auto
qed

lemma single_bit_clear:
  fixes bt :: "'a::len word"
  assumes "bt \<noteq> 0" "bt AND (bt - 1) = 0" "v AND bt \<noteq> bt"
  shows "and_not v bt = v"
proof -
  obtain k where "k < LENGTH('a)" and bt: "bt = push_bit k 1" using single_bit [OF assms(1,2)] by blast
  have "\<not> bit v k"
  proof
    assume "bit v k"
    then have "v AND bt = bt" by (intro bit_word_eqI) (auto simp: bt bit_simps)
    with assms(3) show False by simp
  qed
  then show ?thesis by (intro bit_word_eqI) (auto simp: bt and_not_def bit_simps)
qed

locale bit_table =
  fixes names :: "('a::len word \<times> string) list"
  assumes disj: "disjoint_bits names" and pow: "power_bits names"
    and nonempty: "[] \<notin> snd ` set names"
begin

lemma joinBits_loop_eq:
  "joinBits_loop names b v = (foldl barJoin b (setNames names v), and_not v (coveredBits names))"
  using disj pow
proof (induction names arbitrary: b v)
  case Nil
  show ?case by (simp add: setNames_def coveredBits_def and_not_def)
next
  case (Cons e names)
  obtain bt n where e: "e = (bt, n)" by fastforce
  have prems: "bt AND coveredBits names = 0" "disjoint_bits names" "power_bits names"
      "bt \<noteq> 0" "bt AND (bt - 1) = 0"
    using Cons.prems by (auto simp: e power_bits_def)
  have cov: "coveredBits (e # names) = bt OR coveredBits names" by (simp add: e coveredBits_def)
  have two: "and_not (and_not v bt) c = and_not v (bt OR c)" for c
    by (rule bit_word_eqI) (auto simp: and_not_def bit_simps)
  show ?case
  proof (cases "v AND bt = bt")
    case True
    then have "setNames (e # names) v = n # setNames names v" by (simp add: e setNames_def)
    with True prems Cons.IH show ?thesis by (simp add: e cov [unfolded e] two setNames_and_not)
  next
    case False
    then have "setNames (e # names) v = setNames names v" by (simp add: e setNames_def)
    moreover have "and_not v (bt OR coveredBits names) = and_not v (coveredBits names)"
      using two [of "coveredBits names"] single_bit_clear [OF prems(4,5) False] by simp
    ultimately show ?thesis using False prems Cons.IH by (simp add: e cov [unfolded e])
  qed
qed

lemma foldl_barJoin_Nil: "foldl barJoin [] (setNames names v) = [] \<longleftrightarrow> setNames names v = []"
proof (cases "setNames names v")
  case (Cons n ns)
  have "n \<in> set (setNames names v)" by (simp add: Cons)
  then have n: "n \<noteq> []" using nonempty by (force simp: setNames_def)
  have step: "b \<noteq> [] \<Longrightarrow> foldl barJoin b ns \<noteq> []" for b
    by (induction ns arbitrary: b) (auto simp: barJoin_def)
  show ?thesis using n step [OF n] by (simp add: Cons barJoin_def)
qed simp

lemma joinBits_eq: "joinBits v names = renderBits names v"
  by (auto simp: joinBits_def joinBits_loop_eq renderBits_def Let_def foldl_barJoin_Nil)

end

interpretation streamResetMask: bit_table streamResetMaskBits
  by unfold_locales (simp_all add: streamResetMaskBits_def coveredBits_def power_bits_def)

interpretation resetDirection: bit_table resetDirectionBits
  by unfold_locales (simp_all add: resetDirectionBits_def coveredBits_def power_bits_def)

interpretation sendFlags: bit_table sendFlagsBits
  by unfold_locales (simp_all add: sendFlagsBits_def coveredBits_def power_bits_def)

section \<open>Properties\<close>

text \<open>The String method of every enumeration tells all values of its type apart, the
  unnamed ones included: no two values print alike.\<close>

theorem enum_String_injective:
  "inj AssocState_String \<and> inj PathState_String \<and> inj PRPolicy_String \<and>
   inj Scheduler_String \<and> inj FragmentInterleave_String \<and> inj PFExposure_String \<and>
   inj HMACID_String \<and> inj ErrorCause_String \<and> inj AbandonPolicy_String \<and>
   inj EventType_String \<and> inj AssocChangeState_String \<and> inj AddrChangeState_String \<and>
   inj AuthIndication_String \<and> inj AddrChangeReason_String"
  by (auto intro!: injI simp: AssocState_String_def PathState_String_def PRPolicy_String_def
      Scheduler_String_def FragmentInterleave_String_def PFExposure_String_def HMACID_String_def
      ErrorCause_String_def AbandonPolicy_String_def EventType_String_def AssocChangeState_String_def
      AddrChangeState_String_def AuthIndication_String_def AddrChangeReason_String_def
      dest: assocState.String_inj pathState.String_inj prPolicy.String_inj scheduler.String_inj
        fragmentInterleave.String_inj pfExposure.String_inj hmacid.String_inj errorCause.String_inj
        abandonPolicy.String_inj eventType.String_inj assocChangeState.String_inj
        addrChangeState.String_inj authIndication.String_inj addrChangeReason.String_inj)

text \<open>The bit-set String methods (joinBits) list exactly the named bits that are set, in
  table order, followed by one hexadecimal literal of exactly the bits no name covers, which
  is present when there are such bits or when there is nothing else to print.\<close>

theorem bitset_String_renders:
  "StreamResetMask_String m = renderBits streamResetMaskBits m \<and>
   ResetDirection_String d = renderBits resetDirectionBits d \<and>
   SendFlags_String f = renderBits sendFlagsBits f"
  by (simp add: StreamResetMask_String_def ResetDirection_String_def SendFlags_String_def
      streamResetMask.joinBits_eq resetDirection.joinBits_eq sendFlags.joinBits_eq)

end
