(* ===== verification/Errors.thy ===== *)
theory Errors
  imports GoPrelude
begin

text \<open>
  The error contract of \<open>errors.go\<close> (with \<open>closedCause\<close> of \<open>recv_linux.go\<close>): the error
  values of the package and of the standard library it uses, \<open>errors.Is\<close> over Go's
  \<open>Unwrap\<close>, and the wrappers every public call applies to what it returns.

  A Go \<open>error\<close> is a \<open>goerr option\<close>, \<open>None\<close> for nil. The text of an error is modelled only
  where the code inspects it; a refusal built with \<open>invalidArg\<close> keeps the field it names.
  A \<open>net.Addr\<close> in a \<open>*net.OpError\<close> is its \<open>String()\<close>, \<open>None\<close> for the nil interface.
\<close>

section \<open>Error values\<close>

datatype errno = EINVAL | EAGAIN | EINTR | EPIPE | EPROTO | ECONNRESET | ETIMEDOUT
  | ECONNABORTED | ENOTCONN | ESHUTDOWN | EADDRNOTAVAIL | EMSGSIZE | EPROTONOSUPPORT | ESOCKTNOSUPPORT
  | ENOMEM | EINPROGRESS | EALREADY | ECONNREFUSED | EAFNOSUPPORT | EBADF | EOTHER nat

type_synonym netaddr = "string option"

datatype goerr =
    Errno errno
  | EOF                \<comment> \<open>\<open>io.EOF\<close>\<close>
  | ErrShortWrite      \<comment> \<open>\<open>io.ErrShortWrite\<close>\<close>
  | NetErrClosed       \<comment> \<open>\<open>net.ErrClosed\<close>\<close>
  | OsErrClosed        \<comment> \<open>\<open>os.ErrClosed\<close>\<close>
  | ErrFileClosing     \<comment> \<open>\<open>internal/poll.ErrFileClosing\<close>, "use of closed file"\<close>
  | DeadlineExceeded   \<comment> \<open>\<open>os.ErrDeadlineExceeded\<close>\<close>
  | StdErrUnsupported  \<comment> \<open>\<open>errors.ErrUnsupported\<close>\<close>
  | ErrUnsupported | ErrMessageTooLong | ErrMessageInterrupted | ErrNotificationTooLong
  | ErrShortNotification | ErrControlTruncated | ErrInvalidRcvInfo | ErrMissingRcvInfo
  | ErrAssocListTooLarge | ErrInvalidAssocList
  | ErrPartialDeliveryAborted | ErrAssocRestarted
  | InvalidArg string
  | UnsupportedField string string
  | UnsupportedErr errno
  | SyscallError string goerr
  | OpError string string netaddr netaddr goerr
  | Join "goerr list"
  | Wrapped string goerr  \<comment> \<open>\<open>fmt.Errorf\<close> of a text and a cause, with \<open>%w\<close>\<close>
  | TextErr string     \<comment> \<open>an error of the package with a text and no cause\<close>
  | OtherErr nat       \<comment> \<open>an error of the caller's: a handler's, a hook's or a context's\<close>

text \<open>\<open>err.Unwrap()\<close>, as the list of errors it reaches, and \<open>errors.Unwrap(err)\<close>, which
  follows only the single-error form.\<close>

fun unwraps :: "goerr \<Rightarrow> goerr list" where
  "unwraps ErrUnsupported = [StdErrUnsupported]"
| "unwraps (InvalidArg m) = [Errno EINVAL]"
| "unwraps (UnsupportedField f w) = [ErrUnsupported]"
| "unwraps (UnsupportedErr e) = [ErrUnsupported, Errno e]"
| "unwraps (SyscallError c e) = [e]"
| "unwraps (OpError op n s a e) = [e]"
| "unwraps (Wrapped m e) = [e]"
| "unwraps (Join es) = es"
| "unwraps _ = []"

fun unwrap1 :: "goerr \<Rightarrow> goerr option" where
  "unwrap1 ErrUnsupported = Some StdErrUnsupported"
| "unwrap1 (InvalidArg m) = Some (Errno EINVAL)"
| "unwrap1 (UnsupportedField f w) = Some ErrUnsupported"
| "unwrap1 (SyscallError c e) = Some e"
| "unwrap1 (OpError op n s a e) = Some e"
| "unwrap1 (Wrapped m e) = Some e"
| "unwrap1 _ = None"

text \<open>\<open>errors.Is(err, t)\<close>.\<close>

fun errIs :: "goerr \<Rightarrow> goerr \<Rightarrow> bool" where
  "errIs ErrUnsupported t \<longleftrightarrow> t = ErrUnsupported \<or> t = StdErrUnsupported"
| "errIs (InvalidArg m) t \<longleftrightarrow> t = InvalidArg m \<or> t = Errno EINVAL"
| "errIs (UnsupportedField f w) t \<longleftrightarrow>
     t = UnsupportedField f w \<or> t = ErrUnsupported \<or> t = StdErrUnsupported"
| "errIs (UnsupportedErr e) t \<longleftrightarrow>
     t = UnsupportedErr e \<or> t = ErrUnsupported \<or> t = StdErrUnsupported \<or> t = Errno e"
| "errIs (SyscallError c e) t \<longleftrightarrow> t = SyscallError c e \<or> errIs e t"
| "errIs (OpError op n s a e) t \<longleftrightarrow> t = OpError op n s a e \<or> errIs e t"
| "errIs (Wrapped m e) t \<longleftrightarrow> t = Wrapped m e \<or> errIs e t"
| "errIs (Join es) t \<longleftrightarrow> t = Join es \<or> list_ex (\<lambda>e. errIs e t) es"
| "errIs e t \<longleftrightarrow> t = e"

lemma errIs_unwraps: "errIs e t \<longleftrightarrow> t = e \<or> (\<exists>e' \<in> set (unwraps e). errIs e' t)"
  by (cases e) (auto simp: list_ex_iff)

lemma errIs_refl [simp]: "errIs e e"
  by (subst errIs_unwraps) simp

lemma errIs_trans: "errIs a b \<Longrightarrow> errIs b c \<Longrightarrow> errIs a c"
  by (induction a b rule: errIs.induct) (auto simp: list_ex_iff)

text \<open>\<open>errors.Join\<close> drops nil errors, and is nil when nothing is left.\<close>

definition errorsJoin :: "goerr option list \<Rightarrow> goerr option" where
  "errorsJoin es = (case List.map_filter id es of [] \<Rightarrow> None | js \<Rightarrow> Some (Join js))"

definition isAn :: "goerr option \<Rightarrow> goerr \<Rightarrow> bool" where
  "isAn e t \<longleftrightarrow> (case e of None \<Rightarrow> False | Some x \<Rightarrow> errIs x t)"

lemma map_filter_id_simps [simp]:
  "List.map_filter id [] = ([] :: 'a list)"
  "List.map_filter id (None # es) = List.map_filter id es"
  "List.map_filter id (Some e # es) = e # List.map_filter id es"
  by (simp_all add: List.map_filter_def)

lemma set_map_filter_id: "e \<in> set (List.map_filter id es) \<longleftrightarrow> Some e \<in> set es"
  by (induction es) (auto simp: List.map_filter_def split: option.splits)

lemma errorsJoin_simps [simp]:
  "errorsJoin [None, None] = None"
  "errorsJoin [Some a, None] = Some (Join [a])"
  "errorsJoin [None, Some b] = Some (Join [b])"
  "errorsJoin [Some a, Some b] = Some (Join [a, b])"
  by (simp_all add: errorsJoin_def)

section \<open>Wrapping\<close>

text \<open>\<open>isFileClosingErr\<close>: \<open>captured\<close> says whether the sentinel could be captured from a
  closed pipe; otherwise the text is looked for along the single-error unwrap chain, and
  only \<open>ErrFileClosing\<close> has that text.\<close>

fun chainHas :: "goerr \<Rightarrow> goerr \<Rightarrow> bool" where
  "chainHas ErrUnsupported t \<longleftrightarrow> t = ErrUnsupported \<or> t = StdErrUnsupported"
| "chainHas (InvalidArg m) t \<longleftrightarrow> t = InvalidArg m \<or> t = Errno EINVAL"
| "chainHas (UnsupportedField f w) t \<longleftrightarrow>
     t = UnsupportedField f w \<or> t = ErrUnsupported \<or> t = StdErrUnsupported"
| "chainHas (SyscallError c e) t \<longleftrightarrow> t = SyscallError c e \<or> chainHas e t"
| "chainHas (OpError op n s a e) t \<longleftrightarrow> t = OpError op n s a e \<or> chainHas e t"
| "chainHas (Wrapped m e) t \<longleftrightarrow> t = Wrapped m e \<or> chainHas e t"
| "chainHas e t \<longleftrightarrow> t = e"

lemma chainHas_unwrap1:
  "chainHas e t \<longleftrightarrow> t = e \<or> (case unwrap1 e of None \<Rightarrow> False | Some e' \<Rightarrow> chainHas e' t)"
  by (cases e) auto

lemma chainHas_errIs: "chainHas e t \<Longrightarrow> errIs e t"
  by (induction e t rule: chainHas.induct) auto

definition isFileClosingErr :: "bool \<Rightarrow> goerr \<Rightarrow> bool" where
  "isFileClosingErr captured err =
     (if captured then errIs err ErrFileClosing else chainHas err ErrFileClosing)"

definition sameAddr :: "netaddr \<Rightarrow> netaddr \<Rightarrow> bool" where
  "sameAddr a b = (if a = None \<or> b = None then a = None \<and> b = None else the a = the b)"

definition sameOpError ::
  "string \<Rightarrow> string \<Rightarrow> netaddr \<Rightarrow> netaddr \<Rightarrow> string \<Rightarrow> string \<Rightarrow> netaddr \<Rightarrow> netaddr \<Rightarrow> bool" where
  "sameOpError eop enet esrc eaddr op network source addr \<longleftrightarrow>
     eop = op \<and> enet = network \<and> sameAddr esrc source \<and> sameAddr eaddr addr"

definition isClosedErr :: "bool \<Rightarrow> goerr \<Rightarrow> bool" where
  "isClosedErr captured err \<longleftrightarrow>
     errIs err NetErrClosed \<or> errIs err OsErrClosed \<or> isFileClosingErr captured err"

definition opError ::
  "bool \<Rightarrow> string \<Rightarrow> string \<Rightarrow> netaddr \<Rightarrow> netaddr \<Rightarrow> goerr option \<Rightarrow> goerr option" where
  "opError captured op network source addr err =
     (case err of
        None \<Rightarrow> None
      | Some EOF \<Rightarrow> Some EOF
      | Some (OpError eop enet esrc eaddr e) \<Rightarrow>
          if sameOpError eop enet esrc eaddr op network source addr
          then Some (OpError eop enet esrc eaddr e)
          else Some (OpError op network source addr (OpError eop enet esrc eaddr e))
      | Some e \<Rightarrow>
          Some (OpError op network source addr (if isClosedErr captured e then NetErrClosed else e)))"

text \<open>An error with \<open>Unwrap() []error\<close>: a join, or \<open>unsupportedErr\<close>.\<close>

fun joined :: "goerr \<Rightarrow> bool" where
  "joined (Join es) = True"
| "joined (UnsupportedErr e) = True"
| "joined _ = False"

definition ioOpError ::
  "bool \<Rightarrow> string \<Rightarrow> string \<Rightarrow> netaddr \<Rightarrow> netaddr \<Rightarrow> goerr option \<Rightarrow> goerr option" where
  "ioOpError captured op network source addr err =
     (case err of
        Some e \<Rightarrow> if joined e then Some (OpError op network source addr e)
                  else opError captured op network source addr err
      | None \<Rightarrow> opError captured op network source addr err)"

definition optError ::
  "bool \<Rightarrow> string \<Rightarrow> string \<Rightarrow> string \<Rightarrow> netaddr \<Rightarrow> netaddr \<Rightarrow> goerr option \<Rightarrow> goerr option" where
  "optError captured op call network source addr err =
     opError captured op network source addr (map_option (SyscallError call) err)"

definition joinAbortCause :: "goerr option \<Rightarrow> goerr option \<Rightarrow> goerr option" where
  "joinAbortCause err aerr =
     (case aerr of
        None \<Rightarrow> err
      | Some ae \<Rightarrow>
          if errIs ae NetErrClosed then errorsJoin [err, Some NetErrClosed]
          else (case ae of
                  OpError op n s a cause \<Rightarrow> errorsJoin [err, Some cause]
                | _ \<Rightarrow> errorsJoin [err, Some ae]))"

text \<open>\<open>closedCause\<close> (\<open>recv_linux.go\<close>).\<close>

definition closedCause :: "bool \<Rightarrow> goerr option \<Rightarrow> goerr option" where
  "closedCause captured err =
     (case err of Some e \<Rightarrow> if isClosedErr captured e then Some NetErrClosed else err
      | None \<Rightarrow> None)"

definition unsupportedErr :: "errno \<Rightarrow> goerr" where
  "unsupportedErr e = UnsupportedErr e"

section \<open>What the wrappers guarantee\<close>

text \<open>\<open>op_free e\<close>: no \<open>*net.OpError\<close> anywhere in \<open>e\<close>'s unwrap tree.\<close>

fun op_free :: "goerr \<Rightarrow> bool" where
  "op_free (SyscallError c e) = op_free e"
| "op_free (OpError op n s a e) = False"
| "op_free (Wrapped m e) = op_free e"
| "op_free (Join es) = list_all op_free es"
| "op_free _ = True"

lemma sameAddr_eq [simp]: "sameAddr a b \<longleftrightarrow> a = b"
  by (auto simp: sameAddr_def)

lemma sameOpError_eq [simp]:
  "sameOpError eop enet es ea op n s a \<longleftrightarrow> eop = op \<and> enet = n \<and> es = s \<and> ea = a"
  by (simp add: sameOpError_def)

lemma opError_None [simp]: "opError c op n s a None = None"
  by (simp add: opError_def)

lemma opError_EOF [simp]: "opError c op n s a (Some EOF) = Some EOF"
  by (simp add: opError_def)

lemma opError_plain:
  "e \<noteq> EOF \<Longrightarrow> \<nexists>o' n' s' a' e'. e = OpError o' n' s' a' e' \<Longrightarrow>
   opError c op n s a (Some e) =
     Some (OpError op n s a (if isClosedErr c e then NetErrClosed else e))"
  by (cases e) (auto simp: opError_def)

lemma opError_OpError:
  "opError c op n s a (Some (OpError o' n' s' a' e)) =
     Some (if o' = op \<and> n' = n \<and> s' = s \<and> a' = a then OpError o' n' s' a' e
           else OpError op n s a (OpError o' n' s' a' e))"
  by (simp add: opError_def)

lemmas opError_eqs = opError_None opError_EOF opError_plain opError_OpError

lemma isAn_errorsJoin:
  "isAn (errorsJoin es) t \<longleftrightarrow>
     errorsJoin es = Some t \<or> (\<exists>e. Some e \<in> set es \<and> errIs e t)"
proof (cases "List.map_filter id es")
  case Nil
  then have "\<And>e. Some e \<notin> set es" using set_map_filter_id [of _ es] by simp
  with Nil show ?thesis by (simp add: isAn_def errorsJoin_def)
next
  case (Cons x xs)
  have "(\<exists>e. Some e \<in> set es \<and> errIs e t) \<longleftrightarrow> list_ex (\<lambda>e. errIs e t) (x # xs)"
    unfolding list_ex_iff Cons [symmetric] by (auto simp: set_map_filter_id)
  with Cons show ?thesis by (auto simp: isAn_def errorsJoin_def)
qed

fun is_OpError :: "goerr \<Rightarrow> bool" where
  "is_OpError (OpError op n s a e) = True"
| "is_OpError _ = False"

lemma is_OpError_iff: "is_OpError e \<longleftrightarrow> (\<exists>op n s a e'. e = OpError op n s a e')"
  by (cases e) auto

lemma opError_collapse:
  assumes "e \<noteq> EOF" "\<not> is_OpError e"
  shows "opError c op n s a (Some e) =
    Some (OpError op n s a (if isClosedErr c e then NetErrClosed else e))"
  using assms by (auto simp: opError_plain is_OpError_iff)



text \<open>A read interrupted by its own abort reports one operation error, not two: joining
  the cause of a failed \<open>Abort\<close>, which is itself an operation error over a cause, into an
  error without operation errors leaves none in it, keeps everything the error matched, and
  adds either the abort's cause or \<open>net.ErrClosed\<close>.\<close>

theorem joinAbortCause_single_wrap:
  assumes "op_free e" "op_free cause"
  shows "\<exists>j. joinAbortCause (Some e) (Some (OpError op n s a cause)) = Some j \<and> op_free j \<and>
    joined j \<and> (\<forall>t. errIs e t \<longrightarrow> errIs j t) \<and>
    (if errIs cause NetErrClosed then errIs j NetErrClosed else errIs j cause)"
  using assms by (auto simp: joinAbortCause_def)

theorem joinAbortCause_single_wrap_witness:
  "op_free ErrMessageInterrupted \<and> op_free (Errno EPROTO) \<and>
   joinAbortCause (Some ErrMessageInterrupted) (Some (OpError ''close'' ''sctp'' None None (Errno EPROTO)))
     = Some (Join [ErrMessageInterrupted, Errno EPROTO])"
  using joinAbortCause_single_wrap [of ErrMessageInterrupted "Errno EPROTO" "''close''" "''sctp''" None None]
  by (auto simp: joinAbortCause_def)

lemma ioOpError_joined:
  "joined e \<Longrightarrow> ioOpError c op n s a (Some e) = Some (OpError op n s a e)"
  by (simp add: ioOpError_def)

lemma ioOpError_plain:
  "\<not> joined e \<Longrightarrow> ioOpError c op n s a (Some e) = opError c op n s a (Some e)"
  by (simp add: ioOpError_def)

lemma unsupportedErr_matches:
  "errIs (unsupportedErr e) ErrUnsupported" "errIs (unsupportedErr e) StdErrUnsupported"
  "errIs (unsupportedErr e) (Errno e)"
  by (simp_all add: unsupportedErr_def)

end
