(* ===== verification/Term.thy ===== *)
theory Term
  imports Errors
begin

text \<open>
  The association-error latch: \<open>termState\<close> of \<open>conn.go\<close> and \<open>term_linux.go\<close>. Linux hands the
  error an association failed with to one call; the latch keeps it for every later one.
  The methods run with the latch's mutex held around the system call, so each is one step on
  the state; \<open>latch_op\<close> lists the steps a connection's reads, sends and notification records
  make, in any order.
\<close>

section \<open>The latch\<close>

record termState =
  t_err :: "goerr option"
  t_failed :: bool
  t_ended :: bool
  t_drained :: bool

definition term_zero :: termState where
  "term_zero = \<lparr>t_err = None, t_failed = False, t_ended = False, t_drained = False\<rparr>"

definition isAssocFailure :: "goerr option \<Rightarrow> bool" where
  "isAssocFailure err \<longleftrightarrow> err = Some (Errno ECONNRESET) \<or> err = Some (Errno ETIMEDOUT) \<or>
     err = Some (Errno ECONNABORTED)"

definition latched :: "termState \<Rightarrow> goerr option" where
  "latched t = t_err t"

definition storeLocked :: "goerr option \<Rightarrow> termState \<Rightarrow> bool \<times> termState" where
  "storeLocked err t =
     (if \<not> isAssocFailure err then (False, t)
      else (True, if t_err t = None then t\<lparr>t_err := err\<rparr> else t))"

definition markFailed :: "termState \<Rightarrow> termState" where
  "markFailed t = t\<lparr>t_failed := True\<rparr>"

text \<open>Of the methods that follow, each returns what the call reports, and the latch after it.\<close>

definition sendErrorLocked :: "goerr option \<Rightarrow> termState \<Rightarrow> goerr option \<times> termState" where
  "sendErrorLocked err t =
     (let (stored, t1) = storeLocked err t in
      if stored then (err, t1)
      else if err \<noteq> Some (Errno EPIPE) then (err, t1)
      else if t_err t1 \<noteq> None then (t_err t1, t1)
      else if t_failed t1 then (Some (Errno ENOTCONN), t1\<lparr>t_err := Some (Errno ENOTCONN)\<rparr>)
      else (err, t1))"

definition observe :: "goerr option \<Rightarrow> termState \<Rightarrow> goerr option \<times> termState" where
  "observe err t =
     (let (stored, t1) = storeLocked err t in
      if stored \<or> t_err t1 \<noteq> None then (t_err t1, t1) else (err, t1))"

definition readErrorLocked :: "goerr option \<Rightarrow> termState \<Rightarrow> goerr option \<times> termState" where
  "readErrorLocked err t =
     (let (err1, t1) = observe err t;
          (err2, t2) =
            (if t_err t1 = None \<and> t_failed t1 \<and> (err1 = Some (Errno EAGAIN) \<or> err1 = Some EOF)
             then (Some (Errno ENOTCONN), t1\<lparr>t_err := Some (Errno ENOTCONN)\<rparr>)
             else if t_err t1 = None \<and> t_ended t1 \<and> err1 = Some (Errno EAGAIN) then (Some EOF, t1)
             else (err1, t1))
      in (err2, if t_err t2 \<noteq> None then t2\<lparr>t_drained := True\<rparr> else t2))"

definition hasEnded :: "termState \<Rightarrow> bool" where
  "hasEnded t = t_ended t"

definition readEnd :: "termState \<Rightarrow> goerr option" where
  "readEnd t = (if t_drained t then t_err t else if t_ended t then Some EOF else None)"

section \<open>Histories of a connection\<close>

text \<open>The steps on the latch: a read's recvmsg that found nothing (with its errno, or end of
  file), one that was cut short in a record, a send that failed, and the two records that end
  an association.\<close>

datatype latch_op = ReadFails goerr | CutRecord "goerr option" | SendFails goerr
  | CommLost | ShutdownComplete

fun latch_step :: "latch_op \<Rightarrow> termState \<Rightarrow> termState" where
  "latch_step (ReadFails e) t = snd (readErrorLocked (Some e) t)"
| "latch_step (CutRecord e) t = snd (storeLocked e t)"
| "latch_step (SendFails e) t = snd (sendErrorLocked (Some e) t)"
| "latch_step CommLost t = markFailed t"
| "latch_step ShutdownComplete t = t\<lparr>t_ended := True\<rparr>"

definition latch_run :: "latch_op list \<Rightarrow> termState \<Rightarrow> termState" where
  "latch_run ops t = foldl (\<lambda>t op. latch_step op t) t ops"

definition term_inv :: "termState \<Rightarrow> bool" where
  "term_inv t \<longleftrightarrow> (t_drained t \<longrightarrow> t_err t \<noteq> None) \<and>
     (t_err t = None \<or> isAssocFailure (t_err t) \<or> t_err t = Some (Errno ENOTCONN))"

lemmas term_defs = storeLocked_def sendErrorLocked_def observe_def readErrorLocked_def markFailed_def
  isAssocFailure_def

text \<open>Every method stores through \<open>storeLocked\<close>, or latches \<open>ENOTCONN\<close> in an empty latch.\<close>

definition latches :: "termState \<Rightarrow> termState \<Rightarrow> bool" where
  "latches t t' \<longleftrightarrow> (t_err t' = t_err t \<or>
       t_err t = None \<and> (isAssocFailure (t_err t') \<or> t_err t' = Some (Errno ENOTCONN))) \<and>
     (t_drained t' = t_drained t \<or> t_drained t' \<and> t_err t' \<noteq> None) \<and>
     t_failed t' = t_failed t \<and> t_ended t' = t_ended t"

lemma storeLocked_latches: "latches t (snd (storeLocked e t))"
  by (simp add: storeLocked_def latches_def)

lemma sendErrorLocked_latches: "latches t (snd (sendErrorLocked e t))"
  using storeLocked_latches [of t e]
  by (simp add: sendErrorLocked_def Let_def split_def) (auto simp: latches_def)

lemma observe_snd: "snd (observe e t) = snd (storeLocked e t)"
  by (simp add: observe_def split_def Let_def)

lemma readErrorLocked_latches: "latches t (snd (readErrorLocked e t))"
  using storeLocked_latches [of t e]
  by (simp add: readErrorLocked_def Let_def split_def observe_snd) (auto simp: latches_def)

lemma latches_inv: "latches t t' \<Longrightarrow> term_inv t \<Longrightarrow> term_inv t'"
  unfolding latches_def term_inv_def by metis

lemma latch_step_inv: "term_inv t \<Longrightarrow> term_inv (latch_step op t)"
proof (cases op)
  case (ReadFails e)
  then show "term_inv t \<Longrightarrow> ?thesis" using latches_inv [OF readErrorLocked_latches] by simp
next
  case (CutRecord e)
  then show "term_inv t \<Longrightarrow> ?thesis" using latches_inv [OF storeLocked_latches] by simp
next
  case (SendFails e)
  then show "term_inv t \<Longrightarrow> ?thesis" using latches_inv [OF sendErrorLocked_latches] by simp
qed (simp_all add: term_inv_def markFailed_def)

lemma latches_keeps:
  "latches t t' \<Longrightarrow> t_err t = Some e \<Longrightarrow> t_err t' = Some e"
  "latches t t' \<Longrightarrow> t_drained t \<Longrightarrow> t_drained t'"
  "latches t t' \<Longrightarrow> t_failed t' = t_failed t"
  by (auto simp: latches_def)

lemma latch_step_keeps:
  "t_err t = Some e \<Longrightarrow> t_err (latch_step op t) = Some e"
  "t_drained t \<Longrightarrow> t_drained (latch_step op t)"
  "t_failed t \<Longrightarrow> t_failed (latch_step op t)"
  by (cases op; simp add: markFailed_def latches_keeps(1) [OF readErrorLocked_latches]
      latches_keeps(1) [OF storeLocked_latches] latches_keeps(1) [OF sendErrorLocked_latches]
      latches_keeps(2) [OF readErrorLocked_latches] latches_keeps(2) [OF storeLocked_latches]
      latches_keeps(2) [OF sendErrorLocked_latches] latches_keeps(3) [OF readErrorLocked_latches]
      latches_keeps(3) [OF storeLocked_latches] latches_keeps(3) [OF sendErrorLocked_latches])+

lemma latch_run_simps [simp]:
  "latch_run [] t = t" "latch_run (op # ops) t = latch_run ops (latch_step op t)"
  by (simp_all add: latch_run_def)

lemma latch_run_inv: "term_inv t \<Longrightarrow> term_inv (latch_run ops t)"
  by (induction ops arbitrary: t) (simp_all add: latch_step_inv)

lemma latch_run_keeps:
  "t_err t = Some e \<Longrightarrow> t_err (latch_run ops t) = Some e"
  "t_drained t \<Longrightarrow> t_drained (latch_run ops t)"
  by (induction ops arbitrary: t) (simp_all add: latch_step_keeps)

section \<open>Properties\<close>



text \<open>A failed association never looks like one that ended gracefully: once a record has said
  that it failed, a read that finds nothing and a send that finds it gone report an error other
  than the end of the stream or \<open>EPIPE\<close>, even when the error Linux set was taken by someone
  else; the latch only ever holds one of the four errors it is documented to.\<close>

theorem failure_never_reads_as_eof:
  assumes "t = latch_run (ops @ CommLost # ops') term_zero" "err = EOF \<or> err = Errno EAGAIN"
  shows "(\<exists>e. fst (readErrorLocked (Some err) t) = Some (Errno e) \<and>
      e \<in> {ECONNRESET, ETIMEDOUT, ECONNABORTED, ENOTCONN}) \<and>
    (\<exists>e. fst (sendErrorLocked (Some (Errno EPIPE)) t) = Some (Errno e) \<and>
      e \<in> {ECONNRESET, ETIMEDOUT, ECONNABORTED, ENOTCONN})"
proof -
  have inv: "term_inv t"
    unfolding assms(1) by (rule latch_run_inv) (simp add: term_inv_def term_zero_def)
  have keep: "t_failed x \<Longrightarrow> t_failed (latch_run os x)" for os x
    by (induction os arbitrary: x) (simp_all add: latch_step_keeps)
  have "t = latch_run ops' (markFailed (latch_run ops term_zero))"
    unfolding assms(1) latch_run_def by simp
  then have f: "t_failed t" using keep by (simp add: markFailed_def)
  have "\<exists>e. t_err t = Some (Errno e) \<and> e \<in> {ECONNRESET, ETIMEDOUT, ECONNABORTED, ENOTCONN}" if "t_err t \<noteq> None"
    using inv that by (auto simp: term_inv_def isAssocFailure_def)
  then show ?thesis using f assms(2)
    by (cases "t_err t") (auto simp: readErrorLocked_def sendErrorLocked_def observe_def storeLocked_def isAssocFailure_def)
qed

theorem failure_never_reads_as_eof_witness:
  "fst (readErrorLocked (Some EOF) (latch_run [CommLost] term_zero)) \<noteq> Some EOF"
  using failure_never_reads_as_eof [of "latch_run [CommLost] term_zero" "[]" "[]" EOF] by auto

end
