(* ===== verification/Abi.thy ===== *)
theory Abi
  imports GoPrelude
begin

text \<open>
  The kernel numbers and struct layouts of \<open>abi.go\<close>: one definition per Go constant, under
  the constant's name. A constant that follows the word size or the alignment of 64-bit
  integers is a function of the target. The socket option numbers are in theory \<open>Sockopt\<close>.

  \<open>kernelStructs\<close> lists, for every struct whose size and offsets the file pins, the field
  widths its comment declares; \<open>kernelStructs_wf\<close> says that the offsets are consistent.
\<close>

section \<open>Constants\<close>

definition afInet :: u16 where [simp]: "afInet = 2"

definition afInet6 :: u16 where [simp]: "afInet6 = 10"

definition ipprotoSCTP :: u32 where [simp]: "ipprotoSCTP = 132"

definition assocScopeFuture :: u32 where [simp]: "assocScopeFuture = 0"

definition assocScopeCurrent :: u32 where [simp]: "assocScopeCurrent = 1"

definition assocScopeAll :: u32 where [simp]: "assocScopeAll = 2"

definition cmsgSndInfo :: u32 where [simp]: "cmsgSndInfo = 2"

definition cmsgRcvInfo :: u32 where [simp]: "cmsgRcvInfo = 3"

definition cmsgNxtInfo :: u32 where [simp]: "cmsgNxtInfo = 4"

definition cmsgPrInfo :: u32 where [simp]: "cmsgPrInfo = 5"

definition cmsgAuthInfo :: u32 where [simp]: "cmsgAuthInfo = 6"

definition sndFlagUnordered :: u16 where [simp]: "sndFlagUnordered = 1"

definition sndFlagAddrOver :: u16 where [simp]: "sndFlagAddrOver = 2"

definition sndFlagAbort :: u16 where [simp]: "sndFlagAbort = 4"

definition sndFlagSackImmediately :: u16 where [simp]: "sndFlagSackImmediately = 8"

definition sndFlagPRAll :: u16 where [simp]: "sndFlagPRAll = 128"

definition msgNotification :: u32 where [simp]: "msgNotification = 32768"

definition sndFlagEOF :: u16 where [simp]: "sndFlagEOF = 512"

definition msgCtrunc :: u32 where [simp]: "msgCtrunc = 8"

definition msgEOR :: u32 where [simp]: "msgEOR = 128"

definition prPolicyMask :: u16 where [simp]: "prPolicyMask = 48"

definition sizeSockaddrIn :: nat where [simp]: "sizeSockaddrIn = 16"

definition sockaddrInFamilyOff :: nat where [simp]: "sockaddrInFamilyOff = 0"

definition sockaddrInPortOff :: nat where [simp]: "sockaddrInPortOff = 2"

definition sockaddrInAddrOff :: nat where [simp]: "sockaddrInAddrOff = 4"

definition sizeSockaddrIn6 :: nat where [simp]: "sizeSockaddrIn6 = 28"

definition sockaddrIn6FamilyOff :: nat where [simp]: "sockaddrIn6FamilyOff = 0"

definition sockaddrIn6PortOff :: nat where [simp]: "sockaddrIn6PortOff = 2"

definition sockaddrIn6FlowInfoOff :: nat where [simp]: "sockaddrIn6FlowInfoOff = 4"

definition sockaddrIn6AddrOff :: nat where [simp]: "sockaddrIn6AddrOff = 8"

definition sockaddrIn6ScopeIDOff :: nat where [simp]: "sockaddrIn6ScopeIDOff = 24"

definition sizeSockaddrStorage :: nat where [simp]: "sizeSockaddrStorage = 128"

definition ssAlign :: "target \<Rightarrow> nat" where
  [simp]: "ssAlign T = wordSize T"

definition ssAddrOffset :: "target \<Rightarrow> nat" where
  [simp]: "ssAddrOffset T = align_up (4) (ssAlign T)"

definition ssTailOffset :: "target \<Rightarrow> nat" where
  [simp]: "ssTailOffset T = ssAddrOffset T + sizeSockaddrStorage"

definition sizeCmsghdr :: "target \<Rightarrow> nat" where
  [simp]: "sizeCmsghdr T = wordSize T + 8"

definition cmsghdrLenOff :: nat where [simp]: "cmsghdrLenOff = 0"

definition cmsghdrLevelOff :: "target \<Rightarrow> nat" where
  [simp]: "cmsghdrLevelOff T = wordSize T"

definition cmsghdrTypeOff :: "target \<Rightarrow> nat" where
  [simp]: "cmsghdrTypeOff T = wordSize T + 4"

definition sizeSndInfo :: nat where [simp]: "sizeSndInfo = 16"

definition sndInfoStreamOff :: nat where [simp]: "sndInfoStreamOff = 0"

definition sndInfoFlagsOff :: nat where [simp]: "sndInfoFlagsOff = 2"

definition sndInfoPPIDOff :: nat where [simp]: "sndInfoPPIDOff = 4"

definition sndInfoContextOff :: nat where [simp]: "sndInfoContextOff = 8"

definition sndInfoAssocIDOff :: nat where [simp]: "sndInfoAssocIDOff = 12"

definition sizePrInfo :: nat where [simp]: "sizePrInfo = 8"

definition prInfoPolicyOff :: nat where [simp]: "prInfoPolicyOff = 0"

definition prInfoValueOff :: nat where [simp]: "prInfoValueOff = 4"

definition sizeAuthInfo :: nat where [simp]: "sizeAuthInfo = 2"

definition authInfoKeyNumberOff :: nat where [simp]: "authInfoKeyNumberOff = 0"

definition sizeRcvInfo :: nat where [simp]: "sizeRcvInfo = 28"

definition rcvInfoStreamOff :: nat where [simp]: "rcvInfoStreamOff = 0"

definition rcvInfoSSNOff :: nat where [simp]: "rcvInfoSSNOff = 2"

definition rcvInfoFlagsOff :: nat where [simp]: "rcvInfoFlagsOff = 4"

definition rcvInfoPPIDOff :: nat where [simp]: "rcvInfoPPIDOff = 8"

definition rcvInfoTSNOff :: nat where [simp]: "rcvInfoTSNOff = 12"

definition rcvInfoCumTSNOff :: nat where [simp]: "rcvInfoCumTSNOff = 16"

definition rcvInfoContextOff :: nat where [simp]: "rcvInfoContextOff = 20"

definition rcvInfoAssocIDOff :: nat where [simp]: "rcvInfoAssocIDOff = 24"

definition sizeNxtInfo :: nat where [simp]: "sizeNxtInfo = 16"

definition nxtInfoStreamOff :: nat where [simp]: "nxtInfoStreamOff = 0"

definition nxtInfoFlagsOff :: nat where [simp]: "nxtInfoFlagsOff = 2"

definition nxtInfoPPIDOff :: nat where [simp]: "nxtInfoPPIDOff = 4"

definition nxtInfoLengthOff :: nat where [simp]: "nxtInfoLengthOff = 8"

definition nxtInfoAssocIDOff :: nat where [simp]: "nxtInfoAssocIDOff = 12"

definition notificationHeaderSize :: nat where [simp]: "notificationHeaderSize = 8"

definition notificationTypeOff :: nat where [simp]: "notificationTypeOff = 0"

definition notificationFlagsOff :: nat where [simp]: "notificationFlagsOff = 2"

definition notificationLengthOff :: nat where [simp]: "notificationLengthOff = 4"

definition sizeAssocChange :: nat where [simp]: "sizeAssocChange = 20"

definition assocChangeTypeOff :: nat where [simp]: "assocChangeTypeOff = 0"

definition assocChangeFlagsOff :: nat where [simp]: "assocChangeFlagsOff = 2"

definition assocChangeLengthOff :: nat where [simp]: "assocChangeLengthOff = 4"

definition assocChangeStateOff :: nat where [simp]: "assocChangeStateOff = 8"

definition assocChangeErrorOff :: nat where [simp]: "assocChangeErrorOff = 10"

definition assocChangeOutStreamsOff :: nat where [simp]: "assocChangeOutStreamsOff = 12"

definition assocChangeInStreamsOff :: nat where [simp]: "assocChangeInStreamsOff = 14"

definition assocChangeAssocIDOff :: nat where [simp]: "assocChangeAssocIDOff = 16"

definition assocChangeInfoOff :: nat where [simp]: "assocChangeInfoOff = 20"

definition sizePAddrChange :: nat where [simp]: "sizePAddrChange = 148"

definition paddrChangeTypeOff :: nat where [simp]: "paddrChangeTypeOff = 0"

definition paddrChangeFlagsOff :: nat where [simp]: "paddrChangeFlagsOff = 2"

definition paddrChangeLengthOff :: nat where [simp]: "paddrChangeLengthOff = 4"

definition paddrChangeAddrOff :: nat where [simp]: "paddrChangeAddrOff = 8"

definition paddrChangeStateOff :: nat where [simp]: "paddrChangeStateOff = 136"

definition paddrChangeErrorOff :: nat where [simp]: "paddrChangeErrorOff = 140"

definition paddrChangeAssocIDOff :: nat where [simp]: "paddrChangeAssocIDOff = 144"

definition sizeRemoteError :: nat where [simp]: "sizeRemoteError = 16"

definition remoteErrorTypeOff :: nat where [simp]: "remoteErrorTypeOff = 0"

definition remoteErrorFlagsOff :: nat where [simp]: "remoteErrorFlagsOff = 2"

definition remoteErrorLengthOff :: nat where [simp]: "remoteErrorLengthOff = 4"

definition remoteErrorErrorOff :: nat where [simp]: "remoteErrorErrorOff = 8"

definition remoteErrorAssocIDOff :: nat where [simp]: "remoteErrorAssocIDOff = 12"

definition remoteErrorDataOff :: nat where [simp]: "remoteErrorDataOff = 16"

definition sizeShutdownEvent :: nat where [simp]: "sizeShutdownEvent = 12"

definition shutdownEventTypeOff :: nat where [simp]: "shutdownEventTypeOff = 0"

definition shutdownEventFlagsOff :: nat where [simp]: "shutdownEventFlagsOff = 2"

definition shutdownEventLengthOff :: nat where [simp]: "shutdownEventLengthOff = 4"

definition shutdownEventAssocIDOff :: nat where [simp]: "shutdownEventAssocIDOff = 8"

definition sizeAdaptationEvent :: nat where [simp]: "sizeAdaptationEvent = 16"

definition adaptationEventTypeOff :: nat where [simp]: "adaptationEventTypeOff = 0"

definition adaptationEventFlagsOff :: nat where [simp]: "adaptationEventFlagsOff = 2"

definition adaptationEventLengthOff :: nat where [simp]: "adaptationEventLengthOff = 4"

definition adaptationEventIndicationOff :: nat where [simp]: "adaptationEventIndicationOff = 8"

definition adaptationEventAssocIDOff :: nat where [simp]: "adaptationEventAssocIDOff = 12"

definition sizePDAPIEvent :: nat where [simp]: "sizePDAPIEvent = 24"

definition pdapiEventTypeOff :: nat where [simp]: "pdapiEventTypeOff = 0"

definition pdapiEventFlagsOff :: nat where [simp]: "pdapiEventFlagsOff = 2"

definition pdapiEventLengthOff :: nat where [simp]: "pdapiEventLengthOff = 4"

definition pdapiEventIndicationOff :: nat where [simp]: "pdapiEventIndicationOff = 8"

definition pdapiEventAssocIDOff :: nat where [simp]: "pdapiEventAssocIDOff = 12"

definition pdapiEventStreamOff :: nat where [simp]: "pdapiEventStreamOff = 16"

definition pdapiEventSeqOff :: nat where [simp]: "pdapiEventSeqOff = 20"

definition sizeAuthKeyEvent :: nat where [simp]: "sizeAuthKeyEvent = 20"

definition authKeyEventTypeOff :: nat where [simp]: "authKeyEventTypeOff = 0"

definition authKeyEventFlagsOff :: nat where [simp]: "authKeyEventFlagsOff = 2"

definition authKeyEventLengthOff :: nat where [simp]: "authKeyEventLengthOff = 4"

definition authKeyEventKeyNumberOff :: nat where [simp]: "authKeyEventKeyNumberOff = 8"

definition authKeyEventAltKeyNumberOff :: nat where [simp]: "authKeyEventAltKeyNumberOff = 10"

definition authKeyEventIndicationOff :: nat where [simp]: "authKeyEventIndicationOff = 12"

definition authKeyEventAssocIDOff :: nat where [simp]: "authKeyEventAssocIDOff = 16"

definition sizeSenderDryEvent :: nat where [simp]: "sizeSenderDryEvent = 12"

definition senderDryEventTypeOff :: nat where [simp]: "senderDryEventTypeOff = 0"

definition senderDryEventFlagsOff :: nat where [simp]: "senderDryEventFlagsOff = 2"

definition senderDryEventLengthOff :: nat where [simp]: "senderDryEventLengthOff = 4"

definition senderDryEventAssocIDOff :: nat where [simp]: "senderDryEventAssocIDOff = 8"

definition sizeStreamResetEvent :: nat where [simp]: "sizeStreamResetEvent = 12"

definition streamResetEventTypeOff :: nat where [simp]: "streamResetEventTypeOff = 0"

definition streamResetEventFlagsOff :: nat where [simp]: "streamResetEventFlagsOff = 2"

definition streamResetEventLengthOff :: nat where [simp]: "streamResetEventLengthOff = 4"

definition streamResetEventAssocIDOff :: nat where [simp]: "streamResetEventAssocIDOff = 8"

definition streamResetEventStreamsOff :: nat where [simp]: "streamResetEventStreamsOff = 12"

definition sizeAssocResetEvent :: nat where [simp]: "sizeAssocResetEvent = 20"

definition assocResetEventTypeOff :: nat where [simp]: "assocResetEventTypeOff = 0"

definition assocResetEventFlagsOff :: nat where [simp]: "assocResetEventFlagsOff = 2"

definition assocResetEventLengthOff :: nat where [simp]: "assocResetEventLengthOff = 4"

definition assocResetEventAssocIDOff :: nat where [simp]: "assocResetEventAssocIDOff = 8"

definition assocResetEventLocalTSNOff :: nat where [simp]: "assocResetEventLocalTSNOff = 12"

definition assocResetEventRemoteTSNOff :: nat where [simp]: "assocResetEventRemoteTSNOff = 16"

definition sizeStreamChangeEvent :: nat where [simp]: "sizeStreamChangeEvent = 16"

definition streamChangeEventTypeOff :: nat where [simp]: "streamChangeEventTypeOff = 0"

definition streamChangeEventFlagsOff :: nat where [simp]: "streamChangeEventFlagsOff = 2"

definition streamChangeEventLengthOff :: nat where [simp]: "streamChangeEventLengthOff = 4"

definition streamChangeEventAssocIDOff :: nat where [simp]: "streamChangeEventAssocIDOff = 8"

definition streamChangeEventInStreamsOff :: nat where [simp]: "streamChangeEventInStreamsOff = 12"

definition streamChangeEventOutStreamsOff :: nat where [simp]: "streamChangeEventOutStreamsOff = 14"

definition sizeSendFailedEvent :: nat where [simp]: "sizeSendFailedEvent = 32"

definition sendFailedEventTypeOff :: nat where [simp]: "sendFailedEventTypeOff = 0"

definition sendFailedEventFlagsOff :: nat where [simp]: "sendFailedEventFlagsOff = 2"

definition sendFailedEventLengthOff :: nat where [simp]: "sendFailedEventLengthOff = 4"

definition sendFailedEventErrorOff :: nat where [simp]: "sendFailedEventErrorOff = 8"

definition sendFailedEventInfoOff :: nat where [simp]: "sendFailedEventInfoOff = 12"

definition sendFailedEventAssocIDOff :: nat where [simp]: "sendFailedEventAssocIDOff = 28"

definition sendFailedEventDataOff :: nat where [simp]: "sendFailedEventDataOff = 32"

definition pdapiFlagUnordered :: u16 where [simp]: "pdapiFlagUnordered = 1"

definition sendFailedFlagSent :: u16 where [simp]: "sendFailedFlagSent = 1"

definition streamResetFlagIncoming :: u16 where [simp]: "streamResetFlagIncoming = 1"

definition streamResetFlagOutgoing :: u16 where [simp]: "streamResetFlagOutgoing = 2"

definition streamResetFlagDenied :: u16 where [simp]: "streamResetFlagDenied = 4"

definition streamResetFlagFailed :: u16 where [simp]: "streamResetFlagFailed = 8"

definition assocResetFlagDenied :: u16 where [simp]: "assocResetFlagDenied = 4"

definition assocResetFlagFailed :: u16 where [simp]: "assocResetFlagFailed = 8"

definition streamChangeFlagDenied :: u16 where [simp]: "streamChangeFlagDenied = 4"

definition streamChangeFlagFailed :: u16 where [simp]: "streamChangeFlagFailed = 8"

definition dataChunkFlagLastFragment :: u16 where [simp]: "dataChunkFlagLastFragment = 1"

definition dataChunkFlagFirstFragment :: u16 where [simp]: "dataChunkFlagFirstFragment = 2"

definition dataChunkFlagUnordered :: u16 where [simp]: "dataChunkFlagUnordered = 4"

definition sizeInitMsg :: nat where [simp]: "sizeInitMsg = 8"

definition initMsgOutStreamsOff :: nat where [simp]: "initMsgOutStreamsOff = 0"

definition initMsgMaxInStreamsOff :: nat where [simp]: "initMsgMaxInStreamsOff = 2"

definition initMsgMaxAttemptsOff :: nat where [simp]: "initMsgMaxAttemptsOff = 4"

definition initMsgMaxInitTimeoOff :: nat where [simp]: "initMsgMaxInitTimeoOff = 6"

definition sizeRTOInfo :: nat where [simp]: "sizeRTOInfo = 16"

definition rtoInfoAssocIDOff :: nat where [simp]: "rtoInfoAssocIDOff = 0"

definition rtoInfoInitialOff :: nat where [simp]: "rtoInfoInitialOff = 4"

definition rtoInfoMaxOff :: nat where [simp]: "rtoInfoMaxOff = 8"

definition rtoInfoMinOff :: nat where [simp]: "rtoInfoMinOff = 12"

definition sizeAssocInfo :: nat where [simp]: "sizeAssocInfo = 20"

definition assocInfoAssocIDOff :: nat where [simp]: "assocInfoAssocIDOff = 0"

definition assocInfoMaxRetransOff :: nat where [simp]: "assocInfoMaxRetransOff = 4"

definition assocInfoPeerDestinationsOff :: nat where [simp]: "assocInfoPeerDestinationsOff = 6"

definition assocInfoPeerRwndOff :: nat where [simp]: "assocInfoPeerRwndOff = 8"

definition assocInfoLocalRwndOff :: nat where [simp]: "assocInfoLocalRwndOff = 12"

definition assocInfoCookieLifeOff :: nat where [simp]: "assocInfoCookieLifeOff = 16"

definition sizeDelayedSACK :: nat where [simp]: "sizeDelayedSACK = 12"

definition delayedSACKAssocIDOff :: nat where [simp]: "delayedSACKAssocIDOff = 0"

definition delayedSACKDelayOff :: nat where [simp]: "delayedSACKDelayOff = 4"

definition delayedSACKFrequencyOff :: nat where [simp]: "delayedSACKFrequencyOff = 8"

definition sizePathParams :: nat where [simp]: "sizePathParams = 156"

definition pathParamsAssocIDOff :: nat where [simp]: "pathParamsAssocIDOff = 0"

definition pathParamsAddressOff :: nat where [simp]: "pathParamsAddressOff = 4"

definition pathParamsHBIntervalOff :: nat where [simp]: "pathParamsHBIntervalOff = 132"

definition pathParamsPathMaxRxtOff :: nat where [simp]: "pathParamsPathMaxRxtOff = 136"

definition pathParamsPathMTUOff :: nat where [simp]: "pathParamsPathMTUOff = 138"

definition pathParamsSackDelayOff :: nat where [simp]: "pathParamsSackDelayOff = 142"

definition pathParamsFlagsOff :: nat where [simp]: "pathParamsFlagsOff = 146"

definition pathParamsFlowLabelOff :: nat where [simp]: "pathParamsFlowLabelOff = 150"

definition pathParamsDSCPOff :: nat where [simp]: "pathParamsDSCPOff = 154"

definition sizePathInfo :: nat where [simp]: "sizePathInfo = 152"

definition pathInfoAssocIDOff :: nat where [simp]: "pathInfoAssocIDOff = 0"

definition pathInfoAddressOff :: nat where [simp]: "pathInfoAddressOff = 4"

definition pathInfoStateOff :: nat where [simp]: "pathInfoStateOff = 132"

definition pathInfoCwndOff :: nat where [simp]: "pathInfoCwndOff = 136"

definition pathInfoSRTTOff :: nat where [simp]: "pathInfoSRTTOff = 140"

definition pathInfoRTOOff :: nat where [simp]: "pathInfoRTOOff = 144"

definition pathInfoMTUOff :: nat where [simp]: "pathInfoMTUOff = 148"

definition sizeStatus :: nat where [simp]: "sizeStatus = 176"

definition statusAssocIDOff :: nat where [simp]: "statusAssocIDOff = 0"

definition statusStateOff :: nat where [simp]: "statusStateOff = 4"

definition statusRWNDOff :: nat where [simp]: "statusRWNDOff = 8"

definition statusUnackedOff :: nat where [simp]: "statusUnackedOff = 12"

definition statusPendingOff :: nat where [simp]: "statusPendingOff = 14"

definition statusInStreamsOff :: nat where [simp]: "statusInStreamsOff = 16"

definition statusOutStreamsOff :: nat where [simp]: "statusOutStreamsOff = 18"

definition statusFragmentationPointOff :: nat where [simp]: "statusFragmentationPointOff = 20"

definition statusPrimaryOff :: nat where [simp]: "statusPrimaryOff = 24"

definition sizePRStatus :: nat where [simp]: "sizePRStatus = 24"

definition prStatusAssocIDOff :: nat where [simp]: "prStatusAssocIDOff = 0"

definition prStatusStreamOff :: nat where [simp]: "prStatusStreamOff = 4"

definition prStatusPolicyOff :: nat where [simp]: "prStatusPolicyOff = 6"

definition prStatusAbandonedUnsentOff :: nat where [simp]: "prStatusAbandonedUnsentOff = 8"

definition prStatusAbandonedSentOff :: nat where [simp]: "prStatusAbandonedSentOff = 16"

definition sizeDefaultPRInfo :: nat where [simp]: "sizeDefaultPRInfo = 12"

definition defaultPRInfoAssocIDOff :: nat where [simp]: "defaultPRInfoAssocIDOff = 0"

definition defaultPRInfoValueOff :: nat where [simp]: "defaultPRInfoValueOff = 4"

definition defaultPRInfoPolicyOff :: nat where [simp]: "defaultPRInfoPolicyOff = 8"

definition sizeAuthKey :: nat where [simp]: "sizeAuthKey = 8"

definition authKeyAssocIDOff :: nat where [simp]: "authKeyAssocIDOff = 0"

definition authKeyKeyNumberOff :: nat where [simp]: "authKeyKeyNumberOff = 4"

definition authKeyKeyLengthOff :: nat where [simp]: "authKeyKeyLengthOff = 6"

definition authKeyKeyOff :: nat where [simp]: "authKeyKeyOff = 8"

definition sizeAuthKeyID :: nat where [simp]: "sizeAuthKeyID = 8"

definition authKeyIDAssocIDOff :: nat where [simp]: "authKeyIDAssocIDOff = 0"

definition authKeyIDKeyNumberOff :: nat where [simp]: "authKeyIDKeyNumberOff = 4"

definition sizeHMACAlgo :: nat where [simp]: "sizeHMACAlgo = 4"

definition hmacAlgoNumIdentsOff :: nat where [simp]: "hmacAlgoNumIdentsOff = 0"

definition hmacAlgoIdentsOff :: nat where [simp]: "hmacAlgoIdentsOff = 4"

definition sizeAuthChunks :: nat where [simp]: "sizeAuthChunks = 8"

definition authChunksAssocIDOff :: nat where [simp]: "authChunksAssocIDOff = 0"

definition authChunksNumChunksOff :: nat where [simp]: "authChunksNumChunksOff = 4"

definition authChunksChunksOff :: nat where [simp]: "authChunksChunksOff = 8"

definition sizeAssocIDs :: nat where [simp]: "sizeAssocIDs = 4"

definition assocIDsNumIDsOff :: nat where [simp]: "assocIDsNumIDsOff = 0"

definition assocIDsIDsOff :: nat where [simp]: "assocIDsIDsOff = 4"

definition sizeGetAddrs :: nat where [simp]: "sizeGetAddrs = 8"

definition getAddrsAssocIDOff :: nat where [simp]: "getAddrsAssocIDOff = 0"

definition getAddrsAddrNumOff :: nat where [simp]: "getAddrsAddrNumOff = 4"

definition getAddrsAddrsOff :: nat where [simp]: "getAddrsAddrsOff = 8"

definition sizeResetStreams :: nat where [simp]: "sizeResetStreams = 8"

definition resetStreamsAssocIDOff :: nat where [simp]: "resetStreamsAssocIDOff = 0"

definition resetStreamsFlagsOff :: nat where [simp]: "resetStreamsFlagsOff = 4"

definition resetStreamsNumStreamsOff :: nat where [simp]: "resetStreamsNumStreamsOff = 6"

definition resetStreamsStreamListOff :: nat where [simp]: "resetStreamsStreamListOff = 8"

definition sizeAddStreams :: nat where [simp]: "sizeAddStreams = 8"

definition addStreamsAssocIDOff :: nat where [simp]: "addStreamsAssocIDOff = 0"

definition addStreamsInStreamsOff :: nat where [simp]: "addStreamsInStreamsOff = 4"

definition addStreamsOutStreamsOff :: nat where [simp]: "addStreamsOutStreamsOff = 6"

definition sizeStreamValue :: nat where [simp]: "sizeStreamValue = 8"

definition streamValueAssocIDOff :: nat where [simp]: "streamValueAssocIDOff = 0"

definition streamValueStreamIDOff :: nat where [simp]: "streamValueStreamIDOff = 4"

definition streamValueValueOff :: nat where [simp]: "streamValueValueOff = 6"

definition sizeEvent :: nat where [simp]: "sizeEvent = 8"

definition eventAssocIDOff :: nat where [simp]: "eventAssocIDOff = 0"

definition eventTypeFieldOff :: nat where [simp]: "eventTypeFieldOff = 4"

definition eventOnOff :: nat where [simp]: "eventOnOff = 6"

definition sizeAssocValue :: nat where [simp]: "sizeAssocValue = 8"

definition assocValueAssocIDOff :: nat where [simp]: "assocValueAssocIDOff = 0"

definition assocValueValueOff :: nat where [simp]: "assocValueValueOff = 4"

definition sizePeeloffFlagsArg :: nat where [simp]: "sizePeeloffFlagsArg = 12"

definition peeloffFlagsArgAssocIDOff :: nat where [simp]: "peeloffFlagsArgAssocIDOff = 0"

definition peeloffFlagsArgSDOff :: nat where [simp]: "peeloffFlagsArgSDOff = 4"

definition peeloffFlagsArgFlagsOff :: nat where [simp]: "peeloffFlagsArgFlagsOff = 8"

definition sizePrim :: nat where [simp]: "sizePrim = 132"

definition primAssocIDOff :: nat where [simp]: "primAssocIDOff = 0"

definition primAddrOff :: nat where [simp]: "primAddrOff = 4"

definition sizeSetPeerPrim :: nat where [simp]: "sizeSetPeerPrim = 132"

definition setPeerPrimAssocIDOff :: nat where [simp]: "setPeerPrimAssocIDOff = 0"

definition setPeerPrimAddrOff :: nat where [simp]: "setPeerPrimAddrOff = 4"

definition sizeAuthChunk :: nat where [simp]: "sizeAuthChunk = 1"

definition sizeSetAdaptation :: nat where [simp]: "sizeSetAdaptation = 4"

definition sizeInt :: nat where [simp]: "sizeInt = 4"

definition sizeAssocID :: nat where [simp]: "sizeAssocID = 4"

definition sppHBEnable :: u32 where [simp]: "sppHBEnable = 1"

definition sppHBDisable :: u32 where [simp]: "sppHBDisable = 2"

definition sppHBDemand :: u32 where [simp]: "sppHBDemand = 4"

definition sppPMTUDEnable :: u32 where [simp]: "sppPMTUDEnable = 8"

definition sppPMTUDDisable :: u32 where [simp]: "sppPMTUDDisable = 16"

definition sppSACKDelayEnable :: u32 where [simp]: "sppSACKDelayEnable = 32"

definition sppSACKDelayDisable :: u32 where [simp]: "sppSACKDelayDisable = 64"

definition sppHBTimeIsZero :: u32 where [simp]: "sppHBTimeIsZero = 128"

definition sppIPv6FlowLabel :: u32 where [simp]: "sppIPv6FlowLabel = 256"

definition sppDSCP :: u32 where [simp]: "sppDSCP = 512"

definition flowLabelMask :: u32 where [simp]: "flowLabelMask = 1048575"

definition dscpMask :: byte where [simp]: "dscpMask = 252"

definition minPathMTU :: u32 where [simp]: "minPathMTU = 512"

definition maxSACKDelayMS :: u32 where [simp]: "maxSACKDelayMS = 500"

definition minProbeIntervalMS :: u32 where [simp]: "minProbeIntervalMS = 5000"

definition maxHMACIdents :: nat where [simp]: "maxHMACIdents = 16"

definition maxAuthChunkList :: nat where [simp]: "maxAuthChunkList = 256"

definition ssAddrOffsetKernel64 :: nat where [simp]: "ssAddrOffsetKernel64 = align_up (4) 8"

definition ssTailOffsetKernel64 :: nat where [simp]: "ssTailOffsetKernel64 = ssAddrOffsetKernel64 + sizeSockaddrStorage"

definition udpEncapsAssocIDOff :: nat where [simp]: "udpEncapsAssocIDOff = 0"

definition udpEncapsAddressOff :: "target \<Rightarrow> nat" where
  [simp]: "udpEncapsAddressOff T = ssAddrOffset T"

definition udpEncapsPortOff :: "target \<Rightarrow> nat" where
  [simp]: "udpEncapsPortOff T = ssTailOffset T"

definition sizeUDPEncaps :: "target \<Rightarrow> nat" where
  [simp]: "sizeUDPEncaps T = align_up (ssTailOffset T + 2) (ssAlign T)"

definition udpEncapsAddressOffKernel64 :: nat where [simp]: "udpEncapsAddressOffKernel64 = ssAddrOffsetKernel64"

definition sizeUDPEncapsKernel64 :: nat where [simp]: "sizeUDPEncapsKernel64 = align_up (ssTailOffsetKernel64 + 2) 8"

definition probeIntervalAssocIDOff :: nat where [simp]: "probeIntervalAssocIDOff = 0"

definition probeIntervalAddressOff :: "target \<Rightarrow> nat" where
  [simp]: "probeIntervalAddressOff T = ssAddrOffset T"

definition probeIntervalIntervalOff :: "target \<Rightarrow> nat" where
  [simp]: "probeIntervalIntervalOff T = ssTailOffset T"

definition sizeProbeInterval :: "target \<Rightarrow> nat" where
  [simp]: "sizeProbeInterval T = align_up (ssTailOffset T + 4) (ssAlign T)"

definition probeIntervalAddressOffKernel64 :: nat where [simp]: "probeIntervalAddressOffKernel64 = ssAddrOffsetKernel64"

definition sizeProbeIntervalKernel64 :: nat where [simp]: "sizeProbeIntervalKernel64 = align_up (ssTailOffsetKernel64 + 4) 8"

definition pathThresholdsAssocIDOff :: nat where [simp]: "pathThresholdsAssocIDOff = 0"

definition pathThresholdsAddressOff :: "target \<Rightarrow> nat" where
  [simp]: "pathThresholdsAddressOff T = ssAddrOffset T"

definition pathThresholdsMaxRxtOff :: "target \<Rightarrow> nat" where
  [simp]: "pathThresholdsMaxRxtOff T = ssTailOffset T"

definition pathThresholdsPFThresholdOff :: "target \<Rightarrow> nat" where
  [simp]: "pathThresholdsPFThresholdOff T = ssTailOffset T + 2"

definition pathThresholdsSwitchoverOff :: "target \<Rightarrow> nat" where
  [simp]: "pathThresholdsSwitchoverOff T = ssTailOffset T + 4"

definition sizePathThresholds :: "target \<Rightarrow> nat" where
  [simp]: "sizePathThresholds T = align_up (ssTailOffset T + 6) (ssAlign T)"

definition pathThresholdsAddressOffKernel64 :: nat where [simp]: "pathThresholdsAddressOffKernel64 = ssAddrOffsetKernel64"

definition sizePathThresholdsKernel64 :: nat where [simp]: "sizePathThresholdsKernel64 = align_up (ssTailOffsetKernel64 + 6) 8"

definition assocStatsAssocIDOff :: nat where [simp]: "assocStatsAssocIDOff = 0"

definition assocStatsAddrOff :: "target \<Rightarrow> nat" where
  [simp]: "assocStatsAddrOff T = ssAddrOffset T"

definition sizeAssocStatsHeader :: "target \<Rightarrow> nat" where
  [simp]: "sizeAssocStatsHeader T = align_up (ssTailOffset T) (u64Align T)"

definition sizeAssocStats :: "target \<Rightarrow> nat" where
  [simp]: "sizeAssocStats T = sizeAssocStatsHeader T + 15 * 8"

definition assocStatsAddrOffKernel64 :: nat where [simp]: "assocStatsAddrOffKernel64 = ssAddrOffsetKernel64"

definition sizeAssocStatsHeaderKernel64 :: nat where [simp]: "sizeAssocStatsHeaderKernel64 = align_up (ssTailOffsetKernel64) 8"

definition sizeAssocStatsKernel64 :: nat where [simp]: "sizeAssocStatsKernel64 = sizeAssocStatsHeaderKernel64 + 15 * 8"

definition udpEncapsPortOffKernel64 :: nat where [simp]: "udpEncapsPortOffKernel64 = ssTailOffsetKernel64"

definition probeIntervalIntervalOffKernel64 :: nat where [simp]: "probeIntervalIntervalOffKernel64 = ssTailOffsetKernel64"

definition pathThresholdsMaxRxtOffKernel64 :: nat where [simp]: "pathThresholdsMaxRxtOffKernel64 = ssTailOffsetKernel64"

definition pathThresholdsPFThresholdOffKernel64 :: nat where [simp]: "pathThresholdsPFThresholdOffKernel64 = ssTailOffsetKernel64 + 2"

definition pathThresholdsSwitchoverOffKernel64 :: nat where [simp]: "pathThresholdsSwitchoverOffKernel64 = ssTailOffsetKernel64 + 4"

definition sizePathThresholdsProbe :: "target \<Rightarrow> nat" where
  [simp]: "sizePathThresholdsProbe T = align_up (ssTailOffset T + 4) (ssAlign T)"

definition assocStatsMaxRTO :: nat where [simp]: "assocStatsMaxRTO = 0"

definition assocStatsISACKs :: nat where [simp]: "assocStatsISACKs = 1"

definition assocStatsOSACKs :: nat where [simp]: "assocStatsOSACKs = 2"

definition assocStatsOPackets :: nat where [simp]: "assocStatsOPackets = 3"

definition assocStatsIPackets :: nat where [simp]: "assocStatsIPackets = 4"

definition assocStatsRtxChunks :: nat where [simp]: "assocStatsRtxChunks = 5"

definition assocStatsOutOfSeqTSNs :: nat where [simp]: "assocStatsOutOfSeqTSNs = 6"

definition assocStatsIDupChunks :: nat where [simp]: "assocStatsIDupChunks = 7"

definition assocStatsGapCount :: nat where [simp]: "assocStatsGapCount = 8"

definition assocStatsOUODChunks :: nat where [simp]: "assocStatsOUODChunks = 9"

definition assocStatsIUODChunks :: nat where [simp]: "assocStatsIUODChunks = 10"

definition assocStatsOODChunks :: nat where [simp]: "assocStatsOODChunks = 11"

definition assocStatsIODChunks :: nat where [simp]: "assocStatsIODChunks = 12"

definition assocStatsOCtrlChunks :: nat where [simp]: "assocStatsOCtrlChunks = 13"

definition assocStatsICtrlChunks :: nat where [simp]: "assocStatsICtrlChunks = 14"

definition assocStatsCounters :: nat where [simp]: "assocStatsCounters = 15"

definition chunkTypeInit :: byte where [simp]: "chunkTypeInit = 1"

definition chunkTypeInitAck :: byte where [simp]: "chunkTypeInitAck = 2"

definition chunkTypeShutdownComplete :: byte where [simp]: "chunkTypeShutdownComplete = 14"

definition chunkTypeAuth :: byte where [simp]: "chunkTypeAuth = 15"

definition chunkTypeASCONFAck :: byte where [simp]: "chunkTypeASCONFAck = 128"

definition chunkTypeASCONF :: byte where [simp]: "chunkTypeASCONF = 193"

definition sctpNumChunkTypes :: nat where [simp]: "sctpNumChunkTypes = 20"

definition sctpAuthMaxChunks :: nat where [simp]: "sctpAuthMaxChunks = sctpNumChunkTypes - 4"

section \<open>Layout consistency\<close>

text \<open>A layout, given by its size and the (offset, width) pairs of its fields in the
  declared order, is consistent when the fields follow one another without overlapping and
  end within the struct.\<close>

type_synonym layout = "nat \<times> (nat \<times> nat) list"

fun fields_from :: "nat \<Rightarrow> (nat \<times> nat) list \<Rightarrow> nat \<Rightarrow> bool" where
  "fields_from at [] sz \<longleftrightarrow> at \<le> sz"
| "fields_from at ((off, w) # fs) sz \<longleftrightarrow> at \<le> off \<and> 0 < w \<and> fields_from (off + w) fs sz"

definition wf_layout :: "layout \<Rightarrow> bool" where
  "wf_layout l \<longleftrightarrow> fields_from 0 (snd l) (fst l)"

text \<open>The structs whose layout depends at most on the width of \<open>cmsg_len\<close>.\<close>

definition plainStructs :: "target \<Rightarrow> layout list" where
  "plainStructs T =
    [(sizeSockaddrIn, [(sockaddrInFamilyOff, 2), (sockaddrInPortOff, 2), (sockaddrInAddrOff,
       4)]),
     (sizeSockaddrIn6, [(sockaddrIn6FamilyOff, 2), (sockaddrIn6PortOff, 2),
       (sockaddrIn6FlowInfoOff, 4), (sockaddrIn6AddrOff, 16), (sockaddrIn6ScopeIDOff, 4)]),
     (sizeCmsghdr T, [(cmsghdrLenOff, wordSize T), (cmsghdrLevelOff T, 4), (cmsghdrTypeOff T,
       4)]),
     (sizeSndInfo, [(sndInfoStreamOff, 2), (sndInfoFlagsOff, 2), (sndInfoPPIDOff, 4),
       (sndInfoContextOff, 4), (sndInfoAssocIDOff, 4)]),
     (sizePrInfo, [(prInfoPolicyOff, 2), (prInfoValueOff, 4)]),
     (sizeAuthInfo, [(authInfoKeyNumberOff, 2)]),
     (sizeRcvInfo, [(rcvInfoStreamOff, 2), (rcvInfoSSNOff, 2), (rcvInfoFlagsOff, 2),
       (rcvInfoPPIDOff, 4), (rcvInfoTSNOff, 4), (rcvInfoCumTSNOff, 4), (rcvInfoContextOff, 4),
       (rcvInfoAssocIDOff, 4)]),
     (sizeNxtInfo, [(nxtInfoStreamOff, 2), (nxtInfoFlagsOff, 2), (nxtInfoPPIDOff, 4),
       (nxtInfoLengthOff, 4), (nxtInfoAssocIDOff, 4)]),
     (notificationHeaderSize, [(notificationTypeOff, 2), (notificationFlagsOff, 2),
       (notificationLengthOff, 4)]),
     (sizeAssocChange, [(assocChangeTypeOff, 2), (assocChangeFlagsOff, 2),
       (assocChangeLengthOff, 4), (assocChangeStateOff, 2), (assocChangeErrorOff, 2),
       (assocChangeOutStreamsOff, 2), (assocChangeInStreamsOff, 2), (assocChangeAssocIDOff,
       4)]),
     (sizePAddrChange, [(paddrChangeTypeOff, 2), (paddrChangeFlagsOff, 2),
       (paddrChangeLengthOff, 4), (paddrChangeAddrOff, sizeSockaddrStorage),
       (paddrChangeStateOff, 4), (paddrChangeErrorOff, 4), (paddrChangeAssocIDOff, 4)]),
     (sizeRemoteError, [(remoteErrorTypeOff, 2), (remoteErrorFlagsOff, 2),
       (remoteErrorLengthOff, 4), (remoteErrorErrorOff, 2), (remoteErrorAssocIDOff, 4)]),
     (sizeShutdownEvent, [(shutdownEventTypeOff, 2), (shutdownEventFlagsOff, 2),
       (shutdownEventLengthOff, 4), (shutdownEventAssocIDOff, 4)]),
     (sizeAdaptationEvent, [(adaptationEventTypeOff, 2), (adaptationEventFlagsOff, 2),
       (adaptationEventLengthOff, 4), (adaptationEventIndicationOff, 4),
       (adaptationEventAssocIDOff, 4)]),
     (sizePDAPIEvent, [(pdapiEventTypeOff, 2), (pdapiEventFlagsOff, 2), (pdapiEventLengthOff,
       4), (pdapiEventIndicationOff, 4), (pdapiEventAssocIDOff, 4), (pdapiEventStreamOff, 4),
       (pdapiEventSeqOff, 4)]),
     (sizeAuthKeyEvent, [(authKeyEventTypeOff, 2), (authKeyEventFlagsOff, 2),
       (authKeyEventLengthOff, 4), (authKeyEventKeyNumberOff, 2), (authKeyEventAltKeyNumberOff,
       2), (authKeyEventIndicationOff, 4), (authKeyEventAssocIDOff, 4)]),
     (sizeSenderDryEvent, [(senderDryEventTypeOff, 2), (senderDryEventFlagsOff, 2),
       (senderDryEventLengthOff, 4), (senderDryEventAssocIDOff, 4)]),
     (sizeStreamResetEvent, [(streamResetEventTypeOff, 2), (streamResetEventFlagsOff, 2),
       (streamResetEventLengthOff, 4), (streamResetEventAssocIDOff, 4)]),
     (sizeAssocResetEvent, [(assocResetEventTypeOff, 2), (assocResetEventFlagsOff, 2),
       (assocResetEventLengthOff, 4), (assocResetEventAssocIDOff, 4),
       (assocResetEventLocalTSNOff, 4), (assocResetEventRemoteTSNOff, 4)]),
     (sizeStreamChangeEvent, [(streamChangeEventTypeOff, 2), (streamChangeEventFlagsOff, 2),
       (streamChangeEventLengthOff, 4), (streamChangeEventAssocIDOff, 4),
       (streamChangeEventInStreamsOff, 2), (streamChangeEventOutStreamsOff, 2)]),
     (sizeSendFailedEvent, [(sendFailedEventTypeOff, 2), (sendFailedEventFlagsOff, 2),
       (sendFailedEventLengthOff, 4), (sendFailedEventErrorOff, 4), (sendFailedEventInfoOff,
       sizeSndInfo), (sendFailedEventAssocIDOff, 4)]),
     (sizeInitMsg, [(initMsgOutStreamsOff, 2), (initMsgMaxInStreamsOff, 2),
       (initMsgMaxAttemptsOff, 2), (initMsgMaxInitTimeoOff, 2)]),
     (sizeRTOInfo, [(rtoInfoAssocIDOff, 4), (rtoInfoInitialOff, 4), (rtoInfoMaxOff, 4),
       (rtoInfoMinOff, 4)]),
     (sizeAssocInfo, [(assocInfoAssocIDOff, 4), (assocInfoMaxRetransOff, 2),
       (assocInfoPeerDestinationsOff, 2), (assocInfoPeerRwndOff, 4), (assocInfoLocalRwndOff,
       4), (assocInfoCookieLifeOff, 4)]),
     (sizeDelayedSACK, [(delayedSACKAssocIDOff, 4), (delayedSACKDelayOff, 4),
       (delayedSACKFrequencyOff, 4)]),
     (sizePathParams, [(pathParamsAssocIDOff, 4), (pathParamsAddressOff,
       sizeSockaddrStorage), (pathParamsHBIntervalOff, 4), (pathParamsPathMaxRxtOff, 2),
       (pathParamsPathMTUOff, 4), (pathParamsSackDelayOff, 4), (pathParamsFlagsOff, 4),
       (pathParamsFlowLabelOff, 4), (pathParamsDSCPOff, 1)]),
     (sizePathInfo, [(pathInfoAssocIDOff, 4), (pathInfoAddressOff, sizeSockaddrStorage),
       (pathInfoStateOff, 4), (pathInfoCwndOff, 4), (pathInfoSRTTOff, 4), (pathInfoRTOOff, 4),
       (pathInfoMTUOff, 4)]),
     (sizeStatus, [(statusAssocIDOff, 4), (statusStateOff, 4), (statusRWNDOff, 4),
       (statusUnackedOff, 2), (statusPendingOff, 2), (statusInStreamsOff, 2),
       (statusOutStreamsOff, 2), (statusFragmentationPointOff, 4), (statusPrimaryOff,
       sizePathInfo)]),
     (sizePRStatus, [(prStatusAssocIDOff, 4), (prStatusStreamOff, 2), (prStatusPolicyOff, 2),
       (prStatusAbandonedUnsentOff, 8), (prStatusAbandonedSentOff, 8)]),
     (sizeDefaultPRInfo, [(defaultPRInfoAssocIDOff, 4), (defaultPRInfoValueOff, 4),
       (defaultPRInfoPolicyOff, 2)]),
     (sizeAuthKey, [(authKeyAssocIDOff, 4), (authKeyKeyNumberOff, 2), (authKeyKeyLengthOff,
       2)]),
     (sizeAuthKeyID, [(authKeyIDAssocIDOff, 4), (authKeyIDKeyNumberOff, 2)]),
     (sizeHMACAlgo, [(hmacAlgoNumIdentsOff, 4)]),
     (sizeAuthChunks, [(authChunksAssocIDOff, 4), (authChunksNumChunksOff, 4)]),
     (sizeAssocIDs, [(assocIDsNumIDsOff, 4)]),
     (sizeGetAddrs, [(getAddrsAssocIDOff, 4), (getAddrsAddrNumOff, 4)]),
     (sizeResetStreams, [(resetStreamsAssocIDOff, 4), (resetStreamsFlagsOff, 2),
       (resetStreamsNumStreamsOff, 2)]),
     (sizeAddStreams, [(addStreamsAssocIDOff, 4), (addStreamsInStreamsOff, 2),
       (addStreamsOutStreamsOff, 2)]),
     (sizeStreamValue, [(streamValueAssocIDOff, 4), (streamValueStreamIDOff, 2),
       (streamValueValueOff, 2)]),
     (sizeEvent, [(eventAssocIDOff, 4), (eventTypeFieldOff, 2), (eventOnOff, 1)]),
     (sizeAssocValue, [(assocValueAssocIDOff, 4), (assocValueValueOff, 4)]),
     (sizePeeloffFlagsArg, [(peeloffFlagsArgAssocIDOff, 4), (peeloffFlagsArgSDOff, 4),
       (peeloffFlagsArgFlagsOff, 4)]),
     (sizePrim, [(primAssocIDOff, 4), (primAddrOff, sizeSockaddrStorage)]),
     (sizeSetPeerPrim, [(setPeerPrimAssocIDOff, 4), (setPeerPrimAddrOff,
       sizeSockaddrStorage)])]"

text \<open>The structs that embed a naturally aligned \<open>sockaddr_storage\<close>: the target's own form
  and the form a 64-bit kernel always has.\<close>

definition storageStructs :: "target \<Rightarrow> layout list" where
  "storageStructs T =
    [(sizeUDPEncaps T, [(udpEncapsAssocIDOff, 4), (udpEncapsAddressOff T,
       sizeSockaddrStorage), (udpEncapsPortOff T, 2)]),
     (sizeProbeInterval T, [(probeIntervalAssocIDOff, 4), (probeIntervalAddressOff T,
       sizeSockaddrStorage), (probeIntervalIntervalOff T, 4)]),
     (sizePathThresholds T, [(pathThresholdsAssocIDOff, 4), (pathThresholdsAddressOff T,
       sizeSockaddrStorage), (pathThresholdsMaxRxtOff T, 2), (pathThresholdsPFThresholdOff T,
       2), (pathThresholdsSwitchoverOff T, 2)]),
     (sizeAssocStats T, [(assocStatsAssocIDOff, 4), (assocStatsAddrOff T,
       sizeSockaddrStorage), (sizeAssocStatsHeader T, 8 * assocStatsCounters)]),
     (sizeUDPEncapsKernel64, [(udpEncapsAssocIDOff, 4), (udpEncapsAddressOffKernel64,
       sizeSockaddrStorage), (udpEncapsPortOffKernel64, 2)]),
     (sizeProbeIntervalKernel64, [(probeIntervalAssocIDOff, 4),
       (probeIntervalAddressOffKernel64, sizeSockaddrStorage),
       (probeIntervalIntervalOffKernel64, 4)]),
     (sizePathThresholdsKernel64, [(pathThresholdsAssocIDOff, 4),
       (pathThresholdsAddressOffKernel64, sizeSockaddrStorage),
       (pathThresholdsMaxRxtOffKernel64, 2), (pathThresholdsPFThresholdOffKernel64, 2),
       (pathThresholdsSwitchoverOffKernel64, 2)]),
     (sizeAssocStatsKernel64, [(assocStatsAssocIDOff, 4), (assocStatsAddrOffKernel64,
       sizeSockaddrStorage), (sizeAssocStatsHeaderKernel64, 8 * assocStatsCounters)])]"

definition kernelStructs :: "target \<Rightarrow> layout list" where
  "kernelStructs T = plainStructs T @ storageStructs T"

lemma fields_from_le: "fields_from at fs sz \<Longrightarrow> at \<le> sz"
  by (induction at fs sz rule: fields_from.induct) auto

lemma fields_from_end: "fields_from at fs sz \<Longrightarrow> (off, w) \<in> set fs \<Longrightarrow> at \<le> off \<and> off + w \<le> sz"
proof (induction fs arbitrary: at)
  case Nil
  then show ?case by simp
next
  case (Cons f fs)
  obtain o' w' where f: "f = (o', w')" by fastforce
  from Cons.prems(1) have step: "at \<le> o'" "fields_from (o' + w') fs sz" by (simp_all add: f)
  show ?case
  proof (cases "(off, w) \<in> set fs")
    case True
    from Cons.IH [OF step(2) True] step(1) show ?thesis by simp
  next
    case False
    with Cons.prems(2) f have "off = o'" "w = w'" by auto
    moreover have "o' + w' \<le> sz" using step(2) by (rule fields_from_le)
    ultimately show ?thesis using step(1) by simp
  qed
qed

lemma wf_layout_in_bounds:
  "wf_layout l \<Longrightarrow> (off, w) \<in> set (snd l) \<Longrightarrow> off + w \<le> fst l"
  by (auto simp: wf_layout_def dest: fields_from_end)

lemma plainStructs_wf: "wf_target T \<Longrightarrow> list_all wf_layout (plainStructs T)"
  by (erule wf_target_cases) (simp_all add: plainStructs_def wf_layout_def)

lemma storageStructs_wf: "wf_target T \<Longrightarrow> list_all wf_layout (storageStructs T)"
  by (erule wf_target_cases) (simp_all add: storageStructs_def wf_layout_def)

end
