(* ===== verification/MsgInfo.thy ===== *)
theory MsgInfo
  imports Abi Errors Enums
begin

unbundle bit_operations_syntax

text \<open>
  Per-message metadata: \<open>msginfo.go\<close>, with the PR-SCTP policy checks of \<open>options.go\<close> it calls.
  The control messages a send carries (\<open>appendSendCmsgs\<close>), those a receive returns
  (\<open>parseRecvCmsgs\<close>), and the validation of what a caller asks for.

  A \<open>time.Duration\<close> is an \<open>int\<close> in nanoseconds. Go's destination slice with length zero and a
  capacity is the array behind it. \<open>cmsg_records\<close> is the reference walk of a control buffer,
  the one the kernel's own macros do; both directions are related to it.
\<close>

section \<open>Types\<close>

record SndInfo =
  snd_Stream :: u16
  snd_Flags :: SendFlags
  snd_PPID :: u32
  snd_Context :: u32

record PrInfo =
  pr_Policy :: PRPolicy
  pr_TTL :: int
  pr_Value :: u32

record RcvInfo =
  rcv_Stream :: u16
  rcv_SSN :: u16
  rcv_Unordered :: bool
  rcv_PPID :: u32
  rcv_TSN :: u32
  rcv_CumTSN :: u32
  rcv_Context :: u32
  rcv_AssocID :: AssocID

record NxtInfo =
  nxt_Stream :: u16
  nxt_Unordered :: bool
  nxt_Notification :: bool
  nxt_PPID :: u32
  nxt_Length :: u32
  nxt_AssocID :: AssocID

record MsgInfo =
  mi_EOR :: bool
  mi_Notification :: bool
  mi_Rcv :: RcvInfo
  mi_Nxt :: NxtInfo
  mi_HasNxt :: bool

text \<open>The parts of \<open>SendOptions\<close> that travel in control messages; a nil pointer is \<open>None\<close>.\<close>

record SendCtl =
  so_Info :: "SndInfo option"
  so_PR :: "PrInfo option"
  so_AuthKey :: "u16 option"

definition RcvInfo_zero :: RcvInfo where
  "RcvInfo_zero = \<lparr>rcv_Stream = 0, rcv_SSN = 0, rcv_Unordered = False, rcv_PPID = 0, rcv_TSN = 0,
     rcv_CumTSN = 0, rcv_Context = 0, rcv_AssocID = 0\<rparr>"

definition NxtInfo_zero :: NxtInfo where
  "NxtInfo_zero = \<lparr>nxt_Stream = 0, nxt_Unordered = False, nxt_Notification = False, nxt_PPID = 0,
     nxt_Length = 0, nxt_AssocID = 0\<rparr>"

definition MsgInfo_zero :: MsgInfo where
  "MsgInfo_zero = \<lparr>mi_EOR = False, mi_Notification = False, mi_Rcv = RcvInfo_zero,
     mi_Nxt = NxtInfo_zero, mi_HasNxt = False\<rparr>"

section \<open>Validation\<close>

definition Millisecond :: int where
  "Millisecond = 1000000"

definition validatePrInfo :: "string \<Rightarrow> PrInfo \<Rightarrow> goerr option" where
  "validatePrInfo field pr =
     (if and_not (pr_Policy pr) prPolicyMask \<noteq> 0 then Some (InvalidArg (field @ ''.Policy''))
      else if pr_Policy pr = PRTTL then
        if pr_Value pr \<noteq> 0 then Some (InvalidArg (field @ ''.Value''))
        else if pr_TTL pr = 0 then Some (InvalidArg (field @ ''.TTL is zero''))
        else if pr_TTL pr < 0 then Some (InvalidArg (field @ ''.TTL is negative''))
        else if pr_TTL pr mod Millisecond \<noteq> 0
          then Some (InvalidArg (field @ ''.TTL is not a whole number of milliseconds''))
        else if pr_TTL pr div Millisecond > 4294967295
          then Some (InvalidArg (field @ ''.TTL exceeds the uint32 millisecond range''))
        else None
      else if pr_TTL pr \<noteq> 0 then Some (InvalidArg (field @ ''.TTL belongs only to PRTTL''))
      else if pr_Policy pr = PRNone \<and> pr_Value pr \<noteq> 0
        then Some (InvalidArg (field @ ''.Value must be zero for PRNone''))
      else None)"

definition resolvePrInfo :: "PrInfo \<Rightarrow> u16 \<times> u32" where
  "resolvePrInfo pr =
     (if pr_Policy pr = PRNone then (pr_Policy pr, 0)
      else if pr_Policy pr = PRTTL then (pr_Policy pr, of_int (pr_TTL pr div Millisecond))
      else (pr_Policy pr, pr_Value pr))"

definition validateSendOptions :: "SendCtl \<Rightarrow> goerr option" where
  "validateSendOptions opts =
     (if (case so_Info opts of
            None \<Rightarrow> False
          | Some i \<Rightarrow> and_not (snd_Flags i) (SendUnordered OR SendSACKImmediately) \<noteq> 0)
      then Some (InvalidArg ''SendOptions.Info.Flags'')
      else case so_PR opts of
        None \<Rightarrow> None
      | Some pr \<Rightarrow> validatePrInfo ''SendOptions.PR'' pr)"

definition validateDefaultSndInfo :: "string \<Rightarrow> SndInfo \<Rightarrow> goerr option" where
  "validateDefaultSndInfo field info =
     (if and_not (snd_Flags info) SendUnordered \<noteq> 0 then Some (InvalidArg (field @ ''.Flags'')) else None)"

definition splitDefaultFlags :: "u16 \<Rightarrow> SendFlags \<times> PRPolicy" where
  "splitDefaultFlags raw = (raw AND sndFlagUnordered, raw AND prPolicyMask)"

section \<open>Control message arithmetic\<close>

text \<open>\<open>wordSize\<close> is 8 or 4; the alignment is to it.\<close>

definition cmsgAlign :: "target \<Rightarrow> nat \<Rightarrow> nat" where
  "cmsgAlign T n = align_up n (if wordSize T = 8 then 8 else 4)"

definition cmsgSpace :: "target \<Rightarrow> nat \<Rightarrow> nat" where
  "cmsgSpace T n = sizeCmsghdr T + cmsgAlign T n"

definition cmsgLen :: "target \<Rightarrow> nat \<Rightarrow> nat" where
  "cmsgLen T n = sizeCmsghdr T + n"

definition sndCmsgSpace :: "target \<Rightarrow> nat" where
  "sndCmsgSpace T = sizeCmsghdr T + align_up sizeSndInfo (wordSize T) +
     (sizeCmsghdr T + align_up sizePrInfo (wordSize T)) +
     (sizeCmsghdr T + align_up sizeAuthInfo (wordSize T))"

definition rcvCmsgSpace :: "target \<Rightarrow> nat" where
  "rcvCmsgSpace T = sizeCmsghdr T + align_up sizeRcvInfo (wordSize T) +
     (sizeCmsghdr T + align_up sizeNxtInfo (wordSize T))"

definition readWord :: "target \<Rightarrow> bytes \<Rightarrow> u64 option" where
  "readWord T b =
     (if wordSize T = 8 then get64 (native T) b 0
      else map_option ucast (get32 (native T) b 0 :: u32 option))"

definition putWord :: "target \<Rightarrow> nat \<Rightarrow> u64 \<Rightarrow> bytes \<Rightarrow> bytes option" where
  "putWord T off v b =
     (if wordSize T = 8 then put64 (native T) off v b else put32 (native T) off (ucast v) b)"

definition putCmsgHeader :: "target \<Rightarrow> nat \<Rightarrow> nat \<Rightarrow> u32 \<Rightarrow> bytes \<Rightarrow> bytes option" where
  "putCmsgHeader T off n ty dst = do {
     d1 \<leftarrow> putWord T (off + cmsghdrLenOff) (of_nat (cmsgLen T n)) dst;
     d2 \<leftarrow> put32 (native T) (off + cmsghdrLevelOff T) ipprotoSCTP d1;
     put32 (native T) (off + cmsghdrTypeOff T) ty d2
   }"

section \<open>Sending\<close>

text \<open>One \<open>if x != nil\<close> block of \<open>appendSendCmsgs\<close> each: the buffer and offset after it.\<close>

definition putSndInfo :: "target \<Rightarrow> SndInfo option \<Rightarrow> AssocID \<Rightarrow> nat \<times> bytes \<Rightarrow> (nat \<times> bytes) option" where
  "putSndInfo T sinfo assoc = (\<lambda>(off, dst).
     case sinfo of None \<Rightarrow> Some (off, dst)
     | Some s \<Rightarrow> do {
         d0 \<leftarrow> putCmsgHeader T off sizeSndInfo cmsgSndInfo dst;
         let p = off + sizeCmsghdr T;
         d1 \<leftarrow> put16 (native T) (p + sndInfoStreamOff) (snd_Stream s) d0;
         d2 \<leftarrow> put16 (native T) (p + sndInfoFlagsOff) (snd_Flags s) d1;
         d3 \<leftarrow> put32 BigEndian (p + sndInfoPPIDOff) (snd_PPID s) d2;
         d4 \<leftarrow> put32 (native T) (p + sndInfoContextOff) (snd_Context s) d3;
         d5 \<leftarrow> put32 (native T) (p + sndInfoAssocIDOff) assoc d4;
         Some (off + cmsgSpace T sizeSndInfo, d5)
       })"

definition putPrInfo :: "target \<Rightarrow> PrInfo option \<Rightarrow> nat \<times> bytes \<Rightarrow> (nat \<times> bytes) option" where
  "putPrInfo T pr = (\<lambda>(off, dst).
     case pr of None \<Rightarrow> Some (off, dst)
     | Some p \<Rightarrow> do {
         d0 \<leftarrow> putCmsgHeader T off sizePrInfo cmsgPrInfo dst;
         let q = off + sizeCmsghdr T;
         let (policy, val) = resolvePrInfo p;
         d1 \<leftarrow> put16 (native T) (q + prInfoPolicyOff) policy d0;
         d2 \<leftarrow> put32 (native T) (q + prInfoValueOff) val d1;
         Some (off + cmsgSpace T sizePrInfo, d2)
       })"

definition putAuthInfo :: "target \<Rightarrow> u16 option \<Rightarrow> nat \<times> bytes \<Rightarrow> (nat \<times> bytes) option" where
  "putAuthInfo T key = (\<lambda>(off, dst).
     case key of None \<Rightarrow> Some (off, dst)
     | Some k \<Rightarrow> do {
         d0 \<leftarrow> putCmsgHeader T off sizeAuthInfo cmsgAuthInfo dst;
         let p = off + sizeCmsghdr T;
         d1 \<leftarrow> put16 (native T) (p + authInfoKeyNumberOff) k d0;
         Some (off + cmsgSpace T sizeAuthInfo, d1)
       })"

text \<open>\<open>dstLen\<close> is the length of the destination, \<open>dst\<close> the array behind it up to its
  capacity; the result is the number of bytes used and the array after the call.\<close>

definition appendSendCmsgs ::
  "target \<Rightarrow> nat \<Rightarrow> bytes \<Rightarrow> SndInfo option \<Rightarrow> AssocID \<Rightarrow> PrInfo option \<Rightarrow> u16 option \<Rightarrow> (nat \<times> bytes) option" where
  "appendSendCmsgs T dstLen dst sinfo assoc pr key =
     (if dstLen \<noteq> 0 then None
      else let total = (case sinfo of None \<Rightarrow> 0 | Some _ \<Rightarrow> cmsgSpace T sizeSndInfo) +
                       (case pr of None \<Rightarrow> 0 | Some _ \<Rightarrow> cmsgSpace T sizePrInfo) +
                       (case key of None \<Rightarrow> 0 | Some _ \<Rightarrow> cmsgSpace T sizeAuthInfo)
           in do {
             d0 \<leftarrow> put_bytes 0 (replicate total 0) dst;
             s1 \<leftarrow> putSndInfo T sinfo assoc (0, d0);
             s2 \<leftarrow> putPrInfo T pr s1;
             putAuthInfo T key s2
           })"

section \<open>Receiving\<close>

definition decodeRcvInfo :: "target \<Rightarrow> bytes \<Rightarrow> RcvInfo option" where
  "decodeRcvInfo T b = do {
     stream \<leftarrow> get16 (native T) b rcvInfoStreamOff;
     ssn \<leftarrow> get16 (native T) b rcvInfoSSNOff;
     flags \<leftarrow> get16 (native T) b rcvInfoFlagsOff;
     ppid \<leftarrow> get32 BigEndian b rcvInfoPPIDOff;
     tsn \<leftarrow> get32 (native T) b rcvInfoTSNOff;
     cum \<leftarrow> get32 (native T) b rcvInfoCumTSNOff;
     ctx \<leftarrow> get32 (native T) b rcvInfoContextOff;
     aid \<leftarrow> get32 (native T) b rcvInfoAssocIDOff;
     Some \<lparr>rcv_Stream = stream, rcv_SSN = ssn, rcv_Unordered = has_flag flags sndFlagUnordered,
       rcv_PPID = ppid, rcv_TSN = tsn, rcv_CumTSN = cum, rcv_Context = ctx, rcv_AssocID = aid\<rparr>
   }"

definition decodeNxtInfo :: "target \<Rightarrow> bytes \<Rightarrow> NxtInfo option" where
  "decodeNxtInfo T b = do {
     flags \<leftarrow> get16 (native T) b nxtInfoFlagsOff;
     stream \<leftarrow> get16 (native T) b nxtInfoStreamOff;
     ppid \<leftarrow> get32 BigEndian b nxtInfoPPIDOff;
     len \<leftarrow> get32 (native T) b nxtInfoLengthOff;
     aid \<leftarrow> get32 (native T) b nxtInfoAssocIDOff;
     Some \<lparr>nxt_Stream = stream, nxt_Unordered = has_flag flags sndFlagUnordered,
       nxt_Notification = has_flag flags (ucast msgNotification), nxt_PPID = ppid, nxt_Length = len,
       nxt_AssocID = aid\<rparr>
   }"

text \<open>The \<open>switch\<close> on one record's level and type.\<close>

definition takeCmsg :: "target \<Rightarrow> u32 \<Rightarrow> u32 \<Rightarrow> bytes \<Rightarrow> MsgInfo \<Rightarrow> MsgInfo option" where
  "takeCmsg T level ty payload info =
     (if level = ipprotoSCTP then
        if ty = cmsgRcvInfo then
          (if \<not> mi_Notification info \<and> length payload \<ge> sizeRcvInfo
           then map_option (\<lambda>r. info\<lparr>mi_Rcv := r\<rparr>) (decodeRcvInfo T payload) else Some info)
        else if ty = cmsgNxtInfo then
          (if length payload \<ge> sizeNxtInfo
           then map_option (\<lambda>n. info\<lparr>mi_Nxt := n, mi_HasNxt := True\<rparr>) (decodeNxtInfo T payload) else Some info)
        else Some info
      else Some info)"

lemma cmsgAlign_ge: "n \<le> cmsgAlign T n"
  by (simp add: cmsgAlign_def) presburger

text \<open>The walk: it stops at a header that does not fit, or whose declared length does not.\<close>

function parseRecvCmsgs_loop :: "target \<Rightarrow> bytes \<Rightarrow> MsgInfo \<Rightarrow> MsgInfo option" where
  "parseRecvCmsgs_loop T oob info =
     (if length oob < sizeCmsghdr T then Some info
      else do {
        len \<leftarrow> readWord T oob;
        (if unat len < sizeCmsghdr T \<or> unat len > length oob then Some info
         else do {
           level \<leftarrow> get32 (native T) oob (cmsghdrLevelOff T);
           ty \<leftarrow> get32 (native T) oob (cmsghdrTypeOff T);
           payload \<leftarrow> subslice (sizeCmsghdr T) (unat len) oob;
           info' \<leftarrow> takeCmsg T level ty payload info;
           let adv = cmsgAlign T (unat len);
           (if adv > length oob then Some info' else parseRecvCmsgs_loop T (drop adv oob) info')
         })
      })"
  by pat_completeness auto
termination
proof (relation "measure (\<lambda>(T, oob, info). length oob)", goal_cases)
  case (2 T oob info len level ty payload info' adv)
  have "0 < adv" using 2 cmsgAlign_ge [of "unat len" T] by simp
  with 2 show ?case by auto
qed simp

declare parseRecvCmsgs_loop.simps [simp del]

definition parseRecvCmsgs :: "target \<Rightarrow> bytes \<Rightarrow> u32 \<Rightarrow> (goerr option \<times> MsgInfo) option" where
  "parseRecvCmsgs T oob flags = do {
     let info0 = MsgInfo_zero\<lparr>mi_EOR := has_flag flags msgEOR, mi_Notification := has_flag flags msgNotification\<rparr>;
     info \<leftarrow> parseRecvCmsgs_loop T oob info0;
     Some (if has_flag flags msgCtrunc then Some ErrControlTruncated else None, info)
   }"

section \<open>Control buffers as lists of records\<close>

text \<open>One record as \<open>put_cmsg\<close> and the macros lay it out: header, payload, padding to the word.\<close>

definition cmsg_header :: "target \<Rightarrow> nat \<Rightarrow> u32 \<Rightarrow> u32 \<Rightarrow> bytes" where
  "cmsg_header T n level ty =
     (if wordSize T = 8 then enc_int (native T) (of_nat (cmsgLen T n) :: u64)
      else enc_int (native T) (of_nat (cmsgLen T n) :: u32)) @ enc_int (native T) level @ enc_int (native T) ty"

definition cmsg_bytes :: "target \<Rightarrow> u32 \<times> u32 \<times> bytes \<Rightarrow> bytes" where
  "cmsg_bytes T = (\<lambda>(level, ty, payload).
     cmsg_header T (length payload) level ty @ payload @
     replicate (cmsgSpace T (length payload) - cmsgLen T (length payload)) 0)"

definition fold_cmsgs :: "target \<Rightarrow> (u32 \<times> u32 \<times> bytes) list \<Rightarrow> MsgInfo \<Rightarrow> MsgInfo option" where
  "fold_cmsgs T rs info =
     foldl (\<lambda>i (level, ty, payload). Option.bind i (takeCmsg T level ty payload)) (Some info) rs"

lemma wf_wordSize: "wf_target T \<Longrightarrow> wordSize T = 8 \<or> wordSize T = 4"
  by (auto simp: wf_target_def)

lemma length_cmsg_header [simp]: "wf_target T \<Longrightarrow> length (cmsg_header T n level ty) = sizeCmsghdr T"
  using wf_wordSize [of T] by (auto simp: cmsg_header_def)

lemma cmsgAlign_cmsgLen: "wf_target T \<Longrightarrow> cmsgAlign T (cmsgLen T n) = cmsgSpace T n"
  using wf_wordSize [of T] by (auto simp: cmsgAlign_def cmsgSpace_def cmsgLen_def; presburger)

lemma cmsgLen_le_space: "cmsgLen T n \<le> cmsgSpace T n"
  using cmsgAlign_ge [of n T] by (simp add: cmsgLen_def cmsgSpace_def)

lemma length_cmsg_bytes [simp]:
  "wf_target T \<Longrightarrow> length (cmsg_bytes T (level, ty, payload)) = cmsgSpace T (length payload)"
  using cmsgLen_le_space [of T "length payload"] by (simp add: cmsg_bytes_def cmsgLen_def)

lemma unat_ucast_64: "unat (ucast (w :: u32) :: u64) = unat w"
proof -
  have "uint (ucast w :: u64) = uint w" by (rule uint_up_ucast) (simp add: is_up)
  then show ?thesis by (metis nat_uint_eq)
qed

lemma readWord_header:
  assumes "wf_target T" "cmsgLen T n < 2 ^ 32"
  shows "map_option unat (readWord T (cmsg_header T n level ty @ rest)) = Some (cmsgLen T n)"
proof -
  have "cmsgLen T n < 2 ^ 64" using assms(2) by simp
  then have "unat (of_nat (cmsgLen T n) :: u64) = cmsgLen T n"
    by (simp add: unat_of_nat)
  moreover have "unat (of_nat (cmsgLen T n) :: u32) = cmsgLen T n"
    using assms(2) by (simp add: unat_of_nat)
  ultimately show ?thesis using wf_wordSize [OF assms(1)]
    by (auto simp: readWord_def cmsg_header_def no_panic rd_here unat_ucast_64)
qed

lemma header_level_ty:
  assumes "wf_target T"
  shows "rd32 (native T) (cmsg_header T n level ty @ rest) (wordSize T) = level"
    and "rd32 (native T) (cmsg_header T n level ty @ rest) (wordSize T + 4) = ty"
  using wf_wordSize [OF assms] by (auto simp: cmsg_header_def rd_append_right rd_here)

text \<open>The walk takes a well-formed record off the front of the buffer and goes on behind it.\<close>

lemma loop_cmsg_bytes:
  assumes "wf_target T" "cmsgLen T (length payload) < 2 ^ 32"
  shows "parseRecvCmsgs_loop T (cmsg_bytes T (level, ty, payload) @ rest) info =
    Option.bind (takeCmsg T level ty payload info) (parseRecvCmsgs_loop T rest)"
proof -
  let ?n = "length payload"
  let ?pad = "replicate (cmsgSpace T ?n - cmsgLen T ?n) (0::byte)"
  let ?b = "cmsg_bytes T (level, ty, payload) @ rest"
  have b: "?b = cmsg_header T ?n level ty @ (payload @ ?pad @ rest)" by (simp add: cmsg_bytes_def)
  obtain w where w: "readWord T ?b = Some w" "unat w = cmsgLen T ?n"
    using readWord_header [OF assms, of level ty "payload @ ?pad @ rest"] unfolding b by auto
  have len: "length ?b = cmsgSpace T ?n + length rest" using assms(1) by simp
  have fits: "\<not> (cmsgLen T ?n < sizeCmsghdr T \<or> length ?b < cmsgLen T ?n)"
    using cmsgLen_le_space [of T ?n] len by (simp add: cmsgLen_def)
  have "\<not> length ?b < sizeCmsghdr T" unfolding len by (simp add: cmsgSpace_def)
  moreover have "get32 (native T) ?b (cmsghdrLevelOff T) = Some level"
    using header_level_ty(1) [OF assms(1)] len by (simp add: no_panic b cmsgSpace_def get32_def del: append_assoc)
  moreover have "get32 (native T) ?b (cmsghdrTypeOff T) = Some ty"
    using header_level_ty(2) [OF assms(1)] len by (simp add: no_panic b cmsgSpace_def get32_def del: append_assoc)
  moreover have "subslice (sizeCmsghdr T) (cmsgLen T ?n) ?b = Some payload"
    using fits assms(1) unfolding subslice_def b by (simp add: slice_def cmsgLen_def)
  moreover have "drop (cmsgSpace T ?n) ?b = rest" using assms(1) by simp
  ultimately show ?thesis
    using fits len w cmsgAlign_cmsgLen [OF assms(1)]
    by (subst parseRecvCmsgs_loop.simps) (auto simp: Let_def split: bind_splits)
qed

lemma takeCmsg_total: "\<exists>i. takeCmsg T level ty payload info = Some i"
  by (auto simp: takeCmsg_def decodeRcvInfo_def decodeNxtInfo_def no_panic)

lemma loop_Nil [simp]: "parseRecvCmsgs_loop T [] info = Some info"
  by (subst parseRecvCmsgs_loop.simps) simp

lemma fold_cmsgs_simps [simp]:
  "fold_cmsgs T [] info = Some info"
  "fold_cmsgs T ((level, ty, payload) # rs) info =
     Option.bind (takeCmsg T level ty payload info) (fold_cmsgs T rs)"
proof -
  have "foldl (\<lambda>i (level, ty, payload). Option.bind i (takeCmsg T level ty payload)) None rs = None"
    by (induction rs) auto
  then show "fold_cmsgs T ((level, ty, payload) # rs) info =
     Option.bind (takeCmsg T level ty payload info) (fold_cmsgs T rs)"
    by (cases "takeCmsg T level ty payload info") (simp_all add: fold_cmsgs_def)
qed (simp add: fold_cmsgs_def)

lemma fold_cmsgs_append: "fold_cmsgs T (rs @ qs) info = Option.bind (fold_cmsgs T rs info) (fold_cmsgs T qs)"
  by (induction rs arbitrary: info) (auto split: bind_splits)

lemma loop_records:
  assumes "wf_target T" "\<forall>(level, ty, payload) \<in> set rs. cmsgLen T (length payload) < 2 ^ 32"
  shows "parseRecvCmsgs_loop T (concat (List.map (cmsg_bytes T) rs)) info = fold_cmsgs T rs info"
  using assms(2)
proof (induction rs arbitrary: info)
  case (Cons r rs)
  obtain level ty payload where r: "r = (level, ty, payload)" by (cases r) auto
  show ?case
    using Cons loop_cmsg_bytes [OF assms(1), of payload level ty "concat (List.map (cmsg_bytes T) rs)" info]
    by (auto simp: r intro!: Option.bind_cong)
qed simp

text \<open>The payloads the two directions carry.\<close>

definition snd_payload :: "target \<Rightarrow> SndInfo \<Rightarrow> AssocID \<Rightarrow> bytes" where
  "snd_payload T s assoc = enc_int (native T) (snd_Stream s) @ enc_int (native T) (snd_Flags s) @
     enc_int BigEndian (snd_PPID s) @ enc_int (native T) (snd_Context s) @ enc_int (native T) assoc"

definition pr_payload :: "target \<Rightarrow> PrInfo \<Rightarrow> bytes" where
  "pr_payload T p = enc_int (native T) (fst (resolvePrInfo p)) @ replicate 2 0 @
     enc_int (native T) (snd (resolvePrInfo p))"

definition rcv_payload :: "target \<Rightarrow> RcvInfo \<Rightarrow> bytes" where
  "rcv_payload T r = enc_int (native T) (rcv_Stream r) @ enc_int (native T) (rcv_SSN r) @
     enc_int (native T) (if rcv_Unordered r then sndFlagUnordered else 0) @ enc_int (native T) (0 :: u16) @
     enc_int BigEndian (rcv_PPID r) @ enc_int (native T) (rcv_TSN r) @ enc_int (native T) (rcv_CumTSN r) @
     enc_int (native T) (rcv_Context r) @ enc_int (native T) (rcv_AssocID r)"

definition nxt_payload :: "target \<Rightarrow> NxtInfo \<Rightarrow> bytes" where
  "nxt_payload T n = enc_int (native T) (nxt_Stream n) @
     enc_int (native T) ((if nxt_Unordered n then sndFlagUnordered else 0) OR
       (if nxt_Notification n then 0x8000 else 0)) @
     enc_int BigEndian (nxt_PPID n) @ enc_int (native T) (nxt_Length n) @ enc_int (native T) (nxt_AssocID n)"

definition send_records ::
  "target \<Rightarrow> SndInfo option \<Rightarrow> AssocID \<Rightarrow> PrInfo option \<Rightarrow> u16 option \<Rightarrow> (u32 \<times> u32 \<times> bytes) list" where
  "send_records T sinfo assoc pr key =
     (case sinfo of None \<Rightarrow> [] | Some s \<Rightarrow> [(ipprotoSCTP, cmsgSndInfo, snd_payload T s assoc)]) @
     (case pr of None \<Rightarrow> [] | Some p \<Rightarrow> [(ipprotoSCTP, cmsgPrInfo, pr_payload T p)]) @
     (case key of None \<Rightarrow> [] | Some k \<Rightarrow> [(ipprotoSCTP, cmsgAuthInfo, enc_int (native T) k)])"

definition recv_records :: "target \<Rightarrow> NxtInfo option \<Rightarrow> RcvInfo option \<Rightarrow> (u32 \<times> u32 \<times> bytes) list" where
  "recv_records T nxt rcv =
     (case nxt of None \<Rightarrow> [] | Some n \<Rightarrow> [(ipprotoSCTP, cmsgNxtInfo, nxt_payload T n)]) @
     (case rcv of None \<Rightarrow> [] | Some r \<Rightarrow> [(ipprotoSCTP, cmsgRcvInfo, rcv_payload T r)])"

lemma length_payloads [simp]:
  "length (snd_payload T s assoc) = 16" "length (pr_payload T p) = 8"
  "length (rcv_payload T r) = 28" "length (nxt_payload T n) = 16"
  by (simp_all add: snd_payload_def pr_payload_def rcv_payload_def nxt_payload_def)

lemma decodeRcvInfo_payload: "decodeRcvInfo T (rcv_payload T r) = Some r"
  by (simp add: decodeRcvInfo_def no_panic) (simp add: rcv_payload_def rd_append_right rd_here has_flag_def)

lemma decodeNxtInfo_payload: "decodeNxtInfo T (nxt_payload T n) = Some n"
  by (simp add: decodeNxtInfo_def no_panic) (simp add: nxt_payload_def rd_append_right rd_here has_flag_def)

subsection \<open>The three blocks of appendSendCmsgs\<close>

lemma ucast_of_nat_64_32: "ucast (of_nat k :: u64) = (of_nat k :: u32)"
  by (simp add: unsigned_of_nat word_of_nat_eq_iff)

lemma putCmsgHeader_eq:
  assumes "wf_target T" "length a = off" "sizeCmsghdr T \<le> length b"
  shows "putCmsgHeader T off n ty (a @ b) =
    Some (a @ cmsg_header T n ipprotoSCTP ty @ drop (sizeCmsghdr T) b)"
  using wf_wordSize [OF assms(1)] assms(2,3)
  by (auto simp: putCmsgHeader_def putWord_def no_panic splice_rw cmsg_header_def ucast_of_nat_64_32)

text \<open>Each block writes its record over the zeros \<open>clear\<close> left, and nothing else.\<close>

lemma putSndInfo_eq:
  assumes "wf_target T" "length a = off"
  shows "putSndInfo T (Some s) assoc (off, a @ replicate (cmsgSpace T 16) 0 @ c) =
    Some (off + cmsgSpace T 16, a @ cmsg_bytes T (ipprotoSCTP, cmsgSndInfo, snd_payload T s assoc) @ c)"
proof -
  have hdr: "putCmsgHeader T off 16 cmsgSndInfo (a @ replicate (cmsgSpace T 16) 0 @ c) =
      Some ((a @ cmsg_header T 16 ipprotoSCTP cmsgSndInfo) @ replicate (cmsgAlign T 16) 0 @ c)"
    using putCmsgHeader_eq [OF assms, of "replicate (cmsgSpace T 16) 0 @ c"] by (simp add: cmsgSpace_def)
  have sz: "cmsgAlign T 16 = 16" "cmsgSpace T 16 - cmsgLen T 16 = 0"
    by (simp_all add: cmsgAlign_def cmsgSpace_def cmsgLen_def)
  show ?thesis
    using assms hdr by (simp add: putSndInfo_def sz no_panic splice_rw cmsg_bytes_def snd_payload_def Let_def)
qed

lemma putPrInfo_eq:
  assumes "wf_target T" "length a = off"
  shows "putPrInfo T (Some p) (off, a @ replicate (cmsgSpace T 8) 0 @ c) =
    Some (off + cmsgSpace T 8, a @ cmsg_bytes T (ipprotoSCTP, cmsgPrInfo, pr_payload T p) @ c)"
proof -
  have hdr: "putCmsgHeader T off 8 cmsgPrInfo (a @ replicate (cmsgSpace T 8) 0 @ c) =
      Some ((a @ cmsg_header T 8 ipprotoSCTP cmsgPrInfo) @ replicate (cmsgAlign T 8) 0 @ c)"
    using putCmsgHeader_eq [OF assms, of "replicate (cmsgSpace T 8) 0 @ c"] by (simp add: cmsgSpace_def)
  have sz: "cmsgAlign T 8 = 8" "cmsgSpace T 8 - cmsgLen T 8 = 0"
    by (simp_all add: cmsgAlign_def cmsgSpace_def cmsgLen_def)
  obtain policy val where r: "resolvePrInfo p = (policy, val)" by fastforce
  show ?thesis
    using assms hdr
    by (simp add: putPrInfo_def sz no_panic splice_rw cmsg_bytes_def pr_payload_def Let_def r) (simp add: splice_def)
qed

lemma putAuthInfo_eq:
  assumes "wf_target T" "length a = off"
  shows "putAuthInfo T (Some k) (off, a @ replicate (cmsgSpace T 2) 0 @ c) =
    Some (off + cmsgSpace T 2, a @ cmsg_bytes T (ipprotoSCTP, cmsgAuthInfo, enc_int (native T) k) @ c)"
proof -
  have hdr: "putCmsgHeader T off 2 cmsgAuthInfo (a @ replicate (cmsgSpace T 2) 0 @ c) =
      Some ((a @ cmsg_header T 2 ipprotoSCTP cmsgAuthInfo) @ replicate (cmsgAlign T 2) 0 @ c)"
    using putCmsgHeader_eq [OF assms, of "replicate (cmsgSpace T 2) 0 @ c"] by (simp add: cmsgSpace_def)
  have sz: "2 \<le> cmsgAlign T 2" "cmsgSpace T 2 - cmsgLen T 2 = cmsgAlign T 2 - 2"
    by (simp_all add: cmsgAlign_def cmsgSpace_def cmsgLen_def)
  show ?thesis
    using assms hdr sz by (simp add: putAuthInfo_def no_panic splice_rw cmsg_bytes_def Let_def)
qed

lemmas put_blocks = putSndInfo_eq putPrInfo_eq putAuthInfo_eq

lemma put_None [simp]:
  "putSndInfo T None assoc s = Some s" "putPrInfo T None s = Some s" "putAuthInfo T None s = Some s"
  by (cases s; simp add: putSndInfo_def putPrInfo_def putAuthInfo_def)+

lemma sndCmsgSpace_eq:
  "wf_target T \<Longrightarrow> sndCmsgSpace T = cmsgSpace T 16 + cmsgSpace T 8 + cmsgSpace T 2"
  using wf_wordSize [of T] by (auto simp: sndCmsgSpace_def cmsgSpace_def cmsgAlign_def)

lemma appendSendCmsgs_records:
  assumes "wf_target T" "sndCmsgSpace T \<le> length dst"
  shows "\<exists>dst'. appendSendCmsgs T 0 dst sinfo assoc pr key =
      Some (length (concat (List.map (cmsg_bytes T) (send_records T sinfo assoc pr key))), dst') \<and>
    dst' = concat (List.map (cmsg_bytes T) (send_records T sinfo assoc pr key)) @
      drop (length (concat (List.map (cmsg_bytes T) (send_records T sinfo assoc pr key)))) dst \<and>
    length (concat (List.map (cmsg_bytes T) (send_records T sinfo assoc pr key))) \<le> sndCmsgSpace T"
proof -
  let ?a = "case sinfo of None \<Rightarrow> 0 | Some _ \<Rightarrow> cmsgSpace T 16"
  let ?b = "case pr of None \<Rightarrow> 0 | Some _ \<Rightarrow> cmsgSpace T 8"
  let ?c = "case key of None \<Rightarrow> 0 | Some _ \<Rightarrow> cmsgSpace T 2"
  let ?d = "drop (?a + ?b + ?c) dst"
  have tot: "?a + ?b + ?c \<le> sndCmsgSpace T"
    using sndCmsgSpace_eq [OF assms(1)] by (auto split: option.splits)
  then have clear: "put_bytes 0 (replicate (?a + ?b + ?c) 0) dst =
      Some ([] @ replicate ?a 0 @ replicate ?b 0 @ replicate ?c 0 @ ?d)"
    using assms(2) by (simp add: put_bytes_def splice_0 replicate_add add.assoc)
  have s1: "putSndInfo T sinfo assoc (0, [] @ replicate ?a 0 @ x) =
      Some (?a, (case sinfo of None \<Rightarrow> [] | Some s \<Rightarrow>
        cmsg_bytes T (ipprotoSCTP, cmsgSndInfo, snd_payload T s assoc)) @ x)" (is "_ = Some (_, ?u @ _)") for x
    using putSndInfo_eq [OF assms(1), of "[]"] by (cases sinfo) simp_all
  have la: "length ?u = ?a" using assms(1) by (cases sinfo) simp_all
  have s2: "putPrInfo T pr (?a, ?u @ replicate ?b 0 @ x) =
      Some (?a + ?b, (?u @ (case pr of None \<Rightarrow> [] | Some p \<Rightarrow>
        cmsg_bytes T (ipprotoSCTP, cmsgPrInfo, pr_payload T p))) @ x)" (is "_ = Some (_, (_ @ ?v) @ _)") for x
    using putPrInfo_eq [OF assms(1) la] by (cases pr) simp_all
  have lb: "length (?u @ ?v) = ?a + ?b" using assms(1) la by (cases pr) simp_all
  have s3: "putAuthInfo T key (?a + ?b, (?u @ ?v) @ replicate ?c 0 @ x) =
      Some (?a + ?b + ?c, (?u @ ?v @ (case key of None \<Rightarrow> [] | Some k \<Rightarrow>
        cmsg_bytes T (ipprotoSCTP, cmsgAuthInfo, enc_int (native T) k))) @ x)" (is "_ = Some (_, (_ @ _ @ ?w) @ _)") for x
    using putAuthInfo_eq [OF assms(1) lb] by (cases key) simp_all
  have rec: "concat (List.map (cmsg_bytes T) (send_records T sinfo assoc pr key)) = ?u @ ?v @ ?w"
    by (simp add: send_records_def split: option.splits)
  have len: "length (?u @ ?v @ ?w) = ?a + ?b + ?c"
    using assms(1) lb by (cases key) simp_all
  have "appendSendCmsgs T 0 dst sinfo assoc pr key = Some (?a + ?b + ?c, (?u @ ?v @ ?w) @ ?d)"
    unfolding appendSendCmsgs_def sizeSndInfo_def sizePrInfo_def sizeAuthInfo_def Let_def
    by (simp add: clear s1 s2 s3 del: append_assoc append_Nil)
  with len tot show ?thesis unfolding rec by simp
qed

section \<open>Properties\<close>

text \<open>C23: the control buffer of a send holds exactly the records the call asks for, SNDINFO then
  PRINFO then AUTHINFO, each in the kernel's layout with its exact \<open>cmsg_len\<close> and zeroed
  padding: for every target, with a destination of capacity \<open>sndCmsgSpace\<close> the encoder does not
  panic, uses no more than that, and leaves the array behind the used bytes alone.\<close>

theorem appendSendCmsgs_layout:
  assumes "wf_target T" "sndCmsgSpace T \<le> length dst"
  shows "\<exists>dst'. appendSendCmsgs T 0 dst sinfo assoc pr key =
      Some (length (concat (List.map (cmsg_bytes T) (send_records T sinfo assoc pr key))), dst') \<and>
    dst' = concat (List.map (cmsg_bytes T) (send_records T sinfo assoc pr key)) @
      drop (length (concat (List.map (cmsg_bytes T) (send_records T sinfo assoc pr key)))) dst \<and>
    length (concat (List.map (cmsg_bytes T) (send_records T sinfo assoc pr key))) \<le> sndCmsgSpace T"
  using appendSendCmsgs_records [OF assms] .

theorem appendSendCmsgs_layout_witness:
  "\<exists>dst'. appendSendCmsgs i386 0 (replicate 100 0xff) None 0 None (Some 7) =
     Some (16, cmsg_bytes i386 (ipprotoSCTP, cmsgAuthInfo, enc_int LittleEndian (7 :: u16)) @ replicate 84 0xff)"
  using appendSendCmsgs_layout [of i386 "replicate 100 0xff" None 0 None "Some 7"]
  by (auto simp: send_records_def sndCmsgSpace_eq cmsgSpace_def cmsgAlign_def i386_def wf_target_def)

lemma parseRecvCmsgs_returns: "\<exists>r. parseRecvCmsgs T oob flags = Some r"
proof -
  have "\<exists>i. parseRecvCmsgs_loop T oob info = Some i" for info
  proof (induction T oob info rule: parseRecvCmsgs_loop.induct)
    case (1 T oob info)
    show ?case
    proof (cases "length oob < sizeCmsghdr T")
      case True
      then show ?thesis by (subst parseRecvCmsgs_loop.simps) simp
    next
      case False
      then have "\<exists>len. readWord T oob = Some len"
        by (cases "wordSize T = 8") (simp_all add: readWord_def no_panic)
      then obtain len where len: "readWord T oob = Some len" by blast
      show ?thesis
      proof (cases "unat len < sizeCmsghdr T \<or> unat len > length oob")
        case True
        then show ?thesis using False len by (subst parseRecvCmsgs_loop.simps) simp
      next
        case bound: False
        let ?l = "rd32 (native T) oob (cmsghdrLevelOff T)" and ?t = "rd32 (native T) oob (cmsghdrTypeOff T)"
        let ?p = "slice (sizeCmsghdr T) (unat len - sizeCmsghdr T) oob"
        have r: "get32 (native T) oob (cmsghdrLevelOff T) = Some ?l" "get32 (native T) oob (cmsghdrTypeOff T) = Some ?t"
          "subslice (sizeCmsghdr T) (unat len) oob = Some ?p"
          using False bound by (simp_all add: no_panic)
        obtain i where i: "takeCmsg T ?l ?t ?p info = Some i" using takeCmsg_total by blast
        show ?thesis
        proof (cases "cmsgAlign T (unat len) > length oob")
          case True
          then show ?thesis using False len bound r i by (subst parseRecvCmsgs_loop.simps) simp
        next
          case adv: False
          have "\<exists>j. parseRecvCmsgs_loop T (drop (cmsgAlign T (unat len)) oob) i = Some j"
            using "1.IH" [OF False len bound r i refl adv] .
          then show ?thesis using False len bound r i adv by (subst parseRecvCmsgs_loop.simps) simp
        qed
      qed
    qed
  qed
  then obtain i where "parseRecvCmsgs_loop T oob (MsgInfo_zero\<lparr>mi_EOR := has_flag flags msgEOR,
      mi_Notification := has_flag flags msgNotification\<rparr>) = Some i" by blast
  then show ?thesis by (simp add: parseRecvCmsgs_def)
qed

text \<open>The walk of a received control buffer never panics and always ends, whatever the
  kernel or a truncation left in it.\<close>

theorem parseRecvCmsgs_total: "\<exists>r. parseRecvCmsgs T oob flags = Some r"
  by (rule parseRecvCmsgs_returns)

text \<open>What the kernel attaches to a message comes out field by field: behind any records of
  other levels, a NXTINFO and a RCVINFO record, each present or not, give \<open>Nxt\<close> and \<open>Rcv\<close>
  with every field (PPIDs in host order), a notification's RCVINFO is ignored, and a truncated
  buffer is reported along with what was read.\<close>

theorem parseRecvCmsgs_decodes:
  assumes "wf_target T" "\<forall>(level, ty, payload) \<in> set foreign. level \<noteq> ipprotoSCTP \<and> length payload < 2 ^ 31"
  shows "parseRecvCmsgs T (concat (List.map (cmsg_bytes T) (foreign @ recv_records T nxt rcv))) flags =
    Some (if has_flag flags msgCtrunc then Some ErrControlTruncated else None,
      \<lparr>mi_EOR = has_flag flags msgEOR, mi_Notification = has_flag flags msgNotification,
       mi_Rcv = (if has_flag flags msgNotification then RcvInfo_zero
                 else case rcv of None \<Rightarrow> RcvInfo_zero | Some r \<Rightarrow> r),
       mi_Nxt = (case nxt of None \<Rightarrow> NxtInfo_zero | Some n \<Rightarrow> n), mi_HasNxt = (nxt \<noteq> None)\<rparr>)"
proof -
  have ws: "sizeCmsghdr T \<le> 16" using wf_wordSize [OF assms(1)] by auto
  have small: "\<forall>(level, ty, payload) \<in> set (foreign @ recv_records T nxt rcv). cmsgLen T (length payload) < 2 ^ 32"
    using assms(2) ws by (fastforce simp: cmsgLen_def recv_records_def split: option.splits)
  have "fold_cmsgs T foreign i = Some i" for i
    using assms(2) by (induction foreign) (auto simp: takeCmsg_def)
  then have "fold_cmsgs T (foreign @ recv_records T nxt rcv) i = fold_cmsgs T (recv_records T nxt rcv) i" for i
    by (simp add: fold_cmsgs_append)
  then show ?thesis
    unfolding parseRecvCmsgs_def Let_def loop_records [OF assms(1) small]
    by (cases nxt; cases rcv)
      (simp_all add: recv_records_def takeCmsg_def decodeRcvInfo_payload decodeNxtInfo_payload MsgInfo_zero_def)
qed

theorem parseRecvCmsgs_decodes_witness:
  "parseRecvCmsgs s390x
     (concat (List.map (cmsg_bytes s390x) ([(1, 2, [9])] @
        recv_records s390x None (Some (RcvInfo_zero\<lparr>rcv_Stream := 3, rcv_PPID := 46\<rparr>))))) msgEOR =
   Some (None, MsgInfo_zero\<lparr>mi_EOR := True, mi_Rcv := RcvInfo_zero\<lparr>rcv_Stream := 3, rcv_PPID := 46\<rparr>\<rparr>)"
  by (subst parseRecvCmsgs_decodes) (simp_all add: has_flag_def MsgInfo_zero_def)

text \<open>A PR-SCTP policy that passes validation reaches the kernel unchanged: the policy bits
  are within the kernel's mask, a lifetime is a positive number of milliseconds that is exactly
  the requested duration, and any other policy's value is sent as given.\<close>

theorem validated_policy_exact:
  assumes "validatePrInfo field pr = None" "resolvePrInfo pr = (policy, val)"
  shows "policy = pr_Policy pr \<and> policy AND prPolicyMask = policy \<and>
    (if policy = PRTTL then uint val * Millisecond = pr_TTL pr \<and> 0 < uint val
     else val = pr_Value pr \<and> pr_TTL pr = 0)"
proof -
  have mask: "and_not (pr_Policy pr) prPolicyMask = 0"
    using assms(1) by (auto simp: validatePrInfo_def split: if_splits)
  show ?thesis
  proof (cases "pr_Policy pr = PRTTL")
    case True
    with assms(1) have ttl: "0 < pr_TTL pr" "pr_TTL pr mod Millisecond = 0" "pr_TTL pr div Millisecond < 2 ^ 32"
      by (auto simp: validatePrInfo_def split: if_splits)
    then have "pr_TTL pr div Millisecond * Millisecond = pr_TTL pr" by (metis add.right_neutral div_mult_mod_eq)
    moreover from this ttl(1) have "0 < pr_TTL pr div Millisecond" by (simp add: Millisecond_def)
    moreover have "uint (of_int (pr_TTL pr div Millisecond) :: u32) = pr_TTL pr div Millisecond"
      using ttl calculation by (simp add: unsigned_of_int take_bit_int_eq_self)
    ultimately show ?thesis using True assms(2) by (auto simp: resolvePrInfo_def)
  next
    case False
    with assms mask show ?thesis
      by (auto simp: validatePrInfo_def resolvePrInfo_def and_not_zero_iff split: if_splits)
  qed
qed

theorem validated_policy_exact_witness:
  "validatePrInfo ''PR'' \<lparr>pr_Policy = PRTTL, pr_TTL = 250000000, pr_Value = 0\<rparr> = None \<and>
   resolvePrInfo \<lparr>pr_Policy = PRTTL, pr_TTL = 250000000, pr_Value = 0\<rparr> = (PRTTL, 250) \<and>
   uint (250 :: u32) * Millisecond = 250000000"
proof -
  let ?pr = "\<lparr>pr_Policy = PRTTL, pr_TTL = 250000000, pr_Value = 0\<rparr>"
  have "validatePrInfo ''PR'' ?pr = None" "resolvePrInfo ?pr = (PRTTL, 250)"
    by (simp_all add: validatePrInfo_def resolvePrInfo_def Millisecond_def and_not_def)
  with validated_policy_exact [of "''PR''" ?pr PRTTL 250] show ?thesis by simp
qed

end
