(* ===== verification/Sockaddr.thy ===== *)
theory Sockaddr
  imports Abi Errors Enums
begin

unbundle bit_operations_syntax

text \<open>
  The socket addresses of \<open>sockaddr.go\<close>: encoding and decoding of \<open>sockaddr_in\<close> and
  \<open>sockaddr_in6\<close>, packed lists of them, IPv6 zones, and the cache of interface names.

  \<open>netip.Addr\<close> is \<open>ipaddr\<close>: the zero value, a 32-bit IPv4 address, or a 128-bit IPv6
  address with its zone (empty for none). The host's interface table is not part of the
  program: \<open>zi\<close> is what \<open>zoneIndexes.index\<close> answers for a name during a call, and \<open>ifx\<close> what
  \<open>net.InterfaceByIndex\<close> answers for an index. The cache behind \<open>zi\<close> is modelled on its own,
  over the tables it reads and the times it reads them at.

  An encoder returns the number of bytes written and the destination buffer after it; on an
  error the buffer is untouched. The text of a refusal is the source's format string.
\<close>

section \<open>netip.Addr\<close>

datatype ipaddr = IPZero | IP4 u32 | IP6 "128 word" string

type_synonym addrport = "ipaddr \<times> u16"
type_synonym zoneEnv = "string \<Rightarrow> int option"
type_synonym ifaceEnv = "int \<Rightarrow> string option"

interpretation c128: fixed_codec "enc_int bo :: 128 word \<Rightarrow> bytes" "dec_int bo" 16 for bo
  using int_codec [where 'a = 128] by simp

fun IsValid :: "ipaddr \<Rightarrow> bool" where
  "IsValid IPZero = False"
| "IsValid _ = True"

fun Zone :: "ipaddr \<Rightarrow> string" where
  "Zone (IP6 w z) = z"
| "Zone _ = []"

definition v4InV6 :: "128 word \<Rightarrow> bool" where
  "v4InV6 w \<longleftrightarrow> drop_bit 32 w = 0xffff"

fun Is4 :: "ipaddr \<Rightarrow> bool" where
  "Is4 (IP4 v) = True"
| "Is4 _ = False"

fun Is4In6 :: "ipaddr \<Rightarrow> bool" where
  "Is4In6 (IP6 w z) = v4InV6 w"
| "Is4In6 _ = False"

fun Unmap :: "ipaddr \<Rightarrow> ipaddr" where
  "Unmap (IP6 w z) = (if v4InV6 w then IP4 (ucast w) else IP6 w z)"
| "Unmap ip = ip"

fun IsLinkLocalUnicast :: "ipaddr \<Rightarrow> bool" where
  "IsLinkLocalUnicast IPZero = False"
| "IsLinkLocalUnicast (IP4 v) \<longleftrightarrow> drop_bit 16 v = 0xa9fe"
| "IsLinkLocalUnicast (IP6 w z) \<longleftrightarrow>
     (if v4InV6 w then drop_bit 16 (ucast w :: u32) = 0xa9fe else drop_bit 118 w = 0x3fa)"

fun IsUnspecified :: "ipaddr \<Rightarrow> bool" where
  "IsUnspecified IPZero = False"
| "IsUnspecified (IP4 v) \<longleftrightarrow> v = 0"
| "IsUnspecified (IP6 w z) \<longleftrightarrow> w = 0 \<and> z = []"

fun As4 :: "ipaddr \<Rightarrow> u32" where
  "As4 (IP4 v) = v"
| "As4 (IP6 w z) = ucast w"
| "As4 IPZero = 0"

definition mapped :: "u32 \<Rightarrow> 128 word" where
  "mapped v = push_bit 32 0xffff OR ucast v"

fun As16 :: "ipaddr \<Rightarrow> 128 word" where
  "As16 (IP4 v) = mapped v"
| "As16 (IP6 w z) = w"
| "As16 IPZero = 0"

fun WithZone :: "ipaddr \<Rightarrow> string \<Rightarrow> ipaddr" where
  "WithZone (IP6 w z) z' = IP6 w z'"
| "WithZone ip z' = ip"

section \<open>Zones\<close>

definition decDigit :: "char \<Rightarrow> nat option" where
  "decDigit c = (let k = of_char c :: nat in if 48 \<le> k \<and> k \<le> 57 then Some (k - 48) else None)"

definition isDecimal :: "string \<Rightarrow> bool" where
  "isDecimal s \<longleftrightarrow> s \<noteq> [] \<and> list_all (\<lambda>c. decDigit c \<noteq> None) s"

text \<open>\<open>strconv.ParseUint(s, 10, 32)\<close>, \<open>None\<close> for its errors.\<close>

fun decValue :: "nat \<Rightarrow> string \<Rightarrow> nat option" where
  "decValue acc [] = Some acc"
| "decValue acc (c # cs) = (case decDigit c of None \<Rightarrow> None | Some d \<Rightarrow> decValue (10 * acc + d) cs)"

definition parseUint32 :: "string \<Rightarrow> u32 option" where
  "parseUint32 s =
     (if s = [] then None
      else case decValue 0 s of None \<Rightarrow> None | Some n \<Rightarrow> if n < 2 ^ 32 then Some (of_nat n) else None)"

definition encodeZone :: "zoneEnv \<Rightarrow> string \<Rightarrow> goerr + u32" where
  "encodeZone zi zone =
     (if zone = [] then Inr 0
      else case zi zone of
        Some index \<Rightarrow>
          if index < 0 then Inl (InvalidArg ''zone %q: interface index %d is negative'')
          else Inr (of_int index)
      | None \<Rightarrow>
          (case parseUint32 zone of
             None \<Rightarrow> Inl (InvalidArg ''zone %q is not an interface name or a decimal index'')
           | Some n \<Rightarrow>
               if n = 0 then Inl (InvalidArg ''zone %q: a link-local address needs a non-zero scope id'')
               else Inr n))"

text \<open>\<open>int(index)\<close> is negative on a 32-bit target for an index of \<open>2^31\<close> and above; elsewhere it
  is the index.\<close>

definition goInt :: "target \<Rightarrow> u32 \<Rightarrow> int" where
  "goInt T index = (if wordSize T = 4 then sint index else uint index)"

definition zoneName :: "target \<Rightarrow> ifaceEnv \<Rightarrow> u32 \<Rightarrow> string" where
  "zoneName T ifx index =
     (if index = 0 then []
      else let idx = goInt T index in
        if idx > 0 \<and> of_int idx = index
        then (case ifx idx of Some name \<Rightarrow> name | None \<Rightarrow> showUnsigned index)
        else showUnsigned index)"

subsection \<open>The interface-name cache\<close>

record zoneCache =
  byName :: "string \<rightharpoonup> int"
  fetched :: "int option"

text \<open>A zero \<open>fetched\<close> is \<open>None\<close>. \<open>ift\<close> is what \<open>net.Interfaces\<close> returns (\<open>None\<close> on its
  error) and \<open>later\<close> the time read after it. Times are in nanoseconds.\<close>

definition zoneCacheTTL :: int where
  "zoneCacheTTL = 60 * 1000000000"

definition zoneCache_table :: "(string \<times> int) list \<Rightarrow> string \<rightharpoonup> int" where
  "zoneCache_table ift = foldl (\<lambda>m (name, index). m(name \<mapsto> index)) Map.empty ift"

definition zoneCache_refresh ::
  "int \<Rightarrow> (string \<times> int) list option \<Rightarrow> int \<Rightarrow> string \<Rightarrow> zoneCache \<Rightarrow> int option \<times> zoneCache" where
  "zoneCache_refresh now ift later name z =
     (if (case fetched z of None \<Rightarrow> False | Some t \<Rightarrow> t > now) then (byName z name, z)
      else
        let z' = (case ift of
                    None \<Rightarrow> z
                  | Some t \<Rightarrow> z\<lparr>byName := zoneCache_table t, fetched := Some later\<rparr>)
        in (byName z' name, z'))"

definition zoneCache_index ::
  "int \<Rightarrow> (string \<times> int) list option \<Rightarrow> int \<Rightarrow> string \<Rightarrow> zoneCache \<Rightarrow> int option \<times> zoneCache" where
  "zoneCache_index now ift later name z =
     (let idx = byName z name;
          fetched' = (fetched z \<noteq> None);
          fresh = (case fetched z of None \<Rightarrow> False | Some t \<Rightarrow> now - t < zoneCacheTTL)
      in if fresh \<and> idx \<noteq> None \<or> fetched' \<and> idx = None \<and> isDecimal name then (idx, z)
         else zoneCache_refresh now ift later name z)"

section \<open>Encoding\<close>

definition sockaddrSize :: "u16 \<Rightarrow> goerr + nat" where
  "sockaddrSize family =
     (if family = afInet then Inr sizeSockaddrIn
      else if family = afInet6 then Inr sizeSockaddrIn6
      else Inl (InvalidArg ''unknown address family %d''))"

definition encodeAddr ::
  "target \<Rightarrow> zoneEnv \<Rightarrow> bytes \<Rightarrow> u16 \<Rightarrow> ipaddr \<Rightarrow> u16 \<Rightarrow> (goerr + nat \<times> bytes) option" where
  "encodeAddr T zi dst family ip port =
     (if \<not> IsValid ip then Some (Inl (InvalidArg ''address is the zero netip.Addr''))
      else let zone = Zone ip; unmapped = Unmap ip in
        if family = afInet then
          if zone \<noteq> [] then Some (Inl (InvalidArg ''address %s has a zone but the socket family is AF_INET''))
          else if \<not> Is4 unmapped then Some (Inl (InvalidArg ''address %s is not IPv4 for an AF_INET socket''))
          else if length dst < sizeSockaddrIn
            then Some (Inl (InvalidArg ''a %d byte buffer is too small for a %d byte sockaddr_in''))
          else do {
            d1 \<leftarrow> put16 (native T) sockaddrInFamilyOff afInet dst;
            d2 \<leftarrow> put16 BigEndian sockaddrInPortOff port d1;
            d3 \<leftarrow> put_bytes sockaddrInAddrOff (enc_int BigEndian (As4 unmapped)) d2;
            d4 \<leftarrow> put_bytes (sockaddrInAddrOff + 4) (replicate (sizeSockaddrIn - (sockaddrInAddrOff + 4)) 0) d3;
            Some (Inr (sizeSockaddrIn, d4))
          }
        else if family = afInet6 then
          if length dst < sizeSockaddrIn6
            then Some (Inl (InvalidArg ''a %d byte buffer is too small for a %d byte sockaddr_in6''))
          else
            case (if zone = [] then Inr 0
                  else if Is4 unmapped then Inl (InvalidArg ''address %s has a zone but is IPv4'')
                  else if \<not> IsLinkLocalUnicast unmapped
                    then Inl (InvalidArg ''address %s has a zone but is not link-local'')
                  else encodeZone zi zone) of
              Inl e \<Rightarrow> Some (Inl e)
            | Inr scope \<Rightarrow>
                let wire = (if Is4 unmapped \<and> IsUnspecified unmapped then IP6 0 [] else unmapped) in do {
                  d1 \<leftarrow> put16 (native T) sockaddrIn6FamilyOff afInet6 dst;
                  d2 \<leftarrow> put16 BigEndian sockaddrIn6PortOff port d1;
                  d3 \<leftarrow> put_bytes sockaddrIn6FlowInfoOff (replicate 4 0) d2;
                  d4 \<leftarrow> put_bytes sockaddrIn6AddrOff (enc_int BigEndian (As16 wire)) d3;
                  d5 \<leftarrow> put32 (native T) sockaddrIn6ScopeIDOff scope d4;
                  Some (Inr (sizeSockaddrIn6, d5))
                }
        else Some (Inl (InvalidArg ''unknown address family %d'')))"

text \<open>The loop of \<open>encodeAddrs\<close>: entry \<open>i\<close> goes to \<open>buf[i*sz:(i+1)*sz]\<close>.\<close>

fun encodeAddrs_loop ::
  "target \<Rightarrow> zoneEnv \<Rightarrow> u16 \<Rightarrow> nat \<Rightarrow> u16 \<Rightarrow> nat \<Rightarrow> ipaddr list \<Rightarrow> bytes \<Rightarrow> (goerr + bytes) option" where
  "encodeAddrs_loop T zi family sz port i [] buf = Some (Inr buf)"
| "encodeAddrs_loop T zi family sz port i (ip # ips) buf = do {
     entry \<leftarrow> subslice (i * sz) ((i + 1) * sz) buf;
     r \<leftarrow> encodeAddr T zi entry family ip port;
     (case r of
        Inl e \<Rightarrow> Some (Inl (InvalidArg
                   (''address '' @ show_base 10 i @ '': '' @ (case e of InvalidArg m \<Rightarrow> m | _ \<Rightarrow> []))))
      | Inr (n, entry') \<Rightarrow> do {
          buf' \<leftarrow> put_bytes (i * sz) entry' buf;
          encodeAddrs_loop T zi family sz port (i + 1) ips buf'
        })
   }"

definition encodeAddrs ::
  "target \<Rightarrow> zoneEnv \<Rightarrow> u16 \<Rightarrow> ipaddr list \<Rightarrow> u16 \<Rightarrow> (goerr + bytes) option" where
  "encodeAddrs T zi family ips port =
     (case sockaddrSize family of
        Inl e \<Rightarrow> Some (Inl e)
      | Inr sz \<Rightarrow>
          encodeAddrs_loop T zi family sz port 0 ips (replicate (length ips * sz) 0))"

section \<open>Decoding\<close>

definition errNegativeSockaddrCount :: goerr where
  "errNegativeSockaddrCount = InvalidArg ''negative sockaddr count''"

definition errTooManySockaddrs :: goerr where
  "errTooManySockaddrs =
     InvalidArg ''sockaddr count cannot fit in the buffer even at the smallest entry size''"

definition errShortSockaddrEntry :: goerr where
  "errShortSockaddrEntry = InvalidArg ''sockaddr entry runs past the end of the buffer''"

definition errUnknownSockaddrFamily :: goerr where
  "errUnknownSockaddrFamily =
     InvalidArg ''sockaddr entry names an address family this package does not decode''"

text \<open>The offset is a \<open>nat\<close>: every caller passes zero or a sum of entry sizes.\<close>

definition sockaddrEntrySize :: "target \<Rightarrow> bytes \<Rightarrow> nat \<Rightarrow> (goerr + nat) option" where
  "sockaddrEntrySize T b pos =
     (if pos + 2 > length b then Some (Inl errShortSockaddrEntry)
      else do {
        family \<leftarrow> get16 (native T) b (pos + sockaddrInFamilyOff);
        (case (if family = afInet then Some sizeSockaddrIn
               else if family = afInet6 then Some sizeSockaddrIn6 else None) of
           None \<Rightarrow> Some (Inl errUnknownSockaddrFamily)
         | Some sz \<Rightarrow>
             Some (if pos + sz > length b then Inl errShortSockaddrEntry else Inr sz))
      })"

definition decodeSockaddrEntry :: "target \<Rightarrow> ifaceEnv \<Rightarrow> bytes \<Rightarrow> (ipaddr \<times> u16) option" where
  "decodeSockaddrEntry T ifx b = do {
     family \<leftarrow> get16 (native T) b sockaddrInFamilyOff;
     port \<leftarrow> get16 BigEndian b sockaddrInPortOff;
     (if family = afInet then do {
        a4 \<leftarrow> subslice sockaddrInAddrOff (sockaddrInAddrOff + 4) b;
        Some (IP4 (dec_int BigEndian a4), port)
      }
      else do {
        a16 \<leftarrow> subslice sockaddrIn6AddrOff (sockaddrIn6AddrOff + 16) b;
        let ip = IP6 (dec_int BigEndian a16) [];
        (if Is4In6 ip then Some (Unmap ip, port)
         else if IsLinkLocalUnicast ip then do {
           scope \<leftarrow> get32 (native T) b sockaddrIn6ScopeIDOff;
           Some (if scope \<noteq> 0 then WithZone ip (zoneName T ifx scope) else ip, port)
         }
         else Some (ip, port))
      })
   }"

definition decodeAddr :: "target \<Rightarrow> ifaceEnv \<Rightarrow> bytes \<Rightarrow> (goerr + addrport) option" where
  "decodeAddr T ifx b = do {
     r \<leftarrow> sockaddrEntrySize T b 0;
     (case r of
        Inl e \<Rightarrow> Some (Inl e)
      | Inr sz \<Rightarrow> do {
          entry \<leftarrow> subslice 0 sz b;
          p \<leftarrow> decodeSockaddrEntry T ifx entry;
          Some (Inr p)
        })
   }"

text \<open>The two walks of \<open>decodeAddrs\<close>: the first validates, the second decodes; it ignores the
  error the first has excluded, which leaves a zero size.\<close>

fun decodeAddrs_check :: "target \<Rightarrow> bytes \<Rightarrow> nat \<Rightarrow> nat \<Rightarrow> (goerr + nat) option" where
  "decodeAddrs_check T b 0 pos = Some (Inr pos)"
| "decodeAddrs_check T b (Suc n) pos = do {
     r \<leftarrow> sockaddrEntrySize T b pos;
     (case r of Inl e \<Rightarrow> Some (Inl e) | Inr sz \<Rightarrow> decodeAddrs_check T b n (pos + sz))
   }"

fun decodeAddrs_walk ::
  "target \<Rightarrow> ifaceEnv \<Rightarrow> bytes \<Rightarrow> nat \<Rightarrow> nat \<Rightarrow> (ipaddr \<times> u16) list option" where
  "decodeAddrs_walk T ifx b 0 pos = Some []"
| "decodeAddrs_walk T ifx b (Suc n) pos = do {
     r \<leftarrow> sockaddrEntrySize T b pos;
     let sz = (case r of Inl e \<Rightarrow> 0 | Inr sz \<Rightarrow> sz);
     entry \<leftarrow> subslice pos (pos + sz) b;
     e \<leftarrow> decodeSockaddrEntry T ifx entry;
     es \<leftarrow> decodeAddrs_walk T ifx b n (pos + sz);
     Some (e # es)
   }"

definition decodeAddrs ::
  "target \<Rightarrow> ifaceEnv \<Rightarrow> bytes \<Rightarrow> int \<Rightarrow> (goerr + ipaddr list \<times> u16) option" where
  "decodeAddrs T ifx b n =
     (if n < 0 then Some (Inl errNegativeSockaddrCount)
      else if n = 0 then Some (Inr ([], 0))
      else if n > int (length b) div int sizeSockaddrIn then Some (Inl errTooManySockaddrs)
      else do {
        r \<leftarrow> decodeAddrs_check T b (nat n) 0;
        (case r of
           Inl e \<Rightarrow> Some (Inl e)
         | Inr _ \<Rightarrow> do {
             es \<leftarrow> decodeAddrs_walk T ifx b (nat n) 0;
             Some (Inr (List.map fst es, (case es of [] \<Rightarrow> 0 | e # _ \<Rightarrow> snd e)))
           })
      })"

section \<open>The wire images\<close>

text \<open>What an encoded entry is, field by field.\<close>

definition wire_in :: "target \<Rightarrow> u32 \<Rightarrow> u16 \<Rightarrow> bytes" where
  "wire_in T v port = enc_int (native T) afInet @ enc_int BigEndian port @ enc_int BigEndian v @ replicate 8 0"

definition wire_in6 :: "target \<Rightarrow> 128 word \<Rightarrow> u16 \<Rightarrow> u32 \<Rightarrow> bytes" where
  "wire_in6 T w port scope = enc_int (native T) afInet6 @ enc_int BigEndian port @ replicate 4 0 @
     enc_int BigEndian w @ enc_int (native T) scope"

lemma length_wire [simp]: "length (wire_in T v port) = 16" "length (wire_in6 T w port scope) = 28"
  by (simp_all add: wire_in_def wire_in6_def)

lemma v4InV6_mapped [simp]: "v4InV6 (mapped v)" "ucast (mapped v) = v"
proof -
  have "drop_bit 32 (mapped v) = 0xffff"
  proof (rule bit_word_eqI)
    fix n assume "n < LENGTH(128)"
    have "\<not> bit v (32 + n)" by (auto dest: bit_imp_le_length)
    then show "bit (drop_bit 32 (mapped v)) n = bit (0xffff :: 128 word) n"
      using \<open>n < LENGTH(128)\<close>
      by (auto simp: mapped_def bit_simps dest: bit_imp_le_length)
  qed
  then show "v4InV6 (mapped v)" by (simp add: v4InV6_def)
  have "\<not> bit (push_bit 32 0xffff :: 128 word) n" if "n < 32" for n
    using that by (simp only: bit_push_bit_iff) simp
  then show "ucast (mapped v) = v"
    unfolding mapped_def by (intro bit_word_eqI) (simp only: bit_ucast_iff bit_or_iff, auto)
qed

lemma v4InV6_0 [simp]: "\<not> v4InV6 0"
  by (simp add: v4InV6_def)

lemma Unmap_cases:
  assumes "IsValid ip"
  obtains (v4) v where "Unmap ip = IP4 v" | (v6) w z where "ip = IP6 w z" "\<not> v4InV6 w" "Unmap ip = ip"
proof (cases ip)
  case (IP6 w z)
  show ?thesis
  proof (cases "v4InV6 w")
    case True
    show ?thesis by (rule v4 [of "ucast w"]) (simp add: IP6 True)
  next
    case False
    show ?thesis by (rule v6 [of w z]) (simp_all add: IP6 False)
  qed
qed (use assms v4 in auto)

lemma encodeAddr_inet:
  assumes "IsValid ip" "Zone ip = []" "Unmap ip = IP4 v" "16 \<le> length dst"
  shows "encodeAddr T zi dst afInet ip port = Some (Inr (16, wire_in T v port @ drop 16 dst))"
  using assms by (simp add: encodeAddr_def no_panic splice_rw wire_in_def)

lemma encodeAddr_inet6:
  assumes "IsValid ip" "28 \<le> length dst"
    and "Zone ip = [] \<and> scope = 0 \<or>
      Zone ip \<noteq> [] \<and> \<not> Is4 (Unmap ip) \<and> IsLinkLocalUnicast (Unmap ip) \<and> encodeZone zi (Zone ip) = Inr scope"
  shows "encodeAddr T zi dst afInet6 ip port =
    Some (Inr (28, wire_in6 T (if Unmap ip = IP4 0 then 0 else As16 (Unmap ip)) port scope @ drop 28 dst))"
proof -
  have wire: "As16 (if Is4 (Unmap ip) \<and> IsUnspecified (Unmap ip) then IP6 0 [] else Unmap ip) =
      (if Unmap ip = IP4 0 then 0 else As16 (Unmap ip))"
    by (cases "Unmap ip") auto
  from assms(1,3) show ?thesis
    using assms(2) by (elim disjE) (auto simp: encodeAddr_def no_panic splice_rw wire_in6_def wire Let_def)
qed

text \<open>What \<open>encodeAddr\<close> accepts: IPv4 without a zone on an \<open>AF_INET\<close> socket; any address on an
  \<open>AF_INET6\<close> one, with a zone only on a link-local IPv6 address and only one that resolves.\<close>

definition encodable :: "zoneEnv \<Rightarrow> u16 \<Rightarrow> ipaddr \<Rightarrow> bool" where
  "encodable zi family ip \<longleftrightarrow> IsValid ip \<and>
     (family = afInet \<and> Zone ip = [] \<and> Is4 (Unmap ip) \<or>
      family = afInet6 \<and> (Zone ip = [] \<or>
        \<not> Is4 (Unmap ip) \<and> IsLinkLocalUnicast (Unmap ip) \<and> (\<exists>s. encodeZone zi (Zone ip) = Inr s)))"

definition entrySize :: "u16 \<Rightarrow> nat" where
  "entrySize family = (if family = afInet then sizeSockaddrIn else sizeSockaddrIn6)"

text \<open>What a decoder gives back for an encoded address: IPv4 in plain form, the IPv4 wildcard
  of an \<open>AF_INET6\<close> socket as the IPv6 one, and the zone as the name of its index.\<close>

definition canonAddr :: "target \<Rightarrow> zoneEnv \<Rightarrow> ifaceEnv \<Rightarrow> u16 \<Rightarrow> ipaddr \<Rightarrow> ipaddr" where
  "canonAddr T zi ifx family ip =
     (case Unmap ip of
        IP4 v \<Rightarrow> if family = afInet6 \<and> v = 0 then IP6 0 [] else IP4 v
      | IP6 w z \<Rightarrow> IP6 w (case encodeZone zi z of Inl e \<Rightarrow> z | Inr s \<Rightarrow> zoneName T ifx s)
      | IPZero \<Rightarrow> IPZero)"

lemma encodeZone_Nil [simp]: "encodeZone zi [] = Inr 0"
  by (simp add: encodeZone_def)

lemma zoneName_0 [simp]: "zoneName T ifx 0 = []"
  by (simp add: zoneName_def)

text \<open>The entries a decoder accepts, at any place in a buffer.\<close>

lemma rd16_append:
  "off = length a \<Longrightarrow> rd16 bo (a @ enc_int bo v @ b) off = v"
  by (simp add: rd16_def slice_def c16.dec_enc)

lemma wire_in_entry:
  "sockaddrEntrySize T (a @ wire_in T v port @ b) (length a) = Some (Inr 16)"
  by (simp add: sockaddrEntrySize_def no_panic wire_in_def rd16_append)

lemma wire_in6_entry:
  "sockaddrEntrySize T (a @ wire_in6 T w port scope @ b) (length a) = Some (Inr 28)"
  by (simp add: sockaddrEntrySize_def no_panic wire_in6_def rd16_append)

lemma decode_wire_in: "decodeSockaddrEntry T ifx (wire_in T v port) = Some (IP4 v, port)"
  using rd16_append [of 0 "[]" "native T" afInet] rd16_append [of 2 "enc_int (native T) afInet" BigEndian port]
  by (simp add: decodeSockaddrEntry_def no_panic wire_in_def slice_append_left slice_append_right c32.dec_enc)

lemma decode_wire_in6:
  "decodeSockaddrEntry T ifx (wire_in6 T w port scope) =
     Some (if v4InV6 w then IP4 (ucast w)
           else IP6 w (if drop_bit 118 w = 0x3fa then zoneName T ifx scope else []), port)"
proof -
  define pre where "pre = enc_int (native T) afInet6 @ enc_int BigEndian port @ replicate 4 0"
  have scope: "rd32 (native T) (wire_in6 T w port scope) 24 = scope"
    by (simp add: rd32_def wire_in6_def slice_append_right slice_append_left c32.dec_enc)
  have w: "slice 8 16 (wire_in6 T w port scope) = enc_int BigEndian w"
    by (simp add: wire_in6_def slice_append_right slice_append_left)
  have fam: "rd16 (native T) (wire_in6 T w port scope) 0 = afInet6"
    using rd16_append [of 0 "[]" "native T" afInet6] by (simp add: wire_in6_def)
  have port: "rd16 BigEndian (wire_in6 T w port scope) 2 = port"
    using rd16_append [of 2 "enc_int (native T) afInet6" BigEndian port] by (simp add: wire_in6_def)
  show ?thesis
    by (simp add: decodeSockaddrEntry_def no_panic scope w fam port c128.dec_enc Let_def)
qed

text \<open>One entry decodes to the canonical form of the address it encodes.\<close>

definition wireOf :: "target \<Rightarrow> zoneEnv \<Rightarrow> u16 \<Rightarrow> ipaddr \<Rightarrow> u16 \<Rightarrow> bytes" where
  "wireOf T zi family ip port =
     (if family = afInet then wire_in T (As4 (Unmap ip)) port
      else wire_in6 T (if Unmap ip = IP4 0 then 0 else As16 (Unmap ip)) port
             (case encodeZone zi (Zone ip) of Inl e \<Rightarrow> 0 | Inr s \<Rightarrow> s))"

lemma length_wireOf [simp]: "length (wireOf T zi family ip port) = entrySize family"
  by (simp add: wireOf_def entrySize_def)

lemma wireOf_entry:
  "sockaddrEntrySize T (a @ wireOf T zi family ip port @ b) (length a) = Some (Inr (entrySize family))"
  by (simp add: wireOf_def entrySize_def wire_in_entry wire_in6_entry)

lemma encodeAddr_encodable:
  assumes "encodable zi family ip" "entrySize family \<le> length dst"
  shows "encodeAddr T zi dst family ip port =
    Some (Inr (entrySize family, wireOf T zi family ip port @ drop (entrySize family) dst))"
proof (cases "family = afInet")
  case True
  with assms obtain v where "IsValid ip" "Zone ip = []" "Unmap ip = IP4 v"
    by (cases "Unmap ip") (auto simp: encodable_def)
  with True assms(2) show ?thesis
    using encodeAddr_inet [of ip v dst T zi port] by (simp add: wireOf_def entrySize_def)
next
  case False
  with assms have f: "family = afInet6" "IsValid ip" and z: "Zone ip = [] \<or>
      Zone ip \<noteq> [] \<and> \<not> Is4 (Unmap ip) \<and> IsLinkLocalUnicast (Unmap ip) \<and> (\<exists>s. encodeZone zi (Zone ip) = Inr s)"
    by (auto simp: encodable_def)
  from z obtain s where "encodeZone zi (Zone ip) = Inr s" by auto
  with z f assms(2) show ?thesis
    using encodeAddr_inet6 [of ip dst s zi T port] by (auto simp: wireOf_def entrySize_def)
qed

lemma encodeAddr_refuses:
  assumes "\<not> (encodable zi family ip \<and> entrySize family \<le> length dst)"
  shows "\<exists>m. encodeAddr T zi dst family ip port = Some (Inl (InvalidArg m))"
proof -
  have zone: "\<exists>m. a = InvalidArg m" if "encodeZone zi z = Inl a" for z a
    using that by (auto simp: encodeZone_def split: option.splits if_splits)
  from assms show ?thesis
    by (cases "encodeZone zi (Zone ip)")
      (auto simp: encodeAddr_def encodable_def entrySize_def Let_def dest: zone split: sum.splits)
qed

lemma decode_wireOf:
  assumes "encodable zi family ip"
  shows "decodeSockaddrEntry T ifx (wireOf T zi family ip port) = Some (canonAddr T zi ifx family ip, port)"
proof -
  from assms have "IsValid ip" by (simp add: encodable_def)
  then show ?thesis
  proof (cases rule: Unmap_cases)
    case (v4 v)
    with assms show ?thesis
      by (auto simp: wireOf_def canonAddr_def decode_wire_in decode_wire_in6 encodable_def split: sum.splits)
  next
    case (v6 w z)
    with assms show ?thesis
      by (auto simp: wireOf_def canonAddr_def decode_wire_in6 encodable_def split: sum.splits)
  qed
qed

section \<open>Lists of addresses\<close>

lemma encodeAddrs_loop_encodable:
  assumes "list_all (encodable zi family) ips" "length d = i * entrySize family"
    "length r = length ips * entrySize family"
  shows "encodeAddrs_loop T zi family (entrySize family) port i ips (d @ r) =
    Some (Inr (d @ concat (List.map (\<lambda>ip. wireOf T zi family ip port) ips)))"
  using assms
proof (induction ips arbitrary: i d r)
  case Nil
  then show ?case by simp
next
  case (Cons ip ips)
  define s where "s = entrySize family"
  define w where "w = wireOf T zi family ip port"
  have len: "s \<le> length r" using Cons.prems(3) by (simp add: s_def)
  have i: "length d = i * s" and lw: "length w = s" using Cons.prems(2) by (simp_all add: s_def w_def)
  have "subslice (i * s) ((i + 1) * s) (d @ r) = Some (take s r)"
    using i len by (simp add: subslice_def slice_def)
  moreover have "encodeAddr T zi (take s r) family ip port = Some (Inr (s, w))"
    using Cons.prems(1) len encodeAddr_encodable [of zi family ip "take s r" T port] by (simp add: s_def w_def)
  moreover have "put_bytes (i * s) w (d @ r) = Some ((d @ w) @ drop s r)"
    using i len lw by (simp add: put_bytes_def splice_def)
  moreover have "encodeAddrs_loop T zi family s port (i + 1) ips ((d @ w) @ drop s r) =
      Some (Inr ((d @ w) @ concat (List.map (\<lambda>ip. wireOf T zi family ip port) ips)))"
    unfolding s_def using Cons.prems i lw
    by (intro Cons.IH) (simp_all add: s_def)
  ultimately show ?case by (simp add: s_def [symmetric] w_def)
qed

lemma encodeAddrs_encodable:
  assumes "family = afInet \<or> family = afInet6" "list_all (encodable zi family) ips"
  shows "encodeAddrs T zi family ips port =
    Some (Inr (concat (List.map (\<lambda>ip. wireOf T zi family ip port) ips)))"
proof -
  have "sockaddrSize family = Inr (entrySize family)"
    using assms(1) by (auto simp: sockaddrSize_def entrySize_def)
  then show ?thesis
    using encodeAddrs_loop_encodable [OF assms(2), of "[]" 0] by (simp add: encodeAddrs_def)
qed

lemma decodeAddrs_check_wires:
  "decodeAddrs_check T (a @ concat (List.map (\<lambda>ip. wireOf T zi family ip port) ips)) (length ips) (length a) =
     Some (Inr (length a + length ips * entrySize family))"
proof (induction ips arbitrary: a)
  case (Cons ip ips)
  show ?case
    using Cons.IH [of "a @ wireOf T zi family ip port"]
    by (simp add: wireOf_entry add.assoc)
qed simp

lemma decodeAddrs_walk_wires:
  assumes "list_all (encodable zi family) ips"
  shows "decodeAddrs_walk T ifx (a @ concat (List.map (\<lambda>ip. wireOf T zi family ip port) ips)) (length ips) (length a) =
     Some (List.map (\<lambda>ip. (canonAddr T zi ifx family ip, port)) ips)"
  using assms
proof (induction ips arbitrary: a)
  case (Cons ip ips)
  then show ?case
    using Cons.IH [of "a @ wireOf T zi family ip port"]
    by (simp add: wireOf_entry subslice_def slice_def decode_wireOf)
qed simp

lemma length_concat_wires:
  "length (concat (List.map (\<lambda>ip. wireOf T zi family ip port) ips)) = length ips * entrySize family"
  by (induction ips) simp_all

text \<open>What the first walk of \<open>decodeAddrs\<close> has checked, the second can read.\<close>

lemma sockaddrEntrySize_total: "sockaddrEntrySize T b pos \<noteq> None"
  by (simp add: sockaddrEntrySize_def no_panic split: option.split)

lemma sockaddrEntrySize_Inr:
  assumes "sockaddrEntrySize T b pos = Some (Inr sz)"
  shows "pos + sz \<le> length b \<and>
    (rd16 (native T) b pos = afInet \<and> sz = 16 \<or> rd16 (native T) b pos \<noteq> afInet \<and> sz = 28)"
  using assms by (auto simp: sockaddrEntrySize_def no_panic split: if_splits)

lemma decodeSockaddrEntry_total:
  assumes "sockaddrEntrySize T b pos = Some (Inr sz)"
  shows "\<exists>e. decodeSockaddrEntry T ifx (slice pos sz b) = Some e"
proof -
  note sz = sockaddrEntrySize_Inr [OF assms]
  then show ?thesis
    by (auto simp: decodeSockaddrEntry_def no_panic Let_def rd_slice)
qed

lemma decodeAddrs_walk_total:
  "decodeAddrs_check T b n pos = Some (Inr e) \<Longrightarrow>
   \<exists>es. decodeAddrs_walk T ifx b n pos = Some es \<and> length es = n \<and> e \<le> max pos (length b) \<and> pos + 16 * n \<le> e"
proof (induction n arbitrary: pos)
  case (Suc n)
  then obtain sz where sz: "sockaddrEntrySize T b pos = Some (Inr sz)"
    and rest: "decodeAddrs_check T b n (pos + sz) = Some (Inr e)"
    by (auto split: sum.splits bind_splits)
  obtain x where x: "decodeSockaddrEntry T ifx (slice pos sz b) = Some x"
    using decodeSockaddrEntry_total [OF sz] by blast
  note b = sockaddrEntrySize_Inr [OF sz]
  with Suc.IH [OF rest] sz x show ?case by (auto simp: subslice_def)
qed simp

lemma decodeAddrs_check_total: "decodeAddrs_check T b n pos \<noteq> None"
  by (induction n arbitrary: pos) (use sockaddrEntrySize_total in \<open>auto split: sum.splits bind_splits\<close>)

section \<open>Properties\<close>

text \<open>\<open>encodeAddr\<close> never panics and accepts exactly the encodable addresses in a buffer
  large enough (IPv4 without a zone on AF_INET; on AF_INET6 any address, a zone only when it is
  link-local IPv6 and the zone resolves to an index); everything else is refused with an error
  that matches EINVAL.\<close>

theorem encodeAddr_accepts:
  "\<exists>r. encodeAddr T zi dst family ip port = Some r \<and>
     (case r of
        Inr (n, dst') \<Rightarrow> encodable zi family ip \<and> n = entrySize family \<and> n \<le> length dst
      | Inl e \<Rightarrow> \<not> (encodable zi family ip \<and> entrySize family \<le> length dst) \<and> errIs e (Errno EINVAL))"
proof (cases "encodable zi family ip \<and> entrySize family \<le> length dst")
  case True
  then show ?thesis using encodeAddr_encodable [of zi family ip dst T port] by simp
next
  case False
  from encodeAddr_refuses [OF False, of T port] show ?thesis using False by auto
qed

text \<open>What \<open>encodeAddr\<close> writes, \<open>decodeAddr\<close> reads back as the same address and port, in
  canonical form (IPv4 plain, the wildcard of a dual-stack socket as \<open>::\<close>, the zone as the name of
  its index), whatever follows it in the buffer; and it writes nothing past the entry.\<close>

theorem encodeAddr_roundtrip:
  assumes "encodeAddr T zi dst family ip port = Some (Inr (n, dst'))"
  shows "decodeAddr T ifx (dst' @ rest) = Some (Inr (canonAddr T zi ifx family ip, port)) \<and>
    length dst' = length dst \<and> drop n dst' = drop n dst"
proof -
  have ok: "encodable zi family ip \<and> entrySize family \<le> length dst"
    using encodeAddr_refuses [of zi family ip dst T port] assms by auto
  with assms have n: "n = entrySize family"
    and dst': "dst' = wireOf T zi family ip port @ drop (entrySize family) dst"
    by (auto simp: encodeAddr_encodable)
  show ?thesis using ok wireOf_entry [of T "[]"] decode_wireOf [of zi family ip T ifx port]
    by (simp add: n dst' decodeAddr_def subslice_def slice_def)
qed

theorem encodeAddr_roundtrip_witness:
  "encodeAddr amd64 (\<lambda>z. None) (replicate 28 7) afInet6 (IP6 (mapped 0x7f000001) []) 80 =
     Some (Inr (28, wire_in6 amd64 (mapped 0x7f000001) 80 0)) \<and>
   decodeAddr amd64 (\<lambda>i. None) (wire_in6 amd64 (mapped 0x7f000001) 80 0 @ [1, 2]) =
     Some (Inr (IP4 0x7f000001, 80))"
proof -
  have enc: "encodeAddr amd64 (\<lambda>z. None) (replicate 28 7) afInet6 (IP6 (mapped 0x7f000001) []) 80 =
      Some (Inr (28, wire_in6 amd64 (mapped 0x7f000001) 80 0))"
    using encodeAddr_inet6 [of "IP6 (mapped 0x7f000001) []" "replicate 28 7" 0 "\<lambda>z. None" amd64 80] by simp
  from enc encodeAddr_roundtrip [OF enc, of "\<lambda>i. None" "[1, 2]"] show ?thesis
    by (simp add: canonAddr_def)
qed

text \<open>C32: a packed list of addresses survives the trip through the kernel's format:
  \<open>decodeAddrs\<close> gives back, in order, the canonical form of every address \<open>encodeAddrs\<close> packed,
  and the port they share.\<close>

theorem encodeAddrs_roundtrip:
  assumes "family = afInet \<or> family = afInet6" "list_all (encodable zi family) ips" "ips \<noteq> []"
  shows "\<exists>buf. encodeAddrs T zi family ips port = Some (Inr buf) \<and>
    length buf = length ips * entrySize family \<and>
    decodeAddrs T ifx buf (int (length ips)) = Some (Inr (List.map (canonAddr T zi ifx family) ips, port))"
proof -
  let ?buf = "concat (List.map (\<lambda>ip. wireOf T zi family ip port) ips)"
  have "length ips \<le> length ?buf div 16"
    by (auto simp: length_concat_wires entrySize_def)
  then have fits: "\<not> int (length ips) > int (length ?buf) div int sizeSockaddrIn"
    by (simp add: zdiv_int [symmetric])
  have first: "(case List.map (\<lambda>ip. (canonAddr T zi ifx family ip, port)) ips of [] \<Rightarrow> 0 | e # _ \<Rightarrow> snd e) = port"
    using assms(3) by (cases ips) simp_all
  have "decodeAddrs T ifx ?buf (int (length ips)) = Some (Inr (List.map (canonAddr T zi ifx family) ips, port))"
    using fits assms(3) first decodeAddrs_check_wires [of T "[]" zi family port ips]
      decodeAddrs_walk_wires [OF assms(2), of T ifx "[]" port]
    by (simp add: decodeAddrs_def comp_def)
  with encodeAddrs_encodable [OF assms(1,2)] show ?thesis by (simp add: length_concat_wires)
qed

theorem encodeAddrs_roundtrip_witness:
  "\<exists>buf. encodeAddrs s390x (\<lambda>z. None) afInet [IP4 1, IP4 2] 9 = Some (Inr buf) \<and>
    decodeAddrs s390x (\<lambda>i. None) buf 2 = Some (Inr ([IP4 1, IP4 2], 9))"
  using encodeAddrs_roundtrip [of afInet "\<lambda>z. None" "[IP4 1, IP4 2]" s390x 9 "\<lambda>i. None"]
  by (auto simp: encodable_def canonAddr_def)

text \<open>\<open>decodeAddrs\<close> never panics, on any buffer and any count: it refuses with an error
  that matches EINVAL, or returns exactly the count of addresses asked for, which then all fit
  in the buffer at the smallest entry size.\<close>

theorem decodeAddrs_safe:
  "\<exists>r. decodeAddrs T ifx b n = Some r \<and>
     (case r of Inl e \<Rightarrow> errIs e (Errno EINVAL)
      | Inr (ips, port) \<Rightarrow> int (length ips) = n \<and> 16 * length ips \<le> length b)"
proof -
  have bad: "errIs e (Errno EINVAL)" if "sockaddrEntrySize T b pos = Some (Inl e)" for pos e
    using that by (auto simp: sockaddrEntrySize_def no_panic errShortSockaddrEntry_def
        errUnknownSockaddrFamily_def split: if_splits)
  have check: "errIs e (Errno EINVAL)" if "decodeAddrs_check T b k pos = Some (Inl e)" for k pos e
    using that by (induction k arbitrary: pos) (auto split: sum.splits bind_splits dest: bad)
  obtain r where r: "decodeAddrs_check T b (nat n) 0 = Some r"
    using decodeAddrs_check_total [of T b "nat n" 0] by blast
  show ?thesis
  proof (cases r)
    case (Inl e)
    with r check show ?thesis
      by (auto simp: decodeAddrs_def errNegativeSockaddrCount_def errTooManySockaddrs_def)
  next
    case (Inr e)
    with r obtain es where "decodeAddrs_walk T ifx b (nat n) 0 = Some es" "length es = nat n" "16 * nat n \<le> length b"
      using decodeAddrs_walk_total [of T b "nat n" 0 e ifx] by auto
    with r Inr show ?thesis
      by (auto simp: decodeAddrs_def errNegativeSockaddrCount_def errTooManySockaddrs_def)
  qed
qed

end
