(* ===== verification/Notifications.thy ===== *)
theory Notifications
  imports Sockaddr
begin

unbundle bit_operations_syntax

text \<open>
  The notifications of \<open>notification.go\<close>: the twelve event types the package decodes,
  \<open>ParseNotification\<close>, the decoding of error causes and address-change reasons, and the
  accumulator that reassembles a notification delivered in fragments.

  \<open>record_of\<close> is what the kernel sends for an event, from the struct declarations quoted in
  \<open>abi.go\<close>; that \<open>ParseNotification\<close> recovers every field of it is the main theorem about
  the parser. \<open>acc_rel\<close> relates an accumulator to the bytes it has been given; the theorems
  about reassembly are read off it. Go's nil and empty slices are both the empty list; the
  capacity of the accumulator's array, which only decides whether \<open>reset\<close> reuses it, is not
  modelled.
\<close>

section \<open>Notification types\<close>

definition NotificationReassemblyLimit :: nat where
  "NotificationReassemblyLimit = 1048576"

datatype Notification =
    AssocChange (ac_State: AssocChangeState) (ac_Error: ErrorCause) (ac_OutStreams: u16)
      (ac_InStreams: u16) (ac_AssocID: AssocID) (ac_Info: bytes)
  | PeerAddrChange (pac_Addr: addrport) (pac_State: AddrChangeState) (pac_Reason: AddrChangeReason)
      (pac_AssocID: AssocID)
  | SendFailed (sf_Error: ErrorCause) (sf_Sent: bool) (sf_Stream: u16) (sf_PPID: u32)
      (sf_Context: u32) (sf_Unordered: bool) (sf_FirstFragment: bool) (sf_LastFragment: bool)
      (sf_AssocID: AssocID) (sf_Data: bytes)
  | RemoteError (re_Error: ErrorCause) (re_AssocID: AssocID) (re_Data: bytes)
  | Shutdown (se_AssocID: AssocID)
  | SenderDry (sd_AssocID: AssocID)
  | PartialDelivery (pd_Stream: u32) (pd_SeqNum: u32) (pd_Unordered: bool) (pd_AssocID: AssocID)
  | AdaptationIndication (ai_Indication: u32) (ai_AssocID: AssocID)
  | AuthEvent (ae_Key: u16) (ae_AltKey: u16) (ae_Indication: AuthIndication) (ae_AssocID: AssocID)
  | StreamReset (sr_Incoming: bool) (sr_Outgoing: bool) (sr_Denied: bool) (sr_Failed: bool)
      (sr_Streams: "u16 list") (sr_AssocID: AssocID)
  | AssocReset (ar_Denied: bool) (ar_Failed: bool) (ar_LocalTSN: u32) (ar_RemoteTSN: u32)
      (ar_AssocID: AssocID)
  | StreamChange (sc_Denied: bool) (sc_Failed: bool) (sc_InStreams: u16) (sc_OutStreams: u16)
      (sc_AssocID: AssocID)
  | UnknownNotification (un_Data: bytes)

text \<open>The \<open>Type\<close> methods; that of an unknown notification reads the header of its data.\<close>

fun notificationType :: "target \<Rightarrow> Notification \<Rightarrow> EventType option" where
  "notificationType T (AssocChange _ _ _ _ _ _) = Some EventAssocChange"
| "notificationType T (PeerAddrChange _ _ _ _) = Some EventPeerAddrChange"
| "notificationType T (SendFailed _ _ _ _ _ _ _ _ _ _) = Some EventSendFailed"
| "notificationType T (RemoteError _ _ _) = Some EventRemoteError"
| "notificationType T (Shutdown _) = Some EventShutdown"
| "notificationType T (SenderDry _) = Some EventSenderDry"
| "notificationType T (PartialDelivery _ _ _ _) = Some EventPartialDelivery"
| "notificationType T (AdaptationIndication _ _) = Some EventAdaptationIndication"
| "notificationType T (AuthEvent _ _ _ _) = Some EventAuthentication"
| "notificationType T (StreamReset _ _ _ _ _ _) = Some EventStreamReset"
| "notificationType T (AssocReset _ _ _ _ _) = Some EventAssocReset"
| "notificationType T (StreamChange _ _ _ _ _) = Some EventStreamChange"
| "notificationType T (UnknownNotification d) =
     (if length d < notificationHeaderSize then Some 0 else get16 (native T) d notificationTypeOff)"

section \<open>Decoding\<close>

definition causeFromU16 :: "bytes \<Rightarrow> nat \<Rightarrow> u16 option" where
  "causeFromU16 b off = get16 BigEndian b off"

text \<open>The value the 32-bit field has in \<open>order\<close>, truncated to 16 bits, written in \<open>order\<close> and
  read big-endian.\<close>

definition causeFromU32Order :: "byte_order \<Rightarrow> bytes \<Rightarrow> nat \<Rightarrow> u16 option" where
  "causeFromU32Order order b off = do {
     x \<leftarrow> get32 order b off;
     let v = (ucast x :: u16);
     tmp \<leftarrow> put16 order 0 v (replicate 2 0);
     get16 BigEndian tmp 0
   }"

definition causeFromU32 :: "target \<Rightarrow> bytes \<Rightarrow> nat \<Rightarrow> u16 option" where
  "causeFromU32 T b off = causeFromU32Order (native T) b off"

definition decodeAddrChangeReason :: "u32 \<Rightarrow> AddrChangeState \<Rightarrow> AddrChangeReason" where
  "decodeAddrChangeReason raw state =
     (if raw = 0 then (if state = AddrUnreachable then ReasonFailedThreshold else ReasonNone)
      else if sint raw < 0 \<or> raw = 0x7fffffff then raw
      else raw + 1)"

definition decodePeerAddrChangeOrder ::
  "target \<Rightarrow> ifaceEnv \<Rightarrow> bytes \<Rightarrow> byte_order \<Rightarrow> (goerr + Notification) option" where
  "decodePeerAddrChangeOrder T ifx b order =
     (if length b < sizePAddrChange then Some (Inl ErrShortNotification)
      else do {
        a \<leftarrow> subslice paddrChangeAddrOff paddrChangeStateOff b;
        r \<leftarrow> decodeAddr T ifx a;
        (case r of
           Inl e \<Rightarrow> Some (Inl e)
         | Inr addr \<Rightarrow> do {
             state \<leftarrow> get32 order b paddrChangeStateOff;
             reason \<leftarrow> get32 order b paddrChangeErrorOff;
             aid \<leftarrow> get32 order b paddrChangeAssocIDOff;
             Some (Inr (PeerAddrChange addr state (decodeAddrChangeReason reason state) aid))
           })
      })"

definition notificationHeader :: "target \<Rightarrow> bytes \<Rightarrow> (EventType \<times> u16 \<times> u32 \<times> bool) option" where
  "notificationHeader T b =
     (if length b < notificationHeaderSize then Some (0, 0, 0, False)
      else do {
        typ \<leftarrow> get16 (native T) b notificationTypeOff;
        flags \<leftarrow> get16 (native T) b notificationFlagsOff;
        len \<leftarrow> get32 (native T) b notificationLengthOff;
        Some (typ, flags, len, True)
      })"

definition assocChangeInfoOrder ::
  "bytes \<Rightarrow> byte_order \<Rightarrow> (AssocChangeState \<times> AssocID \<times> bool) option" where
  "assocChangeInfoOrder b order =
     (if length b < sizeAssocChange then Some (0, 0, False)
      else do {
        state \<leftarrow> get16 order b assocChangeStateOff;
        aid \<leftarrow> get32 order b assocChangeAssocIDOff;
        Some (state, aid, True)
      })"

definition assocChangeInfo :: "target \<Rightarrow> bytes \<Rightarrow> (AssocChangeState \<times> AssocID \<times> bool) option" where
  "assocChangeInfo T b = assocChangeInfoOrder b (native T)"

subsection \<open>The cases of ParseNotification\<close>

text \<open>Each takes the record cut to its declared length and, where the case reads them, the
  header's flags.\<close>

definition checkedSize :: "nat \<Rightarrow> bytes \<Rightarrow> Notification option \<Rightarrow> (goerr + Notification) option" where
  "checkedSize n b rest = (if length b < n then Some (Inl ErrShortNotification) else map_option Inr rest)"

definition parseAssocChange :: "target \<Rightarrow> bytes \<Rightarrow> (goerr + Notification) option" where
  "parseAssocChange T b = checkedSize sizeAssocChange b (do {
     state \<leftarrow> get16 (native T) b assocChangeStateOff;
     err \<leftarrow> causeFromU16 b assocChangeErrorOff;
     out \<leftarrow> get16 (native T) b assocChangeOutStreamsOff;
     inn \<leftarrow> get16 (native T) b assocChangeInStreamsOff;
     aid \<leftarrow> get32 (native T) b assocChangeAssocIDOff;
     Some (AssocChange state err out inn aid
       (if length b > sizeAssocChange then drop sizeAssocChange b else []))
   })"

definition parseRemoteError :: "target \<Rightarrow> bytes \<Rightarrow> (goerr + Notification) option" where
  "parseRemoteError T b = checkedSize sizeRemoteError b (do {
     err \<leftarrow> causeFromU16 b remoteErrorErrorOff;
     aid \<leftarrow> get32 (native T) b remoteErrorAssocIDOff;
     Some (RemoteError err aid (if length b > sizeRemoteError then drop remoteErrorDataOff b else []))
   })"

definition parseShutdown :: "target \<Rightarrow> bytes \<Rightarrow> (goerr + Notification) option" where
  "parseShutdown T b = checkedSize sizeShutdownEvent b (do {
     aid \<leftarrow> get32 (native T) b shutdownEventAssocIDOff;
     Some (Shutdown aid)
   })"

definition parsePartialDelivery :: "target \<Rightarrow> u16 \<Rightarrow> bytes \<Rightarrow> (goerr + Notification) option" where
  "parsePartialDelivery T flags b = checkedSize sizePDAPIEvent b (do {
     stream \<leftarrow> get32 (native T) b pdapiEventStreamOff;
     seqn \<leftarrow> get32 (native T) b pdapiEventSeqOff;
     aid \<leftarrow> get32 (native T) b pdapiEventAssocIDOff;
     Some (PartialDelivery stream seqn (has_flag flags pdapiFlagUnordered) aid)
   })"

definition parseAdaptationIndication :: "target \<Rightarrow> bytes \<Rightarrow> (goerr + Notification) option" where
  "parseAdaptationIndication T b = checkedSize sizeAdaptationEvent b (do {
     ind \<leftarrow> get32 (native T) b adaptationEventIndicationOff;
     aid \<leftarrow> get32 (native T) b adaptationEventAssocIDOff;
     Some (AdaptationIndication ind aid)
   })"

definition parseAuthEvent :: "target \<Rightarrow> bytes \<Rightarrow> (goerr + Notification) option" where
  "parseAuthEvent T b = checkedSize sizeAuthKeyEvent b (do {
     key \<leftarrow> get16 (native T) b authKeyEventKeyNumberOff;
     alt \<leftarrow> get16 (native T) b authKeyEventAltKeyNumberOff;
     ind \<leftarrow> get32 (native T) b authKeyEventIndicationOff;
     aid \<leftarrow> get32 (native T) b authKeyEventAssocIDOff;
     Some (AuthEvent key alt ind aid)
   })"

definition parseSenderDry :: "target \<Rightarrow> bytes \<Rightarrow> (goerr + Notification) option" where
  "parseSenderDry T b = checkedSize sizeSenderDryEvent b (do {
     aid \<leftarrow> get32 (native T) b senderDryEventAssocIDOff;
     Some (SenderDry aid)
   })"

definition streamIDs :: "target \<Rightarrow> bytes \<Rightarrow> u16 list option" where
  "streamIDs T tail = those (List.map (\<lambda>i. get16 (native T) tail (i * 2)) [0..<length tail div 2])"

definition parseStreamReset :: "target \<Rightarrow> u16 \<Rightarrow> bytes \<Rightarrow> (goerr + Notification) option" where
  "parseStreamReset T flags b =
     (if length b < sizeStreamResetEvent then Some (Inl ErrShortNotification)
      else let tail = drop streamResetEventStreamsOff b in
        if length tail mod 2 \<noteq> 0 then Some (Inl ErrShortNotification)
        else do {
          streams \<leftarrow> (if length tail > 0 then streamIDs T tail else Some []);
          aid \<leftarrow> get32 (native T) b streamResetEventAssocIDOff;
          Some (Inr (StreamReset (has_flag flags streamResetFlagIncoming)
            (has_flag flags streamResetFlagOutgoing) (has_flag flags streamResetFlagDenied)
            (has_flag flags streamResetFlagFailed) streams aid))
        })"

definition parseAssocReset :: "target \<Rightarrow> u16 \<Rightarrow> bytes \<Rightarrow> (goerr + Notification) option" where
  "parseAssocReset T flags b = checkedSize sizeAssocResetEvent b (do {
     ltsn \<leftarrow> get32 (native T) b assocResetEventLocalTSNOff;
     rtsn \<leftarrow> get32 (native T) b assocResetEventRemoteTSNOff;
     aid \<leftarrow> get32 (native T) b assocResetEventAssocIDOff;
     Some (AssocReset (has_flag flags assocResetFlagDenied) (has_flag flags assocResetFlagFailed) ltsn rtsn aid)
   })"

definition parseStreamChange :: "target \<Rightarrow> u16 \<Rightarrow> bytes \<Rightarrow> (goerr + Notification) option" where
  "parseStreamChange T flags b = checkedSize sizeStreamChangeEvent b (do {
     inn \<leftarrow> get16 (native T) b streamChangeEventInStreamsOff;
     out \<leftarrow> get16 (native T) b streamChangeEventOutStreamsOff;
     aid \<leftarrow> get32 (native T) b streamChangeEventAssocIDOff;
     Some (StreamChange (has_flag flags streamChangeFlagDenied) (has_flag flags streamChangeFlagFailed) inn out aid)
   })"

definition parseSendFailed :: "target \<Rightarrow> u16 \<Rightarrow> bytes \<Rightarrow> (goerr + Notification) option" where
  "parseSendFailed T flags b = checkedSize sizeSendFailedEvent b (do {
     sndFlags \<leftarrow> get16 (native T) b (sendFailedEventInfoOff + sndInfoFlagsOff);
     err \<leftarrow> causeFromU32 T b sendFailedEventErrorOff;
     stream \<leftarrow> get16 (native T) b (sendFailedEventInfoOff + sndInfoStreamOff);
     ppid \<leftarrow> get32 BigEndian b (sendFailedEventInfoOff + sndInfoPPIDOff);
     ctx \<leftarrow> get32 (native T) b (sendFailedEventInfoOff + sndInfoContextOff);
     aid \<leftarrow> get32 (native T) b sendFailedEventAssocIDOff;
     Some (SendFailed err (has_flag flags sendFailedFlagSent) stream ppid ctx
       (has_flag sndFlags dataChunkFlagUnordered) (has_flag sndFlags dataChunkFlagFirstFragment)
       (has_flag sndFlags dataChunkFlagLastFragment) aid
       (if length b > sizeSendFailedEvent then drop sendFailedEventDataOff b else []))
   })"

definition parseByType ::
  "target \<Rightarrow> ifaceEnv \<Rightarrow> EventType \<Rightarrow> u16 \<Rightarrow> bytes \<Rightarrow> (goerr + Notification) option" where
  "parseByType T ifx typ flags b =
     (if typ = EventAssocChange then parseAssocChange T b
      else if typ = EventPeerAddrChange then decodePeerAddrChangeOrder T ifx b (native T)
      else if typ = EventRemoteError then parseRemoteError T b
      else if typ = EventShutdown then parseShutdown T b
      else if typ = EventPartialDelivery then parsePartialDelivery T flags b
      else if typ = EventAdaptationIndication then parseAdaptationIndication T b
      else if typ = EventAuthentication then parseAuthEvent T b
      else if typ = EventSenderDry then parseSenderDry T b
      else if typ = EventStreamReset then parseStreamReset T flags b
      else if typ = EventAssocReset then parseAssocReset T flags b
      else if typ = EventStreamChange then parseStreamChange T flags b
      else if typ = EventSendFailed then parseSendFailed T flags b
      else Some (Inr (UnknownNotification b)))"

definition ParseNotification :: "target \<Rightarrow> ifaceEnv \<Rightarrow> bytes \<Rightarrow> (goerr + Notification) option" where
  "ParseNotification T ifx b = do {
     (typ, flags, len, ok) \<leftarrow> notificationHeader T b;
     (if \<not> ok then Some (Inl ErrShortNotification)
      else if len < of_nat notificationHeaderSize then Some (Inl ErrShortNotification)
      else if len > of_nat NotificationReassemblyLimit then Some (Inl ErrNotificationTooLong)
      else if len > of_nat (length b) then Some (Inl ErrShortNotification)
      else do {
        b' \<leftarrow> subslice 0 (unat len) b;
        parseByType T ifx typ flags b'
      })
   }"

section \<open>Reassembly\<close>

record notificationAccumulator =
  na_data :: bytes
  na_prefix :: bytes
  na_prefixBytes :: nat
  na_total :: nat
  na_declared :: u32
  na_haveDeclared :: bool
  na_retain :: bool
  na_err :: "goerr option"

definition acc_zero :: notificationAccumulator where
  "acc_zero = \<lparr>na_data = [], na_prefix = replicate sizeAssocChange 0, na_prefixBytes = 0, na_total = 0, na_declared = 0,
     na_haveDeclared = False, na_retain = False, na_err = None\<rparr>"

definition acc_fail :: "goerr \<Rightarrow> notificationAccumulator \<Rightarrow> notificationAccumulator" where
  "acc_fail e a = a\<lparr>na_err := Some e, na_data := []\<rparr>"

text \<open>\<open>copy(a.prefix[a.prefixBytes:], fragment)\<close>, then the count.\<close>

definition acc_prefix :: "bytes \<Rightarrow> notificationAccumulator \<Rightarrow> notificationAccumulator" where
  "acc_prefix fragment a =
     (if na_prefixBytes a < length (na_prefix a)
      then let k = min (length (na_prefix a) - na_prefixBytes a) (length fragment) in
        a\<lparr>na_prefix := splice (na_prefixBytes a) (take k fragment) (na_prefix a), na_prefixBytes := na_prefixBytes a + k\<rparr>
      else a)"

text \<open>The end of \<open>add\<close>: the total against the declared length, then the retained bytes.\<close>

definition acc_append :: "bytes \<Rightarrow> notificationAccumulator \<Rightarrow> notificationAccumulator" where
  "acc_append fragment a =
     (if na_haveDeclared a \<and> of_nat (na_total a) > na_declared a then acc_fail ErrShortNotification a
      else if na_retain a then a\<lparr>na_data := na_data a @ fragment\<rparr> else a)"

definition acc_add :: "target \<Rightarrow> bytes \<Rightarrow> notificationAccumulator \<Rightarrow> notificationAccumulator option" where
  "acc_add T fragment a =
     (if na_err a \<noteq> None \<or> fragment = [] then Some a
      else if int (length fragment) > int NotificationReassemblyLimit - int (na_total a)
        then Some (acc_fail ErrNotificationTooLong a)
      else
        let a1 = acc_prefix fragment a;
            a2 = a1\<lparr>na_total := na_total a1 + length fragment\<rparr>
        in if na_prefixBytes a2 \<ge> notificationHeaderSize \<and> \<not> na_haveDeclared a2 then do {
             d \<leftarrow> get32 (native T) (na_prefix a2) notificationLengthOff;
             let a3 = a2\<lparr>na_declared := d, na_haveDeclared := True\<rparr>;
             Some (if d < of_nat notificationHeaderSize then acc_fail ErrShortNotification a3
                   else if d > of_nat NotificationReassemblyLimit then acc_fail ErrNotificationTooLong a3
                   else acc_append fragment a3)
           }
           else Some (acc_append fragment a2))"

definition acc_head :: "notificationAccumulator \<Rightarrow> bytes" where
  "acc_head a = take (na_prefixBytes a) (na_prefix a)"

definition acc_peekType :: "target \<Rightarrow> bytes \<Rightarrow> notificationAccumulator \<Rightarrow> EventType option option" where
  "acc_peekType T nxt a =
     (if na_total a + length nxt < notificationHeaderSize then Some None
      else let hdr0 = go_copy (replicate notificationHeaderSize 0) (acc_head a);
               k = min notificationHeaderSize (na_prefixBytes a);
               hdr = take k hdr0 @ go_copy (drop k hdr0) nxt
           in map_option Some (get16 (native T) hdr notificationTypeOff))"

definition acc_keep :: "notificationAccumulator \<Rightarrow> bool \<times> notificationAccumulator" where
  "acc_keep a =
     (if na_retain a then (True, a)
      else if na_err a \<noteq> None \<or> na_total a > na_prefixBytes a then (False, a)
      else (True, a\<lparr>na_retain := True, na_data := na_data a @ acc_head a\<rparr>))"

definition acc_finish :: "notificationAccumulator \<Rightarrow> goerr + bytes" where
  "acc_finish a =
     (case na_err a of
        Some e \<Rightarrow> Inl e
      | None \<Rightarrow> if \<not> na_haveDeclared a \<or> of_nat (na_total a) \<noteq> na_declared a then Inl ErrShortNotification
                else Inr (na_data a))"

definition acc_interrupted :: "notificationAccumulator \<Rightarrow> goerr" where
  "acc_interrupted a =
     (case acc_finish a of
        Inr _ \<Rightarrow> ErrShortNotification
      | Inl e \<Rightarrow> if errIs e ErrShortNotification then e else Join [e, ErrShortNotification])"

text \<open>\<open>reset\<close> empties \<open>data\<close> whether or not it keeps the array.\<close>

definition acc_reset :: "notificationAccumulator \<Rightarrow> notificationAccumulator" where
  "acc_reset a = a\<lparr>na_data := [], na_prefix := replicate sizeAssocChange 0, na_prefixBytes := 0, na_total := 0,
     na_declared := 0, na_haveDeclared := False, na_retain := False, na_err := None\<rparr>"

section \<open>Parsing: no panic\<close>

lemmas parse_defs = checkedSize_def parseAssocChange_def parseRemoteError_def parseShutdown_def
  parsePartialDelivery_def parseAdaptationIndication_def parseAuthEvent_def parseSenderDry_def
  parseAssocReset_def parseStreamChange_def parseSendFailed_def

lemma cause_in_range [no_panic]:
  "off + 2 \<le> length b \<Longrightarrow> causeFromU16 b off = Some (rd16 BigEndian b off)"
  "off + 4 \<le> length b \<Longrightarrow> causeFromU32 T b off =
     Some (dec_int BigEndian (enc_int (native T) (ucast (rd32 (native T) b off) :: u16)))"
  by (simp_all add: causeFromU16_def causeFromU32_def causeFromU32Order_def no_panic splice_rw
      rd16_def Let_def)

lemma decodeAddr_total: "\<exists>r. decodeAddr T ifx b = Some r"
proof -
  obtain r where r: "sockaddrEntrySize T b 0 = Some r" using sockaddrEntrySize_total by blast
  show ?thesis
  proof (cases r)
    case (Inr sz)
    with r sockaddrEntrySize_Inr [of T b 0 sz] decodeSockaddrEntry_total [of T b 0 sz ifx] show ?thesis
      by (auto simp: decodeAddr_def subslice_def)
  qed (simp add: decodeAddr_def r)
qed

lemma streamIDs_eq: "streamIDs T b = Some (List.map (\<lambda>i. rd16 (native T) b (i * 2)) [0..<length b div 2])"
  unfolding streamIDs_def by (rule those_map_cong) (auto simp: no_panic)

lemma parseByType_total: "\<exists>r. parseByType T ifx typ flags b = Some r"
proof -
  have "\<exists>r. decodePeerAddrChangeOrder T ifx b order = Some r" for order
    using decodeAddr_total [of T ifx "slice 8 128 b"]
    by (auto simp: decodePeerAddrChangeOrder_def no_panic split: sum.splits)
  moreover have "\<exists>r. parseStreamReset T flags b = Some r"
    by (simp add: parseStreamReset_def streamIDs_eq no_panic Let_def)
  ultimately show ?thesis by (simp add: parseByType_def parse_defs no_panic)
qed

lemma unat_of_nat_u32 [simp]: "n < 2 ^ 32 \<Longrightarrow> unat (of_nat n :: u32) = n"
  by (simp add: unat_of_nat)

lemma u32_le_of_nat: "len \<le> of_nat n \<Longrightarrow> unat (len :: u32) \<le> n"
  by (metis word_le_nat_alt unat_of_nat mod_less_eq_dividend order_trans)

lemma ParseNotification_returns: "\<exists>r. ParseNotification T ifx b = Some r"
proof (cases "length b < 8")
  case True
  then show ?thesis by (simp add: ParseNotification_def notificationHeader_def)
next
  case False
  then obtain ty flags len where h: "notificationHeader T b = Some (ty, flags, len, True)"
    by (simp add: notificationHeader_def no_panic)
  show ?thesis
    using parseByType_total [of T ifx ty flags] u32_le_of_nat [of len "length b"]
    by (auto simp: ParseNotification_def h no_panic not_less)
qed

text \<open>\<open>ParseNotification\<close> never panics, on any bytes at all: it always returns a
  notification or an error.\<close>

theorem ParseNotification_total: "\<exists>r. ParseNotification T ifx b = Some r"
  by (rule ParseNotification_returns)

section \<open>Parsing what the kernel sends\<close>

definition header_of :: "target \<Rightarrow> EventType \<Rightarrow> u16 \<Rightarrow> nat \<Rightarrow> bytes" where
  "header_of T typ flags n =
     enc_int (native T) typ @ enc_int (native T) flags @ enc_int (native T) (of_nat (8 + n) :: u32)"

lemma length_header_of [simp]: "length (header_of T typ flags n) = 8"
  by (simp add: header_of_def)

lemma header_of_reads [simp]:
  "rd16 (native T) (header_of T typ flags n @ b) 0 = typ"
  "rd16 (native T) (header_of T typ flags n @ b) 2 = flags"
  "rd32 (native T) (header_of T typ flags n @ b) 4 = of_nat (8 + n)"
  by (simp_all add: header_of_def rd_append_right rd_here)

lemma ParseNotification_record:
  assumes "8 + length body \<le> NotificationReassemblyLimit" "8 + length body + length rest < 2 ^ 32"
  shows "ParseNotification T ifx (header_of T typ flags (length body) @ body @ rest) =
    parseByType T ifx typ flags (header_of T typ flags (length body) @ body)"
proof -
  let ?b = "header_of T typ flags (length body) @ body @ rest"
  have len: "8 + length body < 2 ^ 32" using assms(2) by simp
  have u: "unat (of_nat (8 + length body) :: u32) = 8 + length body" using len by (rule unat_of_nat_u32)
  have "notificationHeader T ?b = Some (typ, flags, of_nat (8 + length body), True)"
    by (simp add: notificationHeader_def no_panic)
  moreover have "\<not> (of_nat (8 + length body) :: u32) < 8"
    unfolding word_less_nat_alt u by simp
  moreover have "\<not> (of_nat (8 + length body) :: u32) > of_nat NotificationReassemblyLimit"
    unfolding word_less_nat_alt u using assms(1) by (simp add: NotificationReassemblyLimit_def)
  moreover have "\<not> (of_nat (8 + length body) :: u32) > of_nat (length ?b)"
    unfolding word_less_nat_alt u using assms(2) unat_of_nat_u32 [of "length ?b"] by simp
  moreover have "subslice 0 (8 + length body) ?b = Some (header_of T typ flags (length body) @ body)"
    by (simp add: subslice_def slice_def)
  ultimately show ?thesis by (simp add: ParseNotification_def u del: of_nat_add)
qed

text \<open>The flags and the fields after the header of the record the kernel sends for an event. The
  cause of a failed send is the network-order number widened to 32 bits in host order; the
  data chunk's flags are spread over the three booleans. The two events whose record is not a
  function of the decoded value alone have none: a peer address change, whose address and
  reason are decoded from more forms than one, and an unknown notification.\<close>

definition flag_if :: "bool \<Rightarrow> u16 \<Rightarrow> u16" where
  "flag_if c f = (if c then f else 0)"

fun flags_of :: "Notification \<Rightarrow> u16" where
  "flags_of (SendFailed _ sent _ _ _ _ _ _ _ _) = flag_if sent sendFailedFlagSent"
| "flags_of (PartialDelivery _ _ unord _) = flag_if unord pdapiFlagUnordered"
| "flags_of (StreamReset inc out den fai _ _) =
     flag_if inc streamResetFlagIncoming OR flag_if out streamResetFlagOutgoing OR
     flag_if den streamResetFlagDenied OR flag_if fai streamResetFlagFailed"
| "flags_of (AssocReset den fai _ _ _) = flag_if den assocResetFlagDenied OR flag_if fai assocResetFlagFailed"
| "flags_of (StreamChange den fai _ _ _) =
     flag_if den streamChangeFlagDenied OR flag_if fai streamChangeFlagFailed"
| "flags_of _ = 0"

fun body_of :: "target \<Rightarrow> Notification \<Rightarrow> bytes" where
  "body_of T (AssocChange st er out inn aid inform) =
     enc_int (native T) st @ enc_int BigEndian er @ enc_int (native T) out @ enc_int (native T) inn @
     enc_int (native T) aid @ inform"
| "body_of T (RemoteError er aid dat) = enc_int BigEndian er @ enc_int (native T) (0 :: u16) @ enc_int (native T) aid @ dat"
| "body_of T (Shutdown aid) = enc_int (native T) aid"
| "body_of T (SenderDry aid) = enc_int (native T) aid"
| "body_of T (PartialDelivery stream seqn unord aid) =
     enc_int (native T) (0 :: u32) @ enc_int (native T) aid @ enc_int (native T) stream @ enc_int (native T) seqn"
| "body_of T (AdaptationIndication ind aid) = enc_int (native T) ind @ enc_int (native T) aid"
| "body_of T (AuthEvent key alt ind aid) =
     enc_int (native T) key @ enc_int (native T) alt @ enc_int (native T) ind @ enc_int (native T) aid"
| "body_of T (StreamReset inc out den fai streams aid) =
     enc_int (native T) aid @ concat (List.map (enc_int (native T)) streams)"
| "body_of T (AssocReset den fai l r aid) =
     enc_int (native T) aid @ enc_int (native T) l @ enc_int (native T) r"
| "body_of T (StreamChange den fai inn out aid) =
     enc_int (native T) aid @ enc_int (native T) inn @ enc_int (native T) out"
| "body_of T (SendFailed er sent stream ppid ctx unord first lst aid dat) =
     enc_int (native T) (ucast (dec_int (native T) (enc_int BigEndian er) :: u16) :: u32) @
     enc_int (native T) stream @
     enc_int (native T) (flag_if unord dataChunkFlagUnordered OR flag_if first dataChunkFlagFirstFragment OR
       flag_if lst dataChunkFlagLastFragment) @
     enc_int BigEndian ppid @ enc_int (native T) ctx @ enc_int (native T) aid @ enc_int (native T) aid @ dat"
| "body_of T _ = []"

fun has_record :: "Notification \<Rightarrow> bool" where
  "has_record (PeerAddrChange _ _ _ _) = False"
| "has_record (UnknownNotification _) = False"
| "has_record _ = True"

definition record_of :: "target \<Rightarrow> Notification \<Rightarrow> bytes" where
  "record_of T n =
     header_of T (the (notificationType T n)) (flags_of n) (length (body_of T n)) @ body_of T n"

lemma has_flag_ifs [simp]:
  "has_flag (flag_if a 1) 1 = a"
  "has_flag (flag_if b 4 OR flag_if c 8) 4 = b" "has_flag (flag_if b 4 OR flag_if c 8) 8 = c"
  by (cases a; cases b; cases c; simp add: has_flag_def flag_if_def)+

lemma has_flag_ifs3 [simp]:
  "has_flag (flag_if a 4 OR flag_if b 2 OR flag_if c 1) 4 = a"
  "has_flag (flag_if a 4 OR flag_if b 2 OR flag_if c 1) 2 = b"
  "has_flag (flag_if a 4 OR flag_if b 2 OR flag_if c 1) 1 = c"
  by (cases a; cases b; cases c; simp add: has_flag_def flag_if_def)+

lemma has_flag_ifs4 [simp]:
  "has_flag (flag_if a 1 OR flag_if b 2 OR flag_if c 4 OR flag_if d 8) 1 = a"
  "has_flag (flag_if a 1 OR flag_if b 2 OR flag_if c 4 OR flag_if d 8) 2 = b"
  "has_flag (flag_if a 1 OR flag_if b 2 OR flag_if c 4 OR flag_if d 8) 4 = c"
  "has_flag (flag_if a 1 OR flag_if b 2 OR flag_if c 4 OR flag_if d 8) 8 = d"
  by (cases a; cases b; cases c; cases d; simp add: has_flag_def flag_if_def)+

lemma length_concat_enc16: "length (concat (List.map (enc_int bo) (xs :: u16 list))) = 2 * length xs"
  by (induction xs) simp_all

lemma reads_concat_enc16:
  "List.map (\<lambda>i. rd16 bo (concat (List.map (enc_int bo) xs)) (i * 2)) [0..<length xs] = xs"
proof (rule nth_equalityI)
  fix i
  assume "i < length (List.map (\<lambda>i. rd16 bo (concat (List.map (enc_int bo) xs)) (i * 2)) [0..<length xs])"
  then have "rd16 bo (concat (List.map (enc_int bo) xs)) (i * 2) = xs ! i"
  proof (induction xs arbitrary: i)
    case (Cons x xs)
    then show ?case by (cases i) (simp_all add: rd_here rd_append_right)
  qed simp
  with \<open>i < _\<close> show "List.map (\<lambda>i. rd16 bo (concat (List.map (enc_int bo) xs)) (i * 2)) [0..<length xs] ! i = xs ! i"
    by simp
qed simp

lemma streamIDs_concat: "streamIDs T (concat (List.map (enc_int (native T)) xs)) = Some xs"
  by (simp add: streamIDs_eq length_concat_enc16 reads_concat_enc16)

lemma cause_widened: "ucast (ucast (x :: u16) :: u32) = x"
  by (rule bit_word_eqI) (auto simp: bit_simps)

lemma parse_record:
  assumes "has_record n"
  shows "parseByType T ifx (the (notificationType T n)) (flags_of n) (record_of T n) = Some (Inr n)"
  using assms
  by (cases n)
    (simp_all add: parseByType_def record_of_def parse_defs parseStreamReset_def no_panic
      rd_append_right rd_here Let_def c16.enc_dec c16.dec_enc length_concat_enc16 streamIDs_concat
      cause_widened)

text \<open>\<open>ParseNotification\<close> recovers every field of the record the kernel sends, on either
  byte order, for each event with a fixed record layout, variable tails included, and whatever
  follows the record in the read buffer.\<close>

theorem ParseNotification_decodes:
  assumes "has_record n" "length (record_of T n) \<le> NotificationReassemblyLimit"
    "length (record_of T n) + length rest < 2 ^ 32"
  shows "ParseNotification T ifx (record_of T n @ rest) = Some (Inr n)"
proof -
  let ?b = "body_of T n" and ?ty = "the (notificationType T n)"
  have "ParseNotification T ifx (header_of T ?ty (flags_of n) (length ?b) @ ?b @ rest) =
      parseByType T ifx ?ty (flags_of n) (header_of T ?ty (flags_of n) (length ?b) @ ?b)"
    using assms(2,3) by (intro ParseNotification_record) (simp_all add: record_of_def)
  then show ?thesis using parse_record [OF assms(1), of T ifx] by (simp add: record_of_def)
qed

theorem ParseNotification_decodes_witness:
  "ParseNotification s390x (\<lambda>i. None)
     (record_of s390x (SendFailed CauseUserAbort True 3 7 9 False True True 5 [1, 2, 3]) @ [255]) =
     Some (Inr (SendFailed CauseUserAbort True 3 7 9 False True True 5 [1, 2, 3]))"
  by (rule ParseNotification_decodes) (simp_all add: record_of_def NotificationReassemblyLimit_def)

text \<open>A peer address change decodes to the address its storage field holds, the state, the
  association, and the reason: the raw value shifted by one, with zero told apart by the state.\<close>

theorem ParseNotification_peer_addr_change:
  assumes "length stor = 128" "decodeAddr T ifx stor = Some (Inr addr)" "length rest < 2 ^ 31"
  shows "ParseNotification T ifx (header_of T EventPeerAddrChange 0 140 @ stor @
      enc_int (native T) state @ enc_int (native T) raw @ enc_int (native T) aid @ rest) =
    Some (Inr (PeerAddrChange addr state (decodeAddrChangeReason raw state) aid))"
proof -
  let ?b = "stor @ enc_int (native T) (state :: u32) @ enc_int (native T) (raw :: u32) @ enc_int (native T) (aid :: u32)"
  have "ParseNotification T ifx (header_of T EventPeerAddrChange 0 (length ?b) @ ?b @ rest) =
      parseByType T ifx EventPeerAddrChange 0 (header_of T EventPeerAddrChange 0 (length ?b) @ ?b)"
    using assms by (intro ParseNotification_record) (simp_all add: NotificationReassemblyLimit_def)
  also have "\<dots> = Some (Inr (PeerAddrChange addr state (decodeAddrChangeReason raw state) aid))"
    using assms
    by (simp add: parseByType_def decodePeerAddrChangeOrder_def no_panic slice_append_right
        slice_append_left rd_append_right rd_here)
  finally show ?thesis using assms(1) by simp
qed

theorem ParseNotification_peer_addr_change_witness:
  "ParseNotification amd64 (\<lambda>i. None) (header_of amd64 EventPeerAddrChange 0 140 @
      (wire_in amd64 0x0a000001 4000 @ replicate 112 0) @
      enc_int (native amd64) AddrUnreachable @ enc_int (native amd64) (0 :: u32) @ enc_int (native amd64) (1 :: u32) @ []) =
    Some (Inr (PeerAddrChange (IP4 0x0a000001, 4000) AddrUnreachable ReasonFailedThreshold 1))"
proof -
  have "decodeAddr amd64 (\<lambda>i. None) (wire_in amd64 0x0a000001 4000 @ replicate 112 0) =
      Some (Inr (IP4 0x0a000001, 4000))"
    using wire_in_entry [of amd64 "[]"]
    by (simp add: decodeAddr_def subslice_def slice_def decode_wire_in)
  then show ?thesis
    using ParseNotification_peer_addr_change [of "wire_in amd64 0x0a000001 4000 @ replicate 112 0" amd64
        "\<lambda>i. None" "(IP4 0x0a000001, 4000)" "[]" AddrUnreachable 0 1]
    by (simp add: decodeAddrChangeReason_def)
qed

section \<open>Reassembly is independent of the fragmentation\<close>

text \<open>A complete record: its header is there, its declared length is its length, and that is
  within the reassembly limit.\<close>

definition valid_record :: "target \<Rightarrow> bytes \<Rightarrow> bool" where
  "valid_record T b \<longleftrightarrow> 8 \<le> length b \<and> length b \<le> NotificationReassemblyLimit \<and>
     unat (rd32 (native T) b notificationLengthOff) = length b"

text \<open>An accumulator without an error that has been given the bytes \<open>seen\<close>.\<close>

definition acc_ok :: "target \<Rightarrow> notificationAccumulator \<Rightarrow> bytes \<Rightarrow> bool" where
  "acc_ok T a seen \<longleftrightarrow> na_total a = length seen \<and> na_prefixBytes a = min 20 (length seen) \<and>
     take 20 seen = acc_head a \<and> na_haveDeclared a = (8 \<le> length seen) \<and>
     (na_haveDeclared a \<longrightarrow> na_declared a = rd32 (native T) seen 4 \<and>
        8 \<le> unat (na_declared a) \<and> unat (na_declared a) \<le> NotificationReassemblyLimit \<and>
        length seen \<le> unat (na_declared a)) \<and>
     na_data a = (if na_retain a then seen else [])"

definition acc_inv :: "target \<Rightarrow> notificationAccumulator \<Rightarrow> bytes \<Rightarrow> bool" where
  "acc_inv T a seen \<longleftrightarrow> length (na_prefix a) = 20 \<and> na_prefixBytes a \<le> 20 \<and>
     na_total a \<le> NotificationReassemblyLimit \<and>
     (case na_err a of
        None \<Rightarrow> acc_ok T a seen
      | Some e \<Rightarrow> (e = ErrShortNotification \<or> e = ErrNotificationTooLong) \<and> na_data a = [] \<and>
          8 \<le> length seen \<and> (\<forall>rest. \<not> valid_record T (seen @ rest)))"

lemma rd32_prefix: "8 \<le> length seen \<Longrightarrow> rd32 bo (seen @ rest) 4 = rd32 bo seen 4"
  by (simp add: rd_append_left)

lemma acc_reset_inv: "acc_inv T (acc_reset a) [] \<and> acc_inv T ((acc_reset a)\<lparr>na_retain := True\<rparr>) []"
  by (simp add: acc_inv_def acc_ok_def acc_reset_def acc_head_def)

lemma acc_keep_inv:
  "acc_inv T a seen \<Longrightarrow> acc_inv T (snd (acc_keep a)) seen \<and> (fst (acc_keep a) \<longrightarrow> na_retain (snd (acc_keep a)))"
  by (auto simp: acc_keep_def acc_inv_def acc_ok_def acc_head_def split: option.splits)

text \<open>The prefix after a fragment: the first bytes seen, as far as they fit.\<close>

lemma acc_prefix_seen:
  assumes len: "length (na_prefix a) = 20" and pb: "na_prefixBytes a = min 20 (length seen)"
    and head: "take 20 seen = acc_head a"
  shows "na_prefixBytes (acc_prefix f a) = min 20 (length (seen @ f)) \<and>
    length (na_prefix (acc_prefix f a)) = 20 \<and> acc_head (acc_prefix f a) = take 20 (seen @ f)"
proof (cases "length seen < 20")
  case True
  then have "na_prefixBytes a = length seen" "seen = take (length seen) (na_prefix a)"
    using pb head by (simp_all add: acc_head_def)
  then show ?thesis using True len
    by (auto simp: acc_prefix_def acc_head_def splice_def Let_def min_def take_append)
next
  case False
  then show ?thesis using assms by (simp add: acc_prefix_def acc_head_def)
qed

lemma acc_prefix_frame [simp]:
  "na_data (acc_prefix f a) = na_data a" "na_total (acc_prefix f a) = na_total a"
  "na_declared (acc_prefix f a) = na_declared a" "na_haveDeclared (acc_prefix f a) = na_haveDeclared a"
  "na_retain (acc_prefix f a) = na_retain a" "na_err (acc_prefix f a) = na_err a"
  by (simp_all add: acc_prefix_def Let_def)

lemma acc_fail_frame [simp]:
  "na_prefix (acc_fail e a) = na_prefix a" "na_prefixBytes (acc_fail e a) = na_prefixBytes a"
  "na_total (acc_fail e a) = na_total a" "na_retain (acc_fail e a) = na_retain a"
  "na_err (acc_fail e a) = Some e" "na_data (acc_fail e a) = []"
  by (simp_all add: acc_fail_def)

lemma not_valid_too_long: "length seen > NotificationReassemblyLimit \<Longrightarrow> \<not> valid_record T (seen @ rest)"
  by (simp add: valid_record_def)

lemma not_valid_declared:
  "8 \<le> length seen \<Longrightarrow> unat (rd32 (native T) seen 4) < length seen \<or>
     unat (rd32 (native T) seen 4) > NotificationReassemblyLimit \<Longrightarrow> \<not> valid_record T (seen @ rest)"
  by (auto simp: valid_record_def rd32_prefix)

lemma limit_u32 [simp]: "unat (of_nat NotificationReassemblyLimit :: u32) = NotificationReassemblyLimit"
  by (simp add: NotificationReassemblyLimit_def)

lemma acc_append_frame [simp]:
  "na_prefix (acc_append f a) = na_prefix a" "na_prefixBytes (acc_append f a) = na_prefixBytes a"
  "na_total (acc_append f a) = na_total a" "na_retain (acc_append f a) = na_retain a"
  by (simp_all add: acc_append_def)

text \<open>The last step of \<open>add\<close>, on a state that counts the fragment but does not hold it.\<close>

lemma acc_append_inv:
  assumes pre: "length (na_prefix a) = 20" "na_prefixBytes a = min 20 (length (seen @ f))"
      "acc_head a = take 20 (seen @ f)" "na_err a = None"
    and tot: "na_total a = length (seen @ f)" "length (seen @ f) \<le> NotificationReassemblyLimit"
    and decl: "na_haveDeclared a = (8 \<le> length (seen @ f))"
      "na_haveDeclared a \<longrightarrow> na_declared a = rd32 (native T) (seen @ f) 4 \<and>
        8 \<le> unat (na_declared a) \<and> unat (na_declared a) \<le> NotificationReassemblyLimit"
    and dat: "na_data a = (if na_retain a then seen else [])"
  shows "acc_inv T (acc_append f a) (seen @ f)"
proof (cases "na_haveDeclared a \<and> of_nat (na_total a) > na_declared a")
  case True
  have "unat (of_nat (length (seen @ f)) :: u32) = length (seen @ f)"
    using tot(2) by (intro unat_of_nat_u32) (simp add: NotificationReassemblyLimit_def)
  then have "unat (rd32 (native T) (seen @ f) 4) < length (seen @ f)"
    using True decl tot(1) by (simp add: word_less_nat_alt del: of_nat_add)
  then have "\<not> valid_record T ((seen @ f) @ rest)" for rest
    using True decl by (intro not_valid_declared) simp_all
  then show ?thesis using True pre tot decl(1) by (simp add: acc_inv_def acc_append_def)
next
  case False
  have "unat (of_nat (length (seen @ f)) :: u32) = length (seen @ f)"
    using tot(2) by (intro unat_of_nat_u32) (simp add: NotificationReassemblyLimit_def)
  then have "na_haveDeclared a \<longrightarrow> length (seen @ f) \<le> unat (na_declared a)"
    using False tot(1) by (auto simp: word_less_nat_alt not_less simp del: of_nat_add)
  moreover have "acc_append f a = (if na_retain a then a\<lparr>na_data := na_data a @ f\<rparr> else a)"
    using False by (auto simp: acc_append_def)
  ultimately show ?thesis using pre tot decl dat by (auto simp: acc_inv_def acc_ok_def acc_head_def)
qed

text \<open>The step of \<open>add\<close> that completes the header, with the declared length \<open>d\<close>.\<close>

lemma acc_declare_inv:
  assumes pre: "length (na_prefix a) = 20" "na_prefixBytes a = min 20 (length (seen @ f))"
      "acc_head a = take 20 (seen @ f)" "na_err a = None"
    and tot: "na_total a = length (seen @ f)" "length (seen @ f) \<le> NotificationReassemblyLimit"
    and dat: "na_data a = (if na_retain a then seen else [])"
    and hdr: "8 \<le> length (seen @ f)" and d: "d = rd32 (native T) (seen @ f) 4"
    and a3: "a3 = a\<lparr>na_declared := d, na_haveDeclared := True\<rparr>"
  shows "acc_inv T (if d < 8 then acc_fail ErrShortNotification a3
      else if d > of_nat NotificationReassemblyLimit then acc_fail ErrNotificationTooLong a3
      else acc_append f a3) (seen @ f)"
proof (cases "d < 8 \<or> d > of_nat NotificationReassemblyLimit")
  case True
  then have "\<not> valid_record T ((seen @ f) @ rest)" for rest
    using hdr by (intro not_valid_declared) (auto simp: d word_less_nat_alt)
  with True pre tot hdr show ?thesis by (auto simp: acc_inv_def a3)
next
  case False
  then have "8 \<le> unat d" "unat d \<le> NotificationReassemblyLimit"
    by (auto simp: word_less_nat_alt not_less)
  then have "acc_inv T (acc_append f a3) (seen @ f)"
    using pre tot dat hdr by (intro acc_append_inv) (simp_all add: a3 d acc_head_def)
  with False show ?thesis by simp
qed

lemma acc_add_inv:
  assumes inv: "acc_inv T a seen"
  shows "\<exists>a'. acc_add T f a = Some a' \<and> acc_inv T a' (seen @ f) \<and> na_retain a' = na_retain a"
proof (cases "na_err a \<noteq> None \<or> f = []")
  case True
  with inv show ?thesis by (cases "f = []") (simp add: acc_add_def, auto simp: acc_add_def acc_inv_def)
next
  case False
  with inv have ok: "acc_ok T a seen" and len: "length (na_prefix a) = 20" and tot: "na_total a = length seen"
      and lim: "length seen \<le> NotificationReassemblyLimit"
    by (auto simp: acc_inv_def acc_ok_def)
  define a2 where "a2 = (acc_prefix f a)\<lparr>na_total := na_total a + length f\<rparr>"
  have "na_prefixBytes a = min 20 (length seen)" "take 20 seen = acc_head a"
    using ok by (simp_all add: acc_ok_def)
  from acc_prefix_seen [OF len this, of f] have pre: "length (na_prefix a2) = 20"
      "na_prefixBytes a2 = min 20 (length (seen @ f))" "acc_head a2 = take 20 (seen @ f)"
    unfolding a2_def acc_head_def by auto
  have frame: "na_err a2 = None" "na_retain a2 = na_retain a" "na_data a2 = (if na_retain a2 then seen else [])"
      "na_declared a2 = na_declared a" "na_haveDeclared a2 = (8 \<le> length seen)" "na_total a2 = length (seen @ f)"
    using ok False by (simp_all add: a2_def acc_ok_def tot)
  show ?thesis
  proof (cases "length (seen @ f) > NotificationReassemblyLimit")
    case True
    then have "acc_add T f a = Some (acc_fail ErrNotificationTooLong a)"
      using False lim by (simp add: acc_add_def tot)
    moreover have "\<not> valid_record T ((seen @ f) @ rest)" for rest
      using True by (intro not_valid_too_long) simp
    moreover have "8 \<le> length (seen @ f)" using True by (simp add: NotificationReassemblyLimit_def)
    ultimately show ?thesis using inv by (simp add: acc_inv_def)
  next
    case go: False
    then have add: "acc_add T f a =
        (if 8 \<le> na_prefixBytes a2 \<and> \<not> na_haveDeclared a2 then do {
             d \<leftarrow> get32 (native T) (na_prefix a2) 4;
             let a3 = a2\<lparr>na_declared := d, na_haveDeclared := True\<rparr>;
             Some (if d < 8 then acc_fail ErrShortNotification a3
                   else if d > of_nat NotificationReassemblyLimit then acc_fail ErrNotificationTooLong a3
                   else acc_append f a3)
           }
           else Some (acc_append f a2))"
      using False by (simp add: acc_add_def tot a2_def Let_def)
    show ?thesis
    proof (cases "8 \<le> length (seen @ f) \<and> length seen < 8")
      case old: False
      have "na_haveDeclared a2 \<longrightarrow> na_declared a2 = rd32 (native T) (seen @ f) 4 \<and>
          8 \<le> unat (na_declared a2) \<and> unat (na_declared a2) \<le> NotificationReassemblyLimit"
        using ok frame by (auto simp: acc_ok_def rd32_prefix)
      then have "acc_inv T (acc_append f a2) (seen @ f)"
        by (intro acc_append_inv) (use pre frame go old ok in auto)
      moreover have "acc_add T f a = Some (acc_append f a2)" using old frame pre add by auto
      ultimately show ?thesis using frame by simp
    next
      case True
      define d where "d = rd32 (native T) (seen @ f) 4"
      have "rd32 (native T) (na_prefix a2) 4 = rd32 (native T) (acc_head a2) 4"
        using True pre(2) by (simp add: acc_head_def)
      also have "\<dots> = d" unfolding pre(3) d_def by (rule rd_take(2)) simp
      finally have "get32 (native T) (na_prefix a2) 4 = Some d" using pre(1) by (simp add: no_panic)
      with add True pre(2) frame(5)
      have "acc_add T f a = Some (let a3 = a2\<lparr>na_declared := d, na_haveDeclared := True\<rparr> in
          if d < 8 then acc_fail ErrShortNotification a3
          else if d > of_nat NotificationReassemblyLimit then acc_fail ErrNotificationTooLong a3
          else acc_append f a3)" by (simp add: Let_def)
      then show ?thesis
        using acc_declare_inv [OF pre frame(1,6) _ frame(3) _ d_def refl] go True frame(2) by (auto simp: Let_def)
    qed
  qed
qed

text \<open>What a reassembler promises its client, the receive path: every fragment is taken without
  a panic, and at the end the record comes back exactly when the bytes given were a valid
  record, whole and unchanged.\<close>

fun feed :: "(bytes \<Rightarrow> 'a \<Rightarrow> 'a option) \<Rightarrow> bytes list \<Rightarrow> 'a \<Rightarrow> 'a option" where
  "feed add [] a = Some a"
| "feed add (f # fs) a = Option.bind (add f a) (feed add fs)"

locale reassembler =
  fixes inv :: "'a \<Rightarrow> bytes \<Rightarrow> bool" and add :: "bytes \<Rightarrow> 'a \<Rightarrow> 'a option"
    and finish :: "'a \<Rightarrow> goerr + bytes" and valid :: "bytes \<Rightarrow> bool"
  assumes add_inv: "inv a seen \<Longrightarrow> \<exists>a'. add f a = Some a' \<and> inv a' (seen @ f)"
    and finish_valid: "inv a seen \<Longrightarrow> finish a = Inr b \<longleftrightarrow> valid seen \<and> b = seen"
begin

lemma feed_inv: "inv a seen \<Longrightarrow> \<exists>a'. feed add fs a = Some a' \<and> inv a' (seen @ concat fs)"
proof (induction fs arbitrary: a seen)
  case (Cons f fs)
  from add_inv [OF Cons.prems] obtain a1 where "add f a = Some a1" "inv a1 (seen @ f)" by blast
  with Cons.IH [of a1 "seen @ f"] show ?case by simp
qed simp

lemma feed_finish:
  assumes "inv a []"
  shows "\<exists>a'. feed add fs a = Some a' \<and>
    (if valid (concat fs) then finish a' = Inr (concat fs) else \<exists>e. finish a' = Inl e)"
proof -
  obtain a' where "feed add fs a = Some a'" "inv a' (concat fs)" using feed_inv [OF assms, of fs] by auto
  moreover have "\<exists>e. finish a' = Inl e" if "\<not> valid (concat fs)"
    using that finish_valid [OF \<open>inv a' (concat fs)\<close>] by (cases "finish a'") auto
  ultimately show ?thesis using finish_valid by auto
qed

end

definition acc_retaining :: "target \<Rightarrow> notificationAccumulator \<Rightarrow> bytes \<Rightarrow> bool" where
  "acc_retaining T a seen \<longleftrightarrow> acc_inv T a seen \<and> na_retain a"

lemma acc_finish_valid:
  assumes "acc_retaining T a seen"
  shows "acc_finish a = Inr b \<longleftrightarrow> valid_record T seen \<and> b = seen"
proof (cases "na_err a")
  case None
  with assms have ok: "acc_ok T a seen" "na_retain a" "length seen \<le> NotificationReassemblyLimit"
    by (auto simp: acc_retaining_def acc_inv_def acc_ok_def)
  have "unat (of_nat (length seen) :: u32) = length seen"
    using ok(3) by (intro unat_of_nat_u32) (simp add: NotificationReassemblyLimit_def)
  then have "of_nat (length seen) = na_declared a \<longleftrightarrow> unat (na_declared a) = length seen"
    by (metis word_unat_eq_iff)
  with ok None show ?thesis by (auto simp: acc_finish_def acc_ok_def valid_record_def)
next
  case (Some e)
  then have "\<forall>rest. \<not> valid_record T (seen @ rest)"
    using assms by (simp add: acc_retaining_def acc_inv_def)
  then have "\<not> valid_record T seen" by (metis append_Nil2)
  with Some show ?thesis by (simp add: acc_finish_def)
qed

interpretation acc: reassembler "acc_retaining T" "acc_add T" acc_finish "valid_record T" for T
proof
  fix a seen f
  assume "acc_retaining T a seen"
  then show "\<exists>a'. acc_add T f a = Some a' \<and> acc_retaining T a' (seen @ f)"
    using acc_add_inv [of T a seen f] by (auto simp: acc_retaining_def)
qed (rule acc_finish_valid)

lemma feed_acc_inv:
  "acc_inv T a seen \<Longrightarrow>
   \<exists>a'. feed (acc_add T) fs a = Some a' \<and> acc_inv T a' (seen @ concat fs) \<and> na_retain a' = na_retain a"
proof (induction fs arbitrary: a seen)
  case (Cons f fs)
  from acc_add_inv [OF Cons.prems, of f] obtain a1 where "acc_add T f a = Some a1"
      "acc_inv T a1 (seen @ f)" "na_retain a1 = na_retain a" by blast
  with Cons.IH [of a1 "seen @ f"] show ?case by simp
qed simp

lemma acc_retaining_reset: "acc_retaining T ((acc_reset a)\<lparr>na_retain := True\<rparr>) []"
  using acc_reset_inv [of T a] by (simp add: acc_retaining_def)

lemma record_of_valid:
  assumes "length (record_of T n) \<le> NotificationReassemblyLimit"
  shows "valid_record T (record_of T n)"
proof -
  have "unat (of_nat (8 + length (body_of T n)) :: u32) = 8 + length (body_of T n)"
    using assms by (intro unat_of_nat_u32) (simp add: record_of_def NotificationReassemblyLimit_def)
  then show ?thesis using assms by (simp add: valid_record_def record_of_def)
qed

lemma parse_whole_record:
  assumes "has_record n" "length (record_of T n) \<le> NotificationReassemblyLimit"
  shows "ParseNotification T ifx (record_of T n) = Some (Inr n)"
proof -
  have "ParseNotification T ifx (record_of T n) =
      parseByType T ifx (the (notificationType T n)) (flags_of n) (record_of T n)"
    using assms(2) ParseNotification_record [of "body_of T n" "[]" T ifx]
    by (simp add: record_of_def NotificationReassemblyLimit_def)
  then show ?thesis using parse_record [OF assms(1)] by simp
qed

lemma record_of_type: "rd16 (native T) (record_of T n) 0 = the (notificationType T n)" "8 \<le> length (record_of T n)"
  by (simp_all add: record_of_def header_of_def codec_rw)

section \<open>Properties of reassembly\<close>

text \<open>Reassembly does not depend on how a record was cut into fragments: an accumulator that
  retains from the start takes any sequence of fragments without a panic, and hands back their
  concatenation exactly when that is a complete record (its declared length its length, at
  most the reassembly limit); otherwise it reports an error.\<close>

theorem reassembly_whole:
  "\<exists>a'. feed (acc_add T) fs ((acc_reset a)\<lparr>na_retain := True\<rparr>) = Some a' \<and>
     (if valid_record T (concat fs) then acc_finish a' = Inr (concat fs) else \<exists>e. acc_finish a' = Inl e)"
  using acc.feed_finish [OF acc_retaining_reset] .

text \<open>Deciding to retain a record late loses nothing: when \<open>keep\<close> reports success after any
  fragments taken without retention, the fragments that follow complete the same record,
  the earlier bytes included.\<close>

theorem keep_recovers_prefix:
  assumes "feed (acc_add T) fs (acc_reset a) = Some a1" "acc_keep a1 = (True, a2)"
  shows "\<exists>a'. feed (acc_add T) gs a2 = Some a' \<and>
    (if valid_record T (concat (fs @ gs)) then acc_finish a' = Inr (concat (fs @ gs))
     else \<exists>e. acc_finish a' = Inl e)"
proof -
  have "acc_inv T (acc_reset a) []" using acc_reset_inv by blast
  from feed_acc_inv [OF this, of fs] assms(1) have "acc_inv T a1 (concat fs)" by auto
  from acc_keep_inv [OF this] assms(2) have "acc_retaining T a2 (concat fs)"
    by (simp add: acc_retaining_def)
  from acc.feed_inv [OF this, of gs] obtain a' where
    a': "feed (acc_add T) gs a2 = Some a'" "acc_retaining T a' (concat (fs @ gs))" by auto
  moreover have "\<exists>e. acc_finish a' = Inl e" if "\<not> valid_record T (concat (fs @ gs))"
    using that acc_finish_valid [OF a'(2)] by (cases "acc_finish a'") auto
  ultimately show ?thesis using acc_finish_valid by auto
qed

theorem keep_recovers_prefix_witness:
  "\<exists>a1 a2 a'. feed (acc_add amd64) [take 5 (record_of amd64 (Shutdown 7))] (acc_reset acc_zero) = Some a1 \<and>
     acc_keep a1 = (True, a2) \<and> feed (acc_add amd64) [drop 5 (record_of amd64 (Shutdown 7))] a2 = Some a' \<and>
     acc_finish a' = Inr (record_of amd64 (Shutdown 7))"
proof -
  let ?r = "record_of amd64 (Shutdown 7)"
  have len: "length ?r = 12" by (simp add: record_of_def)
  have "\<exists>a1. feed (acc_add amd64) [take 5 ?r] (acc_reset acc_zero) = Some a1 \<and> na_err a1 = None \<and>
      \<not> na_retain a1 \<and> na_total a1 = 5 \<and> na_prefixBytes a1 = 5"
    using len by (auto simp: acc_add_def acc_reset_def acc_prefix_def acc_append_def Let_def
        NotificationReassemblyLimit_def)
  then obtain a1 where a1: "feed (acc_add amd64) [take 5 ?r] (acc_reset acc_zero) = Some a1" "na_err a1 = None"
      "\<not> na_retain a1" "na_total a1 = 5" "na_prefixBytes a1 = 5" by blast
  then obtain a2 where a2: "acc_keep a1 = (True, a2)" by (simp add: acc_keep_def)
  have "valid_record amd64 ?r"
    using len by (intro record_of_valid) (simp add: NotificationReassemblyLimit_def)
  with keep_recovers_prefix [OF a1(1) a2, of "[drop 5 ?r]"] a1(1) a2 show ?thesis by auto
qed



lemma acc_peekType_seen:
  assumes inv: "acc_inv T a seen" and ok: "na_err a = None"
  shows "acc_peekType T nxt a =
    Some (if length (seen @ nxt) < 8 then None else Some (rd16 (native T) (seen @ nxt) 0))"
proof (cases "length (seen @ nxt) < 8")
  case False
  have f: "na_total a = length seen" "na_prefixBytes a = min 20 (length seen)" "acc_head a = take 20 seen"
    using inv ok by (simp_all add: acc_inv_def acc_ok_def)
  have "take (min 8 (min 20 (length seen))) (go_copy (replicate 8 0) (take 20 seen)) @
      go_copy (drop (min 8 (min 20 (length seen))) (go_copy (replicate 8 0) (take 20 seen))) nxt =
      take 8 (seen @ nxt)"
    using False by (auto simp: go_copy_def min_def)
  moreover have "get16 (native T) (take 8 (seen @ nxt)) 0 = Some (rd16 (native T) (seen @ nxt) 0)"
    using False rd_take(1) [of 0 8 "native T" "seen @ nxt"] by (simp add: get16_def del: take_append rd_take)
  ultimately show ?thesis
    using False f by (simp add: acc_peekType_def Let_def del: take_append)
qed (use inv ok in \<open>simp add: acc_peekType_def acc_inv_def acc_ok_def\<close>)

lemma acc_peekType_total: "\<exists>r. acc_peekType T nxt a = Some r"
  by (simp add: acc_peekType_def get16_def go_copy_def Let_def min_def)

text \<open>An accumulator never holds more than the reassembly limit, and nothing under an error;
  \<open>peekType\<close> tells the type of the record in progress, counting a fragment not yet added, as
  soon as the header is complete; and an interrupted record always reports
  \<open>ErrShortNotification\<close>.\<close>

theorem accumulator_bounded:
  assumes "feed (acc_add T) fs ((acc_reset a)\<lparr>na_retain := r\<rparr>) = Some a'"
  shows "length (na_data a') \<le> NotificationReassemblyLimit \<and> (na_err a' \<noteq> None \<longrightarrow> na_data a' = []) \<and>
    (na_err a' = None \<longrightarrow> acc_peekType T nxt a' =
       Some (if length (concat fs @ nxt) < 8 then None else Some (rd16 (native T) (concat fs @ nxt) 0))) \<and>
    errIs (acc_interrupted a') ErrShortNotification"
proof -
  have "acc_inv T ((acc_reset a)\<lparr>na_retain := r\<rparr>) []"
    by (simp add: acc_inv_def acc_ok_def acc_reset_def acc_head_def)
  from feed_acc_inv [OF this, of fs] assms have inv: "acc_inv T a' (concat fs)" by simp
  with acc_peekType_seen [OF inv] show ?thesis
    by (auto simp: acc_inv_def acc_ok_def acc_interrupted_def split: option.splits sum.splits)
qed

theorem accumulator_bounded_witness:
  "\<exists>a'. feed (acc_add amd64) [[1, 0x80]] ((acc_reset acc_zero)\<lparr>na_retain := False\<rparr>) = Some a' \<and>
     acc_peekType amd64 [0, 0, 20, 0, 0, 0] a' = Some (Some EventAssocChange)"
proof -
  have "\<exists>a'. feed (acc_add amd64) [[1, 0x80]] ((acc_reset acc_zero)\<lparr>na_retain := False\<rparr>) = Some a' \<and> na_err a' = None"
    by (simp add: acc_add_def acc_reset_def acc_prefix_def acc_append_def Let_def NotificationReassemblyLimit_def)
  then obtain a' where a': "feed (acc_add amd64) [[1, 0x80]] ((acc_reset acc_zero)\<lparr>na_retain := False\<rparr>) = Some a'"
      "na_err a' = None" by blast
  with accumulator_bounded [OF a'(1), of "[0, 0, 20, 0, 0, 0]"] show ?thesis
    by (auto simp: rd16_def slice_def dec_int_def in_order_def amd64_def)
qed

end
