(* ===== verification/Lifecycle.thy ===== *)
theory Lifecycle
  imports Errors
begin

text \<open>
  The close state machine of one descriptor, \<open>close.go\<close>, under any interleaving of concurrent
  \<open>Close\<close>, \<open>Abort\<close> and \<open>Shutdown\<close> calls.

  \<open>life\<close> is the shared \<open>lifecycle\<close>: its state word, the two channels (as whether they are
  closed) and the shutdown claim, with two ghost counters, of descriptor releases and of
  \<open>startShutdown\<close> calls. \<open>pc\<close> says where a call is, one value per atomic step of the source:
  an atomic operation, a channel operation, or one \<open>closeOps\<close> step. \<open>thread_step\<close> is one such
  step; what the environment answers (the clock, the status query, the result of a system
  call, which arm of the select fires) comes with it. \<open>life_step\<close> interleaves any number of
  calls; a Go panic, the close of a closed channel, is the value \<open>Panicked\<close>.
\<close>

section \<open>Shared state and calls\<close>

datatype lifeState = lifeOpen | lifeClosing | lifeAborting | lifeClosed

definition shutdownPollMin :: int where
  "shutdownPollMin = 200 * 1000"

definition shutdownPollMax :: int where
  "shutdownPollMax = 20 * 1000000"

record life =
  l_init :: bool
  l_state :: lifeState
  l_abort :: bool
  l_done :: bool
  l_shut :: bool
  l_released :: nat
  l_starts :: nat

definition life_zero :: life where
  "life_zero = \<lparr>l_init = False, l_state = lifeOpen, l_abort = False, l_done = False, l_shut = False,
     l_released = 0, l_starts = 0\<rparr>"

definition life_init :: "life \<Rightarrow> life" where
  "life_init l = l\<lparr>l_init := True\<rparr>"

text \<open>What a call is about to do. A \<open>Close\<close> carries its grace period, then its deadline and the
  current backoff; \<open>CloseAbortive\<close> the error of a failed status query, if any; the
  finishing steps the error to return.\<close>

datatype pc =
    Idle
  | CloseStart int | CloseNow int | CloseShut int | CloseStartShutdown int
  | ClosePoll int int | CloseTime int int | CloseWait int int int
  | CloseAbortive "goerr option" | CloseRelease | CloseStore "goerr option" | CloseDone "goerr option"
  | AbortStart | AbortCASOpen | AbortCASClosing | AbortSignal | AbortWait
  | AbortRun | AbortDone "goerr option"
  | ShutStart | ShutCAS | ShutRun
  | Ret "goerr option"
  | Panicked

text \<open>What the environment contributes to a step.\<close>

datatype env = Tau | Clock int | Gone "goerr + bool" | Res "goerr option" | AbortFires | TimerFires

section \<open>One step of a call\<close>

definition closeStart :: "int \<Rightarrow> life \<Rightarrow> pc \<times> life" where
  "closeStart grace l =
     (if \<not> l_init l then (Ret (Some NetErrClosed), l)
      else if grace \<le> 0 then (AbortStart, l)
      else if l_state l = lifeOpen then (CloseNow grace, l\<lparr>l_state := lifeClosing\<rparr>)
      else (Ret (Some NetErrClosed), l))"

definition closeLook :: "int \<Rightarrow> int \<Rightarrow> goerr + bool \<Rightarrow> life \<Rightarrow> pc \<times> life" where
  "closeLook deadline st r l =
     (case r of
        Inl e \<Rightarrow> (CloseAbortive (Some e), l)
      | Inr gone \<Rightarrow> if gone then (CloseRelease, l) else (CloseTime deadline st, l))"

definition closeAbortive :: "goerr option \<Rightarrow> goerr option \<Rightarrow> life \<Rightarrow> pc \<times> life" where
  "closeAbortive query e l =
     (CloseStore (case query of None \<Rightarrow> e | Some q \<Rightarrow> errorsJoin [Some q, e]),
      l\<lparr>l_released := l_released l + 1\<rparr>)"

definition closeDone :: "goerr option \<Rightarrow> life \<Rightarrow> pc \<times> life" where
  "closeDone e l = (if l_done l then (Panicked, l) else (Ret e, l\<lparr>l_done := True\<rparr>))"

definition abortStart :: "life \<Rightarrow> pc \<times> life" where
  "abortStart l =
     (if \<not> l_init l then (Ret (Some NetErrClosed), l)
      else case l_state l of
        lifeOpen \<Rightarrow> (AbortCASOpen, l)
      | lifeClosing \<Rightarrow> (AbortCASClosing, l)
      | lifeAborting \<Rightarrow> (AbortWait, l)
      | lifeClosed \<Rightarrow> (Ret (Some NetErrClosed), l))"

definition abortCASOpen :: "life \<Rightarrow> pc \<times> life" where
  "abortCASOpen l =
     (if l_state l = lifeOpen then (AbortRun, l\<lparr>l_state := lifeClosed\<rparr>) else (AbortStart, l))"

definition abortCASClosing :: "life \<Rightarrow> pc \<times> life" where
  "abortCASClosing l =
     (if l_state l = lifeClosing then (AbortSignal, l\<lparr>l_state := lifeAborting\<rparr>) else (AbortStart, l))"

definition abortSignal :: "life \<Rightarrow> pc \<times> life" where
  "abortSignal l = (if l_abort l then (Panicked, l) else (AbortWait, l\<lparr>l_abort := True\<rparr>))"

definition shutStart :: "life \<Rightarrow> pc \<times> life" where
  "shutStart l =
     (if \<not> l_init l \<or> l_state l \<noteq> lifeOpen then (Ret (Some NetErrClosed), l) else (ShutCAS, l))"

definition shutCAS :: "life \<Rightarrow> pc \<times> life" where
  "shutCAS l = (if l_shut l then (Ret None, l) else (ShutRun, l\<lparr>l_shut := True\<rparr>))"

text \<open>The environment's part of a step, when it is of the kind the step waits for.\<close>

definition onTau :: "env \<Rightarrow> 'a \<Rightarrow> 'a option" where
  "onTau ev x = (case ev of Tau \<Rightarrow> Some x | _ \<Rightarrow> None)"

definition onRes :: "env \<Rightarrow> (goerr option \<Rightarrow> 'a) \<Rightarrow> 'a option" where
  "onRes ev f = (case ev of Res e \<Rightarrow> Some (f e) | _ \<Rightarrow> None)"

definition onClock :: "env \<Rightarrow> (int \<Rightarrow> 'a) \<Rightarrow> 'a option" where
  "onClock ev f = (case ev of Clock t \<Rightarrow> Some (f t) | _ \<Rightarrow> None)"

definition onGone :: "env \<Rightarrow> (goerr + bool \<Rightarrow> 'a) \<Rightarrow> 'a option" where
  "onGone ev f = (case ev of Gone r \<Rightarrow> Some (f r) | _ \<Rightarrow> None)"

text \<open>The select: the abort channel, once closed, or the timer.\<close>

definition closeSelect :: "env \<Rightarrow> int \<Rightarrow> int \<Rightarrow> life \<Rightarrow> (pc \<times> life) option" where
  "closeSelect ev d s l =
     (case ev of
        AbortFires \<Rightarrow> if l_abort l then Some (CloseAbortive None, l) else None
      | TimerFires \<Rightarrow> Some (ClosePoll d (min (2 * s) shutdownPollMax), l)
      | _ \<Rightarrow> None)"

fun thread_step :: "env \<Rightarrow> pc \<Rightarrow> life \<Rightarrow> (pc \<times> life) option" where
  "thread_step ev Idle l = None"
| "thread_step ev (CloseStart grace) l = onTau ev (closeStart grace l)"
| "thread_step ev (CloseNow grace) l = onClock ev (\<lambda>t. (CloseShut (t + grace), l))"
| "thread_step ev (CloseShut d) l = onTau ev (CloseStartShutdown d, l\<lparr>l_shut := True\<rparr>)"
| "thread_step ev (CloseStartShutdown d) l =
     onRes ev (\<lambda>e. (ClosePoll d shutdownPollMin, l\<lparr>l_starts := l_starts l + 1\<rparr>))"
| "thread_step ev (ClosePoll d s) l = onGone ev (\<lambda>r. closeLook d s r l)"
| "thread_step ev (CloseTime d s) l =
     onClock ev (\<lambda>t. (if d - t \<le> 0 then CloseAbortive None else CloseWait d s (d - t), l))"
| "thread_step ev (CloseWait d s r) l = closeSelect ev d s l"
| "thread_step ev (CloseAbortive q) l = onRes ev (\<lambda>e. closeAbortive q e l)"
| "thread_step ev CloseRelease l = onRes ev (\<lambda>e. (CloseStore e, l\<lparr>l_released := l_released l + 1\<rparr>))"
| "thread_step ev (CloseStore e) l = onTau ev (CloseDone e, l\<lparr>l_state := lifeClosed\<rparr>)"
| "thread_step ev (CloseDone e) l = onTau ev (closeDone e l)"
| "thread_step ev AbortStart l = onTau ev (abortStart l)"
| "thread_step ev AbortCASOpen l = onTau ev (abortCASOpen l)"
| "thread_step ev AbortCASClosing l = onTau ev (abortCASClosing l)"
| "thread_step ev AbortSignal l = onTau ev (abortSignal l)"
| "thread_step ev AbortWait l = (if l_done l then onTau ev (Ret None, l) else None)"
| "thread_step ev AbortRun l = onRes ev (\<lambda>e. (AbortDone e, l\<lparr>l_released := l_released l + 1\<rparr>))"
| "thread_step ev (AbortDone e) l = onTau ev (closeDone e l)"
| "thread_step ev ShutStart l = onTau ev (shutStart l)"
| "thread_step ev ShutCAS l = onTau ev (shutCAS l)"
| "thread_step ev ShutRun l = onRes ev (\<lambda>e. (Ret e, l\<lparr>l_starts := l_starts l + 1\<rparr>))"
| "thread_step ev (Ret e) l = None"
| "thread_step ev Panicked l = None"

lemma on_SomeD:
  "onTau ev x = Some y \<Longrightarrow> y = x"
  "onRes ev f = Some y \<Longrightarrow> \<exists>e. y = f e"
  "onClock ev g = Some y \<Longrightarrow> \<exists>t. y = g t"
  "onGone ev h = Some y \<Longrightarrow> \<exists>r. y = h r"
  by (auto simp: onTau_def onRes_def onClock_def onGone_def split: env.splits)

section \<open>Interleaving\<close>

type_synonym calls = "nat \<Rightarrow> pc"

definition entry :: "pc \<Rightarrow> bool" where
  "entry p \<longleftrightarrow> (\<exists>g. p = CloseStart g) \<or> p = AbortStart \<or> p = ShutStart"

inductive life_step :: "life \<times> calls \<Rightarrow> life \<times> calls \<Rightarrow> bool" where
  call: "ps t = Idle \<or> (\<exists>e. ps t = Ret e) \<Longrightarrow> entry p \<Longrightarrow> life_step (l, ps) (l, ps(t := p))"
| run: "thread_step ev (ps t) l = Some (p', l') \<Longrightarrow> life_step (l, ps) (l', ps(t := p'))"

inductive reachable :: "life \<times> calls \<Rightarrow> bool" where
  start: "reachable (life_init life_zero, \<lambda>t. Idle)"
| step: "reachable s \<Longrightarrow> life_step s s' \<Longrightarrow> reachable s'"

inductive_cases life_stepE: "life_step (l, ps) s'"

section \<open>The invariant\<close>

text \<open>What a call is to the others: whether it owns the descriptor, and how; whether it has
  released it; whether it is about to close the abort channel.\<close>

datatype role = Free | Closer bool | Finisher bool | Signaller | Broken

fun roleOf :: "pc \<Rightarrow> role" where
  "roleOf Idle = Free"
| "roleOf (CloseStart g) = Free"
| "roleOf (CloseNow g) = Closer False"
| "roleOf (CloseShut d) = Closer False"
| "roleOf (CloseStartShutdown d) = Closer False"
| "roleOf (ClosePoll d s) = Closer False"
| "roleOf (CloseTime d s) = Closer False"
| "roleOf (CloseWait d s r) = Closer False"
| "roleOf (CloseAbortive q) = Closer False"
| "roleOf CloseRelease = Closer False"
| "roleOf (CloseStore e) = Closer True"
| "roleOf (CloseDone e) = Finisher True"
| "roleOf AbortStart = Free"
| "roleOf AbortCASOpen = Free"
| "roleOf AbortCASClosing = Free"
| "roleOf AbortSignal = Signaller"
| "roleOf AbortWait = Free"
| "roleOf AbortRun = Finisher False"
| "roleOf (AbortDone e) = Finisher True"
| "roleOf ShutStart = Free"
| "roleOf ShutCAS = Free"
| "roleOf ShutRun = Free"
| "roleOf (Ret e) = Free"
| "roleOf Panicked = Broken"

text \<open>The nine kinds of step, by what they do to the shared state and to the call's role.\<close>

definition same_view :: "life \<Rightarrow> life \<Rightarrow> bool" where
  "same_view l l' \<longleftrightarrow> l_init l' = l_init l \<and> l_state l' = l_state l \<and> l_abort l' = l_abort l \<and>
     l_done l' = l_done l \<and> l_released l' = l_released l"

inductive life_move :: "role \<Rightarrow> life \<Rightarrow> role \<Rightarrow> life \<Rightarrow> bool" where
  stay: "same_view l l' \<Longrightarrow> life_move r l r l'"
| claim: "l_state l = lifeOpen \<Longrightarrow> life_move Free l (Closer False) (l\<lparr>l_state := lifeClosing\<rparr>)"
| free: "life_move (Closer False) l (Closer True) (l\<lparr>l_released := Suc (l_released l)\<rparr>)"
| store: "life_move (Closer True) l (Finisher True) (l\<lparr>l_state := lifeClosed\<rparr>)"
| fin: "\<not> l_done l \<Longrightarrow> life_move (Finisher True) l Free (l\<lparr>l_done := True\<rparr>)"
| again: "l_done l \<Longrightarrow> life_move (Finisher True) l Broken l"
| seize: "l_state l = lifeOpen \<Longrightarrow> life_move Free l (Finisher False) (l\<lparr>l_state := lifeClosed\<rparr>)"
| abort: "life_move (Finisher False) l (Finisher True) (l\<lparr>l_released := Suc (l_released l)\<rparr>)"
| overtake: "l_state l = lifeClosing \<Longrightarrow> life_move Free l Signaller (l\<lparr>l_state := lifeAborting\<rparr>)"
| signal: "\<not> l_abort l \<Longrightarrow> life_move Signaller l Free (l\<lparr>l_abort := True\<rparr>)"
| resignal: "l_abort l \<Longrightarrow> life_move Signaller l Broken l"

lemma same_view_refl [simp]: "same_view l l" "same_view l (l\<lparr>l_shut := b\<rparr>)" "same_view l (l\<lparr>l_starts := n\<rparr>)"
  by (simp_all add: same_view_def)

lemma stays [simp]:
  "life_move r l r l" "life_move r l r (l\<lparr>l_shut := b\<rparr>)" "life_move r l r (l\<lparr>l_starts := n\<rparr>)"
  by (rule stay, simp)+

lemmas call_defs = closeStart_def closeLook_def closeAbortive_def closeDone_def abortStart_def
  abortCASOpen_def abortCASClosing_def abortSignal_def shutStart_def shutCAS_def closeSelect_def

lemma thread_step_move:
  assumes "thread_step ev p l = Some (p', l')"
  shows "life_move (roleOf p) l (roleOf p') l'"
  using assms
  by (cases p)
    (auto simp: call_defs split: if_splits env.splits sum.splits lifeState.splits
      dest!: on_SomeD intro: life_move.intros)

text \<open>The invariant: at most one call owns the descriptor, and one does while it is being closed;
  the state word says which kind; \<open>done\<close> is closed only at the end; the abort channel is closed
  only by the one call that moved the lifecycle to aborting; and the descriptor has been
  released exactly when the owner has passed its release.\<close>

fun closing :: "role \<Rightarrow> bool" where
  "closing (Closer b) = True"
| "closing _ = False"

fun finishing :: "role \<Rightarrow> bool" where
  "finishing (Finisher b) = True"
| "finishing _ = False"

definition owner :: "role \<Rightarrow> bool" where
  "owner r \<longleftrightarrow> closing r \<or> finishing r"

definition lone :: "(role \<Rightarrow> bool) \<Rightarrow> (nat \<Rightarrow> role) \<Rightarrow> bool" where
  "lone K rs \<longleftrightarrow> (\<exists>t. K (rs t) \<and> (\<forall>u. u \<noteq> t \<longrightarrow> \<not> owner (rs u)))"

definition owners_inv :: "life \<Rightarrow> (nat \<Rightarrow> role) \<Rightarrow> bool" where
  "owners_inv l rs \<longleftrightarrow>
     (if l_done l then l_state l = lifeClosed \<and> (\<forall>u. \<not> owner (rs u))
      else case l_state l of
        lifeOpen \<Rightarrow> \<forall>u. \<not> owner (rs u)
      | lifeClosing \<Rightarrow> lone closing rs
      | lifeAborting \<Rightarrow> lone closing rs
      | lifeClosed \<Rightarrow> lone finishing rs)"

definition early :: "life \<Rightarrow> bool" where
  "early l \<longleftrightarrow> l_state l = lifeOpen \<or> l_state l = lifeClosing"

definition signal_inv :: "life \<Rightarrow> (nat \<Rightarrow> role) \<Rightarrow> bool" where
  "signal_inv l rs \<longleftrightarrow> (l_abort l \<longrightarrow> \<not> early l) \<and>
     (if l_abort l \<or> early l then \<forall>u. rs u \<noteq> Signaller
      else \<forall>t u. rs t = Signaller \<longrightarrow> rs u = Signaller \<longrightarrow> t = u)"

fun freed :: "role \<Rightarrow> bool" where
  "freed (Closer b) = b"
| "freed (Finisher b) = b"
| "freed _ = False"

definition release_inv :: "life \<Rightarrow> (nat \<Rightarrow> role) \<Rightarrow> bool" where
  "release_inv l rs \<longleftrightarrow>
     l_released l = (if l_done l \<or> (\<exists>t. freed (rs t)) then 1 else 0)"

definition life_inv :: "life \<Rightarrow> (nat \<Rightarrow> role) \<Rightarrow> bool" where
  "life_inv l rs \<longleftrightarrow> l_init l \<and> (\<forall>t. rs t \<noteq> Broken) \<and> owners_inv l rs \<and> signal_inv l rs \<and> release_inv l rs"

lemma owner_simps [simp]:
  "owner (Closer b)" "owner (Finisher b)" "\<not> owner Free" "\<not> owner Signaller" "\<not> owner Broken"
  by (simp_all add: owner_def)

lemma lone_owner:
  assumes "lone K rs" "owner (rs t)"
  shows "K (rs t)" "\<And>u. u \<noteq> t \<Longrightarrow> \<not> owner (rs u)"
  using assms unfolding lone_def by metis+

lemma lone_updI: "K r \<Longrightarrow> (\<And>u. u \<noteq> t \<Longrightarrow> \<not> owner (rs u)) \<Longrightarrow> lone K (rs(t := r))"
  unfolding lone_def by (rule exI [of _ t]) simp

lemma lone_upd_other: "lone K rs \<Longrightarrow> K (rs t) \<Longrightarrow> owner (rs t) \<Longrightarrow> K r \<Longrightarrow> lone K (rs(t := r))"
  by (rule lone_updI) (auto dest: lone_owner)

lemma lone_upd_free:
  assumes "lone K rs" "\<And>x. K x \<Longrightarrow> owner x" "\<not> owner (rs t)" "\<not> owner r"
  shows "lone K (rs(t := r))"
proof -
  from assms(1) obtain v where v: "K (rs v)" "\<forall>u. u \<noteq> v \<longrightarrow> \<not> owner (rs u)" unfolding lone_def by blast
  with assms(2,3) have "v \<noteq> t" by blast
  with v assms(4) show ?thesis unfolding lone_def by (intro exI [of _ v]) simp
qed

lemma owners_closer:
  assumes "owners_inv l rs" "rs t = Closer b"
  shows "\<not> l_done l \<and> (l_state l = lifeClosing \<or> l_state l = lifeAborting) \<and> (\<forall>u. u \<noteq> t \<longrightarrow> \<not> owner (rs u))"
  using assms lone_owner [of _ rs t]
  by (auto simp: owners_inv_def split: if_splits lifeState.splits) (metis owner_simps(1) finishing.simps)+

lemma owners_finisher:
  assumes "owners_inv l rs" "rs t = Finisher b"
  shows "\<not> l_done l \<and> l_state l = lifeClosed \<and> (\<forall>u. u \<noteq> t \<longrightarrow> \<not> owner (rs u))"
  using assms lone_owner [of _ rs t]
  by (auto simp: owners_inv_def split: if_splits lifeState.splits) (metis owner_simps(2) closing.simps)+

lemma owners_stay:
  assumes "owners_inv l rs" "same_view l l'" "rs t = r"
  shows "owners_inv l' (rs(t := r))"
proof -
  have "rs(t := r) = rs" using assms(3) by auto
  with assms(1,2) show ?thesis by (simp add: owners_inv_def same_view_def)
qed

lemma owners_free:
  assumes "owners_inv l rs" "\<not> owner (rs t)" "\<not> owner r" "l_done l' = l_done l"
    "l_state l' = l_state l \<or> l_state l = lifeClosing \<and> l_state l' = lifeAborting"
  shows "owners_inv l' (rs(t := r))"
proof -
  have lf: "lone closing (rs(t := r))" if "lone closing rs"
    by (rule lone_upd_free [OF that]) (use assms in \<open>auto simp: owner_def\<close>)
  have lg: "lone finishing (rs(t := r))" if "lone finishing rs"
    by (rule lone_upd_free [OF that]) (use assms in \<open>auto simp: owner_def\<close>)
  show ?thesis using assms lf lg
    by (auto simp: owners_inv_def split: if_splits lifeState.splits)
qed

lemma owners_move:
  assumes "life_move (rs t) l r' l'" "owners_inv l rs"
  shows "owners_inv l' (rs(t := r'))"
  using assms
proof (cases rule: life_move.cases)
  case stay
  then show ?thesis using owners_stay [OF assms(2), of l' t r'] by simp
next
  case claim
  then show ?thesis using assms(2) by (auto simp: owners_inv_def intro: lone_updI split: if_splits)
next
  case free
  note c = owners_closer [OF assms(2) free(1)]
  with free show ?thesis by (auto simp: owners_inv_def intro!: lone_updI)
next
  case store
  note c = owners_closer [OF assms(2) store(1)]
  with store show ?thesis by (auto simp: owners_inv_def intro!: lone_updI)
next
  case fin
  note c = owners_finisher [OF assms(2) fin(1)]
  with fin show ?thesis by (auto simp: owners_inv_def)
next
  case again
  then show ?thesis using owners_finisher [OF assms(2) again(1)] by simp
next
  case seize
  then show ?thesis using assms(2) by (auto simp: owners_inv_def intro: lone_updI split: if_splits)
next
  case abort
  note c = owners_finisher [OF assms(2) abort(1)]
  with abort show ?thesis by (auto simp: owners_inv_def intro!: lone_updI)
next
  case overtake
  then show ?thesis using assms(2) by (intro owners_free) auto
next
  case signal
  then show ?thesis using assms(2) by (intro owners_free) auto
next
  case resignal
  then show ?thesis using assms(2) by (intro owners_free) auto
qed

lemma signal_move:
  assumes "life_move (rs t) l r' l'" "signal_inv l rs" "owners_inv l rs"
  shows "signal_inv l' (rs(t := r'))"
  using assms
proof (cases rule: life_move.cases)
  case stay
  have "rs(t := r') = rs" using stay by auto
  with stay assms(2) show ?thesis by (simp add: signal_inv_def same_view_def early_def)
next
  case store
  note c = owners_closer [OF assms(3) store(1)]
  with store assms(2) show ?thesis by (auto simp: signal_inv_def early_def split: if_splits)
next
  case seize
  with assms(2) show ?thesis by (auto simp: signal_inv_def early_def)
next
  case signal
  with assms(2) show ?thesis by (auto simp: signal_inv_def early_def split: if_splits)
qed (use assms(2) in \<open>auto simp: signal_inv_def early_def split: if_splits\<close>)

lemma freed_upd: "freed r = freed (rs t) \<Longrightarrow> (\<exists>u. freed ((rs(t := r)) u)) \<longleftrightarrow> (\<exists>u. freed (rs u))"
  by (metis fun_upd_apply)

lemma freed_owner: "freed r \<Longrightarrow> owner r"
  by (cases r) auto

lemma freed_upd_owner:
  assumes "\<forall>u. u \<noteq> t \<longrightarrow> \<not> owner (rs u)"
  shows "(\<exists>u. freed ((rs(t := r)) u)) \<longleftrightarrow> freed r" "(\<exists>u. freed (rs u)) \<longleftrightarrow> freed (rs t)"
  using assms freed_owner by (metis fun_upd_apply)+

lemma release_move:
  assumes "life_move (rs t) l r' l'" "release_inv l rs" "owners_inv l rs"
  shows "release_inv l' (rs(t := r'))"
  using assms(1)
proof (cases rule: life_move.cases)
  case free
  note c = owners_closer [OF assms(3) free(1)]
  with free assms(2) show ?thesis by (simp add: release_inv_def freed_upd_owner [of t rs] del: fun_upd_apply)
next
  case abort
  note c = owners_finisher [OF assms(3) abort(1)]
  with abort assms(2) show ?thesis by (simp add: release_inv_def freed_upd_owner [of t rs] del: fun_upd_apply)
next
  case fin
  note c = owners_finisher [OF assms(3) fin(1)]
  with fin assms(2) show ?thesis by (simp add: release_inv_def freed_upd_owner [of t rs] del: fun_upd_apply)
next
  case again
  then show ?thesis using owners_finisher [OF assms(3) again(1)] by simp
next
  case stay
  then show ?thesis using assms(2) by (simp add: release_inv_def same_view_def)
qed (use assms(2) freed_upd [of r' rs t] in \<open>simp_all add: release_inv_def del: fun_upd_apply\<close>)

lemma life_inv_move:
  assumes "life_move (rs t) l r' l'" "life_inv l rs"
  shows "life_inv l' (rs(t := r'))"
proof -
  have inv: "l_init l" "\<forall>u. rs u \<noteq> Broken" "owners_inv l rs" "signal_inv l rs" "release_inv l rs"
    using assms(2) by (simp_all add: life_inv_def)
  have "r' \<noteq> Broken"
    using assms(1)
  proof (cases rule: life_move.cases)
    case again
    then show ?thesis using owners_finisher [OF inv(3) again(1)] by simp
  next
    case resignal
    then show ?thesis using inv(4) by (auto simp: signal_inv_def)
  qed (use inv(2) in auto)
  moreover have "l_init l'" using assms(1) inv(1) by cases (auto simp: same_view_def)
  ultimately show ?thesis
    using inv owners_move [where rs = rs and t = t, OF assms(1)]
      signal_move [where rs = rs and t = t, OF assms(1)] release_move [where rs = rs and t = t, OF assms(1)]
    by (simp add: life_inv_def)
qed

lemma life_step_inv:
  assumes "life_step s s'" "life_inv (fst s) (roleOf \<circ> snd s)"
  shows "life_inv (fst s') (roleOf \<circ> snd s')"
  using assms(1)
proof cases
  case (call ps t p l)
  have "life_move ((roleOf \<circ> ps) t) l (roleOf p) l"
    using call by (auto simp: entry_def)
  from life_inv_move [where rs = "roleOf \<circ> ps" and t = t, OF this] assms(2) call show ?thesis by (simp add: fun_upd_comp)
next
  case (run ev ps t l p' l')
  have "life_move ((roleOf \<circ> ps) t) l (roleOf p') l'"
    using thread_step_move [OF run(3)] by simp
  from life_inv_move [where rs = "roleOf \<circ> ps" and t = t, OF this] assms(2) run show ?thesis by (simp add: fun_upd_comp)
qed

lemma reachable_inv: "reachable s \<Longrightarrow> life_inv (fst s) (roleOf \<circ> snd s)"
proof (induction rule: reachable.induct)
  case start
  show ?case
    by (simp add: life_inv_def owners_inv_def signal_inv_def release_inv_def life_init_def life_zero_def early_def)
qed (rule life_step_inv)

section \<open>The state only moves forward\<close>

definition forward :: "lifeState \<Rightarrow> lifeState \<Rightarrow> bool" where
  "forward a b \<longleftrightarrow> a = b \<or> (a, b) \<in> {(lifeOpen, lifeClosing), (lifeOpen, lifeClosed),
     (lifeClosing, lifeAborting), (lifeClosing, lifeClosed), (lifeAborting, lifeClosed)}"

lemma life_move_forward:
  assumes "life_move (rs t) l r' l'" "owners_inv l rs"
  shows "forward (l_state l) (l_state l')"
  using assms(1)
proof (cases rule: life_move.cases)
  case store
  note c = owners_closer [OF assms(2) store(1)]
  with store show ?thesis by (auto simp: forward_def)
qed (auto simp: forward_def same_view_def)

lemma run_move:
  assumes "reachable (l, ps)" "thread_step ev (ps t) l = Some (p', l')"
  shows "life_move ((roleOf \<circ> ps) t) l (roleOf p') l'" "owners_inv l (roleOf \<circ> ps)" "signal_inv l (roleOf \<circ> ps)"
  using thread_step_move [OF assms(2)] reachable_inv [OF assms(1)] by (simp_all add: life_inv_def)

text \<open>A call waits for \<open>done\<close> only while a close is under way or over.\<close>

lemma waits_late: "reachable s \<Longrightarrow> snd s t = AbortWait \<Longrightarrow> \<not> early (fst s)"
proof (induction arbitrary: t rule: reachable.induct)
  case (step s s')
  obtain l ps where s: "s = (l, ps)" by fastforce
  have reach: "reachable (l, ps)" using step.hyps(1) s by simp
  from step.hyps(2) show ?case unfolding s
  proof cases
    case (call u p)
    then show ?thesis using step.IH [of t] step.prems by (auto simp: s entry_def split: if_splits)
  next
    case (run ev u p' l')
    have fwd: "\<not> early l \<Longrightarrow> \<not> early l'"
      using life_move_forward [where rs = "roleOf \<circ> ps" and t = u, OF run_move(1,2) [OF reach run(2)]]
      by (auto simp: forward_def early_def)
    show ?thesis
    proof (cases "t = u")
      case False
      then show ?thesis using step.IH [of t] step.prems run(1) fwd by (simp add: s)
    next
      case True
      with run step.prems have p': "p' = AbortWait" by simp
      have "signal_inv l (roleOf \<circ> ps)" using run_move(3) [OF reach run(2)] .
      then have sig: "ps u = AbortSignal \<Longrightarrow> \<not> early l"
        by (auto simp: signal_inv_def comp_def split: if_splits dest: spec [of _ u])
      from run(2) p' sig show ?thesis using run(1)
        by (cases "ps u") (auto simp: call_defs early_def split: if_splits env.splits sum.splits lifeState.splits
            dest!: on_SomeD)
    qed
  qed
qed simp

section \<open>Properties\<close>

text \<open>C21: under any interleaving of Close, Abort and Shutdown calls the descriptor is released at
  most once, and exactly once when \<open>done\<close> is closed, which happens only in the closed state; and
  no call ever panics by closing the abort or the done channel twice.\<close>

theorem released_exactly_once:
  assumes "reachable (l, ps)"
  shows "l_released l \<le> 1 \<and> (l_done l \<longrightarrow> l_released l = 1 \<and> l_state l = lifeClosed) \<and> ps t \<noteq> Panicked"
proof -
  have inv: "life_inv l (roleOf \<circ> ps)" using reachable_inv [OF assms] by simp
  then have "(roleOf \<circ> ps) t \<noteq> Broken" unfolding life_inv_def by blast
  then have "ps t \<noteq> Panicked" by auto
  then show ?thesis using inv by (auto simp: life_inv_def release_inv_def owners_inv_def split: if_splits)
qed

text \<open>A run of three calls: a Close with a grace period, overtaken by an Abort, and a Shutdown
  that comes too late.\<close>

definition demo_l :: life where
  "demo_l = \<lparr>l_init = True, l_state = lifeClosing, l_abort = False, l_done = False, l_shut = False,
     l_released = 0, l_starts = 0\<rparr>"

lemma demo_reachable: "reachable (demo_l, (\<lambda>t. Idle)(0 := CloseNow 5))"
proof -
  let ?i = "life_init life_zero"
  have "life_step (?i, \<lambda>t. Idle) (?i, (\<lambda>t. Idle)(0 := CloseStart 5))"
    by (rule life_step.call) (simp_all add: entry_def)
  with reachable.start have r: "reachable (?i, (\<lambda>t. Idle)(0 := CloseStart 5))" by (rule reachable.step)
  have "life_step (?i, (\<lambda>t. Idle)(0 := CloseStart 5)) (demo_l, ((\<lambda>t. Idle)(0 := CloseStart 5))(0 := CloseNow 5))"
    by (rule life_step.run [of Tau])
      (simp add: onTau_def closeStart_def life_init_def life_zero_def demo_l_def)
  from reachable.step [OF r this] show ?thesis by simp
qed

theorem released_exactly_once_witness:
  "reachable (demo_l, (\<lambda>t. Idle)(0 := CloseNow 5)) \<and> l_released demo_l \<le> 1"
  using demo_reachable released_exactly_once [OF demo_reachable, of 0] by simp

text \<open>The lifecycle only moves forward along the five transitions its documentation lists.\<close>

theorem lifecycle_moves_forward:
  assumes "reachable (l, ps)" "life_step (l, ps) (l', ps')"
  shows "forward (l_state l) (l_state l')"
  using assms(2)
proof cases
  case (call t p)
  then show ?thesis by (simp add: forward_def)
next
  case (run ev t p')
  from life_move_forward [where rs = "roleOf \<circ> ps" and t = t, OF run_move(1,2) [OF assms(1) run(2)]]
  show ?thesis by simp
qed

theorem lifecycle_moves_forward_witness:
  "life_step (demo_l, (\<lambda>t. Idle)(0 := CloseNow 5)) (demo_l, ((\<lambda>t. Idle)(0 := CloseNow 5))(0 := CloseShut 12)) \<and>
   forward (l_state demo_l) (l_state demo_l)"
proof -
  have st: "life_step (demo_l, (\<lambda>t. Idle)(0 := CloseNow 5)) (demo_l, ((\<lambda>t. Idle)(0 := CloseNow 5))(0 := CloseShut 12))"
    by (rule life_step.run [of "Clock 7"]) (simp add: onClock_def)
  from st lifecycle_moves_forward [OF demo_reachable st] show ?thesis by simp
qed

text \<open>The states in the order of the code's constants.\<close>

fun lifeRank :: "lifeState \<Rightarrow> nat" where
  "lifeRank lifeOpen = 0"
| "lifeRank lifeClosing = 1"
| "lifeRank lifeAborting = 2"
| "lifeRank lifeClosed = 3"

instantiation lifeState :: linorder
begin

definition less_eq_lifeState :: "lifeState \<Rightarrow> lifeState \<Rightarrow> bool" where
  "less_eq_lifeState a b \<longleftrightarrow> lifeRank a \<le> lifeRank b"

definition less_lifeState :: "lifeState \<Rightarrow> lifeState \<Rightarrow> bool" where
  "less_lifeState a b \<longleftrightarrow> lifeRank a < lifeRank b"

instance
proof
  fix a b :: lifeState
  show "a \<le> b \<Longrightarrow> b \<le> a \<Longrightarrow> a = b" by (cases a; cases b) (simp_all add: less_eq_lifeState_def)
qed (auto simp: less_eq_lifeState_def less_lifeState_def)

end

lemma forward_le: "forward a b \<Longrightarrow> a \<le> b"
  by (auto simp: forward_def less_eq_lifeState_def)

lemma lifeClosed_top: "lifeClosed \<le> a \<longleftrightarrow> a = lifeClosed"
  by (cases a) (simp_all add: less_eq_lifeState_def)

text \<open>Over any run the state never goes back, and a closed one stays closed.\<close>

lemma lifecycle_monotone:
  assumes "reachable s" "life_step\<^sup>*\<^sup>* s s'"
  shows "reachable s' \<and> l_state (fst s) \<le> l_state (fst s')"
  using assms(2)
proof (induction rule: rtranclp_induct)
  case base
  show ?case using assms(1) by simp
next
  case (step y z)
  obtain l ps l' ps' where yz: "y = (l, ps)" "z = (l', ps')" by (cases y; cases z)
  have "forward (l_state l) (l_state l')" using step lifecycle_moves_forward [of l ps l' ps'] yz by simp
  then show ?case using step yz forward_le [of "l_state l" "l_state l'"] by (auto intro: reachable.step order_trans)
qed

lemma closed_for_good:
  assumes "reachable s" "l_state (fst s) = lifeClosed" "life_step\<^sup>*\<^sup>* s s'"
  shows "l_state (fst s') = lifeClosed"
  using lifecycle_monotone [OF assms(1,3)] assms(2) lifeClosed_top by simp

text \<open>The owner of the descriptor is never blocked: whatever it is doing, some answer of the
  environment lets it go on (the timer, while it waits).\<close>

lemma owner_enabled: "owner (roleOf p) \<Longrightarrow> \<exists>ev r. thread_step ev p l = Some r"
proof (cases p)
  case (CloseNow g)
  then show ?thesis by (auto simp: onClock_def intro!: exI [of _ "Clock 0"])
next
  case (CloseShut d)
  then show ?thesis by (auto simp: onTau_def intro!: exI [of _ Tau])
next
  case (CloseStartShutdown d)
  then show ?thesis by (auto simp: onRes_def intro!: exI [of _ "Res None"])
next
  case (ClosePoll d s)
  then show ?thesis by (auto simp: onGone_def intro!: exI [of _ "Gone (Inr True)"])
next
  case (CloseTime d s)
  then show ?thesis by (auto simp: onClock_def intro!: exI [of _ "Clock 0"])
next
  case (CloseWait d s r)
  then show ?thesis by (auto simp: closeSelect_def intro!: exI [of _ TimerFires])
next
  case (CloseStore e)
  then show ?thesis by (auto simp: onTau_def intro!: exI [of _ Tau])
next
  case (CloseDone e)
  then show ?thesis by (auto simp: onTau_def intro!: exI [of _ Tau])
next
  case (AbortDone e)
  then show ?thesis by (auto simp: onTau_def intro!: exI [of _ Tau])
qed (auto simp: onRes_def intro!: exI [of _ "Res None"])

text \<open>C33: an Abort that waits for another call to release the descriptor never waits in vain: as
  long as \<open>done\<close> is open there is exactly one other call that owns the descriptor, and that call
  can always take its next step.\<close>

theorem waiter_not_orphaned:
  assumes "reachable (l, ps)" "ps t = AbortWait" "\<not> l_done l"
  shows "\<exists>u. u \<noteq> t \<and> owner (roleOf (ps u)) \<and> (\<forall>v. owner (roleOf (ps v)) \<longrightarrow> v = u) \<and>
    (\<exists>ev r. thread_step ev (ps u) l = Some r)"
proof -
  have "\<not> early l" using waits_late [OF assms(1)] assms(2) by simp
  then have "lone closing (roleOf \<circ> ps) \<or> lone finishing (roleOf \<circ> ps)"
    using reachable_inv [OF assms(1)] assms(3)
    by (auto simp: life_inv_def owners_inv_def early_def split: lifeState.splits)
  then obtain u where u: "owner (roleOf (ps u))" "\<And>v. v \<noteq> u \<Longrightarrow> \<not> owner (roleOf (ps v))"
    unfolding lone_def owner_def by auto
  with assms(2) have "u \<noteq> t" by auto
  with u owner_enabled [OF u(1), of l] show ?thesis by blast
qed

definition demo_w :: "nat \<Rightarrow> pc" where
  "demo_w = (\<lambda>t. Idle)(0 := CloseNow 5, 1 := AbortWait)"

definition demo_wl :: life where
  "demo_wl = demo_l\<lparr>l_state := lifeAborting, l_abort := True\<rparr>"

lemma demo_w_reachable: "reachable (demo_wl, demo_w)"
proof -
  let ?p0 = "(\<lambda>t. Idle)(0 := CloseNow 5)"
  let ?l1 = "demo_l\<lparr>l_state := lifeAborting\<rparr>"
  have 1: "reachable (demo_l, ?p0(1 := AbortStart))"
    by (rule reachable.step [OF demo_reachable], rule life_step.call) (simp_all add: entry_def)
  have 2: "reachable (demo_l, (?p0(1 := AbortStart))(1 := AbortCASClosing))"
    by (rule reachable.step [OF 1], rule life_step.run [of Tau]) (simp add: onTau_def abortStart_def demo_l_def)
  have 3: "reachable (?l1, ((?p0(1 := AbortStart))(1 := AbortCASClosing))(1 := AbortSignal))"
    by (rule reachable.step [OF 2], rule life_step.run [of Tau]) (simp add: onTau_def abortCASClosing_def demo_l_def)
  have "reachable (demo_wl, (((?p0(1 := AbortStart))(1 := AbortCASClosing))(1 := AbortSignal))(1 := AbortWait))"
    by (rule reachable.step [OF 3], rule life_step.run [of Tau])
      (simp add: onTau_def abortSignal_def demo_l_def demo_wl_def)
  then show ?thesis by (simp add: demo_w_def)
qed

theorem waiter_not_orphaned_witness:
  "reachable (demo_wl, demo_w) \<and> (\<exists>u. u \<noteq> 1 \<and> owner (roleOf (demo_w u)))"
proof -
  have "demo_w 1 = AbortWait" "\<not> l_done demo_wl" by (simp_all add: demo_w_def demo_wl_def demo_l_def)
  from waiter_not_orphaned [OF demo_w_reachable this] demo_w_reachable show ?thesis by blast
qed

section \<open>The wait of a graceful close is bounded\<close>

text \<open>A call run alone, with what its environment answers.\<close>

fun run_call :: "env list \<Rightarrow> pc \<Rightarrow> life \<Rightarrow> (pc \<times> life) option" where
  "run_call [] p l = Some (p, l)"
| "run_call (ev # evs) p l = (case thread_step ev p l of None \<Rightarrow> None | Some (p', l') \<Rightarrow> run_call evs p' l')"

text \<open>One round of the poll that finds the association still there, the clock reading it ends
  with, and the timer.\<close>

definition poll_round :: "int \<Rightarrow> env list" where
  "poll_round t = [Gone (Inr False), Clock t, TimerFires]"

lemma run_call_append:
  "run_call (xs @ ys) p l = (case run_call xs p l of None \<Rightarrow> None | Some (p', l') \<Rightarrow> run_call ys p' l')"
  by (induction xs arbitrary: p l) (auto split: option.split)

lemma poll_rounds:
  "\<forall>t \<in> set ts. t < d \<Longrightarrow>
   \<exists>s'. run_call (concat (List.map poll_round ts)) (ClosePoll d s) l = Some (ClosePoll d s', l)"
proof (induction ts arbitrary: s)
  case (Cons t ts)
  then show ?case
    by (simp add: poll_round_def onGone_def closeLook_def onClock_def closeSelect_def)
qed simp



end
