(* ===== verification/Recv.thy ===== *)
theory Recv
  imports Notifications MsgInfo Term Lifecycle
begin

unbundle bit_operations_syntax

text \<open>
  The receive path of a connection, \<open>recv_linux.go\<close>: the recvmsg callback (\<open>attempt\<close>) with
  its reassembly of notification records and its use of the association-error latch, the read
  of \<open>Read\<close> and \<open>RecvMsg\<close> (\<open>recvNext\<close>), and \<open>ReadMsg\<close>.

  The kernel and the poller are an environment: the list of \<open>answer\<close>s is what the calls of
  recvmsg return, in order, and where the poller gives up waiting. An empty list is a
  socket on which nothing more happens: recvmsg finds nothing and the read stays parked.
  \<open>recvState\<close> holds the fields of the source that outlive an attempt; the five that carry
  one attempt's result out (\<open>n\<close>, \<open>flags\<close>, \<open>err\<close>, \<open>record\<close>, \<open>cut\<close>), which \<open>take\<close> reads and clears,
  are \<open>attempt\<close>'s result, the bytes read standing for their number. The locks are not
  modelled: each read runs under the receive lock, and each recvmsg under the latch's.
\<close>

section \<open>Subscriptions\<close>

type_synonym eventSet = u16

definition eventBit :: "EventType \<Rightarrow> eventSet" where
  "eventBit t = push_bit (unat (t - EventAssocChange)) 1"

definition eventSet_has :: "eventSet \<Rightarrow> EventType \<Rightarrow> bool" where
  "eventSet_has s t \<longleftrightarrow> s AND eventBit t \<noteq> 0"

section \<open>State\<close>

datatype answer = RErr errno | RMsg bytes u32 bytes | PollErr goerr

record outcome =
  o_data :: bytes
  o_flags :: u32
  o_record :: bool
  o_cut :: bool
  o_err :: "goerr option"

record recvState =
  r_control :: bytes
  r_notes :: notificationAccumulator
  r_term :: "termState option"
  r_subs :: u32
  r_keepNotes :: bool
  r_partial :: bool
  r_interleaved :: bool
  r_noting :: bool
  r_typed :: bool
  r_typ :: EventType
  r_kept :: bool
  r_serving :: bool
  r_served :: nat
  r_serveInfo :: MsgInfo

section \<open>One attempt\<close>

text \<open>\<open>addPiece\<close>: the type of the record, looked for until its header is complete, and then the
  piece.\<close>

definition typeRecord :: "target \<Rightarrow> bytes \<Rightarrow> recvState \<Rightarrow> recvState option" where
  "typeRecord T p s =
     (if r_typed s then Some s
      else do {
        oc \<leftarrow> acc_peekType T p (r_notes s);
        Some (case oc of
          None \<Rightarrow> s
        | Some ty \<Rightarrow>
            let s1 = s\<lparr>r_typed := True, r_typ := ty\<rparr> in
            if r_keepNotes s1 \<and> (ty \<noteq> EventAssocChange \<and> ty \<noteq> EventPartialDelivery \<or>
                 eventSet_has (ucast (r_subs s1)) ty)
            then s1\<lparr>r_kept := fst (acc_keep (r_notes s1)), r_notes := snd (acc_keep (r_notes s1))\<rparr>
            else s1)
      })"

definition addPiece :: "target \<Rightarrow> bytes \<Rightarrow> recvState \<Rightarrow> recvState option" where
  "addPiece T p s = do {
     s1 \<leftarrow> typeRecord T p
       (if r_noting s then s
        else s\<lparr>r_notes := acc_reset (r_notes s), r_noting := True, r_typed := False, r_kept := False\<rparr>);
     a \<leftarrow> acc_add T p (r_notes s1);
     Some (s1\<lparr>r_notes := a\<rparr>)
   }"

definition endRecordLocked :: "target \<Rightarrow> recvState \<Rightarrow> recvState option" where
  "endRecordLocked T s =
     (let s1 = s\<lparr>r_noting := False\<rparr> in
      case r_term s1 of
        None \<Rightarrow> Some s1
      | Some t \<Rightarrow>
          if \<not> r_typed s1 \<or> r_typ s1 \<noteq> EventAssocChange then Some s1
          else do {
            (state, aid, ok) \<leftarrow> assocChangeInfo T (acc_head (r_notes s1));
            Some (if \<not> ok then s1
                  else if state = AssocCommLost then s1\<lparr>r_term := Some (t\<lparr>t_failed := True\<rparr>)\<rparr>
                  else if state = AssocShutdownComplete then s1\<lparr>r_term := Some (t\<lparr>t_ended := True\<rparr>)\<rparr>
                  else s1)
          })"

definition dropRecord :: "recvState \<Rightarrow> goerr option \<times> recvState" where
  "dropRecord s =
     (case acc_finish (r_notes s) of Inl e \<Rightarrow> Some e | Inr _ \<Rightarrow> None, s\<lparr>r_notes := acc_reset (r_notes s)\<rparr>)"

text \<open>A recvmsg that returned data, nothing, or an error other than EINTR: the two switches of
  \<open>attempt\<close> for it. \<open>None\<close> as the outcome is the callback returning false.\<close>

definition attemptEnds :: "goerr option \<Rightarrow> u32 \<Rightarrow> bytes \<Rightarrow> recvState \<Rightarrow> outcome option \<times> recvState" where
  "attemptEnds err flags p s =
     (if r_noting s then
        let s1 = s\<lparr>r_term := map_option (\<lambda>t. snd (storeLocked err t)) (r_term s), r_noting := False\<rparr>;
            err' = (case err of Some e \<Rightarrow> e | None \<Rightarrow> if p = [] then EOF else Errno EPROTO)
        in (Some \<lparr>o_data = [], o_flags = flags, o_record = False, o_cut = True, o_err = Some err'\<rparr>, s1)
      else
        let err1 = (if err = None \<and> p = [] then Some EOF else err);
            (err2, s2) =
              (case r_term s of
                 None \<Rightarrow> (err1, s)
               | Some t \<Rightarrow> if err1 = None then (err1, s)
                           else (fst (readErrorLocked err1 t), s\<lparr>r_term := Some (snd (readErrorLocked err1 t))\<rparr>))
        in if err2 = Some (Errno EAGAIN) then (None, s2)
           else (Some \<lparr>o_data = p, o_flags = flags, o_record = False, o_cut = False, o_err = err2\<rparr>, s2))"

fun attempt :: "target \<Rightarrow> answer list \<Rightarrow> recvState \<Rightarrow> (outcome option \<times> answer list \<times> recvState) option" where
  "attempt T [] s = (let (oc, s') = attemptEnds (Some (Errno EAGAIN)) 0 [] s in Some (oc, [], s'))"
| "attempt T (PollErr e # as) s =
     (let (oc, s') = attemptEnds (Some (Errno EAGAIN)) 0 [] s in Some (oc, PollErr e # as, s'))"
| "attempt T (RErr e # as) s =
     (if e = EINTR then attempt T as s
      else let (oc, s') = attemptEnds (Some (Errno e)) 0 [] s in Some (oc, as, s'))"
| "attempt T (RMsg p flags ctl # as) s =
     (let s0 = s\<lparr>r_control := ctl\<rparr> in
      if has_flag flags msgNotification then do {
        s1 \<leftarrow> addPiece T p s0;
        s2 \<leftarrow> (if has_flag flags msgEOR then endRecordLocked T s1 else Some s1);
        (if r_noting s2 then attempt T as s2
         else Some (Some \<lparr>o_data = [], o_flags = flags, o_record = True, o_cut = False, o_err = None\<rparr>, as, s2))
      }
      else let (oc, s') = attemptEnds None flags p s0 in Some (oc, as, s'))"

text \<open>\<open>raw.Read(s.fn)\<close>: the poller may refuse at once; otherwise the callback runs until it
  returns true, the poller waiting in between.\<close>

datatype 'o polled = Polled 'o | PollFails goerr | Parked

lemma readErrorLocked_Some: "\<exists>y. fst (readErrorLocked (Some e) t) = Some y"
  by (auto simp: readErrorLocked_def observe_def storeLocked_def isAssocFailure_def)

lemma attempt_consumes:
  "attempt T as s = Some (oc, as', s') \<Longrightarrow>
     length as' \<le> length as \<and> (length as' = length as \<longrightarrow> (as = [] \<or> (\<exists>e r. as = PollErr e # r)) \<and> as' = as) \<and>
     (case oc of None \<Rightarrow> True | Some x \<Rightarrow> o_record x \<or> o_err x = None \<longrightarrow> length as' < length as)"
proof (induction T as s rule: attempt.induct)
  case (1 T s)
  then show ?case
    by (auto simp: attemptEnds_def Let_def readErrorLocked_Some split: prod.splits if_splits option.splits)
next
  case (2 T e as s)
  then show ?case
    by (auto simp: attemptEnds_def Let_def readErrorLocked_Some split: prod.splits if_splits option.splits)
next
  case (3 T e as s)
  then show ?case
    by (auto simp: attemptEnds_def Let_def le_SucI split: prod.splits if_splits option.splits)
next
  case (4 T p flags ctl as s)
  then show ?case
    by (auto simp: attemptEnds_def Let_def split: prod.splits if_splits option.splits bind_splits) fastforce+
qed

function rawLoop :: "target \<Rightarrow> answer list \<Rightarrow> recvState \<Rightarrow> (outcome polled \<times> answer list \<times> recvState) option" where
  "rawLoop T as s = do {
     (oc, as', s') \<leftarrow> attempt T as s;
     (case oc of
        Some x \<Rightarrow> Some (Polled x, as', s')
      | None \<Rightarrow>
          (case as' of
             [] \<Rightarrow> Some (Parked, [], s')
           | PollErr e # r \<Rightarrow> Some (PollFails e, r, s')
           | _ \<Rightarrow> rawLoop T as' s'))
   }"
  by pat_completeness auto
termination
  by (relation "measure (\<lambda>(T, as, s). length as)") (auto dest!: attempt_consumes simp: le_less)

declare rawLoop.simps [simp del]

definition rawRead :: "target \<Rightarrow> answer list \<Rightarrow> recvState \<Rightarrow> (outcome polled \<times> answer list \<times> recvState) option" where
  "rawRead T as s = (case as of PollErr e # r \<Rightarrow> Some (PollFails e, r, s) | _ \<Rightarrow> rawLoop T as s)"

section \<open>Read and RecvMsg\<close>

text \<open>What the reads use of a connection beyond its receive state: the state of its
  lifecycle, whether it has a handler, whether the closed-file error could be captured
  (\<open>isFileClosingErr\<close>), and what an \<open>Abort\<close> would return; \<open>c_aborts\<close> counts the aborts, and
  \<open>c_handled\<close> lists the notifications the handler was given. \<open>Abort\<close> returns with the lifecycle closed.\<close>

record conn =
  c_recv :: recvState
  c_life :: lifeState
  c_handler :: bool
  c_captured :: bool
  c_abortErr :: "goerr option"
  c_aborts :: nat
  c_handled :: "Notification list"
  c_network :: string
  c_laddr :: netaddr
  c_raddr :: netaddr

definition readEnded :: "goerr option \<Rightarrow> conn \<Rightarrow> goerr option" where
  "readEnded err c = (if c_life c \<noteq> lifeOpen then Some NetErrClosed else closedCause (c_captured c) err)"

definition abortInterrupted :: "goerr option \<Rightarrow> conn \<Rightarrow> goerr option \<times> conn" where
  "abortInterrupted err c =
     (joinAbortCause err (c_abortErr c), c\<lparr>c_life := lifeClosed, c_aborts := c_aborts c + 1\<rparr>)"

definition set_notes :: "notificationAccumulator \<Rightarrow> conn \<Rightarrow> conn" where
  "set_notes a c = c\<lparr>c_recv := (c_recv c)\<lparr>r_notes := a\<rparr>\<rparr>"

definition abortInterruptedNotification :: "goerr option \<Rightarrow> conn \<Rightarrow> goerr option \<times> conn" where
  "abortInterruptedNotification cause c =
     (let a = r_notes (c_recv c);
          err = errorsJoin [Some (acc_interrupted a), readEnded cause c]
      in abortInterrupted err (set_notes (acc_reset a) c))"

definition abortInterruptedMessage :: "goerr option \<Rightarrow> conn \<Rightarrow> goerr option \<times> conn" where
  "abortInterruptedMessage cause c =
     abortInterrupted (errorsJoin [Some ErrMessageInterrupted, closedCause (c_captured c) cause]) c"

definition stopServing :: "recvState \<Rightarrow> recvState" where
  "stopServing s = s\<lparr>r_serving := False, r_served := 0, r_notes := acc_reset (r_notes s)\<rparr>"

text \<open>\<open>servePiece\<close> into a buffer of \<open>blen\<close> bytes: the bytes copied stand for their number.\<close>

definition servePiece :: "nat \<Rightarrow> recvState \<Rightarrow> ((bytes \<times> MsgInfo) \<times> recvState) option" where
  "servePiece blen s = do {
     let dat = na_data (r_notes s);
     rest \<leftarrow> subslice (r_served s) (length dat) dat;
     let piece = take blen rest;
     let s1 = s\<lparr>r_served := r_served s + length piece\<rparr>;
     let eor = (r_served s1 = length dat);
     Some ((piece, (r_serveInfo s1)\<lparr>mi_Notification := True, mi_EOR := eor\<rparr>), if eor then stopServing s1 else s1)
   }"

datatype recvd =
    Data bytes MsgInfo "goerr option"
  | Note Notification "goerr option"
  | Fails goerr
  | Waits

text \<open>The \<open>record\<close> case of \<open>recvNext\<close>: \<open>None\<close> as the result is its \<open>continue\<close>.\<close>

definition recvRecord ::
  "target \<Rightarrow> ifaceEnv \<Rightarrow> nat \<Rightarrow> bool \<Rightarrow> u32 \<Rightarrow> conn \<Rightarrow> (recvd option \<times> conn) option" where
  "recvRecord T ifx blen raw flags c =
     (let s0 = c_recv c;
          pd = (r_typed s0 \<and> r_typ s0 = EventPartialDelivery);
          interrupted = (\<not> r_interleaved s0 \<and> pd \<and> r_partial s0);
          s = (if pd then s0\<lparr>r_partial := False\<rparr> else s0);
          interruption = (if interrupted \<and> (\<not> raw \<or> \<not> r_kept s)
                          then errorsJoin [Some ErrMessageInterrupted, Some ErrPartialDeliveryAborted] else None)
      in if \<not> r_kept s then
           let (e, s1) = dropRecord s; c1 = c\<lparr>c_recv := s1\<rparr> in
           (case e of
              Some er \<Rightarrow> Some (Some (Fails (the (errorsJoin [Some er, interruption]))), c1)
            | None \<Rightarrow> Some (map_option Fails interruption, c1))
         else
           (case acc_finish (r_notes s) of
              Inl e \<Rightarrow> Some (Some (Fails e), c\<lparr>c_recv := s\<lparr>r_notes := acc_reset (r_notes s)\<rparr>\<rparr>)
            | Inr dat \<Rightarrow>
                if c_handler c then do {
                  r \<leftarrow> ParseNotification T ifx dat;
                  Some (Some (case r of Inl e \<Rightarrow> Fails e | Inr note \<Rightarrow> Note note interruption),
                        c\<lparr>c_recv := s\<lparr>r_notes := acc_reset (r_notes s)\<rparr>\<rparr>)
                }
                else do {
                  (_, info) \<leftarrow> parseRecvCmsgs T (r_control s) flags;
                  let s1 = s\<lparr>r_serveInfo := info, r_serving := True, r_served := 0\<rparr>;
                  ((piece, mi), s2) \<leftarrow> servePiece blen s1;
                  Some (Some (Data piece mi None), c\<lparr>c_recv := s2\<rparr>)
                }))"

text \<open>The data case of \<open>recvNext\<close>.\<close>

definition recvData :: "target \<Rightarrow> bool \<Rightarrow> outcome \<Rightarrow> conn \<Rightarrow> (recvd \<times> conn) option" where
  "recvData T raw x c =
     (let s = (c_recv c)\<lparr>r_partial := \<not> has_flag (o_flags x) msgEOR\<rparr>; c1 = c\<lparr>c_recv := s\<rparr> in
      if \<not> raw then Some (Data (o_data x) MsgInfo_zero None, c1)
      else do {
        (e, info) \<leftarrow> parseRecvCmsgs T (r_control s) (o_flags x);
        Some (Data (o_data x) info e, c1)
      })"

lemma rawLoop_consumes:
  "rawLoop T as s = Some (Polled x, as', s') \<Longrightarrow> o_record x \<Longrightarrow> length as' < length as"
proof (induction T as s rule: rawLoop.induct)
  case (1 T as s)
  from "1.prems"(1) obtain oc as1 s1 where a: "attempt T as s = Some (oc, as1, s1)"
    by (auto simp: rawLoop.simps [of T as s] split: bind_splits)
  note c = attempt_consumes [OF a]
  show ?case
  proof (cases oc)
    case (Some y)
    with a "1.prems" c show ?thesis by (auto simp: rawLoop.simps [of T as s])
  next
    case None
    have "rawLoop T as1 s1 = Some (Polled x, as', s')"
      using "1.prems"(1) a None
      by (auto simp: rawLoop.simps [of T as s] split: list.splits answer.splits)
    moreover have "(\<exists>p fl ctl r. as1 = RMsg p fl ctl # r) \<or> (\<exists>e r. as1 = RErr e # r)"
      using "1.prems"(1) a None by (auto simp: rawLoop.simps [of T as s] split: list.splits answer.splits)
    ultimately have "length as' < length as1"
      using "1.IH"(1) [OF a refl refl None] "1.IH"(2) [OF a refl refl None] "1.prems"(2) by auto
    with c show ?thesis by simp
  qed
qed

lemma rawRead_consumes:
  "rawRead T as s = Some (Polled x, as', s') \<Longrightarrow> o_record x \<Longrightarrow> length as' < length as"
  by (auto simp: rawRead_def split: list.splits answer.splits dest: rawLoop_consumes)

text \<open>\<open>term.readEnd()\<close>; a connection has a latch.\<close>

definition termEnd :: "recvState \<Rightarrow> goerr option" where
  "termEnd s = (case r_term s of None \<Rightarrow> None | Some t \<Rightarrow> readEnd t)"

text \<open>The switch on what raw.Read and the attempt returned.\<close>

definition recvSwitch ::
  "target \<Rightarrow> ifaceEnv \<Rightarrow> nat \<Rightarrow> bool \<Rightarrow> outcome polled \<Rightarrow> conn \<Rightarrow> (recvd option \<times> conn) option" where
  "recvSwitch T ifx blen raw p c =
     (case p of
        Parked \<Rightarrow> Some (Some Waits, c)
      | PollFails e \<Rightarrow> Some (Some (Fails (the (readEnded (Some e) c))), c)
      | Polled x \<Rightarrow>
          if o_cut x then
            let (e, c1) = abortInterruptedNotification (o_err x) c in Some (Some (Fails (the e)), c1)
          else if o_err x \<noteq> None then Some (Some (Fails (the (readEnded (o_err x) c))), c)
          else if o_record x then recvRecord T ifx blen raw (o_flags x) c
          else map_option (apfst Some) (recvData T raw x c))"

text \<open>One round of the loop of \<open>recvNext\<close> into a buffer of \<open>blen\<close> bytes, \<open>None\<close> as its result
  being another round, and the loop.\<close>

definition unserved :: "conn \<Rightarrow> conn" where
  "unserved c = (if r_serving (c_recv c) then c\<lparr>c_recv := stopServing (c_recv c)\<rparr> else c)"

definition recvRound ::
  "target \<Rightarrow> ifaceEnv \<Rightarrow> nat \<Rightarrow> bool \<Rightarrow> answer list \<Rightarrow> conn \<Rightarrow> (recvd option \<times> answer list \<times> conn) option" where
  "recvRound T ifx blen raw as c =
     (if r_serving (c_recv c) \<and> raw
      then do {
        ((piece, mi), s') \<leftarrow> servePiece blen (c_recv c);
        Some (Some (Data piece mi None), as, c\<lparr>c_recv := s'\<rparr>)
      }
      else
        let c0 = unserved c in
        case termEnd (c_recv c0) of
          Some end_err \<Rightarrow> Some (Some (Fails (the (readEnded (Some end_err) c0))), as, c0)
        | None \<Rightarrow> do {
            (p, as', s1) \<leftarrow> rawRead T as ((c_recv c0)\<lparr>r_keepNotes := raw \<or> c_handler c0\<rparr>);
            (r, c1) \<leftarrow> recvSwitch T ifx blen raw p (c0\<lparr>c_recv := s1\<rparr>);
            Some (r, as', c1)
          })"

lemma recvSwitch_record:
  "recvSwitch T ifx blen raw p c = Some (r, c') \<Longrightarrow> r = None \<or> (\<exists>note e. r = Some (Note note e)) \<Longrightarrow>
     \<exists>x. p = Polled x \<and> o_record x"
  by (auto simp: recvSwitch_def recvData_def Let_def split: polled.splits if_splits bind_splits prod.splits)

lemma recvRound_polls:
  assumes "recvRound T ifx blen raw as c = Some (r, as', c')" "r = None \<or> (\<exists>note e. r = Some (Note note e))"
  shows "\<exists>p s1. rawRead T as ((c_recv (unserved c))\<lparr>r_keepNotes := raw \<or> c_handler (unserved c)\<rparr>) = Some (p, as', s1) \<and>
    recvSwitch T ifx blen raw p ((unserved c)\<lparr>c_recv := s1\<rparr>) = Some (r, c')"
proof (cases "r_serving (c_recv c) \<and> raw \<or> termEnd (c_recv (unserved c)) \<noteq> None")
  case True
  with assms show ?thesis by (auto simp: recvRound_def Let_def split: bind_splits option.splits if_splits)
next
  case False
  with assms(1) show ?thesis
    by (simp only: recvRound_def Let_def if_False simp_thms option.case) (auto split: bind_splits)
qed

lemma recvRound_consumes:
  assumes "recvRound T ifx blen raw as c = Some (r, as', c')" and "r = None \<or> (\<exists>note e. r = Some (Note note e))"
  shows "length as' < length as"
  using recvRound_polls [OF assms] recvSwitch_record [OF _ assms(2)] rawRead_consumes by blast

function recvNext :: "target \<Rightarrow> ifaceEnv \<Rightarrow> nat \<Rightarrow> bool \<Rightarrow> answer list \<Rightarrow> conn \<Rightarrow> (recvd \<times> answer list \<times> conn) option" where
  "recvNext T ifx blen raw as c = do {
     (r, as', c') \<leftarrow> recvRound T ifx blen raw as c;
     (case r of Some x \<Rightarrow> Some (x, as', c') | None \<Rightarrow> recvNext T ifx blen raw as' c')
   }"
  by pat_completeness auto
termination
  by (relation "measure (\<lambda>(T, ifx, blen, raw, as, c). length as)") (auto dest: recvRound_consumes)

declare recvNext.simps [simp del]

text \<open>\<open>readError\<close>, and \<open>opened\<close> of a connection the package opened.\<close>

definition readError :: "goerr option \<Rightarrow> conn \<Rightarrow> goerr option" where
  "readError err c = ioOpError (c_captured c) ''read'' (c_network c) (c_laddr c) (c_raddr c) err"

definition opened :: "conn \<Rightarrow> bool" where
  "opened c \<longleftrightarrow> c_life c \<noteq> lifeClosed"

text \<open>The handler is a function \<open>h\<close> from notifications to the error it returns, so one that
  does not itself use the connection. A read that stays parked is \<open>None\<close> as the result.\<close>

definition deliver :: "(Notification \<Rightarrow> goerr option) \<Rightarrow> Notification \<Rightarrow> conn \<Rightarrow> goerr option \<times> conn" where
  "deliver h note c = (h note, c\<lparr>c_handled := c_handled c @ [note]\<rparr>)"

lemma recvNext_note_consumes:
  "recvNext T ifx blen raw as c = Some (Note note e, as', c') \<Longrightarrow> length as' < length as"
proof (induction T ifx blen raw as c rule: recvNext.induct)
  case (1 T ifx blen raw as c)
  from "1.prems" obtain r as1 c1 where r: "recvRound T ifx blen raw as c = Some (r, as1, c1)"
    by (auto simp: recvNext.simps [of T ifx blen raw as c] split: bind_splits)
  show ?case
  proof (cases r)
    case None
    with "1.prems" r have "recvNext T ifx blen raw as1 c1 = Some (Note note e, as', c')"
      by (simp add: recvNext.simps [of T ifx blen raw as c])
    with "1.IH" [OF r refl refl None] recvRound_consumes [OF r] None show ?thesis by simp
  next
    case (Some x)
    with "1.prems" r recvRound_consumes [OF r] show ?thesis
      by (simp add: recvNext.simps [of T ifx blen raw as c])
  qed
qed

function RecvMsg_loop ::
  "target \<Rightarrow> ifaceEnv \<Rightarrow> (Notification \<Rightarrow> goerr option) \<Rightarrow> nat \<Rightarrow> answer list \<Rightarrow> conn \<Rightarrow>
     ((bytes \<times> MsgInfo \<times> goerr option) option \<times> answer list \<times> conn) option" where
  "RecvMsg_loop T ifx h blen as c = do {
     (r, as', c1) \<leftarrow> recvNext T ifx blen True as c;
     (case r of
        Waits \<Rightarrow> Some (None, as', c1)
      | Note note _ \<Rightarrow>
          (case deliver h note c1 of
             (Some e, c2) \<Rightarrow> Some (Some ([], MsgInfo_zero, readError (Some e) c2), as', c2)
           | (None, c2) \<Rightarrow> RecvMsg_loop T ifx h blen as' c2)
      | Fails e \<Rightarrow> Some (Some ([], MsgInfo_zero, readError (Some e) c1), as', c1)
      | Data p mi None \<Rightarrow> Some (Some (p, mi, None), as', c1)
      | Data p mi (Some e) \<Rightarrow> Some (Some (p, mi, readError (Some e) c1), as', c1))
   }"
  by pat_completeness auto
termination
  by (relation "measure (\<lambda>(T, ifx, h, blen, as, c). length as)") (auto dest: recvNext_note_consumes)

declare RecvMsg_loop.simps [simp del]

definition RecvMsg ::
  "target \<Rightarrow> ifaceEnv \<Rightarrow> (Notification \<Rightarrow> goerr option) \<Rightarrow> nat \<Rightarrow> answer list \<Rightarrow> conn \<Rightarrow>
     ((bytes \<times> MsgInfo \<times> goerr option) option \<times> answer list \<times> conn) option" where
  "RecvMsg T ifx h blen as c =
     (if \<not> opened c then Some (Some ([], MsgInfo_zero, readError (Some NetErrClosed) c), as, c)
      else if blen = 0 then Some (Some ([], MsgInfo_zero, None), as, c)
      else RecvMsg_loop T ifx h blen as c)"

function Read_loop ::
  "target \<Rightarrow> ifaceEnv \<Rightarrow> (Notification \<Rightarrow> goerr option) \<Rightarrow> nat \<Rightarrow> answer list \<Rightarrow> conn \<Rightarrow>
     ((bytes \<times> goerr option) option \<times> answer list \<times> conn) option" where
  "Read_loop T ifx h blen as c = do {
     (r, as', c1) \<leftarrow> recvNext T ifx blen False as c;
     (case r of
        Waits \<Rightarrow> Some (None, as', c1)
      | Note note err \<Rightarrow>
          (let (herr, c2) = deliver h note c1;
               err' = (if err = None then herr else if herr \<noteq> None then errorsJoin [err, herr] else err)
           in if err' \<noteq> None then Some (Some ([], readError err' c2), as', c2)
              else Read_loop T ifx h blen as' c2)
      | Fails e \<Rightarrow> Some (Some ([], readError (Some e) c1), as', c1)
      | Data p mi None \<Rightarrow> Some (Some (p, None), as', c1)
      | Data p mi (Some e) \<Rightarrow> Some (Some ([], readError (Some e) c1), as', c1))
   }"
  by pat_completeness auto
termination
  by (relation "measure (\<lambda>(T, ifx, h, blen, as, c). length as)") (auto dest: recvNext_note_consumes)

declare Read_loop.simps [simp del]

definition Read ::
  "target \<Rightarrow> ifaceEnv \<Rightarrow> (Notification \<Rightarrow> goerr option) \<Rightarrow> nat \<Rightarrow> answer list \<Rightarrow> conn \<Rightarrow>
     ((bytes \<times> goerr option) option \<times> answer list \<times> conn) option" where
  "Read T ifx h blen as c =
     (if \<not> opened c then Some (Some ([], readError (Some NetErrClosed) c), as, c)
      else if blen = 0 then Some (Some ([], None), as, c)
      else Read_loop T ifx h blen as c)"

end
