(* ===== verification/ReadMsg.thy ===== *)
theory ReadMsg
  imports Recv
begin

text \<open>
  \<open>ReadMsg\<close> of \<open>recv_linux.go\<close>: one whole message, reassembled in one raw.Read whose
  callback makes recvmsg calls (\<open>attempt\<close>) until the message ends, with the notifications
  that arrive on the way given to the handler before or after the message.
\<close>

unbundle bit_operations_syntax

section \<open>ReadMsg\<close>

text \<open>One call's state: the length of its buffer, and the bytes read into it; \<open>completedReceive\<close>,
  which the code sets and never reads, is left out.\<close>

record readMsgState =
  m_buf :: nat
  m_data :: bytes
  m_first :: RcvInfo
  m_haveFirst :: bool
  m_complete :: bool
  m_tooLong :: bool
  m_ctrunc :: bool
  m_pdBoundary :: bool
  m_resultErr :: "goerr option"
  m_queued :: "Notification list"
  m_queuedBytes :: nat
  m_queueFull :: bool
  m_immediate :: "Notification option"
  m_cutNotification :: "goerr option"
  m_partialErr :: "goerr option"

definition addError :: "goerr option \<Rightarrow> readMsgState \<Rightarrow> readMsgState" where
  "addError err m =
     (case err of
        None \<Rightarrow> m
      | Some e \<Rightarrow>
          if e = ErrControlTruncated \<and> m_ctrunc m then m
          else let m1 = (if e = ErrControlTruncated then m\<lparr>m_ctrunc := True\<rparr> else m) in
            (case m_resultErr m1 of
               None \<Rightarrow> m1\<lparr>m_resultErr := Some e\<rparr>
             | Some r \<Rightarrow> m1\<lparr>m_resultErr := errorsJoin [Some r, Some e]\<rparr>))"

definition messageCut :: "target \<Rightarrow> recvState \<Rightarrow> goerr option option" where
  "messageCut T s =
     (if \<not> r_typed s then Some None
      else if r_typ s = EventPartialDelivery then Some (Some ErrPartialDeliveryAborted)
      else if r_typ s = EventAssocChange then do {
        (state, aid, ok) \<leftarrow> assocChangeInfo T (acc_head (r_notes s));
        Some (if ok \<and> state = AssocRestart then Some ErrAssocRestarted else None)
      }
      else Some None)"

text \<open>The buffer of a \<open>ReadMsg\<close>: \<open>getReadMsgBuffer\<close>'s size classes, and the growth when it is full.\<close>

definition getReadMsgBuffer :: "nat \<Rightarrow> nat" where
  "getReadMsgBuffer n =
     (if n \<le> 2048 then 2048 else if n \<le> 8192 then 8192 else if n \<le> 32768 then 32768
      else if n \<le> 65536 then 65536 else n)"

definition readMsgGrow :: "nat \<Rightarrow> readMsgState \<Rightarrow> readMsgState" where
  "readMsgGrow maxn m =
     (if \<not> m_tooLong m \<and> length (m_data m) = m_buf m \<and> length (m_data m) < maxn then
        let grow0 = (if m_buf m < 2048 then 2048 - m_buf m else m_buf m);
            grow = min grow0 (maxn - length (m_data m))
        in m\<lparr>m_buf := min (getReadMsgBuffer (m_buf m + grow)) maxn\<rparr>
      else m)"

text \<open>Where the next piece goes: the rest of the buffer, or, past \<open>max\<close>, the scratch buffer.\<close>

definition readMsgRoom :: "readMsgState \<Rightarrow> nat" where
  "readMsgRoom m =
     (if \<not> m_tooLong m \<and> length (m_data m) < m_buf m then m_buf m - length (m_data m) else 1024)"

text \<open>\<open>readMsgNotification\<close>: whether the read goes on in the same callback.\<close>

definition queueNote :: "Notification \<Rightarrow> readMsgState \<Rightarrow> readMsgState" where
  "queueNote note m = m\<lparr>m_queued := m_queued m @ [note]\<rparr>"

definition resetNotes :: "conn \<Rightarrow> conn" where
  "resetNotes c = c\<lparr>c_recv := (c_recv c)\<lparr>r_notes := acc_reset (r_notes (c_recv c))\<rparr>\<rparr>"

text \<open>The completed record, parsed: \<open>finish\<close> and then \<open>ParseNotification\<close>.\<close>

definition finishAndParse :: "target \<Rightarrow> ifaceEnv \<Rightarrow> recvState \<Rightarrow> (goerr + Notification \<times> nat) option" where
  "finishAndParse T ifx s =
     (case acc_finish (r_notes s) of
        Inl e \<Rightarrow> Some (Inl e)
      | Inr dat \<Rightarrow> map_option (\<lambda>r. case r of Inl e \<Rightarrow> Inl e | Inr note \<Rightarrow> Inr (note, length dat))
                    (ParseNotification T ifx dat))"

definition cutByRecord ::
  "target \<Rightarrow> ifaceEnv \<Rightarrow> goerr \<Rightarrow> conn \<Rightarrow> readMsgState \<Rightarrow> (bool \<times> conn \<times> readMsgState) option" where
  "cutByRecord T ifx why c m0 =
     (let m = m0\<lparr>m_partialErr := Some why\<rparr>;
          c1 = c\<lparr>c_recv := (c_recv c)\<lparr>r_partial := False\<rparr>\<rparr>
      in if r_kept (c_recv c1) then do {
           r \<leftarrow> finishAndParse T ifx (c_recv c1);
           let e = (case r of Inl e \<Rightarrow> Some e | Inr _ \<Rightarrow> None);
           let m1 = (case r of Inl e \<Rightarrow> m | Inr (note, n) \<Rightarrow> queueNote note m);
           Some (False, resetNotes c1,
             (addError e m1)\<lparr>m_pdBoundary := (why = ErrPartialDeliveryAborted \<and> e = None)\<rparr>)
         }
         else
           let (e, s1) = dropRecord (c_recv c1) in
           Some (False, c1\<lparr>c_recv := s1\<rparr>,
             (addError e m)\<lparr>m_pdBoundary := (why = ErrPartialDeliveryAborted \<and> e = None)\<rparr>))"

definition readMsgNotification ::
  "target \<Rightarrow> ifaceEnv \<Rightarrow> conn \<Rightarrow> readMsgState \<Rightarrow> (bool \<times> conn \<times> readMsgState) option" where
  "readMsgNotification T ifx c m = do {
     why \<leftarrow> (if m_haveFirst m \<and> \<not> m_complete m then messageCut T (c_recv c) else Some None);
     (case why of
        Some e \<Rightarrow> cutByRecord T ifx e c m
      | None \<Rightarrow>
          if \<not> r_kept (c_recv c) then
            let (e, s1) = dropRecord (c_recv c); c1 = c\<lparr>c_recv := s1\<rparr> in
            (case e of
               Some er \<Rightarrow> Some (m_haveFirst m, c1, addError (Some er) m)
             | None \<Rightarrow>
                 if (case r_term s1 of None \<Rightarrow> False | Some t \<Rightarrow> hasEnded t) then
                   Some (False, c1,
                     if m_haveFirst m \<and> \<not> m_complete m then m\<lparr>m_partialErr := Some EOF\<rparr>
                     else addError (readEnded (Some EOF) c1) m)
                 else Some (True, c1, m))
          else do {
            r \<leftarrow> finishAndParse T ifx (c_recv c);
            let c1 = resetNotes c;
            (case r of
               Inl e \<Rightarrow>
                 let m1 = addError (Some e) m in
                 Some (m_haveFirst m, c1,
                   if errIs e ErrNotificationTooLong then m1\<lparr>m_queueFull := True\<rparr> else m1)
             | Inr (note, n) \<Rightarrow>
                 if \<not> m_haveFirst m then Some (False, c1, m\<lparr>m_immediate := Some note\<rparr>)
                 else if m_queueFull m then Some (True, c1, m)
                 else if int n > int NotificationReassemblyLimit - int (m_queuedBytes m)
                   then Some (True, c1, (addError (Some ErrNotificationTooLong) m)\<lparr>m_queueFull := True\<rparr>)
                 else Some (True, c1, (queueNote note m)\<lparr>m_queuedBytes := m_queuedBytes m + n\<rparr>))
          })
   }"

text \<open>A data piece: whether it ends the message.\<close>

definition readMsgData :: "target \<Rightarrow> nat \<Rightarrow> outcome \<Rightarrow> conn \<Rightarrow> readMsgState \<Rightarrow> (bool \<times> conn \<times> readMsgState) option" where
  "readMsgData T maxn x c m = do {
     m1 \<leftarrow> (if m_tooLong m then Some m
            else do {
              let m' = m\<lparr>m_data := m_data m @ o_data x\<rparr>;
              m'' \<leftarrow> (if m_haveFirst m' then Some m'
                      else do {
                        (e, mi) \<leftarrow> parseRecvCmsgs T (r_control (c_recv c)) (o_flags x);
                        Some ((addError e (m'\<lparr>m_haveFirst := True\<rparr>))\<lparr>m_first := mi_Rcv mi\<rparr>)
                      });
              Some (if length (m_data m'') = maxn \<and> \<not> has_flag (o_flags x) msgEOR
                    then m''\<lparr>m_tooLong := True\<rparr> else m'')
            });
     let m2 = (if has_flag (o_flags x) msgCtrunc then addError (Some ErrControlTruncated) m1 else m1);
     let eor = has_flag (o_flags x) msgEOR;
     let c1 = c\<lparr>c_recv := (c_recv c)\<lparr>r_partial := \<not> eor\<rparr>\<rparr>;
     Some (eor, c1,
       if eor then
         let m3 = m2\<lparr>m_complete := True\<rparr> in
         if m_tooLong m3 then addError (Some ErrMessageTooLong) m3 else m3
       else m2)
   }"

text \<open>One round of the loop in \<open>readMsg\<close>'s raw.Read callback. The first component is what the
  callback returns (true when the read is over, false to wait), or \<open>None\<close> for another round.\<close>

definition readMsgRound ::
  "target \<Rightarrow> ifaceEnv \<Rightarrow> nat \<Rightarrow> answer list \<Rightarrow> conn \<Rightarrow> readMsgState \<Rightarrow>
     (bool option \<times> answer list \<times> conn \<times> readMsgState) option" where
  "readMsgRound T ifx maxn as c m0 =
     (let m = readMsgGrow maxn m0 in do {
        (oc, as', s') \<leftarrow>
          attempt T as ((c_recv c)\<lparr>r_keepNotes := c_handler c \<and> (\<not> m_haveFirst m \<or> \<not> m_queueFull m)\<rparr>);
        let c1 = c\<lparr>c_recv := s'\<rparr>;
        (case oc of
           None \<Rightarrow> Some (Some False, as', c1, m)
         | Some x \<Rightarrow>
             if o_cut x then Some (Some True, as', c1, m\<lparr>m_cutNotification := o_err x\<rparr>)
             else if o_err x \<noteq> None then
               Some (Some True, as', c1,
                 if m_haveFirst m \<and> \<not> m_complete m then m\<lparr>m_partialErr := o_err x\<rparr>
                 else addError (readEnded (o_err x) c1) m)
             else if o_record x then
               map_option (\<lambda>(goes, c2, m1). (if goes then None else Some True, as', c2, m1))
                 (readMsgNotification T ifx c1 m)
             else
               map_option (\<lambda>(ends, c2, m1). (if ends then Some True else None, as', c2, m1))
                 (readMsgData T maxn x c1 m))
      })"

text \<open>A round that gives nothing to the handler and is not the last consumes an answer.\<close>

lemma addError_immediate [simp]: "m_immediate (addError e m) = m_immediate m"
  by (simp add: addError_def Let_def split: option.split)

lemma readMsgGrow_immediate [simp]: "m_immediate (readMsgGrow maxn m) = m_immediate m"
  by (simp add: readMsgGrow_def Let_def)

lemma readMsgRound_consumes:
  assumes "readMsgRound T ifx maxn as c m = Some (r, as', c', m')"
  shows "length as' \<le> length as \<and> (r = None \<longrightarrow> length as' < length as) \<and>
    (length as' = length as \<longrightarrow> (as = [] \<or> (\<exists>e q. as = PollErr e # q)) \<and> as' = as \<and> m_immediate m' = m_immediate m)"
proof -
  define k where "k = (c_handler c \<and> (\<not> m_haveFirst (readMsgGrow maxn m) \<or> \<not> m_queueFull (readMsgGrow maxn m)))"
  from assms obtain oc as1 s1 where a: "attempt T as ((c_recv c)\<lparr>r_keepNotes := k\<rparr>) = Some (oc, as1, s1)"
    by (auto simp: readMsgRound_def Let_def k_def split: bind_splits)
  note con = attempt_consumes [OF a]
  have "as' = as1"
    using assms a unfolding readMsgRound_def Let_def k_def [symmetric]
    by (auto split: option.splits if_splits)
  moreover have "m_immediate m' = m_immediate m \<and> r \<noteq> None \<or> (\<exists>x. oc = Some x \<and> o_err x = None)"
    using assms a unfolding readMsgRound_def Let_def k_def [symmetric]
    by (auto split: option.splits if_splits)
  ultimately show ?thesis using con by auto
qed

function readMsgCallback ::
  "target \<Rightarrow> ifaceEnv \<Rightarrow> nat \<Rightarrow> answer list \<Rightarrow> conn \<Rightarrow> readMsgState \<Rightarrow>
     (bool \<times> answer list \<times> conn \<times> readMsgState) option" where
  "readMsgCallback T ifx maxn as c m = do {
     (r, as', c', m') \<leftarrow> readMsgRound T ifx maxn as c m;
     (case r of Some b \<Rightarrow> Some (b, as', c', m') | None \<Rightarrow> readMsgCallback T ifx maxn as' c' m')
   }"
  by pat_completeness auto
termination
  by (relation "measure (\<lambda>(T, ifx, maxn, as, c, m). length as)") (auto dest: readMsgRound_consumes)

declare readMsgCallback.simps [simp del]

lemma readMsgCallback_consumes:
  "readMsgCallback T ifx maxn as c m = Some (b, as', c', m') \<Longrightarrow>
     length as' \<le> length as \<and>
     (length as' = length as \<longrightarrow> (as = [] \<or> (\<exists>e q. as = PollErr e # q)) \<and> as' = as \<and> m_immediate m' = m_immediate m)"
proof (induction T ifx maxn as c m rule: readMsgCallback.induct)
  case (1 T ifx maxn as c m)
  from "1.prems" obtain r as1 c1 m1 where r: "readMsgRound T ifx maxn as c m = Some (r, as1, c1, m1)"
    by (auto simp: readMsgCallback.simps [of T ifx maxn as c m] split: bind_splits)
  note con = readMsgRound_consumes [OF r]
  show ?case
  proof (cases r)
    case (Some q)
    with "1.prems" r con show ?thesis by (simp add: readMsgCallback.simps [of T ifx maxn as c m])
  next
    case None
    with "1.prems" r have "readMsgCallback T ifx maxn as1 c1 m1 = Some (b, as', c', m')"
      by (simp add: readMsgCallback.simps [of T ifx maxn as c m])
    from "1.IH" [OF r refl refl refl None this] con None show ?thesis by simp
  qed
qed

text \<open>raw.Read with that callback.\<close>

function readMsgPoll ::
  "target \<Rightarrow> ifaceEnv \<Rightarrow> nat \<Rightarrow> answer list \<Rightarrow> conn \<Rightarrow> readMsgState \<Rightarrow>
     (unit polled \<times> answer list \<times> conn \<times> readMsgState) option" where
  "readMsgPoll T ifx maxn as c m = do {
     (b, as', c', m') \<leftarrow> readMsgCallback T ifx maxn as c m;
     (if b then Some (Polled (), as', c', m')
      else case as' of
        [] \<Rightarrow> Some (Parked, [], c', m')
      | PollErr e # q \<Rightarrow> Some (PollFails e, q, c', m')
      | _ \<Rightarrow> readMsgPoll T ifx maxn as' c' m')
   }"
  by pat_completeness auto
termination
  by (relation "measure (\<lambda>(T, ifx, maxn, as, c, m). length as)")
    (auto dest!: readMsgCallback_consumes simp: le_less)

declare readMsgPoll.simps [simp del]

text \<open>The rest of \<open>readMsg\<close>: what it makes of the callback's end, with \<open>pollErr\<close> what raw.Read returned.\<close>

definition readMsgEnd :: "goerr option \<Rightarrow> conn \<Rightarrow> readMsgState \<Rightarrow> conn \<times> readMsgState" where
  "readMsgEnd pollErr c m =
     (let recordInterrupted = (m_haveFirst m \<and> \<not> m_complete m) in
      case m_cutNotification m of
        Some cut_err \<Rightarrow>
          let (e, c1) = abortInterruptedNotification (Some cut_err) c; m1 = addError e m in
          (c1, if recordInterrupted then addError (Some ErrMessageInterrupted) m1 else m1)
      | None \<Rightarrow>
          if recordInterrupted \<and> m_pdBoundary m then
            (c, addError (errorsJoin [Some ErrMessageInterrupted, m_partialErr m]) m)
          else if recordInterrupted then
            let cause = (if pollErr \<noteq> None then pollErr else m_partialErr m);
                (e, c1) = abortInterruptedMessage (readEnded cause c) c
            in (c1, addError e m)
          else if pollErr \<noteq> None then (c, addError (readEnded pollErr c) m)
          else (c, m))"

fun deliverQueued ::
  "(Notification \<Rightarrow> goerr option) \<Rightarrow> Notification list \<Rightarrow> conn \<Rightarrow> readMsgState \<Rightarrow> conn \<times> readMsgState" where
  "deliverQueued h [] c m = (c, m)"
| "deliverQueued h (note # ns) c m =
     (let (e, c1) = deliver h note c in deliverQueued h ns c1 (addError e m))"

definition readMsgResult :: "readMsgState \<Rightarrow> bytes \<times> RcvInfo \<times> goerr option" where
  "readMsgResult m = (m_data m, m_first m, m_resultErr m)"

definition readMsgRaw ::
  "target \<Rightarrow> ifaceEnv \<Rightarrow> nat \<Rightarrow> answer list \<Rightarrow> conn \<Rightarrow> readMsgState \<Rightarrow>
     (unit polled \<times> answer list \<times> conn \<times> readMsgState) option" where
  "readMsgRaw T ifx maxn as c m =
     (case as of PollErr e # q \<Rightarrow> Some (PollFails e, q, c, m) | _ \<Rightarrow> readMsgPoll T ifx maxn as c m)"

lemma readMsgPoll_consumes:
  "readMsgPoll T ifx maxn as c m = Some (p, as', c', m') \<Longrightarrow>
     length as' \<le> length as \<and> (length as' = length as \<longrightarrow> m_immediate m' = m_immediate m)"
proof (induction T ifx maxn as c m rule: readMsgPoll.induct)
  case (1 T ifx maxn as c m)
  from "1.prems" obtain b as1 c1 m1 where r: "readMsgCallback T ifx maxn as c m = Some (b, as1, c1, m1)"
    by (auto simp: readMsgPoll.simps [of T ifx maxn as c m] split: bind_splits)
  note con = readMsgCallback_consumes [OF r]
  show ?case
  proof (cases "b \<or> as1 = [] \<or> (\<exists>e q. as1 = PollErr e # q)")
    case True
    with "1.prems" r con show ?thesis
      by (auto simp: readMsgPoll.simps [of T ifx maxn as c m] split: if_splits)
  next
    case False
    then have "\<not> b" and sh: "(\<exists>p fl ctl q. as1 = RMsg p fl ctl # q) \<or> (\<exists>e q. as1 = RErr e # q)"
      by (auto simp: neq_Nil_conv) (metis answer.exhaust)
    then have next_poll: "readMsgPoll T ifx maxn as1 c1 m1 = Some (p, as', c', m')"
      using "1.prems" r by (auto simp: readMsgPoll.simps [of T ifx maxn as c m])
    have "length as' \<le> length as1 \<and> (length as' = length as1 \<longrightarrow> m_immediate m' = m_immediate m1)"
      using sh "1.IH"(1) [OF r refl refl refl \<open>\<not> b\<close>] "1.IH"(2) [OF r refl refl refl \<open>\<not> b\<close>] next_poll by auto
    with con show ?thesis by auto
  qed
qed

lemma readMsgEnd_immediate [simp]: "m_immediate (snd (readMsgEnd e c m)) = m_immediate m"
  by (auto simp: readMsgEnd_def Let_def split: option.split prod.split)

lemma readMsgEnd_keeps_immediate: "(c2, m2) = readMsgEnd e c m \<Longrightarrow> m_immediate m = m_immediate m2"
  by (metis readMsgEnd_immediate snd_conv)

lemma readMsgRaw_consumes:
  "readMsgRaw T ifx maxn as c m = Some (p, as', c', m') \<Longrightarrow> m_immediate m = None \<Longrightarrow>
     m_immediate m' \<noteq> None \<Longrightarrow> length as' < length as"
  by (auto simp: readMsgRaw_def le_less split: list.splits answer.splits dest!: readMsgPoll_consumes)

text \<open>A new round of the outer loop: the state the code resets.\<close>

definition readMsgReset :: "readMsgState \<Rightarrow> readMsgState" where
  "readMsgReset m = m\<lparr>m_immediate := None, m_cutNotification := None, m_partialErr := None\<rparr>"

lemma readMsgRaw_resets:
  "readMsgRaw T ifx maxn as c (readMsgReset m) = Some (p, as', c', m') \<Longrightarrow> m_immediate m' = Some note \<Longrightarrow>
     length as' < length as"
  by (erule readMsgRaw_consumes) (simp_all add: readMsgReset_def)

lemma readMsgRaw_next:
  "readMsgRaw T ifx maxn as c (readMsgReset m) = Some (p, as', c', m') \<Longrightarrow> (c2, m2) = readMsgEnd e c' m' \<Longrightarrow>
     m_immediate m2 = Some note \<Longrightarrow> length as' < length as"
  using readMsgRaw_resets readMsgEnd_keeps_immediate by metis

definition pollError :: "unit polled \<Rightarrow> goerr option" where
  "pollError p = (case p of PollFails e \<Rightarrow> Some e | _ \<Rightarrow> None)"

function readMsgLoop ::
  "target \<Rightarrow> ifaceEnv \<Rightarrow> (Notification \<Rightarrow> goerr option) \<Rightarrow> nat \<Rightarrow> answer list \<Rightarrow> conn \<Rightarrow> readMsgState \<Rightarrow>
     ((bytes \<times> RcvInfo \<times> goerr option) option \<times> answer list \<times> conn) option" where
  "readMsgLoop T ifx h maxn as c m =
     (let m0 = readMsgReset m; c0 = unserved c in
      case termEnd (c_recv c0) of
        Some end_err \<Rightarrow> Some (Some (readMsgResult (addError (readEnded (Some end_err) c0) m0)), as, c0)
      | None \<Rightarrow> do {
          (p, as', c1, m1) \<leftarrow> readMsgRaw T ifx maxn as c0 m0;
          (if p = Parked then Some (None, as', c1)
           else
             let (c2, m2) = readMsgEnd (pollError p) c1 m1 in
             case m_immediate m2 of
               Some note \<Rightarrow>
                 (case deliver h note c2 of
                    (Some e, c3) \<Rightarrow> Some (Some (readMsgResult (addError (Some e) m2)), as', c3)
                  | (None, c3) \<Rightarrow> readMsgLoop T ifx h maxn as' c3 m2)
             | None \<Rightarrow>
                 let (c3, m3) = deliverQueued h (m_queued m2) c2 m2 in
                 Some (Some (readMsgResult m3), as', c3))
        })"
  by pat_completeness auto
termination
  by (relation "measure (\<lambda>(T, ifx, h, maxn, as, c, m). length as)")
    (auto intro: readMsgRaw_next)

declare readMsgLoop.simps [simp del]

definition readMsgState_zero :: "nat \<Rightarrow> readMsgState" where
  "readMsgState_zero maxn =
     \<lparr>m_buf = min 256 maxn, m_data = [], m_first = RcvInfo_zero, m_haveFirst = False, m_complete = False,
      m_tooLong = False, m_ctrunc = False, m_pdBoundary = False, m_resultErr = None, m_queued = [],
      m_queuedBytes = 0, m_queueFull = False, m_immediate = None, m_cutNotification = None,
      m_partialErr = None\<rparr>"

definition readMsg ::
  "target \<Rightarrow> ifaceEnv \<Rightarrow> (Notification \<Rightarrow> goerr option) \<Rightarrow> nat \<Rightarrow> answer list \<Rightarrow> conn \<Rightarrow>
     ((bytes \<times> RcvInfo \<times> goerr option) option \<times> answer list \<times> conn) option" where
  "readMsg T ifx h maxn as c = readMsgLoop T ifx h maxn as c (readMsgState_zero maxn)"

definition ReadMsg ::
  "target \<Rightarrow> ifaceEnv \<Rightarrow> (Notification \<Rightarrow> goerr option) \<Rightarrow> int \<Rightarrow> answer list \<Rightarrow> conn \<Rightarrow>
     ((bytes \<times> RcvInfo \<times> goerr option) option \<times> answer list \<times> conn) option" where
  "ReadMsg T ifx h maxn as c =
     (if maxn \<le> 0 then Some (Some ([], RcvInfo_zero, readError (Some (InvalidArg ''ReadMsg needs a positive max'')) c), as, c)
      else if \<not> opened c then Some (Some ([], RcvInfo_zero, readError (Some NetErrClosed) c), as, c)
      else if r_interleaved (c_recv c) then
        Some (Some ([], RcvInfo_zero,
          readError (Some (UnsupportedField ''ReadMsg''
            ''I-DATA can interleave streams; use RecvMsg and reassemble by Stream and EOR'')) c), as, c)
      else do {
        (r, as', c') \<leftarrow> readMsg T ifx h (nat maxn) as c;
        Some (map_option (\<lambda>(dat, info, err). (dat, info, if err = None then None else readError err c')) r, as', c')
      })"

end
