(* ===== verification/Reads.thy ===== *)
theory Reads
  imports ReadMsg
begin

text \<open>
  The receive path never panics: the invariant of the state between reads (\<open>recv_ok\<close>), the
  state in the middle of a notification record (\<open>in_record\<close>), and the proof, one operation at a
  time from the system call up, that every read returns and keeps the invariant.
\<close>

section \<open>The record in progress\<close>

text \<open>Whether a record of a type is retained for the reader.\<close>

definition wanted :: "recvState \<Rightarrow> EventType \<Rightarrow> bool" where
  "wanted s ty \<longleftrightarrow> r_keepNotes s \<and>
     (ty \<noteq> EventAssocChange \<and> ty \<noteq> EventPartialDelivery \<or> eventSet_has (ucast (r_subs s)) ty)"

text \<open>The state after the bytes \<open>seen\<close> of a record: the accumulator has them, the type is known
  once the header is complete, and the record is retained exactly when its type is wanted.\<close>

definition in_record :: "target \<Rightarrow> recvState \<Rightarrow> bytes \<Rightarrow> bool" where
  "in_record T s seen \<longleftrightarrow> acc_inv T (r_notes s) seen \<and> r_typed s = (8 \<le> length seen) \<and>
     (r_typed s \<longrightarrow> r_typ s = rd16 (native T) seen 0) \<and> r_kept s = na_retain (r_notes s) \<and>
     r_kept s = (r_typed s \<and> wanted s (r_typ s))"

definition notes_only :: "recvState \<Rightarrow> recvState \<Rightarrow> bool" where
  "notes_only s s' \<longleftrightarrow> r_control s' = r_control s \<and> r_term s' = r_term s \<and> r_subs s' = r_subs s \<and>
     r_keepNotes s' = r_keepNotes s \<and> r_partial s' = r_partial s \<and> r_interleaved s' = r_interleaved s \<and>
     r_serving s' = r_serving s \<and> r_served s' = r_served s \<and> r_serveInfo s' = r_serveInfo s"

lemma wanted_frame: "notes_only s s' \<Longrightarrow> wanted s' ty = wanted s ty"
  by (simp add: wanted_def notes_only_def)

lemma wanted_upd [simp]:
  "wanted (s\<lparr>r_noting := b\<rparr>) ty = wanted s ty" "wanted (s\<lparr>r_term := t\<rparr>) ty = wanted s ty"
  "wanted (s\<lparr>r_control := c\<rparr>) ty = wanted s ty"
  by (simp_all add: wanted_def)

lemma in_record_upd [simp]:
  "in_record T (s\<lparr>r_noting := b\<rparr>) seen = in_record T s seen"
  "in_record T (s\<lparr>r_term := t\<rparr>) seen = in_record T s seen"
  "in_record T (s\<lparr>r_control := c\<rparr>) seen = in_record T s seen"
  by (simp_all add: in_record_def)

lemma in_record_start:
  "in_record T (s\<lparr>r_notes := acc_reset a, r_noting := True, r_typed := False, r_kept := False\<rparr>) []"
  using acc_reset_inv [of T a] by (simp add: in_record_def acc_reset_def)

lemma acc_keep_early:
  assumes "acc_inv T a seen" "length seen < 8"
  shows "fst (acc_keep a)"
proof -
  have "na_err a = None" using assms by (auto simp: acc_inv_def split: option.splits)
  with assms have "na_total a = length seen" "na_prefixBytes a = length seen" by (auto simp: acc_inv_def acc_ok_def)
  with \<open>na_err a = None\<close> show ?thesis by (simp add: acc_keep_def)
qed

text \<open>Typing the record with the piece \<open>p\<close>, before it is added.\<close>

lemma typeRecord_ok:
  assumes inr: "in_record T s seen"
  shows "\<exists>s'. typeRecord T p s = Some s' \<and> acc_inv T (r_notes s') seen \<and> r_typed s' = (8 \<le> length (seen @ p)) \<and>
    (r_typed s' \<longrightarrow> r_typ s' = rd16 (native T) (seen @ p) 0) \<and> r_kept s' = na_retain (r_notes s') \<and>
    r_kept s' = (r_typed s' \<and> wanted s' (r_typ s')) \<and> notes_only s s' \<and> r_noting s' = r_noting s"
proof (cases "r_typed s")
  case True
  with inr have "8 \<le> length seen" by (simp add: in_record_def)
  then have "rd16 (native T) (seen @ p) 0 = rd16 (native T) seen 0" by (simp add: rd_append_left)
  with True inr \<open>8 \<le> length seen\<close> show ?thesis by (auto simp: typeRecord_def in_record_def notes_only_def)
next
  case False
  with inr have sh: "length seen < 8" "acc_inv T (r_notes s) seen" "\<not> r_kept s" "\<not> na_retain (r_notes s)"
    by (auto simp: in_record_def)
  then have "na_err (r_notes s) = None" by (auto simp: acc_inv_def split: option.splits)
  note pk = acc_peekType_seen [OF sh(2) this, of p] acc_keep_inv [OF sh(2)] acc_keep_early [OF sh(2,1)]
  show ?thesis
  proof (cases "8 \<le> length (seen @ p)")
    case True
    then have "\<not> length seen + length p < 8" by simp
    with pk False sh show ?thesis by (auto simp: typeRecord_def Let_def wanted_def notes_only_def)
  next
    case short: False
    with pk False sh show ?thesis by (auto simp: typeRecord_def notes_only_def)
  qed
qed

lemma addPiece_ok:
  assumes "r_noting s \<Longrightarrow> in_record T s seen" and "\<not> r_noting s \<Longrightarrow> seen = []"
  shows "\<exists>s'. addPiece T p s = Some s' \<and> in_record T s' (seen @ p) \<and> r_noting s' \<and> notes_only s s'"
proof -
  define s1 where "s1 = (if r_noting s then s
      else s\<lparr>r_notes := acc_reset (r_notes s), r_noting := True, r_typed := False, r_kept := False\<rparr>)"
  have inr: "in_record T s1 seen" and n1: "r_noting s1" and f1: "notes_only s s1"
    using assms in_record_start by (auto simp: s1_def notes_only_def)
  from typeRecord_ok [OF inr, of p] obtain s2 where
    s2: "typeRecord T p s1 = Some s2" "acc_inv T (r_notes s2) seen" "r_typed s2 = (8 \<le> length (seen @ p))"
      "r_typed s2 \<longrightarrow> r_typ s2 = rd16 (native T) (seen @ p) 0" "r_kept s2 = na_retain (r_notes s2)"
      "r_kept s2 = (r_typed s2 \<and> wanted s2 (r_typ s2))" "notes_only s1 s2" "r_noting s2"
    using n1 by blast
  obtain a where a: "acc_add T p (r_notes s2) = Some a" "acc_inv T a (seen @ p)" "na_retain a = na_retain (r_notes s2)"
    using acc_add_inv [OF s2(2)] by blast
  have "addPiece T p s = Some (s2\<lparr>r_notes := a\<rparr>)"
    using s2(1) a(1) by (simp add: addPiece_def s1_def [symmetric])
  moreover have "in_record T (s2\<lparr>r_notes := a\<rparr>) (seen @ p)"
    using s2 a by (auto simp: in_record_def wanted_def)
  moreover have "notes_only s (s2\<lparr>r_notes := a\<rparr>)" using f1 s2(7) by (simp add: notes_only_def)
  ultimately show ?thesis using s2(8) by auto
qed

text \<open>The end of a record: what it says about the association goes to the latch.\<close>

definition recordLatch :: "target \<Rightarrow> bytes \<Rightarrow> termState \<Rightarrow> termState" where
  "recordLatch T b t =
     (if 20 \<le> length b \<and> rd16 (native T) b 0 = EventAssocChange then
        if rd16 (native T) b 8 = AssocCommLost then t\<lparr>t_failed := True\<rparr>
        else if rd16 (native T) b 8 = AssocShutdownComplete then t\<lparr>t_ended := True\<rparr> else t
      else t)"

definition record_frame :: "recvState \<Rightarrow> recvState \<Rightarrow> bool" where
  "record_frame s s' \<longleftrightarrow> r_subs s' = r_subs s \<and> r_keepNotes s' = r_keepNotes s \<and> r_partial s' = r_partial s \<and>
     r_interleaved s' = r_interleaved s \<and> r_serving s' = r_serving s \<and> r_served s' = r_served s \<and>
     r_serveInfo s' = r_serveInfo s"

lemma record_frame_refl [simp]: "record_frame s s"
  by (simp add: record_frame_def)

lemma record_frame_trans: "record_frame s s' \<Longrightarrow> record_frame s' s'' \<Longrightarrow> record_frame s s''"
  by (simp add: record_frame_def)

lemma assocChangeInfo_eq:
  "assocChangeInfo T b = Some (if length b < 20 then (0, 0, False)
     else (rd16 (native T) b 8, rd32 (native T) b 16, True))"
  by (simp add: assocChangeInfo_def assocChangeInfoOrder_def no_panic)

lemma endRecordLocked_eq:
  "endRecordLocked T s = Some (s\<lparr>r_noting := False, r_term := map_option (\<lambda>t.
     if \<not> r_typed s \<or> r_typ s \<noteq> EventAssocChange \<or> length (acc_head (r_notes s)) < 20 then t
     else if rd16 (native T) (acc_head (r_notes s)) 8 = AssocCommLost then t\<lparr>t_failed := True\<rparr>
     else if rd16 (native T) (acc_head (r_notes s)) 8 = AssocShutdownComplete then t\<lparr>t_ended := True\<rparr>
     else t) (r_term s)\<rparr>)"
  by (cases s; cases "r_term s") (simp_all add: endRecordLocked_def Let_def assocChangeInfo_eq)

lemma endRecordLocked_ok:
  assumes "in_record T s seen"
  shows "\<exists>t. endRecordLocked T s = Some (s\<lparr>r_noting := False, r_term := t\<rparr>) \<and>
    in_record T (s\<lparr>r_noting := False, r_term := t\<rparr>) seen \<and>
    (na_err (r_notes s) = None \<longrightarrow> t = map_option (recordLatch T seen) (r_term s))"
proof (rule exI, intro conjI impI)
  show "endRecordLocked T s = Some (s\<lparr>r_noting := False, r_term := the (map_option r_term (endRecordLocked T s))\<rparr>)"
    by (simp add: endRecordLocked_eq)
  show "in_record T (s\<lparr>r_noting := False, r_term := the (map_option r_term (endRecordLocked T s))\<rparr>) seen"
    using assms by simp
  assume "na_err (r_notes s) = None"
  then have "acc_head (r_notes s) = take 20 seen" "8 \<le> length seen \<longrightarrow> r_typed s \<and> r_typ s = rd16 (native T) seen 0"
    "r_typed s \<longrightarrow> 8 \<le> length seen"
    using assms by (auto simp: in_record_def acc_inv_def acc_ok_def)
  moreover have "rd16 (native T) (take 20 seen) 8 = rd16 (native T) seen 8" by simp
  ultimately show "the (map_option r_term (endRecordLocked T s)) = map_option (recordLatch T seen) (r_term s)"
    by (cases "r_term s") (auto simp: endRecordLocked_eq recordLatch_def)
qed

section \<open>Records and messages as the kernel delivers them\<close>

text \<open>A piece is what one recvmsg returned: its bytes, flags and ancillary data.\<close>

type_synonym piece = "bytes \<times> u32 \<times> bytes"

definition answers :: "piece list \<Rightarrow> answer list" where
  "answers qs = List.map (\<lambda>(p, fl, ctl). RMsg p fl ctl) qs"

definition payload :: "piece list \<Rightarrow> bytes" where
  "payload qs = concat (List.map fst qs)"

definition ends_once :: "piece list \<Rightarrow> bool" where
  "ends_once qs \<longleftrightarrow> qs \<noteq> [] \<and> list_all (\<lambda>(p, fl, ctl). \<not> has_flag fl msgEOR) (butlast qs) \<and>
     has_flag (fst (snd (last qs))) msgEOR"

definition is_record :: "piece list \<Rightarrow> bool" where
  "is_record qs \<longleftrightarrow> ends_once qs \<and> list_all (\<lambda>(p, fl, ctl). has_flag fl msgNotification) qs"

lemma ends_once_Cons:
  "ends_once ((p, fl, ctl) # qs) \<longleftrightarrow> (if qs = [] then has_flag fl msgEOR else \<not> has_flag fl msgEOR \<and> ends_once qs)"
  by (auto simp: ends_once_def)

lemma is_record_Cons:
  "is_record ((p, fl, ctl) # qs) \<longleftrightarrow> has_flag fl msgNotification \<and>
     (if qs = [] then has_flag fl msgEOR else \<not> has_flag fl msgEOR \<and> is_record qs)"
  by (auto simp: is_record_def ends_once_Cons)

lemma payload_simps [simp]: "payload [] = []" "payload ((p, fl, ctl) # qs) = p @ payload qs"
  by (simp_all add: payload_def)

lemma answers_simps [simp]: "answers [] = []" "answers ((p, fl, ctl) # qs) = RMsg p fl ctl # answers qs"
  by (simp_all add: answers_def)

text \<open>A record is consumed whole by one attempt.\<close>

lemma attempt_record:
  assumes "is_record qs" and "r_noting s \<Longrightarrow> in_record T s seen" and "\<not> r_noting s \<Longrightarrow> seen = []"
  shows "\<exists>s'. attempt T (answers qs @ rest) s = Some (Some \<lparr>o_data = [], o_flags = fst (snd (last qs)),
      o_record = True, o_cut = False, o_err = None\<rparr>, rest, s') \<and>
    in_record T s' (seen @ payload qs) \<and> \<not> r_noting s' \<and> record_frame s s' \<and>
    (na_err (r_notes s') = None \<longrightarrow> r_term s' = map_option (recordLatch T (seen @ payload qs)) (r_term s)) \<and>
    r_control s' = snd (snd (last qs))"
  using assms
proof (induction qs arbitrary: s seen)
  case Nil
  then show ?case by (simp add: is_record_def ends_once_def)
next
  case (Cons q qs)
  obtain p fl ctl where q: "q = (p, fl, ctl)" by (cases q)
  have nf: "has_flag fl msgNotification" using Cons.prems(1) by (simp add: q is_record_Cons)
  let ?s0 = "s\<lparr>r_control := ctl\<rparr>"
  have "r_noting ?s0 \<Longrightarrow> in_record T ?s0 seen" using Cons.prems(2) by simp
  then obtain s1 where s1: "addPiece T p ?s0 = Some s1" "in_record T s1 (seen @ p)" "r_noting s1" "notes_only ?s0 s1"
    using addPiece_ok [of ?s0 T seen p] Cons.prems(3) by auto
  have fr: "record_frame s s1" "r_term s1 = r_term s" "r_control s1 = ctl"
    using s1(4) by (simp_all add: notes_only_def record_frame_def)
  show ?case
  proof (cases "qs = []")
    case True
    with Cons.prems(1) have "has_flag fl msgEOR" by (simp add: q is_record_Cons)
    with endRecordLocked_ok [OF s1(2)] nf s1(1) fr True show ?thesis
      by (auto simp: q record_frame_def)
  next
    case False
    with Cons.prems(1) have "\<not> has_flag fl msgEOR" "is_record qs" by (simp_all add: q is_record_Cons)
    with Cons.IH [of s1 "seen @ p"] s1 nf fr False show ?thesis
      by (auto simp: q intro: record_frame_trans)
  qed
qed

section \<open>No panic\<close>

text \<open>The receive state between reads.\<close>

definition recv_ok :: "target \<Rightarrow> recvState \<Rightarrow> bool" where
  "recv_ok T s \<longleftrightarrow> \<not> r_noting s \<and> (\<exists>seen. acc_inv T (r_notes s) seen) \<and>
     (r_serving s \<longrightarrow> r_served s \<le> length (na_data (r_notes s)))"

lemma attemptEnds_ok:
  "attemptEnds err fl p s = (oc, s') \<Longrightarrow> r_notes s' = r_notes s \<and> \<not> r_noting s' \<and> record_frame s s'"
  by (auto simp: attemptEnds_def Let_def record_frame_def split: if_splits option.splits prod.splits)

lemma attempt_total:
  assumes "\<exists>seen. acc_inv T (r_notes s) seen" "r_noting s \<Longrightarrow> \<exists>seen. in_record T s seen" "\<not> r_serving s"
  shows "\<exists>oc as' s'. attempt T as s = Some (oc, as', s') \<and> recv_ok T s' \<and> record_frame s s'"
  using assms
proof (induction T as s rule: attempt.induct)
  case (1 T s)
  then show ?case
    using attemptEnds_ok [of "Some (Errno EAGAIN)" 0 "[]" s]
    by (auto simp: recv_ok_def record_frame_def split: prod.splits)
next
  case (2 T e as s)
  then show ?case
    using attemptEnds_ok [of "Some (Errno EAGAIN)" 0 "[]" s]
    by (auto simp: recv_ok_def record_frame_def split: prod.splits)
next
  case (3 T e as s)
  then show ?case
    using attemptEnds_ok [of "Some (Errno e)" 0 "[]" s]
    by (auto simp: recv_ok_def record_frame_def split: prod.splits)
next
  case (4 T p flags ctl as s)
  let ?s0 = "s\<lparr>r_control := ctl\<rparr>"
  show ?case
  proof (cases "has_flag flags msgNotification")
    case False
    then show ?thesis
      using 4 attemptEnds_ok [of None flags p ?s0] by (auto simp: recv_ok_def record_frame_def split: prod.splits)
  next
    case True
    obtain seen where "r_noting ?s0 \<Longrightarrow> in_record T ?s0 seen" "\<not> r_noting ?s0 \<Longrightarrow> seen = []"
      using "4.prems"(2) by (cases "r_noting s") auto
    from addPiece_ok [OF this, of p] obtain s1 where
      s1: "addPiece T p ?s0 = Some s1" "in_record T s1 (seen @ p)" "r_noting s1" "notes_only ?s0 s1" by blast
    have fr: "record_frame s s1" using s1(4) by (simp add: notes_only_def record_frame_def)
    show ?thesis
    proof (cases "has_flag flags msgEOR")
      case eor: True
      from endRecordLocked_ok [OF s1(2)] obtain t where
        t: "endRecordLocked T s1 = Some (s1\<lparr>r_noting := False, r_term := t\<rparr>)" by blast
      have "recv_ok T (s1\<lparr>r_noting := False, r_term := t\<rparr>)"
        using s1 fr "4.prems"(3) by (auto simp: recv_ok_def in_record_def record_frame_def)
      with t s1(1) True eor fr show ?thesis by (auto simp: record_frame_def)
    next
      case False
      have "\<exists>oc as' s'. attempt T as s1 = Some (oc, as', s') \<and> recv_ok T s' \<and> record_frame s1 s'"
        using 4 s1 False True fr by (intro "4.IH") (auto simp: in_record_def record_frame_def)
      with s1 False True fr show ?thesis by (auto intro: record_frame_trans)
    qed
  qed
qed

lemma attempt_ok: "recv_ok T s \<Longrightarrow> \<not> r_serving s \<Longrightarrow>
    \<exists>oc as' s'. attempt T as s = Some (oc, as', s') \<and> recv_ok T s' \<and> record_frame s s'"
  by (rule attempt_total) (auto simp: recv_ok_def)

lemma rawLoop_ok:
  "recv_ok T s \<Longrightarrow> \<not> r_serving s \<Longrightarrow>
     \<exists>p as' s'. rawLoop T as s = Some (p, as', s') \<and> recv_ok T s' \<and> record_frame s s'"
proof (induction T as s rule: rawLoop.induct)
  case (1 T as s)
  obtain oc as1 s1 where a: "attempt T as s = Some (oc, as1, s1)" "recv_ok T s1" "record_frame s s1"
    using attempt_ok "1.prems" by blast
  note ih = "1.IH" [OF a(1) refl refl]
  have ns: "\<not> r_serving s1" using a(3) "1.prems"(2) by (simp add: record_frame_def)
  show ?case
  proof (cases "oc = None \<and> as1 \<noteq> [] \<and> (\<forall>e q. as1 \<noteq> PollErr e # q)")
    case True
    then have "\<exists>p as' s'. rawLoop T as1 s1 = Some (p, as', s') \<and> recv_ok T s' \<and> record_frame s1 s'"
      using ih a(2) ns by (cases as1 rule: list.exhaust; cases "hd as1") auto
    with True a show ?thesis
      by (cases as1; cases "hd as1") (auto simp: rawLoop.simps [of T as s] intro: record_frame_trans)
  next
    case False
    with a show ?thesis
      by (auto simp: rawLoop.simps [of T as s] split: option.splits list.splits answer.splits)
  qed
qed

lemma rawRead_ok:
  "recv_ok T s \<Longrightarrow> \<not> r_serving s \<Longrightarrow>
     \<exists>p as' s'. rawRead T as s = Some (p, as', s') \<and> recv_ok T s' \<and> record_frame s s'"
  using rawLoop_ok [of T s as] by (auto simp: rawRead_def split: list.splits answer.splits)

lemma recv_ok_upd [simp]:
  "recv_ok T (s\<lparr>r_partial := b\<rparr>) = recv_ok T s" "recv_ok T (s\<lparr>r_keepNotes := b\<rparr>) = recv_ok T s"
  by (simp_all add: recv_ok_def)

lemma recv_ok_reset: "\<not> r_noting s \<Longrightarrow> \<not> r_serving s \<Longrightarrow> recv_ok T (s\<lparr>r_notes := acc_reset a\<rparr>)"
  using acc_reset_inv [of T a] by (auto simp: recv_ok_def)

lemma stopServing_ok: "\<not> r_noting s \<Longrightarrow> recv_ok T (stopServing s)"
  using acc_reset_inv [of T "r_notes s"] by (auto simp: recv_ok_def stopServing_def)

lemma servePiece_ok:
  "recv_ok T s \<Longrightarrow> r_serving s \<Longrightarrow> \<exists>piece mi s'. servePiece blen s = Some ((piece, mi), s') \<and> recv_ok T s'"
  using stopServing_ok by (auto simp: servePiece_def no_panic recv_ok_def Let_def)

lemma dropRecord_ok: "\<not> r_noting s \<Longrightarrow> \<not> r_serving s \<Longrightarrow> recv_ok T (snd (dropRecord s))"
  by (simp add: dropRecord_def recv_ok_reset)

lemma recvRecord_ok:
  assumes "recv_ok T (c_recv c)" "\<not> r_serving (c_recv c)"
  shows "\<exists>r c'. recvRecord T ifx blen raw fl c = Some (r, c') \<and> recv_ok T (c_recv c')"
proof -
  define s where "s = (if r_typed (c_recv c) \<and> r_typ (c_recv c) = EventPartialDelivery
    then (c_recv c)\<lparr>r_partial := False\<rparr> else c_recv c)"
  have ok: "recv_ok T s" and ns: "\<not> r_serving s" "\<not> r_noting s"
    using assms by (auto simp: s_def recv_ok_def)
  obtain e info where cm: "parseRecvCmsgs T (r_control s) fl = Some (e, info)"
    using parseRecvCmsgs_returns [of T "r_control s" fl] by auto
  have "recv_ok T (s\<lparr>r_serveInfo := info, r_serving := True, r_served := 0\<rparr>)"
    using ok by (simp add: recv_ok_def)
  from servePiece_ok [OF this, of blen] obtain piece mi s' where
    sp: "servePiece blen (s\<lparr>r_serveInfo := info, r_serving := True, r_served := 0\<rparr>) = Some ((piece, mi), s')"
      "recv_ok T s'" by auto
  show ?thesis
  proof (cases "r_kept s")
    case False
    with dropRecord_ok [OF ns(2,1), of T] show ?thesis
      unfolding recvRecord_def Let_def s_def [symmetric] by (simp add: split_def split: option.split)
  next
    case kept: True
    show ?thesis
    proof (cases "acc_finish (r_notes s)")
      case (Inl e)
      with kept recv_ok_reset [OF ns(2,1), of T] show ?thesis
        unfolding recvRecord_def Let_def s_def [symmetric] by simp
    next
      case (Inr dat)
      obtain r where "ParseNotification T ifx dat = Some r" using ParseNotification_returns by blast
      with Inr kept recv_ok_reset [OF ns(2,1), of T] sp cm show ?thesis
        unfolding recvRecord_def Let_def s_def [symmetric] by simp
    qed
  qed
qed

lemma recvData_ok:
  "recv_ok T (c_recv c) \<Longrightarrow> \<exists>r c'. recvData T raw x c = Some (r, c') \<and> recv_ok T (c_recv c')"
  using parseRecvCmsgs_returns [of T "r_control (c_recv c)" "o_flags x"]
  by (auto simp: recvData_def Let_def)

lemma abortInterrupted_recv [simp]: "c_recv (snd (abortInterrupted e c)) = c_recv c"
  by (simp add: abortInterrupted_def)

lemma abortInterruptedNotification_ok:
  "\<not> r_noting (c_recv c) \<Longrightarrow> \<not> r_serving (c_recv c) \<Longrightarrow>
     recv_ok T (c_recv (snd (abortInterruptedNotification e c)))"
  by (simp add: abortInterruptedNotification_def Let_def set_notes_def recv_ok_reset)

lemma unserved_ok:
  "recv_ok T (c_recv c) \<Longrightarrow> recv_ok T (c_recv (unserved c)) \<and> \<not> r_serving (c_recv (unserved c))"
  using stopServing_ok [of "c_recv c" T] by (auto simp: unserved_def recv_ok_def stopServing_def)

lemma recvSwitch_ok:
  assumes "recv_ok T (c_recv c)" "\<not> r_serving (c_recv c)"
  shows "\<exists>r c'. recvSwitch T ifx blen raw p c = Some (r, c') \<and> recv_ok T (c_recv c')"
proof (cases p)
  case (Polled x)
  have "\<not> r_noting (c_recv c)" using assms by (simp add: recv_ok_def)
  from abortInterruptedNotification_ok [OF this assms(2), of T "o_err x"]
    recvRecord_ok [OF assms, of ifx blen raw "o_flags x"] recvData_ok [OF assms(1), of raw x] assms(1) Polled
  show ?thesis by (auto simp: recvSwitch_def split_def Let_def)
qed (use assms in \<open>simp_all add: recvSwitch_def\<close>)

lemma recvRound_ok:
  assumes "recv_ok T (c_recv c)"
  shows "\<exists>r as' c'. recvRound T ifx blen raw as c = Some (r, as', c') \<and> recv_ok T (c_recv c')"
proof (cases "r_serving (c_recv c) \<and> raw")
  case True
  with servePiece_ok [OF assms, of blen] show ?thesis by (auto simp: recvRound_def)
next
  case False
  define c0 where "c0 = unserved c"
  have ok: "recv_ok T (c_recv c0)" "\<not> r_serving (c_recv c0)" using unserved_ok [OF assms] by (simp_all add: c0_def)
  define s0 where "s0 = (c_recv c0)\<lparr>r_keepNotes := raw \<or> c_handler c0\<rparr>"
  have "recv_ok T s0" "\<not> r_serving s0" using ok by (simp_all add: s0_def)
  then obtain p as1 s1 where rr: "rawRead T as s0 = Some (p, as1, s1)" "recv_ok T s1" "record_frame s0 s1"
    using rawRead_ok by blast
  have "\<not> r_serving s1" using rr(3) \<open>\<not> r_serving s0\<close> by (simp add: record_frame_def)
  with rr(2) obtain r c' where "recvSwitch T ifx blen raw p (c0\<lparr>c_recv := s1\<rparr>) = Some (r, c')" "recv_ok T (c_recv c')"
    using recvSwitch_ok [of T "c0\<lparr>c_recv := s1\<rparr>" ifx blen raw p] by auto
  with False ok rr(1) show ?thesis
    by (cases "termEnd (c_recv c0)") (auto simp: recvRound_def c0_def [symmetric] s0_def [symmetric])
qed

lemma recvNext_ok:
  "recv_ok T (c_recv c) \<Longrightarrow>
     \<exists>r as' c'. recvNext T ifx blen raw as c = Some (r, as', c') \<and> recv_ok T (c_recv c')"
proof (induction T ifx blen raw as c rule: recvNext.induct)
  case (1 T ifx blen raw as c)
  from recvRound_ok [OF "1.prems"] obtain r as1 c1 where
    r: "recvRound T ifx blen raw as c = Some (r, as1, c1)" "recv_ok T (c_recv c1)" by blast
  show ?case
    using r "1.IH" [OF r(1) refl refl _ r(2)]
    by (cases r) (auto simp: recvNext.simps [of T ifx blen raw as c])
qed

lemma deliver_recv [simp]: "c_recv (snd (deliver h note c)) = c_recv c"
  by (simp add: deliver_def)

lemma RecvMsg_loop_ok:
  "recv_ok T (c_recv c) \<Longrightarrow> \<exists>r as' c'. RecvMsg_loop T ifx h blen as c = Some (r, as', c') \<and> recv_ok T (c_recv c')"
proof (induction T ifx h blen as c rule: RecvMsg_loop.induct)
  case (1 T ifx h blen as c)
  from recvNext_ok [OF "1.prems"] obtain r as1 c1 where
    r: "recvNext T ifx blen True as c = Some (r, as1, c1)" "recv_ok T (c_recv c1)" by blast
  show ?case
  proof (cases "\<exists>note e. r = Note note e \<and> h note = None")
    case False
    with r show ?thesis
      by (cases r) (auto simp: RecvMsg_loop.simps [of T ifx h blen as c] deliver_def split: option.split)
  next
    case True
    then obtain nt e where n: "r = Note nt e" "h nt = None" by blast
    have "recv_ok T (c_recv (snd (deliver h nt c1)))" using r(2) by simp
    with "1.IH" [OF r(1) refl refl n(1), of "fst (deliver h nt c1)" "snd (deliver h nt c1)"] r n show ?thesis
      by (auto simp: RecvMsg_loop.simps [of T ifx h blen as c] deliver_def)
  qed
qed

lemma Read_loop_ok:
  "recv_ok T (c_recv c) \<Longrightarrow> \<exists>r as' c'. Read_loop T ifx h blen as c = Some (r, as', c') \<and> recv_ok T (c_recv c')"
proof (induction T ifx h blen as c rule: Read_loop.induct)
  case (1 T ifx h blen as c)
  from recvNext_ok [OF "1.prems"] obtain r as1 c1 where
    r: "recvNext T ifx blen False as c = Some (r, as1, c1)" "recv_ok T (c_recv c1)" by blast
  show ?case
  proof (cases "\<exists>note. r = Note note None \<and> h note = None")
    case False
    with r show ?thesis
      by (cases r) (auto simp: Read_loop.simps [of T ifx h blen as c] deliver_def split: option.split)
  next
    case True
    then obtain nt where n: "r = Note nt None" "h nt = None" by blast
    have "recv_ok T (c_recv (snd (deliver h nt c1)))" using r(2) by simp
    with "1.IH" [OF r(1) refl refl n(1) refl] r n show ?thesis
      by (auto simp: Read_loop.simps [of T ifx h blen as c] deliver_def)
  qed
qed

lemma messageCut_total: "\<exists>r. messageCut T s = Some r"
  by (simp add: messageCut_def assocChangeInfo_eq)

lemma finishAndParse_total: "\<exists>r. finishAndParse T ifx s = Some r"
  using ParseNotification_returns [of T ifx] by (auto simp: finishAndParse_def split: sum.split)

lemma resetNotes_ok:
  "\<not> r_noting (c_recv c) \<Longrightarrow> \<not> r_serving (c_recv c) \<Longrightarrow> recv_ok T (c_recv (resetNotes c))"
  by (simp add: resetNotes_def recv_ok_reset)

lemma notes_frame [simp]:
  "r_serving (c_recv (resetNotes c)) = r_serving (c_recv c)" "r_serving (snd (dropRecord s)) = r_serving s"
  by (simp_all add: resetNotes_def dropRecord_def)

definition quiet :: "target \<Rightarrow> conn \<Rightarrow> bool" where
  "quiet T c \<longleftrightarrow> recv_ok T (c_recv c) \<and> \<not> r_serving (c_recv c)"

lemma quiet_resetNotes: "quiet T c \<Longrightarrow> quiet T (resetNotes c)"
  using resetNotes_ok [of c T] by (auto simp: quiet_def recv_ok_def)

lemma quiet_dropRecord: "quiet T c \<Longrightarrow> quiet T (c\<lparr>c_recv := snd (dropRecord (c_recv c))\<rparr>)"
  using dropRecord_ok [of "c_recv c" T] by (auto simp: quiet_def recv_ok_def)

lemma quiet_partial: "quiet T (c\<lparr>c_recv := (c_recv c)\<lparr>r_partial := b\<rparr>\<rparr>) = quiet T c"
  by (simp add: quiet_def)

lemma cutByRecord_ok:
  assumes "quiet T c"
  shows "\<exists>b c' m'. cutByRecord T ifx why c m = Some (b, c', m') \<and> quiet T c'"
proof -
  let ?c1 = "c\<lparr>c_recv := (c_recv c)\<lparr>r_partial := False\<rparr>\<rparr>"
  have "quiet T ?c1" using assms by (simp add: quiet_partial)
  from quiet_resetNotes [OF this] quiet_dropRecord [OF this] show ?thesis
    using finishAndParse_total [of T ifx "c_recv ?c1"]
    by (auto simp: cutByRecord_def Let_def split_def)
qed

lemma readMsgNotification_ok:
  assumes "quiet T c"
  shows "\<exists>b c' m'. readMsgNotification T ifx c m = Some (b, c', m') \<and> quiet T c'"
proof -
  obtain why where why: "(if m_haveFirst m \<and> \<not> m_complete m then messageCut T (c_recv c) else Some None) = Some why"
    using messageCut_total by (cases "m_haveFirst m \<and> \<not> m_complete m") auto
  obtain r where r: "finishAndParse T ifx (c_recv c) = Some r" using finishAndParse_total by blast
  show ?thesis
  proof (cases why)
    case (Some e)
    with why cutByRecord_ok [OF assms, of ifx e m] show ?thesis by (simp add: readMsgNotification_def)
  next
    case None
    show ?thesis
      unfolding readMsgNotification_def why None
      using quiet_dropRecord [OF assms] quiet_resetNotes [OF assms] r
      by (cases "r_kept (c_recv c)") (auto simp: split_def Let_def split: option.split sum.split)
  qed
qed

lemma readMsgData_ok:
  assumes "quiet T c"
  shows "\<exists>b c' m'. readMsgData T maxn x c m = Some (b, c', m') \<and> quiet T c'"
proof -
  obtain e mi where "parseRecvCmsgs T (r_control (c_recv c)) (o_flags x) = Some (e, mi)"
    using parseRecvCmsgs_returns by fastforce
  with assms show ?thesis by (simp add: readMsgData_def Let_def quiet_partial)
qed

lemma readMsgRound_ok:
  assumes "quiet T c"
  shows "\<exists>r as' c' m'. readMsgRound T ifx maxn as c m = Some (r, as', c', m') \<and> quiet T c'"
proof -
  define k where "k = (c_handler c \<and> (\<not> m_haveFirst (readMsgGrow maxn m) \<or> \<not> m_queueFull (readMsgGrow maxn m)))"
  have "recv_ok T ((c_recv c)\<lparr>r_keepNotes := k\<rparr>)" "\<not> r_serving ((c_recv c)\<lparr>r_keepNotes := k\<rparr>)"
    using assms by (simp_all add: quiet_def)
  then obtain oc as1 s1 where a: "attempt T as ((c_recv c)\<lparr>r_keepNotes := k\<rparr>) = Some (oc, as1, s1)"
      "recv_ok T s1" "record_frame ((c_recv c)\<lparr>r_keepNotes := k\<rparr>) s1"
    using attempt_ok by blast
  then have q: "quiet T (c\<lparr>c_recv := s1\<rparr>)" using assms by (simp add: quiet_def record_frame_def)
  show ?thesis
  proof (cases oc)
    case None
    with a q show ?thesis unfolding readMsgRound_def Let_def k_def [symmetric] by simp
  next
    case (Some x)
    obtain b c1 m1 d c2 m2 where
      "readMsgNotification T ifx (c\<lparr>c_recv := s1\<rparr>) (readMsgGrow maxn m) = Some (b, c1, m1)" "quiet T c1"
      "readMsgData T maxn x (c\<lparr>c_recv := s1\<rparr>) (readMsgGrow maxn m) = Some (d, c2, m2)" "quiet T c2"
      using readMsgNotification_ok [OF q] readMsgData_ok [OF q] by meson
    with Some a(1) q show ?thesis unfolding readMsgRound_def Let_def k_def [symmetric] by simp
  qed
qed

lemma readMsgCallback_ok:
  "quiet T c \<Longrightarrow> \<exists>b as' c' m'. readMsgCallback T ifx maxn as c m = Some (b, as', c', m') \<and> quiet T c'"
proof (induction T ifx maxn as c m rule: readMsgCallback.induct)
  case (1 T ifx maxn as c m)
  from readMsgRound_ok [OF "1.prems"] obtain r as1 c1 m1 where
    r: "readMsgRound T ifx maxn as c m = Some (r, as1, c1, m1)" "quiet T c1" by blast
  show ?case
    using r "1.IH" [OF r(1) refl refl refl _ r(2)]
    by (cases r) (auto simp: readMsgCallback.simps [of T ifx maxn as c m])
qed

lemma readMsgPoll_ok:
  "quiet T c \<Longrightarrow> \<exists>p as' c' m'. readMsgPoll T ifx maxn as c m = Some (p, as', c', m') \<and> quiet T c'"
proof (induction T ifx maxn as c m rule: readMsgPoll.induct)
  case (1 T ifx maxn as c m)
  from readMsgCallback_ok [OF "1.prems"] obtain b as1 c1 m1 where
    r: "readMsgCallback T ifx maxn as c m = Some (b, as1, c1, m1)" "quiet T c1" by blast
  show ?case
  proof (cases "b \<or> as1 = [] \<or> (\<exists>e q. as1 = PollErr e # q)")
    case True
    with r show ?thesis by (auto simp: readMsgPoll.simps [of T ifx maxn as c m])
  next
    case False
    then have "\<not> b" and sh: "(\<exists>p fl ctl q. as1 = RMsg p fl ctl # q) \<or> (\<exists>e q. as1 = RErr e # q)"
      by (auto simp: neq_Nil_conv) (metis answer.exhaust)
    then have "\<exists>p as' c' m'. readMsgPoll T ifx maxn as1 c1 m1 = Some (p, as', c', m') \<and> quiet T c'"
      using "1.IH"(1) [OF r(1) refl refl refl \<open>\<not> b\<close>] "1.IH"(2) [OF r(1) refl refl refl \<open>\<not> b\<close>] r(2) by auto
    with sh \<open>\<not> b\<close> r(1) show ?thesis by (auto simp: readMsgPoll.simps [of T ifx maxn as c m])
  qed
qed

lemma quiet_abort:
  "quiet T c \<Longrightarrow> quiet T (snd (abortInterruptedNotification e c))" "quiet T c \<Longrightarrow> quiet T (snd (abortInterruptedMessage e c))"
  using abortInterruptedNotification_ok [of c T e]
  by (auto simp: quiet_def abortInterruptedMessage_def abortInterruptedNotification_def Let_def set_notes_def recv_ok_def)

lemma quiet_readMsgEnd: "quiet T c \<Longrightarrow> quiet T (fst (readMsgEnd e c m))"
  using quiet_abort [of T c] by (auto simp: readMsgEnd_def Let_def split_def split: option.split)

lemma quiet_deliver: "quiet T c \<Longrightarrow> quiet T (snd (deliver h note c))"
  by (simp add: quiet_def)

lemma quiet_deliverQueued: "quiet T c \<Longrightarrow> quiet T (fst (deliverQueued h ns c m))"
  by (induction h ns c m rule: deliverQueued.induct) (auto simp: split_def Let_def quiet_deliver)

lemma readMsgRaw_ok:
  "quiet T c \<Longrightarrow> \<exists>p as' c' m'. readMsgRaw T ifx maxn as c m = Some (p, as', c', m') \<and> quiet T c'"
  using readMsgPoll_ok [of T c ifx maxn as m] by (auto simp: readMsgRaw_def split: list.split answer.split)

lemma readMsgLoop_ok:
  "recv_ok T (c_recv c) \<Longrightarrow>
     \<exists>r as' c'. readMsgLoop T ifx h maxn as c m = Some (r, as', c') \<and> recv_ok T (c_recv c')"
proof (induction T ifx h maxn as c m rule: readMsgLoop.induct)
  case (1 T ifx h maxn as c m)
  have q0: "quiet T (unserved c)" using unserved_ok [OF "1.prems"] by (simp add: quiet_def)
  show ?case
  proof (cases "termEnd (c_recv (unserved c))")
    case (Some e)
    with q0 show ?thesis by (simp add: readMsgLoop.simps [of T ifx h maxn as c m] quiet_def Let_def)
  next
    case None
    from readMsgRaw_ok [OF q0] obtain p as1 c1 m1 where
      r: "readMsgRaw T ifx maxn as (unserved c) (readMsgReset m) = Some (p, as1, c1, m1)" "quiet T c1" by blast
    obtain c2 m2 where e: "readMsgEnd (pollError p) c1 m1 = (c2, m2)" by fastforce
    with quiet_readMsgEnd [OF r(2), of "pollError p" m1] have q2: "quiet T c2" by simp
    show ?thesis
    proof (cases "p \<noteq> Parked \<and> (\<exists>nt. m_immediate m2 = Some nt \<and> h nt = None)")
      case True
      then obtain nt where nt: "m_immediate m2 = Some nt" "h nt = None" and np: "p \<noteq> Parked" by blast
      obtain c3 where c3: "deliver h nt c2 = (None, c3)" "quiet T c3"
        using nt(2) quiet_deliver [OF q2, of h nt] by (simp add: deliver_def)
      have "\<exists>r as' c'. readMsgLoop T ifx h maxn as1 c3 m2 = Some (r, as', c') \<and> recv_ok T (c_recv c')"
        by (rule "1.IH" [OF refl refl None r(1) refl refl refl np e [symmetric] refl nt(1) c3(1) [symmetric] refl])
          (use c3(2) in \<open>simp add: quiet_def\<close>)
      with None r(1) e nt np c3(1) show ?thesis by (simp add: readMsgLoop.simps [of T ifx h maxn as c m])
    next
      case False
      have "quiet T (fst (deliverQueued h (m_queued m2) c2 m2))" by (rule quiet_deliverQueued [OF q2])
      with False None r e show ?thesis
        using quiet_deliver [OF q2, of h]
        by (auto simp: readMsgLoop.simps [of T ifx h maxn as c m] quiet_def deliver_def split_def Let_def split: option.split)
    qed
  qed
qed


definition recvState_zero :: recvState where
  "recvState_zero = \<lparr>r_control = [], r_notes = acc_reset acc_zero, r_term = Some term_zero, r_subs = 0,
     r_keepNotes = False, r_partial = False, r_interleaved = False, r_noting = False, r_typed = False,
     r_typ = 0, r_kept = False, r_serving = False, r_served = 0, r_serveInfo = MsgInfo_zero\<rparr>"

definition fresh_conn :: "bool \<Rightarrow> conn" where
  "fresh_conn handler = \<lparr>c_recv = recvState_zero, c_life = lifeOpen, c_handler = handler, c_captured = True,
     c_abortErr = None, c_aborts = 0, c_handled = [], c_network = ''sctp'', c_laddr = None, c_raddr = None\<rparr>"

lemma recv_ok_zero [simp]: "recv_ok T (c_recv (fresh_conn b))"
  using acc_reset_inv [of T acc_zero] by (auto simp: recv_ok_def recvState_zero_def fresh_conn_def)


end
