(* ===== verification/Delivery.thy ===== *)
theory Delivery
  imports Reads
begin

text \<open>
  What the reads deliver: a message however the kernel cuts it, notifications in the order they
  were queued, and what happens to a record or a message that is cut short.
\<close>

section \<open>Whole messages\<close>

text \<open>The pieces of one message: data, none of them empty, the last with the end mark; and pieces
  that stay within \<open>n\<close> bytes until exactly \<open>n\<close> have come, as pieces read into a buffer of
  the bytes left do.\<close>

definition is_message :: "piece list \<Rightarrow> bool" where
  "is_message qs \<longleftrightarrow> ends_once qs \<and>
     list_all (\<lambda>(p, fl, ctl). p \<noteq> [] \<and> \<not> has_flag fl msgNotification \<and> \<not> has_flag fl msgCtrunc) qs"

fun within :: "nat \<Rightarrow> piece list \<Rightarrow> bool" where
  "within n [] = True"
| "within n ((p, fl, ctl) # qs) = (n = 0 \<or> length p \<le> n \<and> within (n - length p) qs)"

lemma is_message_Cons:
  "is_message ((p, fl, ctl) # qs) \<longleftrightarrow> p \<noteq> [] \<and> \<not> has_flag fl msgNotification \<and> \<not> has_flag fl msgCtrunc \<and>
     (if qs = [] then has_flag fl msgEOR else \<not> has_flag fl msgEOR \<and> is_message qs)"
  by (auto simp: is_message_def ends_once_Cons)

lemma is_message_payload: "is_message qs \<Longrightarrow> payload qs \<noteq> []"
  by (cases qs) (auto simp: is_message_def ends_once_def payload_def)

lemma attempt_data:
  "\<not> r_noting s \<Longrightarrow> p \<noteq> [] \<Longrightarrow> \<not> has_flag fl msgNotification \<Longrightarrow>
     attempt T (RMsg p fl ctl # rest) s =
       Some (Some \<lparr>o_data = p, o_flags = fl, o_record = False, o_cut = False, o_err = None\<rparr>, rest, s\<lparr>r_control := ctl\<rparr>)"
  by (simp add: attemptEnds_def Let_def split: option.split)

text \<open>What a data piece makes of the call's state.\<close>

definition afterPiece :: "nat \<Rightarrow> bytes \<Rightarrow> bool \<Rightarrow> readMsgState \<Rightarrow> readMsgState" where
  "afterPiece maxn p eor m =
     (let d = (if m_tooLong m then m_data m else m_data m @ p);
          tl = (m_tooLong m \<or> length d = maxn \<and> \<not> eor);
          m1 = m\<lparr>m_data := d, m_tooLong := tl\<rparr>
      in if eor then (if tl then addError (Some ErrMessageTooLong) (m1\<lparr>m_complete := True\<rparr>) else m1\<lparr>m_complete := True\<rparr>)
         else m1)"

lemma readMsgGrow_frame [simp]:
  "m_data (readMsgGrow n m) = m_data m" "m_tooLong (readMsgGrow n m) = m_tooLong m"
  "m_haveFirst (readMsgGrow n m) = m_haveFirst m" "m_complete (readMsgGrow n m) = m_complete m"
  "m_queueFull (readMsgGrow n m) = m_queueFull m" "m_resultErr (readMsgGrow n m) = m_resultErr m"
  "m_first (readMsgGrow n m) = m_first m" "m_queued (readMsgGrow n m) = m_queued m"
  "m_cutNotification (readMsgGrow n m) = m_cutNotification m" "m_ctrunc (readMsgGrow n m) = m_ctrunc m"
  "m_pdBoundary (readMsgGrow n m) = m_pdBoundary m" "m_partialErr (readMsgGrow n m) = m_partialErr m"
  "m_queuedBytes (readMsgGrow n m) = m_queuedBytes m"
  by (simp_all add: readMsgGrow_def Let_def)

lemma readMsgData_after:
  assumes "m_haveFirst m" "\<not> has_flag (o_flags x) msgCtrunc"
  shows "readMsgData T maxn x c m = Some (has_flag (o_flags x) msgEOR,
    c\<lparr>c_recv := (c_recv c)\<lparr>r_partial := \<not> has_flag (o_flags x) msgEOR\<rparr>\<rparr>,
    afterPiece maxn (o_data x) (has_flag (o_flags x) msgEOR) m)"
  using assms by (cases m; cases "m_tooLong m") (simp_all add: readMsgData_def afterPiece_def Let_def)

text \<open>The connection after data was read: only the receive state's ancillary data, its reader's
  choice to retain and its unfinished message may differ.\<close>

definition after_data :: "conn \<Rightarrow> conn \<Rightarrow> bool" where
  "after_data c c' \<longleftrightarrow> c'\<lparr>c_recv := c_recv c\<rparr> = c \<and>
     (c_recv c')\<lparr>r_control := r_control (c_recv c), r_keepNotes := r_keepNotes (c_recv c),
       r_partial := r_partial (c_recv c)\<rparr> = c_recv c"

lemma after_data_trans [trans]: "after_data c c' \<Longrightarrow> after_data c' c'' \<Longrightarrow> after_data c c''"
  by (cases c; cases c'; cases c''; cases "c_recv c"; cases "c_recv c'"; cases "c_recv c''")
    (simp add: after_data_def)

lemma after_dataD:
  assumes "after_data c c'"
  shows "c_life c' = c_life c" "c_handler c' = c_handler c" "c_aborts c' = c_aborts c" "c_handled c' = c_handled c"
    "r_noting (c_recv c') = r_noting (c_recv c)" "r_serving (c_recv c') = r_serving (c_recv c)"
    "r_term (c_recv c') = r_term (c_recv c)" "r_notes (c_recv c') = r_notes (c_recv c)"
    "r_interleaved (c_recv c') = r_interleaved (c_recv c)" "c_network c' = c_network c"
    "c_laddr c' = c_laddr c" "c_raddr c' = c_raddr c" "c_captured c' = c_captured c" "r_subs (c_recv c') = r_subs (c_recv c)"
  using assms by (cases c; cases c'; cases "c_recv c"; cases "c_recv c'"; simp add: after_data_def)+

lemma readMsgRound_data:
  assumes "\<not> r_noting (c_recv c)" "p \<noteq> []" "\<not> has_flag fl msgNotification" "\<not> has_flag fl msgCtrunc" "m_haveFirst m"
  shows "\<exists>c'. readMsgRound T ifx maxn (RMsg p fl ctl # rest) c m =
      Some (if has_flag fl msgEOR then Some True else None, rest, c', afterPiece maxn p (has_flag fl msgEOR) (readMsgGrow maxn m)) \<and>
    after_data c c' \<and> r_partial (c_recv c') = (\<not> has_flag fl msgEOR)"
  using assms
  by (simp add: readMsgRound_def Let_def attempt_data readMsgData_after del: attempt.simps)
    (auto simp: after_data_def)

text \<open>What a call has of its message, after the bytes \<open>seen\<close>, none of its end.\<close>

definition has_seen :: "nat \<Rightarrow> bytes \<Rightarrow> readMsgState \<Rightarrow> bool" where
  "has_seen maxn seen m \<longleftrightarrow> m_data m = take maxn seen \<and> m_tooLong m = (maxn \<le> length seen)"

definition msg_frame :: "readMsgState \<Rightarrow> readMsgState \<Rightarrow> bool" where
  "msg_frame m m' \<longleftrightarrow> m_haveFirst m' = m_haveFirst m \<and> m_first m' = m_first m \<and> m_ctrunc m' = m_ctrunc m \<and>
     m_pdBoundary m' = m_pdBoundary m \<and> m_queued m' = m_queued m \<and> m_queuedBytes m' = m_queuedBytes m \<and>
     m_queueFull m' = m_queueFull m \<and> m_immediate m' = m_immediate m \<and>
     m_cutNotification m' = m_cutNotification m \<and> m_partialErr m' = m_partialErr m"

lemma msg_frame_trans: "msg_frame m m' \<Longrightarrow> msg_frame m' m'' \<Longrightarrow> msg_frame m m''"
  by (simp add: msg_frame_def)

lemma addError_frame [simp]:
  "m_data (addError e m) = m_data m" "m_tooLong (addError e m) = m_tooLong m" "m_first (addError e m) = m_first m"
  "m_haveFirst (addError e m) = m_haveFirst m" "m_complete (addError e m) = m_complete m"
  "m_queued (addError e m) = m_queued m" "m_cutNotification (addError e m) = m_cutNotification m"
  "m_pdBoundary (addError e m) = m_pdBoundary m" "m_partialErr (addError e m) = m_partialErr m"
  "m_queuedBytes (addError e m) = m_queuedBytes m" "m_queueFull (addError e m) = m_queueFull m"
  by (simp_all add: addError_def Let_def split: option.split)

lemma afterPiece_frame: "msg_frame m (afterPiece maxn p eor (readMsgGrow maxn m))"
  by (simp add: afterPiece_def msg_frame_def Let_def) (simp add: addError_def Let_def split: option.split)

lemma afterPiece_more:
  assumes "has_seen maxn seen m" "within (maxn - length seen) ((p, fl, ctl) # qs)"
  shows "has_seen maxn (seen @ p) (afterPiece maxn p False (readMsgGrow maxn m)) \<and>
    m_resultErr (afterPiece maxn p False (readMsgGrow maxn m)) = m_resultErr m \<and>
    m_complete (afterPiece maxn p False (readMsgGrow maxn m)) = m_complete m \<and>
    within (maxn - length (seen @ p)) qs"
  using assms by (cases qs) (auto simp: has_seen_def afterPiece_def Let_def)

lemma afterPiece_last:
  assumes "has_seen maxn seen m" "within (maxn - length seen) [(p, fl, ctl)]" "p \<noteq> []"
  shows "m_data (afterPiece maxn p True (readMsgGrow maxn m)) = take maxn (seen @ p) \<and>
    m_complete (afterPiece maxn p True (readMsgGrow maxn m)) \<and>
    m_resultErr (afterPiece maxn p True (readMsgGrow maxn m)) =
      (if length (seen @ p) > maxn then
         (case m_resultErr m of None \<Rightarrow> Some ErrMessageTooLong | Some r \<Rightarrow> errorsJoin [Some r, Some ErrMessageTooLong])
       else m_resultErr m)"
  using assms length_greater_0_conv [of p]
  by (auto simp: has_seen_def afterPiece_def Let_def addError_def simp del: length_greater_0_conv split: option.split)

lemma readMsgCallback_message:
  assumes "is_message qs" "has_seen maxn seen m" "within (maxn - length seen) qs" "m_haveFirst m" "\<not> r_noting (c_recv c)"
  shows "\<exists>c' m'. readMsgCallback T ifx maxn (answers qs @ rest) c m = Some (True, rest, c', m') \<and>
    after_data c c' \<and> \<not> r_partial (c_recv c') \<and> msg_frame m m' \<and> m_complete m' \<and>
    m_data m' = take maxn (seen @ payload qs) \<and>
    m_resultErr m' = (if length (seen @ payload qs) > maxn then
         (case m_resultErr m of None \<Rightarrow> Some ErrMessageTooLong | Some r \<Rightarrow> errorsJoin [Some r, Some ErrMessageTooLong])
       else m_resultErr m)"
  using assms
proof (induction qs arbitrary: seen m c)
  case Nil
  then show ?case by (simp add: is_message_def ends_once_def)
next
  case (Cons q qs)
  obtain p fl ctl where q: "q = (p, fl, ctl)" by (cases q)
  have pf: "p \<noteq> []" "\<not> has_flag fl msgNotification" "\<not> has_flag fl msgCtrunc"
    using Cons.prems(1) by (simp_all add: q is_message_Cons)
  from readMsgRound_data [OF Cons.prems(5) pf Cons.prems(4), of T ifx maxn ctl "answers qs @ rest"] obtain c1 where
    r: "readMsgRound T ifx maxn (RMsg p fl ctl # answers qs @ rest) c m =
        Some (if has_flag fl msgEOR then Some True else None, answers qs @ rest, c1,
          afterPiece maxn p (has_flag fl msgEOR) (readMsgGrow maxn m))"
      "after_data c c1" "r_partial (c_recv c1) = (\<not> has_flag fl msgEOR)" by blast
  define m1 where "m1 = afterPiece maxn p (has_flag fl msgEOR) (readMsgGrow maxn m)"
  have fr: "msg_frame m m1" unfolding m1_def by (rule afterPiece_frame)
  show ?case
  proof (cases "qs = []")
    case True
    then have eor: "has_flag fl msgEOR" using Cons.prems(1) by (simp add: q is_message_Cons)
    have w: "within (maxn - length seen) [(p, fl, ctl)]" using Cons.prems(3) True by (simp add: q)
    from afterPiece_last [OF Cons.prems(2) w pf(1)] eor True fr r show ?thesis
      by (simp add: q m1_def readMsgCallback.simps)
  next
    case False
    then have eor: "\<not> has_flag fl msgEOR" and mq: "is_message qs" using Cons.prems(1) by (simp_all add: q is_message_Cons)
    have more: "has_seen maxn (seen @ p) m1" "m_resultErr m1 = m_resultErr m" "within (maxn - length (seen @ p)) qs"
      using afterPiece_more [OF Cons.prems(2) Cons.prems(3) [unfolded q]] eor by (simp_all add: m1_def)
    have "\<not> r_noting (c_recv c1)" "m_haveFirst m1"
      using after_dataD(5) [OF r(2)] Cons.prems(4,5) fr by (simp_all add: msg_frame_def)
    from Cons.IH [OF mq more(1,3) this(2,1)] r eor more(2) fr m1_def show ?thesis
      by (auto simp: q readMsgCallback.simps [of T ifx maxn "RMsg p fl ctl # answers qs @ rest"]
          intro: after_data_trans msg_frame_trans)
  qed
qed

text \<open>The first piece also brings the message's metadata.\<close>

definition begun :: "MsgInfo \<Rightarrow> readMsgState \<Rightarrow> readMsgState" where
  "begun mi m = m\<lparr>m_haveFirst := True, m_first := mi_Rcv mi\<rparr>"

lemma readMsgRound_first:
  assumes "\<not> r_noting (c_recv c)" "p \<noteq> []" "\<not> has_flag fl msgNotification" "\<not> has_flag fl msgCtrunc"
    and "\<not> m_haveFirst m" "\<not> m_tooLong m" "\<not> m_queueFull m" "parseRecvCmsgs T ctl fl = Some (None, mi)"
  shows "readMsgRound T ifx maxn (RMsg p fl ctl # rest) c m = readMsgRound T ifx maxn (RMsg p fl ctl # rest) c (begun mi m)"
proof -
  have g: "readMsgGrow maxn (begun mi m) = begun mi (readMsgGrow maxn m)"
    by (simp add: readMsgGrow_def begun_def Let_def)
  show ?thesis
    using assms unfolding readMsgRound_def Let_def g
    by (simp add: attempt_data readMsgData_def begun_def addError_def [of None] Let_def del: attempt.simps)
qed

lemma readMsgLoop_message:
  assumes msg: "is_message ((p, fl, ctl) # qs)" and parse: "parseRecvCmsgs T ctl fl = Some (None, mi)"
    and fit: "0 < maxn" "within maxn ((p, fl, ctl) # qs)"
    and ready: "\<not> r_noting (c_recv c)" "\<not> r_serving (c_recv c)" "termEnd (c_recv c) = None"
  shows "\<exists>c'. readMsg T ifx h maxn (answers ((p, fl, ctl) # qs) @ rest) c =
      Some (Some (take maxn (payload ((p, fl, ctl) # qs)), mi_Rcv mi,
        if length (payload ((p, fl, ctl) # qs)) > maxn then Some ErrMessageTooLong else None), rest, c') \<and>
    after_data c c' \<and> \<not> r_partial (c_recv c')"
proof -
  let ?z = "readMsgState_zero maxn" and ?as = "answers ((p, fl, ctl) # qs) @ rest"
  have pf: "p \<noteq> []" "\<not> has_flag fl msgNotification" "\<not> has_flag fl msgCtrunc"
    using msg by (simp_all add: is_message_Cons)
  have z: "readMsgReset ?z = ?z" by (simp add: readMsgReset_def readMsgState_zero_def)
  have "has_seen maxn [] (begun mi ?z)" "m_haveFirst (begun mi ?z)"
    using fit(1) by (simp_all add: has_seen_def begun_def readMsgState_zero_def)
  from readMsgCallback_message [OF msg this(1) _ this(2) ready(1), of T ifx rest] fit(2) obtain c' m' where
    cb: "readMsgCallback T ifx maxn ?as c (begun mi ?z) = Some (True, rest, c', m')" "after_data c c'"
      "\<not> r_partial (c_recv c')" "msg_frame (begun mi ?z) m'" "m_complete m'" "m_data m' = take maxn (payload ((p, fl, ctl) # qs))"
      "m_resultErr m' = (if length (payload ((p, fl, ctl) # qs)) > maxn then Some ErrMessageTooLong else None)"
    by (auto simp: begun_def readMsgState_zero_def)
  have "readMsgRound T ifx maxn ?as c ?z = readMsgRound T ifx maxn ?as c (begun mi ?z)"
    using readMsgRound_first [OF ready(1) pf _ _ _ parse] by (simp add: readMsgState_zero_def)
  then have "readMsgCallback T ifx maxn ?as c ?z = readMsgCallback T ifx maxn ?as c (begun mi ?z)"
    by (subst (1 2) readMsgCallback.simps) (simp only:)
  then have "readMsgCallback T ifx maxn ?as c ?z = Some (True, rest, c', m')" using cb(1) by simp
  then have "readMsgRaw T ifx maxn ?as c ?z = Some (Polled (), rest, c', m')"
    by (simp add: readMsgRaw_def readMsgPoll.simps)
  moreover have "readMsgEnd None c' m' = (c', m')" "m_immediate m' = None" "m_queued m' = []" "m_first m' = mi_Rcv mi"
    using cb(4,5) by (simp_all add: readMsgEnd_def msg_frame_def begun_def readMsgState_zero_def)
  ultimately have "readMsgLoop T ifx h maxn ?as c ?z = Some (Some (readMsgResult m'), rest, c')"
    using ready by (subst readMsgLoop.simps) (simp add: z unserved_def pollError_def)
  with cb \<open>m_first m' = mi_Rcv mi\<close> show ?thesis by (simp add: readMsg_def readMsgResult_def)
qed


lemma parseRecvCmsgs_empty:
  "parseRecvCmsgs T [] fl = Some (if has_flag fl msgCtrunc then Some ErrControlTruncated else None,
     MsgInfo_zero\<lparr>mi_EOR := has_flag fl msgEOR, mi_Notification := has_flag fl msgNotification\<rparr>)"
  by (simp add: parseRecvCmsgs_def parseRecvCmsgs_loop.simps)

lemma fresh_conn_ready [simp]:
  "\<not> r_serving (c_recv (fresh_conn b))" "\<not> r_interleaved (c_recv (fresh_conn b))"
  "termEnd (c_recv (fresh_conn b)) = None" "opened (fresh_conn b)" "c_handler (fresh_conn b) = b"
  "c_handled (fresh_conn b) = []"
  by (simp_all add: fresh_conn_def recvState_zero_def termEnd_def readEnd_def term_zero_def opened_def)


section \<open>Notifications between messages\<close>

text \<open>A record of an event the package passes on whatever the subscriptions say.\<close>

definition plain_note :: "target \<Rightarrow> Notification \<Rightarrow> bool" where
  "plain_note T n \<longleftrightarrow> has_record n \<and> length (record_of T n) \<le> NotificationReassemblyLimit \<and>
     notificationType T n \<noteq> Some EventAssocChange \<and> notificationType T n \<noteq> Some EventPartialDelivery"

definition carries :: "target \<Rightarrow> piece list \<Rightarrow> Notification \<Rightarrow> bool" where
  "carries T qs n \<longleftrightarrow> is_record qs \<and> payload qs = record_of T n"

lemma is_record_answers: "is_record qs \<Longrightarrow> \<exists>p fl ctl q. answers qs @ rest = RMsg p fl ctl # q"
  by (cases qs) (auto simp: is_record_def ends_once_def)

lemma rawRead_record:
  assumes "is_record qs" "recv_ok T s"
  shows "\<exists>s'. rawRead T (answers qs @ rest) s = Some (Polled \<lparr>o_data = [], o_flags = fst (snd (last qs)),
      o_record = True, o_cut = False, o_err = None\<rparr>, rest, s') \<and>
    in_record T s' (payload qs) \<and> \<not> r_noting s' \<and> record_frame s s' \<and>
    (na_err (r_notes s') = None \<longrightarrow> r_term s' = map_option (recordLatch T (payload qs)) (r_term s))"
proof -
  obtain p fl ctl q where e: "answers qs @ rest = RMsg p fl ctl # q" using is_record_answers [OF assms(1)] by blast
  have "\<not> r_noting s" using assms(2) by (simp add: recv_ok_def)
  with attempt_record [OF assms(1), of s T "[]" rest] show ?thesis
    unfolding rawRead_def e by (auto simp: rawLoop.simps [of T "RMsg p fl ctl # q" s] simp del: attempt.simps)
qed

lemma kept_note:
  assumes "in_record T s (record_of T n)" "length (record_of T n) \<le> NotificationReassemblyLimit"
  shows "na_err (r_notes s) = None \<and> (r_kept s \<longrightarrow> acc_finish (r_notes s) = Inr (record_of T n)) \<and>
    r_typed s \<and> r_typ s = the (notificationType T n)"
proof -
  have v: "valid_record T (record_of T n)" by (rule record_of_valid [OF assms(2)])
  have "acc_inv T (r_notes s) (record_of T n)" using assms(1) by (simp add: in_record_def)
  then have "na_err (r_notes s) = None" using v by (auto simp: acc_inv_def split: option.splits) (metis append_Nil2)+
  moreover have "r_kept s \<longrightarrow> acc_finish (r_notes s) = Inr (record_of T n)"
    using acc_finish_valid [of T "r_notes s" "record_of T n" "record_of T n"] assms(1) v
    by (auto simp: in_record_def acc_retaining_def)
  ultimately show ?thesis using assms(1) record_of_type [of T n] by (simp add: in_record_def)
qed

lemma recvRound_note:
  assumes "carries T qs n" "plain_note T n" "quiet T c" "termEnd (c_recv c) = None" "c_handler c"
  shows "\<exists>s'. recvRound T ifx blen raw (answers qs @ rest) c = Some (Some (Note n None), rest, c\<lparr>c_recv := s'\<rparr>) \<and>
    quiet T (c\<lparr>c_recv := s'\<rparr>) \<and> r_term s' = r_term (c_recv c)"
proof -
  let ?s0 = "(c_recv c)\<lparr>r_keepNotes := True\<rparr>"
  have q: "is_record qs" "payload qs = record_of T n" using assms(1) by (simp_all add: carries_def)
  have ok: "recv_ok T ?s0" "\<not> r_serving (c_recv c)" using assms(3) by (simp_all add: quiet_def)
  obtain s1 where
    r: "rawRead T (answers qs @ rest) ?s0 = Some (Polled \<lparr>o_data = [], o_flags = fst (snd (last qs)),
        o_record = True, o_cut = False, o_err = None\<rparr>, rest, s1)"
      "in_record T s1 (record_of T n)" "\<not> r_noting s1" "record_frame ?s0 s1"
      "na_err (r_notes s1) = None \<longrightarrow> r_term s1 = map_option (recordLatch T (record_of T n)) (r_term ?s0)"
    using rawRead_record [OF q(1) ok(1), of rest, unfolded q(2)] by (elim exE conjE)
  have pn: "has_record n" "length (record_of T n) \<le> NotificationReassemblyLimit"
    using assms(2) by (simp_all add: plain_note_def)
  note k = kept_note [OF r(2) pn(2)]
  have ty: "the (notificationType T n) \<noteq> EventAssocChange" "the (notificationType T n) \<noteq> EventPartialDelivery"
    using assms(2) by (cases n; simp add: plain_note_def)+
  have "wanted s1 (r_typ s1)" using r(4) k ty by (simp add: wanted_def record_frame_def)
  then have "r_kept s1" using r(2) k unfolding in_record_def by blast
  moreover have "r_term s1 = r_term (c_recv c)"
    using r(5) k ty record_of_type [of T n] by (simp add: recordLatch_def [abs_def] option.map_ident)
  moreover have "\<not> r_serving s1" using r(4) ok(2) by (simp add: record_frame_def)
  ultimately show ?thesis
    using assms(4,5) ok(2) r(1,3) k ty parse_whole_record [OF pn, of ifx] recv_ok_reset [of s1 T "r_notes s1"]
    by (intro exI [of _ "s1\<lparr>r_notes := acc_reset (r_notes s1)\<rparr>"])
      (simp add: recvRound_def unserved_def recvSwitch_def recvRecord_def Let_def quiet_def)
qed

lemma recvRound_data:
  assumes "p \<noteq> []" "\<not> has_flag fl msgNotification" "quiet T c" "termEnd (c_recv c) = None"
  shows "\<exists>c'. recvRound T ifx blen False (RMsg p fl ctl # rest) c = Some (Some (Data p MsgInfo_zero None), rest, c') \<and>
    after_data c c' \<and> r_partial (c_recv c') = (\<not> has_flag fl msgEOR)"
proof -
  have "\<not> r_noting (c_recv c)" "\<not> r_serving (c_recv c)" using assms(3) by (simp_all add: quiet_def recv_ok_def)
  with assms show ?thesis
    by (simp add: recvRound_def unserved_def rawRead_def rawLoop.simps attempt_data recvSwitch_def recvData_def
        Let_def after_data_def del: attempt.simps)
qed

text \<open>Records one after the other.\<close>

fun records :: "target \<Rightarrow> piece list list \<Rightarrow> Notification list \<Rightarrow> bool" where
  "records T [] [] = True"
| "records T (qs # qss) (n # ns) = (carries T qs n \<and> plain_note T n \<and> records T qss ns)"
| "records T _ _ = False"

lemma Read_loop_delivers:
  assumes "records T qss ns" "list_all (\<lambda>n. h n = None) ns"
    and "p \<noteq> []" "\<not> has_flag fl msgNotification" "quiet T c" "termEnd (c_recv c) = None" "c_handler c"
  shows "\<exists>c'. Read_loop T ifx h blen (concat (List.map answers qss) @ RMsg p fl ctl # rest) c =
      Some (Some (p, None), rest, c') \<and> c_handled c' = c_handled c @ ns \<and> c_life c' = c_life c \<and>
      c_aborts c' = c_aborts c \<and> r_term (c_recv c') = r_term (c_recv c) \<and> quiet T c'"
  using assms
proof (induction T qss ns arbitrary: c rule: records.induct)
  case (1 T)
  from recvRound_data [OF "1.prems"(3,4,5,6), of ifx blen ctl rest] obtain c' where
    r: "recvRound T ifx blen False (RMsg p fl ctl # rest) c = Some (Some (Data p MsgInfo_zero None), rest, c')" "after_data c c'"
    by blast
  moreover have "quiet T c'" using "1.prems"(5) after_dataD [OF r(2)] by (simp add: quiet_def recv_ok_def)
  ultimately show ?case
    using after_dataD [OF r(2)] by (simp add: Read_loop.simps recvNext.simps)
next
  case (2 T qs qss n ns)
  let ?rest = "concat (List.map answers qss) @ RMsg p fl ctl # rest"
  have "carries T qs n" "plain_note T n" using "2.prems"(1) by simp_all
  from recvRound_note [OF this "2.prems"(5,6,7), of ifx blen False ?rest] obtain s' where
    r: "recvRound T ifx blen False (answers qs @ ?rest) c = Some (Some (Note n None), ?rest, c\<lparr>c_recv := s'\<rparr>)"
      "quiet T (c\<lparr>c_recv := s'\<rparr>)" "r_term s' = r_term (c_recv c)" by blast
  let ?c1 = "c\<lparr>c_recv := s', c_handled := c_handled c @ [n]\<rparr>"
  have "termEnd (c_recv ?c1) = None" "quiet T ?c1" "c_handler ?c1"
    using "2.prems"(6,7) r(2,3) by (simp_all add: termEnd_def quiet_def)
  with "2.IH" [of ?c1] "2.prems" obtain c' where
    c': "Read_loop T ifx h blen ?rest ?c1 = Some (Some (p, None), rest, c')" "c_handled c' = c_handled ?c1 @ ns"
      "c_life c' = c_life ?c1" "c_aborts c' = c_aborts ?c1" "r_term (c_recv c') = r_term (c_recv ?c1)" "quiet T c'"
    by auto
  have "Read_loop T ifx h blen (answers qs @ ?rest) c = Read_loop T ifx h blen ?rest ?c1"
    using r(1) "2.prems"(2) by (subst Read_loop.simps) (simp add: recvNext.simps deliver_def)
  with c' r(3) show ?case by simp
qed simp_all



end
