(* ===== verification/Cuts.thy ===== *)
theory Cuts
  imports Delivery
begin

text \<open>
  The ends of reading: notification records that are cut short, and reads after the
  association's end has been seen.
\<close>

section \<open>A record that is cut short\<close>

text \<open>The pieces of a record that has not ended, and an answer that is not its next piece.\<close>

definition is_head :: "piece list \<Rightarrow> bool" where
  "is_head qs \<longleftrightarrow> qs \<noteq> [] \<and> list_all (\<lambda>(p, fl, ctl). has_flag fl msgNotification \<and> \<not> has_flag fl msgEOR) qs"

fun not_piece :: "answer list \<Rightarrow> bool" where
  "not_piece [] = True"
| "not_piece (PollErr e # as) = True"
| "not_piece (RErr e # as) = (e \<noteq> EINTR)"
| "not_piece (RMsg p fl ctl # as) = (\<not> has_flag fl msgNotification)"

lemma is_head_Cons:
  "is_head ((p, fl, ctl) # qs) \<longleftrightarrow> has_flag fl msgNotification \<and> \<not> has_flag fl msgEOR \<and> (qs = [] \<or> is_head qs)"
  by (auto simp: is_head_def)

lemma attemptEnds_cut:
  "r_noting s \<Longrightarrow> \<exists>e s'. attemptEnds err fl p s =
     (Some \<lparr>o_data = [], o_flags = fl, o_record = False, o_cut = True, o_err = Some e\<rparr>, s') \<and>
     \<not> r_noting s' \<and> r_notes s' = r_notes s \<and> record_frame s s'"
  by (auto simp: attemptEnds_def Let_def record_frame_def split: option.split)

lemma attempt_not_piece_eq:
  "not_piece as \<Longrightarrow> \<exists>err fl p ctl as'. attempt T as s =
     Some (fst (attemptEnds err fl p (s\<lparr>r_control := ctl\<rparr>)), as', snd (attemptEnds err fl p (s\<lparr>r_control := ctl\<rparr>)))"
proof (cases as rule: not_piece.cases)
  case 1
  then show ?thesis
    by (intro exI [of _ "Some (Errno EAGAIN)"] exI [of _ 0] exI [of _ "[] :: bytes"] exI [of _ "r_control s"]) (simp add: split_def Let_def)
next
  case (2 e q)
  then show ?thesis
    by (intro exI [of _ "Some (Errno EAGAIN)"] exI [of _ 0] exI [of _ "[] :: bytes"] exI [of _ "r_control s"]) (simp add: split_def Let_def)
next
  case (3 e q)
  moreover assume "not_piece as"
  ultimately show ?thesis
    by (intro exI [of _ "Some (Errno e)"] exI [of _ 0] exI [of _ "[] :: bytes"] exI [of _ "r_control s"]) (simp add: split_def Let_def)
next
  case (4 p fl ctl q)
  moreover assume "not_piece as"
  ultimately show ?thesis
    by (intro exI [of _ None] exI [of _ fl] exI [of _ p] exI [of _ ctl]) (simp add: split_def Let_def)
qed

definition is_cut :: "target \<Rightarrow> answer list \<Rightarrow> recvState \<Rightarrow> recvState \<Rightarrow> outcome \<Rightarrow> bool" where
  "is_cut T as s s' x \<longleftrightarrow> (\<exists>as'. attempt T as s = Some (Some x, as', s')) \<and> o_cut x \<and> o_err x \<noteq> None \<and>
     \<not> r_noting s' \<and> record_frame s s'"

lemma attempt_not_piece:
  assumes "not_piece as" "r_noting s"
  shows "\<exists>x s'. is_cut T as s s' x"
proof -
  obtain err fl p ctl as' where a: "attempt T as s =
      Some (fst (attemptEnds err fl p (s\<lparr>r_control := ctl\<rparr>)), as', snd (attemptEnds err fl p (s\<lparr>r_control := ctl\<rparr>)))"
    using attempt_not_piece_eq [OF assms(1)] by blast
  have "r_noting (s\<lparr>r_control := ctl\<rparr>)" using assms(2) by simp
  from attemptEnds_cut [OF this, of err fl p] obtain e s' where
    "attemptEnds err fl p (s\<lparr>r_control := ctl\<rparr>) =
       (Some \<lparr>o_data = [], o_flags = fl, o_record = False, o_cut = True, o_err = Some e\<rparr>, s')"
    "\<not> r_noting s'" "record_frame (s\<lparr>r_control := ctl\<rparr>) s'" by blast
  with a show ?thesis by (auto simp: is_cut_def record_frame_def)
qed

lemma attempt_cut:
  assumes "is_head qs" "not_piece as" "r_noting s \<Longrightarrow> in_record T s seen" "\<not> r_noting s \<Longrightarrow> seen = []"
  shows "\<exists>x s'. is_cut T (answers qs @ as) s s' x"
  using assms
proof (induction qs arbitrary: s seen)
  case (Cons q qs)
  obtain p fl ctl where q: "q = (p, fl, ctl)" by (cases q)
  let ?s0 = "s\<lparr>r_control := ctl\<rparr>"
  have "r_noting ?s0 \<Longrightarrow> in_record T ?s0 seen" using Cons.prems(3) by simp
  then obtain s1 where s1: "addPiece T p ?s0 = Some s1" "in_record T s1 (seen @ p)" "r_noting s1" "notes_only ?s0 s1"
    using addPiece_ok [of ?s0 T seen p] Cons.prems(4) by auto
  have f: "has_flag fl msgNotification" "\<not> has_flag fl msgEOR" "qs = [] \<or> is_head qs"
    using Cons.prems(1) by (simp_all add: q is_head_Cons)
  have "\<exists>x s'. is_cut T (answers qs @ as) s1 s' x"
  proof (cases "qs = []")
    case True
    with attempt_not_piece [OF Cons.prems(2) s1(3)] show ?thesis by simp
  next
    case False
    with f(3) s1 Cons.prems(2) show ?thesis by (intro Cons.IH [of s1 "seen @ p"]) auto
  qed
  then obtain x s' where "is_cut T (answers qs @ as) s1 s' x" by blast
  moreover have "record_frame s s1" using s1(4) by (simp add: notes_only_def record_frame_def)
  ultimately have "is_cut T (answers (q # qs) @ as) s s' x"
    using f s1 by (auto simp: q is_cut_def record_frame_def)
  then show ?case by blast
qed (simp add: is_head_def)

section \<open>The abort\<close>

lemma acc_interrupted_short: "errIs (acc_interrupted a) ErrShortNotification"
  by (simp add: acc_interrupted_def split: sum.split)

lemma abortInterrupted_Join:
  "\<exists>fs. fst (abortInterrupted (Some (Join es)) c) = Some (Join fs) \<and> (\<forall>t. errIs (Join es) t \<and> t \<noteq> Join es \<longrightarrow> errIs (Join fs) t)"
  by (auto simp: abortInterrupted_def joinAbortCause_def split: option.split goerr.split)

lemma abort_notification:
  "\<exists>fs. fst (abortInterruptedNotification cause c) = Some (Join fs) \<and> errIs (Join fs) ErrShortNotification \<and>
     c_life (snd (abortInterruptedNotification cause c)) = lifeClosed \<and>
     c_aborts (snd (abortInterruptedNotification cause c)) = c_aborts c + 1"
proof -
  define es where "es = acc_interrupted (r_notes (c_recv c)) # (case readEnded cause c of None \<Rightarrow> [] | Some e \<Rightarrow> [e])"
  have j: "errorsJoin [Some (acc_interrupted (r_notes (c_recv c))), readEnded cause c] = Some (Join es)"
    by (simp add: es_def split: option.split)
  have "errIs (Join es) ErrShortNotification" using acc_interrupted_short by (simp add: es_def)
  then show ?thesis
    using abortInterrupted_Join [of es "set_notes (acc_reset (r_notes (c_recv c))) c"] j
    by (auto simp: abortInterruptedNotification_def Let_def abortInterrupted_def set_notes_def)
qed

lemma readError_Join: "readError (Some (Join fs)) c = Some (OpError ''read'' (c_network c) (c_laddr c) (c_raddr c) (Join fs))"
  by (simp add: readError_def ioOpError_joined)

lemma is_head_answers: "is_head qs \<Longrightarrow> \<exists>p fl ctl q. answers qs @ rest = RMsg p fl ctl # q"
  by (cases qs) (auto simp: is_head_def)

text \<open>What a read of a record cut short reports and leaves.\<close>

definition aborted_short :: "goerr option \<Rightarrow> conn \<Rightarrow> conn \<Rightarrow> bool" where
  "aborted_short e c c' \<longleftrightarrow> isAn e ErrShortNotification \<and> \<not> opened c' \<and> c_aborts c' = c_aborts c + 1"

lemma recvNext_cut:
  assumes "is_head qs" "not_piece as" "quiet T c" "termEnd (c_recv c) = None"
  shows "\<exists>fs as' c'. recvNext T ifx blen raw (answers qs @ as) c = Some (Fails (Join fs), as', c') \<and>
    aborted_short (Some (Join fs)) c c'"
proof -
  let ?s0 = "(c_recv c)\<lparr>r_keepNotes := raw \<or> c_handler c\<rparr>"
  have nn: "\<not> r_noting ?s0" "\<not> r_serving (c_recv c)" using assms(3) by (simp_all add: quiet_def recv_ok_def)
  then obtain x s' as' where x: "attempt T (answers qs @ as) ?s0 = Some (Some x, as', s')" "o_cut x"
    using attempt_cut [OF assms(1,2), of ?s0 T "[]"] by (auto simp: is_cut_def)
  have rr: "rawRead T (answers qs @ as) ?s0 = Some (Polled x, as', s')"
    using is_head_answers [OF assms(1), of as] x(1)
    by (auto simp: rawRead_def rawLoop.simps simp del: attempt.simps)
  from abort_notification [of "o_err x" "c\<lparr>c_recv := s'\<rparr>"] obtain fs where
    "fst (abortInterruptedNotification (o_err x) (c\<lparr>c_recv := s'\<rparr>)) = Some (Join fs)" "errIs (Join fs) ErrShortNotification"
    "c_life (snd (abortInterruptedNotification (o_err x) (c\<lparr>c_recv := s'\<rparr>))) = lifeClosed"
    "c_aborts (snd (abortInterruptedNotification (o_err x) (c\<lparr>c_recv := s'\<rparr>))) = c_aborts c + 1" by auto
  with rr nn(2) assms(4) x(2) show ?thesis
    by (simp add: recvNext.simps recvRound_def unserved_def recvSwitch_def split_def Let_def aborted_short_def opened_def isAn_def)
qed

lemma readMsg_cut:
  assumes "is_head qs" "not_piece as" "quiet T c" "termEnd (c_recv c) = None"
  shows "\<exists>info fs as' c'. readMsg T ifx h maxn (answers qs @ as) c = Some (Some ([], info, Some (Join fs)), as', c') \<and>
    aborted_short (Some (Join fs)) c c'"
proof -
  let ?z = "readMsgState_zero maxn" and ?g = "readMsgGrow maxn (readMsgState_zero maxn)"
  let ?s0 = "(c_recv c)\<lparr>r_keepNotes := c_handler c\<rparr>"
  have nn: "\<not> r_noting ?s0" "\<not> r_serving (c_recv c)" using assms(3) by (simp_all add: quiet_def recv_ok_def)
  then obtain x s' as' e where x: "attempt T (answers qs @ as) ?s0 = Some (Some x, as', s')" "o_cut x" "o_err x = Some e"
    using attempt_cut [OF assms(1,2), of ?s0 T "[]"] by (auto simp: is_cut_def)
  define c1 where "c1 = c\<lparr>c_recv := s'\<rparr>"
  have z: "readMsgReset ?z = ?z" by (simp add: readMsgReset_def readMsgState_zero_def)
  have zf: "\<not> m_haveFirst ?z" "m_resultErr ?z = None" "m_data ?z = []" "m_immediate ?z = None" "m_queued ?z = []"
    by (simp_all add: readMsgState_zero_def)
  have cb: "readMsgCallback T ifx maxn (answers qs @ as) c ?z = Some (True, as', c1, ?g\<lparr>m_cutNotification := Some e\<rparr>)"
    using x zf(1) by (subst readMsgCallback.simps) (simp add: readMsgRound_def Let_def c1_def)
  then have rr: "readMsgRaw T ifx maxn (answers qs @ as) c ?z = Some (Polled (), as', c1, ?g\<lparr>m_cutNotification := Some e\<rparr>)"
    using is_head_answers [OF assms(1), of as] by (auto simp: readMsgRaw_def readMsgPoll.simps)
  from abort_notification [of "Some e" c1] obtain fs where
    f: "fst (abortInterruptedNotification (Some e) c1) = Some (Join fs)" "errIs (Join fs) ErrShortNotification"
    "c_life (snd (abortInterruptedNotification (Some e) c1)) = lifeClosed"
    "c_aborts (snd (abortInterruptedNotification (Some e) c1)) = c_aborts c + 1" by (auto simp: c1_def)
  have "readMsgEnd None c1 (?g\<lparr>m_cutNotification := Some e\<rparr>) = (snd (abortInterruptedNotification (Some e) c1),
      ?g\<lparr>m_cutNotification := Some e, m_resultErr := Some (Join fs)\<rparr>)"
    using f(1) zf by (simp add: readMsgEnd_def split_def Let_def addError_def)
  with rr nn(2) assms(4) zf have "readMsgLoop T ifx h maxn (answers qs @ as) c ?z =
      Some (Some ([], m_first ?z, Some (Join fs)), as', snd (abortInterruptedNotification (Some e) c1))"
    by (subst readMsgLoop.simps) (simp add: z unserved_def pollError_def readMsgResult_def)
  with f show ?thesis by (auto simp: readMsg_def aborted_short_def opened_def isAn_def)
qed



section \<open>After the end\<close>

text \<open>Once the association's end has been read, every read reports it and makes no system
  call: with the error drained, or the graceful end seen, the three reads return at once, with no
  bytes, the latched error wrapped (or a bare \<open>io.EOF\<close>) while the connection is open and
  \<open>net.ErrClosed\<close> while it is being closed, and consume none of the kernel's answers.\<close>

theorem ended_reads_make_no_call:
  assumes "termEnd (c_recv c) = Some end_err" "\<not> r_serving (c_recv c)" "opened c" "\<not> r_interleaved (c_recv c)"
    and "0 < blen" "0 < maxn"
  shows "Read T ifx h blen as c = Some (Some ([], readError (readEnded (Some end_err) c) c), as, c) \<and>
    RecvMsg T ifx h blen as c = Some (Some ([], MsgInfo_zero, readError (readEnded (Some end_err) c) c), as, c) \<and>
    ReadMsg T ifx h maxn as c = Some (Some ([], RcvInfo_zero, readError (readEnded (Some end_err) c) c), as, c) \<and>
    (c_life c = lifeOpen \<and> end_err = EOF \<longrightarrow> readError (readEnded (Some end_err) c) c = Some EOF) \<and>
    (c_life c \<noteq> lifeOpen \<longrightarrow> isAn (readError (readEnded (Some end_err) c) c) NetErrClosed)"
proof -
  have "readEnded (Some end_err) c \<noteq> None" by (simp add: readEnded_def closedCause_def)
  then obtain e where e: "readEnded (Some end_err) c = Some e" by blast
  have r: "recvNext T ifx blen raw as c = Some (Fails e, as, c)" for raw
    using assms(1,2) e by (simp add: recvNext.simps recvRound_def unserved_def)
  have "readMsg T ifx h (nat maxn) as c = Some (Some ([], RcvInfo_zero, Some e), as, c)"
    using assms(1,2) e unfolding readMsg_def
    by (subst readMsgLoop.simps) (simp add: readMsgReset_def unserved_def readMsgResult_def addError_def readMsgState_zero_def Let_def)
  then show ?thesis
    using r e assms(3-6)
    by (auto simp: Read_def RecvMsg_def ReadMsg_def Read_loop.simps RecvMsg_loop.simps readEnded_def closedCause_def
        readError_def ioOpError_plain opError_plain isClosedErr_def isFileClosingErr_def isAn_def split: if_splits)
qed

theorem ended_reads_make_no_call_witness:
  "let c = (fresh_conn True)\<lparr>c_recv := recvState_zero\<lparr>r_term := Some (term_zero\<lparr>t_ended := True\<rparr>)\<rparr>\<rparr> in
   ReadMsg amd64 (\<lambda>i. None) (\<lambda>n. None) 100 [RMsg [1] 0x80 []] c = Some (Some ([], RcvInfo_zero, Some EOF), [RMsg [1] 0x80 []], c)"
proof -
  define c where "c = (fresh_conn True)\<lparr>c_recv := recvState_zero\<lparr>r_term := Some (term_zero\<lparr>t_ended := True\<rparr>)\<rparr>\<rparr>"
  have "termEnd (c_recv c) = Some EOF" "\<not> r_serving (c_recv c)" "opened c" "\<not> r_interleaved (c_recv c)" "c_life c = lifeOpen"
    by (simp_all add: c_def termEnd_def readEnd_def term_zero_def recvState_zero_def fresh_conn_def opened_def)
  with ended_reads_make_no_call [of c EOF 1 100] show ?thesis unfolding c_def [symmetric] Let_def by simp
qed

end
