(* ===== verification/Config.thy ===== *)
theory Config
  imports MsgInfo Recv
begin

unbundle bit_operations_syntax

text \<open>
  \<open>config.go\<close>: \<open>Config\<close> and \<open>prepare\<close>, which validates one for a kind of socket and turns it
  into the ordered list of operations a constructor applies; and the duration conversions.

  A pointer field of \<open>Config\<close> is an option, and so is a slice, since a nil one differs from an
  empty one. \<open>Control\<close> and \<open>NotificationHandler\<close> are functions of the caller's, of which \<open>prepare\<close>
  only asks whether they are set. A \<open>configOp\<close>, in the code a kind and the payload fields the kind
  uses, is a constructor of its kind with those fields. \<open>prepare\<close> checks and appends field by
  field; each such block is a definition that returns the operations it appends, and \<open>collect\<close>
  runs them in the code's order up to the first refusal. A duration is its count of nanoseconds.
\<close>

section \<open>Duration conversions\<close>

definition Second :: int where
  "Second = 1000000000"

definition MaxUint32 :: int where
  "MaxUint32 = 4294967295"

definition durationToMillis :: "string \<Rightarrow> int \<Rightarrow> int \<Rightarrow> (goerr + u32) option" where
  "durationToMillis field d limit =
     (if limit > MaxUint32 then None
      else if d < 0 then Some (Inl (InvalidArg (field @ '' is negative'')))
      else if d mod Millisecond \<noteq> 0 then Some (Inl (InvalidArg (field @ '' is not a whole number of milliseconds'')))
      else let ms = d div Millisecond in
        if ms > limit then Some (Inl (InvalidArg (field @ '' exceeds the kernel field's maximum'')))
        else Some (Inr (of_int ms)))"

definition durationToSeconds :: "string \<Rightarrow> int \<Rightarrow> int \<Rightarrow> (goerr + u32) option" where
  "durationToSeconds field d limit =
     (if limit > MaxUint32 then None
      else if d < 0 then Some (Inl (InvalidArg (field @ '' is negative'')))
      else if d mod Second \<noteq> 0 then Some (Inl (InvalidArg (field @ '' is not a whole number of seconds'')))
      else let s = d div Second in
        if s > limit then Some (Inl (InvalidArg (field @ '' exceeds the kernel field's maximum'')))
        else Some (Inr (of_int s)))"

definition millisToDuration :: "u32 \<Rightarrow> int" where
  "millisToDuration ms = uint ms * Millisecond"

section \<open>Config\<close>

datatype socketStyle = styleDial | styleListen | styleListenEndpoint | styleOpenEndpoint | styleFile

definition isEndpoint :: "socketStyle \<Rightarrow> bool" where
  "isEndpoint s \<longleftrightarrow> s = styleListenEndpoint \<or> s = styleOpenEndpoint"

fun socketStyle_String :: "socketStyle \<Rightarrow> string" where
  "socketStyle_String styleDial = ''Dial''"
| "socketStyle_String styleListen = ''Listen''"
| "socketStyle_String styleListenEndpoint = ''ListenEndpoint''"
| "socketStyle_String styleOpenEndpoint = ''OpenEndpoint''"
| "socketStyle_String styleFile = ''FileConn or FileListener''"

record InitMsg =
  im_OutStreams :: u16
  im_MaxInStreams :: u16
  im_MaxAttempts :: u16
  im_MaxInitTimeout :: int

definition InitMsg_zero :: InitMsg where
  "InitMsg_zero = \<lparr>im_OutStreams = 0, im_MaxInStreams = 0, im_MaxAttempts = 0, im_MaxInitTimeout = 0\<rparr>"

record RTOInfo =
  rto_Initial :: int
  rto_Max :: int
  rto_Min :: int

record DelayedSACK =
  ds_Delay :: int
  ds_Frequency :: u32

record Config =
  cf_Control :: bool
  cf_NotificationHandler :: bool
  cf_CloseTimeout :: int
  cf_AbandonPolicy :: AbandonPolicy
  cf_SetupRTOInitial :: int
  cf_InitMsg :: InitMsg
  cf_AdaptationLayer :: "u32 option"
  cf_HMACIdentifiers :: "HMACID list option"
  cf_AuthChunks :: "byte list option"
  cf_PartialReliability :: "bool option"
  cf_StreamReconfiguration :: "bool option"
  cf_DynamicAddressReconfiguration :: "bool option"
  cf_Authentication :: "bool option"
  cf_ExperimentalECN :: "bool option"
  cf_MessageInterleaving :: bool
  cf_ReadBuffer :: "int option"
  cf_WriteBuffer :: "int option"
  cf_NoDelay :: "bool option"
  cf_DefaultSndInfo :: "SndInfo option"
  cf_DefaultPrInfo :: "PrInfo option"
  cf_ReusePort :: "bool option"
  cf_FragmentsDisabled :: "bool option"
  cf_FragmentInterleave :: "FragmentInterleave option"
  cf_ReceiveNxtInfo :: "bool option"
  cf_StreamResetMask :: "StreamResetMask option"
  cf_RTOInfo :: "RTOInfo option"
  cf_DelayedSACK :: "DelayedSACK option"
  cf_Notifications :: "EventType list option"

definition Config_zero :: Config where
  "Config_zero = \<lparr>cf_Control = False, cf_NotificationHandler = False, cf_CloseTimeout = 0, cf_AbandonPolicy = 0,
     cf_SetupRTOInitial = 0, cf_InitMsg = InitMsg_zero, cf_AdaptationLayer = None, cf_HMACIdentifiers = None,
     cf_AuthChunks = None, cf_PartialReliability = None, cf_StreamReconfiguration = None,
     cf_DynamicAddressReconfiguration = None, cf_Authentication = None, cf_ExperimentalECN = None,
     cf_MessageInterleaving = False, cf_ReadBuffer = None, cf_WriteBuffer = None, cf_NoDelay = None,
     cf_DefaultSndInfo = None, cf_DefaultPrInfo = None, cf_ReusePort = None, cf_FragmentsDisabled = None,
     cf_FragmentInterleave = None, cf_ReceiveNxtInfo = None, cf_StreamResetMask = None, cf_RTOInfo = None,
     cf_DelayedSACK = None, cf_Notifications = None\<rparr>"

datatype configOp =
    OpRecvRcvInfo
  | OpAssocChange
  | OpReadBuffer "32 word"
  | OpWriteBuffer "32 word"
  | OpInitMsg u16 u16 u16 u32   \<comment> \<open>streams out, streams in, attempts, timeout\<close>
  | OpFragmentInterleave FragmentInterleave
  | OpAuthentication bool
  | OpHMACIdentifiers "HMACID list"
  | OpAuthChunk byte
  | OpDynamicAddressReconfiguration bool
  | OpPartialReliability bool
  | OpStreamReconfiguration bool
  | OpStreamResetMask u32
  | OpMessageInterleaving bool
  | OpExperimentalECN bool
  | OpAdaptationLayer u32
  | OpRTOInfo u32 u32 u32       \<comment> \<open>initial, max, min\<close>
  | OpDelayedSACK u32 u32       \<comment> \<open>delay, frequency\<close>
  | OpFragmentsDisabled bool
  | OpReusePort bool
  | OpReceiveNxtInfo bool
  | OpNoDelay bool
  | OpDefaultSndInfo u16 u16 u32 u32   \<comment> \<open>stream, flags, PPID, context\<close>
  | OpDefaultPrInfo u16 u32
  | OpNotification EventType

text \<open>\<open>configOpKind\<close>, by its place in the enumeration.\<close>

fun opKind :: "configOp \<Rightarrow> nat" where
  "opKind OpRecvRcvInfo = 0"
| "opKind OpAssocChange = 1"
| "opKind (OpReadBuffer n) = 2"
| "opKind (OpWriteBuffer n) = 3"
| "opKind (OpInitMsg o1 i a t) = 4"
| "opKind (OpFragmentInterleave l) = 5"
| "opKind (OpAuthentication b) = 6"
| "opKind (OpHMACIdentifiers ids) = 7"
| "opKind (OpAuthChunk ct) = 8"
| "opKind (OpDynamicAddressReconfiguration b) = 9"
| "opKind (OpPartialReliability b) = 10"
| "opKind (OpStreamReconfiguration b) = 11"
| "opKind (OpStreamResetMask msk) = 12"
| "opKind (OpMessageInterleaving b) = 13"
| "opKind (OpExperimentalECN b) = 14"
| "opKind (OpAdaptationLayer v) = 15"
| "opKind (OpRTOInfo i mx mn) = 16"
| "opKind (OpDelayedSACK d f) = 17"
| "opKind (OpFragmentsDisabled b) = 18"
| "opKind (OpReusePort b) = 19"
| "opKind (OpReceiveNxtInfo b) = 20"
| "opKind (OpNoDelay b) = 21"
| "opKind (OpDefaultSndInfo s fl pp ctx) = 22"
| "opKind (OpDefaultPrInfo pol v) = 23"
| "opKind (OpNotification t) = 24"

definition networkOrderUint32 :: "target \<Rightarrow> u32 \<Rightarrow> u32" where
  "networkOrderUint32 T v = dec_int (native T) (enc_int BigEndian v)"

record prepared =
  p_ops :: "configOp list"
  p_handler :: bool
  p_closeTimeout :: int
  p_abandon :: AbandonPolicy
  p_setupRTOInitialMS :: u32
  p_subscribed :: eventSet
  p_fragLevel :: FragmentInterleave
  p_adopted :: bool

definition streamResetKnownBits :: StreamResetMask where
  "streamResetKnownBits = EnableResetStreamReq OR EnableResetAssocReq OR EnableChangeAssocReq"

definition authChunkForbiddenNames :: "(byte \<times> string) list" where
  "authChunkForbiddenNames = [(chunkTypeInit, ''INIT''), (chunkTypeInitAck, ''INIT-ACK''),
     (chunkTypeShutdownComplete, ''SHUTDOWN-COMPLETE''), (chunkTypeAuth, ''AUTH'')]"

section \<open>The blocks of prepare\<close>

text \<open>A block gives the operations it appends, an error, or, as \<open>None\<close>, a panic.\<close>

type_synonym block = "(goerr + configOp list) option"

definition andThen :: "(goerr + 'a) option \<Rightarrow> ('a \<Rightarrow> (goerr + 'b) option) \<Rightarrow> (goerr + 'b) option" where
  "andThen m f = (case m of None \<Rightarrow> None | Some (Inl e) \<Rightarrow> Some (Inl e) | Some (Inr x) \<Rightarrow> f x)"

fun collect :: "block list \<Rightarrow> block" where
  "collect [] = Some (Inr [])"
| "collect (b # bs) = andThen b (\<lambda>xs. andThen (collect bs) (\<lambda>ys. Some (Inr (xs @ ys))))"

definition emit :: "configOp list \<Rightarrow> block" where
  "emit xs = Some (Inr xs)"

definition refuse :: "string \<Rightarrow> block" where
  "refuse msg = Some (Inl (InvalidArg msg))"

definition boolOps :: "(bool \<Rightarrow> configOp) \<Rightarrow> bool option \<Rightarrow> block" where
  "boolOps mk v = emit (case v of None \<Rightarrow> [] | Some b \<Rightarrow> [mk b])"

definition bufferOps :: "string \<Rightarrow> (32 word \<Rightarrow> configOp) \<Rightarrow> int option \<Rightarrow> block" where
  "bufferOps field mk v =
     (case v of
        None \<Rightarrow> emit []
      | Some n \<Rightarrow> if n \<le> 0 then refuse (field @ '' must be positive'')
                  else if n > 2147483647 then refuse (field @ '' exceeds the int32 range'')
                  else emit [mk (of_int n)])"

definition initMsgOps :: "InitMsg \<Rightarrow> block" where
  "initMsgOps im =
     (if im = InitMsg_zero then emit []
      else andThen (durationToMillis ''Config.InitMsg.MaxInitTimeout'' (im_MaxInitTimeout im) 65535)
        (\<lambda>ms. emit [OpInitMsg (im_OutStreams im) (im_MaxInStreams im) (im_MaxAttempts im) ms]))"

definition resolveFragmentInterleave :: "Config \<Rightarrow> socketStyle \<Rightarrow> goerr + FragmentInterleave" where
  "resolveFragmentInterleave c style =
     (case cf_FragmentInterleave c of
        None \<Rightarrow> if isEndpoint style then Inr InterleaveAssocs else Inr InterleaveNone
      | Some level \<Rightarrow>
          if level = InterleaveNone \<or> level = InterleaveAssocs then Inr level
          else if level = InterleaveStreams
            then Inl (UnsupportedField ''Config.FragmentInterleave'' ''level 2 cannot be selected'')
          else Inl (InvalidArg ''Config.FragmentInterleave''))"

definition fragmentOps :: "Config \<Rightarrow> socketStyle \<Rightarrow> block" where
  "fragmentOps c style =
     (case resolveFragmentInterleave c style of
        Inl e \<Rightarrow> Some (Inl e)
      | Inr level \<Rightarrow>
          emit (if cf_FragmentInterleave c \<noteq> None \<or> isEndpoint style then [OpFragmentInterleave level] else []))"

definition authOn :: "Config \<Rightarrow> bool" where
  "authOn c \<longleftrightarrow> cf_Authentication c = Some True"

fun checkHMACs :: "HMACID list \<Rightarrow> HMACID list \<Rightarrow> goerr option" where
  "checkHMACs seen [] = None"
| "checkHMACs seen (i # ids) =
     (if i \<noteq> HMACSHA1 \<and> i \<noteq> HMACSHA256 then Some (InvalidArg ''Config.HMACIdentifiers is not HMACSHA1 or HMACSHA256'')
      else if i \<in> set seen then Some (InvalidArg ''Config.HMACIdentifiers duplicates identifier'')
      else checkHMACs (i # seen) ids)"

definition hmacOps :: "Config \<Rightarrow> block" where
  "hmacOps c =
     (case cf_HMACIdentifiers c of
        None \<Rightarrow> emit []
      | Some ids \<Rightarrow>
          if \<not> authOn c then refuse ''Config.HMACIdentifiers requires Config.Authentication=true''
          else (case checkHMACs [] ids of
                  Some e \<Rightarrow> Some (Inl e)
                | None \<Rightarrow>
                    if HMACSHA1 \<notin> set ids then refuse ''Config.HMACIdentifiers must include HMACSHA1''
                    else emit [OpHMACIdentifiers ids]))"

fun checkAuthChunks :: "byte list \<Rightarrow> byte list \<Rightarrow> goerr option" where
  "checkAuthChunks seen [] = None"
| "checkAuthChunks seen (ct # cts) =
     (if map_of authChunkForbiddenNames ct \<noteq> None then Some (InvalidArg ''Config.AuthChunks MUST NOT be listed'')
      else if ct \<in> set seen then Some (InvalidArg ''Config.AuthChunks duplicates chunk type'')
      else checkAuthChunks (ct # seen) cts)"

definition effectiveCount :: "byte list \<Rightarrow> nat" where
  "effectiveCount cts = length cts + (if chunkTypeASCONF \<in> set cts then 0 else 1) +
     (if chunkTypeASCONFAck \<in> set cts then 0 else 1)"

definition authChunkOps :: "Config \<Rightarrow> block" where
  "authChunkOps c =
     (case cf_AuthChunks c of
        None \<Rightarrow> emit []
      | Some cts \<Rightarrow>
          if \<not> authOn c then refuse ''Config.AuthChunks requires Config.Authentication=true''
          else (case checkAuthChunks [] cts of
                  Some e \<Rightarrow> Some (Inl e)
                | None \<Rightarrow>
                    if effectiveCount cts > sctpAuthMaxChunks then refuse ''Config.AuthChunks has too many entries''
                    else emit (List.map OpAuthChunk cts)))"

definition asconfOps :: "Config \<Rightarrow> block" where
  "asconfOps c =
     (if cf_DynamicAddressReconfiguration c = Some True \<and> \<not> authOn c
      then refuse ''Config.DynamicAddressReconfiguration=true requires Config.Authentication=true''
      else boolOps OpDynamicAddressReconfiguration (cf_DynamicAddressReconfiguration c))"

definition resetMaskOps :: "Config \<Rightarrow> block" where
  "resetMaskOps c =
     (case cf_StreamResetMask c of
        None \<Rightarrow> emit []
      | Some msk \<Rightarrow>
          if and_not msk streamResetKnownBits \<noteq> 0 then refuse ''Config.StreamResetMask has unknown bits''
          else if msk \<noteq> 0 \<and> cf_StreamReconfiguration c \<noteq> Some True
            then refuse ''Config.StreamResetMask is non-zero but Config.StreamReconfiguration is not true''
          else emit [OpStreamResetMask msk])"

definition interleavingOps :: "Config \<Rightarrow> FragmentInterleave \<Rightarrow> block" where
  "interleavingOps c level =
     (if cf_MessageInterleaving c then
        if sint level < sint InterleaveAssocs then refuse ''Config.MessageInterleaving=true requires InterleaveAssocs''
        else emit [OpMessageInterleaving True]
      else emit [])"

definition adaptationOps :: "Config \<Rightarrow> block" where
  "adaptationOps c = emit (case cf_AdaptationLayer c of None \<Rightarrow> [] | Some v \<Rightarrow> [OpAdaptationLayer v])"

definition rtoOps :: "Config \<Rightarrow> block" where
  "rtoOps c =
     (case cf_RTOInfo c of
        None \<Rightarrow> emit []
      | Some r \<Rightarrow>
          andThen (durationToMillis ''Config.RTOInfo.Initial'' (rto_Initial r) MaxUint32) (\<lambda>initialMS.
          andThen (durationToMillis ''Config.RTOInfo.Max'' (rto_Max r) MaxUint32) (\<lambda>maxMS.
          andThen (durationToMillis ''Config.RTOInfo.Min'' (rto_Min r) MaxUint32) (\<lambda>minMS.
            if rto_Min r \<noteq> 0 \<and> rto_Max r \<noteq> 0 \<and> minMS > maxMS
            then refuse ''Config.RTOInfo.Min exceeds Config.RTOInfo.Max''
            else emit [OpRTOInfo initialMS maxMS minMS]))))"

definition sackOps :: "Config \<Rightarrow> block" where
  "sackOps c =
     (case cf_DelayedSACK c of
        None \<Rightarrow> emit []
      | Some d \<Rightarrow>
          andThen (durationToMillis ''Config.DelayedSACK.Delay'' (ds_Delay d) MaxUint32) (\<lambda>delayMS.
            if delayMS > 500 then refuse ''Config.DelayedSACK.Delay exceeds 500 ms''
            else emit [OpDelayedSACK delayMS (ds_Frequency d)]))"

definition reusePortOps :: "Config \<Rightarrow> socketStyle \<Rightarrow> block" where
  "reusePortOps c style =
     (if cf_ReusePort c \<noteq> None \<and> isEndpoint style then refuse ''Config.ReusePort applies only to one-to-one sockets''
      else boolOps OpReusePort (cf_ReusePort c))"

definition sndInfoOps :: "target \<Rightarrow> Config \<Rightarrow> block" where
  "sndInfoOps T c =
     (case cf_DefaultSndInfo c of
        None \<Rightarrow> emit []
      | Some i \<Rightarrow>
          (case validateDefaultSndInfo ''Config.DefaultSndInfo'' i of
             Some e \<Rightarrow> Some (Inl e)
           | None \<Rightarrow> emit [OpDefaultSndInfo (snd_Stream i) (snd_Flags i) (networkOrderUint32 T (snd_PPID i)) (snd_Context i)]))"

definition prInfoOps :: "Config \<Rightarrow> block" where
  "prInfoOps c =
     (case cf_DefaultPrInfo c of
        None \<Rightarrow> emit []
      | Some pr \<Rightarrow>
          (case validatePrInfo ''Config.DefaultPrInfo'' pr of
             Some e \<Rightarrow> Some (Inl e)
           | None \<Rightarrow> (let (policy, v) = resolvePrInfo pr in emit [OpDefaultPrInfo policy v])))"

fun buildSubscriptions :: "EventType list \<Rightarrow> eventSet \<Rightarrow> configOp list \<Rightarrow> goerr + eventSet \<times> configOp list" where
  "buildSubscriptions [] subscribed ops = Inr (subscribed, ops)"
| "buildSubscriptions (t # ts) subscribed ops =
     (if map_of eventTypeNames t = None then Inl (InvalidArg ''Config.Notifications'')
      else if eventSet_has subscribed t then buildSubscriptions ts subscribed ops
      else buildSubscriptions ts (subscribed OR eventBit t) (ops @ [OpNotification t]))"

section \<open>prepare\<close>

definition resolveCloseTimeout :: "int \<Rightarrow> goerr + int" where
  "resolveCloseTimeout d =
     (if d < 0 then Inl (InvalidArg ''Config.CloseTimeout is negative'') else if d = 0 then Inr (3 * Second) else Inr d)"

definition fileFields :: "Config \<Rightarrow> (string \<times> bool) list" where
  "fileFields c =
     [(''Control'', cf_Control c), (''AbandonPolicy'', cf_AbandonPolicy c \<noteq> AbandonAbort),
      (''SetupRTOInitial'', cf_SetupRTOInitial c \<noteq> 0), (''InitMsg'', cf_InitMsg c \<noteq> InitMsg_zero),
      (''AdaptationLayer'', cf_AdaptationLayer c \<noteq> None), (''HMACIdentifiers'', cf_HMACIdentifiers c \<noteq> None),
      (''AuthChunks'', cf_AuthChunks c \<noteq> None), (''PartialReliability'', cf_PartialReliability c \<noteq> None),
      (''StreamReconfiguration'', cf_StreamReconfiguration c \<noteq> None),
      (''DynamicAddressReconfiguration'', cf_DynamicAddressReconfiguration c \<noteq> None),
      (''Authentication'', cf_Authentication c \<noteq> None), (''ExperimentalECN'', cf_ExperimentalECN c \<noteq> None),
      (''MessageInterleaving'', cf_MessageInterleaving c), (''ReadBuffer'', cf_ReadBuffer c \<noteq> None),
      (''WriteBuffer'', cf_WriteBuffer c \<noteq> None), (''NoDelay'', cf_NoDelay c \<noteq> None),
      (''DefaultSndInfo'', cf_DefaultSndInfo c \<noteq> None), (''DefaultPrInfo'', cf_DefaultPrInfo c \<noteq> None),
      (''ReusePort'', cf_ReusePort c \<noteq> None), (''FragmentsDisabled'', cf_FragmentsDisabled c \<noteq> None),
      (''FragmentInterleave'', cf_FragmentInterleave c \<noteq> None), (''ReceiveNxtInfo'', cf_ReceiveNxtInfo c \<noteq> None),
      (''StreamResetMask'', cf_StreamResetMask c \<noteq> None), (''RTOInfo'', cf_RTOInfo c \<noteq> None),
      (''DelayedSACK'', cf_DelayedSACK c \<noteq> None), (''Notifications'', cf_Notifications c \<noteq> None)]"

definition prepareFileStyle :: "Config \<Rightarrow> int \<Rightarrow> goerr + prepared" where
  "prepareFileStyle c closeTimeout =
     (case List.find snd (fileFields c) of
        Some (name, _) \<Rightarrow> Inl (InvalidArg (''Config.'' @ name @ '' is set''))
      | None \<Rightarrow>
          Inr \<lparr>p_ops = [OpRecvRcvInfo, OpAssocChange], p_handler = cf_NotificationHandler c,
            p_closeTimeout = closeTimeout, p_abandon = AbandonAbort, p_setupRTOInitialMS = 0, p_subscribed = 0,
            p_fragLevel = InterleaveNone, p_adopted = True\<rparr>)"

text \<open>The blocks in order, \<open>level\<close> being the effective FragmentInterleave once it has been resolved.\<close>

definition blocks :: "target \<Rightarrow> Config \<Rightarrow> socketStyle \<Rightarrow> FragmentInterleave \<Rightarrow> block list" where
  "blocks T c style level =
     [emit [OpRecvRcvInfo, OpAssocChange],
      bufferOps ''Config.ReadBuffer'' OpReadBuffer (cf_ReadBuffer c),
      bufferOps ''Config.WriteBuffer'' OpWriteBuffer (cf_WriteBuffer c),
      initMsgOps (cf_InitMsg c),
      fragmentOps c style,
      boolOps OpAuthentication (cf_Authentication c),
      hmacOps c,
      authChunkOps c,
      asconfOps c,
      boolOps OpPartialReliability (cf_PartialReliability c),
      boolOps OpStreamReconfiguration (cf_StreamReconfiguration c),
      resetMaskOps c,
      interleavingOps c level,
      boolOps OpExperimentalECN (cf_ExperimentalECN c),
      adaptationOps c,
      rtoOps c,
      sackOps c,
      boolOps OpFragmentsDisabled (cf_FragmentsDisabled c),
      reusePortOps c style,
      boolOps OpReceiveNxtInfo (cf_ReceiveNxtInfo c),
      boolOps OpNoDelay (cf_NoDelay c),
      sndInfoOps T c,
      prInfoOps c]"

text \<open>What precedes the blocks: \<open>AbandonPolicy\<close> and \<open>SetupRTOInitial\<close>.\<close>

definition dialFields :: "Config \<Rightarrow> socketStyle \<Rightarrow> (goerr + u32) option" where
  "dialFields c style =
     (if cf_AbandonPolicy c \<noteq> AbandonAbort \<and> cf_AbandonPolicy c \<noteq> AbandonQuiet
      then Some (Inl (InvalidArg ''Config.AbandonPolicy is not AbandonAbort or AbandonQuiet''))
      else if cf_AbandonPolicy c \<noteq> AbandonAbort \<and> style \<noteq> styleDial
      then Some (Inl (InvalidArg ''Config.AbandonPolicy applies only to Dial''))
      else if cf_SetupRTOInitial c \<noteq> 0 \<and> style \<noteq> styleDial
      then Some (Inl (InvalidArg ''Config.SetupRTOInitial applies only to Dial''))
      else durationToMillis ''Config.SetupRTOInitial'' (cf_SetupRTOInitial c) MaxUint32)"

definition fragLevelOf :: "Config \<Rightarrow> socketStyle \<Rightarrow> FragmentInterleave" where
  "fragLevelOf c style = (case resolveFragmentInterleave c style of Inr level \<Rightarrow> level | Inl e \<Rightarrow> 0)"

definition config_of :: "Config option \<Rightarrow> Config" where
  "config_of co = (case co of None \<Rightarrow> Config_zero | Some c \<Rightarrow> c)"

definition prepare :: "target \<Rightarrow> Config option \<Rightarrow> socketStyle \<Rightarrow> (goerr + prepared) option" where
  "prepare T co style =
     (let c = config_of co in
      case resolveCloseTimeout (cf_CloseTimeout c) of
        Inl e \<Rightarrow> Some (Inl e)
      | Inr closeTimeout \<Rightarrow>
          if style = styleFile then Some (prepareFileStyle c closeTimeout)
          else
            andThen (dialFields c style) (\<lambda>setupMS.
            andThen (collect (blocks T c style (fragLevelOf c style))) (\<lambda>ops.
              case buildSubscriptions (case cf_Notifications c of None \<Rightarrow> [] | Some ts \<Rightarrow> ts) 0 ops of
                Inl e \<Rightarrow> Some (Inl e)
              | Inr (subscribed, ops') \<Rightarrow>
                  Some (Inr \<lparr>p_ops = ops', p_handler = cf_NotificationHandler c, p_closeTimeout = closeTimeout,
                    p_abandon = cf_AbandonPolicy c, p_setupRTOInitialMS = setupMS,
                    p_subscribed = (if isEndpoint style then subscribed OR eventBit EventAssocChange else subscribed),
                    p_fragLevel = fragLevelOf c style, p_adopted = False\<rparr>))))"

end
