(* ===== verification/ConfigProps.thy ===== *)
theory ConfigProps
  imports Config
begin

text \<open>
  What \<open>prepare\<close> guarantees of the configurations it accepts, and how it refuses the others.
\<close>

unbundle bit_operations_syntax

section \<open>Durations\<close>

lemma duration_div:
  fixes d u :: int
  assumes "0 < u" "limit \<le> MaxUint32"
  shows "(0 \<le> d \<and> d mod u = 0 \<and> d div u \<le> limit) \<longleftrightarrow> (\<exists>ms :: u32. d = uint ms * u \<and> uint ms \<le> limit)"
proof
  assume a: "0 \<le> d \<and> d mod u = 0 \<and> d div u \<le> limit"
  then have "uint (of_int (d div u) :: u32) = d div u"
    using assms by (simp add: uint_word_of_int MaxUint32_def pos_imp_zdiv_nonneg_iff)
  moreover have "d = d div u * u" using a by (metis add.right_neutral div_mult_mod_eq)
  ultimately show "\<exists>ms :: u32. d = uint ms * u \<and> uint ms \<le> limit" using a by metis
next
  assume "\<exists>ms :: u32. d = uint ms * u \<and> uint ms \<le> limit"
  then show "0 \<le> d \<and> d mod u = 0 \<and> d div u \<le> limit" using assms(1) by auto
qed

lemma of_int_div_uint: "0 < u \<Longrightarrow> (of_int (uint (ms :: u32) * u div u) :: u32) = ms"
  by simp

lemma durationToMillis_exact:
  "(durationToMillis f d limit = Some (Inr ms)) = (limit \<le> MaxUint32 \<and> d = millisToDuration ms \<and> uint ms \<le> limit)"
proof -
  have u: "(0::int) < Millisecond" by (simp add: Millisecond_def)
  then show ?thesis
    using duration_div [OF u, of limit d]
    by (auto simp: durationToMillis_def millisToDuration_def Let_def not_less mult_less_0_iff split: if_splits)
qed

lemma durationToSeconds_exact:
  "(durationToSeconds f d limit = Some (Inr s)) = (limit \<le> MaxUint32 \<and> d = uint s * Second \<and> uint s \<le> limit)"
proof -
  have u: "(0::int) < Second" by (simp add: Second_def)
  then show ?thesis
    using duration_div [OF u, of limit d]
    by (auto simp: durationToSeconds_def Let_def not_less mult_less_0_iff split: if_splits)
qed

text \<open>A duration reaches the kernel exactly or not at all: \<open>durationToMillis\<close> (and, in seconds,
  \<open>durationToSeconds\<close>) accepts precisely the durations that are some count of the unit within the
  field's limit and gives that count, so that \<open>millisToDuration\<close> gives the duration back;
  it refuses every other with \<open>EINVAL\<close>, and panics only for a limit wider than its result.\<close>

theorem duration_conversion_exact:
  "(durationToMillis f d limit = Some (Inr ms)) = (limit \<le> MaxUint32 \<and> d = millisToDuration ms \<and> uint ms \<le> limit) \<and>
   (durationToSeconds f d limit = Some (Inr ms)) = (limit \<le> MaxUint32 \<and> d = uint ms * Second \<and> uint ms \<le> limit) \<and>
   (case durationToMillis f d limit of None \<Rightarrow> limit > MaxUint32 | Some (Inl e) \<Rightarrow> errIs e (Errno EINVAL)
    | Some (Inr ms) \<Rightarrow> limit \<le> MaxUint32)"
proof -
  have "case durationToMillis f d limit of None \<Rightarrow> limit > MaxUint32 | Some (Inl e) \<Rightarrow> errIs e (Errno EINVAL)
    | Some (Inr ms) \<Rightarrow> limit \<le> MaxUint32"
    by (simp add: durationToMillis_def Let_def)
  then show ?thesis by (simp only: durationToMillis_exact durationToSeconds_exact simp_thms)
qed

section \<open>Order and refusals\<close>

definition good :: "(goerr \<Rightarrow> bool) \<Rightarrow> nat \<Rightarrow> nat \<Rightarrow> block \<Rightarrow> bool" where
  "good E lo hi b \<longleftrightarrow> (case b of None \<Rightarrow> False | Some (Inl e) \<Rightarrow> E e
     | Some (Inr xs) \<Rightarrow> sorted (List.map opKind xs) \<and> list_all (\<lambda>x. lo \<le> opKind x \<and> opKind x \<le> hi) xs)"

fun ranged :: "(goerr \<Rightarrow> bool) \<Rightarrow> nat \<Rightarrow> (nat \<times> block) list \<Rightarrow> nat \<Rightarrow> bool" where
  "ranged E lo [] hi = (lo \<le> Suc hi)"
| "ranged E lo ((k, b) # bs) hi = (lo \<le> k \<and> good E lo k b \<and> ranged E (Suc k) bs hi)"

lemma good_simps [simp]:
  "good E lo hi (Some (Inl e)) = E e" "good E lo hi (emit []) = True"
  "good E lo hi (emit [x]) = (lo \<le> opKind x \<and> opKind x \<le> hi)" "good E lo hi (refuse m) = E (InvalidArg m)"
  by (simp_all add: good_def emit_def refuse_def)

lemma good_andThen:
  "m \<noteq> None \<Longrightarrow> (\<And>e. m = Some (Inl e) \<Longrightarrow> E e) \<Longrightarrow> (\<And>x. m = Some (Inr x) \<Longrightarrow> good E lo hi (f x)) \<Longrightarrow> good E lo hi (andThen m f)"
  by (auto simp: andThen_def split: option.split sum.split)

lemma good_boolOps: "(\<And>b. lo \<le> opKind (mk b) \<and> opKind (mk b) \<le> hi) \<Longrightarrow> good E lo hi (boolOps mk v)"
  by (simp add: boolOps_def split: option.split)

lemma ranged_le: "ranged E lo bs hi \<Longrightarrow> lo \<le> Suc hi"
  by (induction E lo bs hi rule: ranged.induct) auto

lemma collect_good: "ranged E lo bs hi \<Longrightarrow> good E lo hi (collect (List.map snd bs))"
proof (induction E lo bs hi rule: ranged.induct)
  case (1 E lo hi)
  then show ?case by (simp add: good_def)
next
  case (2 E lo k b bs hi)
  let ?rest = "collect (List.map snd bs)"
  have k: "lo \<le> k" "good E lo k b" "good E (Suc k) hi ?rest" "k \<le> hi"
    using 2 ranged_le [of E "Suc k" bs hi] by auto
  then obtain r where r: "?rest = Some r" "b \<noteq> None" by (auto simp: good_def split: option.splits)
  have "list_all (\<lambda>x. lo \<le> opKind x \<and> opKind x \<le> hi) (xs @ ys)" "sorted (List.map opKind (xs @ ys))"
    if "b = Some (Inr xs)" "?rest = Some (Inr ys)" for xs ys
    using k that unfolding good_def
    by (auto simp: list_all_iff sorted_append, fastforce+)
  with k r show ?case
    by (auto simp: good_def andThen_def split: option.splits sum.splits)
qed

text \<open>Every refusal but the one of InterleaveStreams matches EINVAL.\<close>

definition refusal :: "Config \<Rightarrow> goerr \<Rightarrow> bool" where
  "refusal c e \<longleftrightarrow> errIs e (Errno EINVAL) \<or>
     errIs e ErrUnsupported \<and> cf_FragmentInterleave c = Some InterleaveStreams"

lemma refusal_InvalidArg [simp]: "refusal c (InvalidArg m)"
  by (simp add: refusal_def)

lemma durationToMillis_returns [simp]: "limit \<le> MaxUint32 \<Longrightarrow> \<exists>y. durationToMillis f d limit = Some y"
  by (auto simp: durationToMillis_def Let_def)

lemma durationToMillis_refusal:
  "durationToMillis f d limit = Some (Inl e) \<Longrightarrow> refusal c e"
  by (auto simp: durationToMillis_def Let_def split: if_splits)

lemma checkHMACs_refusal: "checkHMACs seen ids = Some e \<Longrightarrow> refusal c e"
  by (induction seen ids rule: checkHMACs.induct) (auto split: if_splits)

lemma checkAuthChunks_refusal: "checkAuthChunks seen cts = Some e \<Longrightarrow> refusal c e"
  by (induction seen cts rule: checkAuthChunks.induct) (auto split: if_splits)

lemma validate_refusal:
  "validateDefaultSndInfo f i = Some e \<Longrightarrow> refusal c e" "validatePrInfo f pr = Some e \<Longrightarrow> refusal c e"
  by (auto simp: validateDefaultSndInfo_def validatePrInfo_def split: if_splits)

lemma resolveFragmentInterleave_refusal: "resolveFragmentInterleave c style = Inl e \<Longrightarrow> refusal c e"
  by (auto simp: resolveFragmentInterleave_def refusal_def split: option.splits if_splits)

lemmas refusals = durationToMillis_refusal checkHMACs_refusal checkAuthChunks_refusal validate_refusal
  resolveFragmentInterleave_refusal

lemma MaxUint32_ge [simp]: "(65535::int) \<le> MaxUint32"
  by (simp add: MaxUint32_def)

lemma block_good:
  "good (refusal c) lo k (bufferOps f mk v)" if "\<And>n. lo \<le> opKind (mk n) \<and> opKind (mk n) \<le> k"
  using that by (simp add: bufferOps_def split: option.split)

lemma initMsgOps_good: "good (refusal c) 4 4 (initMsgOps im)"
  by (auto simp: initMsgOps_def intro!: good_andThen dest: refusals)

lemma fragmentOps_good: "good (refusal c) 5 5 (fragmentOps c style)"
  by (auto simp: fragmentOps_def split: sum.split dest: refusals)

lemma hmacOps_good: "good (refusal c) 7 7 (hmacOps c)"
  by (auto simp: hmacOps_def split: option.split dest: refusals)

lemma authChunkOps_good: "good (refusal c) 8 8 (authChunkOps c)"
proof -
  have "good (refusal c) 8 8 (emit (List.map OpAuthChunk cts))" for cts
    by (auto simp: good_def emit_def list_all_iff comp_def sorted_map)
  then show ?thesis by (auto simp: authChunkOps_def split: option.split dest: refusals)
qed

lemma asconfOps_good: "good (refusal c) 9 9 (asconfOps c)"
  by (simp add: asconfOps_def good_boolOps)

lemma resetMaskOps_good: "good (refusal c) 12 12 (resetMaskOps c)"
  by (simp add: resetMaskOps_def split: option.split)

lemma interleavingOps_good: "good (refusal c) 13 13 (interleavingOps c level)"
  by (simp add: interleavingOps_def)

lemma rtoOps_good: "good (refusal c) 16 16 (rtoOps c)"
  by (auto simp: rtoOps_def split: option.split intro!: good_andThen dest: refusals)

lemma sackOps_good: "good (refusal c) 17 17 (sackOps c)"
  by (auto simp: sackOps_def split: option.split intro!: good_andThen dest: refusals)

lemma reusePortOps_good: "good (refusal c) 19 19 (reusePortOps c style)"
  by (simp add: reusePortOps_def good_boolOps)

lemma sndInfoOps_good: "good (refusal c) 22 22 (sndInfoOps T c)"
  by (auto simp: sndInfoOps_def split: option.split dest: refusals)

lemma prInfoOps_good: "good (refusal c) 23 23 (prInfoOps c)"
  by (auto simp: prInfoOps_def split: option.split prod.split dest: refusals)

lemma adaptationOps_good: "good (refusal c) 15 15 (adaptationOps c)"
  by (simp add: adaptationOps_def split: option.split)

lemma firstOps_good: "good E 0 (Suc 0) (emit [OpRecvRcvInfo, OpAssocChange])"
  by (simp add: good_def emit_def)

lemmas blocks_good = firstOps_good block_good initMsgOps_good fragmentOps_good hmacOps_good authChunkOps_good
  asconfOps_good resetMaskOps_good interleavingOps_good adaptationOps_good rtoOps_good sackOps_good
  reusePortOps_good sndInfoOps_good prInfoOps_good good_boolOps

lemma collect_blocks: "good (refusal c) 0 23 (collect (blocks T c style level))"
proof -
  have "ranged (refusal c) 0 (zip [1, 2, 3, 4, 5, 6, 7, 8, 9, 10, 11, 12, 13, 14, 15, 16, 17, 18, 19, 20, 21, 22, 23] (blocks T c style level)) 23"
    by (simp add: blocks_def blocks_good)
  moreover have "List.map snd (zip [1, 2, 3, 4, 5, 6, 7, 8, 9, 10, 11, 12, 13, 14, 15, 16, 17, 18, 19, 20, 21, 22, 23] (blocks T c style level)) = blocks T c style level"
    by (simp add: blocks_def)
  ultimately show ?thesis using collect_good by metis
qed

section \<open>Subscriptions\<close>

lemma known_event:
  "map_of eventTypeNames t \<noteq> None \<longleftrightarrow> t \<in> {EventAssocChange, EventPeerAddrChange, EventRemoteError, EventShutdown,
     EventPartialDelivery, EventAdaptationIndication, EventAuthentication, EventSenderDry, EventStreamReset,
     EventAssocReset, EventStreamChange, EventSendFailed}"
  by (auto simp: eventTypeNames_def)

lemma known_index:
  assumes "map_of eventTypeNames t \<noteq> None"
  shows "unat (t - EventAssocChange) < 16" "t = EventAssocChange + of_nat (unat (t - EventAssocChange))"
  using assms unfolding known_event by auto

lemma eventSet_has_bit:
  assumes "unat (t - EventAssocChange) < 16"
  shows "eventSet_has s t \<longleftrightarrow> bit s (unat (t - EventAssocChange))"
  using assms bit_eq_iff [of "s AND eventBit t" 0]
  by (auto simp: eventSet_has_def eventBit_def bit_and_iff push_bit_of_1 bit_exp_iff)

lemma eventSet_has_OR:
  assumes "map_of eventTypeNames t \<noteq> None" "map_of eventTypeNames u \<noteq> None"
  shows "eventSet_has (s OR eventBit u) t \<longleftrightarrow> eventSet_has s t \<or> t = u"
proof -
  have "unat (t - EventAssocChange) = unat (u - EventAssocChange) \<longleftrightarrow> t = u"
    by (simp add: word_unat_eq_iff [symmetric])
  then show ?thesis
    using known_index [OF assms(1)] known_index [OF assms(2)]
    by (auto simp: eventSet_has_bit bit_or_iff eventBit_def push_bit_of_1 bit_exp_iff)
qed

lemma eventSet_has_zero [simp]: "\<not> eventSet_has 0 t"
  by (simp add: eventSet_has_def)

lemma buildSubscriptions_ok:
  assumes "buildSubscriptions ts s ops = Inr (s', ops')"
  shows "list_all (\<lambda>t. map_of eventTypeNames t \<noteq> None) ts \<and>
    (\<exists>ns. ops' = ops @ List.map OpNotification ns \<and> distinct ns \<and> set ns = {t \<in> set ts. \<not> eventSet_has s t}) \<and>
    (\<forall>t. map_of eventTypeNames t \<noteq> None \<longrightarrow> eventSet_has s' t = (eventSet_has s t \<or> t \<in> set ts))"
  using assms
proof (induction ts s ops rule: buildSubscriptions.induct)
  case (2 t ts s ops)
  then have kn: "map_of eventTypeNames t \<noteq> None" by (auto split: if_splits)
  show ?case
  proof (cases "eventSet_has s t")
    case True
    with 2 kn show ?thesis by auto
  next
    case False
    with 2 kn have ih: "list_all (\<lambda>t. map_of eventTypeNames t \<noteq> None) ts"
        "\<exists>ns. ops' = (ops @ [OpNotification t]) @ List.map OpNotification ns \<and> distinct ns \<and>
          set ns = {u \<in> set ts. \<not> eventSet_has (s OR eventBit t) u}"
        "\<forall>u. map_of eventTypeNames u \<noteq> None \<longrightarrow> eventSet_has s' u = (eventSet_has (s OR eventBit t) u \<or> u \<in> set ts)"
      by auto
    then obtain ns where ns: "ops' = ops @ List.map OpNotification (t # ns)" "distinct ns"
      "set ns = {u \<in> set ts. \<not> eventSet_has (s OR eventBit t) u}" by auto
    moreover have "set ns = {u \<in> set ts. \<not> eventSet_has s u \<and> u \<noteq> t}"
      using ns(3) ih(1) eventSet_has_OR [OF _ kn, of _ s] by (auto simp: list_all_iff)
    moreover have "\<forall>u. map_of eventTypeNames u \<noteq> None \<longrightarrow> eventSet_has s' u = (eventSet_has s u \<or> u \<in> set (t # ts))"
      using ih(3) eventSet_has_OR [OF _ kn, of _ s] by auto
    ultimately show ?thesis using kn ih(1) False by (intro conjI exI [of _ "t # ns"]) auto
  qed
qed auto

lemma buildSubscriptions_refusal: "buildSubscriptions ts s ops = Inl e \<Longrightarrow> refusal c e"
  by (induction ts s ops rule: buildSubscriptions.induct) (auto split: if_splits)

section \<open>Properties of prepare\<close>

lemma prepare_cases:
  assumes "style \<noteq> styleFile"
  shows "prepare T co style = (case resolveCloseTimeout (cf_CloseTimeout (config_of co)) of
      Inl e \<Rightarrow> Some (Inl e)
    | Inr closeTimeout \<Rightarrow>
        andThen (dialFields (config_of co) style) (\<lambda>setupMS.
        andThen (collect (blocks T (config_of co) style (fragLevelOf (config_of co) style))) (\<lambda>ops.
          case buildSubscriptions (case cf_Notifications (config_of co) of None \<Rightarrow> [] | Some ts \<Rightarrow> ts) 0 ops of
            Inl e \<Rightarrow> Some (Inl e)
          | Inr (subscribed, ops') \<Rightarrow>
              Some (Inr \<lparr>p_ops = ops', p_handler = cf_NotificationHandler (config_of co), p_closeTimeout = closeTimeout,
                p_abandon = cf_AbandonPolicy (config_of co), p_setupRTOInitialMS = setupMS,
                p_subscribed = (if isEndpoint style then subscribed OR eventBit EventAssocChange else subscribed),
                p_fragLevel = fragLevelOf (config_of co) style, p_adopted = False\<rparr>))))"
  using assms by (simp add: prepare_def Let_def split: sum.split)

lemma prepare_accepted:
  assumes "prepare T co style = Some (Inr p)" "style \<noteq> styleFile"
  shows "\<exists>ops sub. collect (blocks T (config_of co) style (fragLevelOf (config_of co) style)) = Some (Inr ops) \<and>
    buildSubscriptions (case cf_Notifications (config_of co) of None \<Rightarrow> [] | Some ts \<Rightarrow> ts) 0 ops = Inr (sub, p_ops p) \<and>
    p_subscribed p = (if isEndpoint style then sub OR eventBit EventAssocChange else sub)"
  using assms(1) unfolding prepare_cases [OF assms(2)]
  by (auto simp: andThen_def split: option.splits sum.splits)


lemmas prepare_eval = prepare_def config_of_def Config_zero_def resolveCloseTimeout_def dialFields_def andThen_def
  durationToMillis_def MaxUint32_def blocks_def emit_def bufferOps_def initMsgOps_def fragmentOps_def
  resolveFragmentInterleave_def isEndpoint_def boolOps_def hmacOps_def authChunkOps_def asconfOps_def
  resetMaskOps_def interleavingOps_def adaptationOps_def rtoOps_def sackOps_def reusePortOps_def sndInfoOps_def
  prInfoOps_def eventTypeNames_def fragLevelOf_def authOn_def authChunkForbiddenNames_def effectiveCount_def

lemma collect_emit: "collect (emit xs # bs) = Some (Inr ops) \<Longrightarrow> \<exists>ys. ops = xs @ ys"
  by (auto simp: andThen_def emit_def split: option.splits sum.splits)

text \<open>C24: an accepted Config is applied in the documented order: the operations start with the
  two the receive path depends on and go through the kinds in the order of \<open>configOpKind\<close>, so that
  AUTH is switched on before the AUTH lists, and fragment interleave is set before message
  interleaving.\<close>

theorem prepare_applies_in_order:
  assumes "prepare T co style = Some (Inr p)"
  shows "sorted (List.map opKind (p_ops p)) \<and> take 2 (p_ops p) = [OpRecvRcvInfo, OpAssocChange]"
proof (cases "style = styleFile")
  case True
  with assms show ?thesis
    by (auto simp: prepare_def Let_def prepareFileStyle_def split: sum.splits option.splits)
next
  case False
  from prepare_accepted [OF assms False] obtain ops sub where
    ops: "collect (blocks T (config_of co) style (fragLevelOf (config_of co) style)) = Some (Inr ops)"
      "buildSubscriptions (case cf_Notifications (config_of co) of None \<Rightarrow> [] | Some ts \<Rightarrow> ts) 0 ops = Inr (sub, p_ops p)"
    by blast
  from buildSubscriptions_ok [OF ops(2)] obtain ns where ns: "p_ops p = ops @ List.map OpNotification ns" by blast
  have "sorted (List.map opKind ops)" "list_all (\<lambda>x. opKind x \<le> 23) ops"
    using collect_blocks [of "config_of co" T style "fragLevelOf (config_of co) style"] ops(1)
    by (auto simp: good_def list_all_iff)
  then have "sorted (List.map opKind (p_ops p))"
    unfolding ns by (fastforce simp: sorted_append list_all_iff comp_def sorted_map)
  moreover have "\<exists>rest. ops = OpRecvRcvInfo # OpAssocChange # rest"
    using ops(1) collect_emit unfolding blocks_def by fastforce
  ultimately show ?thesis using ns by auto
qed

theorem prepare_applies_in_order_witness:
  "\<exists>p. prepare amd64 (Some (Config_zero\<lparr>cf_NoDelay := Some True, cf_Notifications := Some [EventShutdown]\<rparr>)) styleDial =
     Some (Inr p) \<and> sorted (List.map opKind (p_ops p)) \<and> take 2 (p_ops p) = [OpRecvRcvInfo, OpAssocChange]"
proof -
  let ?c = "Config_zero\<lparr>cf_NoDelay := Some True, cf_Notifications := Some [EventShutdown]\<rparr>"
  have "\<exists>p. prepare amd64 (Some ?c) styleDial = Some (Inr p)"
    by (simp add: prepare_eval)
  then obtain p where "prepare amd64 (Some ?c) styleDial = Some (Inr p)" by blast
  with prepare_applies_in_order [OF this] show ?thesis by blast
qed

text \<open>C26: a caller is subscribed to exactly the notifications its Config lists, and on an Endpoint to
  association changes besides: every listed type is a known one, the logical subscription
  set holds just them, and each distinct one is switched on in the kernel once.\<close>

theorem prepare_subscribes_exactly:
  assumes "prepare T co style = Some (Inr p)" "style \<noteq> styleFile"
    and "ts = (case cf_Notifications (config_of co) of None \<Rightarrow> [] | Some ts \<Rightarrow> ts)"
  shows "list_all (\<lambda>t. map_of eventTypeNames t \<noteq> None) ts \<and>
    list_all (\<lambda>t. eventSet_has (p_subscribed p) t = (t \<in> set ts \<or> isEndpoint style \<and> t = EventAssocChange))
      (List.map fst eventTypeNames) \<and>
    (\<exists>pre ns. p_ops p = pre @ List.map OpNotification ns \<and> distinct ns \<and> set ns = set ts \<and>
       list_all (\<lambda>x. opKind x < 24) pre)"
proof -
  from prepare_accepted [OF assms(1,2)] obtain ops sub where
    ops: "collect (blocks T (config_of co) style (fragLevelOf (config_of co) style)) = Some (Inr ops)"
      "buildSubscriptions ts 0 ops = Inr (sub, p_ops p)"
      "p_subscribed p = (if isEndpoint style then sub OR eventBit EventAssocChange else sub)"
    unfolding assms(3) by blast
  note b = buildSubscriptions_ok [OF ops(2)]
  have ac: "map_of eventTypeNames EventAssocChange \<noteq> None" by (simp add: eventTypeNames_def)
  have kn: "map_of eventTypeNames t \<noteq> None" if "t \<in> set (List.map fst eventTypeNames)" for t
    using that by (metis map_of_eq_None_iff list.set_map)
  have "eventSet_has (p_subscribed p) t = (t \<in> set ts \<or> isEndpoint style \<and> t = EventAssocChange)"
    if "t \<in> set (List.map fst eventTypeNames)" for t
    using b kn [OF that] eventSet_has_OR [OF kn [OF that] ac, of sub] ops(3) by auto
  moreover have "list_all (\<lambda>x. opKind x < 24) ops"
    using collect_blocks [of "config_of co" T style "fragLevelOf (config_of co) style"] ops(1)
    by (fastforce simp: good_def list_all_iff)
  ultimately show ?thesis using b unfolding list_all_iff by auto
qed

theorem prepare_subscribes_exactly_witness:
  "\<exists>p. prepare amd64 (Some (Config_zero\<lparr>cf_Notifications := Some [EventShutdown, EventSenderDry, EventShutdown]\<rparr>))
       styleListenEndpoint = Some (Inr p) \<and>
     eventSet_has (p_subscribed p) EventAssocChange \<and> eventSet_has (p_subscribed p) EventShutdown \<and>
     \<not> eventSet_has (p_subscribed p) EventPartialDelivery"
proof -
  let ?co = "Some (Config_zero\<lparr>cf_Notifications := Some [EventShutdown, EventSenderDry, EventShutdown]\<rparr>)"
  have "\<exists>p. prepare amd64 ?co styleListenEndpoint = Some (Inr p)"
    by (simp add: prepare_eval eventSet_has_def eventBit_def)
  then obtain p where p: "prepare amd64 ?co styleListenEndpoint = Some (Inr p)" by blast
  from prepare_subscribes_exactly [OF p _ refl] p show ?thesis
    by (auto simp: eventTypeNames_def config_of_def isEndpoint_def)
qed

lemma collect_block:
  "collect bs = Some (Inr ops) \<Longrightarrow> b \<in> set bs \<Longrightarrow> \<exists>xs. b = Some (Inr xs)"
  by (induction bs arbitrary: ops) (auto simp: andThen_def split: option.splits sum.splits)

lemma checkHMACs_ok: "checkHMACs seen ids = None \<Longrightarrow> set ids \<subseteq> {HMACSHA1, HMACSHA256} \<and> distinct ids \<and> set ids \<inter> set seen = {}"
  by (induction seen ids rule: checkHMACs.induct) (auto split: if_splits)

lemma checkAuthChunks_ok:
  "checkAuthChunks seen cts = None \<Longrightarrow>
     set cts \<inter> set (List.map fst authChunkForbiddenNames) = {} \<and> distinct cts \<and> set cts \<inter> set seen = {}"
proof (induction seen cts rule: checkAuthChunks.induct)
  case (2 seen ct cts)
  then have "ct \<notin> set (List.map fst authChunkForbiddenNames)"
    by (auto simp: map_of_eq_None_iff split: if_splits)
  with 2 show ?case by (auto split: if_splits)
qed simp

lemma effectiveCount_card:
  "distinct cts \<Longrightarrow> effectiveCount cts = card (set cts \<union> {chunkTypeASCONF, chunkTypeASCONFAck})"
  by (simp add: effectiveCount_def distinct_card [symmetric] card_insert_if insert_commute)

text \<open>An accepted Config cannot overrun the kernel's AUTH lists or leave them unauthenticated:
  with any AUTH setting, or with ASCONF on, AUTH itself is on; the chunk types are
  distinct, none of the four RFC 4895 forbids is among them, and together with the two Linux
  adds they are at most the 16 an association's copy holds; and the HMAC identifiers are
  distinct, known to Linux and include SHA-1.\<close>

theorem prepare_auth_lists_fit:
  assumes "prepare T co style = Some (Inr p)" "style \<noteq> styleFile"
  shows "(case cf_AuthChunks (config_of co) of None \<Rightarrow> True | Some cts \<Rightarrow>
      cf_Authentication (config_of co) = Some True \<and> distinct cts \<and>
      set cts \<inter> set (List.map fst authChunkForbiddenNames) = {} \<and>
      card (set cts \<union> {chunkTypeASCONF, chunkTypeASCONFAck}) \<le> 16) \<and>
    (case cf_HMACIdentifiers (config_of co) of None \<Rightarrow> True | Some ids \<Rightarrow>
      cf_Authentication (config_of co) = Some True \<and> distinct ids \<and> HMACSHA1 \<in> set ids \<and>
      set ids \<subseteq> {HMACSHA1, HMACSHA256}) \<and>
    (cf_DynamicAddressReconfiguration (config_of co) = Some True \<longrightarrow> cf_Authentication (config_of co) = Some True)"
proof -
  let ?c = "config_of co"
  from prepare_accepted [OF assms] obtain ops where
    ops: "collect (blocks T ?c style (fragLevelOf ?c style)) = Some (Inr ops)" by blast
  have "authChunkOps ?c \<in> set (blocks T ?c style (fragLevelOf ?c style))"
    "hmacOps ?c \<in> set (blocks T ?c style (fragLevelOf ?c style))"
    "asconfOps ?c \<in> set (blocks T ?c style (fragLevelOf ?c style))"
    by (simp_all only: blocks_def list.set) blast+
  then have ok: "\<exists>xs. authChunkOps ?c = Some (Inr xs)" "\<exists>xs. hmacOps ?c = Some (Inr xs)" "\<exists>xs. asconfOps ?c = Some (Inr xs)"
    using collect_block [OF ops] by blast+
  have "sctpAuthMaxChunks = 16" by simp
  then show ?thesis
    using ok checkAuthChunks_ok [of "[]"] checkHMACs_ok [of "[]"] effectiveCount_card
    by (auto simp: authChunkOps_def hmacOps_def asconfOps_def authOn_def refuse_def simp del: sctpAuthMaxChunks_def
        split: option.splits if_splits)
qed

theorem prepare_auth_lists_fit_witness:
  "\<exists>p. prepare amd64 (Some (Config_zero\<lparr>cf_Authentication := Some True, cf_AuthChunks := Some [0, 3]\<rparr>)) styleListen = Some (Inr p) \<and>
     card (set [0, 3] \<union> {chunkTypeASCONF, chunkTypeASCONFAck}) \<le> 16"
proof -
  let ?co = "Some (Config_zero\<lparr>cf_Authentication := Some True, cf_AuthChunks := Some [0, 3]\<rparr>)"
  have "\<exists>p. prepare amd64 ?co styleListen = Some (Inr p)" by (simp add: prepare_eval)
  then obtain p where p: "prepare amd64 ?co styleListen = Some (Inr p)" by blast
  from prepare_auth_lists_fit [OF p] p show ?thesis by (auto simp: config_of_def)
qed

text \<open>A Config that adopts a descriptor can change nothing about it: \<open>prepare\<close> accepts for FileConn and
  FileListener exactly the configurations that set no more than the handler and a
  non-negative CloseTimeout, and then applies only the two operations the receive path depends on.\<close>

theorem prepare_file_accepts:
  "(prepare T (Some c) styleFile = Some (Inr p)) =
     (0 \<le> cf_CloseTimeout c \<and>
      c = Config_zero\<lparr>cf_NotificationHandler := cf_NotificationHandler c, cf_CloseTimeout := cf_CloseTimeout c\<rparr> \<and>
      p = \<lparr>p_ops = [OpRecvRcvInfo, OpAssocChange], p_handler = cf_NotificationHandler c,
        p_closeTimeout = (if cf_CloseTimeout c = 0 then 3 * Second else cf_CloseTimeout c),
        p_abandon = AbandonAbort, p_setupRTOInitialMS = 0, p_subscribed = 0, p_fragLevel = InterleaveNone,
        p_adopted = True\<rparr>)"
proof -
  have "List.find snd (fileFields c) = None \<longleftrightarrow>
      c = Config_zero\<lparr>cf_NotificationHandler := cf_NotificationHandler c, cf_CloseTimeout := cf_CloseTimeout c\<rparr>"
    by (cases c) (auto simp: fileFields_def Config_zero_def)
  then show ?thesis
    by (auto simp: prepare_def config_of_def Let_def resolveCloseTimeout_def prepareFileStyle_def split: option.splits)
qed

end
