(* ===== verification/Options.thy ===== *)
theory Options
  imports Config Sockaddr
begin

unbundle bit_operations_syntax

text \<open>
  The socket options of \<open>options.go\<close>: the Go values of each option and the encoders and
  decoders between them and the kernel's structs, the two layouts of the structs that embed a
  \<open>sockaddr_storage\<close>, and the choice of the scope of a link-local path.

  An encoder takes the buffer it writes into and returns the bytes of the struct it wrote, an
  error, or \<open>None\<close> where the code would panic; what an encoder leaves in the buffer when it refuses
  is not used by any caller. A pointer field is an \<open>option\<close>. The text of a refusal is the source's format
  string, shortened.
\<close>

section \<open>The option structs\<close>

record AssocInfo =
  ai_MaxRetrans :: u16
  ai_CookieLife :: int
  ai_PeerDestinations :: u16
  ai_PeerRwnd :: u32
  ai_LocalRwnd :: u32

record PathParams =
  pp_Heartbeat :: "bool option"
  pp_HeartbeatInterval :: "int option"
  pp_PathMaxRetrans :: "u16 option"
  pp_PMTUD :: "bool option"
  pp_PathMTU :: "u32 option"
  pp_DelayedSACK :: "bool option"
  pp_SACKDelay :: "int option"
  pp_IPv6FlowLabel :: "u32 option"
  pp_DSCP :: "byte option"

definition PathParams_zero :: PathParams where
  "PathParams_zero = \<lparr>pp_Heartbeat = None, pp_HeartbeatInterval = None, pp_PathMaxRetrans = None, pp_PMTUD = None,
     pp_PathMTU = None, pp_DelayedSACK = None, pp_SACKDelay = None, pp_IPv6FlowLabel = None, pp_DSCP = None\<rparr>"

record PathThresholds =
  pt_PathMaxRetrans :: "u16 option"
  pt_PFThreshold :: "u16 option"
  pt_PrimarySwitchover :: "u16 option"

record PathInfo =
  pi_Addr :: addrport
  pi_State :: PathState
  pi_Cwnd :: u32
  pi_SRTTTicks :: u32
  pi_RTO :: int
  pi_MTU :: u32

record Status =
  st_State :: AssocState
  st_PeerRwnd :: u32
  st_Unacked :: u16
  st_Pending :: u16
  st_InStreams :: u16
  st_OutStreams :: u16
  st_FragmentationPoint :: u32
  st_Primary :: PathInfo

record AssocStats =
  as_MaxRTOTicks :: u64
  as_MaxRTOAddr :: addrport
  as_SACKsIn :: u64
  as_SACKsOut :: u64
  as_PacketsIn :: u64
  as_PacketsOut :: u64
  as_RetransChunks :: u64
  as_OutOfSeqTSNs :: u64
  as_DupChunksIn :: u64
  as_GapAcksIn :: u64
  as_UnorderedChunksIn :: u64
  as_UnorderedChunksOut :: u64
  as_OrderedChunksIn :: u64
  as_OrderedChunksOut :: u64
  as_ControlChunksIn :: u64
  as_ControlChunksOut :: u64

record PRStatus =
  prs_AbandonedUnsent :: u64
  prs_AbandonedSent :: u64

section \<open>Plain arguments\<close>

definition uint32Arg :: "string \<Rightarrow> int \<Rightarrow> goerr + u32" where
  "uint32Arg name v =
     (if v < 0 then Inl (InvalidArg (name @ '': %d is negative''))
      else if v > MaxUint32 then Inl (InvalidArg (name @ '': %d exceeds the uint32 range the kernel field holds''))
      else Inr (of_int v))"

definition bufferSizeArg :: "string \<Rightarrow> int \<Rightarrow> goerr + u32" where
  "bufferSizeArg name v =
     (if v \<le> 0 then Inl (InvalidArg (name @ '': the size must be positive, got %d''))
      else if v > 2147483647 then Inl (InvalidArg (name @ '': %d exceeds the int32 range SO_RCVBUF and SO_SNDBUF take''))
      else Inr (of_int v))"

section \<open>The word-size-dependent structs\<close>

record sockaddrStorageLayout =
  addrOff :: nat
  sl_udpEncapsPortOff :: nat
  sl_sizeUDPEncaps :: nat
  probeIntervalOff :: nat
  sl_sizeProbeInterval :: nat
  thresholdsMaxRetransOff :: nat
  thresholdsPFOff :: nat
  thresholdsSwitchoverOff :: nat
  sl_sizePathThresholds :: nat
  statsCountersOff :: nat
  sl_sizeAssocStats :: nat

definition nativeStorageLayout :: "target \<Rightarrow> sockaddrStorageLayout" where
  "nativeStorageLayout T =
     \<lparr>addrOff = ssAddrOffset T, sl_udpEncapsPortOff = udpEncapsPortOff T, sl_sizeUDPEncaps = sizeUDPEncaps T,
      probeIntervalOff = probeIntervalIntervalOff T, sl_sizeProbeInterval = sizeProbeInterval T,
      thresholdsMaxRetransOff = pathThresholdsMaxRxtOff T, thresholdsPFOff = pathThresholdsPFThresholdOff T,
      thresholdsSwitchoverOff = pathThresholdsSwitchoverOff T, sl_sizePathThresholds = sizePathThresholds T,
      statsCountersOff = sizeAssocStatsHeader T, sl_sizeAssocStats = sizeAssocStats T\<rparr>"

definition kernel64StorageLayout :: sockaddrStorageLayout where
  "kernel64StorageLayout =
     \<lparr>addrOff = ssAddrOffsetKernel64, sl_udpEncapsPortOff = udpEncapsPortOffKernel64,
      sl_sizeUDPEncaps = sizeUDPEncapsKernel64,
      probeIntervalOff = probeIntervalIntervalOffKernel64, sl_sizeProbeInterval = sizeProbeIntervalKernel64,
      thresholdsMaxRetransOff = pathThresholdsMaxRxtOffKernel64,
      thresholdsPFOff = pathThresholdsPFThresholdOffKernel64,
      thresholdsSwitchoverOff = pathThresholdsSwitchoverOffKernel64,
      sl_sizePathThresholds = sizePathThresholdsKernel64,
      statsCountersOff = sizeAssocStatsHeaderKernel64, sl_sizeAssocStats = sizeAssocStatsKernel64\<rparr>"

definition storageLayoutUnknown :: u32 where [simp]: "storageLayoutUnknown = 0"

definition storageLayoutNative :: u32 where [simp]: "storageLayoutNative = 1"

definition storageLayoutKernel64 :: u32 where [simp]: "storageLayoutKernel64 = 2"

text \<open>\<open>probe\<close> is the answer of the call to it; the second component is the cache afterwards, the third
  whether the call was made.\<close>

definition selectStorageLayout ::
  "target \<Rightarrow> u32 \<Rightarrow> goerr option \<Rightarrow> (goerr + sockaddrStorageLayout) \<times> u32 \<times> bool" where
  "selectStorageLayout T cache probe =
     (if cache = storageLayoutNative then (Inr (nativeStorageLayout T), cache, False)
      else if cache = storageLayoutKernel64 then (Inr kernel64StorageLayout, cache, False)
      else case probe of
        None \<Rightarrow> (Inr (nativeStorageLayout T), storageLayoutNative, True)
      | Some err \<Rightarrow>
          if errIs err (Errno EINVAL) then (Inr kernel64StorageLayout, storageLayoutKernel64, True)
          else (Inl err, cache, True))"

text \<open>\<open>b = b[:n]; clear(b)\<close>, and \<open>copy(b[i:j], src)\<close>.\<close>

definition cleared :: "nat \<Rightarrow> bytes \<Rightarrow> bytes option" where
  "cleared n b = (if n \<le> length b then Some (replicate n 0) else None)"

definition copy_into :: "nat \<Rightarrow> nat \<Rightarrow> bytes \<Rightarrow> bytes \<Rightarrow> bytes option" where
  "copy_into i j src b = do { w \<leftarrow> subslice i j b; put_bytes i (go_copy w src) b }"

definition storageHeader :: "target \<Rightarrow> sockaddrStorageLayout \<Rightarrow> bytes \<Rightarrow> AssocID \<Rightarrow> bytes \<Rightarrow> bytes option" where
  "storageHeader T l b assoc addr = do {
     b1 \<leftarrow> cleared (length b) b;
     b2 \<leftarrow> put32 (native T) 0 assoc b1;
     copy_into (addrOff l) (addrOff l + sizeSockaddrStorage) addr b2
   }"

definition udpEncaps ::
  "target \<Rightarrow> sockaddrStorageLayout \<Rightarrow> bytes \<Rightarrow> AssocID \<Rightarrow> bytes \<Rightarrow> u16 \<Rightarrow> bytes option" where
  "udpEncaps T l buf assoc addr port = do {
     b \<leftarrow> subslice 0 (sl_sizeUDPEncaps l) buf;
     b1 \<leftarrow> storageHeader T l b assoc addr;
     put16 BigEndian (sl_udpEncapsPortOff l) port b1
   }"

definition udpEncapsPort :: "sockaddrStorageLayout \<Rightarrow> bytes \<Rightarrow> u16 option" where
  "udpEncapsPort l b = get16 BigEndian b (sl_udpEncapsPortOff l)"

definition probeInterval ::
  "target \<Rightarrow> sockaddrStorageLayout \<Rightarrow> bytes \<Rightarrow> AssocID \<Rightarrow> bytes \<Rightarrow> u32 \<Rightarrow> bytes option" where
  "probeInterval T l buf assoc addr ms = do {
     b \<leftarrow> subslice 0 (sl_sizeProbeInterval l) buf;
     b1 \<leftarrow> storageHeader T l b assoc addr;
     put32 (native T) (probeIntervalOff l) ms b1
   }"

definition probeIntervalMS :: "target \<Rightarrow> sockaddrStorageLayout \<Rightarrow> bytes \<Rightarrow> u32 option" where
  "probeIntervalMS T l b = get32 (native T) b (probeIntervalOff l)"

record thresholdValues =
  tv_maxRetrans :: u16
  tv_pf :: u16
  tv_switchover :: u16

definition pathThresholds ::
  "target \<Rightarrow> sockaddrStorageLayout \<Rightarrow> bytes \<Rightarrow> AssocID \<Rightarrow> bytes \<Rightarrow> thresholdValues \<Rightarrow> bytes option" where
  "pathThresholds T l buf assoc addr v = do {
     b \<leftarrow> subslice 0 (sl_sizePathThresholds l) buf;
     b1 \<leftarrow> storageHeader T l b assoc addr;
     b2 \<leftarrow> put16 (native T) (thresholdsMaxRetransOff l) (tv_maxRetrans v) b1;
     b3 \<leftarrow> put16 (native T) (thresholdsPFOff l) (tv_pf v) b2;
     put16 (native T) (thresholdsSwitchoverOff l) (tv_switchover v) b3
   }"

definition readThresholdValues :: "target \<Rightarrow> sockaddrStorageLayout \<Rightarrow> bytes \<Rightarrow> thresholdValues option" where
  "readThresholdValues T l b = do {
     mr \<leftarrow> get16 (native T) b (thresholdsMaxRetransOff l);
     pf \<leftarrow> get16 (native T) b (thresholdsPFOff l);
     sw \<leftarrow> get16 (native T) b (thresholdsSwitchoverOff l);
     Some \<lparr>tv_maxRetrans = mr, tv_pf = pf, tv_switchover = sw\<rparr>
   }"

definition assocStatsRequest :: "target \<Rightarrow> sockaddrStorageLayout \<Rightarrow> bytes \<Rightarrow> AssocID \<Rightarrow> bytes option" where
  "assocStatsRequest T l buf assoc = do {
     b \<leftarrow> subslice 0 (sl_sizeAssocStats l) buf;
     storageHeader T l b assoc []
   }"

text \<open>The address of a reply: the zero \<open>AddrPort\<close> when it does not decode.\<close>

definition storedAddr :: "target \<Rightarrow> ifaceEnv \<Rightarrow> nat \<Rightarrow> bytes \<Rightarrow> addrport option" where
  "storedAddr T ifx off b = do {
     s \<leftarrow> subslice off (off + sizeSockaddrStorage) b;
     r \<leftarrow> decodeAddr T ifx s;
     Some (case r of Inl e \<Rightarrow> (IPZero, 0) | Inr a \<Rightarrow> a)
   }"

definition assocStats :: "target \<Rightarrow> ifaceEnv \<Rightarrow> sockaddrStorageLayout \<Rightarrow> bytes \<Rightarrow> AssocStats option" where
  "assocStats T ifx l b = (let c = (\<lambda>i. get64 (native T) b (statsCountersOff l + 8 * i)) in do {
     addr \<leftarrow> storedAddr T ifx (addrOff l) b;
     maxrto \<leftarrow> c assocStatsMaxRTO;
     isacks \<leftarrow> c assocStatsISACKs;
     osacks \<leftarrow> c assocStatsOSACKs;
     ipackets \<leftarrow> c assocStatsIPackets;
     opackets \<leftarrow> c assocStatsOPackets;
     rtx \<leftarrow> c assocStatsRtxChunks;
     outofseq \<leftarrow> c assocStatsOutOfSeqTSNs;
     idup \<leftarrow> c assocStatsIDupChunks;
     gap \<leftarrow> c assocStatsGapCount;
     iuod \<leftarrow> c assocStatsIUODChunks;
     ouod \<leftarrow> c assocStatsOUODChunks;
     iod \<leftarrow> c assocStatsIODChunks;
     ood \<leftarrow> c assocStatsOODChunks;
     ictrl \<leftarrow> c assocStatsICtrlChunks;
     octrl \<leftarrow> c assocStatsOCtrlChunks;
     Some \<lparr>as_MaxRTOTicks = maxrto, as_MaxRTOAddr = addr, as_SACKsIn = isacks, as_SACKsOut = osacks,
       as_PacketsIn = ipackets, as_PacketsOut = opackets, as_RetransChunks = rtx, as_OutOfSeqTSNs = outofseq,
       as_DupChunksIn = idup, as_GapAcksIn = gap, as_UnorderedChunksIn = iuod, as_UnorderedChunksOut = ouod,
       as_OrderedChunksIn = iod, as_OrderedChunksOut = ood, as_ControlChunksIn = ictrl,
       as_ControlChunksOut = octrl\<rparr>
   })"

section \<open>Path addresses\<close>

definition isLinkLocal6 :: "ipaddr \<Rightarrow> bool" where
  "isLinkLocal6 ip \<longleftrightarrow> (case ip of IP6 w z \<Rightarrow> True | _ \<Rightarrow> False) \<and> \<not> Is4In6 ip \<and> IsLinkLocalUnicast ip"

definition encodePathAddr ::
  "target \<Rightarrow> zoneEnv \<Rightarrow> bytes \<Rightarrow> u16 \<Rightarrow> ipaddr \<Rightarrow> u16 \<Rightarrow> u32 \<Rightarrow> (goerr + nat \<times> bytes) option" where
  "encodePathAddr T zi dst family path port scope =
     (if \<not> IsValid path then Some (Inr (0, dst))
      else andThen (encodeAddr T zi dst family path port) (\<lambda>(n, dst').
        if scope \<noteq> 0 \<and> n = sizeSockaddrIn6 \<and> Zone path = [] \<and> isLinkLocal6 path
        then do { d \<leftarrow> put32 (native T) sockaddrIn6ScopeIDOff scope dst'; Some (Inr (n, d)) }
        else Some (Inr (n, dst'))))"

record scopeCandidates =
  sc_first :: u32
  sc_n :: nat

definition scopeCandidates_zero :: scopeCandidates where
  "scopeCandidates_zero = \<lparr>sc_first = 0, sc_n = 0\<rparr>"

definition scope_add :: "u32 \<Rightarrow> scopeCandidates \<Rightarrow> scopeCandidates" where
  "scope_add s c =
     (if s = 0 then c
      else if sc_n c = 0 then c\<lparr>sc_first := s, sc_n := 1\<rparr>
      else if s \<noteq> sc_first c then c\<lparr>sc_n := 2\<rparr>
      else c)"

definition scope_addZone :: "zoneEnv \<Rightarrow> string \<Rightarrow> scopeCandidates \<Rightarrow> scopeCandidates" where
  "scope_addZone zi zone c = (case encodeZone zi zone of Inl e \<Rightarrow> c | Inr s \<Rightarrow> scope_add s c)"

definition scope_only :: "scopeCandidates \<Rightarrow> u32" where
  "scope_only c = (if sc_n c = 1 then sc_first c else 0)"

definition scope_zoned :: "zoneEnv \<Rightarrow> ipaddr list \<Rightarrow> scopeCandidates \<Rightarrow> scopeCandidates" where
  "scope_zoned zi ips c = fold (\<lambda>ip. if isLinkLocal6 ip \<and> Zone ip \<noteq> [] then scope_addZone zi (Zone ip) else id) ips c"

definition scope_owned :: "(ipaddr \<Rightarrow> u32 list) \<Rightarrow> ipaddr list \<Rightarrow> scopeCandidates \<Rightarrow> scopeCandidates" where
  "scope_owned owners ips c =
     fold (\<lambda>ip. if isLinkLocal6 ip \<and> Zone ip = [] then fold scope_add (owners ip) else id) ips c"

definition linkLocalPathScope ::
  "zoneEnv \<Rightarrow> ipaddr list \<Rightarrow> ipaddr list \<Rightarrow> (ipaddr \<Rightarrow> u32 list) \<Rightarrow> u32" where
  "linkLocalPathScope zi locals peers owners =
     (let c1 = scope_zoned zi locals scopeCandidates_zero;
          c2 = (if sc_n c1 = 0 then scope_zoned zi peers c1 else c1);
          c3 = (if sc_n c2 = 0 then scope_owned owners locals c2 else c2)
      in scope_only c3)"

section \<open>Path parameters\<close>

definition onOff :: "bool \<Rightarrow> u32 \<Rightarrow> u32 \<Rightarrow> u32" where
  "onOff on enable disable = (if on then enable else disable)"

text \<open>The checks and writes of \<open>encodePathParams\<close>, field by field in the code's order; each takes the
  flags and the buffer so far and gives the next.\<close>

type_synonym pathStep = "u32 \<times> bytes \<Rightarrow> (goerr + u32 \<times> bytes) option"

definition switchStep :: "bool option \<Rightarrow> u32 \<Rightarrow> u32 \<Rightarrow> pathStep" where
  "switchStep sw enable disable = (\<lambda>(flags, b).
     Some (Inr (case sw of None \<Rightarrow> flags | Some on \<Rightarrow> flags OR onOff on enable disable, b)))"

definition refusal_of :: "string \<Rightarrow> (goerr + 'a) option" where
  "refusal_of m = Some (Inl (InvalidArg m))"

definition wrote :: "u32 \<Rightarrow> bytes option \<Rightarrow> (goerr + u32 \<times> bytes) option" where
  "wrote flags ob = do { b \<leftarrow> ob; Some (Inr (flags, b)) }"

definition heartbeatStep :: "target \<Rightarrow> PathParams \<Rightarrow> string \<Rightarrow> pathStep" where
  "heartbeatStep T p field = (\<lambda>(flags, b).
     case pp_HeartbeatInterval p of None \<Rightarrow> Some (Inr (flags, b)) | Some d \<Rightarrow>
       if pp_Heartbeat p \<noteq> Some True then refusal_of (field @ ''.HeartbeatInterval needs .Heartbeat set to true'')
       else andThen (durationToMillis (field @ ''.HeartbeatInterval'') d MaxUint32) (\<lambda>ms.
         wrote (if ms = 0 then flags OR sppHBTimeIsZero else flags) (put32 (native T) pathParamsHBIntervalOff ms b)))"

definition retransStep :: "target \<Rightarrow> PathParams \<Rightarrow> string \<Rightarrow> pathStep" where
  "retransStep T p field = (\<lambda>(flags, b).
     case pp_PathMaxRetrans p of None \<Rightarrow> Some (Inr (flags, b)) | Some v \<Rightarrow>
       if v = 0 then refusal_of (field @ ''.PathMaxRetrans is 0'')
       else wrote flags (put16 (native T) pathParamsPathMaxRxtOff v b))"

definition mtuStep :: "target \<Rightarrow> PathParams \<Rightarrow> string \<Rightarrow> pathStep" where
  "mtuStep T p field = (\<lambda>(flags, b).
     case pp_PathMTU p of None \<Rightarrow> Some (Inr (flags, b)) | Some v \<Rightarrow>
       if pp_PMTUD p \<noteq> Some False then refusal_of (field @ ''.PathMTU needs .PMTUD set to false'')
       else if v < minPathMTU then refusal_of (field @ ''.PathMTU %d is below the %d bytes Linux accepts'')
       else wrote flags (put32 (native T) pathParamsPathMTUOff v b))"

definition sackStep :: "target \<Rightarrow> PathParams \<Rightarrow> string \<Rightarrow> pathStep" where
  "sackStep T p field = (\<lambda>(flags, b).
     case pp_SACKDelay p of None \<Rightarrow> Some (Inr (flags, b)) | Some d \<Rightarrow>
       if pp_DelayedSACK p \<noteq> Some True then refusal_of (field @ ''.SACKDelay needs .DelayedSACK set to true'')
       else andThen (durationToMillis (field @ ''.SACKDelay'') d MaxUint32) (\<lambda>ms.
         if ms = 0 then refusal_of (field @ ''.SACKDelay is 0'')
         else if ms > maxSACKDelayMS then refusal_of (field @ ''.SACKDelay %s exceeds 500 ms'')
         else wrote flags (put32 (native T) pathParamsSackDelayOff ms b)))"

definition labelStep :: "target \<Rightarrow> PathParams \<Rightarrow> string \<Rightarrow> pathStep" where
  "labelStep T p field = (\<lambda>(flags, b).
     case pp_IPv6FlowLabel p of None \<Rightarrow> Some (Inr (flags, b)) | Some v \<Rightarrow>
       if and_not v flowLabelMask \<noteq> 0 then refusal_of (field @ ''.IPv6FlowLabel %#x does not fit the 20 bits'')
       else wrote (flags OR sppIPv6FlowLabel) (put32 (native T) pathParamsFlowLabelOff v b))"

definition dscpStep :: "PathParams \<Rightarrow> string \<Rightarrow> pathStep" where
  "dscpStep p field = (\<lambda>(flags, b).
     case pp_DSCP p of None \<Rightarrow> Some (Inr (flags, b)) | Some v \<Rightarrow>
       if and_not v dscpMask \<noteq> 0 then refusal_of (field @ ''.DSCP %#02x has its low two bits set'')
       else wrote (flags OR sppDSCP) (put_bytes pathParamsDSCPOff [v] b))"

text \<open>The identity every path request carries: association, address, flags.\<close>

definition pathTarget :: "target \<Rightarrow> AssocID \<Rightarrow> bytes \<Rightarrow> u32 \<Rightarrow> bytes \<Rightarrow> bytes option" where
  "pathTarget T assoc addr flags b = do {
     b1 \<leftarrow> put32 (native T) pathParamsAssocIDOff assoc b;
     b2 \<leftarrow> copy_into pathParamsAddressOff (pathParamsAddressOff + sizeSockaddrStorage) addr b1;
     put32 (native T) pathParamsFlagsOff flags b2
   }"

definition encodePathParams ::
  "target \<Rightarrow> bytes \<Rightarrow> AssocID \<Rightarrow> bytes \<Rightarrow> PathParams \<Rightarrow> string \<Rightarrow> (goerr + bytes) option" where
  "encodePathParams T b assoc addr p field = do {
     b0 \<leftarrow> cleared sizePathParams b;
     andThen (switchStep (pp_Heartbeat p) sppHBEnable sppHBDisable (0, b0)) (\<lambda>s1.
     andThen (heartbeatStep T p field s1) (\<lambda>s2.
     andThen (retransStep T p field s2) (\<lambda>s3.
     andThen (switchStep (pp_PMTUD p) sppPMTUDEnable sppPMTUDDisable s3) (\<lambda>s4.
     andThen (mtuStep T p field s4) (\<lambda>s5.
     andThen (switchStep (pp_DelayedSACK p) sppSACKDelayEnable sppSACKDelayDisable s5) (\<lambda>s6.
     andThen (sackStep T p field s6) (\<lambda>s7.
     andThen (labelStep T p field s7) (\<lambda>s8.
     andThen (dscpStep p field s8) (\<lambda>(flags, b9). do {
       b10 \<leftarrow> pathTarget T assoc addr flags b9;
       Some (Inr b10)
     })))))))))
   }"

definition heartbeatDemand :: "target \<Rightarrow> bytes \<Rightarrow> AssocID \<Rightarrow> bytes \<Rightarrow> bytes option" where
  "heartbeatDemand T b assoc addr = do {
     b0 \<leftarrow> cleared sizePathParams b;
     pathTarget T assoc addr sppHBDemand b0
   }"

definition get8 :: "bytes \<Rightarrow> nat \<Rightarrow> byte option" where
  "get8 b off = (if off < length b then Some (b ! off) else None)"

definition decodePathParams :: "target \<Rightarrow> bytes \<Rightarrow> PathParams option" where
  "decodePathParams T b = do {
     flags \<leftarrow> get32 (native T) b pathParamsFlagsOff;
     interval \<leftarrow> get32 (native T) b pathParamsHBIntervalOff;
     retrans \<leftarrow> get16 (native T) b pathParamsPathMaxRxtOff;
     mtu \<leftarrow> get32 (native T) b pathParamsPathMTUOff;
     delay \<leftarrow> get32 (native T) b pathParamsSackDelayOff;
     label \<leftarrow> (if has_flag flags sppIPv6FlowLabel
       then do { v \<leftarrow> get32 (native T) b pathParamsFlowLabelOff; Some (Some v) } else Some None);
     dscp \<leftarrow> (if has_flag flags sppDSCP
       then do { v \<leftarrow> get8 b pathParamsDSCPOff; Some (Some v) } else Some None);
     Some \<lparr>pp_Heartbeat = Some (has_flag flags sppHBEnable),
       pp_HeartbeatInterval = Some (millisToDuration interval),
       pp_PathMaxRetrans = Some retrans, pp_PMTUD = Some (has_flag flags sppPMTUDEnable),
       pp_PathMTU = Some mtu, pp_DelayedSACK = Some (has_flag flags sppSACKDelayEnable),
       pp_SACKDelay = Some (millisToDuration delay), pp_IPv6FlowLabel = label, pp_DSCP = dscp\<rparr>
   }"

section \<open>Thresholds\<close>

definition mergePathThresholds :: "thresholdValues \<Rightarrow> PathThresholds \<Rightarrow> string \<Rightarrow> goerr + thresholdValues" where
  "mergePathThresholds cur t field =
     (if pt_PathMaxRetrans t = Some 0 then Inl (InvalidArg (field @ ''.PathMaxRetrans is 0''))
      else let c1 = (case pt_PathMaxRetrans t of None \<Rightarrow> cur | Some v \<Rightarrow> cur\<lparr>tv_maxRetrans := v\<rparr>);
               c2 = (case pt_PFThreshold t of None \<Rightarrow> c1 | Some v \<Rightarrow> c1\<lparr>tv_pf := v\<rparr>);
               c3 = (case pt_PrimarySwitchover t of None \<Rightarrow> c2 | Some v \<Rightarrow> c2\<lparr>tv_switchover := v\<rparr>)
           in Inr c3)"

section \<open>Association structs\<close>

definition decodePathInfo :: "target \<Rightarrow> ifaceEnv \<Rightarrow> bytes \<Rightarrow> PathInfo option" where
  "decodePathInfo T ifx b = do {
     addr \<leftarrow> storedAddr T ifx pathInfoAddressOff b;
     state \<leftarrow> get32 (native T) b pathInfoStateOff;
     cwnd \<leftarrow> get32 (native T) b pathInfoCwndOff;
     srtt \<leftarrow> get32 (native T) b pathInfoSRTTOff;
     rto \<leftarrow> get32 (native T) b pathInfoRTOOff;
     mtu \<leftarrow> get32 (native T) b pathInfoMTUOff;
     Some \<lparr>pi_Addr = addr, pi_State = state, pi_Cwnd = cwnd, pi_SRTTTicks = srtt,
       pi_RTO = millisToDuration rto, pi_MTU = mtu\<rparr>
   }"

definition decodeStatus :: "target \<Rightarrow> ifaceEnv \<Rightarrow> bytes \<Rightarrow> Status option" where
  "decodeStatus T ifx b = do {
     state \<leftarrow> get32 (native T) b statusStateOff;
     rwnd \<leftarrow> get32 (native T) b statusRWNDOff;
     unacked \<leftarrow> get16 (native T) b statusUnackedOff;
     pending \<leftarrow> get16 (native T) b statusPendingOff;
     instrms \<leftarrow> get16 (native T) b statusInStreamsOff;
     outstrms \<leftarrow> get16 (native T) b statusOutStreamsOff;
     frag \<leftarrow> get32 (native T) b statusFragmentationPointOff;
     pb \<leftarrow> subslice statusPrimaryOff (statusPrimaryOff + sizePathInfo) b;
     primary \<leftarrow> decodePathInfo T ifx pb;
     Some \<lparr>st_State = state, st_PeerRwnd = rwnd, st_Unacked = unacked, st_Pending = pending,
       st_InStreams = instrms, st_OutStreams = outstrms, st_FragmentationPoint = frag, st_Primary = primary\<rparr>
   }"

definition encodeRTOInfo :: "target \<Rightarrow> bytes \<Rightarrow> AssocID \<Rightarrow> RTOInfo \<Rightarrow> string \<Rightarrow> (goerr + bytes) option" where
  "encodeRTOInfo T b assoc r field =
     andThen (durationToMillis (field @ ''.Initial'') (rto_Initial r) MaxUint32) (\<lambda>initial.
     andThen (durationToMillis (field @ ''.Max'') (rto_Max r) MaxUint32) (\<lambda>maxMS.
     andThen (durationToMillis (field @ ''.Min'') (rto_Min r) MaxUint32) (\<lambda>minMS.
       if minMS \<noteq> 0 \<and> maxMS \<noteq> 0 \<and> minMS > maxMS then refusal_of (field @ ''.Min exceeds .Max'')
       else do {
         b0 \<leftarrow> subslice 0 sizeRTOInfo b;
         b1 \<leftarrow> put32 (native T) rtoInfoAssocIDOff assoc b0;
         b2 \<leftarrow> put32 (native T) rtoInfoInitialOff initial b1;
         b3 \<leftarrow> put32 (native T) rtoInfoMaxOff maxMS b2;
         b4 \<leftarrow> put32 (native T) rtoInfoMinOff minMS b3;
         Some (Inr b4)
       })))"

definition decodeRTOInfo :: "target \<Rightarrow> bytes \<Rightarrow> RTOInfo option" where
  "decodeRTOInfo T b = do {
     i \<leftarrow> get32 (native T) b rtoInfoInitialOff;
     mx \<leftarrow> get32 (native T) b rtoInfoMaxOff;
     mn \<leftarrow> get32 (native T) b rtoInfoMinOff;
     Some \<lparr>rto_Initial = millisToDuration i, rto_Max = millisToDuration mx, rto_Min = millisToDuration mn\<rparr>
   }"

definition encodeAssocInfo :: "target \<Rightarrow> bytes \<Rightarrow> AssocID \<Rightarrow> AssocInfo \<Rightarrow> string \<Rightarrow> (goerr + bytes) option" where
  "encodeAssocInfo T b assoc a field =
     andThen (durationToMillis (field @ ''.CookieLife'') (ai_CookieLife a) MaxUint32) (\<lambda>cookie. do {
       b0 \<leftarrow> cleared sizeAssocInfo b;
       b1 \<leftarrow> put32 (native T) assocInfoAssocIDOff assoc b0;
       b2 \<leftarrow> put16 (native T) assocInfoMaxRetransOff (ai_MaxRetrans a) b1;
       b3 \<leftarrow> put32 (native T) assocInfoCookieLifeOff cookie b2;
       Some (Inr b3)
     })"

definition decodeAssocInfo :: "target \<Rightarrow> bytes \<Rightarrow> AssocInfo option" where
  "decodeAssocInfo T b = do {
     mr \<leftarrow> get16 (native T) b assocInfoMaxRetransOff;
     cl \<leftarrow> get32 (native T) b assocInfoCookieLifeOff;
     pd \<leftarrow> get16 (native T) b assocInfoPeerDestinationsOff;
     pr \<leftarrow> get32 (native T) b assocInfoPeerRwndOff;
     lr \<leftarrow> get32 (native T) b assocInfoLocalRwndOff;
     Some \<lparr>ai_MaxRetrans = mr, ai_CookieLife = millisToDuration cl, ai_PeerDestinations = pd,
       ai_PeerRwnd = pr, ai_LocalRwnd = lr\<rparr>
   }"

definition encodeDelayedSACK :: "target \<Rightarrow> bytes \<Rightarrow> AssocID \<Rightarrow> DelayedSACK \<Rightarrow> string \<Rightarrow> (goerr + bytes) option" where
  "encodeDelayedSACK T b assoc d field =
     andThen (durationToMillis (field @ ''.Delay'') (ds_Delay d) MaxUint32) (\<lambda>delay.
       if delay > maxSACKDelayMS then refusal_of (field @ ''.Delay %s exceeds 500 ms'')
       else do {
         b0 \<leftarrow> subslice 0 sizeDelayedSACK b;
         b1 \<leftarrow> put32 (native T) delayedSACKAssocIDOff assoc b0;
         b2 \<leftarrow> put32 (native T) delayedSACKDelayOff delay b1;
         b3 \<leftarrow> put32 (native T) delayedSACKFrequencyOff (ds_Frequency d) b2;
         Some (Inr b3)
       })"

definition decodeDelayedSACK :: "target \<Rightarrow> bytes \<Rightarrow> DelayedSACK option" where
  "decodeDelayedSACK T b = do {
     d \<leftarrow> get32 (native T) b delayedSACKDelayOff;
     f \<leftarrow> get32 (native T) b delayedSACKFrequencyOff;
     Some \<lparr>ds_Delay = millisToDuration d, ds_Frequency = f\<rparr>
   }"

definition decodeInitMsg :: "target \<Rightarrow> bytes \<Rightarrow> InitMsg option" where
  "decodeInitMsg T b = do {
     os \<leftarrow> get16 (native T) b initMsgOutStreamsOff;
     mi \<leftarrow> get16 (native T) b initMsgMaxInStreamsOff;
     ma \<leftarrow> get16 (native T) b initMsgMaxAttemptsOff;
     mt \<leftarrow> get16 (native T) b initMsgMaxInitTimeoOff;
     Some \<lparr>im_OutStreams = os, im_MaxInStreams = mi, im_MaxAttempts = ma,
       im_MaxInitTimeout = millisToDuration (ucast mt)\<rparr>
   }"

section \<open>Authentication, stream reconfiguration, partial reliability\<close>

text \<open>The length the kernel reported is Go's \<open>int\<close>; \<open>uint32\<close> of a difference wraps.\<close>

definition decodeHMACIdents :: "target \<Rightarrow> bytes \<Rightarrow> int \<Rightarrow> (goerr + HMACID list) option" where
  "decodeHMACIdents T b n =
     (if n < int sizeHMACAlgo \<or> n > int (length b) then Some (Inl (TextErr ''not a struct sctp_hmacalgo''))
      else if (n - int sizeHMACAlgo) mod 2 \<noteq> 0 then Some (Inl (TextErr ''odd identifier list''))
      else do {
        count \<leftarrow> get32 (native T) b hmacAlgoNumIdentsOff;
        (if count \<noteq> of_int ((n - int sizeHMACAlgo) div 2) then Some (Inl (TextErr ''reports %d identifiers in %d bytes''))
         else do {
           ids \<leftarrow> those (List.map (\<lambda>i. get16 (native T) b (hmacAlgoIdentsOff + 2 * i)) [0..<unat count]);
           Some (Inr ids)
         })
      })"

definition decodeAuthChunks :: "target \<Rightarrow> bytes \<Rightarrow> int \<Rightarrow> (goerr + byte list) option" where
  "decodeAuthChunks T b n =
     (if n < int sizeAuthChunks \<or> n > int (length b) then Some (Inl (TextErr ''not a struct sctp_authchunks''))
      else do {
        count \<leftarrow> get32 (native T) b authChunksNumChunksOff;
        (if count \<noteq> of_int (n - int sizeAuthChunks) then Some (Inl (TextErr ''reports %d chunk types in %d bytes''))
         else do { cs \<leftarrow> subslice authChunksChunksOff (nat n) b; Some (Inr cs) })
      })"

definition encodeAuthKey :: "target \<Rightarrow> AssocID \<Rightarrow> u16 \<Rightarrow> bytes \<Rightarrow> string \<Rightarrow> (goerr + bytes) option" where
  "encodeAuthKey T assoc key secret name =
     (if secret = [] then refusal_of (name @ '': the secret is empty'')
      else if length secret > 65535 then refusal_of (name @ '': the secret is %d bytes'')
      else do {
        let b0 = replicate (sizeAuthKey + length secret) 0;
        b1 \<leftarrow> put32 (native T) authKeyAssocIDOff assoc b0;
        b2 \<leftarrow> put16 (native T) authKeyKeyNumberOff key b1;
        b3 \<leftarrow> put16 (native T) authKeyKeyLengthOff (of_nat (length secret)) b2;
        b4 \<leftarrow> copy_into authKeyKeyOff (length b3) secret b3;
        Some (Inr b4)
      })"

fun putStreams :: "byte_order \<Rightarrow> nat \<Rightarrow> u16 list \<Rightarrow> bytes \<Rightarrow> bytes option" where
  "putStreams bo i [] b = Some b"
| "putStreams bo i (sid # sids) b = do {
     b' \<leftarrow> put16 bo (resetStreamsStreamListOff + 2 * i) sid b;
     putStreams bo (i + 1) sids b'
   }"

definition encodeResetStreams :: "target \<Rightarrow> AssocID \<Rightarrow> ResetDirection \<Rightarrow> u16 list \<Rightarrow> (goerr + bytes) option" where
  "encodeResetStreams T assoc dir streams =
     (if and_not dir (ResetIncoming OR ResetOutgoing) \<noteq> 0 then refusal_of ''ResetStreams: direction %#x has unknown bits''
      else if dir = 0 then refusal_of ''ResetStreams: the direction needs at least one of ResetIncoming and ResetOutgoing''
      else if length streams > 65535 then refusal_of ''ResetStreams: %d streams exceeds the %d a request can name''
      else do {
        let b0 = replicate (sizeResetStreams + 2 * length streams) 0;
        b1 \<leftarrow> put32 (native T) resetStreamsAssocIDOff assoc b0;
        b2 \<leftarrow> put16 (native T) resetStreamsFlagsOff dir b1;
        b3 \<leftarrow> put16 (native T) resetStreamsNumStreamsOff (of_nat (length streams)) b2;
        b4 \<leftarrow> putStreams (native T) 0 streams b3;
        Some (Inr b4)
      })"

definition validateStatusPolicy :: "string \<Rightarrow> PRPolicy \<Rightarrow> goerr option" where
  "validateStatusPolicy name p =
     (if p = PRTTL \<or> p = PRRtx \<or> p = PRPrio \<or> p = PRAll then None
      else Some (InvalidArg (name @ '': policy %v is not PRTTL, PRRtx, PRPrio or PRAll'')))"

definition prStatusRequest :: "target \<Rightarrow> bytes \<Rightarrow> AssocID \<Rightarrow> u16 \<Rightarrow> PRPolicy \<Rightarrow> bytes option" where
  "prStatusRequest T b assoc stream policy = do {
     b0 \<leftarrow> cleared sizePRStatus b;
     b1 \<leftarrow> put32 (native T) prStatusAssocIDOff assoc b0;
     b2 \<leftarrow> put16 (native T) prStatusStreamOff stream b1;
     put16 (native T) prStatusPolicyOff policy b2
   }"

definition decodePRStatus :: "target \<Rightarrow> bytes \<Rightarrow> PRStatus option" where
  "decodePRStatus T b = do {
     u \<leftarrow> get64 (native T) b prStatusAbandonedUnsentOff;
     s \<leftarrow> get64 (native T) b prStatusAbandonedSentOff;
     Some \<lparr>prs_AbandonedUnsent = u, prs_AbandonedSent = s\<rparr>
   }"

end
