(* ===== verification/OptionsProps.thy ===== *)
theory OptionsProps
  imports Options ConfigProps Notifications
begin

unbundle bit_operations_syntax

text \<open>
  What the option structs promise: the round trips of every request and reply that has both an
  encoder and a decoder, what the encoders refuse, the replies and requests that carry a list,
  both layouts of the word-size-dependent structs, and the scope of a link-local path.
\<close>

section \<open>Shared facts\<close>

lemma cleared_in_range [no_panic]: "n \<le> length b \<Longrightarrow> cleared n b = Some (replicate n 0)"
  by (simp add: cleared_def)

lemma copy_into_in_range [no_panic]:
  "i \<le> j \<Longrightarrow> j \<le> length b \<Longrightarrow> copy_into i j src b = Some (splice i (go_copy (slice i (j - i) b) src) b)"
  by (simp add: copy_into_def no_panic min_def)

lemma go_copy_fits: "length src \<le> length dst \<Longrightarrow> take (length src) (go_copy dst src) = src"
  by (simp add: go_copy_def)

lemma slice_take_splice:
  assumes "n \<le> length bs" "off + length bs \<le> length b"
  shows "slice off n (splice off bs b) = take n bs"
proof -
  have "slice off n (splice off bs b) = slice 0 n (slice off (length bs) (splice off bs b))"
    using assms by (simp add: slice_slice)
  also have "\<dots> = take n bs" using assms by (simp add: codec_rw) (simp add: slice_def)
  finally show ?thesis .
qed

lemma has_flag_OR [simp]: "has_flag (a OR b) m \<longleftrightarrow> has_flag a m \<or> has_flag b m"
  by (auto simp: has_flag_def bit_eq_iff bit_and_iff bit_or_iff)

lemma andThen_simps [simp]:
  "andThen None f = None" "andThen (Some (Inl e)) f = Some (Inl e)" "andThen (Some (Inr x)) f = f x"
  by (simp_all add: andThen_def)

lemma le_dec_zeros [simp]: "le_dec (replicate n 0) = 0"
  by (induction n) simp_all

lemma rd_zeros [codec_rw]:
  "rd16 bo (replicate n 0) off = 0" "rd32 bo (replicate n 0) off = 0" "rd64 bo (replicate n 0) off = 0"
  by (simp_all add: rd16_def rd32_def rd64_def slice_def dec_int_def in_order_def take_replicate split: byte_order.splits)

text \<open>A duration the kernel's millisecond fields hold, and its count.\<close>

definition whole_ms :: "int \<Rightarrow> bool" where
  "whole_ms d \<longleftrightarrow> 0 \<le> d \<and> d mod Millisecond = 0 \<and> d div Millisecond \<le> MaxUint32"

definition to_ms :: "int \<Rightarrow> u32" where
  "to_ms d = of_int (d div Millisecond)"

definition refused :: "(goerr + 'a) option \<Rightarrow> bool" where
  "refused r \<longleftrightarrow> (\<exists>m. r = Some (Inl (InvalidArg m)))"

lemma refused_refusal_of [simp]: "refused (refusal_of m)" "refused (Some (Inl (InvalidArg m)))"
  by (simp_all add: refused_def refusal_of_def)

lemma refused_andThen [intro]: "refused r \<Longrightarrow> refused (andThen r f)"
  by (auto simp: refused_def)

lemma durationToMillis_whole [simp]:
  "whole_ms d \<Longrightarrow> durationToMillis f d MaxUint32 = Some (Inr (to_ms d))"
  "\<not> whole_ms d \<Longrightarrow> refused (durationToMillis f d MaxUint32)"
  by (auto simp: durationToMillis_def whole_ms_def to_ms_def Let_def)

lemma millisToDuration_to_ms: "whole_ms d \<Longrightarrow> millisToDuration (to_ms d) = d"
proof -
  assume w: "whole_ms d"
  have "durationToMillis [] d MaxUint32 = Some (Inr (to_ms d))"
    using w by (simp add: durationToMillis_def whole_ms_def to_ms_def Let_def)
  then show ?thesis by (simp add: durationToMillis_exact)
qed

text \<open>The optional writes of a request.\<close>

definition set_opt :: "nat \<Rightarrow> bytes option \<Rightarrow> bytes \<Rightarrow> bytes" where
  "set_opt off v b = (case v of None \<Rightarrow> b | Some bs \<Rightarrow> splice off bs b)"

definition enc16_opt :: "byte_order \<Rightarrow> u16 option \<Rightarrow> bytes option" where
  "enc16_opt bo v = map_option (enc_int bo) v"

definition enc32_opt :: "byte_order \<Rightarrow> u32 option \<Rightarrow> bytes option" where
  "enc32_opt bo v = map_option (enc_int bo) v"

lemma length_set_opt [simp]:
  "off + 2 \<le> length b \<Longrightarrow> length (set_opt off (enc16_opt bo x) b) = length b"
  "off + 4 \<le> length b \<Longrightarrow> length (set_opt off (enc32_opt bo w) b) = length b"
  by (auto simp: set_opt_def enc16_opt_def enc32_opt_def split: option.splits)

lemma rd_set_opt [codec_rw]:
  "off + 2 \<le> length b \<Longrightarrow> rd16 bo (set_opt off (enc16_opt bo x) b) off = (case x of None \<Rightarrow> rd16 bo b off | Some v \<Rightarrow> v)"
  "off + 4 \<le> length b \<Longrightarrow> rd32 bo (set_opt off (enc32_opt bo w) b) off = (case w of None \<Rightarrow> rd32 bo b off | Some v \<Rightarrow> v)"
  by (auto simp: set_opt_def enc16_opt_def enc32_opt_def codec_rw split: option.splits)

lemma rd_set_opt_other [codec_rw]:
  "off' + 2 \<le> off \<or> off + 2 \<le> off' \<Longrightarrow> off + 2 \<le> length b \<Longrightarrow>
     rd16 bo (set_opt off (enc16_opt bo x) b) off' = rd16 bo b off'"
  "off' + 4 \<le> off \<or> off + 2 \<le> off' \<Longrightarrow> off + 2 \<le> length b \<Longrightarrow>
     rd32 bo (set_opt off (enc16_opt bo x) b) off' = rd32 bo b off'"
  "off' + 2 \<le> off \<or> off + 4 \<le> off' \<Longrightarrow> off + 4 \<le> length b \<Longrightarrow>
     rd16 bo (set_opt off (enc32_opt bo w) b) off' = rd16 bo b off'"
  "off' + 4 \<le> off \<or> off + 4 \<le> off' \<Longrightarrow> off + 4 \<le> length b \<Longrightarrow>
     rd32 bo (set_opt off (enc32_opt bo w) b) off' = rd32 bo b off'"
  by (auto simp: set_opt_def enc16_opt_def enc32_opt_def codec_rw split: option.splits)

section \<open>Path parameters\<close>

text \<open>What \<open>encodePathParams\<close> accepts: each value with the switch Linux needs to apply it, and
  in the range Linux does not read as "unchanged" or mask away.\<close>

definition valid_heartbeat :: "PathParams \<Rightarrow> bool" where
  "valid_heartbeat p \<longleftrightarrow> (case pp_HeartbeatInterval p of None \<Rightarrow> True | Some d \<Rightarrow> pp_Heartbeat p = Some True \<and> whole_ms d)"

definition valid_retrans :: "PathParams \<Rightarrow> bool" where
  "valid_retrans p \<longleftrightarrow> pp_PathMaxRetrans p \<noteq> Some 0"

definition valid_mtu :: "PathParams \<Rightarrow> bool" where
  "valid_mtu p \<longleftrightarrow> (case pp_PathMTU p of None \<Rightarrow> True | Some v \<Rightarrow> pp_PMTUD p = Some False \<and> 512 \<le> v)"

definition valid_sack :: "PathParams \<Rightarrow> bool" where
  "valid_sack p \<longleftrightarrow> (case pp_SACKDelay p of None \<Rightarrow> True
     | Some d \<Rightarrow> pp_DelayedSACK p = Some True \<and> whole_ms d \<and> 0 < to_ms d \<and> to_ms d \<le> 500)"

definition valid_label :: "PathParams \<Rightarrow> bool" where
  "valid_label p \<longleftrightarrow> (case pp_IPv6FlowLabel p of None \<Rightarrow> True | Some v \<Rightarrow> v < 2 ^ 20)"

definition valid_dscp :: "PathParams \<Rightarrow> bool" where
  "valid_dscp p \<longleftrightarrow> (case pp_DSCP p of None \<Rightarrow> True | Some v \<Rightarrow> v mod 4 = 0)"

definition valid_path_params :: "PathParams \<Rightarrow> bool" where
  "valid_path_params p \<longleftrightarrow> valid_heartbeat p \<and> valid_retrans p \<and> valid_mtu p \<and> valid_sack p \<and> valid_label p \<and> valid_dscp p"

lemma and_not_label: "and_not (v :: u32) 1048575 = 0 \<longleftrightarrow> v < 1048576"
proof -
  have "(1048575 :: u32) = mask 20" by (simp add: mask_eq_exp_minus_1)
  then have "and_not v 1048575 = 0 \<longleftrightarrow> take_bit 20 v = v"
    by (simp add: and_not_zero_iff take_bit_eq_mask)
  also have "\<dots> \<longleftrightarrow> unat v mod 2 ^ 20 = unat v"
    by (simp add: take_bit_eq_mod word_unat_eq_iff unat_mod)
  also have "\<dots> \<longleftrightarrow> v < 1048576"
    by (simp add: word_less_nat_alt mod_eq_self_iff_div_eq_0 div_eq_0_iff)
  finally show ?thesis .
qed

lemma and_not_dscp: "and_not (v :: byte) 252 = 0 \<longleftrightarrow> v mod 4 = 0"
proof -
  have n: "NOT (252 :: byte) = 3" by (simp add: word_unat_eq_iff)
  have "and_not v 252 = v AND mask 2" unfolding and_not_def n by (simp add: mask_eq_exp_minus_1)
  also have "\<dots> = v mod 4" using take_bit_eq_mask [of 2 v] by (simp add: take_bit_eq_mod)
  finally show ?thesis by simp
qed

definition flag_if :: "bool \<Rightarrow> u32 \<Rightarrow> u32 \<Rightarrow> u32" where
  "flag_if c m flags = (if c then flags OR m else flags)"

definition switch_bits :: "bool option \<Rightarrow> u32 \<Rightarrow> u32 \<Rightarrow> u32 \<Rightarrow> u32" where
  "switch_bits sw e d flags = flag_if (sw = Some False) d (flag_if (sw = Some True) e flags)"

lemma has_flag_if [simp]: "has_flag (flag_if c m flags) k \<longleftrightarrow> c \<and> has_flag m k \<or> has_flag flags k"
  by (auto simp: flag_if_def)

lemma steps_valid:
  assumes "length b = sizePathParams"
  shows "switchStep sw e d (flags, b) = Some (Inr (switch_bits sw e d flags, b))"
    "valid_heartbeat p \<Longrightarrow> heartbeatStep T p field (flags, b) = Some (Inr (flag_if (pp_HeartbeatInterval p = Some 0) sppHBTimeIsZero flags,
        set_opt 132 (enc32_opt (native T) (map_option to_ms (pp_HeartbeatInterval p))) b))"
    "valid_retrans p \<Longrightarrow> retransStep T p field (flags, b) = Some (Inr (flags,
        set_opt 136 (enc16_opt (native T) (pp_PathMaxRetrans p)) b))"
    "valid_mtu p \<Longrightarrow> mtuStep T p field (flags, b) = Some (Inr (flags, set_opt 138 (enc32_opt (native T) (pp_PathMTU p)) b))"
    "valid_sack p \<Longrightarrow> sackStep T p field (flags, b) = Some (Inr (flags,
        set_opt 142 (enc32_opt (native T) (map_option to_ms (pp_SACKDelay p))) b))"
    "valid_label p \<Longrightarrow> labelStep T p field (flags, b) = Some (Inr (flag_if (pp_IPv6FlowLabel p \<noteq> None) sppIPv6FlowLabel flags,
        set_opt 150 (enc32_opt (native T) (pp_IPv6FlowLabel p)) b))"
    "valid_dscp p \<Longrightarrow> dscpStep p field (flags, b) = Some (Inr (flag_if (pp_DSCP p \<noteq> None) sppDSCP flags,
        set_opt 154 (map_option (\<lambda>v. [v]) (pp_DSCP p)) b))"
proof -
  have z: "whole_ms d \<Longrightarrow> (to_ms d = 0) = (d = 0)" for d
    using millisToDuration_to_ms [of d] by (auto simp: millisToDuration_def to_ms_def)
  show "switchStep sw e d (flags, b) = Some (Inr (switch_bits sw e d flags, b))"
    by (auto simp: switchStep_def switch_bits_def flag_if_def onOff_def split: option.splits)
  show "valid_heartbeat p \<Longrightarrow> heartbeatStep T p field (flags, b) = Some (Inr (flag_if (pp_HeartbeatInterval p = Some 0) sppHBTimeIsZero flags,
        set_opt 132 (enc32_opt (native T) (map_option to_ms (pp_HeartbeatInterval p))) b))"
    using assms by (auto simp: heartbeatStep_def valid_heartbeat_def set_opt_def enc32_opt_def wrote_def no_panic z flag_if_def
      split: option.splits)
qed (use assms in \<open>auto simp: retransStep_def valid_retrans_def mtuStep_def valid_mtu_def sackStep_def valid_sack_def labelStep_def
  valid_label_def dscpStep_def valid_dscp_def and_not_label and_not_dscp set_opt_def enc32_opt_def enc16_opt_def wrote_def no_panic
  flag_if_def not_less not_le split: option.splits\<close>)

lemma refused_durations:
  "\<not> whole_ms d \<or> (\<forall>ms. ms = to_ms d \<longrightarrow> refused (f ms)) \<Longrightarrow> refused (andThen (durationToMillis g d MaxUint32) f)"
  by (cases "whole_ms d") auto

lemma steps_invalid:
  "\<not> valid_heartbeat p \<Longrightarrow> refused (heartbeatStep T p field s)"
  "\<not> valid_retrans p \<Longrightarrow> refused (retransStep T p field s)"
  "\<not> valid_mtu p \<Longrightarrow> refused (mtuStep T p field s)"
  "\<not> valid_sack p \<Longrightarrow> refused (sackStep T p field s)"
  "\<not> valid_label p \<Longrightarrow> refused (labelStep T p field s)"
  "\<not> valid_dscp p \<Longrightarrow> refused (dscpStep p field s)"
  by (auto simp: heartbeatStep_def valid_heartbeat_def retransStep_def valid_retrans_def mtuStep_def valid_mtu_def
    sackStep_def valid_sack_def labelStep_def valid_label_def dscpStep_def valid_dscp_def and_not_label and_not_dscp
    not_less not_le refused_durations split: option.splits prod.splits)

text \<open>The flags and the bytes of an accepted request.\<close>

definition path_flags :: "PathParams \<Rightarrow> u32" where
  "path_flags p =
     flag_if (pp_DSCP p \<noteq> None) 512 (flag_if (pp_IPv6FlowLabel p \<noteq> None) 256
       (switch_bits (pp_DelayedSACK p) 32 64 (switch_bits (pp_PMTUD p) 8 16
         (flag_if (pp_HeartbeatInterval p = Some 0) 128 (switch_bits (pp_Heartbeat p) 1 2 0)))))"

definition path_fields :: "byte_order \<Rightarrow> PathParams \<Rightarrow> bytes" where
  "path_fields bo p =
     set_opt 154 (map_option (\<lambda>v. [v]) (pp_DSCP p)) (set_opt 150 (enc32_opt bo (pp_IPv6FlowLabel p))
       (set_opt 142 (enc32_opt bo (map_option to_ms (pp_SACKDelay p))) (set_opt 138 (enc32_opt bo (pp_PathMTU p))
         (set_opt 136 (enc16_opt bo (pp_PathMaxRetrans p))
           (set_opt 132 (enc32_opt bo (map_option to_ms (pp_HeartbeatInterval p))) (replicate 156 0))))))"

lemma length_set_byte [simp]: "off < length b \<Longrightarrow> length (set_opt off (map_option (\<lambda>v. [v]) x) b) = length b"
  by (cases x) (simp_all add: set_opt_def)

lemma set_byte_reads [codec_rw]:
  "off < length b \<Longrightarrow> off' + 2 \<le> off \<or> off < off' \<Longrightarrow> rd16 bo (set_opt off (map_option (\<lambda>v. [v]) x) b) off' = rd16 bo b off'"
  "off < length b \<Longrightarrow> off' + 4 \<le> off \<or> off < off' \<Longrightarrow> rd32 bo (set_opt off (map_option (\<lambda>v. [v]) x) b) off' = rd32 bo b off'"
  by (auto simp: set_opt_def codec_rw split: option.splits)

lemma length_path_fields [simp]: "length (path_fields bo p) = 156"
  by (simp add: path_fields_def)

lemma encodePathParams_valid:
  assumes "valid_path_params p" "sizePathParams \<le> length b" "length addr \<le> sizeSockaddrStorage"
  shows "encodePathParams T b assoc addr p field = Some (Inr
     (splice 146 (enc_int (native T) (path_flags p))
       (splice 4 (go_copy (slice 4 128 (splice 0 (enc_int (native T) assoc) (path_fields (native T) p))) addr)
         (splice 0 (enc_int (native T) assoc) (path_fields (native T) p)))))"
proof -
  have v: "valid_heartbeat p" "valid_retrans p" "valid_mtu p" "valid_sack p" "valid_label p" "valid_dscp p"
    using assms(1) by (simp_all add: valid_path_params_def)
  have len: "length (path_fields (native T) p) = sizePathParams" by simp
  have "encodePathParams T b assoc addr p field =
      do { b10 \<leftarrow> pathTarget T assoc addr (path_flags p) (path_fields (native T) p); Some (Inr b10) }"
    using assms(2) by (simp add: encodePathParams_def no_panic steps_valid v path_flags_def path_fields_def)
  then show ?thesis using assms(3) by (simp add: pathTarget_def no_panic)
qed

lemma encodePathParams_invalid:
  assumes "\<not> valid_path_params p" "sizePathParams \<le> length b"
  shows "refused (encodePathParams T b assoc addr p field)"
proof -
  consider "\<not> valid_heartbeat p" | "valid_heartbeat p" "\<not> valid_retrans p"
    | "valid_heartbeat p" "valid_retrans p" "\<not> valid_mtu p"
    | "valid_heartbeat p" "valid_retrans p" "valid_mtu p" "\<not> valid_sack p"
    | "valid_heartbeat p" "valid_retrans p" "valid_mtu p" "valid_sack p" "\<not> valid_label p"
    | "valid_heartbeat p" "valid_retrans p" "valid_mtu p" "valid_sack p" "valid_label p" "\<not> valid_dscp p"
    using assms(1) by (auto simp: valid_path_params_def)
  then show ?thesis
    by cases (use assms(2) in \<open>simp_all add: encodePathParams_def no_panic steps_valid steps_invalid refused_andThen\<close>)
qed

lemma nth_slice: "off < length b \<Longrightarrow> b ! off = hd (slice off 1 b)"
  by (simp add: slice_def hd_drop_conv_nth)

lemma set_byte_nth [codec_rw]: "off < length b \<Longrightarrow> set_opt off (Some [w]) b ! off = w"
  by (simp add: set_opt_def nth_slice codec_rw)

text \<open>What the fields of the request hold.\<close>

lemma path_fields_reads:
  "pp_HeartbeatInterval p = Some d \<Longrightarrow> rd32 bo (path_fields bo p) 132 = to_ms d"
  "pp_PathMaxRetrans p = Some n \<Longrightarrow> rd16 bo (path_fields bo p) 136 = n"
  "pp_PathMTU p = Some v \<Longrightarrow> rd32 bo (path_fields bo p) 138 = v"
  "pp_SACKDelay p = Some d \<Longrightarrow> rd32 bo (path_fields bo p) 142 = to_ms d"
  "pp_IPv6FlowLabel p = Some v \<Longrightarrow> rd32 bo (path_fields bo p) 150 = v"
  "pp_DSCP p = Some w \<Longrightarrow> path_fields bo p ! 154 = w"
  by (simp_all add: path_fields_def codec_rw)

text \<open>A readback keeps what was asked for.\<close>

definition keeps :: "'a option \<Rightarrow> 'a option \<Rightarrow> bool" where
  "keeps asked got \<longleftrightarrow> (case asked of None \<Rightarrow> True | Some v \<Rightarrow> got = Some v)"

definition reads_back :: "PathParams \<Rightarrow> PathParams \<Rightarrow> bool" where
  "reads_back p q \<longleftrightarrow> keeps (pp_Heartbeat p) (pp_Heartbeat q) \<and> keeps (pp_HeartbeatInterval p) (pp_HeartbeatInterval q) \<and>
     keeps (pp_PathMaxRetrans p) (pp_PathMaxRetrans q) \<and> keeps (pp_PMTUD p) (pp_PMTUD q) \<and>
     keeps (pp_PathMTU p) (pp_PathMTU q) \<and> keeps (pp_DelayedSACK p) (pp_DelayedSACK q) \<and>
     keeps (pp_SACKDelay p) (pp_SACKDelay q) \<and> pp_IPv6FlowLabel q = pp_IPv6FlowLabel p \<and> pp_DSCP q = pp_DSCP p"

text \<open>A switch that was not named is left alone: neither of its bits is set.\<close>

definition switch_named :: "u32 \<Rightarrow> bool option \<Rightarrow> u32 \<Rightarrow> u32 \<Rightarrow> bool" where
  "switch_named flags sw e d \<longleftrightarrow> has_flag flags e = (sw = Some True) \<and> has_flag flags d = (sw = Some False)"

lemma path_flags_named:
  "switch_named (path_flags p) (pp_Heartbeat p) sppHBEnable sppHBDisable"
  "switch_named (path_flags p) (pp_PMTUD p) sppPMTUDEnable sppPMTUDDisable"
  "switch_named (path_flags p) (pp_DelayedSACK p) sppSACKDelayEnable sppSACKDelayDisable"
  "has_flag (path_flags p) sppHBTimeIsZero = (pp_HeartbeatInterval p = Some 0)"
  "has_flag (path_flags p) sppIPv6FlowLabel = (pp_IPv6FlowLabel p \<noteq> None)"
  "has_flag (path_flags p) sppDSCP = (pp_DSCP p \<noteq> None)"
  "\<not> has_flag (path_flags p) sppHBDemand"
  by (simp_all add: switch_named_def path_flags_def switch_bits_def) (simp_all add: has_flag_def)

lemma encodePathParams_reads:
  assumes "valid_path_params p" "sizePathParams \<le> length b" "length addr \<le> sizeSockaddrStorage"
  shows "\<exists>r q. encodePathParams T b assoc addr p field = Some (Inr r) \<and>
       length r = sizePathParams \<and> rd32 (native T) r pathParamsAssocIDOff = assoc \<and>
       slice pathParamsAddressOff (length addr) r = addr \<and>
       decodePathParams T r = Some q \<and> reads_back p q \<and>
       (let flags = rd32 (native T) r pathParamsFlagsOff in
          switch_named flags (pp_Heartbeat p) sppHBEnable sppHBDisable \<and>
          switch_named flags (pp_PMTUD p) sppPMTUDEnable sppPMTUDDisable \<and>
          switch_named flags (pp_DelayedSACK p) sppSACKDelayEnable sppSACKDelayDisable \<and>
          has_flag flags sppHBTimeIsZero = (pp_HeartbeatInterval p = Some 0) \<and> \<not> has_flag flags sppHBDemand)"
proof -
  let ?bo = "native T"
  define f where "f = path_fields ?bo p"
  define b1 where "b1 = splice 0 (enc_int ?bo assoc) f"
  define b2 where "b2 = splice 4 (go_copy (slice 4 128 b1) addr) b1"
  define r where "r = splice 146 (enc_int ?bo (path_flags p)) b2"
  have enc: "encodePathParams T b assoc addr p field = Some (Inr r)"
    using encodePathParams_valid [OF assms] by (simp add: r_def b2_def b1_def f_def)
  have len: "length f = 156" "length b1 = 156" "length b2 = 156" "length r = 156"
    by (simp_all add: f_def b1_def b2_def r_def)
  have rd: "rd32 ?bo r 146 = path_flags p" "rd32 ?bo r 0 = assoc"
    using len by (simp_all add: r_def b2_def b1_def codec_rw)
  have fields: "rd32 ?bo r 132 = rd32 ?bo f 132" "rd16 ?bo r 136 = rd16 ?bo f 136" "rd32 ?bo r 138 = rd32 ?bo f 138"
    "rd32 ?bo r 142 = rd32 ?bo f 142" "rd32 ?bo r 150 = rd32 ?bo f 150"
    using len by (simp_all add: r_def b2_def b1_def codec_rw)
  have dscp: "r ! 154 = f ! 154"
    using len by (simp add: nth_slice [of 154]) (simp add: r_def b2_def b1_def codec_rw)
  have addr: "slice 4 (length addr) r = addr"
    using len assms(3) by (simp add: r_def codec_rw) (simp add: b2_def slice_take_splice go_copy_fits)
  have ms: "valid_heartbeat p" "valid_sack p" using assms(1) by (simp_all add: valid_path_params_def)
  define q where "q = \<lparr>pp_Heartbeat = Some (pp_Heartbeat p = Some True),
     pp_HeartbeatInterval = Some (millisToDuration (rd32 ?bo f 132)), pp_PathMaxRetrans = Some (rd16 ?bo f 136),
     pp_PMTUD = Some (pp_PMTUD p = Some True), pp_PathMTU = Some (rd32 ?bo f 138),
     pp_DelayedSACK = Some (pp_DelayedSACK p = Some True), pp_SACKDelay = Some (millisToDuration (rd32 ?bo f 142)),
     pp_IPv6FlowLabel = pp_IPv6FlowLabel p, pp_DSCP = pp_DSCP p\<rparr>"
  have "decodePathParams T r = Some q"
    using len rd fields dscp path_flags_named [of p, unfolded switch_named_def]
    by (cases "pp_IPv6FlowLabel p"; cases "pp_DSCP p")
      (simp_all add: decodePathParams_def no_panic get8_def path_fields_reads f_def q_def)
  moreover have "reads_back p q"
    using ms by (auto simp: reads_back_def keeps_def q_def f_def path_fields_reads millisToDuration_to_ms
      valid_heartbeat_def valid_sack_def split: option.splits)
  ultimately show ?thesis using enc len rd addr path_flags_named [of p] by (simp add: Let_def)
qed

text \<open>C29: \<open>encodePathParams\<close> neither panics nor lets anything through that Linux would silently ignore: it
  accepts exactly the parameters that are valid together, refuses the others with EINVAL, and
  what it writes for an accepted one names the association and the path, reads back as every
  value that was asked for, and sets neither bit of a switch that was not.\<close>

theorem path_params_roundtrip:
  assumes "sizePathParams \<le> length b" "length addr \<le> sizeSockaddrStorage"
  shows "(\<exists>m. encodePathParams T b assoc addr p field = Some (Inl (InvalidArg m))) = (\<not> valid_path_params p) \<and>
    (valid_path_params p \<longrightarrow> (\<exists>r q. encodePathParams T b assoc addr p field = Some (Inr r) \<and>
       length r = sizePathParams \<and> rd32 (native T) r pathParamsAssocIDOff = assoc \<and>
       slice pathParamsAddressOff (length addr) r = addr \<and>
       decodePathParams T r = Some q \<and> reads_back p q \<and>
       (let flags = rd32 (native T) r pathParamsFlagsOff in
          switch_named flags (pp_Heartbeat p) sppHBEnable sppHBDisable \<and>
          switch_named flags (pp_PMTUD p) sppPMTUDEnable sppPMTUDDisable \<and>
          switch_named flags (pp_DelayedSACK p) sppSACKDelayEnable sppSACKDelayDisable \<and>
          has_flag flags sppHBTimeIsZero = (pp_HeartbeatInterval p = Some 0) \<and> \<not> has_flag flags sppHBDemand)))"
proof (cases "valid_path_params p")
  case False
  then show ?thesis using encodePathParams_invalid [OF False assms(1), of T assoc addr field] by (auto simp: refused_def)
next
  case True
  then show ?thesis using encodePathParams_reads [OF True assms, of T assoc field] by auto
qed

theorem path_params_roundtrip_witness:
  "\<exists>r q. encodePathParams s390x (replicate 200 7) 5 [2, 0] (PathParams_zero\<lparr>pp_Heartbeat := Some True, pp_HeartbeatInterval := Some 30000000000,
       pp_PMTUD := Some False, pp_PathMTU := Some 1400, pp_DSCP := Some 184\<rparr>) ''PathParams'' = Some (Inr r) \<and>
     decodePathParams s390x r = Some q \<and> pp_HeartbeatInterval q = Some 30000000000 \<and> pp_PathMTU q = Some 1400"
proof -
  let ?p = "PathParams_zero\<lparr>pp_Heartbeat := Some True, pp_HeartbeatInterval := Some 30000000000,
       pp_PMTUD := Some False, pp_PathMTU := Some 1400, pp_DSCP := Some 184\<rparr>"
  have "valid_path_params ?p"
    by (simp add: valid_path_params_def valid_heartbeat_def valid_retrans_def valid_mtu_def valid_sack_def valid_label_def
      valid_dscp_def whole_ms_def PathParams_zero_def Millisecond_def MaxUint32_def)
  then show ?thesis
    using path_params_roundtrip [of "replicate 200 7" "[2, 0]" s390x 5 ?p "''PathParams''"]
    by (auto simp: reads_back_def keeps_def)
qed

section \<open>The structs that embed a sockaddr_storage\<close>

definition stored_header :: "sockaddrStorageLayout \<Rightarrow> target \<Rightarrow> AssocID \<Rightarrow> bytes \<Rightarrow> nat \<Rightarrow> bytes" where
  "stored_header l T assoc addr n =
     (let b = splice 0 (enc_int (native T) assoc) (replicate n 0)
      in splice (addrOff l) (go_copy (slice (addrOff l) 128 b) addr) b)"

definition names :: "sockaddrStorageLayout \<Rightarrow> target \<Rightarrow> AssocID \<Rightarrow> bytes \<Rightarrow> bytes \<Rightarrow> bool" where
  "names l T assoc addr b \<longleftrightarrow> rd32 (native T) b 0 = assoc \<and> slice (addrOff l) (length addr) b = addr"

text \<open>What the code relies on of either layout: the association, the address and the values of each
  struct lie apart from each other and within its size.\<close>

locale storage_layout =
  fixes l :: sockaddrStorageLayout
  assumes addr_after_assoc: "4 \<le> addrOff l"
    and encaps_fits: "addrOff l + 128 \<le> sl_udpEncapsPortOff l" "sl_udpEncapsPortOff l + 2 \<le> sl_sizeUDPEncaps l"
    and interval_fits: "addrOff l + 128 \<le> probeIntervalOff l" "probeIntervalOff l + 4 \<le> sl_sizeProbeInterval l"
    and thresholds_fit: "addrOff l + 128 \<le> thresholdsMaxRetransOff l"
      "thresholdsMaxRetransOff l + 2 \<le> thresholdsPFOff l" "thresholdsPFOff l + 2 \<le> thresholdsSwitchoverOff l"
      "thresholdsSwitchoverOff l + 2 \<le> sl_sizePathThresholds l"
    and stats_fit: "addrOff l + 128 \<le> statsCountersOff l" "statsCountersOff l + 120 \<le> sl_sizeAssocStats l"
begin

lemma length_header [simp]: "addrOff l + 128 \<le> n \<Longrightarrow> length (stored_header l T assoc addr n) = n"
  using addr_after_assoc by (simp add: stored_header_def Let_def)

lemma storageHeader_eq:
  "addrOff l + 128 \<le> length b \<Longrightarrow> storageHeader T l b assoc addr = Some (stored_header l T assoc addr (length b))"
  using addr_after_assoc by (simp add: storageHeader_def no_panic stored_header_def Let_def)

lemma header_reads:
  assumes "addrOff l + 128 \<le> n"
  shows "rd32 (native T) (stored_header l T assoc addr n) 0 = assoc"
    "length addr \<le> 128 \<Longrightarrow> slice (addrOff l) (length addr) (stored_header l T assoc addr n) = addr"
  using assms addr_after_assoc by (simp_all add: stored_header_def Let_def codec_rw slice_take_splice go_copy_fits)

lemma names_header: "addrOff l + 128 \<le> n \<Longrightarrow> length addr \<le> 128 \<Longrightarrow> names l T assoc addr (stored_header l T assoc addr n)"
  by (simp add: names_def header_reads)

lemma names_splice:
  "names l T assoc addr b \<Longrightarrow> length addr \<le> 128 \<Longrightarrow> addrOff l + 128 \<le> off \<Longrightarrow> off + length bs \<le> length b \<Longrightarrow>
     names l T assoc addr (splice off bs b)"
  using addr_after_assoc by (simp add: names_def codec_rw)

lemma udpEncaps_reads:
  assumes "length addr \<le> 128" "sl_sizeUDPEncaps l \<le> length buf"
  shows "\<exists>b. udpEncaps T l buf assoc addr port = Some b \<and> length b = sl_sizeUDPEncaps l \<and> names l T assoc addr b \<and>
    udpEncapsPort l b = Some port"
  using assms encaps_fits
  by (simp add: udpEncaps_def no_panic storageHeader_eq names_splice names_header udpEncapsPort_def codec_rw)

lemma probeInterval_reads:
  assumes "length addr \<le> 128" "sl_sizeProbeInterval l \<le> length buf"
  shows "\<exists>b. probeInterval T l buf assoc addr ms = Some b \<and> length b = sl_sizeProbeInterval l \<and> names l T assoc addr b \<and>
    probeIntervalMS T l b = Some ms"
  using assms interval_fits
  by (simp add: probeInterval_def no_panic storageHeader_eq names_splice names_header probeIntervalMS_def codec_rw)

lemma pathThresholds_reads:
  assumes "length addr \<le> 128" "sl_sizePathThresholds l \<le> length buf"
  shows "\<exists>b. pathThresholds T l buf assoc addr v = Some b \<and> length b = sl_sizePathThresholds l \<and> names l T assoc addr b \<and>
    readThresholdValues T l b = Some v"
  using assms thresholds_fit
  by (simp add: pathThresholds_def no_panic storageHeader_eq names_splice names_header readThresholdValues_def codec_rw)

lemma assocStats_reads:
  assumes "sl_sizeAssocStats l \<le> length buf"
  shows "\<exists>b. assocStatsRequest T l buf assoc = Some b \<and> length b = sl_sizeAssocStats l \<and> names l T assoc [] b"
  using assms stats_fit by (simp add: assocStatsRequest_def no_panic storageHeader_eq names_header)

lemma assocStats_total:
  assumes "sl_sizeAssocStats l \<le> length b"
  shows "\<exists>s. assocStats T ifx l b = Some s"
proof -
  have "\<exists>a. storedAddr T ifx (addrOff l) b = Some a"
    using assms stats_fit decodeAddr_total [of T ifx "slice (addrOff l) 128 b"]
    by (auto simp: storedAddr_def no_panic simp del: split_paired_Ex)
  then show ?thesis using assms stats_fit by (auto simp: assocStats_def Let_def no_panic)
qed

end

interpretation k64: storage_layout kernel64StorageLayout
  by unfold_locales (simp_all add: kernel64StorageLayout_def)

lemma native_storage_layout: "wf_target T \<Longrightarrow> storage_layout (nativeStorageLayout T)"
  by (erule wf_target_cases; unfold_locales) (simp_all add: nativeStorageLayout_def)

text \<open>The four requests whose layout follows the word size survive the trip in either layout: on every
  target, and against a 64-bit kernel under a 32-bit build, each is laid out without a panic in
  exactly its struct's size, names its association and path, and reads back as what was set; and a
  reply of the size of the statistics decodes.\<close>

theorem storage_structs_roundtrip:
  assumes "wf_target T" "l = nativeStorageLayout T \<or> l = kernel64StorageLayout" "length addr \<le> sizeSockaddrStorage"
    and "sl_sizeUDPEncaps l \<le> length buf" "sl_sizeProbeInterval l \<le> length buf" "sl_sizePathThresholds l \<le> length buf"
    and "sl_sizeAssocStats l \<le> length buf"
  shows "(\<exists>b. udpEncaps T l buf assoc addr port = Some b \<and> length b = sl_sizeUDPEncaps l \<and> names l T assoc addr b \<and>
      udpEncapsPort l b = Some port) \<and>
    (\<exists>b. probeInterval T l buf assoc addr ms = Some b \<and> length b = sl_sizeProbeInterval l \<and> names l T assoc addr b \<and>
      probeIntervalMS T l b = Some ms) \<and>
    (\<exists>b. pathThresholds T l buf assoc addr v = Some b \<and> length b = sl_sizePathThresholds l \<and> names l T assoc addr b \<and>
      readThresholdValues T l b = Some v) \<and>
    (\<exists>b. assocStatsRequest T l buf assoc = Some b \<and> length b = sl_sizeAssocStats l \<and> names l T assoc [] b) \<and>
    (\<exists>s. assocStats T ifx l buf = Some s)"
proof -
  have sl: "storage_layout l" using assms(1,2) native_storage_layout k64.storage_layout_axioms by blast
  have len: "length addr \<le> 128" using assms(3) by simp
  show ?thesis
    using storage_layout.udpEncaps_reads [OF sl len assms(4)] storage_layout.probeInterval_reads [OF sl len assms(5)]
      storage_layout.pathThresholds_reads [OF sl len assms(6)] storage_layout.assocStats_reads [OF sl assms(7)]
      storage_layout.assocStats_total [OF sl assms(7)]
    by simp
qed

theorem storage_structs_roundtrip_witness:
  "\<exists>b. udpEncaps i386 kernel64StorageLayout (replicate 400 9) 3 [2, 0, 0, 0] 9899 = Some b \<and> length b = 144 \<and>
     udpEncapsPort kernel64StorageLayout b = Some 9899"
  using storage_structs_roundtrip [of i386 kernel64StorageLayout "[2, 0, 0, 0]" "replicate 400 9" 3 9899]
  by (simp add: kernel64StorageLayout_def) blast

text \<open>The layout is asked for until the kernel has answered, and never again: an answer is recorded
  and kept, an unrelated error records nothing.\<close>

definition layout_of :: "target \<Rightarrow> u32 \<Rightarrow> sockaddrStorageLayout" where
  "layout_of T cache = (if cache = storageLayoutKernel64 then kernel64StorageLayout else nativeStorageLayout T)"

lemma selectStorageLayout_keeps:
  assumes "selectStorageLayout T cache probe = (r, cache', asked)" "cache \<le> storageLayoutKernel64"
  shows "cache' \<le> storageLayoutKernel64"
    "case r of Inr l \<Rightarrow> cache' \<noteq> storageLayoutUnknown \<and> l = layout_of T cache' \<and>
         selectStorageLayout T cache' probe' = (Inr l, cache', False)
     | Inl e \<Rightarrow> cache = storageLayoutUnknown \<and> cache' = cache \<and> probe = Some e"
proof -
  have "unat cache \<le> 2" using assms(2) by (simp add: word_le_nat_alt)
  then have "unat cache = 0 \<or> unat cache = 1 \<or> unat cache = 2" by arith
  then have "cache = 0 \<or> cache = 1 \<or> cache = 2" by (simp add: word_unat_eq_iff)
  with assms show "cache' \<le> storageLayoutKernel64"
    "case r of Inr l \<Rightarrow> cache' \<noteq> storageLayoutUnknown \<and> l = layout_of T cache' \<and>
         selectStorageLayout T cache' probe' = (Inr l, cache', False)
     | Inl e \<Rightarrow> cache = storageLayoutUnknown \<and> cache' = cache \<and> probe = Some e"
    by (auto simp: selectStorageLayout_def layout_of_def split: option.splits if_splits)
qed

section \<open>Association structs\<close>

definition valid_rto :: "RTOInfo \<Rightarrow> bool" where
  "valid_rto r \<longleftrightarrow> whole_ms (rto_Initial r) \<and> whole_ms (rto_Max r) \<and> whole_ms (rto_Min r) \<and>
     (rto_Min r = 0 \<or> rto_Max r = 0 \<or> rto_Min r \<le> rto_Max r)"

definition valid_delay :: "DelayedSACK \<Rightarrow> bool" where
  "valid_delay d \<longleftrightarrow> whole_ms (ds_Delay d) \<and> ds_Delay d \<le> 500 * Millisecond"

lemma to_ms_zero: "whole_ms d \<Longrightarrow> to_ms d = 0 \<longleftrightarrow> d = 0"
  using millisToDuration_to_ms [of d] by (auto simp: millisToDuration_def to_ms_def)

lemma uint_to_ms: "whole_ms d \<Longrightarrow> d = uint (to_ms d) * Millisecond"
  using millisToDuration_to_ms [of d] by (simp add: millisToDuration_def)

lemma to_ms_less: "whole_ms d \<Longrightarrow> whole_ms e \<Longrightarrow> to_ms d < to_ms e \<longleftrightarrow> d < e"
proof -
  assume w: "whole_ms d" "whole_ms e"
  have "to_ms d < to_ms e \<longleftrightarrow> uint (to_ms d) * Millisecond < uint (to_ms e) * Millisecond"
    by (simp add: word_less_def Millisecond_def)
  then show ?thesis using uint_to_ms [OF w(1)] uint_to_ms [OF w(2)] by simp
qed

lemma to_ms_above_500: "whole_ms d \<Longrightarrow> 500 < to_ms d \<longleftrightarrow> 500 * Millisecond < d"
proof -
  assume w: "whole_ms d"
  have "500 < to_ms d \<longleftrightarrow> 500 < uint (to_ms d)" by (simp add: word_less_def)
  moreover have "500 < uint (to_ms d) \<longleftrightarrow> 500 * Millisecond < uint (to_ms d) * Millisecond" by (simp add: Millisecond_def)
  ultimately show ?thesis using uint_to_ms [OF w] by simp
qed

lemma encodeRTOInfo_eq:
  assumes "sizeRTOInfo \<le> length b"
  shows "valid_rto r \<Longrightarrow> encodeRTOInfo T b assoc r field = Some (Inr
      (splice 12 (enc_int (native T) (to_ms (rto_Min r))) (splice 8 (enc_int (native T) (to_ms (rto_Max r)))
        (splice 4 (enc_int (native T) (to_ms (rto_Initial r))) (splice 0 (enc_int (native T) assoc) (take 16 b))))))"
    "\<not> valid_rto r \<Longrightarrow> refused (encodeRTOInfo T b assoc r field)"
proof -
  show "valid_rto r \<Longrightarrow> encodeRTOInfo T b assoc r field = Some (Inr
      (splice 12 (enc_int (native T) (to_ms (rto_Min r))) (splice 8 (enc_int (native T) (to_ms (rto_Max r)))
        (splice 4 (enc_int (native T) (to_ms (rto_Initial r))) (splice 0 (enc_int (native T) assoc) (take 16 b))))))"
    using assms by (auto simp: encodeRTOInfo_def valid_rto_def to_ms_zero to_ms_less no_panic slice_def)
  show "\<not> valid_rto r \<Longrightarrow> refused (encodeRTOInfo T b assoc r field)"
    by (cases "whole_ms (rto_Initial r)"; cases "whole_ms (rto_Max r)"; cases "whole_ms (rto_Min r)")
      (auto simp: encodeRTOInfo_def valid_rto_def to_ms_zero to_ms_less)
qed

lemma encodeAssocInfo_eq:
  assumes "sizeAssocInfo \<le> length b"
  shows "whole_ms (ai_CookieLife a) \<Longrightarrow> encodeAssocInfo T b assoc a field = Some (Inr
      (splice 16 (enc_int (native T) (to_ms (ai_CookieLife a))) (splice 4 (enc_int (native T) (ai_MaxRetrans a))
        (splice 0 (enc_int (native T) assoc) (replicate 20 0)))))"
    "\<not> whole_ms (ai_CookieLife a) \<Longrightarrow> refused (encodeAssocInfo T b assoc a field)"
  using assms by (auto simp: encodeAssocInfo_def no_panic)

lemma encodeDelayedSACK_eq:
  assumes "sizeDelayedSACK \<le> length b"
  shows "valid_delay d \<Longrightarrow> encodeDelayedSACK T b assoc d field = Some (Inr
      (splice 8 (enc_int (native T) (ds_Frequency d)) (splice 4 (enc_int (native T) (to_ms (ds_Delay d)))
        (splice 0 (enc_int (native T) assoc) (take 12 b)))))"
    "\<not> valid_delay d \<Longrightarrow> refused (encodeDelayedSACK T b assoc d field)"
proof -
  show "valid_delay d \<Longrightarrow> encodeDelayedSACK T b assoc d field = Some (Inr
      (splice 8 (enc_int (native T) (ds_Frequency d)) (splice 4 (enc_int (native T) (to_ms (ds_Delay d)))
        (splice 0 (enc_int (native T) assoc) (take 12 b)))))"
    using assms to_ms_above_500 [of "ds_Delay d"]
    by (auto simp: encodeDelayedSACK_def valid_delay_def no_panic slice_def)
  show "\<not> valid_delay d \<Longrightarrow> refused (encodeDelayedSACK T b assoc d field)"
    using to_ms_above_500 [of "ds_Delay d"]
    by (cases "whole_ms (ds_Delay d)") (auto simp: encodeDelayedSACK_def valid_delay_def)
qed

text \<open>The association-wide parameters survive the trip: \<open>encodeRTOInfo\<close>, \<open>encodeAssocInfo\<close> and
  \<open>encodeDelayedSACK\<close> never panic in a buffer of their struct's size, refuse with EINVAL exactly what
  the fields cannot carry or Linux would refuse, and otherwise write the association and values
  that decode to what was given (of an AssocInfo, its two settable fields, with the others zero).\<close>

theorem assoc_structs_roundtrip:
  assumes "sizeAssocInfo \<le> length b"
  shows "(case encodeRTOInfo T b assoc r field of None \<Rightarrow> False
      | Some (Inl e) \<Rightarrow> \<not> valid_rto r \<and> errIs e (Errno EINVAL)
      | Some (Inr w) \<Rightarrow> valid_rto r \<and> length w = sizeRTOInfo \<and> rd32 (native T) w 0 = assoc \<and> decodeRTOInfo T w = Some r) \<and>
    (case encodeAssocInfo T b assoc a field of None \<Rightarrow> False
      | Some (Inl e) \<Rightarrow> \<not> whole_ms (ai_CookieLife a) \<and> errIs e (Errno EINVAL)
      | Some (Inr w) \<Rightarrow> whole_ms (ai_CookieLife a) \<and> length w = sizeAssocInfo \<and> rd32 (native T) w 0 = assoc \<and>
          decodeAssocInfo T w = Some (a\<lparr>ai_PeerDestinations := 0, ai_PeerRwnd := 0, ai_LocalRwnd := 0\<rparr>)) \<and>
    (case encodeDelayedSACK T b assoc d field of None \<Rightarrow> False
      | Some (Inl e) \<Rightarrow> \<not> valid_delay d \<and> errIs e (Errno EINVAL)
      | Some (Inr w) \<Rightarrow> valid_delay d \<and> length w = sizeDelayedSACK \<and> rd32 (native T) w 0 = assoc \<and>
          decodeDelayedSACK T w = Some d)"
proof (intro conjI)
  note sizes = assms [simplified]
  show "case encodeRTOInfo T b assoc r field of None \<Rightarrow> False
      | Some (Inl e) \<Rightarrow> \<not> valid_rto r \<and> errIs e (Errno EINVAL)
      | Some (Inr w) \<Rightarrow> valid_rto r \<and> length w = sizeRTOInfo \<and> rd32 (native T) w 0 = assoc \<and> decodeRTOInfo T w = Some r"
    using sizes encodeRTOInfo_eq [of b r T assoc field]
    by (cases "valid_rto r") (auto simp: refused_def decodeRTOInfo_def no_panic codec_rw valid_rto_def millisToDuration_to_ms)
  show "case encodeAssocInfo T b assoc a field of None \<Rightarrow> False
      | Some (Inl e) \<Rightarrow> \<not> whole_ms (ai_CookieLife a) \<and> errIs e (Errno EINVAL)
      | Some (Inr w) \<Rightarrow> whole_ms (ai_CookieLife a) \<and> length w = sizeAssocInfo \<and> rd32 (native T) w 0 = assoc \<and>
          decodeAssocInfo T w = Some (a\<lparr>ai_PeerDestinations := 0, ai_PeerRwnd := 0, ai_LocalRwnd := 0\<rparr>)"
    using sizes encodeAssocInfo_eq [of b a T assoc field]
    by (cases "whole_ms (ai_CookieLife a)") (auto simp: refused_def decodeAssocInfo_def no_panic codec_rw millisToDuration_to_ms rd_zeros)
  show "case encodeDelayedSACK T b assoc d field of None \<Rightarrow> False
      | Some (Inl e) \<Rightarrow> \<not> valid_delay d \<and> errIs e (Errno EINVAL)
      | Some (Inr w) \<Rightarrow> valid_delay d \<and> length w = sizeDelayedSACK \<and> rd32 (native T) w 0 = assoc \<and>
          decodeDelayedSACK T w = Some d"
    using sizes encodeDelayedSACK_eq [of b d T assoc field]
    by (cases "valid_delay d") (auto simp: refused_def decodeDelayedSACK_def no_panic codec_rw valid_delay_def millisToDuration_to_ms)
qed

theorem assoc_structs_roundtrip_witness:
  "case encodeDelayedSACK i386 (replicate 20 1) 0 \<lparr>ds_Delay = 200000000, ds_Frequency = 2\<rparr> [] of
     Some (Inr w) \<Rightarrow> decodeDelayedSACK i386 w = Some \<lparr>ds_Delay = 200000000, ds_Frequency = 2\<rparr> | _ \<Rightarrow> False"
proof -
  have "valid_delay \<lparr>ds_Delay = 200000000, ds_Frequency = 2\<rparr>"
    by (simp add: valid_delay_def whole_ms_def Millisecond_def MaxUint32_def)
  moreover have "sizeAssocInfo \<le> length (replicate 20 (1 :: byte))" by simp
  ultimately show ?thesis
    using assoc_structs_roundtrip [THEN conjunct2, THEN conjunct2, of "replicate 20 1" "\<lparr>ds_Delay = 200000000, ds_Frequency = 2\<rparr>" i386 0 "[]"]
    by (auto split: option.splits sum.splits)
qed

section \<open>Replies that carry a list\<close>

lemma concat_enc16_reads:
  "length s = 2 * k \<Longrightarrow> concat (List.map (\<lambda>i. enc_int bo (rd16 bo s (i * 2))) [0..<k]) = s"
proof (induction k arbitrary: s)
  case (Suc k)
  let ?h = "take (2 * k) s"
  have "concat (List.map (\<lambda>i. enc_int bo (rd16 bo s (i * 2))) [0..<k]) =
      concat (List.map (\<lambda>i. enc_int bo (rd16 bo ?h (i * 2))) [0..<k])"
    by (intro arg_cong [where f = concat] map_cong) (auto simp: mult.commute)
  also have "\<dots> = ?h" using Suc.prems by (intro Suc.IH) simp
  finally have "concat (List.map (\<lambda>i. enc_int bo (rd16 bo s (i * 2))) [0..<k]) = ?h" .
  moreover have "enc_int bo (rd16 bo s (k * 2)) = drop (2 * k) s"
    using Suc.prems by (simp add: rd16_def c16.enc_dec slice_def mult.commute)
  ultimately show ?case by simp
qed simp

lemma enc16_list_iff:
  assumes "length s = 2 * k"
  shows "List.map (\<lambda>i. rd16 bo s (i * 2)) [0..<k] = ids \<longleftrightarrow> s = concat (List.map (enc_int bo) ids)"
proof
  assume "List.map (\<lambda>i. rd16 bo s (i * 2)) [0..<k] = ids"
  then show "s = concat (List.map (enc_int bo) ids)" using concat_enc16_reads [OF assms, of bo] by (auto simp: o_def)
next
  assume s: "s = concat (List.map (enc_int bo) ids)"
  then have "k = length ids" using assms by (simp add: length_concat_enc16)
  then show "List.map (\<lambda>i. rd16 bo s (i * 2)) [0..<k] = ids" by (simp add: s reads_concat_enc16)
qed

lemma take_count_iff:
  assumes "4 \<le> n" "n \<le> length b" "length c = 4"
  shows "take n b = c @ p \<longleftrightarrow> slice 0 4 b = c \<and> slice 4 (n - 4) b = p"
proof -
  have "take n b = slice 0 4 b @ slice 4 (n - 4) b"
    using assms by (metis le_add_diff_inverse slice_def take_add drop0)
  then show ?thesis using assms by simp
qed

lemma rd32_count:
  assumes "off + 4 \<le> length b"
  shows "rd32 bo b off = c \<longleftrightarrow> slice off 4 b = enc_int bo c"
proof -
  have "length (slice off 4 b) = 4" using assms by simp
  from c32.enc_dec [OF this, of bo] show ?thesis by (auto simp: rd32_def c32.dec_enc)
qed

lemma decodeHMACIdents_list:
  assumes "n = int (4 + 2 * k)" "n \<le> int (length b)" "n < 2 ^ 32"
  shows "decodeHMACIdents T b n =
     (if rd32 (native T) b 0 = of_nat k then Some (Inr (List.map (\<lambda>i. rd16 (native T) (slice 4 (2 * k) b) (i * 2)) [0..<k]))
      else Some (Inl (TextErr ''reports %d identifiers in %d bytes'')))"
proof -
  have "those (List.map (\<lambda>i. get16 (native T) b (4 + 2 * i)) [0..<k]) =
      Some (List.map (\<lambda>i. rd16 (native T) (slice 4 (2 * k) b) (i * 2)) [0..<k])"
    using assms(1,2) by (intro those_map_cong) (auto simp: no_panic codec_rw mult.commute)
  moreover have "k < 2 ^ 32" using assms(1,3) by simp
  ultimately show ?thesis using assms(1,2) by (auto simp: decodeHMACIdents_def no_panic)
qed

lemma decodeHMACIdents_exact:
  assumes "n < 2 ^ 32"
  shows "decodeHMACIdents T b n \<noteq> None \<and>
    (decodeHMACIdents T b n = Some (Inr ids)) = (n = int (4 + 2 * length ids) \<and> n \<le> int (length b) \<and>
       take (nat n) b = enc_int (native T) (of_nat (length ids) :: u32) @ concat (List.map (enc_int (native T)) ids))"
proof (cases "n \<le> int (length b) \<and> (\<exists>k. n = int (4 + 2 * k))")
  case True
  then obtain k where n: "n \<le> int (length b)" "n = int (4 + 2 * k)" by blast
  have s: "length (slice 4 (2 * k) b) = 2 * k" using n by simp
  have nat_n: "nat (4 + 2 * int m) = 4 + 2 * m" for m by linarith
  show ?thesis
    unfolding decodeHMACIdents_list [OF n(2,1) assms]
    using n enc16_list_iff [OF s, of "native T" ids]
    by (auto simp: take_count_iff rd32_count length_concat_enc16 nat_n)
next
  case False
  then have "n < 4 \<or> n > int (length b) \<or> (n - 4) mod 2 \<noteq> 0" by presburger
  then show ?thesis using False by (auto simp: decodeHMACIdents_def)
qed

lemma decodeAuthChunks_exact:
  assumes "n < 2 ^ 32"
  shows "decodeAuthChunks T b n \<noteq> None \<and>
    (decodeAuthChunks T b n = Some (Inr cts)) = (n = int (8 + length cts) \<and> n \<le> int (length b) \<and>
       slice 4 (nat n - 4) b = enc_int (native T) (of_nat (length cts) :: u32) @ cts)"
proof (cases "8 \<le> n \<and> n \<le> int (length b)")
  case True
  define k where "k = nat n - 8"
  have n: "n = int (8 + k)" "8 + k \<le> length b" "k < 2 ^ 32" using True assms by (auto simp: k_def)
  have nat_n: "nat (8 + int m) = 8 + m" for m by linarith
  have pay: "slice 4 (4 + k) b = slice 4 4 b @ slice 8 k b"
    using take_add [of 4 k "drop 4 b"] by (simp add: slice_def)
  have "rd32 (native T) b 4 = of_nat k \<longleftrightarrow> slice 4 4 b = enc_int (native T) (of_nat k :: u32)"
    using n(2) by (simp add: rd32_count)
  moreover have "length (slice 4 4 b) = 4" "length (slice 8 k b) = k" using n(2) by simp_all
  ultimately show ?thesis using n by (auto simp: decodeAuthChunks_def no_panic nat_n pay)
next
  case False
  then show ?thesis by (auto simp: decodeAuthChunks_def)
qed

text \<open>A reply that carries a list is taken only when it is one: for every buffer and every length
  the kernel may report, \<open>decodeHMACIdents\<close> and \<open>decodeAuthChunks\<close> do not panic, and they return a
  list exactly when the reported bytes are its count (behind the association, for chunks)
  followed by its elements and nothing else.\<close>

theorem list_replies_exact:
  assumes "n < 2 ^ 32"
  shows "(decodeHMACIdents T b n = Some (Inr ids)) =
      (n = int (4 + 2 * length ids) \<and> n \<le> int (length b) \<and>
       take (nat n) b = enc_int (native T) (of_nat (length ids) :: u32) @ concat (List.map (enc_int (native T)) ids)) \<and>
    (decodeAuthChunks T b n = Some (Inr cts)) =
      (n = int (8 + length cts) \<and> n \<le> int (length b) \<and>
       slice 4 (nat n - 4) b = enc_int (native T) (of_nat (length cts) :: u32) @ cts) \<and>
    decodeHMACIdents T b n \<noteq> None \<and> decodeAuthChunks T b n \<noteq> None"
  using decodeHMACIdents_exact [OF assms] decodeAuthChunks_exact [OF assms] by blast

theorem list_replies_exact_witness:
  "decodeHMACIdents amd64 [2, 0, 0, 0, 3, 0, 1, 0, 9] 8 = Some (Inr [HMACSHA256, HMACSHA1])"
proof -
  let ?b = "[2, 0, 0, 0, 3, 0, 1, 0, 9] :: bytes"
  have "(8 :: int) < 2 ^ 32" by simp
  moreover have "8 = int (4 + 2 * length [3 :: u16, 1])" "8 \<le> int (length ?b)" by simp_all
  moreover have "take (nat 8) ?b = enc_int (native amd64) (of_nat (length [3 :: u16, 1]) :: u32) @
      concat (List.map (enc_int (native amd64)) [3 :: u16, 1])"
    by code_simp
  ultimately have "decodeHMACIdents amd64 ?b 8 = Some (Inr [3, 1])"
    using list_replies_exact [of 8 amd64 ?b "[3, 1]" "[]"] by blast
  then show ?thesis by simp
qed

section \<open>Requests that carry a list\<close>

lemma putStreams_eq:
  "8 + 2 * (i + length sids) \<le> length b \<Longrightarrow>
     putStreams bo i sids b = Some (splice (8 + 2 * i) (concat (List.map (enc_int bo) sids)) b)"
proof (induction sids arbitrary: i b)
  case Nil
  then show ?case by (simp add: splice_def)
next
  case (Cons sid sids)
  let ?c = "concat (List.map (enc_int bo) sids)"
  have "splice (8 + 2 * (i + 1)) ?c (splice (8 + 2 * i) (enc_int bo sid) b) = splice (8 + 2 * i) (enc_int bo sid @ ?c) b"
    using Cons.prems by (simp add: splice_def length_concat_enc16 min_def ac_simps)
  then show ?case using Cons by (simp add: no_panic)
qed

lemma request_header:
  "splice 6 (enc_int bo (n :: u16)) (splice 4 (enc_int bo (k :: u16)) (splice 0 (enc_int bo (a :: u32)) (replicate (8 + m) 0))) =
     enc_int bo a @ enc_int bo k @ enc_int bo n @ replicate m 0"
  by (simp add: splice_def replicate_add)

lemma splice_tail: "length h = off \<Longrightarrow> length p = m \<Longrightarrow> splice off p (h @ replicate m 0) = h @ p"
  by (simp add: splice_def)

lemma encodeAuthKey_eq:
  assumes "0 < length secret" "length secret \<le> 65535"
  shows "encodeAuthKey T assoc key secret name =
    Some (Inr (enc_int (native T) assoc @ enc_int (native T) key @ enc_int (native T) (of_nat (length secret) :: u16) @ secret))"
proof -
  let ?h = "enc_int (native T) assoc @ enc_int (native T) key @ enc_int (native T) (of_nat (length secret) :: u16)"
  have "go_copy (slice 8 (length secret) (?h @ replicate (length secret) 0)) secret = secret"
    by (simp add: go_copy_def)
  then show ?thesis
    using assms splice_tail [of ?h 8 secret "length secret"]
    by (simp add: encodeAuthKey_def no_panic request_header)
qed

lemma encodeResetStreams_eq:
  assumes "dir \<noteq> 0" "and_not dir 3 = 0" "length streams \<le> 65535"
  shows "encodeResetStreams T assoc dir streams =
    Some (Inr (enc_int (native T) assoc @ enc_int (native T) dir @ enc_int (native T) (of_nat (length streams) :: u16) @
      concat (List.map (enc_int (native T)) streams)))"
proof -
  let ?h = "enc_int (native T) assoc @ enc_int (native T) dir @ enc_int (native T) (of_nat (length streams) :: u16)"
  show ?thesis
    using assms splice_tail [of ?h 8 "concat (List.map (enc_int (native T)) streams)" "2 * length streams"]
    by (simp add: encodeResetStreams_def no_panic request_header putStreams_eq length_concat_enc16)
qed

lemma reset_directions: "dir \<in> {1, 2, 3} \<longleftrightarrow> dir \<noteq> 0 \<and> and_not dir 3 = 0" for dir :: u16
proof -
  have "dir AND 3 = dir mod 4" using take_bit_eq_mask [of 2 dir] by (simp add: mask_eq_exp_minus_1 take_bit_eq_mod)
  then have "and_not dir 3 = 0 \<longleftrightarrow> unat dir mod 4 = unat dir"
    by (simp add: and_not_zero_iff) (simp add: word_unat_eq_iff unat_mod)
  moreover have "unat dir mod 4 = unat dir \<longleftrightarrow> unat dir = 0 \<or> unat dir = 1 \<or> unat dir = 2 \<or> unat dir = 3" by presburger
  ultimately show ?thesis by (auto simp: word_unat_eq_iff)
qed

text \<open>A request that carries a list is exactly its struct: \<open>encodeAuthKey\<close> and \<open>encodeResetStreams\<close> never
  panic, refuse with EINVAL exactly an empty or too long secret, a direction that names none or more
  than the two, and more streams than the count can name, and otherwise write the header, the
  true count and the elements, with nothing after them.\<close>

theorem list_requests_exact:
  "encodeAuthKey T assoc key secret name =
     (if 0 < length secret \<and> length secret < 2 ^ 16
      then Some (Inr (enc_int (native T) assoc @ enc_int (native T) key @
        enc_int (native T) (of_nat (length secret) :: u16) @ secret))
      else refusal_of (if secret = [] then name @ '': the secret is empty'' else name @ '': the secret is %d bytes'')) \<and>
   (case encodeResetStreams T assoc dir streams of None \<Rightarrow> False
    | Some (Inl e) \<Rightarrow> \<not> (dir \<in> {ResetIncoming, ResetOutgoing, ResetIncoming OR ResetOutgoing} \<and> length streams < 2 ^ 16) \<and>
        errIs e (Errno EINVAL)
    | Some (Inr b) \<Rightarrow> dir \<in> {ResetIncoming, ResetOutgoing, ResetIncoming OR ResetOutgoing} \<and> length streams < 2 ^ 16 \<and>
        b = enc_int (native T) assoc @ enc_int (native T) dir @ enc_int (native T) (of_nat (length streams) :: u16) @
          concat (List.map (enc_int (native T)) streams))"
proof -
  note dir = reset_directions [of dir]
  show ?thesis
  proof (intro conjI)
    show "encodeAuthKey T assoc key secret name =
     (if 0 < length secret \<and> length secret < 2 ^ 16
      then Some (Inr (enc_int (native T) assoc @ enc_int (native T) key @
        enc_int (native T) (of_nat (length secret) :: u16) @ secret))
      else refusal_of (if secret = [] then name @ '': the secret is empty'' else name @ '': the secret is %d bytes''))"
      using encodeAuthKey_eq [of secret T assoc key name] by (auto simp: encodeAuthKey_def)
  qed (use dir encodeResetStreams_eq [of dir streams T assoc] in
    \<open>auto simp: encodeResetStreams_def refusal_of_def split: option.splits sum.splits\<close>)
qed

section \<open>The scope of a link-local path\<close>

text \<open>The candidates as sets, and what a \<open>scopeCandidates\<close> knows of one.\<close>

definition zoned_scopes :: "zoneEnv \<Rightarrow> ipaddr list \<Rightarrow> u32 set" where
  "zoned_scopes zi ips = {s. s \<noteq> 0 \<and> (\<exists>ip \<in> set ips. isLinkLocal6 ip \<and> Zone ip \<noteq> [] \<and> encodeZone zi (Zone ip) = Inr s)}"

definition owned_scopes :: "(ipaddr \<Rightarrow> u32 list) \<Rightarrow> ipaddr list \<Rightarrow> u32 set" where
  "owned_scopes owners ips = {s. s \<noteq> 0 \<and> (\<exists>ip \<in> set ips. isLinkLocal6 ip \<and> Zone ip = [] \<and> s \<in> set (owners ip))}"

definition scope_choices :: "zoneEnv \<Rightarrow> ipaddr list \<Rightarrow> ipaddr list \<Rightarrow> (ipaddr \<Rightarrow> u32 list) \<Rightarrow> u32 set" where
  "scope_choices zi locals peers owners =
     (if zoned_scopes zi locals \<noteq> {} then zoned_scopes zi locals
      else if zoned_scopes zi peers \<noteq> {} then zoned_scopes zi peers
      else owned_scopes owners locals)"

definition counts :: "scopeCandidates \<Rightarrow> u32 set \<Rightarrow> bool" where
  "counts c S \<longleftrightarrow> 0 \<notin> S \<and>
     (if sc_n c = 0 then S = {} else if sc_n c = 1 then S = {sc_first c}
      else sc_n c = 2 \<and> sc_first c \<in> S \<and> S \<noteq> {sc_first c})"

lemma counts_zero: "counts scopeCandidates_zero {}"
  by (simp add: counts_def scopeCandidates_zero_def)

lemma counts_add: "counts c S \<Longrightarrow> counts (scope_add s c) (S \<union> {x. s = x \<and> x \<noteq> 0})"
  by (auto simp: counts_def scope_add_def split: if_splits)

lemma counts_fold:
  assumes "counts c S" "\<And>c S x. x \<in> set xs \<Longrightarrow> counts c S \<Longrightarrow> counts (f x c) (S \<union> g x)"
  shows "counts (fold f xs c) (S \<union> (\<Union>x \<in> set xs. g x))"
  using assms
proof (induction xs arbitrary: c S)
  case (Cons x xs)
  have "counts (f x c) (S \<union> g x)" using Cons.prems by simp
  from Cons.IH [OF this] Cons.prems(2) have "counts (fold f xs (f x c)) (S \<union> g x \<union> (\<Union>x \<in> set xs. g x))" by simp
  then show ?case by (simp add: Un_assoc)
qed simp

lemma counts_zoned: "counts c S \<Longrightarrow> counts (scope_zoned zi ips c) (S \<union> zoned_scopes zi ips)"
proof -
  assume c: "counts c S"
  have "counts (scope_zoned zi ips c) (S \<union> (\<Union>ip \<in> set ips.
      {s. s \<noteq> 0 \<and> isLinkLocal6 ip \<and> Zone ip \<noteq> [] \<and> encodeZone zi (Zone ip) = Inr s}))"
    unfolding scope_zoned_def
  proof (rule counts_fold [OF c])
    fix c S ip
    assume "counts c S"
    from counts_add [OF this]
    show "counts ((if isLinkLocal6 ip \<and> Zone ip \<noteq> [] then scope_addZone zi (Zone ip) else id) c)
        (S \<union> {s. s \<noteq> 0 \<and> isLinkLocal6 ip \<and> Zone ip \<noteq> [] \<and> encodeZone zi (Zone ip) = Inr s})"
      using \<open>counts c S\<close> by (auto simp: scope_addZone_def split: sum.splits)
  qed
  then show ?thesis by (rule back_subst [where P = "counts _"]) (auto simp: zoned_scopes_def)
qed

lemma counts_owned: "counts c S \<Longrightarrow> counts (scope_owned owners ips c) (S \<union> owned_scopes owners ips)"
proof -
  assume c: "counts c S"
  have "counts (scope_owned owners ips c) (S \<union> (\<Union>ip \<in> set ips.
      {s. s \<noteq> 0 \<and> isLinkLocal6 ip \<and> Zone ip = [] \<and> s \<in> set (owners ip)}))"
    unfolding scope_owned_def
  proof (rule counts_fold [OF c])
    fix c S ip
    assume c: "counts c S"
    have "counts (fold scope_add (owners ip) c) (S \<union> (\<Union>s \<in> set (owners ip). {x. s = x \<and> x \<noteq> 0}))"
      by (rule counts_fold [OF c counts_add])
    moreover have "S \<union> (\<Union>s \<in> set (owners ip). {x. s = x \<and> x \<noteq> 0}) = S \<union> {s. s \<noteq> 0 \<and> s \<in> set (owners ip)}" by auto
    ultimately show "counts ((if isLinkLocal6 ip \<and> Zone ip = [] then fold scope_add (owners ip) else id) c)
        (S \<union> {s. s \<noteq> 0 \<and> isLinkLocal6 ip \<and> Zone ip = [] \<and> s \<in> set (owners ip)})"
      using c by (cases "isLinkLocal6 ip \<and> Zone ip = []") auto
  qed
  then show ?thesis by (rule back_subst [where P = "counts _"]) (auto simp: owned_scopes_def)
qed

lemma counts_n: "counts c S \<Longrightarrow> sc_n c = 0 \<longleftrightarrow> S = {}"
  by (auto simp: counts_def split: if_splits)

lemma counts_only: "counts c S \<Longrightarrow> scope_only c = s \<longleftrightarrow> (if s = 0 then \<not> (\<exists>x. S = {x}) else S = {s})"
  by (auto simp: counts_def scope_only_def split: if_splits)

text \<open>C30: a link-local path without a zone gets a scope only when there is exactly one it can mean: the
  result is the sole candidate of the first of the three sources that has any (the zones of
  the local addresses, those of the peer's, the interfaces that own the zoneless local ones), and
  zero when that source names several, or none does.\<close>

theorem linkLocalPathScope_unique:
  "(linkLocalPathScope zi locals peers owners = s) =
     (if s = 0 then \<not> (\<exists>x. scope_choices zi locals peers owners = {x})
      else scope_choices zi locals peers owners = {s})"
proof -
  define c1 where "c1 = scope_zoned zi locals scopeCandidates_zero"
  define c2 where "c2 = (if sc_n c1 = 0 then scope_zoned zi peers c1 else c1)"
  define c3 where "c3 = (if sc_n c2 = 0 then scope_owned owners locals c2 else c2)"
  have 1: "counts c1 (zoned_scopes zi locals)" using counts_zoned [OF counts_zero] by (simp add: c1_def)
  then have 2: "counts c2 (if zoned_scopes zi locals \<noteq> {} then zoned_scopes zi locals else zoned_scopes zi peers)"
    using counts_zoned [of c1 "{}" zi peers] counts_n [OF 1] by (auto simp: c2_def)
  then have 3: "counts c3 (scope_choices zi locals peers owners)"
    using counts_owned [of c2 "{}" owners locals] counts_n [OF 2] by (auto simp: c3_def scope_choices_def split: if_splits)
  have "linkLocalPathScope zi locals peers owners = scope_only c3"
    by (simp add: linkLocalPathScope_def Let_def c3_def c2_def c1_def)
  then show ?thesis by (simp only: counts_only [OF 3])
qed

end
