(* ===== verification/Send.thy ===== *)
theory Send
  imports Options Recv
begin

text \<open>
  The send path of \<open>send_linux.go\<close>, one definition per function: the options of a call
  (\<open>SendOptions\<close>, \<open>msginfo.go\<close>), the send state a Conn keeps (\<open>sendState\<close>), the checks before the
  descriptor is touched, the encoding of the control buffer with the socket's defaults read in where
  the call leaves them open, one attempt at the \<open>sendmsg\<close> call with its classification of errors,
  the start and the end of a send, and the setters and getters of the default send parameters. The kernel is a
  parameter: a \<open>kernel\<close> record for the options, a \<open>sendAnswers\<close> record for what one attempt is told.
  Theory \<open>SendMachine\<close> composes these into the interleaving of a send with deadlines, contexts and Shutdown.
\<close>

unbundle bit_operations_syntax

section \<open>Options and state\<close>

record SendOptions = SendCtl +
  so_Path :: ipaddr
  so_More :: bool
  so_NoWait :: bool

definition SendOptions_zero :: SendOptions where
  "SendOptions_zero = \<lparr>so_Info = None, so_PR = None, so_AuthKey = None, so_Path = IPZero, so_More = False, so_NoWait = False\<rparr>"

definition MSG_DONTWAIT :: u32 where [simp]: "MSG_DONTWAIT = 0x40"

definition MSG_NOSIGNAL :: u32 where [simp]: "MSG_NOSIGNAL = 0x4000"

definition MSG_MORE :: u32 where [simp]: "MSG_MORE = 0x8000"

definition sendFlags :: u32 where
  "sendFlags = MSG_DONTWAIT OR MSG_NOSIGNAL"

text \<open>\<open>time.Unix(1, 0)\<close>, in nanoseconds; the zero \<open>time.Time\<close>, no deadline, is \<open>None\<close>.\<close>

definition aLongTimeAgo :: int where
  "aLongTimeAgo = 1000000000"

text \<open>The context of a send: none, or one whose \<open>Done\<close> channel is nil or not.\<close>

datatype sendCtx = NoContext | Context bool

text \<open>\<open>s_name\<close> and \<open>s_control\<close> are what \<open>msg\<close> points at, \<open>s_fdWrite\<close> and \<open>s_fdRead\<close> the deadlines of the
  descriptor, and \<open>s_latch\<close> the connection's latch, \<open>None\<close> on an Endpoint.\<close>

record sendState =
  s_defSnd :: SndInfo
  s_defPR :: PrInfo
  s_explicit :: bool
  s_latch :: "termState option"
  s_data :: bytes
  s_control :: bytes
  s_name :: "bytes option"
  s_flags :: u32
  s_wait :: bool
  s_n :: int
  s_err :: "goerr option"
  s_callerDeadline :: "int option"
  s_callerCrossed :: bool
  s_callerFirst :: bool
  s_parked :: bool
  s_shutdownWake :: bool
  s_slow :: bool
  s_interrupted :: bool
  s_ctx :: sendCtx
  s_stop :: bool
  s_fdWrite :: "int option"
  s_fdRead :: "int option"

definition PrInfo_zero :: PrInfo where
  "PrInfo_zero = \<lparr>pr_Policy = 0, pr_TTL = 0, pr_Value = 0\<rparr>"

definition SndInfo_zero :: SndInfo where
  "SndInfo_zero = \<lparr>snd_Stream = 0, snd_Flags = 0, snd_PPID = 0, snd_Context = 0\<rparr>"

definition sendState_bind :: "termState option \<Rightarrow> bool \<Rightarrow> sendState" where
  "sendState_bind latch explicit =
     \<lparr>s_defSnd = SndInfo_zero, s_defPR = PrInfo_zero, s_explicit = explicit, s_latch = latch, s_data = [],
      s_control = [], s_name = None, s_flags = 0, s_wait = False, s_n = 0, s_err = None, s_callerDeadline = None,
      s_callerCrossed = False, s_callerFirst = False, s_parked = False, s_shutdownWake = False, s_slow = False,
      s_interrupted = False, s_ctx = NoContext, s_stop = False, s_fdWrite = None, s_fdRead = None\<rparr>"

section \<open>Before the lock\<close>

text \<open>\<open>pagesize\<close> is \<open>os.Getpagesize()\<close>, a power of two.\<close>

definition maxSendSize :: "int \<Rightarrow> int" where
  "maxSendSize pagesize = 2147483647 AND NOT (pagesize - 1)"

definition checkSendSize :: "int \<Rightarrow> nat \<Rightarrow> goerr option" where
  "checkSendSize pagesize n =
     (if n = 0 then Some (InvalidArg ''a send needs a message of at least one byte'')
      else if int n > maxSendSize pagesize then Some (Errno EMSGSIZE)
      else None)"

datatype connKind = kindDialed | kindAccepted | kindPeeled | kindAdopted

record sendConn = conn +
  c_kind :: connKind
  c_family :: u16
  c_peerPort :: u16
  c_pathScope :: u32
  c_assoc :: AssocID
  c_send :: sendState

definition checkSend :: "target \<Rightarrow> zoneEnv \<Rightarrow> int \<Rightarrow> sendConn \<Rightarrow> bytes \<Rightarrow> SendOptions \<Rightarrow> (goerr + bytes) option" where
  "checkSend T zi pagesize c b opts =
     (case checkSendSize pagesize (length b) of Some e \<Rightarrow> Some (Inl e) | None \<Rightarrow>
      case validateSendOptions (SendCtl.truncate opts) of Some e \<Rightarrow> Some (Inl e) | None \<Rightarrow>
      if \<not> IsValid (so_Path opts) then Some (Inr [])
      else if c_kind c = kindPeeled then Some (Inl (InvalidArg ''SendOptions.Path is set on a connection peeled off an Endpoint''))
      else do {
        r \<leftarrow> encodePathAddr T zi (replicate sizeSockaddrIn6 0) (c_family c) (so_Path opts) (c_peerPort c) (c_pathScope c);
        (case r of
           Inl e \<Rightarrow> Some (Inl (InvalidArg (''SendOptions.Path: '' @ (case e of InvalidArg m \<Rightarrow> m | _ \<Rightarrow> []))))
         | Inr (n, name) \<Rightarrow> Some (Inr (if c_assoc c = 0 then [] else take n name)))
      })"

definition writeError :: "goerr option \<Rightarrow> sendConn \<Rightarrow> goerr option" where
  "writeError err c = opError (c_captured c) ''write'' (c_network c) (c_laddr c) (c_raddr c) err"

text \<open>\<open>sendMsg\<close> up to its call of \<open>send\<close>: the error it returns, or the destination it passes on.\<close>

definition sendMsg_enter :: "target \<Rightarrow> zoneEnv \<Rightarrow> int \<Rightarrow> sendConn \<Rightarrow> bytes \<Rightarrow> SendOptions \<Rightarrow> (goerr option + bytes) option" where
  "sendMsg_enter T zi pagesize c b opts =
     (if c_life c = lifeClosed then Some (Inl (writeError (Some NetErrClosed) c))
      else do {
        r \<leftarrow> checkSend T zi pagesize c b opts;
        (case r of
           Inl e \<Rightarrow> Some (Inl (writeError (Some e) c))
         | Inr name \<Rightarrow>
             (case Option.bind (s_latch (c_send c)) latched of
                Some e \<Rightarrow> Some (Inl (writeError (Some e) c))
              | None \<Rightarrow> Some (Inr name)))
      })"

definition SendMsgContext_enter ::
  "target \<Rightarrow> zoneEnv \<Rightarrow> int \<Rightarrow> (goerr option) option \<Rightarrow> sendConn \<Rightarrow> bytes \<Rightarrow> SendOptions \<Rightarrow> (goerr option + bytes) option" where
  "SendMsgContext_enter T zi pagesize ctx c b opts =
     (case ctx of
        None \<Rightarrow> Some (Inl (writeError (Some (InvalidArg ''SendMsgContext needs a non-nil context'')) c))
      | Some (Some e) \<Rightarrow> Some (Inl (writeError (Some e) c))
      | Some None \<Rightarrow> sendMsg_enter T zi pagesize c b opts)"

section \<open>The attempt\<close>

text \<open>The records \<open>encode\<close> chooses: the call's own, or the cached defaults when the call sets one of the
  two or the socket is an Endpoint's.\<close>

definition send_choice :: "sendState \<Rightarrow> SendOptions \<Rightarrow> SndInfo option \<times> PrInfo option" where
  "send_choice s opts =
     (if s_explicit s \<or> so_Info opts \<noteq> None \<or> so_PR opts \<noteq> None
      then (case so_Info opts of None \<Rightarrow> Some (s_defSnd s) | Some i \<Rightarrow> Some i,
            case so_PR opts of
              None \<Rightarrow> if pr_Policy (s_defPR s) \<noteq> PRNone then Some (s_defPR s) else None
            | Some p \<Rightarrow> Some p)
      else (None, None))"

definition send_encode :: "target \<Rightarrow> sendState \<Rightarrow> SendOptions \<Rightarrow> AssocID \<Rightarrow> (nat \<times> bytes) option" where
  "send_encode T s opts assoc =
     (let (sinfo, pr) = send_choice s opts
      in appendSendCmsgs T 0 (replicate (sndCmsgSpace T) 0) sinfo assoc pr (so_AuthKey opts))"

text \<open>\<open>send\<close> from the lock to \<open>raw.Write\<close>; an empty message panics at \<open>&b[0]\<close>.\<close>

definition send_start :: "target \<Rightarrow> sendCtx \<Rightarrow> bytes \<Rightarrow> SendOptions \<Rightarrow> bytes \<Rightarrow> AssocID \<Rightarrow> sendState \<Rightarrow> sendState option" where
  "send_start T ctx b opts name assoc s =
     (if b = [] then None
      else do {
        (n, cbuf) \<leftarrow> send_encode T s opts assoc;
        Some (s\<lparr>s_callerCrossed := (if ctx = NoContext then s_callerCrossed s else False),
          s_ctx := (if ctx = NoContext then s_ctx s else ctx),
          s_data := b, s_control := take n cbuf,
          s_name := (if name \<noteq> [] then Some name else None),
          s_flags := (if so_More opts then sendFlags OR MSG_MORE else sendFlags),
          s_wait := \<not> so_NoWait opts\<rparr>)
      })"

text \<open>The answers of the kernel to one attempt, each used where the attempt asks for it: of the
  \<open>sendmsg\<close>, of the status query after \<open>EADDRNOTAVAIL\<close>, of the \<open>sendmsg\<close> made once more, and of the
  status query after \<open>EAGAIN\<close>. A status is an error or the bytes of the reply.\<close>

record sendAnswers =
  a_send :: "errno + int"
  a_ended :: "errno + bytes"
  a_again :: "errno + int"
  a_shutting :: "errno + bytes"

definition status_of :: "target \<Rightarrow> bytes \<Rightarrow> AssocState" where
  "status_of T reply = rd32 (native T) (go_copy (replicate sizeStatus 0) reply) statusStateOff"

definition assocShuttingDown :: "target \<Rightarrow> errno + bytes \<Rightarrow> bool" where
  "assocShuttingDown T a = (case a of Inl e \<Rightarrow> False | Inr reply \<Rightarrow> sint (status_of T reply) \<ge> sint StateShutdownPending)"

definition assocEnded :: "target \<Rightarrow> errno + bytes \<Rightarrow> bool" where
  "assocEnded T a = (case a of Inl e \<Rightarrow> e = EINVAL | Inr reply \<Rightarrow> status_of T reply = StateClosed)"

definition answered :: "errno + int \<Rightarrow> int \<times> goerr option" where
  "answered a = (case a of Inl e \<Rightarrow> (0, Some (Errno e)) | Inr n \<Rightarrow> (n, None))"

definition sendOnce :: "target \<Rightarrow> sendAnswers \<Rightarrow> sendState \<Rightarrow> (int \<times> goerr option) \<times> sendState" where
  "sendOnce T a s =
     (case s_latch s of
        None \<Rightarrow> (answered (a_send a), s)
      | Some t \<Rightarrow>
          (case t_err t of
             Some e \<Rightarrow> ((0, Some e), s)
           | None \<Rightarrow>
               let (n, err) = answered (a_send a);
                   again = (err = Some (Errno EADDRNOTAVAIL) \<and> s_name s \<noteq> None \<and> assocEnded T (a_ended a));
                   s1 = (if again then s\<lparr>s_name := None\<rparr> else s);
                   (n, err) = (if again then answered (a_again a) else (n, err));
                   (err, t') = (if err \<noteq> None then sendErrorLocked err t else (err, t))
               in ((n, err), s1\<lparr>s_latch := Some t'\<rparr>)))"

text \<open>One round of the loop of \<open>attempt\<close>: again after \<open>EINTR\<close>, a return of \<open>true\<close> or one of \<open>false\<close>.\<close>

datatype round = Retry | Returned | Waits

definition sendAttempt :: "target \<Rightarrow> sendAnswers \<Rightarrow> sendState \<Rightarrow> round \<times> sendState" where
  "sendAttempt T a s =
     (let ((n, err), s1) = sendOnce T a s in
      if err = Some (Errno EINTR) then (Retry, s1)
      else if err = Some (Errno EAGAIN) then
        let marked = (if s_latch s1 \<noteq> None \<and> s_wait s1
              then s1\<lparr>s_callerCrossed := (if \<not> s_slow s1 \<and> s_ctx s1 = NoContext then False else s_callerCrossed s1),
                      s_slow := True, s_parked := True\<rparr>
              else s1)
        in if s_latch s1 \<noteq> None \<and> assocShuttingDown T (a_shutting a)
           then (Returned, marked\<lparr>s_n := 0, s_err := Some (Errno ESHUTDOWN)\<rparr>)
           else if \<not> s_wait s1 then (Returned, marked\<lparr>s_n := n, s_err := err\<rparr>)
           else (Waits, marked\<lparr>s_stop := s_stop marked \<or> s_ctx marked = Context True\<rparr>)
      else (Returned, s1\<lparr>s_n := n, s_err := err\<rparr>))"

section \<open>Deadlines\<close>

definition passed :: "int option \<Rightarrow> int \<Rightarrow> bool" where
  "passed d now = (case d of None \<Rightarrow> False | Some t \<Rightarrow> t \<le> now)"

definition send_interrupt :: "int \<Rightarrow> sendState \<Rightarrow> sendState" where
  "send_interrupt now s =
     (if s_shutdownWake s then s
      else s\<lparr>s_callerFirst := (s_callerCrossed s \<or> passed (s_callerDeadline s) now), s_interrupted := True,
             s_fdWrite := Some aLongTimeAgo\<rparr>)"

definition wakeShutdown :: "int \<Rightarrow> sendState \<Rightarrow> sendState" where
  "wakeShutdown now s =
     (if s_parked s \<and> \<not> s_interrupted s \<and> \<not> s_shutdownWake s
      then s\<lparr>s_callerFirst := (s_callerCrossed s \<or> passed (s_callerDeadline s) now), s_shutdownWake := True,
             s_fdWrite := Some aLongTimeAgo\<rparr>
      else s)"

datatype deadlineMode = ModeRead | ModeWrite | ModeBoth

definition send_setDeadline :: "int \<Rightarrow> int option \<Rightarrow> deadlineMode \<Rightarrow> sendState \<Rightarrow> sendState" where
  "send_setDeadline now t mode s =
     (if mode = ModeRead then s\<lparr>s_fdRead := t\<rparr>
      else let s1 = s\<lparr>s_callerCrossed := (s_callerCrossed s \<or> passed (s_callerDeadline s) now), s_callerDeadline := t\<rparr>
           in if s_interrupted s \<or> s_shutdownWake s
              then (if mode = ModeBoth then s1\<lparr>s_fdRead := t\<rparr> else s1)
              else if mode = ModeBoth then s1\<lparr>s_fdRead := t, s_fdWrite := t\<rparr>
              else s1\<lparr>s_fdWrite := t\<rparr>)"

text \<open>\<open>send\<close> from the return of \<open>raw.Write\<close> with \<open>err\<close> to its own; \<open>ctxErr\<close> is \<open>ctx.Err()\<close>.\<close>

definition send_finish :: "goerr option \<Rightarrow> goerr option \<Rightarrow> sendState \<Rightarrow> (int \<times> goerr option) \<times> sendState" where
  "send_finish ctxErr werr s =
     (let tidy = (s_slow s \<or> s_stop s);
          woken = (tidy \<and> (s_interrupted s \<or> s_shutdownWake s));
          err = (if woken \<and> isAn werr DeadlineExceeded \<and> \<not> s_callerFirst s
                 then (if s_shutdownWake s then Some (Errno ESHUTDOWN) else ctxErr) else werr);
          s1 = (if woken then s\<lparr>s_fdWrite := s_callerDeadline s, s_interrupted := False, s_shutdownWake := False\<rparr> else s);
          s2 = (if tidy then s1\<lparr>s_parked := False\<rparr> else s1);
          n = s_n s; serr = s_err s;
          s3 = s2\<lparr>s_slow := False, s_ctx := NoContext, s_stop := False, s_n := 0, s_err := None\<rparr>;
          err = (if err = None then serr else err)
      in ((if err \<noteq> None then (0, err)
           else if n \<noteq> int (length (s_data s)) then (n, Some ErrShortWrite)
           else (n, None)), s3))"

section \<open>The default send parameters\<close>

definition optDefaultPRInfo :: nat where [simp]: "optDefaultPRInfo = 114"

definition optDefaultSndInfo :: nat where [simp]: "optDefaultSndInfo = 34"

text \<open>A getsockopt answers with an error or with the bytes it writes over the zeroed buffer.\<close>

definition filled :: "nat \<Rightarrow> bytes \<Rightarrow> bytes" where
  "filled n reply = go_copy (replicate n 0) reply"

definition prInfoFromKernel :: "u16 \<Rightarrow> u32 \<Rightarrow> PrInfo" where
  "prInfoFromKernel policy value =
     (let p = policy AND prPolicyMask in
      if p = PRNone then PrInfo_zero
      else if p = PRTTL then PrInfo_zero\<lparr>pr_Policy := p, pr_TTL := uint value * Millisecond\<rparr>
      else PrInfo_zero\<lparr>pr_Policy := p, pr_Value := value\<rparr>)"

definition getDefaultSndInfo :: "target \<Rightarrow> errno + bytes \<Rightarrow> goerr + SndInfo" where
  "getDefaultSndInfo T a =
     (case a of Inl e \<Rightarrow> Inl (Errno e)
      | Inr reply \<Rightarrow>
          let b = filled sizeSndInfo reply in
          Inr \<lparr>snd_Stream = rd16 (native T) b sndInfoStreamOff,
            snd_Flags = fst (splitDefaultFlags (rd16 (native T) b sndInfoFlagsOff)),
            snd_PPID = rd32 BigEndian b sndInfoPPIDOff, snd_Context = rd32 (native T) b sndInfoContextOff\<rparr>)"

definition getDefaultPrInfo :: "target \<Rightarrow> errno + bytes \<Rightarrow> goerr + PrInfo" where
  "getDefaultPrInfo T a =
     (case a of Inl e \<Rightarrow> Inl (Errno e)
      | Inr reply \<Rightarrow>
          let b = filled sizeDefaultPRInfo reply in
          Inr (prInfoFromKernel (rd16 (native T) b defaultPRInfoPolicyOff) (rd32 (native T) b defaultPRInfoValueOff)))"

text \<open>\<open>readDefaults\<close>: the two reads, in order, and the cache only when both succeed; \<open>ctl\<close> is the error of
  \<open>sock.control\<close> itself.\<close>

definition readDefaults :: "target \<Rightarrow> goerr option \<Rightarrow> errno + bytes \<Rightarrow> errno + bytes \<Rightarrow> sendState \<Rightarrow> sendState" where
  "readDefaults T ctl a1 a2 s =
     (if ctl \<noteq> None then s
      else case getDefaultSndInfo T a1 of Inl e \<Rightarrow> s | Inr d \<Rightarrow>
        (case getDefaultPrInfo T a2 of Inl e \<Rightarrow> s | Inr p \<Rightarrow> s\<lparr>s_defSnd := d, s_defPR := p\<rparr>))"

text \<open>A kernel as the option calls see it: \<open>k_get\<close> and \<open>k_set\<close> answer a call on an option, and \<open>k_set\<close> gives the
  kernel after it.\<close>

record 'k kernel =
  k_get :: "'k \<Rightarrow> nat \<Rightarrow> errno + bytes"
  k_set :: "'k \<Rightarrow> nat \<Rightarrow> bytes \<Rightarrow> errno option \<times> 'k"

definition setDefaultPrInfo :: "target \<Rightarrow> 'k kernel \<Rightarrow> u16 \<Rightarrow> u32 \<Rightarrow> 'k \<Rightarrow> (errno option \<times> 'k) option" where
  "setDefaultPrInfo T K policy value k = do {
     b1 \<leftarrow> put32 (native T) defaultPRInfoValueOff value (replicate sizeDefaultPRInfo 0);
     b2 \<leftarrow> put16 (native T) defaultPRInfoPolicyOff policy b1;
     Some (k_set K k optDefaultPRInfo b2)
   }"

definition setDefaultSndInfo :: "target \<Rightarrow> 'k kernel \<Rightarrow> u16 \<Rightarrow> u16 \<Rightarrow> u32 \<Rightarrow> u32 \<Rightarrow> 'k \<Rightarrow> (errno option \<times> 'k) option" where
  "setDefaultSndInfo T K stream flags ppid ctxt k =
     (case k_get K k optDefaultPRInfo of
        Inl e \<Rightarrow> Some (Some e, k)
      | Inr reply \<Rightarrow>
          let pr = filled sizeDefaultPRInfo reply in do {
            b1 \<leftarrow> put16 (native T) sndInfoStreamOff stream (replicate sizeSndInfo 0);
            b2 \<leftarrow> put16 (native T) sndInfoFlagsOff flags b1;
            b3 \<leftarrow> put32 (native T) sndInfoPPIDOff ppid b2;
            b4 \<leftarrow> put32 (native T) sndInfoContextOff ctxt b3;
            let (e, k') = k_set K k optDefaultSndInfo b4;
            let policy = rd16 (native T) pr defaultPRInfoPolicyOff AND prPolicyMask;
            (if e \<noteq> None then Some (e, k')
             else if policy = PRNone then Some (None, k')
             else setDefaultPrInfo T K policy (rd32 (native T) pr defaultPRInfoValueOff) k')
          })"

definition optionError :: "string \<Rightarrow> goerr option \<Rightarrow> sendConn \<Rightarrow> goerr option" where
  "optionError op err c =
     optError (c_captured c) op (if op = ''set'' then ''setsockopt'' else ''getsockopt'') (c_network c) None (c_laddr c) err"

definition argError :: "string \<Rightarrow> goerr option \<Rightarrow> sendConn \<Rightarrow> goerr option" where
  "argError op err c = opError (c_captured c) op (c_network c) None (c_laddr c) err"

definition SetDefaultSndInfo ::
  "target \<Rightarrow> 'k kernel \<Rightarrow> SndInfo option \<Rightarrow> goerr option \<Rightarrow> sendConn \<Rightarrow> 'k \<Rightarrow> (goerr option \<times> sendConn \<times> 'k) option" where
  "SetDefaultSndInfo T K info ctl c k =
     (if c_life c = lifeClosed then Some (optionError ''set'' (Some NetErrClosed) c, c, k)
      else case info of None \<Rightarrow> Some (argError ''set'' (Some (InvalidArg ''SetDefaultSndInfo needs a non-nil *SndInfo'')) c, c, k)
      | Some v \<Rightarrow>
          (case validateDefaultSndInfo ''SetDefaultSndInfo'' v of
             Some e \<Rightarrow> Some (argError ''set'' (Some e) c, c, k)
           | None \<Rightarrow>
               if ctl \<noteq> None then Some (optionError ''set'' ctl c, c, k)
               else do {
                 (e, k') \<leftarrow> setDefaultSndInfo T K (snd_Stream v) (snd_Flags v) (networkOrderUint32 T (snd_PPID v)) (snd_Context v) k;
                 Some (case e of
                   Some x \<Rightarrow> (optionError ''set'' (Some (Errno x)) c, c, k')
                 | None \<Rightarrow> (None, c\<lparr>c_send := (c_send c)\<lparr>s_defSnd := v\<rparr>\<rparr>, k'))
               }))"

definition SetDefaultPrInfo ::
  "target \<Rightarrow> 'k kernel \<Rightarrow> PrInfo option \<Rightarrow> goerr option \<Rightarrow> sendConn \<Rightarrow> 'k \<Rightarrow> (goerr option \<times> sendConn \<times> 'k) option" where
  "SetDefaultPrInfo T K pr ctl c k =
     (if c_life c = lifeClosed then Some (optionError ''set'' (Some NetErrClosed) c, c, k)
      else case pr of None \<Rightarrow> Some (argError ''set'' (Some (InvalidArg ''SetDefaultPrInfo needs a non-nil *PrInfo'')) c, c, k)
      | Some p \<Rightarrow>
          (case validatePrInfo ''SetDefaultPrInfo'' p of
             Some e \<Rightarrow> Some (argError ''set'' (Some e) c, c, k)
           | None \<Rightarrow>
               let (policy, value) = resolvePrInfo p in
               if ctl \<noteq> None then Some (optionError ''set'' ctl c, c, k)
               else do {
                 (e, k') \<leftarrow> setDefaultPrInfo T K policy value k;
                 Some (case e of
                   Some x \<Rightarrow> (optionError ''set'' (Some (Errno x)) c, c, k')
                 | None \<Rightarrow> (None, c\<lparr>c_send := (c_send c)\<lparr>s_defPR := prInfoFromKernel policy value\<rparr>\<rparr>, k'))
               }))"

definition DefaultSndInfo :: "target \<Rightarrow> 'k kernel \<Rightarrow> goerr option \<Rightarrow> sendConn \<Rightarrow> 'k \<Rightarrow> goerr option + SndInfo" where
  "DefaultSndInfo T K ctl c k =
     (if c_life c = lifeClosed then Inl (optionError ''get'' (Some NetErrClosed) c)
      else if ctl \<noteq> None then Inl (optionError ''get'' ctl c)
      else case getDefaultSndInfo T (k_get K k optDefaultSndInfo) of Inl e \<Rightarrow> Inl (optionError ''get'' (Some e) c) | Inr d \<Rightarrow> Inr d)"

definition DefaultPrInfo :: "target \<Rightarrow> 'k kernel \<Rightarrow> goerr option \<Rightarrow> sendConn \<Rightarrow> 'k \<Rightarrow> goerr option + PrInfo" where
  "DefaultPrInfo T K ctl c k =
     (if c_life c = lifeClosed then Inl (optionError ''get'' (Some NetErrClosed) c)
      else if ctl \<noteq> None then Inl (optionError ''get'' ctl c)
      else case getDefaultPrInfo T (k_get K k optDefaultPRInfo) of Inl e \<Rightarrow> Inl (optionError ''get'' (Some e) c) | Inr p \<Rightarrow> Inr p)"

end
