(* ===== verification/SendMachine.thy ===== *)
theory SendMachine
  imports Send
begin

text \<open>
  The interleaving of one connection's send with everything that may run beside it: the runtime's
  poller waking the wait, the context ending, a local Shutdown, and callers of SetDeadline and
  SetWriteDeadline. Each event is one critical section of the code (everything between taking and
  releasing the send state's mutex) or one answer of the kernel; \<open>send_step\<close> gives the machine after it, or \<open>None\<close>
  when the event cannot happen in that phase. The invariants at the end say whose deadline is armed,
  which marks the send has left, and what the send will report; each is kept by every step.
\<close>

section \<open>The machine\<close>

datatype sendPhase = SIdle | SLocked | SAttempting | SWaiting | SWritten "goerr option"

datatype wake = Ready | DeadlinePassed | FdClosing

datatype sendEvent =
    Tick int
  | CtxDone nat
  | Begin sendCtx bytes SendOptions bytes AssocID
  | Prepare wake
  | Attempt sendAnswers
  | Wake wake
  | Interrupt
  | Shutdown
  | SetDeadline "int option" deadlineMode
  | Finish

record smachine =
  m_s :: sendState
  m_phase :: sendPhase
  m_now :: int
  m_ctxErr :: "goerr option"
  m_fired :: bool
  m_result :: "int \<times> goerr option"
  g_accepted :: nat
  g_sent :: int
  g_passed :: bool
  g_own :: bool

definition busy :: "sendPhase \<Rightarrow> bool" where
  "busy p \<longleftrightarrow> (case p of SAttempting \<Rightarrow> True | SWaiting \<Rightarrow> True | SWritten e \<Rightarrow> True | _ \<Rightarrow> False)"

definition woken :: "sendState \<Rightarrow> bool" where
  "woken s \<longleftrightarrow> s_interrupted s \<or> s_shutdownWake s"

text \<open>The \<open>sendmsg\<close> calls of one attempt the kernel accepted, and what they returned.\<close>

definition accepted :: "target \<Rightarrow> sendAnswers \<Rightarrow> sendState \<Rightarrow> int list" where
  "accepted T a s =
     (if (case s_latch s of None \<Rightarrow> False | Some t \<Rightarrow> t_err t \<noteq> None) then []
      else case a_send a of
        Inr n \<Rightarrow> [n]
      | Inl e \<Rightarrow>
          if s_latch s \<noteq> None \<and> e = EADDRNOTAVAIL \<and> s_name s \<noteq> None \<and> assocEnded T (a_ended a)
          then (case a_again a of Inr n \<Rightarrow> [n] | Inl e \<Rightarrow> []) else [])"

definition polls :: "wake \<Rightarrow> smachine \<Rightarrow> smachine option" where
  "polls w m =
     (case w of
        Ready \<Rightarrow> Some (m\<lparr>m_phase := SAttempting\<rparr>)
      | FdClosing \<Rightarrow> Some (m\<lparr>m_phase := SWritten (Some ErrFileClosing)\<rparr>)
      | DeadlinePassed \<Rightarrow>
          if passed (s_fdWrite (m_s m)) (m_now m)
          then Some (m\<lparr>m_phase := SWritten (Some DeadlineExceeded),
            g_own := (if woken (m_s m) then g_own m else passed (s_callerDeadline (m_s m)) (m_now m))\<rparr>)
          else None)"

definition takes_over :: "sendState \<Rightarrow> smachine \<Rightarrow> smachine" where
  "takes_over s m = m\<lparr>m_s := s, g_own := (if woken s \<and> \<not> woken (m_s m) then g_own m \<or> g_passed m else g_own m)\<rparr>"

fun send_step :: "target \<Rightarrow> sendEvent \<Rightarrow> smachine \<Rightarrow> smachine option" where
  "send_step T (Tick t) m =
     (if m_now m \<le> t then Some (m\<lparr>m_now := t, g_passed := g_passed m \<or> passed (s_callerDeadline (m_s m)) t\<rparr>) else None)"
| "send_step T (CtxDone k) m =
     (if s_ctx (m_s m) \<noteq> NoContext \<and> m_ctxErr m = None then Some (m\<lparr>m_ctxErr := Some (OtherErr k)\<rparr>) else None)"
| "send_step T (Begin ctx b opts name assoc) m =
     (if m_phase m = SIdle
      then do {
        s \<leftarrow> send_start T ctx b opts name assoc (m_s m);
        Some (m\<lparr>m_s := s, m_phase := SLocked, m_ctxErr := None, m_fired := False, g_accepted := 0, g_sent := 0,
          g_passed := (if ctx = NoContext then g_passed m else passed (s_callerDeadline s) (m_now m)), g_own := False\<rparr>)
      }
      else None)"
| "send_step T (Prepare w) m = (if m_phase m = SLocked then polls w m else None)"
| "send_step T (Attempt a) m =
     (if m_phase m = SAttempting
      then let s = m_s m; (r, s') = sendAttempt T a s;
               starts = (\<not> s_slow s \<and> s_slow s' \<and> s_ctx s = NoContext)
           in Some (m\<lparr>m_s := s',
                m_phase := (case r of Retry \<Rightarrow> SAttempting | Returned \<Rightarrow> SWritten None | Waits \<Rightarrow> SWaiting),
                g_accepted := g_accepted m + length (accepted T a s), g_sent := g_sent m + sum_list (accepted T a s),
                g_passed := (if starts then passed (s_callerDeadline s) (m_now m) else g_passed m)\<rparr>)
      else None)"
| "send_step T (Wake w) m = (if m_phase m = SWaiting then polls w m else None)"
| "send_step T Interrupt m =
     (if s_stop (m_s m) \<and> m_ctxErr m \<noteq> None \<and> \<not> m_fired m \<and> busy (m_phase m)
      then Some (takes_over (send_interrupt (m_now m) (m_s m)) m\<lparr>m_fired := True\<rparr>) else None)"
| "send_step T Shutdown m = Some (takes_over (wakeShutdown (m_now m) (m_s m)) m)"
| "send_step T (SetDeadline t mode) m =
     Some (m\<lparr>m_s := send_setDeadline (m_now m) t mode (m_s m),
       g_passed := g_passed m \<or> mode \<noteq> ModeRead \<and> passed t (m_now m)\<rparr>)"
| "send_step T Finish m =
     (case m_phase m of
        SWritten err \<Rightarrow>
          let (r, s) = send_finish (m_ctxErr m) err (m_s m)
          in Some (m\<lparr>m_s := s, m_phase := SIdle, m_result := r\<rparr>)
      | _ \<Rightarrow> None)"

definition machine_start :: "int \<Rightarrow> sendState \<Rightarrow> smachine" where
  "machine_start now s = \<lparr>m_s = s, m_phase = SIdle, m_now = now, m_ctxErr = None, m_fired = False, m_result = (0, None),
     g_accepted = 0, g_sent = 0, g_passed = False, g_own = False\<rparr>"

inductive send_reachable :: "target \<Rightarrow> smachine \<Rightarrow> bool" for T where
  start: "aLongTimeAgo \<le> now \<Longrightarrow> send_reachable T (machine_start now (sendState_bind latch explicit))"
| step: "send_reachable T m \<Longrightarrow> send_step T e m = Some m' \<Longrightarrow> send_reachable T m'"

section \<open>The invariant\<close>

definition tracking :: "smachine \<Rightarrow> bool" where
  "tracking m \<longleftrightarrow> s_slow (m_s m) \<or> m_phase m \<noteq> SIdle \<and> s_ctx (m_s m) \<noteq> NoContext"

text \<open>The marks of a send: what each of them tells of the phase and of the others.\<close>

definition marks_inv :: "smachine \<Rightarrow> bool" where
  "marks_inv m \<longleftrightarrow> (let s = m_s m in
     (s_parked s \<longrightarrow> s_slow s) \<and> (s_slow s \<longrightarrow> busy (m_phase m)) \<and>
     (s_stop s \<longrightarrow> busy (m_phase m) \<and> s_ctx s = Context True) \<and>
     (s_shutdownWake s \<longrightarrow> s_slow s \<and> \<not> s_interrupted s) \<and>
     (s_interrupted s \<longrightarrow> s_stop s \<and> m_ctxErr m \<noteq> None \<and> m_fired m) \<and>
     (m_phase m = SIdle \<longrightarrow> s_ctx s = NoContext))"

text \<open>Who owns the descriptor's write deadline.\<close>

definition owner_inv :: "smachine \<Rightarrow> bool" where
  "owner_inv m \<longleftrightarrow> aLongTimeAgo \<le> m_now m \<and>
     (if woken (m_s m) then s_fdWrite (m_s m) = Some aLongTimeAgo else s_fdWrite (m_s m) = s_callerDeadline (m_s m))"

text \<open>Whether a deadline of the caller's has passed while the send can be interrupted.\<close>

definition passed_inv :: "smachine \<Rightarrow> bool" where
  "passed_inv m \<longleftrightarrow>
     (tracking m \<longrightarrow> (s_callerCrossed (m_s m) \<or> passed (s_callerDeadline (m_s m)) (m_now m)) = g_passed m)"

text \<open>Which of the deadline, the context and the shutdown ended the wait.\<close>

definition cause_inv :: "smachine \<Rightarrow> bool" where
  "cause_inv m \<longleftrightarrow>
     (if woken (m_s m) then s_callerFirst (m_s m) = g_own m
      else g_own m = (m_phase m = SWritten (Some DeadlineExceeded)) \<or> m_phase m = SIdle) \<and>
     (g_own m \<and> tracking m \<longrightarrow> g_passed m)"

definition sent_inv :: "smachine \<Rightarrow> bool" where
  "sent_inv m \<longleftrightarrow> (case m_phase m of
     SIdle \<Rightarrow> s_n (m_s m) = 0 \<and> s_err (m_s m) = None
   | SWritten None \<Rightarrow> (if s_err (m_s m) = None then g_accepted m = 1 \<and> g_sent m = s_n (m_s m) else g_accepted m = 0)
   | _ \<Rightarrow> g_accepted m = 0 \<and> g_sent m = 0 \<and> s_n (m_s m) = 0 \<and> s_err (m_s m) = None)"

lemma sendOnce_frame:
  assumes "sendOnce T a s = ((n, err), s')"
  shows "s' = s\<lparr>s_name := s_name s', s_latch := s_latch s'\<rparr>"
proof -
  have "sendOnce T a s = (x, s') \<Longrightarrow> s' = s\<lparr>s_name := s_name s', s_latch := s_latch s'\<rparr>" for x
    unfolding sendOnce_def Let_def by (auto split: option.splits prod.splits if_splits)
  with assms show ?thesis by blast
qed

lemma sendAttempt_frame:
  assumes "sendAttempt T a s = (r, s')"
  shows "s_fdWrite s' = s_fdWrite s \<and> s_callerDeadline s' = s_callerDeadline s \<and> s_callerFirst s' = s_callerFirst s \<and>
    s_interrupted s' = s_interrupted s \<and> s_shutdownWake s' = s_shutdownWake s \<and> s_ctx s' = s_ctx s \<and> s_data s' = s_data s \<and>
    s_wait s' = s_wait s \<and>
    (s_slow s \<longrightarrow> s_slow s') \<and> (s_parked s' \<longrightarrow> s_parked s \<or> s_slow s') \<and> (s_stop s \<longrightarrow> s_stop s') \<and>
    (s_stop s' \<longrightarrow> s_stop s \<or> s_ctx s = Context True) \<and>
    s_callerCrossed s' = (if \<not> s_slow s \<and> s_slow s' \<and> s_ctx s = NoContext then False else s_callerCrossed s)"
proof -
  obtain n err s1 where o: "sendOnce T a s = ((n, err), s1)" by (metis prod.exhaust)
  from sendOnce_frame [OF o] obtain nm lt where s1: "s1 = s\<lparr>s_name := nm, s_latch := lt\<rparr>" by metis
  show ?thesis using assms by (auto simp: sendAttempt_def o s1 Let_def split: if_splits)
qed

lemma send_start_frame:
  assumes "send_start T ctx b opts name assoc s = Some s'"
  shows "\<exists>ct nm fl w. s' = s\<lparr>s_callerCrossed := (if ctx = NoContext then s_callerCrossed s else False),
     s_ctx := (if ctx = NoContext then s_ctx s else ctx), s_data := b, s_control := ct, s_name := nm, s_flags := fl, s_wait := w\<rparr>"
  using assms by (auto simp: send_start_def split: if_splits bind_splits)

lemma passed_mono: "passed d now \<Longrightarrow> now \<le> t \<Longrightarrow> passed d t"
  by (auto simp: passed_def split: option.splits)

lemma setDeadline_fields [simp]:
  "s_parked (send_setDeadline now t mode s) = s_parked s"
  "s_slow (send_setDeadline now t mode s) = s_slow s"
  "s_stop (send_setDeadline now t mode s) = s_stop s"
  "s_ctx (send_setDeadline now t mode s) = s_ctx s"
  "s_callerFirst (send_setDeadline now t mode s) = s_callerFirst s"
  "s_shutdownWake (send_setDeadline now t mode s) = s_shutdownWake s"
  "s_interrupted (send_setDeadline now t mode s) = s_interrupted s"
  "s_n (send_setDeadline now t mode s) = s_n s"
  "s_err (send_setDeadline now t mode s) = s_err s"
  "s_data (send_setDeadline now t mode s) = s_data s"
  "s_latch (send_setDeadline now t mode s) = s_latch s"
  "s_name (send_setDeadline now t mode s) = s_name s"
  "s_wait (send_setDeadline now t mode s) = s_wait s"
  "s_callerCrossed (send_setDeadline now t mode s) = (s_callerCrossed s \<or> mode \<noteq> ModeRead \<and> passed (s_callerDeadline s) now)"
  "s_callerDeadline (send_setDeadline now t mode s) = (if mode = ModeRead then s_callerDeadline s else t)"
  "s_fdWrite (send_setDeadline now t mode s) = (if mode = ModeRead \<or> woken s then s_fdWrite s else t)"
  by (simp_all add: send_setDeadline_def Let_def woken_def)

lemma interrupt_fields [simp]:
  "s_parked (send_interrupt now s) = s_parked s"
  "s_slow (send_interrupt now s) = s_slow s"
  "s_stop (send_interrupt now s) = s_stop s"
  "s_ctx (send_interrupt now s) = s_ctx s"
  "s_shutdownWake (send_interrupt now s) = s_shutdownWake s"
  "s_n (send_interrupt now s) = s_n s"
  "s_err (send_interrupt now s) = s_err s"
  "s_data (send_interrupt now s) = s_data s"
  "s_latch (send_interrupt now s) = s_latch s"
  "s_name (send_interrupt now s) = s_name s"
  "s_wait (send_interrupt now s) = s_wait s"
  "s_callerCrossed (send_interrupt now s) = s_callerCrossed s"
  "s_callerDeadline (send_interrupt now s) = s_callerDeadline s"
  "s_callerFirst (send_interrupt now s) = (if s_shutdownWake s then s_callerFirst s else s_callerCrossed s \<or> passed (s_callerDeadline s) now)"
  "s_interrupted (send_interrupt now s) = (s_interrupted s \<or> \<not> s_shutdownWake s)"
  "s_fdWrite (send_interrupt now s) = (if s_shutdownWake s then s_fdWrite s else Some aLongTimeAgo)"
  by (simp_all add: send_interrupt_def Let_def)

lemma wakeShutdown_fields [simp]:
  "s_parked (wakeShutdown now s) = s_parked s"
  "s_slow (wakeShutdown now s) = s_slow s"
  "s_stop (wakeShutdown now s) = s_stop s"
  "s_ctx (wakeShutdown now s) = s_ctx s"
  "s_interrupted (wakeShutdown now s) = s_interrupted s"
  "s_n (wakeShutdown now s) = s_n s"
  "s_err (wakeShutdown now s) = s_err s"
  "s_data (wakeShutdown now s) = s_data s"
  "s_latch (wakeShutdown now s) = s_latch s"
  "s_name (wakeShutdown now s) = s_name s"
  "s_wait (wakeShutdown now s) = s_wait s"
  "s_callerCrossed (wakeShutdown now s) = s_callerCrossed s"
  "s_callerDeadline (wakeShutdown now s) = s_callerDeadline s"
  "s_callerFirst (wakeShutdown now s) = (if s_parked s \<and> \<not> s_interrupted s \<and> \<not> s_shutdownWake s then s_callerCrossed s \<or> passed (s_callerDeadline s) now else s_callerFirst s)"
  "s_shutdownWake (wakeShutdown now s) = (s_shutdownWake s \<or> s_parked s \<and> \<not> s_interrupted s \<and> \<not> s_shutdownWake s)"
  "s_fdWrite (wakeShutdown now s) = (if s_parked s \<and> \<not> s_interrupted s \<and> \<not> s_shutdownWake s then Some aLongTimeAgo else s_fdWrite s)"
  by (auto simp: wakeShutdown_def)

lemma send_step_attempt:
  assumes "send_step T (Attempt a) m = Some m'"
  shows "\<exists>r s'. sendAttempt T a (m_s m) = (r, s') \<and> m_phase m = SAttempting \<and> m_s m' = s' \<and>
    m_phase m' = (case r of Retry \<Rightarrow> SAttempting | Returned \<Rightarrow> SWritten None | Waits \<Rightarrow> SWaiting) \<and>
    busy (m_phase m') \<and> m_phase m' \<noteq> SIdle \<and> m_phase m' \<noteq> SWritten (Some DeadlineExceeded) \<and>
    m_ctxErr m' = m_ctxErr m \<and> m_fired m' = m_fired m \<and> m_now m' = m_now m \<and>
    g_own m' = g_own m \<and> g_accepted m' = g_accepted m + length (accepted T a (m_s m)) \<and>
    g_sent m' = g_sent m + sum_list (accepted T a (m_s m)) \<and>
    g_passed m' = (if \<not> s_slow (m_s m) \<and> s_slow s' \<and> s_ctx (m_s m) = NoContext then passed (s_callerDeadline (m_s m)) (m_now m)
      else g_passed m)"
proof -
  obtain r s' where r: "sendAttempt T a (m_s m) = (r, s')" by (metis prod.exhaust)
  have "busy (case r of Retry \<Rightarrow> SAttempting | Returned \<Rightarrow> SWritten None | Waits \<Rightarrow> SWaiting)"
    "(case r of Retry \<Rightarrow> SAttempting | Returned \<Rightarrow> SWritten None | Waits \<Rightarrow> SWaiting) \<noteq> SIdle"
    "(case r of Retry \<Rightarrow> SAttempting | Returned \<Rightarrow> SWritten None | Waits \<Rightarrow> SWaiting) \<noteq> SWritten (Some DeadlineExceeded)"
    by (cases r; simp add: busy_def)+
  with assms r show ?thesis by (auto simp: Let_def split: if_splits)
qed

lemma send_finish_frame:
  assumes "send_step T Finish m = Some m'"
  shows "\<exists>err. m_phase m = SWritten err \<and> m_phase m' = SIdle \<and> m_now m' = m_now m \<and>
    m_result m' = fst (send_finish (m_ctxErr m) err (m_s m)) \<and> g_own m' = g_own m \<and> g_passed m' = g_passed m \<and>
    g_accepted m' = g_accepted m \<and> g_sent m' = g_sent m \<and>
    s_slow (m_s m') = False \<and> s_stop (m_s m') = False \<and> s_ctx (m_s m') = NoContext \<and> s_n (m_s m') = 0 \<and> s_err (m_s m') = None \<and>
    s_callerDeadline (m_s m') = s_callerDeadline (m_s m) \<and>
    (let tidy = s_slow (m_s m) \<or> s_stop (m_s m) in
       s_parked (m_s m') = (s_parked (m_s m) \<and> \<not> tidy) \<and>
       s_interrupted (m_s m') = (s_interrupted (m_s m) \<and> \<not> tidy) \<and>
       s_shutdownWake (m_s m') = (s_shutdownWake (m_s m) \<and> \<not> tidy) \<and>
       s_fdWrite (m_s m') = (if tidy \<and> woken (m_s m) then s_callerDeadline (m_s m) else s_fdWrite (m_s m)))"
proof -
  from assms obtain err where e: "m_phase m = SWritten err" by (auto split: sendPhase.splits)
  define m2 where "m2 = m\<lparr>m_s := snd (send_finish (m_ctxErr m) err (m_s m)), m_phase := SIdle,
    m_result := fst (send_finish (m_ctxErr m) err (m_s m))\<rparr>"
  have "m' = m2" using assms e by (simp add: m2_def case_prod_unfold Let_def)
  then show ?thesis
    by (intro exI [of _ err] conjI) (simp_all add: m2_def e send_finish_def Let_def woken_def)
qed

lemma takes_over_fields [simp]:
  "m_s (takes_over s m) = s" "m_phase (takes_over s m) = m_phase m" "m_now (takes_over s m) = m_now m"
  "m_ctxErr (takes_over s m) = m_ctxErr m" "m_fired (takes_over s m) = m_fired m" "g_passed (takes_over s m) = g_passed m"
  "g_accepted (takes_over s m) = g_accepted m" "g_sent (takes_over s m) = g_sent m"
  "g_own (takes_over s m) = (g_own m \<or> woken s \<and> \<not> woken (m_s m) \<and> g_passed m)"
  by (auto simp: takes_over_def)

lemma polls_frame:
  assumes "polls w m = Some m'"
  shows "m_s m' = m_s m \<and> m_now m' = m_now m \<and> m_ctxErr m' = m_ctxErr m \<and> m_fired m' = m_fired m \<and>
    g_passed m' = g_passed m \<and> g_accepted m' = g_accepted m \<and> g_sent m' = g_sent m \<and> busy (m_phase m') \<and> m_phase m' \<noteq> SIdle \<and>
    m_phase m' \<noteq> SWritten None \<and>
    (if m_phase m' = SWritten (Some DeadlineExceeded)
     then passed (s_fdWrite (m_s m)) (m_now m) \<and>
       g_own m' = (if woken (m_s m) then g_own m else passed (s_callerDeadline (m_s m)) (m_now m))
     else g_own m' = g_own m)"
  using assms by (cases w) (auto simp: polls_def busy_def split: if_splits)

lemma send_step_polls:
  assumes "send_step T (Prepare w) m = Some m' \<or> send_step T (Wake w) m = Some m'"
  shows "polls w m = Some m' \<and> (m_phase m = SLocked \<or> m_phase m = SWaiting)"
  using assms by (auto split: if_splits)

lemma send_step_begin:
  assumes "send_step T (Begin ctx b opts name assoc) m = Some m'"
  shows "\<exists>s'. send_start T ctx b opts name assoc (m_s m) = Some s' \<and> m_phase m = SIdle \<and> m_s m' = s' \<and> m_phase m' = SLocked \<and>
    m_ctxErr m' = None \<and> m_fired m' = False \<and> g_accepted m' = 0 \<and> g_sent m' = 0 \<and> g_own m' = False \<and> m_now m' = m_now m \<and>
    g_passed m' = (if ctx = NoContext then g_passed m else passed (s_callerDeadline s') (m_now m))"
  using assms by (auto split: if_splits bind_splits)

text \<open>The simple events change one component each.\<close>

lemma send_step_simple:
  "send_step T (Tick t) m = Some m' \<longleftrightarrow> m_now m \<le> t \<and> m' = m\<lparr>m_now := t, g_passed := g_passed m \<or> passed (s_callerDeadline (m_s m)) t\<rparr>"
  "send_step T (CtxDone k) m = Some m' \<longleftrightarrow> s_ctx (m_s m) \<noteq> NoContext \<and> m_ctxErr m = None \<and> m' = m\<lparr>m_ctxErr := Some (OtherErr k)\<rparr>"
  "send_step T Interrupt m = Some m' \<longleftrightarrow> s_stop (m_s m) \<and> m_ctxErr m \<noteq> None \<and> \<not> m_fired m \<and> busy (m_phase m) \<and>
     m' = takes_over (send_interrupt (m_now m) (m_s m)) m\<lparr>m_fired := True\<rparr>"
  by (auto split: if_splits)

lemma marks_inv_step:
  assumes "marks_inv m" "send_step T e m = Some m'"
  shows "marks_inv m'"
proof -
  note inv = assms(1) [unfolded marks_inv_def Let_def]
  show ?thesis
  proof (cases e)
    case (Begin ctx b opts name assoc)
    from send_step_begin [OF assms(2) [unfolded Begin]] send_start_frame inv show ?thesis
      by (fastforce simp: marks_inv_def Let_def busy_def)
  next
    case (Attempt a)
    from send_step_attempt [OF assms(2) [unfolded Attempt]] obtain r s' where
      r: "sendAttempt T a (m_s m) = (r, s')" "m_phase m = SAttempting" and
      m': "m_s m' = s'" "busy (m_phase m')" "m_phase m' \<noteq> SIdle" "m_ctxErr m' = m_ctxErr m" "m_fired m' = m_fired m" by blast
    have "s_parked s' \<longrightarrow> s_slow s'" "s_stop s' \<longrightarrow> s_ctx s' = Context True" "s_shutdownWake s' \<longrightarrow> s_slow s' \<and> \<not> s_interrupted s'"
      "s_interrupted s' \<longrightarrow> s_stop s' \<and> m_ctxErr m \<noteq> None \<and> m_fired m"
      using sendAttempt_frame [OF r(1)] inv by (simp_all) blast+
    then show ?thesis by (simp add: marks_inv_def Let_def m')
  next
    case Finish
    from send_finish_frame [OF assms(2) [unfolded Finish]] inv show ?thesis by (auto simp: marks_inv_def Let_def)
  next
    case (Prepare w)
    with polls_frame [of w m m'] send_step_polls [of T w m m'] assms(2) inv show ?thesis by (auto simp: marks_inv_def Let_def)
  next
    case (Wake w)
    with polls_frame [of w m m'] send_step_polls [of T w m m'] assms(2) inv show ?thesis by (auto simp: marks_inv_def Let_def)
  next
    case Shutdown
    with assms(2) have "m' = takes_over (wakeShutdown (m_now m) (m_s m)) m" by simp
    with inv show ?thesis by (simp add: marks_inv_def Let_def)
  next
    case Interrupt
    with assms(2) inv show ?thesis by (auto simp: send_step_simple marks_inv_def Let_def simp del: send_step.simps)
  next
    case (SetDeadline t mode)
    with assms(2) inv show ?thesis by (auto simp: marks_inv_def Let_def)
  qed (use assms(2) inv in \<open>auto simp: send_step_simple marks_inv_def Let_def simp del: send_step.simps\<close>)
qed

lemma woken_fields:
  "woken (send_setDeadline now t mode s) = woken s"
  "woken (send_interrupt now s)"
  "woken (wakeShutdown now s) = (woken s \<or> s_parked s)"
  by (auto simp: woken_def)

lemma woken_marks: "marks_inv m \<Longrightarrow> woken (m_s m) \<Longrightarrow> s_slow (m_s m) \<or> s_stop (m_s m)"
  by (auto simp: marks_inv_def Let_def woken_def)

lemma idle_not_woken: "marks_inv m \<Longrightarrow> m_phase m = SIdle \<Longrightarrow> \<not> woken (m_s m) \<and> \<not> s_slow (m_s m) \<and> \<not> s_stop (m_s m) \<and> \<not> s_parked (m_s m)"
  by (auto simp: marks_inv_def Let_def woken_def busy_def)

lemma owner_inv_step:
  assumes "owner_inv m" "marks_inv m" "send_step T e m = Some m'"
  shows "owner_inv m'"
proof -
  note inv = assms(1) [unfolded owner_inv_def]
  show ?thesis
  proof (cases e)
    case (Begin ctx b opts name assoc)
    from send_step_begin [OF assms(3) [unfolded Begin]] obtain s' where
      s': "send_start T ctx b opts name assoc (m_s m) = Some s'" "m_s m' = s'" "m_now m' = m_now m" by blast
    from send_start_frame [OF s'(1)] s' inv show ?thesis by (auto simp: owner_inv_def woken_def)
  next
    case (Attempt a)
    from send_step_attempt [OF assms(3) [unfolded Attempt]] obtain r s' where
      r: "sendAttempt T a (m_s m) = (r, s')" and m': "m_s m' = s'" "m_now m' = m_now m" by blast
    from sendAttempt_frame [OF r] inv show ?thesis by (simp add: owner_inv_def woken_def m')
  next
    case Finish
    from send_finish_frame [OF assms(3) [unfolded Finish]] woken_marks [OF assms(2)]
    have "\<not> woken (m_s m')" "m_now m' = m_now m" "s_callerDeadline (m_s m') = s_callerDeadline (m_s m)"
      "s_fdWrite (m_s m') = (if woken (m_s m) then s_callerDeadline (m_s m) else s_fdWrite (m_s m))"
      by (auto simp: Let_def woken_def)
    with inv show ?thesis by (simp add: owner_inv_def split: if_splits)
  next
    case (Prepare w)
    with polls_frame [of w m m'] send_step_polls [of T w m m'] assms(3) inv show ?thesis by (auto simp: owner_inv_def)
  next
    case (Wake w)
    with polls_frame [of w m m'] send_step_polls [of T w m m'] assms(3) inv show ?thesis by (auto simp: owner_inv_def)
  next
    case Shutdown
    with assms(3) have "m' = takes_over (wakeShutdown (m_now m) (m_s m)) m" by simp
    with inv show ?thesis by (auto simp: owner_inv_def woken_fields) (auto simp: woken_def)
  next
    case Interrupt
    with assms(3) inv show ?thesis
      by (auto simp: send_step_simple owner_inv_def woken_fields simp del: send_step.simps) (auto simp: woken_def)
  next
    case (SetDeadline t mode)
    with assms(3) inv show ?thesis by (auto simp: owner_inv_def woken_fields)
  qed (use assms(3) inv in \<open>auto simp: send_step_simple owner_inv_def simp del: send_step.simps\<close>)
qed

lemma tracking_marks: "marks_inv m \<Longrightarrow> s_slow (m_s m) \<or> s_stop (m_s m) \<or> woken (m_s m) \<Longrightarrow> tracking m"
  by (auto simp: marks_inv_def Let_def tracking_def woken_def busy_def)

lemma idle_not_tracking: "marks_inv m \<Longrightarrow> m_phase m = SIdle \<Longrightarrow> \<not> tracking m"
  by (auto simp: marks_inv_def Let_def tracking_def busy_def)

lemma attempt_tracking:
  assumes "sendAttempt T a (m_s m) = (r, s')" "m_phase m = SAttempting" "m_s m' = s'"
    and "\<not> (\<not> s_slow (m_s m) \<and> s_slow s' \<and> s_ctx (m_s m) = NoContext)" "tracking m'"
  shows "tracking m"
  using sendAttempt_frame [OF assms(1)] assms by (auto simp: tracking_def)

lemma passed_inv_step:
  assumes "passed_inv m" "marks_inv m" "send_step T e m = Some m'"
  shows "passed_inv m'"
proof -
  note inv = assms(1) [unfolded passed_inv_def]
  show ?thesis
  proof (cases e)
    case (Tick t)
    with assms(3) inv passed_mono [of "s_callerDeadline (m_s m)" "m_now m" t] show ?thesis
      by (auto simp: send_step_simple passed_inv_def tracking_def simp del: send_step.simps)
  next
    case (Begin ctx b opts name assoc)
    from send_step_begin [OF assms(3) [unfolded Begin]] obtain s' where
      s': "send_start T ctx b opts name assoc (m_s m) = Some s'" "m_s m' = s'" "m_now m' = m_now m" "m_phase m = SIdle" and
      g: "g_passed m' = (if ctx = NoContext then g_passed m else passed (s_callerDeadline s') (m_now m))" by blast
    from send_start_frame [OF s'(1)] s' g idle_not_tracking [OF assms(2) s'(4)] idle_not_woken [OF assms(2) s'(4)] assms(2)
    show ?thesis by (auto simp: passed_inv_def tracking_def marks_inv_def Let_def)
  next
    case (Attempt a)
    from send_step_attempt [OF assms(3) [unfolded Attempt]] obtain r s' where
      r: "sendAttempt T a (m_s m) = (r, s')" "m_phase m = SAttempting" and
      m': "m_s m' = s'" "m_now m' = m_now m" "m_phase m' \<noteq> SIdle" and
      g: "g_passed m' = (if \<not> s_slow (m_s m) \<and> s_slow s' \<and> s_ctx (m_s m) = NoContext
        then passed (s_callerDeadline (m_s m)) (m_now m) else g_passed m)" by blast
    show ?thesis
      using attempt_tracking [OF r m'(1)] sendAttempt_frame [OF r(1)] g inv
      by (cases "\<not> s_slow (m_s m) \<and> s_slow s' \<and> s_ctx (m_s m) = NoContext") (auto simp: passed_inv_def m')
  next
    case Finish
    from send_finish_frame [OF assms(3) [unfolded Finish]] have "\<not> tracking m'" by (auto simp: tracking_def)
    then show ?thesis by (simp add: passed_inv_def)
  next
    case (Prepare w)
    with polls_frame [of w m m'] send_step_polls [of T w m m'] assms(3) inv show ?thesis
      by (auto simp: passed_inv_def tracking_def)
  next
    case (Wake w)
    with polls_frame [of w m m'] send_step_polls [of T w m m'] assms(3) inv show ?thesis
      by (auto simp: passed_inv_def tracking_def)
  next
    case Shutdown
    with assms(3) have "m' = takes_over (wakeShutdown (m_now m) (m_s m)) m" by simp
    with inv show ?thesis by (simp add: passed_inv_def tracking_def)
  next
    case Interrupt
    with assms(3) inv show ?thesis
      by (simp add: send_step_simple passed_inv_def tracking_def del: send_step.simps)
  next
    case (SetDeadline t mode)
    with assms(3) inv show ?thesis by (cases "mode = ModeRead") (auto simp: passed_inv_def tracking_def)
  qed (use assms(3) inv in \<open>auto simp: send_step_simple passed_inv_def tracking_def simp del: send_step.simps\<close>)
qed

lemma tracked:
  "passed_inv m \<Longrightarrow> tracking m \<Longrightarrow> (s_callerCrossed (m_s m) \<or> passed (s_callerDeadline (m_s m)) (m_now m)) = g_passed m"
  by (simp add: passed_inv_def)

lemma cause_inv_polls:
  assumes "cause_inv m" "passed_inv m" "owner_inv m" "polls w m = Some m'" "m_phase m = SLocked \<or> m_phase m = SWaiting"
  shows "cause_inv m'"
proof -
  note f = polls_frame [OF assms(4)]
  have "tracking m' \<Longrightarrow> tracking m" using f assms(5) by (auto simp: tracking_def)
  then show ?thesis
    using f assms(1,3,5) tracked [OF assms(2)] by (auto simp: cause_inv_def owner_inv_def split: if_splits)
qed

lemma cause_inv_attempt:
  assumes "cause_inv m" "marks_inv m" "send_step T (Attempt a) m = Some m'"
  shows "cause_inv m'"
proof -
  from send_step_attempt [OF assms(3)] obtain r s' where
    r: "sendAttempt T a (m_s m) = (r, s')" "m_phase m = SAttempting" and
    m': "m_s m' = s'" "m_phase m' \<noteq> SIdle" "g_own m' = g_own m" "m_phase m' \<noteq> SWritten (Some DeadlineExceeded)" and
    g: "g_passed m' = (if \<not> s_slow (m_s m) \<and> s_slow s' \<and> s_ctx (m_s m) = NoContext
      then passed (s_callerDeadline (m_s m)) (m_now m) else g_passed m)"
    by blast
  have w: "woken s' = woken (m_s m)" "s_callerFirst s' = s_callerFirst (m_s m)"
    using sendAttempt_frame [OF r(1)] by (simp_all add: woken_def)
  show ?thesis
  proof (cases "woken (m_s m)")
    case True
    then have "s_slow (m_s m) \<or> s_ctx (m_s m) \<noteq> NoContext" using woken_marks [OF assms(2)] assms(2) by (auto simp: marks_inv_def Let_def)
    then have "g_passed m' = g_passed m" using g by auto
    then show ?thesis using True w m' assms(1) tracking_marks [OF assms(2)] by (simp add: cause_inv_def)
  next
    case False
    then show ?thesis using w m' assms(1) r(2) by (simp add: cause_inv_def)
  qed
qed

lemma cause_inv_shutdown:
  assumes "cause_inv m" "passed_inv m" "marks_inv m"
  shows "cause_inv (takes_over (wakeShutdown (m_now m) (m_s m)) m)" (is "cause_inv ?m'")
proof (cases "s_parked (m_s m) \<and> \<not> woken (m_s m)")
  case True
  then have t: "tracking m" using assms(3) tracking_marks [of m] by (auto simp: marks_inv_def Let_def)
  then have "tracking ?m'" "g_own m \<Longrightarrow> g_passed m" using assms(1) by (simp_all add: tracking_def cause_inv_def)
  with True t tracked [OF assms(2)] show ?thesis by (auto simp: cause_inv_def woken_fields) (auto simp: woken_def)
next
  case False
  then have "wakeShutdown (m_now m) (m_s m) = m_s m" by (auto simp: wakeShutdown_def woken_def)
  then have "?m' = m" by (simp add: takes_over_def)
  then show ?thesis using assms(1) by simp
qed

lemma cause_inv_interrupt:
  assumes "cause_inv m" "passed_inv m" "marks_inv m" "send_step T Interrupt m = Some m'"
  shows "cause_inv m'"
proof -
  have i: "s_stop (m_s m)" "\<not> m_fired m" "m' = takes_over (send_interrupt (m_now m) (m_s m)) m\<lparr>m_fired := True\<rparr>"
    using assms(4) by (simp_all add: send_step_simple del: send_step.simps)
  then have t: "tracking m" "tracking m'" using tracking_marks [OF assms(3)] by (auto simp: tracking_def)
  show ?thesis
  proof (cases "s_shutdownWake (m_s m)")
    case True
    then have "send_interrupt (m_now m) (m_s m) = m_s m" by (simp add: send_interrupt_def)
    then show ?thesis using assms(1) t i(3) by (simp add: cause_inv_def)
  next
    case False
    have "\<not> s_interrupted (m_s m)" using assms(3) i(2) by (auto simp: marks_inv_def Let_def)
    then show ?thesis using False assms(1) t tracked [OF assms(2)] i(3)
      by (auto simp: cause_inv_def woken_fields) (auto simp: woken_def)
  qed
qed

lemma cause_inv_step:
  assumes "cause_inv m" "passed_inv m" "owner_inv m" "marks_inv m" "send_step T e m = Some m'"
  shows "cause_inv m'"
proof (cases e)
  case (Begin ctx b opts name assoc)
  from send_step_begin [OF assms(5) [unfolded Begin]] obtain s' where
    s': "send_start T ctx b opts name assoc (m_s m) = Some s'" "m_s m' = s'" "m_phase m = SIdle" "m_phase m' = SLocked" "g_own m' = False" by blast
  from send_start_frame [OF s'(1)] idle_not_woken [OF assms(4) s'(3)] have "\<not> woken s'" by (auto simp: woken_def)
  with s' show ?thesis by (simp add: cause_inv_def)
next
  case Finish
  from send_finish_frame [OF assms(5) [unfolded Finish]] have "\<not> tracking m'" "\<not> woken (m_s m')" "m_phase m' = SIdle"
    using woken_marks [OF assms(4)] by (auto simp: tracking_def woken_def Let_def)
  then show ?thesis by (simp add: cause_inv_def)
next
  case (Prepare w)
  with send_step_polls [of T w m m'] assms cause_inv_polls show ?thesis by blast
next
  case (Wake w)
  with send_step_polls [of T w m m'] assms cause_inv_polls show ?thesis by blast
next
  case (SetDeadline t mode)
  with assms(1,5) show ?thesis by (auto simp: cause_inv_def tracking_def woken_fields)
next
  case (Attempt a)
  with assms cause_inv_attempt show ?thesis by blast
next
  case Interrupt
  with assms cause_inv_interrupt show ?thesis by blast
next
  case Shutdown
  with assms cause_inv_shutdown [of m] show ?thesis by simp
qed (use assms(1,5) in \<open>auto simp: send_step_simple cause_inv_def tracking_def simp del: send_step.simps split: if_splits\<close>)

section \<open>What the kernel accepted\<close>

lemma sendErrorLocked_fails: "err \<noteq> None \<Longrightarrow> fst (sendErrorLocked err t) \<noteq> None"
  by (auto simp: sendErrorLocked_def Let_def split: prod.splits)

lemma accepted_sendOnce:
  assumes "sendOnce T a s = ((n, err), s')"
  shows "case accepted T a s of [] \<Rightarrow> err \<noteq> None | [k] \<Rightarrow> err = None \<and> n = k | _ \<Rightarrow> False"
proof (cases "s_latch s")
  case None
  with assms show ?thesis by (auto simp: sendOnce_def accepted_def answered_def split: sum.splits)
next
  case (Some t)
  show ?thesis
  proof (cases "t_err t")
    case None
    let ?again = "s_name s \<noteq> None \<and> assocEnded T (a_ended a) \<and> a_send a = Inl EADDRNOTAVAIL"
    have "fst (sendOnce T a s) = (let (n, err) = (if ?again then answered (a_again a) else answered (a_send a)) in
        (n, if err \<noteq> None then fst (sendErrorLocked err t) else err))"
      using Some None by (auto simp: sendOnce_def answered_def Let_def case_prod_unfold split: sum.splits)
    moreover have "accepted T a s = (case (if ?again then a_again a else a_send a) of Inr k \<Rightarrow> [k] | Inl e \<Rightarrow> [])"
      using Some None by (auto simp: accepted_def split: sum.splits)
    ultimately show ?thesis using assms sendErrorLocked_fails
      by (cases "if ?again then a_again a else a_send a") (auto simp: answered_def split: if_splits)
  qed (use Some assms in \<open>auto simp: sendOnce_def accepted_def\<close>)
qed

lemma accepted_attempt:
  assumes "sendAttempt T a s = (r, s')"
  shows "case accepted T a s of [] \<Rightarrow> r \<noteq> Returned \<and> s_n s' = s_n s \<and> s_err s' = s_err s \<or> r = Returned \<and> s_err s' \<noteq> None
    | [k] \<Rightarrow> r = Returned \<and> s_err s' = None \<and> s_n s' = k | _ \<Rightarrow> False"
proof -
  obtain n err s1 where o: "sendOnce T a s = ((n, err), s1)" by (metis prod.exhaust)
  from sendOnce_frame [OF o] obtain nm lt where "s1 = s\<lparr>s_name := nm, s_latch := lt\<rparr>" by metis
  then have s1: "s_n s1 = s_n s" "s_err s1 = s_err s" by simp_all
  show ?thesis
    using assms accepted_sendOnce [OF o] s1
    by (auto simp: sendAttempt_def o Let_def split: if_splits list.splits)
qed

lemma sent_inv_step:
  assumes "sent_inv m" "marks_inv m" "send_step T e m = Some m'"
  shows "sent_inv m'"
proof (cases e)
  case (Begin ctx b opts name assoc)
  from send_step_begin [OF assms(3) [unfolded Begin]] obtain s' where
    s': "send_start T ctx b opts name assoc (m_s m) = Some s'" "m_s m' = s'" "m_phase m = SIdle" "m_phase m' = SLocked"
      "g_accepted m' = 0" "g_sent m' = 0" by blast
  from send_start_frame [OF s'(1)] s' assms(1) show ?thesis by (auto simp: sent_inv_def)
next
  case (Attempt a)
  from send_step_attempt [OF assms(3) [unfolded Attempt]] obtain r s' where
    r: "sendAttempt T a (m_s m) = (r, s')" "m_phase m = SAttempting" and
    m': "m_s m' = s'" "m_phase m' = (case r of Retry \<Rightarrow> SAttempting | Returned \<Rightarrow> SWritten None | Waits \<Rightarrow> SWaiting)"
      "g_accepted m' = g_accepted m + length (accepted T a (m_s m))" "g_sent m' = g_sent m + sum_list (accepted T a (m_s m))" by blast
  with accepted_attempt [OF r(1)] assms(1) show ?thesis
    by (cases r) (auto simp: sent_inv_def split: list.splits)
next
  case Finish
  from send_finish_frame [OF assms(3) [unfolded Finish]] show ?thesis by (auto simp: sent_inv_def)
next
  case (Prepare w)
  with polls_frame [of w m m'] send_step_polls [of T w m m'] assms show ?thesis
    by (auto simp: sent_inv_def split: sendPhase.splits option.splits)
next
  case (Wake w)
  with polls_frame [of w m m'] send_step_polls [of T w m m'] assms show ?thesis
    by (auto simp: sent_inv_def split: sendPhase.splits option.splits)
next
  case (SetDeadline t mode)
  with assms(1,3) show ?thesis by (auto simp: sent_inv_def split: sendPhase.splits option.splits)
next
  case Shutdown
  with assms(1,3) show ?thesis by (auto simp: sent_inv_def split: sendPhase.splits option.splits)
qed (use assms(1,3) in \<open>auto simp: send_step_simple sent_inv_def simp del: send_step.simps
  split: sendPhase.splits option.splits\<close>)

end
