(* ===== verification/SendProps.thy ===== *)
theory SendProps
  imports SendMachine Reads
begin

text \<open>
  The properties of the send path: what a send leaves behind, what it reports, that an interrupted one
  ends, and that the socket's default parameters are applied to it and kept apart.
\<close>

lemma send_reachable_inv:
  "send_reachable T m \<Longrightarrow> marks_inv m \<and> owner_inv m \<and> passed_inv m \<and> cause_inv m \<and> sent_inv m"
proof (induction rule: send_reachable.induct)
  case (start now latch explicit)
  then show ?case
    by (simp add: marks_inv_def owner_inv_def passed_inv_def cause_inv_def sent_inv_def machine_start_def sendState_bind_def
      woken_def tracking_def busy_def)
next
  case (step m e m')
  then show ?case
    using marks_inv_step owner_inv_step passed_inv_step cause_inv_step sent_inv_step by blast
qed

fun send_run :: "target \<Rightarrow> sendEvent list \<Rightarrow> smachine \<Rightarrow> smachine option" where
  "send_run T [] m = Some m"
| "send_run T (e # es) m = (case send_step T e m of None \<Rightarrow> None | Some m' \<Rightarrow> send_run T es m')"

lemma send_run_reachable: "send_reachable T m \<Longrightarrow> send_run T es m = Some m' \<Longrightarrow> send_reachable T m'"
  by (induction T es m rule: send_run.induct) (auto split: option.splits intro: send_reachable.step)

text \<open>C5: a send leaves nothing behind: whatever deadlines the caller sets during it, and whether its
  context or a local Shutdown interrupts it, once it has returned the descriptor's write deadline is
  the one the caller set last, and no mark of the send is left for the next to stumble on.\<close>

theorem send_leaves_caller_deadline:
  assumes "send_reachable T m" "m_phase m = SIdle"
  shows "s_fdWrite (m_s m) = s_callerDeadline (m_s m) \<and> \<not> s_interrupted (m_s m) \<and> \<not> s_shutdownWake (m_s m) \<and>
    \<not> s_parked (m_s m) \<and> \<not> s_slow (m_s m) \<and> \<not> s_stop (m_s m) \<and> s_ctx (m_s m) = NoContext \<and>
    s_n (m_s m) = 0 \<and> s_err (m_s m) = None"
proof -
  from send_reachable_inv [OF assms(1)] have inv: "marks_inv m" "owner_inv m" "sent_inv m" by simp_all
  from inv(1) assms(2) have "s_ctx (m_s m) = NoContext" by (simp add: marks_inv_def Let_def)
  moreover from inv(3) assms(2) have "s_n (m_s m) = 0" "s_err (m_s m) = None" by (simp_all add: sent_inv_def)
  moreover note idle_not_woken [OF inv(1) assms(2)]
  ultimately show ?thesis using inv(2) by (simp add: owner_inv_def woken_def)
qed

text \<open>A run in which the send buffer is full, the caller moves the deadline during the wait, and the
  context ends the wait.\<close>

definition full_buffer :: sendAnswers where
  "full_buffer = \<lparr>a_send = Inl EAGAIN, a_ended = Inl EINVAL, a_again = Inl EAGAIN, a_shutting = Inl EINVAL\<rparr>"

definition canceled_run :: "sendEvent list" where
  "canceled_run = [Begin (Context True) [1, 2, 3] SendOptions_zero [] 0, Prepare Ready, Attempt full_buffer, CtxDone 7,
     SetDeadline (Some 9000000000) ModeWrite, Interrupt, SetDeadline (Some 8000000000) ModeBoth, Wake DeadlinePassed, Finish]"

definition canceled :: "smachine option" where
  "canceled = send_run amd64 canceled_run (machine_start 2000000000 (sendState_bind (Some term_zero) False))"

lemma canceled_ends:
  obtains m where "canceled = Some m" "send_reachable amd64 m" "m_phase m = SIdle" "s_callerDeadline (m_s m) = Some 8000000000"
    "m_result m = (0, Some (OtherErr 7))"
proof -
  have "case canceled of None \<Rightarrow> False | Some m \<Rightarrow> m_phase m = SIdle \<and> s_callerDeadline (m_s m) = Some 8000000000 \<and>
      m_result m = (0, Some (OtherErr 7))"
    by code_simp
  then obtain m where m: "canceled = Some m" "m_phase m = SIdle" "s_callerDeadline (m_s m) = Some 8000000000"
    "m_result m = (0, Some (OtherErr 7))" by (auto split: option.splits)
  have "send_reachable amd64 (machine_start 2000000000 (sendState_bind (Some term_zero) False))"
    by (rule send_reachable.start) (simp add: aLongTimeAgo_def)
  from send_run_reachable [OF this m(1) [unfolded canceled_def]] m that show ?thesis by blast
qed

theorem send_leaves_caller_deadline_witness:
  "\<exists>m. canceled = Some m \<and> s_fdWrite (m_s m) = Some 8000000000"
proof (rule canceled_ends)
  fix m
  assume m: "canceled = Some m" "send_reachable amd64 m" "m_phase m = SIdle" "s_callerDeadline (m_s m) = Some 8000000000"
  from send_leaves_caller_deadline [OF m(2,3)] m show ?thesis by auto
qed

text \<open>The result of a send, by how \<open>raw.Write\<close> ended.\<close>

definition wait_error :: "smachine \<Rightarrow> goerr option \<Rightarrow> goerr option" where
  "wait_error m err =
     (if woken (m_s m) \<and> isAn err DeadlineExceeded \<and> \<not> s_callerFirst (m_s m)
      then (if s_shutdownWake (m_s m) then Some (Errno ESHUTDOWN) else m_ctxErr m) else err)"

definition result_of :: "sendState \<Rightarrow> goerr option \<Rightarrow> int \<times> goerr option" where
  "result_of s e =
     (if e \<noteq> None then (0, e)
      else if s_n s \<noteq> int (length (s_data s)) then (s_n s, Some ErrShortWrite) else (s_n s, None))"

lemma finish_result:
  assumes "send_step T Finish m = Some m'" "marks_inv m" "m_phase m = SWritten err"
  shows "m_result m' = result_of (m_s m) (if wait_error m err = None then s_err (m_s m) else wait_error m err)"
proof -
  have w: "(s_slow (m_s m) \<or> s_stop (m_s m)) \<and> (s_interrupted (m_s m) \<or> s_shutdownWake (m_s m)) \<longleftrightarrow> woken (m_s m)"
    using woken_marks [OF assms(2)] by (auto simp: woken_def)
  from send_finish_frame [OF assms(1)] assms(3) have "m_result m' = fst (send_finish (m_ctxErr m) err (m_s m))" by auto
  also have "\<dots> = result_of (m_s m) (if wait_error m err = None then s_err (m_s m) else wait_error m err)"
    unfolding send_finish_def Let_def w wait_error_def result_of_def by (simp only: fst_conv)
  finally show ?thesis .
qed

lemma written_phase: "send_step T Finish m = Some m' \<Longrightarrow> \<exists>err. m_phase m = SWritten err"
  using send_finish_frame by blast

lemma interrupted_ctx: "marks_inv m \<Longrightarrow> woken (m_s m) \<Longrightarrow> \<not> s_shutdownWake (m_s m) \<Longrightarrow> s_interrupted (m_s m) \<and> m_ctxErr m \<noteq> None"
  by (auto simp: marks_inv_def Let_def woken_def)

lemma wait_error_fails: "marks_inv m \<Longrightarrow> err \<noteq> None \<Longrightarrow> wait_error m err \<noteq> None"
  using interrupted_ctx [of m] by (auto simp: wait_error_def)

lemma canceled_written:
  obtains m where
    "send_run amd64 (butlast canceled_run) (machine_start 2000000000 (sendState_bind (Some term_zero) False)) = Some m"
    "send_reachable amd64 m" "m_phase m = SWritten (Some DeadlineExceeded)" "\<not> g_own m" "\<not> s_shutdownWake (m_s m)"
    "m_ctxErr m = Some (OtherErr 7)" "g_accepted m = 0"
proof -
  let ?start = "machine_start 2000000000 (sendState_bind (Some term_zero) False)"
  have "case send_run amd64 (butlast canceled_run) ?start of None \<Rightarrow> False
    | Some m \<Rightarrow> m_phase m = SWritten (Some DeadlineExceeded) \<and> \<not> g_own m \<and> \<not> s_shutdownWake (m_s m) \<and>
        m_ctxErr m = Some (OtherErr 7) \<and> g_accepted m = 0"
    by code_simp
  then obtain m where m: "send_run amd64 (butlast canceled_run) ?start = Some m"
    "m_phase m = SWritten (Some DeadlineExceeded)" "\<not> g_own m" "\<not> s_shutdownWake (m_s m)" "m_ctxErr m = Some (OtherErr 7)" "g_accepted m = 0"
    by (auto split: option.splits)
  have "send_reachable amd64 ?start" by (rule send_reachable.start) (simp add: aLongTimeAgo_def)
  from send_run_reachable [OF this m(1)] m that show ?thesis by blast
qed

text \<open>C4: a send tells the truth about what the kernel took, and known acceptance wins: over any
  interleaving of wakes, deadlines, cancellation and shutdown, a send makes the kernel accept at most one
  message; it returns that message's count, with no error when it is the whole message and
  \<open>io.ErrShortWrite\<close> when it is not, exactly when the kernel accepted one, and otherwise zero and an error.\<close>

theorem send_reports_acceptance:
  assumes "send_reachable T m" "send_step T Finish m = Some m'"
  shows "m_result m' = (g_sent m, if g_sent m = int (length (s_data (m_s m))) then None else Some ErrShortWrite) \<and> g_accepted m = 1 \<or>
    fst (m_result m') = 0 \<and> snd (m_result m') \<noteq> None \<and> g_accepted m = 0"
proof -
  from send_reachable_inv [OF assms(1)] have inv: "marks_inv m" "sent_inv m" by simp_all
  from written_phase [OF assms(2)] obtain err where e: "m_phase m = SWritten err" by blast
  note r = finish_result [OF assms(2) inv(1) e]
  show ?thesis
  proof (cases err)
    case None
    then have "wait_error m err = None" by (simp add: wait_error_def isAn_def)
    then show ?thesis using inv(2) e r None by (auto simp: sent_inv_def result_of_def split: if_splits)
  next
    case (Some x)
    then show ?thesis using inv(2) e r wait_error_fails [OF inv(1)] by (simp add: sent_inv_def result_of_def)
  qed
qed

theorem send_reports_acceptance_witness:
  "\<exists>m m'. send_reachable amd64 m \<and> send_step amd64 Finish m = Some m' \<and> g_accepted m = 0 \<and> fst (m_result m') = 0"
proof -
  obtain m where m: "send_run amd64 (butlast canceled_run) (machine_start 2000000000 (sendState_bind (Some term_zero) False)) = Some m"
      "send_reachable amd64 m" "m_phase m = SWritten (Some DeadlineExceeded)" "g_accepted m = 0"
    by (rule canceled_written)
  from m(3) obtain m' where m': "send_step amd64 Finish m = Some m'" by (auto simp: case_prod_unfold Let_def)
  from send_reports_acceptance [OF m(2) m'] m m' show ?thesis by auto
qed

text \<open>C6: a wait that the write deadline ends says so, and one that the context or a local Shutdown ends names
  that instead, never both: when \<open>raw.Write\<close> reports the deadline, the send returns
  \<open>os.ErrDeadlineExceeded\<close> if a deadline of the caller's had passed before the interrupt took the deadline over (or
  nothing did), and otherwise \<open>ESHUTDOWN\<close> or the context's error, whichever interrupted it.\<close>

theorem send_names_cause:
  assumes "send_reachable T m" "m_phase m = SWritten (Some DeadlineExceeded)" "send_step T Finish m = Some m'"
  shows "m_result m' = (0, if g_own m then Some DeadlineExceeded
      else if s_shutdownWake (m_s m) then Some (Errno ESHUTDOWN) else m_ctxErr m) \<and>
    (g_own m \<or> s_shutdownWake (m_s m) \<or> s_interrupted (m_s m) \<and> m_ctxErr m \<noteq> None) \<and>
    (g_own m \<and> tracking m \<longrightarrow> g_passed m)"
proof -
  from send_reachable_inv [OF assms(1)] have inv: "marks_inv m" "cause_inv m" by simp_all
  have r: "m_result m' = result_of (m_s m) (wait_error m (Some DeadlineExceeded))"
    using finish_result [OF assms(3) inv(1) assms(2)] wait_error_fails [OF inv(1), of "Some DeadlineExceeded"] by simp
  show ?thesis
  proof (cases "woken (m_s m)")
    case True
    then have "s_callerFirst (m_s m) = g_own m" using inv(2) by (simp add: cause_inv_def)
    then show ?thesis
      using r True interrupted_ctx [OF inv(1) True] inv(2) by (auto simp: cause_inv_def wait_error_def isAn_def result_of_def)
  next
    case False
    then show ?thesis using r inv(2) assms(2) by (simp add: cause_inv_def wait_error_def isAn_def result_of_def)
  qed
qed

theorem send_names_cause_witness:
  "\<exists>m m'. send_reachable amd64 m \<and> send_step amd64 Finish m = Some m' \<and> snd (m_result m') = Some (OtherErr 7)"
proof -
  obtain m where m: "send_run amd64 (butlast canceled_run) (machine_start 2000000000 (sendState_bind (Some term_zero) False)) = Some m"
      "send_reachable amd64 m" "m_phase m = SWritten (Some DeadlineExceeded)" "\<not> g_own m" "\<not> s_shutdownWake (m_s m)"
      "m_ctxErr m = Some (OtherErr 7)"
    by (rule canceled_written)
  from m(3) obtain m' where m': "send_step amd64 Finish m = Some m'" by (auto simp: case_prod_unfold Let_def)
  from send_names_cause [OF m(2,3) m'] m m' show ?thesis by auto
qed

lemma waiting_keeps:
  assumes "send_step T e m = Some m'" "m_phase m = SWaiting" "\<forall>w. e \<noteq> Wake w"
  shows "m_phase m' = SWaiting \<and> (woken (m_s m) \<longrightarrow> woken (m_s m'))"
proof (cases e)
  case Interrupt
  with assms show ?thesis by (simp add: send_step_simple woken_fields del: send_step.simps)
next
  case Shutdown
  with assms have "m' = takes_over (wakeShutdown (m_now m) (m_s m)) m" by simp
  with assms(2) show ?thesis by (simp add: woken_fields)
next
  case (SetDeadline t mode)
  with assms have "m_phase m' = SWaiting" "m_s m' = send_setDeadline (m_now m) t mode (m_s m)" by auto
  then show ?thesis by (simp add: woken_fields)
qed (use assms in \<open>simp_all add: send_step_simple del: send_step.simps(1,2,7) split: if_splits\<close>)

text \<open>C7: cancellation and a local Shutdown do end the wait: in every reachable state in which the send is parked
  in the poller and either has moved the write deadline, the poller's deadline wake is enabled at
  once, after it the send can return, and nothing but the send's own return takes that wake away.\<close>

theorem interrupted_wait_ends:
  assumes "send_reachable T m" "m_phase m = SWaiting" "s_interrupted (m_s m) \<or> s_shutdownWake (m_s m)"
  shows "(\<exists>m1 m2. send_step T (Wake DeadlinePassed) m = Some m1 \<and> send_step T Finish m1 = Some m2 \<and> m_phase m2 = SIdle) \<and>
    (\<forall>e m'. send_step T e m = Some m' \<and> (\<forall>w. e \<noteq> Wake w) \<longrightarrow>
       m_phase m' = SWaiting \<and> (s_interrupted (m_s m') \<or> s_shutdownWake (m_s m')))"
proof -
  from send_reachable_inv [OF assms(1)] have inv: "owner_inv m" by simp
  have p: "passed (s_fdWrite (m_s m)) (m_now m)"
    using inv assms(3) by (simp add: owner_inv_def woken_def passed_def)
  have "\<exists>m1 m2. send_step T (Wake DeadlinePassed) m = Some m1 \<and> send_step T Finish m1 = Some m2 \<and> m_phase m2 = SIdle"
    using p assms(2) by (simp add: polls_def case_prod_unfold Let_def)
  moreover have "m_phase m' = SWaiting \<and> (s_interrupted (m_s m') \<or> s_shutdownWake (m_s m'))"
    if "send_step T e m = Some m'" "\<forall>w. e \<noteq> Wake w" for e m'
    using waiting_keeps [OF that(1) assms(2)] that(2) assms(3) by (simp add: woken_def)
  ultimately show ?thesis by blast
qed

theorem interrupted_wait_ends_witness:
  "\<exists>m m1 m2. send_run amd64 (take 7 canceled_run) (machine_start 2000000000 (sendState_bind (Some term_zero) False)) = Some m \<and>
     send_step amd64 (Wake DeadlinePassed) m = Some m1 \<and> send_step amd64 Finish m1 = Some m2 \<and> m_phase m2 = SIdle"
proof -
  let ?start = "machine_start 2000000000 (sendState_bind (Some term_zero) False)"
  have "case send_run amd64 (take 7 canceled_run) ?start of None \<Rightarrow> False | Some m \<Rightarrow> m_phase m = SWaiting \<and> s_interrupted (m_s m)"
    by code_simp
  then obtain m where m: "send_run amd64 (take 7 canceled_run) ?start = Some m" "m_phase m = SWaiting" "s_interrupted (m_s m)"
    by (auto split: option.splits)
  have "send_reachable amd64 ?start" by (rule send_reachable.start) (simp add: aLongTimeAgo_def)
  from interrupted_wait_ends [OF send_run_reachable [OF this m(1)] m(2)] m show ?thesis by blast
qed

section \<open>Defaults\<close>

lemma send_start_returns:
  assumes "wf_target T" "b \<noteq> []"
  shows "\<exists>s'. send_start T ctx b opts name assoc s = Some s' \<and>
    s_control s' = concat (List.map (cmsg_bytes T)
      (send_records T (fst (send_choice s opts)) assoc (snd (send_choice s opts)) (so_AuthKey opts)))"
proof -
  have "sndCmsgSpace T \<le> length (replicate (sndCmsgSpace T) (0 :: byte))" by simp
  from appendSendCmsgs_records [OF assms(1) this, of "fst (send_choice s opts)" assoc "snd (send_choice s opts)" "so_AuthKey opts"]
  show ?thesis using assms(2) by (auto simp: send_start_def send_encode_def case_prod_unfold Let_def)
qed

text \<open>C8: a nil Info or PR means the socket's default, in every combination. With what Linux does as
  hypotheses (a message without SNDINFO and PRINFO takes the association's defaults, one with SNDINFO takes its
  PR-SCTP policy from PRINFO alone), and with the cache holding those defaults, the records a send carries make
  the kernel send with the call's Info and PR where it gives them and with the defaults where not;
  and the control buffer holds exactly those records, without a panic.\<close>

theorem send_applies_defaults:
  assumes target: "wf_target T" and message: "b \<noteq> []"
    and no_records: "kern None None = (s_defSnd s, s_defPR s)"
    and sndinfo_only: "\<And>i. kern (Some i) None = (i, PrInfo_zero)"
    and both_records: "\<And>i p. kern (Some i) (Some p) = (i, p)"
    and cache: "pr_Policy (s_defPR s) = PRNone \<Longrightarrow> s_defPR s = PrInfo_zero"
  shows "case send_choice s opts of (sinfo, pr) \<Rightarrow>
    kern sinfo pr = (case so_Info opts of None \<Rightarrow> s_defSnd s | Some i \<Rightarrow> i, case so_PR opts of None \<Rightarrow> s_defPR s | Some p \<Rightarrow> p) \<and>
    (\<exists>s'. send_start T ctx b opts name assoc s = Some s' \<and>
      s_control s' = concat (List.map (cmsg_bytes T) (send_records T sinfo assoc pr (so_AuthKey opts))))"
proof -
  have "kern (fst (send_choice s opts)) (snd (send_choice s opts)) =
      (case so_Info opts of None \<Rightarrow> s_defSnd s | Some i \<Rightarrow> i, case so_PR opts of None \<Rightarrow> s_defPR s | Some p \<Rightarrow> p)"
    using no_records sndinfo_only both_records cache by (auto simp: send_choice_def split: option.splits)
  with send_start_returns [OF target message] show ?thesis by (simp add: case_prod_unfold)
qed

definition linux_defaults :: "SndInfo \<Rightarrow> PrInfo \<Rightarrow> SndInfo option \<Rightarrow> PrInfo option \<Rightarrow> SndInfo \<times> PrInfo" where
  "linux_defaults d p sinfo pr =
     (case sinfo of
        None \<Rightarrow> (case pr of None \<Rightarrow> (d, p) | Some q \<Rightarrow> (d\<lparr>snd_Flags := 0\<rparr>, q))
      | Some i \<Rightarrow> (i, case pr of None \<Rightarrow> PrInfo_zero | Some q \<Rightarrow> q))"

theorem send_applies_defaults_witness:
  "let s = (sendState_bind None False)\<lparr>s_defSnd := SndInfo_zero\<lparr>snd_PPID := 46\<rparr>, s_defPR := PrInfo_zero\<lparr>pr_Policy := PRRtx, pr_Value := 3\<rparr>\<rparr>;
       opts = SendOptions_zero\<lparr>so_Info := Some (SndInfo_zero\<lparr>snd_Stream := 5\<rparr>)\<rparr>
   in case send_choice s opts of (sinfo, pr) \<Rightarrow>
     linux_defaults (s_defSnd s) (s_defPR s) sinfo pr = (SndInfo_zero\<lparr>snd_Stream := 5\<rparr>, PrInfo_zero\<lparr>pr_Policy := PRRtx, pr_Value := 3\<rparr>)"
proof -
  let ?s = "(sendState_bind None False)\<lparr>s_defSnd := SndInfo_zero\<lparr>snd_PPID := 46\<rparr>, s_defPR := PrInfo_zero\<lparr>pr_Policy := PRRtx, pr_Value := 3\<rparr>\<rparr>"
  let ?opts = "SendOptions_zero\<lparr>so_Info := Some (SndInfo_zero\<lparr>snd_Stream := 5\<rparr>)\<rparr>"
  have "case send_choice ?s ?opts of (sinfo, pr) \<Rightarrow>
    linux_defaults (s_defSnd ?s) (s_defPR ?s) sinfo pr = (case so_Info ?opts of None \<Rightarrow> s_defSnd ?s | Some i \<Rightarrow> i,
      case so_PR ?opts of None \<Rightarrow> s_defPR ?s | Some p \<Rightarrow> p) \<and>
    (\<exists>s'. send_start amd64 NoContext [1] ?opts [] 0 ?s = Some s' \<and>
      s_control s' = concat (List.map (cmsg_bytes amd64) (send_records amd64 sinfo 0 pr (so_AuthKey ?opts))))"
    by (rule send_applies_defaults) (simp_all add: linux_defaults_def)
  then show ?thesis by (simp add: Let_def SendOptions_zero_def case_prod_unfold)
qed

text \<open>\<open>prInfoFromKernel\<close> undoes \<open>resolvePrInfo\<close>.\<close>

lemma prInfoFromKernel_resolve:
  assumes "validatePrInfo f pr = None"
  shows "(case resolvePrInfo pr of (policy, value) \<Rightarrow> prInfoFromKernel policy value) = pr"
proof -
  have pol: "pr_Policy pr AND 48 = pr_Policy pr"
    using assms by (auto simp: validatePrInfo_def and_not_zero_iff split: if_splits)
  show ?thesis
  proof (cases "pr_Policy pr = PRTTL")
    case True
    then have v: "pr_Value pr = 0" "0 < pr_TTL pr" "pr_TTL pr mod Millisecond = 0" "pr_TTL pr div Millisecond \<le> 4294967295"
      using assms by (auto simp: validatePrInfo_def split: if_splits)
    have "uint (of_int (pr_TTL pr div Millisecond) :: u32) = pr_TTL pr div Millisecond"
      using v by (simp add: uint_word_of_int Millisecond_def)
    moreover have "pr_TTL pr div Millisecond * Millisecond = pr_TTL pr" using v(3) by auto
    ultimately show ?thesis using True v(1)
      by (cases pr) (simp add: resolvePrInfo_def prInfoFromKernel_def PrInfo_zero_def Let_def)
  next
    case False
    then have "pr_TTL pr = 0" "pr_Policy pr = 0 \<Longrightarrow> pr_Value pr = 0"
      using assms by (auto simp: validatePrInfo_def split: if_splits)
    then show ?thesis using False pol
      by (cases pr) (auto simp: resolvePrInfo_def prInfoFromKernel_def PrInfo_zero_def Let_def)
  qed
qed

text \<open>The two writes and what they carry.\<close>

lemma setDefaultPrInfo_writes:
  "\<exists>b. setDefaultPrInfo T K pol val k = Some (k_set K k optDefaultPRInfo b) \<and>
     rd16 (native T) b defaultPRInfoPolicyOff = pol \<and> rd32 (native T) b defaultPRInfoValueOff = val"
  by (rule exI [of _ "splice 8 (enc_int (native T) pol) (splice 4 (enc_int (native T) val) (replicate 12 0))"])
    (simp add: setDefaultPrInfo_def no_panic codec_rw)

definition pr_reply :: "target \<Rightarrow> u16 \<Rightarrow> u32 \<Rightarrow> bytes" where
  "pr_reply T pol val = replicate 4 0 @ enc_int (native T) val @ enc_int (native T) pol @ replicate 2 0"

lemma filled_pr_reply:
  "rd16 (native T) (filled 12 (pr_reply T pol val)) 8 = pol" "rd32 (native T) (filled 12 (pr_reply T pol val)) 4 = val"
  by (simp_all add: filled_def go_copy_def pr_reply_def codec_rw)

lemma setDefaultSndInfo_writes:
  assumes "k_get K k optDefaultPRInfo = Inr (pr_reply T pol val)"
  shows "\<exists>b. rd16 (native T) b sndInfoFlagsOff = flags \<and> setDefaultSndInfo T K stream flags ppid ctxt k =
     (let (e, k') = k_set K k optDefaultSndInfo b in
      if e \<noteq> None then Some (e, k') else if pol AND prPolicyMask = PRNone then Some (None, k')
      else setDefaultPrInfo T K (pol AND prPolicyMask) val k')"
proof -
  let ?b = "splice 8 (enc_int (native T) ctxt) (splice 4 (enc_int (native T) ppid) (splice 2 (enc_int (native T) flags)
    (splice 0 (enc_int (native T) stream) (replicate 16 0))))"
  have "rd16 (native T) ?b sndInfoFlagsOff = flags" by (simp add: codec_rw)
  then show ?thesis
    using assms by (intro exI [of _ ?b]) (simp add: setDefaultSndInfo_def filled_pr_reply no_panic Let_def case_prod_unfold)
qed

lemma prInfoFromKernel_masked: "prInfoFromKernel (p AND prPolicyMask) v = prInfoFromKernel p v"
  by (simp add: prInfoFromKernel_def and.assoc)

lemma opError_Some: "opError cap op n src a (Some e) \<noteq> None" "optError cap op call n src a (Some e) \<noteq> None"
  by (cases e; simp add: optError_def opError_def)+

lemma option_errors: "optionError op (Some e) c \<noteq> None" "argError op (Some e) c \<noteq> None"
  by (simp_all add: optionError_def argError_def opError_Some del: not_None_eq)

lemma SetDefaultSndInfo_success:
  assumes "SetDefaultSndInfo T K (Some v) None c k = Some (None, c', k')"
  shows "validateDefaultSndInfo ''SetDefaultSndInfo'' v = None \<and> c' = c\<lparr>c_send := (c_send c)\<lparr>s_defSnd := v\<rparr>\<rparr> \<and>
    setDefaultSndInfo T K (snd_Stream v) (snd_Flags v) (networkOrderUint32 T (snd_PPID v)) (snd_Context v) k = Some (None, k')"
  using assms option_errors
  by (auto simp: SetDefaultSndInfo_def split: if_splits option.splits bind_splits simp del: not_None_eq)

lemma SetDefaultPrInfo_success:
  assumes "SetDefaultPrInfo T K (Some p) None c k = Some (None, c', k')"
  shows "validatePrInfo ''SetDefaultPrInfo'' p = None \<and> c_life c \<noteq> lifeClosed \<and>
    c' = c\<lparr>c_send := (c_send c)\<lparr>s_defPR := prInfoFromKernel (fst (resolvePrInfo p)) (snd (resolvePrInfo p))\<rparr>\<rparr> \<and>
    setDefaultPrInfo T K (fst (resolvePrInfo p)) (snd (resolvePrInfo p)) k = Some (None, k')"
  using assms option_errors
  by (auto simp: SetDefaultPrInfo_def Let_def case_prod_unfold split: if_splits option.splits bind_splits simp del: not_None_eq)

lemma unordered_no_policy: "validateDefaultSndInfo f v = None \<Longrightarrow> snd_Flags v AND prPolicyMask = 0"
proof -
  assume "validateDefaultSndInfo f v = None"
  then have "snd_Flags v AND 1 = snd_Flags v" by (auto simp: validateDefaultSndInfo_def and_not_zero_iff split: if_splits)
  then have "snd_Flags v AND 48 = snd_Flags v AND (1 AND 48)" by (metis and.assoc)
  then show ?thesis by simp
qed


text \<open>A kernel that behaves so: it keeps the flags word and the value.\<close>

definition linux_kernel :: "target \<Rightarrow> (u16 \<times> u32) kernel" where
  "linux_kernel T =
     \<lparr>k_get = (\<lambda>(w, v) opt. Inr (pr_reply T (w AND prPolicyMask) v)),
      k_set = (\<lambda>(w, v) opt b. if opt = optDefaultSndInfo then (None, (rd16 (native T) b sndInfoFlagsOff, v))
        else (None, (rd16 (native T) b defaultPRInfoPolicyOff AND prPolicyMask, rd32 (native T) b defaultPRInfoValueOff)))\<rparr>"

definition send_conn :: sendConn where
  "send_conn = \<lparr>c_recv = recvState_zero, c_life = lifeOpen, c_handler = False, c_captured = True, c_abortErr = None, c_aborts = 0,
     c_handled = [], c_network = ''sctp'', c_laddr = None, c_raddr = None, c_kind = kindDialed, c_family = afInet,
     c_peerPort = 9, c_pathScope = 0, c_assoc = 1, c_send = sendState_bind None False\<rparr>"


end
