(* ===== verification/Sockopt.thy ===== *)
theory Sockopt
  imports Send Config
begin

text \<open>
  The socket options below the typed methods: the option numbers of \<open>abi.go\<close>, the option calls of
  \<open>socket_linux.go\<close> (\<open>getsockopt\<close>, \<open>setsockopt\<close>, \<open>storageLayout\<close>, \<open>probeKernelWordSize\<close>), and the shape every
  computation that makes such calls has here: a function from the kernel before it to a panic, or to an error or a
  result with the kernel after it. The kernel is a parameter, a record of what its option calls answer.
\<close>

section \<open>Option numbers\<close>

definition optRTOInfo :: nat where "optRTOInfo = 0"

definition optAssocInfo :: nat where "optAssocInfo = 1"

definition optInitMsg :: nat where "optInitMsg = 2"

definition optNoDelay :: nat where "optNoDelay = 3"

definition optAutoClose :: nat where "optAutoClose = 4"

definition optSetPeerPrimaryAddr :: nat where "optSetPeerPrimaryAddr = 5"

definition optPrimaryAddr :: nat where "optPrimaryAddr = 6"

definition optAdaptationLayer :: nat where "optAdaptationLayer = 7"

definition optDisableFragments :: nat where "optDisableFragments = 8"

definition optPeerAddrParams :: nat where "optPeerAddrParams = 9"

definition optWantMappedV4Addr :: nat where "optWantMappedV4Addr = 12"

definition optMaxSeg :: nat where "optMaxSeg = 13"

definition optStatus :: nat where "optStatus = 14"

definition optGetPeerAddrInfo :: nat where "optGetPeerAddrInfo = 15"

definition optDelayedAckTime :: nat where "optDelayedAckTime = 16"

definition optContext :: nat where "optContext = 17"

definition optFragmentInterleave :: nat where "optFragmentInterleave = 18"

definition optPartialDeliveryPoint :: nat where "optPartialDeliveryPoint = 19"

definition optMaxBurst :: nat where "optMaxBurst = 20"

definition optAuthChunk :: nat where "optAuthChunk = 21"

definition optHMACIdent :: nat where "optHMACIdent = 22"

definition optAuthKey :: nat where "optAuthKey = 23"

definition optAuthActiveKey :: nat where "optAuthActiveKey = 24"

definition optAuthDeleteKey :: nat where "optAuthDeleteKey = 25"

definition optPeerAuthChunks :: nat where "optPeerAuthChunks = 26"

definition optLocalAuthChunks :: nat where "optLocalAuthChunks = 27"

definition optGetAssocNumber :: nat where "optGetAssocNumber = 28"

definition optGetAssocIDList :: nat where "optGetAssocIDList = 29"

definition optAutoAsconf :: nat where "optAutoAsconf = 30"

definition optRecvRcvInfo :: nat where "optRecvRcvInfo = 32"

definition optRecvNxtInfo :: nat where "optRecvNxtInfo = 33"

definition optAuthDeactivateKey :: nat where "optAuthDeactivateKey = 35"

definition optReusePort :: nat where "optReusePort = 36"

definition optPathThresholds :: nat where "optPathThresholds = 37"

definition optPathThresholdsProbe :: nat where "optPathThresholdsProbe = 31"

definition optSockoptBindxAdd :: nat where "optSockoptBindxAdd = 100"

definition optSockoptBindxRemove :: nat where "optSockoptBindxRemove = 101"

definition optGetPeerAddrs :: nat where "optGetPeerAddrs = 108"

definition optGetLocalAddrs :: nat where "optGetLocalAddrs = 109"

definition optSockoptConnectx3 :: nat where "optSockoptConnectx3 = 111"

definition optGetAssocStats :: nat where "optGetAssocStats = 112"

definition optPRSupported :: nat where "optPRSupported = 113"

definition optPRAssocStatus :: nat where "optPRAssocStatus = 115"

definition optPRStreamStatus :: nat where "optPRStreamStatus = 116"

definition optReconfigSupported :: nat where "optReconfigSupported = 117"

definition optEnableStreamReset :: nat where "optEnableStreamReset = 118"

definition optResetStreams :: nat where "optResetStreams = 119"

definition optResetAssoc :: nat where "optResetAssoc = 120"

definition optAddStreams :: nat where "optAddStreams = 121"

definition optSockoptPeeloffFlags :: nat where "optSockoptPeeloffFlags = 122"

definition optStreamScheduler :: nat where "optStreamScheduler = 123"

definition optStreamSchedulerValue :: nat where "optStreamSchedulerValue = 124"

definition optInterleavingSupported :: nat where "optInterleavingSupported = 125"

definition optEvent :: nat where "optEvent = 127"

definition optASCONFSupported :: nat where "optASCONFSupported = 128"

definition optAuthSupported :: nat where "optAuthSupported = 129"

definition optECNSupported :: nat where "optECNSupported = 130"

definition optExposePotentiallyFailedState :: nat where "optExposePotentiallyFailedState = 131"

definition optRemoteUDPEncapsPort :: nat where "optRemoteUDPEncapsPort = 132"

definition optPLPMTUDProbeInterval :: nat where "optPLPMTUDProbeInterval = 133"

lemmas opt_numbers =
  optRTOInfo_def optAssocInfo_def optInitMsg_def optNoDelay_def optAutoClose_def optSetPeerPrimaryAddr_def
  optPrimaryAddr_def optAdaptationLayer_def optDisableFragments_def optPeerAddrParams_def
  optWantMappedV4Addr_def optMaxSeg_def optStatus_def optGetPeerAddrInfo_def optDelayedAckTime_def
  optContext_def optFragmentInterleave_def optPartialDeliveryPoint_def optMaxBurst_def optAuthChunk_def
  optHMACIdent_def optAuthKey_def optAuthActiveKey_def optAuthDeleteKey_def optPeerAuthChunks_def
  optLocalAuthChunks_def optGetAssocNumber_def optGetAssocIDList_def optAutoAsconf_def optRecvRcvInfo_def
  optRecvNxtInfo_def optAuthDeactivateKey_def optReusePort_def optPathThresholds_def
  optPathThresholdsProbe_def optSockoptBindxAdd_def optSockoptBindxRemove_def optGetPeerAddrs_def
  optGetLocalAddrs_def optSockoptConnectx3_def optGetAssocStats_def optPRSupported_def optPRAssocStatus_def
  optPRStreamStatus_def optReconfigSupported_def optEnableStreamReset_def optResetStreams_def
  optResetAssoc_def optAddStreams_def optSockoptPeeloffFlags_def optStreamScheduler_def
  optStreamSchedulerValue_def optInterleavingSupported_def optEvent_def optASCONFSupported_def
  optAuthSupported_def optECNSupported_def optExposePotentiallyFailedState_def optRemoteUDPEncapsPort_def
  optPLPMTUDProbeInterval_def

section \<open>System calls and their order\<close>

text \<open>A socket option, with its level: an SCTP one by number, the others the package uses by name.\<close>

datatype sockopt = Sctp nat | SoRcvbuf | SoSndbuf | SoError | SoProtocol | SoType | SoDomain | SoAcceptconn | Ipv6V6only

text \<open>A kernel as the option calls of one descriptor see it. \<open>y_released\<close> says that the descriptor has been
  released, so that \<open>raw.Control\<close> fails; a \<open>getsockopt\<close> is given the buffer and answers an error, or the bytes it
  writes over its start and the length it reports; either call gives the kernel after it.\<close>

record 'k sys =
  y_released :: "'k \<Rightarrow> bool"
  y_get :: "'k \<Rightarrow> sockopt \<Rightarrow> bytes \<Rightarrow> (errno + bytes \<times> u32) \<times> 'k"
  y_set :: "'k \<Rightarrow> sockopt \<Rightarrow> bytes \<Rightarrow> errno option \<times> 'k"

text \<open>A computation that makes system calls: a panic (\<open>None\<close>), or an error or a result, with the kernel after it.\<close>

type_synonym ('k, 'a) io = "'k \<Rightarrow> ((goerr option + 'a) \<times> 'k) option"

definition io_ret :: "'a \<Rightarrow> ('k, 'a) io" where
  "io_ret x = (\<lambda>k. Some (Inr x, k))"

definition io_err :: "goerr option \<Rightarrow> ('k, 'a) io" where
  "io_err e = (\<lambda>k. Some (Inl e, k))"

definition io_bind :: "('k, 'a) io \<Rightarrow> ('a \<Rightarrow> ('k, 'b) io) \<Rightarrow> ('k, 'b) io" where
  "io_bind m f = (\<lambda>k. case m k of
     None \<Rightarrow> None
   | Some (Inl e, k') \<Rightarrow> Some (Inl e, k')
   | Some (Inr x, k') \<Rightarrow> f x k')"

text \<open>A step that makes no system call: it may panic, and its error is wrapped by \<open>w\<close>.\<close>

definition io_check :: "(goerr option \<Rightarrow> goerr option) \<Rightarrow> (goerr + 'a) option \<Rightarrow> ('k, 'a) io" where
  "io_check w r = (\<lambda>k. case r of
     None \<Rightarrow> None
   | Some (Inl e) \<Rightarrow> Some (Inl (w (Some e)), k)
   | Some (Inr x) \<Rightarrow> Some (Inr x, k))"

definition io_total :: "'a option \<Rightarrow> ('k, 'a) io" where
  "io_total r = (\<lambda>k. case r of None \<Rightarrow> None | Some x \<Rightarrow> Some (Inr x, k))"

definition io_wrap :: "(goerr option \<Rightarrow> goerr option) \<Rightarrow> ('k, 'a) io \<Rightarrow> ('k, 'a) io" where
  "io_wrap w m = (\<lambda>k. case m k of Some (Inl e, k') \<Rightarrow> Some (Inl (w e), k') | r \<Rightarrow> r)"

lemmas io_defs = io_ret_def io_err_def io_bind_def io_check_def io_total_def io_wrap_def

lemma io_bind_simps [simp]:
  "io_bind (io_ret x) f = f x"
  "io_bind (io_err e) f = io_err e"
  "io_bind (io_check w (Some (Inr x))) f = f x"
  "io_bind (io_check w (Some (Inl x'))) f = io_err (w (Some x'))"
  "io_bind (io_total (Some x)) f = f x"
  by (simp_all add: io_defs)

lemma io_bind_assoc: "io_bind (io_bind m f) g = io_bind m (\<lambda>x. io_bind (f x) g)"
  by (rule ext) (auto simp: io_defs split: option.splits sum.splits)

section \<open>Sockets\<close>

text \<open>\<open>socket.getsockoptAt\<close> and \<open>setsockoptAt\<close>: the call runs inside \<open>socket.control\<close>, which reports
  \<open>net.ErrClosed\<close> for a released descriptor.\<close>

definition getsockopt :: "'k sys \<Rightarrow> sockopt \<Rightarrow> bytes \<Rightarrow> ('k, bytes \<times> u32) io" where
  "getsockopt K so b = (\<lambda>k.
     if y_released K k then Some (Inl (Some NetErrClosed), k)
     else case y_get K k so b of
       (Inl e, k') \<Rightarrow> Some (Inl (Some (Errno e)), k')
     | (Inr (r, l), k') \<Rightarrow> Some (Inr (go_copy b r, l), k'))"

definition setsockopt :: "'k sys \<Rightarrow> sockopt \<Rightarrow> bytes \<Rightarrow> ('k, unit) io" where
  "setsockopt K so b = (\<lambda>k.
     if y_released K k then Some (Inl (Some NetErrClosed), k)
     else case y_set K k so b of
       (Some e, k') \<Rightarrow> Some (Inl (Some (Errno e)), k')
     | (None, k') \<Rightarrow> Some (Inr (), k'))"

text \<open>\<open>socket.storageLayout\<close> with \<open>probeKernelWordSize\<close>; \<open>cache\<close> is \<open>storageLayoutCache\<close> before it.\<close>

definition probeKernelWordSize :: "target \<Rightarrow> 'k sys \<Rightarrow> ('k, unit) io" where
  "probeKernelWordSize T K =
     io_bind (getsockopt K (Sctp optPathThresholdsProbe) (replicate (sizePathThresholdsProbe T) 0)) (\<lambda>_. io_ret ())"

definition storageLayout :: "target \<Rightarrow> 'k sys \<Rightarrow> u32 \<Rightarrow> ('k, sockaddrStorageLayout) io" where
  "storageLayout T K cache =
     (if wordSize T = 8 then io_ret (nativeStorageLayout T)
      else if cache = storageLayoutNative \<or> cache = storageLayoutKernel64
      then (case fst (selectStorageLayout T cache None) of Inl e \<Rightarrow> io_err (Some e) | Inr l \<Rightarrow> io_ret l)
      else (\<lambda>k. case probeKernelWordSize T K k of
              None \<Rightarrow> None
            | Some (r, k') \<Rightarrow>
                Some (case fst (selectStorageLayout T cache (case r of Inl e \<Rightarrow> e | Inr u \<Rightarrow> None)) of
                        Inl e \<Rightarrow> Inl (Some e) | Inr l \<Rightarrow> Inr l, k')))"

end
