(* ===== verification/ConnOptions.thy ===== *)
theory ConnOptions
  imports Sockopt
begin

unbundle bit_operations_syntax

text \<open>
  The typed socket options of a Conn, \<open>options_linux.go\<close> and \<open>options_ext_linux.go\<close>: the layer they share
  (\<open>getOpt\<close>, \<open>setOpt\<close>, the plain, boolean and association values, the path addresses), and one definition per
  method, named after it with the prefix \<open>Conn_\<close>. The option lock is not modelled: each method is one critical section of it.
\<close>

section \<open>The option layer\<close>

definition callError :: "string \<Rightarrow> string \<Rightarrow> goerr option \<Rightarrow> sendConn \<Rightarrow> goerr option" where
  "callError op call err c = optError (c_captured c) op call (c_network c) None (c_laddr c) err"

text \<open>The guard every method starts with: \<open>if !c.opened()\<close>.\<close>

definition whenOpen :: "string \<Rightarrow> sendConn \<Rightarrow> ('k, 'a) io \<Rightarrow> ('k, 'a) io" where
  "whenOpen op c m = (if c_life c = lifeClosed then io_err (optionError op (Some NetErrClosed) c) else m)"

text \<open>The check of an argument, its refusal wrapped by \<open>argError\<close>.\<close>

definition checked :: "string \<Rightarrow> sendConn \<Rightarrow> (goerr + 'a) option \<Rightarrow> ('k, 'a) io" where
  "checked op c = io_check (\<lambda>e. argError op e c)"

text \<open>\<open>&b[0]\<close> panics on an empty buffer.\<close>

definition getOpt :: "'k sys \<Rightarrow> nat \<Rightarrow> bytes \<Rightarrow> sendConn \<Rightarrow> ('k, bytes \<times> u32) io" where
  "getOpt K opt b c = whenOpen ''get'' c
     (if b = [] then io_total None
      else io_wrap (\<lambda>e. optionError ''get'' e c) (getsockopt K (Sctp opt) b))"

definition setOpt :: "'k sys \<Rightarrow> nat \<Rightarrow> bytes \<Rightarrow> sendConn \<Rightarrow> ('k, unit) io" where
  "setOpt K opt b c = whenOpen ''set'' c
     (if b = [] then io_total None
      else io_wrap (\<lambda>e. optionError ''set'' e c) (setsockopt K (Sctp opt) b))"

definition intOption :: "target \<Rightarrow> 'k sys \<Rightarrow> sockopt \<Rightarrow> sendConn \<Rightarrow> ('k, u32) io" where
  "intOption T K so c = whenOpen ''get'' c
     (io_bind (io_wrap (\<lambda>e. optionError ''get'' e c) (getsockopt K so (replicate sizeInt 0)))
        (\<lambda>(b, l). io_total (get32 (native T) b 0)))"

definition setIntOption :: "target \<Rightarrow> 'k sys \<Rightarrow> sockopt \<Rightarrow> u32 \<Rightarrow> sendConn \<Rightarrow> ('k, unit) io" where
  "setIntOption T K so v c = whenOpen ''set'' c
     (io_bind (io_total (put32 (native T) 0 v (replicate sizeInt 0)))
        (\<lambda>b. io_wrap (\<lambda>e. optionError ''set'' e c) (setsockopt K so b)))"

definition boolValue :: "bool \<Rightarrow> u32" where
  "boolValue on = (if on then 1 else 0)"

definition boolOption :: "target \<Rightarrow> 'k sys \<Rightarrow> nat \<Rightarrow> sendConn \<Rightarrow> ('k, bool) io" where
  "boolOption T K opt c = io_bind (intOption T K (Sctp opt) c) (\<lambda>v. io_ret (v \<noteq> 0))"

definition setBoolOption :: "target \<Rightarrow> 'k sys \<Rightarrow> nat \<Rightarrow> bool \<Rightarrow> sendConn \<Rightarrow> ('k, unit) io" where
  "setBoolOption T K opt on c = setIntOption T K (Sctp opt) (boolValue on) c"

definition assocValueOption :: "target \<Rightarrow> 'k sys \<Rightarrow> nat \<Rightarrow> sendConn \<Rightarrow> ('k, u32) io" where
  "assocValueOption T K opt c =
     io_bind (io_total (put32 (native T) assocValueAssocIDOff (c_assoc c) (replicate sizeAssocValue 0))) (\<lambda>b.
     io_bind (getOpt K opt b c) (\<lambda>(r, l). io_total (get32 (native T) r assocValueValueOff)))"

definition setAssocValueOption :: "target \<Rightarrow> 'k sys \<Rightarrow> nat \<Rightarrow> u32 \<Rightarrow> sendConn \<Rightarrow> ('k, unit) io" where
  "setAssocValueOption T K opt v c =
     io_bind (io_total (do {
       b1 \<leftarrow> put32 (native T) assocValueAssocIDOff (c_assoc c) (replicate sizeAssocValue 0);
       put32 (native T) assocValueValueOff v b1 })) (\<lambda>b. setOpt K opt b c)"

definition pathAddr ::
  "target \<Rightarrow> zoneEnv \<Rightarrow> bytes \<Rightarrow> string \<Rightarrow> ipaddr \<Rightarrow> sendConn \<Rightarrow> (goerr + nat \<times> bytes) option" where
  "pathAddr T zi dst name path c =
     (case encodePathAddr T zi dst (c_family c) path (c_peerPort c) (c_pathScope c) of
        None \<Rightarrow> None
      | Some (Inl e) \<Rightarrow> Some (Inl (InvalidArg (name @ '': %s'')))
      | Some (Inr r) \<Rightarrow> Some (Inr r))"

text \<open>The two ways the methods use it: into \<open>b[off:]\<close>, and into an array of a \<open>sockaddr_in6\<close>, kept as \<open>addr[:n]\<close>.\<close>

definition encodedAt :: "nat \<Rightarrow> (bytes \<Rightarrow> (goerr + nat \<times> bytes) option) \<Rightarrow> bytes \<Rightarrow> (goerr + bytes) option" where
  "encodedAt off f b =
     (if off > length b then None else andThen (f (drop off b)) (\<lambda>(n, d). Some (Inr (take off b @ d))))"

definition pathBytes :: "target \<Rightarrow> zoneEnv \<Rightarrow> string \<Rightarrow> ipaddr \<Rightarrow> sendConn \<Rightarrow> (goerr + bytes) option" where
  "pathBytes T zi name path c =
     andThen (pathAddr T zi (replicate sizeSockaddrIn6 0) name path c) (\<lambda>(n, d).
       if n \<le> length d then Some (Inr (take n d)) else None)"

text \<open>A struct that starts with the association id.\<close>

definition withAssoc :: "target \<Rightarrow> nat \<Rightarrow> bytes \<Rightarrow> sendConn \<Rightarrow> ('k, bytes) io" where
  "withAssoc T off b c = io_total (put32 (native T) off (c_assoc c) b)"

section \<open>Socket buffers\<close>

definition Conn_ReadBuffer :: "target \<Rightarrow> 'k sys \<Rightarrow> sendConn \<Rightarrow> ('k, int) io" where
  "Conn_ReadBuffer T K c = io_bind (intOption T K SoRcvbuf c) (\<lambda>v. io_ret (sint v))"

definition Conn_SetReadBuffer :: "target \<Rightarrow> 'k sys \<Rightarrow> int \<Rightarrow> sendConn \<Rightarrow> ('k, unit) io" where
  "Conn_SetReadBuffer T K n c = whenOpen ''set'' c
     (io_bind (checked ''set'' c (Some (bufferSizeArg ''SetReadBuffer'' n))) (\<lambda>v. setIntOption T K SoRcvbuf v c))"

definition Conn_WriteBuffer :: "target \<Rightarrow> 'k sys \<Rightarrow> sendConn \<Rightarrow> ('k, int) io" where
  "Conn_WriteBuffer T K c = io_bind (intOption T K SoSndbuf c) (\<lambda>v. io_ret (sint v))"

definition Conn_SetWriteBuffer :: "target \<Rightarrow> 'k sys \<Rightarrow> int \<Rightarrow> sendConn \<Rightarrow> ('k, unit) io" where
  "Conn_SetWriteBuffer T K n c = whenOpen ''set'' c
     (io_bind (checked ''set'' c (Some (bufferSizeArg ''SetWriteBuffer'' n))) (\<lambda>v. setIntOption T K SoSndbuf v c))"

section \<open>Addresses and paths\<close>

definition refuseIf :: "bool \<Rightarrow> string \<Rightarrow> (goerr + unit) option" where
  "refuseIf bad msg = Some (if bad then Inl (InvalidArg msg) else Inr ())"

definition Conn_PrimaryAddr :: "target \<Rightarrow> ifaceEnv \<Rightarrow> 'k sys \<Rightarrow> sendConn \<Rightarrow> ('k, ipaddr) io" where
  "Conn_PrimaryAddr T ifx K c =
     io_bind (withAssoc T primAssocIDOff (replicate sizePrim 0) c) (\<lambda>b.
     io_bind (getOpt K optPrimaryAddr b c) (\<lambda>(r, l).
     io_bind (checked ''get'' c (decodeAddr T ifx (drop primAddrOff r))) (\<lambda>(a, port). io_ret a)))"

definition Conn_SetPrimaryAddr :: "target \<Rightarrow> zoneEnv \<Rightarrow> 'k sys \<Rightarrow> ipaddr \<Rightarrow> sendConn \<Rightarrow> ('k, unit) io" where
  "Conn_SetPrimaryAddr T zi K path c = whenOpen ''set'' c
     (io_bind (checked ''set'' c (refuseIf (\<not> IsValid path) ''SetPrimaryAddr needs one peer address'')) (\<lambda>_.
      io_bind (checked ''set'' c (encodedAt primAddrOff (\<lambda>d. pathAddr T zi d ''SetPrimaryAddr'' path c) (replicate sizePrim 0))) (\<lambda>b.
      io_bind (withAssoc T primAssocIDOff b c) (\<lambda>b. setOpt K optPrimaryAddr b c))))"

text \<open>\<open>lport\<close> is the port of the LocalAddr snapshot, 0 without one.\<close>

definition Conn_RequestPeerPrimary :: "target \<Rightarrow> zoneEnv \<Rightarrow> 'k sys \<Rightarrow> u16 \<Rightarrow> ipaddr \<Rightarrow> sendConn \<Rightarrow> ('k, unit) io" where
  "Conn_RequestPeerPrimary T zi K lport ip c = whenOpen ''set'' c
     (io_bind (checked ''set'' c (refuseIf (\<not> IsValid ip) ''RequestPeerPrimary needs one local address'')) (\<lambda>_.
      io_bind (checked ''set'' c (encodedAt setPeerPrimAddrOff (\<lambda>d.
          case encodeAddr T zi d (c_family c) ip lport of
            Some (Inl e) \<Rightarrow> Some (Inl (InvalidArg ''RequestPeerPrimary: %s'')) | r \<Rightarrow> r) (replicate sizeSetPeerPrim 0))) (\<lambda>b.
      io_bind (withAssoc T setPeerPrimAssocIDOff b c) (\<lambda>b. setOpt K optSetPeerPrimaryAddr b c))))"

definition Conn_PathInfo :: "target \<Rightarrow> zoneEnv \<Rightarrow> ifaceEnv \<Rightarrow> 'k sys \<Rightarrow> ipaddr \<Rightarrow> sendConn \<Rightarrow> ('k, PathInfo) io" where
  "Conn_PathInfo T zi ifx K path c = whenOpen ''get'' c
     (io_bind (checked ''get'' c (refuseIf (\<not> IsValid path) ''PathInfo needs one peer address'')) (\<lambda>_.
      io_bind (checked ''get'' c (encodedAt pathInfoAddressOff (\<lambda>d. pathAddr T zi d ''PathInfo'' path c) (replicate sizePathInfo 0))) (\<lambda>b.
      io_bind (withAssoc T pathInfoAssocIDOff b c) (\<lambda>b.
      io_bind (getOpt K optGetPeerAddrInfo b c) (\<lambda>(r, l). io_total (decodePathInfo T ifx r))))))"

definition Conn_PathParams :: "target \<Rightarrow> zoneEnv \<Rightarrow> 'k sys \<Rightarrow> ipaddr \<Rightarrow> sendConn \<Rightarrow> ('k, PathParams) io" where
  "Conn_PathParams T zi K path c = whenOpen ''get'' c
     (io_bind (checked ''get'' c (encodedAt pathParamsAddressOff (\<lambda>d. pathAddr T zi d ''PathParams'' path c) (replicate sizePathParams 0))) (\<lambda>b.
      io_bind (withAssoc T pathParamsAssocIDOff b c) (\<lambda>b.
      io_bind (getOpt K optPeerAddrParams b c) (\<lambda>(r, l). io_total (decodePathParams T r)))))"

text \<open>A nil pointer argument is refuseIf by name.\<close>

definition given :: "string \<Rightarrow> 'a option \<Rightarrow> (goerr + 'a) option" where
  "given msg x = Some (case x of None \<Rightarrow> Inl (InvalidArg msg) | Some v \<Rightarrow> Inr v)"

definition Conn_SetPathParams :: "target \<Rightarrow> zoneEnv \<Rightarrow> 'k sys \<Rightarrow> ipaddr \<Rightarrow> PathParams option \<Rightarrow> sendConn \<Rightarrow> ('k, unit) io" where
  "Conn_SetPathParams T zi K path pp c = whenOpen ''set'' c
     (io_bind (checked ''set'' c (given ''SetPathParams needs a non-nil *PathParams'' pp)) (\<lambda>p.
      io_bind (checked ''set'' c (pathBytes T zi ''SetPathParams'' path c)) (\<lambda>addr.
      io_bind (checked ''set'' c (encodePathParams T (replicate sizePathParams 0) (c_assoc c) addr p ''PathParams'')) (\<lambda>b.
        setOpt K optPeerAddrParams b c))))"

definition Conn_RequestHeartbeat :: "target \<Rightarrow> zoneEnv \<Rightarrow> 'k sys \<Rightarrow> ipaddr \<Rightarrow> sendConn \<Rightarrow> ('k, unit) io" where
  "Conn_RequestHeartbeat T zi K path c = whenOpen ''set'' c
     (io_bind (checked ''set'' c (pathBytes T zi ''RequestHeartbeat'' path c)) (\<lambda>addr.
      io_bind (io_total (heartbeatDemand T (replicate sizePathParams 0) (c_assoc c) addr)) (\<lambda>b.
        setOpt K optPeerAddrParams b c)))"

section \<open>The options whose struct follows the word size\<close>

text \<open>\<open>cache\<close> is what the process has learnt of the kernel's word size (\<open>storageLayoutCache\<close>).\<close>

definition readThresholds :: "target \<Rightarrow> 'k sys \<Rightarrow> u32 \<Rightarrow> bytes \<Rightarrow> sendConn \<Rightarrow> ('k, thresholdValues) io" where
  "readThresholds T K cache addr c =
     io_bind (storageLayout T K cache) (\<lambda>l.
     io_bind (io_total (pathThresholds T l (replicate sizePathThresholdsKernel64 0) (c_assoc c) addr
        \<lparr>tv_maxRetrans = 0, tv_pf = 0, tv_switchover = 0\<rparr>)) (\<lambda>b.
     io_bind (getsockopt K (Sctp optPathThresholds) b) (\<lambda>(r, n). io_total (readThresholdValues T l r))))"

definition Conn_PathThresholds :: "target \<Rightarrow> zoneEnv \<Rightarrow> 'k sys \<Rightarrow> u32 \<Rightarrow> ipaddr \<Rightarrow> sendConn \<Rightarrow> ('k, PathThresholds) io" where
  "Conn_PathThresholds T zi K cache path c = whenOpen ''get'' c
     (io_bind (checked ''get'' c (pathBytes T zi ''PathThresholds'' path c)) (\<lambda>addr.
      io_bind (io_wrap (\<lambda>e. callError ''get'' ''getsockopt'' e c) (readThresholds T K cache addr c)) (\<lambda>v.
        io_ret \<lparr>pt_PathMaxRetrans = Some (tv_maxRetrans v), pt_PFThreshold = Some (tv_pf v),
                pt_PrimarySwitchover = Some (tv_switchover v)\<rparr>)))"

definition Conn_SetPathThresholds ::
  "target \<Rightarrow> zoneEnv \<Rightarrow> 'k sys \<Rightarrow> u32 \<Rightarrow> ipaddr \<Rightarrow> PathThresholds option \<Rightarrow> sendConn \<Rightarrow> ('k, unit) io" where
  "Conn_SetPathThresholds T zi K cache path tt c = whenOpen ''set'' c
     (io_bind (checked ''set'' c (given ''SetPathThresholds needs a non-nil *PathThresholds'' tt)) (\<lambda>t.
      io_bind (checked ''set'' c (refuseIf (pt_PathMaxRetrans t = Some 0) ''PathThresholds.PathMaxRetrans is 0'')) (\<lambda>_.
      io_bind (checked ''set'' c (pathBytes T zi ''SetPathThresholds'' path c)) (\<lambda>addr.
      io_bind (io_wrap (\<lambda>e. callError ''set'' ''getsockopt'' e c) (readThresholds T K cache addr c)) (\<lambda>cur.
      io_bind (checked ''set'' c (Some (mergePathThresholds cur t ''PathThresholds''))) (\<lambda>v.
      io_bind (io_wrap (\<lambda>e. callError ''set'' ''getsockopt'' e c) (storageLayout T K cache)) (\<lambda>l.
      io_bind (io_total (pathThresholds T l (replicate sizePathThresholdsKernel64 0) (c_assoc c) addr v)) (\<lambda>b.
        setOpt K optPathThresholds b c))))))))"

definition Conn_RemoteUDPEncapsPort :: "target \<Rightarrow> zoneEnv \<Rightarrow> 'k sys \<Rightarrow> u32 \<Rightarrow> ipaddr \<Rightarrow> sendConn \<Rightarrow> ('k, u16) io" where
  "Conn_RemoteUDPEncapsPort T zi K cache path c = whenOpen ''get'' c
     (io_bind (checked ''get'' c (pathBytes T zi ''RemoteUDPEncapsPort'' path c)) (\<lambda>addr.
      io_bind (io_wrap (\<lambda>e. callError ''get'' ''getsockopt'' e c) (storageLayout T K cache)) (\<lambda>l.
      io_bind (io_total (udpEncaps T l (replicate sizeUDPEncapsKernel64 0) (c_assoc c) addr 0)) (\<lambda>b.
      io_bind (getOpt K optRemoteUDPEncapsPort b c) (\<lambda>(r, n). io_total (udpEncapsPort l r))))))"

definition Conn_SetRemoteUDPEncapsPort ::
  "target \<Rightarrow> zoneEnv \<Rightarrow> 'k sys \<Rightarrow> u32 \<Rightarrow> ipaddr \<Rightarrow> u16 \<Rightarrow> sendConn \<Rightarrow> ('k, unit) io" where
  "Conn_SetRemoteUDPEncapsPort T zi K cache path port c = whenOpen ''set'' c
     (io_bind (checked ''set'' c (pathBytes T zi ''SetRemoteUDPEncapsPort'' path c)) (\<lambda>addr.
      io_bind (io_wrap (\<lambda>e. callError ''set'' ''getsockopt'' e c) (storageLayout T K cache)) (\<lambda>l.
      io_bind (io_total (udpEncaps T l (replicate sizeUDPEncapsKernel64 0) (c_assoc c) addr port)) (\<lambda>b.
        setOpt K optRemoteUDPEncapsPort b c))))"

definition Conn_PLPMTUDProbeInterval :: "target \<Rightarrow> zoneEnv \<Rightarrow> 'k sys \<Rightarrow> u32 \<Rightarrow> ipaddr \<Rightarrow> sendConn \<Rightarrow> ('k, int) io" where
  "Conn_PLPMTUDProbeInterval T zi K cache path c = whenOpen ''get'' c
     (io_bind (checked ''get'' c (pathBytes T zi ''PLPMTUDProbeInterval'' path c)) (\<lambda>addr.
      io_bind (io_wrap (\<lambda>e. callError ''get'' ''getsockopt'' e c) (storageLayout T K cache)) (\<lambda>l.
      io_bind (io_total (probeInterval T l (replicate sizeProbeIntervalKernel64 0) (c_assoc c) addr 0)) (\<lambda>b.
      io_bind (getOpt K optPLPMTUDProbeInterval b c) (\<lambda>(r, n).
      io_bind (io_total (probeIntervalMS T l r)) (\<lambda>ms. io_ret (millisToDuration ms)))))))"

definition Conn_SetPLPMTUDProbeInterval ::
  "target \<Rightarrow> zoneEnv \<Rightarrow> 'k sys \<Rightarrow> u32 \<Rightarrow> ipaddr \<Rightarrow> int \<Rightarrow> sendConn \<Rightarrow> ('k, unit) io" where
  "Conn_SetPLPMTUDProbeInterval T zi K cache path d c = whenOpen ''set'' c
     (io_bind (checked ''set'' c (durationToMillis ''SetPLPMTUDProbeInterval'' d MaxUint32)) (\<lambda>ms.
      io_bind (checked ''set'' c (refuseIf (ms \<noteq> 0 \<and> ms < minProbeIntervalMS) ''SetPLPMTUDProbeInterval: %s is below the 5s Linux accepts'')) (\<lambda>_.
      io_bind (checked ''set'' c (pathBytes T zi ''SetPLPMTUDProbeInterval'' path c)) (\<lambda>addr.
      io_bind (io_wrap (\<lambda>e. callError ''set'' ''getsockopt'' e c) (storageLayout T K cache)) (\<lambda>l.
      io_bind (io_total (probeInterval T l (replicate sizeProbeIntervalKernel64 0) (c_assoc c) addr ms)) (\<lambda>b.
        setOpt K optPLPMTUDProbeInterval b c))))))"

definition Conn_Stats :: "target \<Rightarrow> ifaceEnv \<Rightarrow> 'k sys \<Rightarrow> u32 \<Rightarrow> sendConn \<Rightarrow> ('k, AssocStats) io" where
  "Conn_Stats T ifx K cache c = whenOpen ''get'' c
     (io_bind (io_wrap (\<lambda>e. callError ''get'' ''getsockopt'' e c) (storageLayout T K cache)) (\<lambda>l.
      io_bind (io_total (assocStatsRequest T l (replicate sizeAssocStatsKernel64 0) (c_assoc c))) (\<lambda>b.
      io_bind (getOpt K optGetAssocStats b c) (\<lambda>(r, n). io_total (assocStats T ifx l r)))))"

section \<open>The association\<close>

definition Conn_PFExposure :: "target \<Rightarrow> 'k sys \<Rightarrow> sendConn \<Rightarrow> ('k, PFExposure) io" where
  "Conn_PFExposure T K c = assocValueOption T K optExposePotentiallyFailedState c"

definition Conn_SetPFExposure :: "target \<Rightarrow> 'k sys \<Rightarrow> PFExposure \<Rightarrow> sendConn \<Rightarrow> ('k, unit) io" where
  "Conn_SetPFExposure T K e c = whenOpen ''set'' c
     (io_bind (checked ''set'' c (refuseIf (e > PFExposeEnabled) ''SetPFExposure: %v is not a level'')) (\<lambda>_.
        setAssocValueOption T K optExposePotentiallyFailedState e c))"

definition Conn_AutoASCONF :: "target \<Rightarrow> 'k sys \<Rightarrow> sendConn \<Rightarrow> ('k, bool) io" where
  "Conn_AutoASCONF T K c = boolOption T K optAutoAsconf c"

definition Conn_SetAutoASCONF :: "target \<Rightarrow> 'k sys \<Rightarrow> bool \<Rightarrow> sendConn \<Rightarrow> ('k, unit) io" where
  "Conn_SetAutoASCONF T K on c = setBoolOption T K optAutoAsconf on c"

definition Conn_Status :: "target \<Rightarrow> ifaceEnv \<Rightarrow> 'k sys \<Rightarrow> sendConn \<Rightarrow> ('k, Status) io" where
  "Conn_Status T ifx K c =
     io_bind (withAssoc T statusAssocIDOff (replicate sizeStatus 0) c) (\<lambda>b.
     io_bind (getOpt K optStatus b c) (\<lambda>(r, n). io_total (decodeStatus T ifx r)))"

definition Conn_AssocInfo :: "target \<Rightarrow> 'k sys \<Rightarrow> sendConn \<Rightarrow> ('k, AssocInfo) io" where
  "Conn_AssocInfo T K c =
     io_bind (withAssoc T assocInfoAssocIDOff (replicate sizeAssocInfo 0) c) (\<lambda>b.
     io_bind (getOpt K optAssocInfo b c) (\<lambda>(r, n). io_total (decodeAssocInfo T r)))"

definition Conn_SetAssocInfo :: "target \<Rightarrow> 'k sys \<Rightarrow> AssocInfo option \<Rightarrow> sendConn \<Rightarrow> ('k, unit) io" where
  "Conn_SetAssocInfo T K ai c = whenOpen ''set'' c
     (io_bind (checked ''set'' c (given ''SetAssocInfo needs a non-nil *AssocInfo'' ai)) (\<lambda>a.
      io_bind (checked ''set'' c (encodeAssocInfo T (replicate sizeAssocInfo 0) (c_assoc c) a ''AssocInfo'')) (\<lambda>b.
        setOpt K optAssocInfo b c)))"

definition Conn_RTOInfo :: "target \<Rightarrow> 'k sys \<Rightarrow> sendConn \<Rightarrow> ('k, RTOInfo) io" where
  "Conn_RTOInfo T K c =
     io_bind (withAssoc T rtoInfoAssocIDOff (replicate sizeRTOInfo 0) c) (\<lambda>b.
     io_bind (getOpt K optRTOInfo b c) (\<lambda>(r, n). io_total (decodeRTOInfo T r)))"

definition Conn_SetRTOInfo :: "target \<Rightarrow> 'k sys \<Rightarrow> RTOInfo option \<Rightarrow> sendConn \<Rightarrow> ('k, unit) io" where
  "Conn_SetRTOInfo T K ri c = whenOpen ''set'' c
     (io_bind (checked ''set'' c (given ''SetRTOInfo needs a non-nil *RTOInfo'' ri)) (\<lambda>r.
      io_bind (checked ''set'' c (encodeRTOInfo T (replicate sizeRTOInfo 0) (c_assoc c) r ''RTOInfo'')) (\<lambda>b.
        setOpt K optRTOInfo b c)))"

definition Conn_InitMsg :: "target \<Rightarrow> 'k sys \<Rightarrow> sendConn \<Rightarrow> ('k, InitMsg) io" where
  "Conn_InitMsg T K c = io_bind (getOpt K optInitMsg (replicate sizeInitMsg 0) c) (\<lambda>(r, n). io_total (decodeInitMsg T r))"

definition Conn_DelayedSACK :: "target \<Rightarrow> 'k sys \<Rightarrow> sendConn \<Rightarrow> ('k, DelayedSACK) io" where
  "Conn_DelayedSACK T K c =
     io_bind (withAssoc T delayedSACKAssocIDOff (replicate sizeDelayedSACK 0) c) (\<lambda>b.
     io_bind (getOpt K optDelayedAckTime b c) (\<lambda>(r, n). io_total (decodeDelayedSACK T r)))"

definition Conn_SetDelayedSACK :: "target \<Rightarrow> 'k sys \<Rightarrow> DelayedSACK option \<Rightarrow> sendConn \<Rightarrow> ('k, unit) io" where
  "Conn_SetDelayedSACK T K ds c = whenOpen ''set'' c
     (io_bind (checked ''set'' c (given ''SetDelayedSACK needs a non-nil *DelayedSACK'' ds)) (\<lambda>d.
      io_bind (checked ''set'' c (encodeDelayedSACK T (replicate sizeDelayedSACK 0) (c_assoc c) d ''DelayedSACK'')) (\<lambda>b.
        setOpt K optDelayedAckTime b c)))"

definition Conn_AdaptationLayer :: "target \<Rightarrow> 'k sys \<Rightarrow> sendConn \<Rightarrow> ('k, u32) io" where
  "Conn_AdaptationLayer T K c =
     io_bind (getOpt K optAdaptationLayer (replicate sizeSetAdaptation 0) c) (\<lambda>(r, n). io_total (get32 (native T) r 0))"

section \<open>Send and receive behaviour\<close>

definition Conn_NoDelay :: "target \<Rightarrow> 'k sys \<Rightarrow> sendConn \<Rightarrow> ('k, bool) io" where
  "Conn_NoDelay T K c = boolOption T K optNoDelay c"

definition Conn_SetNoDelay :: "target \<Rightarrow> 'k sys \<Rightarrow> bool \<Rightarrow> sendConn \<Rightarrow> ('k, unit) io" where
  "Conn_SetNoDelay T K on c = setBoolOption T K optNoDelay on c"

definition Conn_MaxSeg :: "target \<Rightarrow> 'k sys \<Rightarrow> sendConn \<Rightarrow> ('k, int) io" where
  "Conn_MaxSeg T K c = io_bind (assocValueOption T K optMaxSeg c) (\<lambda>v. io_ret (goInt T v))"

definition Conn_SetMaxSeg :: "target \<Rightarrow> 'k sys \<Rightarrow> int \<Rightarrow> sendConn \<Rightarrow> ('k, unit) io" where
  "Conn_SetMaxSeg T K n c = whenOpen ''set'' c
     (io_bind (checked ''set'' c (Some (uint32Arg ''SetMaxSeg'' n))) (\<lambda>v. setAssocValueOption T K optMaxSeg v c))"

definition Conn_MaxBurst :: "target \<Rightarrow> 'k sys \<Rightarrow> sendConn \<Rightarrow> ('k, int) io" where
  "Conn_MaxBurst T K c = io_bind (assocValueOption T K optMaxBurst c) (\<lambda>v. io_ret (goInt T v))"

definition Conn_SetMaxBurst :: "target \<Rightarrow> 'k sys \<Rightarrow> int \<Rightarrow> sendConn \<Rightarrow> ('k, unit) io" where
  "Conn_SetMaxBurst T K n c = whenOpen ''set'' c
     (io_bind (checked ''set'' c (Some (uint32Arg ''SetMaxBurst'' n))) (\<lambda>v. setAssocValueOption T K optMaxBurst v c))"

definition Conn_FragmentsDisabled :: "target \<Rightarrow> 'k sys \<Rightarrow> sendConn \<Rightarrow> ('k, bool) io" where
  "Conn_FragmentsDisabled T K c = boolOption T K optDisableFragments c"

definition Conn_SetFragmentsDisabled :: "target \<Rightarrow> 'k sys \<Rightarrow> bool \<Rightarrow> sendConn \<Rightarrow> ('k, unit) io" where
  "Conn_SetFragmentsDisabled T K on c = setBoolOption T K optDisableFragments on c"

definition Conn_FragmentInterleave :: "target \<Rightarrow> 'k sys \<Rightarrow> sendConn \<Rightarrow> ('k, FragmentInterleave) io" where
  "Conn_FragmentInterleave T K c = intOption T K (Sctp optFragmentInterleave) c"

definition Conn_SetFragmentInterleave :: "target \<Rightarrow> 'k sys \<Rightarrow> FragmentInterleave \<Rightarrow> sendConn \<Rightarrow> ('k, unit) io" where
  "Conn_SetFragmentInterleave T K level c = whenOpen ''set'' c
     (io_bind (checked ''set'' c (Some
        (if level = InterleaveNone \<or> level = InterleaveAssocs then Inr ()
         else if level = InterleaveStreams then Inl (UnsupportedField ''SetFragmentInterleave'' ''Linux stores SCTP_FRAGMENT_INTERLEAVE as a boolean'')
         else Inl (InvalidArg ''SetFragmentInterleave: %v is not a level'')))) (\<lambda>_.
        setIntOption T K (Sctp optFragmentInterleave) level c))"

definition Conn_PartialDeliveryPoint :: "target \<Rightarrow> 'k sys \<Rightarrow> sendConn \<Rightarrow> ('k, int) io" where
  "Conn_PartialDeliveryPoint T K c =
     io_bind (getOpt K optPartialDeliveryPoint (replicate sizeInt 0) c) (\<lambda>(r, n).
     io_bind (io_total (get32 (native T) r 0)) (\<lambda>v. io_ret (goInt T v)))"

definition Conn_SetPartialDeliveryPoint :: "target \<Rightarrow> 'k sys \<Rightarrow> int \<Rightarrow> sendConn \<Rightarrow> ('k, unit) io" where
  "Conn_SetPartialDeliveryPoint T K n c = whenOpen ''set'' c
     (io_bind (checked ''set'' c (Some (uint32Arg ''SetPartialDeliveryPoint'' n))) (\<lambda>v.
      io_bind (io_total (put32 (native T) 0 v (replicate sizeInt 0))) (\<lambda>b. setOpt K optPartialDeliveryPoint b c)))"

definition Conn_ReceiveNxtInfo :: "target \<Rightarrow> 'k sys \<Rightarrow> sendConn \<Rightarrow> ('k, bool) io" where
  "Conn_ReceiveNxtInfo T K c = boolOption T K optRecvNxtInfo c"

definition Conn_SetReceiveNxtInfo :: "target \<Rightarrow> 'k sys \<Rightarrow> bool \<Rightarrow> sendConn \<Rightarrow> ('k, unit) io" where
  "Conn_SetReceiveNxtInfo T K on c = setBoolOption T K optRecvNxtInfo on c"

definition Conn_DefaultContext :: "target \<Rightarrow> 'k sys \<Rightarrow> sendConn \<Rightarrow> ('k, u32) io" where
  "Conn_DefaultContext T K c = assocValueOption T K optContext c"

definition Conn_SetDefaultContext :: "target \<Rightarrow> 'k sys \<Rightarrow> u32 \<Rightarrow> sendConn \<Rightarrow> ('k, unit) io" where
  "Conn_SetDefaultContext T K v c = setAssocValueOption T K optContext v c"

section \<open>Negotiated extensions\<close>

definition negotiated :: "target \<Rightarrow> 'k sys \<Rightarrow> nat \<Rightarrow> sendConn \<Rightarrow> ('k, bool) io" where
  "negotiated T K opt c = io_bind (assocValueOption T K opt c) (\<lambda>v. io_ret (v \<noteq> 0))"

definition Conn_PRSupported :: "target \<Rightarrow> 'k sys \<Rightarrow> sendConn \<Rightarrow> ('k, bool) io" where
  "Conn_PRSupported T K c = negotiated T K optPRSupported c"

definition Conn_ReconfigSupported :: "target \<Rightarrow> 'k sys \<Rightarrow> sendConn \<Rightarrow> ('k, bool) io" where
  "Conn_ReconfigSupported T K c = negotiated T K optReconfigSupported c"

definition Conn_ASCONFSupported :: "target \<Rightarrow> 'k sys \<Rightarrow> sendConn \<Rightarrow> ('k, bool) io" where
  "Conn_ASCONFSupported T K c = negotiated T K optASCONFSupported c"

definition Conn_AuthSupported :: "target \<Rightarrow> 'k sys \<Rightarrow> sendConn \<Rightarrow> ('k, bool) io" where
  "Conn_AuthSupported T K c = negotiated T K optAuthSupported c"

definition Conn_InterleavingSupported :: "target \<Rightarrow> 'k sys \<Rightarrow> sendConn \<Rightarrow> ('k, bool) io" where
  "Conn_InterleavingSupported T K c = negotiated T K optInterleavingSupported c"

definition Conn_ECNSupported :: "target \<Rightarrow> 'k sys \<Rightarrow> sendConn \<Rightarrow> ('k, bool) io" where
  "Conn_ECNSupported T K c = negotiated T K optECNSupported c"

section \<open>Authentication\<close>

definition Conn_SetAuthKey :: "target \<Rightarrow> 'k sys \<Rightarrow> u16 \<Rightarrow> bytes \<Rightarrow> sendConn \<Rightarrow> ('k, unit) io" where
  "Conn_SetAuthKey T K key secret c = whenOpen ''set'' c
     (io_bind (checked ''set'' c (encodeAuthKey T (c_assoc c) key secret ''SetAuthKey'')) (\<lambda>b. setOpt K optAuthKey b c))"

definition authKeyID :: "target \<Rightarrow> u16 \<Rightarrow> sendConn \<Rightarrow> bytes option" where
  "authKeyID T key c = do {
     b \<leftarrow> put32 (native T) authKeyIDAssocIDOff (c_assoc c) (replicate sizeAuthKeyID 0);
     put16 (native T) authKeyIDKeyNumberOff key b
   }"

definition Conn_ActiveAuthKey :: "target \<Rightarrow> 'k sys \<Rightarrow> sendConn \<Rightarrow> ('k, u16) io" where
  "Conn_ActiveAuthKey T K c =
     io_bind (io_total (authKeyID T 0 c)) (\<lambda>b.
     io_bind (getOpt K optAuthActiveKey b c) (\<lambda>(r, n). io_total (get16 (native T) r authKeyIDKeyNumberOff)))"

definition Conn_SetActiveAuthKey :: "target \<Rightarrow> 'k sys \<Rightarrow> u16 \<Rightarrow> sendConn \<Rightarrow> ('k, unit) io" where
  "Conn_SetActiveAuthKey T K key c = whenOpen ''set'' c
     (io_bind (io_total (authKeyID T key c)) (\<lambda>b. setOpt K optAuthActiveKey b c))"

definition Conn_DeactivateAuthKey :: "target \<Rightarrow> 'k sys \<Rightarrow> u16 \<Rightarrow> sendConn \<Rightarrow> ('k, unit) io" where
  "Conn_DeactivateAuthKey T K key c = whenOpen ''set'' c
     (io_bind (io_total (authKeyID T key c)) (\<lambda>b. setOpt K optAuthDeactivateKey b c))"

definition Conn_DeleteAuthKey :: "target \<Rightarrow> 'k sys \<Rightarrow> u16 \<Rightarrow> sendConn \<Rightarrow> ('k, unit) io" where
  "Conn_DeleteAuthKey T K key c = whenOpen ''set'' c
     (io_bind (io_total (authKeyID T key c)) (\<lambda>b. setOpt K optAuthDeleteKey b c))"

definition Conn_HMACIdentifiers :: "target \<Rightarrow> 'k sys \<Rightarrow> sendConn \<Rightarrow> ('k, HMACID list) io" where
  "Conn_HMACIdentifiers T K c =
     io_bind (getOpt K optHMACIdent (replicate (sizeHMACAlgo + 2 * maxHMACIdents) 0) c) (\<lambda>(r, n).
       checked ''get'' c (decodeHMACIdents T r (goInt T n)))"

definition authChunks :: "target \<Rightarrow> 'k sys \<Rightarrow> nat \<Rightarrow> sendConn \<Rightarrow> ('k, byte list) io" where
  "authChunks T K opt c =
     io_bind (withAssoc T authChunksAssocIDOff (replicate (sizeAuthChunks + maxAuthChunkList) 0) c) (\<lambda>b.
     io_bind (getOpt K opt b c) (\<lambda>(r, n). checked ''get'' c (decodeAuthChunks T r (goInt T n))))"

definition Conn_LocalAuthChunks :: "target \<Rightarrow> 'k sys \<Rightarrow> sendConn \<Rightarrow> ('k, byte list) io" where
  "Conn_LocalAuthChunks T K c = authChunks T K optLocalAuthChunks c"

definition Conn_PeerAuthChunks :: "target \<Rightarrow> 'k sys \<Rightarrow> sendConn \<Rightarrow> ('k, byte list) io" where
  "Conn_PeerAuthChunks T K c = authChunks T K optPeerAuthChunks c"

section \<open>Stream reconfiguration\<close>

definition Conn_StreamResetMask :: "target \<Rightarrow> 'k sys \<Rightarrow> sendConn \<Rightarrow> ('k, StreamResetMask) io" where
  "Conn_StreamResetMask T K c = assocValueOption T K optEnableStreamReset c"

definition Conn_SetStreamResetMask :: "target \<Rightarrow> 'k sys \<Rightarrow> StreamResetMask \<Rightarrow> sendConn \<Rightarrow> ('k, unit) io" where
  "Conn_SetStreamResetMask T K m c = whenOpen ''set'' c
     (io_bind (checked ''set'' c (refuseIf (and_not m streamResetKnownBits \<noteq> 0) ''SetStreamResetMask: %#x has unknown bits'')) (\<lambda>_.
        setAssocValueOption T K optEnableStreamReset m c))"

definition Conn_ResetStreams :: "target \<Rightarrow> 'k sys \<Rightarrow> ResetDirection \<Rightarrow> u16 list \<Rightarrow> sendConn \<Rightarrow> ('k, unit) io" where
  "Conn_ResetStreams T K dir streams c = whenOpen ''set'' c
     (io_bind (checked ''set'' c (encodeResetStreams T (c_assoc c) dir streams)) (\<lambda>b. setOpt K optResetStreams b c))"

definition Conn_ResetAssoc :: "target \<Rightarrow> 'k sys \<Rightarrow> sendConn \<Rightarrow> ('k, unit) io" where
  "Conn_ResetAssoc T K c = whenOpen ''set'' c
     (io_bind (withAssoc T 0 (replicate sizeAssocID 0) c) (\<lambda>b. setOpt K optResetAssoc b c))"

definition Conn_AddStreams :: "target \<Rightarrow> 'k sys \<Rightarrow> u16 \<Rightarrow> u16 \<Rightarrow> sendConn \<Rightarrow> ('k, unit) io" where
  "Conn_AddStreams T K ins outs c = whenOpen ''set'' c
     (io_bind (checked ''set'' c (refuseIf (ins = 0 \<and> outs = 0) ''AddStreams needs at least one stream to add'')) (\<lambda>_.
      io_bind (io_total (do {
        b1 \<leftarrow> put32 (native T) addStreamsAssocIDOff (c_assoc c) (replicate sizeAddStreams 0);
        b2 \<leftarrow> put16 (native T) addStreamsInStreamsOff ins b1;
        put16 (native T) addStreamsOutStreamsOff outs b2 })) (\<lambda>b. setOpt K optAddStreams b c)))"

section \<open>Stream scheduling\<close>

definition Conn_StreamScheduler :: "target \<Rightarrow> 'k sys \<Rightarrow> sendConn \<Rightarrow> ('k, Scheduler) io" where
  "Conn_StreamScheduler T K c = assocValueOption T K optStreamScheduler c"

definition Conn_SetStreamScheduler :: "target \<Rightarrow> 'k sys \<Rightarrow> Scheduler \<Rightarrow> sendConn \<Rightarrow> ('k, unit) io" where
  "Conn_SetStreamScheduler T K s c = whenOpen ''set'' c
     (io_bind (checked ''set'' c (refuseIf (s > SchedWFQ) ''SetStreamScheduler: %v is not a scheduler Linux implements'')) (\<lambda>_.
        setAssocValueOption T K optStreamScheduler s c))"

definition streamValue :: "target \<Rightarrow> u16 \<Rightarrow> u16 \<Rightarrow> sendConn \<Rightarrow> bytes option" where
  "streamValue T stream v c = do {
     b1 \<leftarrow> put32 (native T) streamValueAssocIDOff (c_assoc c) (replicate sizeStreamValue 0);
     b2 \<leftarrow> put16 (native T) streamValueStreamIDOff stream b1;
     put16 (native T) streamValueValueOff v b2
   }"

definition Conn_StreamSchedulerValue :: "target \<Rightarrow> 'k sys \<Rightarrow> u16 \<Rightarrow> sendConn \<Rightarrow> ('k, u16) io" where
  "Conn_StreamSchedulerValue T K stream c =
     io_bind (io_total (streamValue T stream 0 c)) (\<lambda>b.
     io_bind (getOpt K optStreamSchedulerValue b c) (\<lambda>(r, n). io_total (get16 (native T) r streamValueValueOff)))"

definition Conn_SetStreamSchedulerValue :: "target \<Rightarrow> 'k sys \<Rightarrow> u16 \<Rightarrow> u16 \<Rightarrow> sendConn \<Rightarrow> ('k, unit) io" where
  "Conn_SetStreamSchedulerValue T K stream v c = whenOpen ''set'' c
     (io_bind (io_total (streamValue T stream v c)) (\<lambda>b. setOpt K optStreamSchedulerValue b c))"

section \<open>Partial reliability\<close>

definition prStatus :: "target \<Rightarrow> 'k sys \<Rightarrow> nat \<Rightarrow> string \<Rightarrow> u16 \<Rightarrow> PRPolicy \<Rightarrow> sendConn \<Rightarrow> ('k, PRStatus) io" where
  "prStatus T K opt name stream policy c = whenOpen ''get'' c
     (io_bind (checked ''get'' c (Some (case validateStatusPolicy name policy of None \<Rightarrow> Inr () | Some e \<Rightarrow> Inl e))) (\<lambda>_.
      io_bind (io_total (prStatusRequest T (replicate sizePRStatus 0) (c_assoc c) stream policy)) (\<lambda>b.
      io_bind (getOpt K opt b c) (\<lambda>(r, n). io_total (decodePRStatus T r)))))"

definition Conn_PRStreamStatus :: "target \<Rightarrow> 'k sys \<Rightarrow> u16 \<Rightarrow> PRPolicy \<Rightarrow> sendConn \<Rightarrow> ('k, PRStatus) io" where
  "Conn_PRStreamStatus T K stream policy c = prStatus T K optPRStreamStatus ''PRStreamStatus'' stream policy c"

definition Conn_PRAssocStatus :: "target \<Rightarrow> 'k sys \<Rightarrow> PRPolicy \<Rightarrow> sendConn \<Rightarrow> ('k, PRStatus) io" where
  "Conn_PRAssocStatus T K policy c = prStatus T K optPRAssocStatus ''PRAssocStatus'' 0 policy c"

end
