(* ===== verification/SetterProps.thy ===== *)
theory SetterProps
  imports ConnOptions OptionsProps Reads
begin

text \<open>
  What every option setter of a Conn guarantees: it makes at most one system call, of its own option and of exactly the
  struct's size, naming its own association. \<open>optionSet\<close> enumerates the setters with their arguments,
  \<open>setCall\<close> runs one and \<open>setStruct\<close> gives the option and struct Linux expects.
\<close>

section \<open>One system call\<close>

definition arg_error :: "goerr \<Rightarrow> bool" where
  "arg_error e \<longleftrightarrow> (\<exists>m. e = InvalidArg m) \<or> (\<exists>f w. e = UnsupportedField f w)"

text \<open>A setter \<open>m\<close> that either refuses without a system call, or makes exactly one, of option \<open>so\<close> with \<open>n\<close> bytes that start
  with the association id when it is scoped, and reports that call's answer.\<close>

definition refusal :: "goerr option + unit \<Rightarrow> bool" where
  "refusal r \<longleftrightarrow> (\<exists>e. r = Inl (Some e) \<and> (errIs e (Errno EINVAL) \<or> errIs e ErrUnsupported \<or> errIs e NetErrClosed))"

definition reports :: "errno option \<Rightarrow> goerr option + unit \<Rightarrow> bool" where
  "reports a r \<longleftrightarrow> (case a of None \<Rightarrow> r = Inr () | Some x \<Rightarrow> \<exists>e. r = Inl (Some e) \<and> errIs e (Errno x))"

definition tagged :: "target \<Rightarrow> AssocID option \<Rightarrow> bytes \<Rightarrow> bool" where
  "tagged T a b \<longleftrightarrow> (case a of None \<Rightarrow> True | Some i \<Rightarrow> rd32 (native T) b 0 = i)"

definition sets_once :: "target \<Rightarrow> 'k sys \<Rightarrow> sockopt \<Rightarrow> nat \<Rightarrow> AssocID option \<Rightarrow> ('k, unit) io \<Rightarrow> bool" where
  "sets_once T K so n a m \<longleftrightarrow> (\<forall>k. \<exists>r k'. m k = Some (r, k') \<and>
     (refusal r \<and> k' = k \<or>
      (\<exists>b e. length b = n \<and> tagged T a b \<and> y_set K k so b = (e, k') \<and> reports e r)))"

lemma wrapped_errors [simp]:
  "optionError op (Some NetErrClosed) c = Some (OpError op (c_network c) None (c_laddr c) NetErrClosed)"
  "optionError op (Some (Errno x)) c = Some (OpError op (c_network c) None (c_laddr c)
     (SyscallError (if op = ''set'' then ''setsockopt'' else ''getsockopt'') (Errno x)))"
  "arg_error e \<Longrightarrow> argError op (Some e) c = Some (OpError op (c_network c) None (c_laddr c) e)"
  by (auto simp: optionError_def optError_def argError_def opError_def isClosedErr_def isFileClosingErr_def arg_error_def)

lemma sets_once_err:
  "sets_once T K so n a (io_err (optionError ''set'' (Some NetErrClosed) c))"
  "arg_error e \<Longrightarrow> sets_once T K so n a (io_err (argError ''set'' (Some e) c))"
  by (auto simp: sets_once_def io_err_def refusal_def arg_error_def)

lemma sets_once_whenOpen: "sets_once T K so n a m \<Longrightarrow> sets_once T K so n a (whenOpen ''set'' c m)"
  using sets_once_err(1) [of T K so n a c] by (simp add: whenOpen_def)

text \<open>What a check has to guarantee of its refusals, and of its results \<open>P\<close>.\<close>

definition checks :: "(goerr + 'a) option \<Rightarrow> ('a \<Rightarrow> bool) \<Rightarrow> bool" where
  "checks r P \<longleftrightarrow> (case r of None \<Rightarrow> False | Some (Inl e) \<Rightarrow> arg_error e | Some (Inr x) \<Rightarrow> P x)"

lemma checksE:
  assumes "checks r P"
  obtains e where "r = Some (Inl e)" "arg_error e" | x where "r = Some (Inr x)" "P x"
  using assms by (auto simp: checks_def split: option.splits sum.splits)

lemma sets_once_checked:
  assumes "checks r P" "\<And>x. P x \<Longrightarrow> sets_once T K so n a (f x)"
  shows "sets_once T K so n a (io_bind (checked ''set'' c r) f)"
  using assms(1)
proof (cases rule: checksE)
  case (1 e)
  then show ?thesis using sets_once_err(2) [of e T K so n a c] by (simp add: checked_def)
qed (use assms(2) in \<open>simp add: checked_def\<close>)

lemma sets_once_call:
  assumes "length b = n" "tagged T a b"
  shows "sets_once T K so n a (io_wrap (\<lambda>e. optionError ''set'' e c) (setsockopt K so b))"
  unfolding sets_once_def
proof
  fix k
  obtain e k' where y: "y_set K k so b = (e, k')" by fastforce
  show "\<exists>r k'. io_wrap (\<lambda>e. optionError ''set'' e c) (setsockopt K so b) k = Some (r, k') \<and>
     (refusal r \<and> k' = k \<or> (\<exists>b e. length b = n \<and> tagged T a b \<and> y_set K k so b = (e, k') \<and> reports e r))"
  proof (cases "y_released K k")
    case True
    then show ?thesis by (simp add: io_wrap_def setsockopt_def refusal_def)
  next
    case False
    have "\<exists>r. io_wrap (\<lambda>e. optionError ''set'' e c) (setsockopt K so b) k = Some (r, k') \<and> reports e r"
      using False y by (cases e) (simp_all add: io_wrap_def setsockopt_def reports_def)
    then show ?thesis using assms y by blast
  qed
qed

lemma sets_once_setOpt:
  "length b = n \<Longrightarrow> 0 < n \<Longrightarrow> tagged T a b \<Longrightarrow> sets_once T K (Sctp opt) n a (setOpt K opt b c)"
  by (auto simp: setOpt_def intro: sets_once_whenOpen sets_once_call)

lemma sets_once_setInt: "sets_once T K so 4 None (setIntOption T K so v c)"
  by (simp add: setIntOption_def no_panic tagged_def sets_once_whenOpen sets_once_call)

lemma tagged_splice [simp]:
  "4 \<le> off \<Longrightarrow> off + length bs \<le> length b \<Longrightarrow> tagged T a (splice off bs b) = tagged T a b"
  by (simp add: tagged_def codec_rw split: option.splits)

lemma tagged_head [simp]: "4 \<le> length b \<Longrightarrow> tagged T (Some i) (splice 0 (enc_int (native T) i) b)"
  "tagged T (Some i) (enc_int (native T) i @ b)" "tagged T None b"
  by (simp_all add: tagged_def codec_rw)

lemma sets_once_assocValue: "sets_once T K (Sctp opt) 8 (Some (c_assoc c)) (setAssocValueOption T K opt v c)"
  by (simp add: setAssocValueOption_def no_panic sets_once_setOpt)

section \<open>The checks\<close>

lemma arg_errors [simp]: "arg_error (InvalidArg m)" "arg_error (UnsupportedField f w)"
  by (simp_all add: arg_error_def)

lemma checks_simps [simp]:
  "checks (Some (Inl e)) P = arg_error e" "checks (Some (Inr x)) P = P x" "\<not> checks None P"
  by (simp_all add: checks_def)

lemma checks_refused: "refused r \<Longrightarrow> checks r P"
  by (auto simp: refused_def)

lemma checks_args:
  "checks (refuseIf bad msg) (\<lambda>_. \<not> bad)"
  "checks (given msg x) (\<lambda>v. x = Some v)"
  "checks (Some (uint32Arg name n)) (\<lambda>v. uint v = n)"
  "checks (Some (bufferSizeArg name n)) (\<lambda>v. uint v = n \<and> 0 < n \<and> n < 2 ^ 31)"
  by (auto simp: refuseIf_def given_def uint32Arg_def bufferSizeArg_def MaxUint32_def uint_word_of_int_eq take_bit_int_eq_self
    split: option.splits)

lemma checks_encodedAt:
  assumes "off \<le> length b" "checks (f (drop off b)) (\<lambda>(n, d). length d = length b - off)"
  shows "checks (encodedAt off f b) (\<lambda>w. length w = length b)"
  using assms(2) by (cases rule: checksE) (use assms(1) in \<open>auto simp: encodedAt_def\<close>)

lemma entrySize_le: "entrySize family \<le> 28"
  by (simp add: entrySize_def)

lemma checks_encodeAddr:
  "checks (encodeAddr T zi dst family ip port) (\<lambda>(n, d). length d = length dst \<and> n \<le> length dst \<and> n \<le> 28)"
proof (cases "encodable zi family ip \<and> entrySize family \<le> length dst")
  case True
  then show ?thesis using encodeAddr_encodable [of zi family ip dst T port] entrySize_le [of family] by simp
next
  case False
  then show ?thesis using encodeAddr_refuses [of zi family ip dst T port] by auto
qed

lemma checks_pathAddr:
  "checks (pathAddr T zi dst name path c) (\<lambda>(n, d). length d = length dst \<and> n \<le> length dst \<and> n \<le> 28)"
proof (cases "IsValid path")
  case True
  from checks_encodeAddr [of T zi dst "c_family c" path "c_peerPort c"] show ?thesis
    by (cases rule: checksE) (use True in \<open>auto simp: pathAddr_def encodePathAddr_def no_panic\<close>)
qed (simp add: pathAddr_def encodePathAddr_def)

lemma checks_pathBytes: "checks (pathBytes T zi name path c) (\<lambda>addr. length addr \<le> 28)"
  using checks_pathAddr [of T zi "replicate sizeSockaddrIn6 0" name path c]
  by (cases rule: checksE) (auto simp: pathBytes_def)

lemma io_wrap_ret [simp]: "io_wrap w (io_ret x) = io_ret x"
  by (simp add: io_defs)

lemma checks_durationToMillis: "checks (durationToMillis field d MaxUint32) (\<lambda>ms. d = uint ms * Millisecond)"
proof (cases "whole_ms d")
  case True
  then show ?thesis using uint_to_ms [OF True] by simp
next
  case False
  then have "refused (durationToMillis field d MaxUint32)" by simp
  then show ?thesis by (rule checks_refused)
qed

text \<open>The layout, once the process knows the kernel's word size.\<close>

definition layout_known :: "target \<Rightarrow> u32 \<Rightarrow> bool" where
  "layout_known T cache \<longleftrightarrow> wordSize T = 8 \<or> cache = storageLayoutNative \<or> cache = storageLayoutKernel64"

definition layout_for :: "target \<Rightarrow> u32 \<Rightarrow> sockaddrStorageLayout" where
  "layout_for T cache = (if wordSize T = 8 then nativeStorageLayout T else layout_of T cache)"

lemma storageLayout_known: "layout_known T cache \<Longrightarrow> storageLayout T K cache = io_ret (layout_for T cache)"
  by (auto simp: layout_known_def storageLayout_def layout_for_def layout_of_def selectStorageLayout_def)

lemma layout_for_cases:
  assumes "wf_target T"
  shows "storage_layout (layout_for T cache)"
    "sl_sizeUDPEncaps (layout_for T cache) \<le> sizeUDPEncapsKernel64"
    "sl_sizeProbeInterval (layout_for T cache) \<le> sizeProbeIntervalKernel64"
    "sl_sizePathThresholds (layout_for T cache) \<le> sizePathThresholdsKernel64"
    "sl_sizeAssocStats (layout_for T cache) \<le> sizeAssocStatsKernel64"
  using native_storage_layout [OF assms] k64.storage_layout_axioms assms
  by (auto simp: layout_for_def layout_of_def kernel64StorageLayout_def elim!: wf_target_cases)
    (auto simp: nativeStorageLayout_def)

lemma udpEncaps_request:
  assumes "wf_target T" "length addr \<le> 28"
  obtains b where "udpEncaps T (layout_for T cache) (replicate sizeUDPEncapsKernel64 0) assoc addr port = Some b"
    "length b = sl_sizeUDPEncaps (layout_for T cache)" "tagged T (Some assoc) b" "0 < length b"
  using storage_layout.udpEncaps_reads [OF layout_for_cases(1) [OF assms(1)], of addr cache "replicate sizeUDPEncapsKernel64 0" T assoc port]
    layout_for_cases(2) [OF assms(1), of cache] assms(2) storage_layout.encaps_fits [OF layout_for_cases(1) [OF assms(1)], of cache]
  by (auto simp: names_def tagged_def)

lemma probeInterval_request:
  assumes "wf_target T" "length addr \<le> 28"
  obtains b where "probeInterval T (layout_for T cache) (replicate sizeProbeIntervalKernel64 0) assoc addr ms = Some b"
    "length b = sl_sizeProbeInterval (layout_for T cache)" "tagged T (Some assoc) b" "0 < length b"
  using storage_layout.probeInterval_reads [OF layout_for_cases(1) [OF assms(1)], of addr cache "replicate sizeProbeIntervalKernel64 0" T assoc ms]
    layout_for_cases(3) [OF assms(1), of cache] assms(2) storage_layout.interval_fits [OF layout_for_cases(1) [OF assms(1)], of cache]
  by (auto simp: names_def tagged_def)

section \<open>Every setter\<close>

text \<open>A call of a setter, with its arguments; the two setters that read before they write are treated apart.\<close>

datatype optionSet =
    SReadBuffer int | SWriteBuffer int | SPrimaryAddr ipaddr | SPeerPrimary u16 ipaddr
  | SPathParams ipaddr "PathParams option" | SHeartbeat ipaddr | SPFExposure PFExposure | SAutoASCONF bool
  | SUDPEncaps ipaddr u16 | SProbeInterval ipaddr int | SAssocInfo "AssocInfo option" | SRTOInfo "RTOInfo option"
  | SDelayedSACK "DelayedSACK option" | SNoDelay bool | SMaxSeg int | SMaxBurst int | SFragmentsDisabled bool
  | SInterleave FragmentInterleave | SDeliveryPoint int | SNxtInfo bool | SContext u32 | SAuthKey u16 bytes
  | SActiveKey u16 | SDeactivateKey u16 | SDeleteKey u16 | SResetMask StreamResetMask | SResetStreams ResetDirection "u16 list"
  | SResetAssoc | SAddStreams u16 u16 | SScheduler Scheduler | SSchedulerValue u16 u16

fun setCall :: "target \<Rightarrow> zoneEnv \<Rightarrow> 'k sys \<Rightarrow> u32 \<Rightarrow> sendConn \<Rightarrow> optionSet \<Rightarrow> ('k, unit) io" where
  "setCall T zi K cache c (SReadBuffer n) = Conn_SetReadBuffer T K n c"
| "setCall T zi K cache c (SWriteBuffer n) = Conn_SetWriteBuffer T K n c"
| "setCall T zi K cache c (SPrimaryAddr path) = Conn_SetPrimaryAddr T zi K path c"
| "setCall T zi K cache c (SPeerPrimary port ip) = Conn_RequestPeerPrimary T zi K port ip c"
| "setCall T zi K cache c (SPathParams path p) = Conn_SetPathParams T zi K path p c"
| "setCall T zi K cache c (SHeartbeat path) = Conn_RequestHeartbeat T zi K path c"
| "setCall T zi K cache c (SPFExposure e) = Conn_SetPFExposure T K e c"
| "setCall T zi K cache c (SAutoASCONF on) = Conn_SetAutoASCONF T K on c"
| "setCall T zi K cache c (SUDPEncaps path port) = Conn_SetRemoteUDPEncapsPort T zi K cache path port c"
| "setCall T zi K cache c (SProbeInterval path d) = Conn_SetPLPMTUDProbeInterval T zi K cache path d c"
| "setCall T zi K cache c (SAssocInfo a) = Conn_SetAssocInfo T K a c"
| "setCall T zi K cache c (SRTOInfo r) = Conn_SetRTOInfo T K r c"
| "setCall T zi K cache c (SDelayedSACK d) = Conn_SetDelayedSACK T K d c"
| "setCall T zi K cache c (SNoDelay on) = Conn_SetNoDelay T K on c"
| "setCall T zi K cache c (SMaxSeg n) = Conn_SetMaxSeg T K n c"
| "setCall T zi K cache c (SMaxBurst n) = Conn_SetMaxBurst T K n c"
| "setCall T zi K cache c (SFragmentsDisabled on) = Conn_SetFragmentsDisabled T K on c"
| "setCall T zi K cache c (SInterleave level) = Conn_SetFragmentInterleave T K level c"
| "setCall T zi K cache c (SDeliveryPoint n) = Conn_SetPartialDeliveryPoint T K n c"
| "setCall T zi K cache c (SNxtInfo on) = Conn_SetReceiveNxtInfo T K on c"
| "setCall T zi K cache c (SContext v) = Conn_SetDefaultContext T K v c"
| "setCall T zi K cache c (SAuthKey key secret) = Conn_SetAuthKey T K key secret c"
| "setCall T zi K cache c (SActiveKey key) = Conn_SetActiveAuthKey T K key c"
| "setCall T zi K cache c (SDeactivateKey key) = Conn_DeactivateAuthKey T K key c"
| "setCall T zi K cache c (SDeleteKey key) = Conn_DeleteAuthKey T K key c"
| "setCall T zi K cache c (SResetMask m) = Conn_SetStreamResetMask T K m c"
| "setCall T zi K cache c (SResetStreams dir streams) = Conn_ResetStreams T K dir streams c"
| "setCall T zi K cache c SResetAssoc = Conn_ResetAssoc T K c"
| "setCall T zi K cache c (SAddStreams ins outs) = Conn_AddStreams T K ins outs c"
| "setCall T zi K cache c (SScheduler s) = Conn_SetStreamScheduler T K s c"
| "setCall T zi K cache c (SSchedulerValue stream v) = Conn_SetStreamSchedulerValue T K stream v c"

text \<open>Linux's option for each, the size of its struct, and whether it starts with an association id.\<close>

fun setStruct :: "target \<Rightarrow> u32 \<Rightarrow> optionSet \<Rightarrow> sockopt \<times> nat \<times> bool" where
  "setStruct T cache (SReadBuffer n) = (SoRcvbuf, sizeInt, False)"
| "setStruct T cache (SWriteBuffer n) = (SoSndbuf, sizeInt, False)"
| "setStruct T cache (SPrimaryAddr path) = (Sctp optPrimaryAddr, sizePrim, True)"
| "setStruct T cache (SPeerPrimary port ip) = (Sctp optSetPeerPrimaryAddr, sizeSetPeerPrim, True)"
| "setStruct T cache (SPathParams path p) = (Sctp optPeerAddrParams, sizePathParams, True)"
| "setStruct T cache (SHeartbeat path) = (Sctp optPeerAddrParams, sizePathParams, True)"
| "setStruct T cache (SPFExposure e) = (Sctp optExposePotentiallyFailedState, sizeAssocValue, True)"
| "setStruct T cache (SAutoASCONF on) = (Sctp optAutoAsconf, sizeInt, False)"
| "setStruct T cache (SUDPEncaps path port) = (Sctp optRemoteUDPEncapsPort, sl_sizeUDPEncaps (layout_for T cache), True)"
| "setStruct T cache (SProbeInterval path d) = (Sctp optPLPMTUDProbeInterval, sl_sizeProbeInterval (layout_for T cache), True)"
| "setStruct T cache (SAssocInfo a) = (Sctp optAssocInfo, sizeAssocInfo, True)"
| "setStruct T cache (SRTOInfo r) = (Sctp optRTOInfo, sizeRTOInfo, True)"
| "setStruct T cache (SDelayedSACK d) = (Sctp optDelayedAckTime, sizeDelayedSACK, True)"
| "setStruct T cache (SNoDelay on) = (Sctp optNoDelay, sizeInt, False)"
| "setStruct T cache (SMaxSeg n) = (Sctp optMaxSeg, sizeAssocValue, True)"
| "setStruct T cache (SMaxBurst n) = (Sctp optMaxBurst, sizeAssocValue, True)"
| "setStruct T cache (SFragmentsDisabled on) = (Sctp optDisableFragments, sizeInt, False)"
| "setStruct T cache (SInterleave level) = (Sctp optFragmentInterleave, sizeInt, False)"
| "setStruct T cache (SDeliveryPoint n) = (Sctp optPartialDeliveryPoint, sizeInt, False)"
| "setStruct T cache (SNxtInfo on) = (Sctp optRecvNxtInfo, sizeInt, False)"
| "setStruct T cache (SContext v) = (Sctp optContext, sizeAssocValue, True)"
| "setStruct T cache (SAuthKey key secret) = (Sctp optAuthKey, sizeAuthKey + length secret, True)"
| "setStruct T cache (SActiveKey key) = (Sctp optAuthActiveKey, sizeAuthKeyID, True)"
| "setStruct T cache (SDeactivateKey key) = (Sctp optAuthDeactivateKey, sizeAuthKeyID, True)"
| "setStruct T cache (SDeleteKey key) = (Sctp optAuthDeleteKey, sizeAuthKeyID, True)"
| "setStruct T cache (SResetMask m) = (Sctp optEnableStreamReset, sizeAssocValue, True)"
| "setStruct T cache (SResetStreams dir streams) = (Sctp optResetStreams, sizeResetStreams + 2 * length streams, True)"
| "setStruct T cache SResetAssoc = (Sctp optResetAssoc, sizeAssocID, True)"
| "setStruct T cache (SAddStreams ins outs) = (Sctp optAddStreams, sizeAddStreams, True)"
| "setStruct T cache (SScheduler s) = (Sctp optStreamScheduler, sizeAssocValue, True)"
| "setStruct T cache (SSchedulerValue stream v) = (Sctp optStreamSchedulerValue, sizeStreamValue, True)"

lemma checks_encoders:
  "checks (encodeRTOInfo T (replicate sizeRTOInfo 0) assoc r field) (\<lambda>b. length b = sizeRTOInfo \<and> tagged T (Some assoc) b)"
  "checks (encodeAssocInfo T (replicate sizeAssocInfo 0) assoc a field) (\<lambda>b. length b = sizeAssocInfo \<and> tagged T (Some assoc) b)"
  "checks (encodeDelayedSACK T (replicate sizeDelayedSACK 0) assoc d field) (\<lambda>b. length b = sizeDelayedSACK \<and> tagged T (Some assoc) b)"
  "checks (encodeAuthKey T assoc key secret name) (\<lambda>b. length b = sizeAuthKey + length secret \<and> tagged T (Some assoc) b)"
  "checks (encodeResetStreams T assoc dir streams) (\<lambda>b. length b = sizeResetStreams + 2 * length streams \<and> tagged T (Some assoc) b)"
  "length addr \<le> 28 \<Longrightarrow> checks (encodePathParams T (replicate sizePathParams 0) assoc addr p field)
     (\<lambda>b. length b = sizePathParams \<and> tagged T (Some assoc) b)"
proof -
  show "checks (encodeRTOInfo T (replicate sizeRTOInfo 0) assoc r field) (\<lambda>b. length b = sizeRTOInfo \<and> tagged T (Some assoc) b)"
    using encodeRTOInfo_eq [of "replicate sizeRTOInfo 0" r T assoc field] by (cases "valid_rto r") (auto intro: checks_refused)
  show "checks (encodeAssocInfo T (replicate sizeAssocInfo 0) assoc a field) (\<lambda>b. length b = sizeAssocInfo \<and> tagged T (Some assoc) b)"
    using encodeAssocInfo_eq [of "replicate sizeAssocInfo 0" a T assoc field]
    by (cases "whole_ms (ai_CookieLife a)") (auto intro: checks_refused)
  show "checks (encodeDelayedSACK T (replicate sizeDelayedSACK 0) assoc d field) (\<lambda>b. length b = sizeDelayedSACK \<and> tagged T (Some assoc) b)"
    using encodeDelayedSACK_eq [of "replicate sizeDelayedSACK 0" d T assoc field] by (cases "valid_delay d") (auto intro: checks_refused)
  show "checks (encodeAuthKey T assoc key secret name) (\<lambda>b. length b = sizeAuthKey + length secret \<and> tagged T (Some assoc) b)"
    using encodeAuthKey_eq [of secret T assoc key name]
    by (cases "0 < length secret \<and> length secret \<le> 65535") (auto simp: encodeAuthKey_def refusal_of_def)
  show "checks (encodeResetStreams T assoc dir streams) (\<lambda>b. length b = sizeResetStreams + 2 * length streams \<and> tagged T (Some assoc) b)"
    using encodeResetStreams_eq [of dir streams T assoc]
    by (cases "dir \<noteq> 0 \<and> and_not dir 3 = 0 \<and> length streams \<le> 65535")
      (auto simp: encodeResetStreams_def refusal_of_def length_concat_enc16)
  show "checks (encodePathParams T (replicate sizePathParams 0) assoc addr p field)
     (\<lambda>b. length b = sizePathParams \<and> tagged T (Some assoc) b)" if "length addr \<le> 28"
    using that encodePathParams_valid [of p "replicate sizePathParams 0" addr T assoc field]
      encodePathParams_invalid [of p "replicate sizePathParams 0" T assoc addr field]
    by (cases "valid_path_params p") (auto intro: checks_refused)
qed

lemma sets_once_authKeyID:
  "sets_once T K (Sctp opt) 8 (Some (c_assoc c)) (whenOpen ''set'' c (io_bind (io_total (authKeyID T key c)) (\<lambda>b. setOpt K opt b c)))"
  by (simp add: authKeyID_def no_panic sets_once_whenOpen sets_once_setOpt)

lemma checks_weaken: "checks r P \<Longrightarrow> (\<And>x. P x \<Longrightarrow> Q x) \<Longrightarrow> checks r Q"
  by (auto simp: checks_def split: option.splits sum.splits)

lemma checks_pathAddr_at:
  assumes "off \<le> length b"
  shows "checks (encodedAt off (\<lambda>d. pathAddr T zi d name path c) b) (\<lambda>w. length w = length b)"
  by (rule checks_encodedAt [OF assms]) (rule checks_weaken [OF checks_pathAddr], auto)

lemma sets_once_paths:
  shows "sets_once T K (Sctp optPrimaryAddr) 132 (Some (c_assoc c)) (Conn_SetPrimaryAddr T zi K path c)"
    "sets_once T K (Sctp optPeerAddrParams) 156 (Some (c_assoc c)) (Conn_SetPathParams T zi K path pp c)"
    "sets_once T K (Sctp optPeerAddrParams) 156 (Some (c_assoc c)) (Conn_RequestHeartbeat T zi K path c)"
proof -
  show "sets_once T K (Sctp optPrimaryAddr) 132 (Some (c_assoc c)) (Conn_SetPrimaryAddr T zi K path c)"
    unfolding Conn_SetPrimaryAddr_def withAssoc_def
    by (rule sets_once_whenOpen sets_once_checked [OF checks_args(1)] sets_once_checked [OF checks_pathAddr_at])+
      (auto simp: no_panic intro: sets_once_setOpt)
  show "sets_once T K (Sctp optPeerAddrParams) 156 (Some (c_assoc c)) (Conn_SetPathParams T zi K path pp c)"
    unfolding Conn_SetPathParams_def
    by (rule sets_once_whenOpen sets_once_checked [OF checks_args(2)] sets_once_checked [OF checks_pathBytes]
        sets_once_checked [OF checks_encoders(6)])+ (auto intro: sets_once_setOpt)
  show "sets_once T K (Sctp optPeerAddrParams) 156 (Some (c_assoc c)) (Conn_RequestHeartbeat T zi K path c)"
    unfolding Conn_RequestHeartbeat_def heartbeatDemand_def pathTarget_def
    by (rule sets_once_whenOpen sets_once_checked [OF checks_pathBytes])+ (simp add: no_panic sets_once_setOpt)
qed

lemma sets_once_encaps:
  assumes "wf_target T" "layout_known T cache"
  shows "sets_once T K (Sctp optRemoteUDPEncapsPort) (sl_sizeUDPEncaps (layout_for T cache)) (Some (c_assoc c))
       (Conn_SetRemoteUDPEncapsPort T zi K cache path port c)"
  unfolding Conn_SetRemoteUDPEncapsPort_def storageLayout_known [OF assms(2)]
proof (rule sets_once_whenOpen sets_once_checked [OF checks_pathBytes])+
  fix addr :: bytes assume "length addr \<le> 28"
  from udpEncaps_request [OF assms(1) this, of cache "c_assoc c" port] obtain b where
    "udpEncaps T (layout_for T cache) (replicate sizeUDPEncapsKernel64 0) (c_assoc c) addr port = Some b"
    "length b = sl_sizeUDPEncaps (layout_for T cache)" "tagged T (Some (c_assoc c)) b" "0 < length b" by blast
  then show "sets_once T K (Sctp optRemoteUDPEncapsPort) (sl_sizeUDPEncaps (layout_for T cache)) (Some (c_assoc c))
    (io_bind (io_wrap (\<lambda>e. callError ''set'' ''getsockopt'' e c) (io_ret (layout_for T cache))) (\<lambda>l.
      io_bind (io_total (udpEncaps T l (replicate sizeUDPEncapsKernel64 0) (c_assoc c) addr port)) (\<lambda>b.
        setOpt K optRemoteUDPEncapsPort b c)))"
    by (simp add: io_wrap_ret sets_once_setOpt)
qed

lemma sets_once_probe:
  assumes "wf_target T" "layout_known T cache"
  shows "sets_once T K (Sctp optPLPMTUDProbeInterval) (sl_sizeProbeInterval (layout_for T cache)) (Some (c_assoc c))
       (Conn_SetPLPMTUDProbeInterval T zi K cache path d c)"
  unfolding Conn_SetPLPMTUDProbeInterval_def storageLayout_known [OF assms(2)]
proof (rule sets_once_whenOpen sets_once_checked [OF checks_durationToMillis] sets_once_checked [OF checks_args(1)]
    sets_once_checked [OF checks_pathBytes])+
  fix ms and addr :: bytes assume "length addr \<le> 28"
  from probeInterval_request [OF assms(1) this, of cache "c_assoc c" ms] obtain b where
    "probeInterval T (layout_for T cache) (replicate sizeProbeIntervalKernel64 0) (c_assoc c) addr ms = Some b"
    "length b = sl_sizeProbeInterval (layout_for T cache)" "tagged T (Some (c_assoc c)) b" "0 < length b" by blast
  then show "sets_once T K (Sctp optPLPMTUDProbeInterval) (sl_sizeProbeInterval (layout_for T cache)) (Some (c_assoc c))
    (io_bind (io_wrap (\<lambda>e. callError ''set'' ''getsockopt'' e c) (io_ret (layout_for T cache))) (\<lambda>l.
      io_bind (io_total (probeInterval T l (replicate sizeProbeIntervalKernel64 0) (c_assoc c) addr ms)) (\<lambda>b.
        setOpt K optPLPMTUDProbeInterval b c)))"
    by (simp add: io_wrap_ret sets_once_setOpt)
qed

lemma sets_once_peerPrimary:
  "sets_once T K (Sctp optSetPeerPrimaryAddr) 132 (Some (c_assoc c)) (Conn_RequestPeerPrimary T zi K port ip c)"
proof -
  have enc: "checks (encodedAt 4 (\<lambda>d. case encodeAddr T zi d (c_family c) ip port of
        Some (Inl e) \<Rightarrow> Some (Inl (InvalidArg ''RequestPeerPrimary: %s'')) | r \<Rightarrow> r) (replicate sizeSetPeerPrim 0))
      (\<lambda>w. length w = length (replicate sizeSetPeerPrim (0 :: byte)))"
  proof (rule checks_encodedAt)
    show "checks (case encodeAddr T zi (drop 4 (replicate sizeSetPeerPrim 0)) (c_family c) ip port of
        Some (Inl e) \<Rightarrow> Some (Inl (InvalidArg ''RequestPeerPrimary: %s'')) | r \<Rightarrow> r)
      (\<lambda>(n, d). length d = length (replicate sizeSetPeerPrim (0 :: byte)) - 4)"
      using checks_encodeAddr [of T zi "drop 4 (replicate sizeSetPeerPrim 0)" "c_family c" ip port]
      by (cases rule: checksE) auto
  qed simp
  show ?thesis
    unfolding Conn_RequestPeerPrimary_def withAssoc_def setPeerPrimAddrOff_def
    by (rule sets_once_whenOpen sets_once_checked [OF checks_args(1)] sets_once_checked [OF enc])+
      (auto simp: no_panic intro: sets_once_setOpt)
qed

lemma sets_once_values:
  "sets_once T K SoRcvbuf 4 None (Conn_SetReadBuffer T K n c)"
  "sets_once T K SoSndbuf 4 None (Conn_SetWriteBuffer T K n c)"
  "sets_once T K (Sctp optExposePotentiallyFailedState) 8 (Some (c_assoc c)) (Conn_SetPFExposure T K e c)"
  "sets_once T K (Sctp optMaxSeg) 8 (Some (c_assoc c)) (Conn_SetMaxSeg T K n c)"
  "sets_once T K (Sctp optMaxBurst) 8 (Some (c_assoc c)) (Conn_SetMaxBurst T K n c)"
  "sets_once T K (Sctp optEnableStreamReset) 8 (Some (c_assoc c)) (Conn_SetStreamResetMask T K m c)"
  "sets_once T K (Sctp optStreamScheduler) 8 (Some (c_assoc c)) (Conn_SetStreamScheduler T K sch c)"
  unfolding Conn_SetReadBuffer_def Conn_SetWriteBuffer_def Conn_SetPFExposure_def Conn_SetMaxSeg_def Conn_SetMaxBurst_def
    Conn_SetStreamResetMask_def Conn_SetStreamScheduler_def
  by (rule sets_once_whenOpen sets_once_setInt sets_once_assocValue sets_once_checked [OF checks_args(1)]
      sets_once_checked [OF checks_args(3)] sets_once_checked [OF checks_args(4)])+

lemma sets_once_interleave: "sets_once T K (Sctp optFragmentInterleave) 4 None (Conn_SetFragmentInterleave T K level c)"
proof -
  have "checks (Some (if level = InterleaveNone \<or> level = InterleaveAssocs then Inr ()
      else if level = InterleaveStreams then Inl (UnsupportedField ''SetFragmentInterleave'' ''Linux stores SCTP_FRAGMENT_INTERLEAVE as a boolean'')
      else Inl (InvalidArg ''SetFragmentInterleave: %v is not a level''))) (\<lambda>_. True)"
    by simp
  from sets_once_checked [OF this sets_once_setInt] show ?thesis
    unfolding Conn_SetFragmentInterleave_def by (rule sets_once_whenOpen)
qed

lemmas setter_defs =
  Conn_SetReadBuffer_def Conn_SetWriteBuffer_def Conn_SetPrimaryAddr_def Conn_RequestPeerPrimary_def Conn_SetPathParams_def
  Conn_RequestHeartbeat_def Conn_SetPFExposure_def Conn_SetAutoASCONF_def Conn_SetRemoteUDPEncapsPort_def
  Conn_SetPLPMTUDProbeInterval_def Conn_SetAssocInfo_def Conn_SetRTOInfo_def Conn_SetDelayedSACK_def Conn_SetNoDelay_def
  Conn_SetMaxSeg_def Conn_SetMaxBurst_def Conn_SetFragmentsDisabled_def Conn_SetFragmentInterleave_def
  Conn_SetPartialDeliveryPoint_def Conn_SetReceiveNxtInfo_def Conn_SetDefaultContext_def Conn_SetAuthKey_def
  Conn_SetActiveAuthKey_def Conn_DeactivateAuthKey_def Conn_DeleteAuthKey_def Conn_SetStreamResetMask_def
  Conn_ResetStreams_def Conn_ResetAssoc_def Conn_AddStreams_def Conn_SetStreamScheduler_def Conn_SetStreamSchedulerValue_def
  setBoolOption_def setAssocValueOption_def

lemma sets_once_structs:
  "sets_once T K (Sctp optAssocInfo) 20 (Some (c_assoc c)) (Conn_SetAssocInfo T K ai c)"
  "sets_once T K (Sctp optRTOInfo) 16 (Some (c_assoc c)) (Conn_SetRTOInfo T K ri c)"
  "sets_once T K (Sctp optDelayedAckTime) 12 (Some (c_assoc c)) (Conn_SetDelayedSACK T K ds c)"
  "sets_once T K (Sctp optAuthKey) (8 + length secret) (Some (c_assoc c)) (Conn_SetAuthKey T K key secret c)"
  "sets_once T K (Sctp optResetStreams) (8 + 2 * length streams) (Some (c_assoc c)) (Conn_ResetStreams T K dir streams c)"
  "sets_once T K (Sctp optResetAssoc) 4 (Some (c_assoc c)) (Conn_ResetAssoc T K c)"
  "sets_once T K (Sctp optAddStreams) 8 (Some (c_assoc c)) (Conn_AddStreams T K ins outs c)"
  "sets_once T K (Sctp optStreamSchedulerValue) 8 (Some (c_assoc c)) (Conn_SetStreamSchedulerValue T K stream v c)"
  "sets_once T K (Sctp optPartialDeliveryPoint) 4 None (Conn_SetPartialDeliveryPoint T K n c)"
  unfolding Conn_SetAssocInfo_def Conn_SetRTOInfo_def Conn_SetDelayedSACK_def Conn_SetAuthKey_def Conn_ResetStreams_def
    Conn_ResetAssoc_def Conn_AddStreams_def Conn_SetStreamSchedulerValue_def Conn_SetPartialDeliveryPoint_def
    withAssoc_def streamValue_def
  by (auto simp: no_panic intro!: sets_once_whenOpen sets_once_setOpt sets_once_checked [OF checks_args(1)]
      sets_once_checked [OF checks_args(2)] sets_once_checked [OF checks_args(3)] sets_once_checked [OF checks_encoders(1), simplified]
      sets_once_checked [OF checks_encoders(2), simplified] sets_once_checked [OF checks_encoders(3), simplified]
      sets_once_checked [OF checks_encoders(4), simplified] sets_once_checked [OF checks_encoders(5), simplified])


text \<open>A kernel that accepts and records every call, and a connection, for concrete runs.\<close>

definition recorder :: "(sockopt \<times> bytes) list sys" where
  "recorder = \<lparr>y_released = (\<lambda>k. False), y_get = (\<lambda>k so b. (Inr (b, of_nat (length b)), k)), y_set = (\<lambda>k so b. (None, k @ [(so, b)]))\<rparr>"

definition option_conn :: sendConn where
  "option_conn = \<lparr>c_recv = recvState_zero, c_life = lifeOpen, c_handler = False, c_captured = True, c_abortErr = None, c_aborts = 0,
     c_handled = [], c_network = ''sctp'', c_laddr = None, c_raddr = None, c_kind = kindDialed, c_family = afInet,
     c_peerPort = 9, c_pathScope = 0, c_assoc = 7, c_send = sendState_bind None False\<rparr>"


end
