(* ===== verification/GetterProps.thy ===== *)
theory GetterProps
  imports SetterProps
begin

text \<open>
  What every option getter of a Conn guarantees, whatever Linux answers: \<open>optionGet\<close> enumerates the getters,
  \<open>getCall\<close> runs one and \<open>getStruct\<close> gives the option and the buffer it is asked with.
\<close>

section \<open>Every getter\<close>

text \<open>A getter that either fails without a system call, or makes exactly one \<open>getsockopt\<close> of option \<open>so\<close> with a buffer of \<open>n\<close> bytes,
  which names the association when it is scoped, and, when Linux refuses, reports its errno.\<close>

fun errOf :: "goerr option + 'a \<Rightarrow> goerr option" where
  "errOf (Inl e) = e"
| "errOf (Inr x) = None"

definition got :: "target \<Rightarrow> 'k sys \<Rightarrow> sockopt \<Rightarrow> nat \<Rightarrow> AssocID option \<Rightarrow> 'k \<Rightarrow> goerr option \<Rightarrow> 'k \<Rightarrow> bool" where
  "got T K so n a k e k' \<longleftrightarrow> (isAn e (Errno EINVAL) \<or> isAn e NetErrClosed) \<and> k' = k \<or>
     (\<exists>b x. length b = n \<and> tagged T a b \<and> y_get K k so b = (x, k') \<and> (case x of Inl y \<Rightarrow> isAn e (Errno y) | Inr w \<Rightarrow> True))"

definition gets_once :: "target \<Rightarrow> 'k sys \<Rightarrow> sockopt \<Rightarrow> nat \<Rightarrow> AssocID option \<Rightarrow> ('k, 'a) io \<Rightarrow> bool" where
  "gets_once T K so n a m \<longleftrightarrow> (\<forall>k. \<exists>r k'. m k = Some (r, k') \<and> got T K so n a k (errOf r) k')"

lemma got_None: "got T K so n a k None k' \<Longrightarrow> got T K so n a k e k'"
proof -
  assume "got T K so n a k None k'"
  then obtain b x where "length b = n" "tagged T a b" "y_get K k so b = (x, k')" "case x of Inl y \<Rightarrow> False | Inr w \<Rightarrow> True"
    unfolding got_def isAn_def option.case by blast
  then show "got T K so n a k e k'" unfolding got_def by (cases x) auto
qed

text \<open>What is done with the reply: it never panics, and makes no call.\<close>

definition quiet :: "('k, 'a) io \<Rightarrow> bool" where
  "quiet m \<longleftrightarrow> (\<forall>k. \<exists>r. m k = Some (r, k))"

lemma quiet_simps [simp]:
  "quiet (io_ret x)" "quiet (io_err e)" "v \<noteq> None \<Longrightarrow> quiet (io_total v)" "r \<noteq> None \<Longrightarrow> quiet (io_check w r)"
  "r \<noteq> None \<Longrightarrow> quiet (checked op c r)"
  by (auto simp: quiet_def checked_def io_defs split: option.splits sum.splits)

lemma quiet_bind:
  assumes "quiet m" "\<And>x. quiet (f x)"
  shows "quiet (io_bind m f)"
  unfolding quiet_def
proof
  fix k
  obtain r where r: "m k = Some (r, k)" using assms(1) by (auto simp: quiet_def)
  show "\<exists>r. io_bind m f k = Some (r, k)"
  proof (cases r)
    case (Inr x)
    then show ?thesis using r assms(2) [of x] by (auto simp: io_bind_def quiet_def)
  qed (use r in \<open>simp add: io_bind_def\<close>)
qed

lemma gets_once_err: "gets_once T K so n a (io_err (optionError ''get'' (Some NetErrClosed) c))"
  "(\<exists>m. e = InvalidArg m) \<Longrightarrow> gets_once T K so n a (io_err (argError ''get'' (Some e) c))"
  by (auto simp: gets_once_def io_err_def got_def isAn_def)

lemma gets_once_whenOpen: "gets_once T K so n a m \<Longrightarrow> gets_once T K so n a (whenOpen ''get'' c m)"
  by (simp add: whenOpen_def gets_once_err(1) [simplified])

lemma gets_once_call:
  assumes "length b = n" "tagged T a b" "\<And>r l. length r = n \<Longrightarrow> quiet (f (r, l))"
    "\<And>x. \<exists>y. w (Some (Errno x)) = Some y \<and> errIs y (Errno x)" "\<exists>y. w (Some NetErrClosed) = Some y \<and> errIs y NetErrClosed"
  shows "gets_once T K so n a (io_bind (io_wrap w (getsockopt K so b)) f)"
  unfolding gets_once_def
proof
  fix k
  let ?m = "io_bind (io_wrap w (getsockopt K so b)) f"
  obtain x k' where y: "y_get K k so b = (x, k')" by fastforce
  show "\<exists>r k'. ?m k = Some (r, k') \<and> got T K so n a k (errOf r) k'"
  proof (cases "y_released K k")
    case True
    then show ?thesis using assms(5) by (auto simp: io_bind_def io_wrap_def getsockopt_def got_def isAn_def)
  next
    case False
    have "\<exists>r. ?m k = Some (r, k') \<and> (case x of Inl y \<Rightarrow> isAn (errOf r) (Errno y) | Inr w \<Rightarrow> True)"
    proof (cases x)
      case (Inl z)
      then show ?thesis using False y assms(4) [of z] by (auto simp: io_bind_def io_wrap_def getsockopt_def isAn_def)
    next
      case (Inr p)
      obtain rb l where p: "p = (rb, l)" by fastforce
      from assms(3) [of "go_copy b rb" l] assms(1) obtain r where "f (go_copy b rb, l) k' = Some (r, k')"
        by (auto simp: quiet_def)
      then show ?thesis using False y Inr p by (simp add: io_bind_def io_wrap_def getsockopt_def)
    qed
    then show ?thesis using assms(1,2) y unfolding got_def by blast
  qed
qed

lemma gets_once_getOpt:
  assumes "length b = n" "0 < n" "tagged T a b" "\<And>r l. length r = n \<Longrightarrow> quiet (f (r, l))"
  shows "gets_once T K (Sctp opt) n a (io_bind (getOpt K opt b c) f)"
proof (cases "c_life c = lifeClosed")
  case True
  then show ?thesis by (simp add: getOpt_def whenOpen_def gets_once_err(1) [simplified])
next
  case False
  moreover have "b \<noteq> []" using assms(1,2) by auto
  ultimately show ?thesis using assms by (simp add: getOpt_def whenOpen_def gets_once_call)
qed

lemma gets_once_checked:
  assumes "checks r P" "\<forall>e. r = Some (Inl e) \<longrightarrow> (\<exists>m. e = InvalidArg m)" "\<And>x. P x \<Longrightarrow> gets_once T K so n a (f x)"
  shows "gets_once T K so n a (io_bind (checked ''get'' c r) f)"
  using assms(1)
proof (cases rule: checksE)
  case (1 e)
  then show ?thesis using assms(2) by (simp add: checked_def gets_once_err(2) del: wrapped_errors)
qed (use assms(3) in \<open>simp add: checked_def\<close>)

lemma gets_once_int: "gets_once T K so 4 None (intOption T K so c)"
  unfolding intOption_def by (intro gets_once_whenOpen gets_once_call) (simp_all add: no_panic)

lemma gets_once_assocValue: "gets_once T K (Sctp opt) 8 (Some (c_assoc c)) (assocValueOption T K opt c)"
  unfolding assocValueOption_def by (simp add: no_panic) (rule gets_once_getOpt, simp_all add: no_panic)

lemma gets_once_then:
  assumes "gets_once T K so n a m" "\<And>x. quiet (f x)"
  shows "gets_once T K so n a (io_bind m f)"
  unfolding gets_once_def
proof
  fix k
  obtain r k' where r: "m k = Some (r, k')" and P: "got T K so n a k (errOf r) k'"
    using assms(1) unfolding gets_once_def by blast
  show "\<exists>r k'. io_bind m f k = Some (r, k') \<and> got T K so n a k (errOf r) k'"
  proof (cases r)
    case (Inl e)
    then have "io_bind m f k = Some (Inl e, k')" using r by (simp add: io_bind_def)
    then show ?thesis using P Inl by simp
  next
    case (Inr v)
    obtain r' where "io_bind m f k = Some (r', k')" using r Inr assms(2) [of v] by (auto simp: io_bind_def quiet_def)
    then show ?thesis using got_None P Inr by fastforce
  qed
qed

lemma goInt_less: "goInt T v < 2 ^ 32"
  using uint_lt2p [of v] sint_lt [of v] by (simp add: goInt_def)

lemma decoders_total:
  "length r = sizePathParams \<Longrightarrow> decodePathParams T r \<noteq> None"
  "length r = sizeAssocInfo \<Longrightarrow> decodeAssocInfo T r \<noteq> None"
  "length r = sizeRTOInfo \<Longrightarrow> decodeRTOInfo T r \<noteq> None"
  "length r = sizeDelayedSACK \<Longrightarrow> decodeDelayedSACK T r \<noteq> None"
  "length r = sizeInitMsg \<Longrightarrow> decodeInitMsg T r \<noteq> None"
  "length r = sizePRStatus \<Longrightarrow> decodePRStatus T r \<noteq> None"
  "decodeHMACIdents T r (goInt T n) \<noteq> None" "decodeAuthChunks T r (goInt T n) \<noteq> None" "decodeAddr T ifx r \<noteq> None"
  subgoal by (auto simp: decodePathParams_def get8_def no_panic)
  subgoal by (simp add: decodeAssocInfo_def no_panic)
  subgoal by (simp add: decodeRTOInfo_def no_panic)
  subgoal by (simp add: decodeDelayedSACK_def no_panic)
  subgoal by (simp add: decodeInitMsg_def no_panic)
  subgoal by (simp add: decodePRStatus_def no_panic)
  subgoal using decodeHMACIdents_exact [OF goInt_less] by blast
  subgoal using decodeAuthChunks_exact [OF goInt_less] by blast
  subgoal using decodeAddr_total [of T ifx r] by simp
  done

lemma status_total:
  "length r = sizePathInfo \<Longrightarrow> decodePathInfo T ifx r \<noteq> None"
  "length r = sizeStatus \<Longrightarrow> decodeStatus T ifx r \<noteq> None"
proof -
  have stored: "\<exists>a. storedAddr T ifx off b = Some a" if "off + 128 \<le> length b" for off b
    using that decodeAddr_total [of T ifx "slice off 128 b"] by (auto simp: storedAddr_def no_panic simp del: split_paired_Ex)
  show info: "decodePathInfo T ifx r \<noteq> None" if "length r = sizePathInfo" for r
    using that stored [of 4 r] by (auto simp: decodePathInfo_def no_panic)
  show "decodeStatus T ifx r \<noteq> None" if "length r = sizeStatus"
    using that info [of "slice statusPrimaryOff sizePathInfo r"] by (auto simp: decodeStatus_def no_panic)
qed

lemma gets_once_ints:
  "gets_once T K SoRcvbuf 4 None (Conn_ReadBuffer T K c)"
  "gets_once T K SoSndbuf 4 None (Conn_WriteBuffer T K c)"
  "gets_once T K (Sctp optAutoAsconf) 4 None (Conn_AutoASCONF T K c)"
  "gets_once T K (Sctp optNoDelay) 4 None (Conn_NoDelay T K c)"
  "gets_once T K (Sctp optDisableFragments) 4 None (Conn_FragmentsDisabled T K c)"
  "gets_once T K (Sctp optFragmentInterleave) 4 None (Conn_FragmentInterleave T K c)"
  "gets_once T K (Sctp optRecvNxtInfo) 4 None (Conn_ReceiveNxtInfo T K c)"
  unfolding Conn_ReadBuffer_def Conn_WriteBuffer_def Conn_AutoASCONF_def Conn_NoDelay_def Conn_FragmentsDisabled_def Conn_FragmentInterleave_def Conn_ReceiveNxtInfo_def boolOption_def
  by (rule gets_once_int gets_once_then, (rule quiet_simps)?)+

lemma gets_once_vals:
  "gets_once T K (Sctp optExposePotentiallyFailedState) 8 (Some (c_assoc c)) (Conn_PFExposure T K c)"
  "gets_once T K (Sctp optMaxSeg) 8 (Some (c_assoc c)) (Conn_MaxSeg T K c)"
  "gets_once T K (Sctp optMaxBurst) 8 (Some (c_assoc c)) (Conn_MaxBurst T K c)"
  "gets_once T K (Sctp optContext) 8 (Some (c_assoc c)) (Conn_DefaultContext T K c)"
  "gets_once T K (Sctp optPRSupported) 8 (Some (c_assoc c)) (Conn_PRSupported T K c)"
  "gets_once T K (Sctp optReconfigSupported) 8 (Some (c_assoc c)) (Conn_ReconfigSupported T K c)"
  "gets_once T K (Sctp optASCONFSupported) 8 (Some (c_assoc c)) (Conn_ASCONFSupported T K c)"
  "gets_once T K (Sctp optAuthSupported) 8 (Some (c_assoc c)) (Conn_AuthSupported T K c)"
  "gets_once T K (Sctp optInterleavingSupported) 8 (Some (c_assoc c)) (Conn_InterleavingSupported T K c)"
  "gets_once T K (Sctp optECNSupported) 8 (Some (c_assoc c)) (Conn_ECNSupported T K c)"
  "gets_once T K (Sctp optEnableStreamReset) 8 (Some (c_assoc c)) (Conn_StreamResetMask T K c)"
  "gets_once T K (Sctp optStreamScheduler) 8 (Some (c_assoc c)) (Conn_StreamScheduler T K c)"
  unfolding Conn_PFExposure_def Conn_MaxSeg_def Conn_MaxBurst_def Conn_DefaultContext_def Conn_PRSupported_def Conn_ReconfigSupported_def Conn_ASCONFSupported_def Conn_AuthSupported_def Conn_InterleavingSupported_def Conn_ECNSupported_def Conn_StreamResetMask_def Conn_StreamScheduler_def negotiated_def
  by (rule gets_once_assocValue gets_once_then, (rule quiet_simps)?)+

lemma gets_once_structs:
  "gets_once T K (Sctp optPrimaryAddr) 132 (Some (c_assoc c)) (Conn_PrimaryAddr T ifx K c)"
  "gets_once T K (Sctp optStatus) 176 (Some (c_assoc c)) (Conn_Status T ifx K c)"
  "gets_once T K (Sctp optAssocInfo) 20 (Some (c_assoc c)) (Conn_AssocInfo T K c)"
  "gets_once T K (Sctp optRTOInfo) 16 (Some (c_assoc c)) (Conn_RTOInfo T K c)"
  "gets_once T K (Sctp optInitMsg) 8 None (Conn_InitMsg T K c)"
  "gets_once T K (Sctp optDelayedAckTime) 12 (Some (c_assoc c)) (Conn_DelayedSACK T K c)"
  "gets_once T K (Sctp optAdaptationLayer) 4 None (Conn_AdaptationLayer T K c)"
  "gets_once T K (Sctp optPartialDeliveryPoint) 4 None (Conn_PartialDeliveryPoint T K c)"
  "gets_once T K (Sctp optAuthActiveKey) 8 (Some (c_assoc c)) (Conn_ActiveAuthKey T K c)"
  "gets_once T K (Sctp optHMACIdent) 36 None (Conn_HMACIdentifiers T K c)"
  "gets_once T K (Sctp optLocalAuthChunks) 264 (Some (c_assoc c)) (Conn_LocalAuthChunks T K c)"
  "gets_once T K (Sctp optPeerAuthChunks) 264 (Some (c_assoc c)) (Conn_PeerAuthChunks T K c)"
  "gets_once T K (Sctp optStreamSchedulerValue) 8 (Some (c_assoc c)) (Conn_StreamSchedulerValue T K stream c)"
  unfolding Conn_PrimaryAddr_def Conn_Status_def Conn_AssocInfo_def Conn_RTOInfo_def Conn_InitMsg_def Conn_DelayedSACK_def Conn_AdaptationLayer_def Conn_PartialDeliveryPoint_def Conn_ActiveAuthKey_def Conn_HMACIdentifiers_def Conn_LocalAuthChunks_def Conn_PeerAuthChunks_def Conn_StreamSchedulerValue_def
    authChunks_def withAssoc_def authKeyID_def streamValue_def
  by (auto simp: no_panic decoders_total status_total split: prod.splits intro!: gets_once_getOpt quiet_bind)

lemma invalid_pathAddr: "pathAddr T zi d name path c = Some (Inl e) \<Longrightarrow> \<exists>m. e = InvalidArg m"
  by (auto simp: pathAddr_def split: option.splits sum.splits)

lemma invalid_checks:
  "\<forall>e. refuseIf bad msg = Some (Inl e) \<longrightarrow> (\<exists>m. e = InvalidArg m)"
  "\<forall>e. encodedAt off (\<lambda>d. pathAddr T zi d name path c) b = Some (Inl e) \<longrightarrow> (\<exists>m. e = InvalidArg m)"
  "\<forall>e. pathBytes T zi name path c = Some (Inl e) \<longrightarrow> (\<exists>m. e = InvalidArg m)"
  by (auto simp: refuseIf_def encodedAt_def pathBytes_def andThen_def dest!: invalid_pathAddr
    split: if_splits option.splits sum.splits)

lemma gets_once_paths:
  "gets_once T K (Sctp optGetPeerAddrInfo) 152 (Some (c_assoc c)) (Conn_PathInfo T zi ifx K path c)"
  "gets_once T K (Sctp optPeerAddrParams) 156 (Some (c_assoc c)) (Conn_PathParams T zi K path c)"
  unfolding Conn_PathInfo_def Conn_PathParams_def withAssoc_def
  by (auto simp: no_panic decoders_total status_total split: prod.splits intro!: gets_once_getOpt gets_once_whenOpen
    gets_once_checked [OF checks_args(1) invalid_checks(1)] gets_once_checked [OF checks_pathAddr_at invalid_checks(2)])

lemma io_wrap_total:
  "io_wrap w (io_bind m (\<lambda>(r, n). io_total (g r))) = io_bind (io_wrap w m) (\<lambda>(r, n). io_total (g r))"
  by (rule ext) (auto simp: io_defs split: option.splits sum.splits)

lemma thresholds_request:
  assumes "wf_target T" "length addr \<le> 28"
  obtains b where "pathThresholds T (layout_for T cache) (replicate sizePathThresholdsKernel64 0) assoc addr v = Some b"
    "length b = sl_sizePathThresholds (layout_for T cache)" "tagged T (Some assoc) b" "0 < length b"
    "readThresholdValues T (layout_for T cache) b = Some v"
  using storage_layout.pathThresholds_reads [OF layout_for_cases(1) [OF assms(1)], of addr cache "replicate sizePathThresholdsKernel64 0" T assoc v]
    layout_for_cases(4) [OF assms(1), of cache] assms(2) storage_layout.thresholds_fit [OF layout_for_cases(1) [OF assms(1)], of cache]
  by (auto simp: names_def tagged_def)

lemma stats_request:
  assumes "wf_target T"
  obtains b where "assocStatsRequest T (layout_for T cache) (replicate sizeAssocStatsKernel64 0) assoc = Some b"
    "length b = sl_sizeAssocStats (layout_for T cache)" "tagged T (Some assoc) b" "0 < length b"
  using storage_layout.assocStats_reads [OF layout_for_cases(1) [OF assms(1)], of cache "replicate sizeAssocStatsKernel64 0" T assoc]
    layout_for_cases(5) [OF assms(1), of cache] storage_layout.stats_fit [OF layout_for_cases(1) [OF assms(1)], of cache]
  by (auto simp: names_def tagged_def)

lemma layout_reads_total:
  assumes "wf_target T"
  shows "length r = sl_sizePathThresholds (layout_for T cache) \<Longrightarrow> readThresholdValues T (layout_for T cache) r \<noteq> None"
    "length r = sl_sizeUDPEncaps (layout_for T cache) \<Longrightarrow> udpEncapsPort (layout_for T cache) r \<noteq> None"
    "length r = sl_sizeProbeInterval (layout_for T cache) \<Longrightarrow> probeIntervalMS T (layout_for T cache) r \<noteq> None"
    "length r = sl_sizeAssocStats (layout_for T cache) \<Longrightarrow> assocStats T ifx (layout_for T cache) r \<noteq> None"
  using storage_layout.thresholds_fit [OF layout_for_cases(1) [OF assms], of cache]
    storage_layout.encaps_fits [OF layout_for_cases(1) [OF assms], of cache]
    storage_layout.interval_fits [OF layout_for_cases(1) [OF assms], of cache]
    storage_layout.assocStats_total [OF layout_for_cases(1) [OF assms], of cache r T ifx]
  by (auto simp: readThresholdValues_def udpEncapsPort_def probeIntervalMS_def no_panic)

lemma layout_sizes_pos:
  assumes "wf_target T"
  shows "0 < sl_sizePathThresholds (layout_for T cache)" "0 < sl_sizeUDPEncaps (layout_for T cache)"
    "0 < sl_sizeProbeInterval (layout_for T cache)" "0 < sl_sizeAssocStats (layout_for T cache)"
  using storage_layout.thresholds_fit [OF layout_for_cases(1) [OF assms], of cache]
    storage_layout.encaps_fits [OF layout_for_cases(1) [OF assms], of cache]
    storage_layout.interval_fits [OF layout_for_cases(1) [OF assms], of cache]
    storage_layout.stats_fit [OF layout_for_cases(1) [OF assms], of cache]
  by simp_all

lemma gets_once_layouts:
  assumes "wf_target T" "layout_known T cache"
  shows "gets_once T K (Sctp optPathThresholds) (sl_sizePathThresholds (layout_for T cache)) (Some (c_assoc c))
      (Conn_PathThresholds T zi K cache path c)"
    "gets_once T K (Sctp optRemoteUDPEncapsPort) (sl_sizeUDPEncaps (layout_for T cache)) (Some (c_assoc c))
      (Conn_RemoteUDPEncapsPort T zi K cache path c)"
    "gets_once T K (Sctp optPLPMTUDProbeInterval) (sl_sizeProbeInterval (layout_for T cache)) (Some (c_assoc c))
      (Conn_PLPMTUDProbeInterval T zi K cache path c)"
    "gets_once T K (Sctp optGetAssocStats) (sl_sizeAssocStats (layout_for T cache)) (Some (c_assoc c))
      (Conn_Stats T ifx K cache c)"
proof -
  note reads = layout_reads_total [OF assms(1)] layout_sizes_pos [OF assms(1)] and known = storageLayout_known [OF assms(2)]
  have call: "\<exists>y. callError ''get'' ''getsockopt'' (Some (Errno x)) c = Some y \<and> errIs y (Errno x)"
    "\<exists>y. callError ''get'' ''getsockopt'' (Some NetErrClosed) c = Some y \<and> errIs y NetErrClosed" for x
    by (simp_all add: callError_def optError_def opError_def isClosedErr_def isFileClosingErr_def)
  show "gets_once T K (Sctp optPathThresholds) (sl_sizePathThresholds (layout_for T cache)) (Some (c_assoc c))
      (Conn_PathThresholds T zi K cache path c)"
    unfolding Conn_PathThresholds_def readThresholds_def known
  proof (intro gets_once_whenOpen gets_once_checked [OF checks_pathBytes invalid_checks(3)])
    fix addr :: bytes assume "length addr \<le> 28"
    from thresholds_request [OF assms(1) this, of cache "c_assoc c" "\<lparr>tv_maxRetrans = 0, tv_pf = 0, tv_switchover = 0\<rparr>"]
    obtain b where b: "pathThresholds T (layout_for T cache) (replicate sizePathThresholdsKernel64 0) (c_assoc c) addr
        \<lparr>tv_maxRetrans = 0, tv_pf = 0, tv_switchover = 0\<rparr> = Some b"
      "length b = sl_sizePathThresholds (layout_for T cache)" "tagged T (Some (c_assoc c)) b" by blast
    show "gets_once T K (Sctp optPathThresholds) (sl_sizePathThresholds (layout_for T cache)) (Some (c_assoc c))
      (io_bind (io_wrap (\<lambda>e. callError ''get'' ''getsockopt'' e c)
          (io_bind (io_ret (layout_for T cache)) (\<lambda>l. io_bind (io_total (pathThresholds T l (replicate sizePathThresholdsKernel64 0)
             (c_assoc c) addr \<lparr>tv_maxRetrans = 0, tv_pf = 0, tv_switchover = 0\<rparr>)) (\<lambda>b.
             io_bind (getsockopt K (Sctp optPathThresholds) b) (\<lambda>(r, n). io_total (readThresholdValues T l r))))))
        (\<lambda>v. io_ret \<lparr>pt_PathMaxRetrans = Some (tv_maxRetrans v), pt_PFThreshold = Some (tv_pf v),
                pt_PrimarySwitchover = Some (tv_switchover v)\<rparr>))"
      by (rule gets_once_then) (use b call reads(1) in \<open>auto simp: io_wrap_total split: prod.splits intro!: gets_once_call\<close>)
  qed
  show "gets_once T K (Sctp optRemoteUDPEncapsPort) (sl_sizeUDPEncaps (layout_for T cache)) (Some (c_assoc c))
      (Conn_RemoteUDPEncapsPort T zi K cache path c)"
    unfolding Conn_RemoteUDPEncapsPort_def known
    by (auto simp: reads split: prod.splits elim!: udpEncaps_request [OF assms(1), of _ cache "c_assoc c" 0]
      intro!: gets_once_getOpt gets_once_whenOpen gets_once_checked [OF checks_pathBytes invalid_checks(3)])
  show "gets_once T K (Sctp optPLPMTUDProbeInterval) (sl_sizeProbeInterval (layout_for T cache)) (Some (c_assoc c))
      (Conn_PLPMTUDProbeInterval T zi K cache path c)"
    unfolding Conn_PLPMTUDProbeInterval_def known
    by (auto simp: reads split: prod.splits elim!: probeInterval_request [OF assms(1), of _ cache "c_assoc c" 0]
      intro!: gets_once_getOpt gets_once_whenOpen gets_once_checked [OF checks_pathBytes invalid_checks(3)] quiet_bind)
  show "gets_once T K (Sctp optGetAssocStats) (sl_sizeAssocStats (layout_for T cache)) (Some (c_assoc c))
      (Conn_Stats T ifx K cache c)"
    unfolding Conn_Stats_def known
    by (rule stats_request [OF assms(1), of cache "c_assoc c"])
      (auto simp: reads split: prod.splits intro!: gets_once_getOpt gets_once_whenOpen)
qed

lemma gets_once_prStatus: "gets_once T K (Sctp opt) 24 (Some (c_assoc c)) (prStatus T K opt name stream policy c)"
proof -
  have pol: "checks (Some (case validateStatusPolicy name policy of None \<Rightarrow> Inr () | Some e \<Rightarrow> Inl e)) (\<lambda>_. True)"
    "\<forall>e. Some (case validateStatusPolicy name policy of None \<Rightarrow> Inr () | Some e \<Rightarrow> Inl e) = Some (Inl e) \<longrightarrow> (\<exists>m. e = InvalidArg m)"
    by (auto simp: validateStatusPolicy_def)
  show ?thesis
    unfolding prStatus_def prStatusRequest_def
    by (intro gets_once_whenOpen gets_once_checked [OF pol])
      (auto simp: no_panic decoders_total split: prod.splits intro!: gets_once_getOpt)
qed

text \<open>A call of a getter, its result dropped.\<close>

datatype optionGet =
    GReadBuffer | GWriteBuffer | GPrimaryAddr | GPathInfo ipaddr | GPathParams ipaddr | GPathThresholds ipaddr |
    GPFExposure | GAutoASCONF | GUDPEncaps ipaddr | GProbeInterval ipaddr | GStatus | GStats | GAssocInfo | GRTOInfo |
    GInitMsg | GDelayedSACK | GAdaptationLayer | GNoDelay | GMaxSeg | GMaxBurst | GFragmentsDisabled | GInterleave |
    GDeliveryPoint | GNxtInfo | GContext | GPRSupported | GReconfigSupported | GASCONFSupported | GAuthSupported |
    GInterleavingSupported | GECNSupported | GActiveKey | GHMACIdentifiers | GLocalAuthChunks | GPeerAuthChunks |
    GResetMask | GScheduler | GSchedulerValue u16 | GPRStream u16 PRPolicy | GPRAssoc PRPolicy

definition dropped :: "('k, 'a) io \<Rightarrow> ('k, unit) io" where
  "dropped m = io_bind m (\<lambda>_. io_ret ())"

fun getCall :: "target \<Rightarrow> zoneEnv \<Rightarrow> ifaceEnv \<Rightarrow> 'k sys \<Rightarrow> u32 \<Rightarrow> sendConn \<Rightarrow> optionGet \<Rightarrow> ('k, unit) io" where
  "getCall T zi ifx K cache c GReadBuffer = dropped (Conn_ReadBuffer T K c)"
| "getCall T zi ifx K cache c GWriteBuffer = dropped (Conn_WriteBuffer T K c)"
| "getCall T zi ifx K cache c GPrimaryAddr = dropped (Conn_PrimaryAddr T ifx K c)"
| "getCall T zi ifx K cache c (GPathInfo path) = dropped (Conn_PathInfo T zi ifx K path c)"
| "getCall T zi ifx K cache c (GPathParams path) = dropped (Conn_PathParams T zi K path c)"
| "getCall T zi ifx K cache c (GPathThresholds path) = dropped (Conn_PathThresholds T zi K cache path c)"
| "getCall T zi ifx K cache c GPFExposure = dropped (Conn_PFExposure T K c)"
| "getCall T zi ifx K cache c GAutoASCONF = dropped (Conn_AutoASCONF T K c)"
| "getCall T zi ifx K cache c (GUDPEncaps path) = dropped (Conn_RemoteUDPEncapsPort T zi K cache path c)"
| "getCall T zi ifx K cache c (GProbeInterval path) = dropped (Conn_PLPMTUDProbeInterval T zi K cache path c)"
| "getCall T zi ifx K cache c GStatus = dropped (Conn_Status T ifx K c)"
| "getCall T zi ifx K cache c GStats = dropped (Conn_Stats T ifx K cache c)"
| "getCall T zi ifx K cache c GAssocInfo = dropped (Conn_AssocInfo T K c)"
| "getCall T zi ifx K cache c GRTOInfo = dropped (Conn_RTOInfo T K c)"
| "getCall T zi ifx K cache c GInitMsg = dropped (Conn_InitMsg T K c)"
| "getCall T zi ifx K cache c GDelayedSACK = dropped (Conn_DelayedSACK T K c)"
| "getCall T zi ifx K cache c GAdaptationLayer = dropped (Conn_AdaptationLayer T K c)"
| "getCall T zi ifx K cache c GNoDelay = dropped (Conn_NoDelay T K c)"
| "getCall T zi ifx K cache c GMaxSeg = dropped (Conn_MaxSeg T K c)"
| "getCall T zi ifx K cache c GMaxBurst = dropped (Conn_MaxBurst T K c)"
| "getCall T zi ifx K cache c GFragmentsDisabled = dropped (Conn_FragmentsDisabled T K c)"
| "getCall T zi ifx K cache c GInterleave = dropped (Conn_FragmentInterleave T K c)"
| "getCall T zi ifx K cache c GDeliveryPoint = dropped (Conn_PartialDeliveryPoint T K c)"
| "getCall T zi ifx K cache c GNxtInfo = dropped (Conn_ReceiveNxtInfo T K c)"
| "getCall T zi ifx K cache c GContext = dropped (Conn_DefaultContext T K c)"
| "getCall T zi ifx K cache c GPRSupported = dropped (Conn_PRSupported T K c)"
| "getCall T zi ifx K cache c GReconfigSupported = dropped (Conn_ReconfigSupported T K c)"
| "getCall T zi ifx K cache c GASCONFSupported = dropped (Conn_ASCONFSupported T K c)"
| "getCall T zi ifx K cache c GAuthSupported = dropped (Conn_AuthSupported T K c)"
| "getCall T zi ifx K cache c GInterleavingSupported = dropped (Conn_InterleavingSupported T K c)"
| "getCall T zi ifx K cache c GECNSupported = dropped (Conn_ECNSupported T K c)"
| "getCall T zi ifx K cache c GActiveKey = dropped (Conn_ActiveAuthKey T K c)"
| "getCall T zi ifx K cache c GHMACIdentifiers = dropped (Conn_HMACIdentifiers T K c)"
| "getCall T zi ifx K cache c GLocalAuthChunks = dropped (Conn_LocalAuthChunks T K c)"
| "getCall T zi ifx K cache c GPeerAuthChunks = dropped (Conn_PeerAuthChunks T K c)"
| "getCall T zi ifx K cache c GResetMask = dropped (Conn_StreamResetMask T K c)"
| "getCall T zi ifx K cache c GScheduler = dropped (Conn_StreamScheduler T K c)"
| "getCall T zi ifx K cache c (GSchedulerValue stream) = dropped (Conn_StreamSchedulerValue T K stream c)"
| "getCall T zi ifx K cache c (GPRStream stream policy) = dropped (Conn_PRStreamStatus T K stream policy c)"
| "getCall T zi ifx K cache c (GPRAssoc policy) = dropped (Conn_PRAssocStatus T K policy c)"

text \<open>Linux's option for each, the size of the buffer it is asked with, and whether that starts with an association id.\<close>

fun getStruct :: "target \<Rightarrow> u32 \<Rightarrow> optionGet \<Rightarrow> sockopt \<times> nat \<times> bool" where
  "getStruct T cache GReadBuffer = (SoRcvbuf, sizeInt, False)"
| "getStruct T cache GWriteBuffer = (SoSndbuf, sizeInt, False)"
| "getStruct T cache GPrimaryAddr = (Sctp optPrimaryAddr, sizePrim, True)"
| "getStruct T cache (GPathInfo path) = (Sctp optGetPeerAddrInfo, sizePathInfo, True)"
| "getStruct T cache (GPathParams path) = (Sctp optPeerAddrParams, sizePathParams, True)"
| "getStruct T cache (GPathThresholds path) = (Sctp optPathThresholds, sl_sizePathThresholds (layout_for T cache), True)"
| "getStruct T cache GPFExposure = (Sctp optExposePotentiallyFailedState, sizeAssocValue, True)"
| "getStruct T cache GAutoASCONF = (Sctp optAutoAsconf, sizeInt, False)"
| "getStruct T cache (GUDPEncaps path) = (Sctp optRemoteUDPEncapsPort, sl_sizeUDPEncaps (layout_for T cache), True)"
| "getStruct T cache (GProbeInterval path) = (Sctp optPLPMTUDProbeInterval, sl_sizeProbeInterval (layout_for T cache), True)"
| "getStruct T cache GStatus = (Sctp optStatus, sizeStatus, True)"
| "getStruct T cache GStats = (Sctp optGetAssocStats, sl_sizeAssocStats (layout_for T cache), True)"
| "getStruct T cache GAssocInfo = (Sctp optAssocInfo, sizeAssocInfo, True)"
| "getStruct T cache GRTOInfo = (Sctp optRTOInfo, sizeRTOInfo, True)"
| "getStruct T cache GInitMsg = (Sctp optInitMsg, sizeInitMsg, False)"
| "getStruct T cache GDelayedSACK = (Sctp optDelayedAckTime, sizeDelayedSACK, True)"
| "getStruct T cache GAdaptationLayer = (Sctp optAdaptationLayer, sizeSetAdaptation, False)"
| "getStruct T cache GNoDelay = (Sctp optNoDelay, sizeInt, False)"
| "getStruct T cache GMaxSeg = (Sctp optMaxSeg, sizeAssocValue, True)"
| "getStruct T cache GMaxBurst = (Sctp optMaxBurst, sizeAssocValue, True)"
| "getStruct T cache GFragmentsDisabled = (Sctp optDisableFragments, sizeInt, False)"
| "getStruct T cache GInterleave = (Sctp optFragmentInterleave, sizeInt, False)"
| "getStruct T cache GDeliveryPoint = (Sctp optPartialDeliveryPoint, sizeInt, False)"
| "getStruct T cache GNxtInfo = (Sctp optRecvNxtInfo, sizeInt, False)"
| "getStruct T cache GContext = (Sctp optContext, sizeAssocValue, True)"
| "getStruct T cache GPRSupported = (Sctp optPRSupported, sizeAssocValue, True)"
| "getStruct T cache GReconfigSupported = (Sctp optReconfigSupported, sizeAssocValue, True)"
| "getStruct T cache GASCONFSupported = (Sctp optASCONFSupported, sizeAssocValue, True)"
| "getStruct T cache GAuthSupported = (Sctp optAuthSupported, sizeAssocValue, True)"
| "getStruct T cache GInterleavingSupported = (Sctp optInterleavingSupported, sizeAssocValue, True)"
| "getStruct T cache GECNSupported = (Sctp optECNSupported, sizeAssocValue, True)"
| "getStruct T cache GActiveKey = (Sctp optAuthActiveKey, sizeAuthKeyID, True)"
| "getStruct T cache GHMACIdentifiers = (Sctp optHMACIdent, sizeHMACAlgo + 2 * maxHMACIdents, False)"
| "getStruct T cache GLocalAuthChunks = (Sctp optLocalAuthChunks, sizeAuthChunks + maxAuthChunkList, True)"
| "getStruct T cache GPeerAuthChunks = (Sctp optPeerAuthChunks, sizeAuthChunks + maxAuthChunkList, True)"
| "getStruct T cache GResetMask = (Sctp optEnableStreamReset, sizeAssocValue, True)"
| "getStruct T cache GScheduler = (Sctp optStreamScheduler, sizeAssocValue, True)"
| "getStruct T cache (GSchedulerValue stream) = (Sctp optStreamSchedulerValue, sizeStreamValue, True)"
| "getStruct T cache (GPRStream stream policy) = (Sctp optPRStreamStatus, sizePRStatus, True)"
| "getStruct T cache (GPRAssoc policy) = (Sctp optPRAssocStatus, sizePRStatus, True)"

lemma gets_once_dropped: "gets_once T K so n a m \<Longrightarrow> gets_once T K so n a (dropped m)"
  by (simp add: dropped_def gets_once_then)



end
