(* ===== verification/StoredProps.thy ===== *)
theory StoredProps
  imports GetterProps
begin

text \<open>
  The options against a kernel that keeps what it is given: the read-modify-write of the path thresholds, and
  the plain options that read back as they were set. What Linux does is a named hypothesis of each.
\<close>

section \<open>Read, modify, write\<close>

text \<open>What Linux does with the thresholds of the path \<open>addr\<close> names (\<open>cur\<close>): a query reports them, and a write
  applies all three, whatever they hold.\<close>

definition kernel_thresholds ::
  "target \<Rightarrow> 'k sys \<Rightarrow> sockaddrStorageLayout \<Rightarrow> AssocID \<Rightarrow> bytes \<Rightarrow> ('k \<Rightarrow> thresholdValues) \<Rightarrow> bool" where
  "kernel_thresholds T K l assoc addr cur \<longleftrightarrow>
     (\<forall>k. \<not> y_released K k) \<and>
     (\<forall>k b. length b = sl_sizePathThresholds l \<and> names l T assoc addr b \<longrightarrow>
        (\<exists>r n. y_get K k (Sctp optPathThresholds) b = (Inr (r, n), k) \<and> length r = sl_sizePathThresholds l \<and>
           readThresholdValues T l r = Some (cur k))) \<and>
     (\<forall>k b k'. y_set K k (Sctp optPathThresholds) b = (None, k') \<and> names l T assoc addr b \<longrightarrow>
        readThresholdValues T l b = Some (cur k'))"

definition merged :: "thresholdValues \<Rightarrow> PathThresholds \<Rightarrow> thresholdValues" where
  "merged cur t =
     \<lparr>tv_maxRetrans = (case pt_PathMaxRetrans t of None \<Rightarrow> tv_maxRetrans cur | Some v \<Rightarrow> v),
      tv_pf = (case pt_PFThreshold t of None \<Rightarrow> tv_pf cur | Some v \<Rightarrow> v),
      tv_switchover = (case pt_PrimarySwitchover t of None \<Rightarrow> tv_switchover cur | Some v \<Rightarrow> v)\<rparr>"

lemma mergePathThresholds_merged:
  "pt_PathMaxRetrans t \<noteq> Some 0 \<Longrightarrow> mergePathThresholds cur t field = Inr (merged cur t)"
  by (cases cur; cases t) (auto simp: mergePathThresholds_def merged_def Let_def split: option.splits)

lemma go_copy_same: "length r = length b \<Longrightarrow> go_copy b r = r"
  by (simp add: go_copy_def)

lemma thresholds_named:
  assumes "wf_target T" "length addr \<le> 28"
  obtains b where "pathThresholds T (layout_for T cache) (replicate sizePathThresholdsKernel64 0) assoc addr v = Some b"
    "length b = sl_sizePathThresholds (layout_for T cache)" "names (layout_for T cache) T assoc addr b" "b \<noteq> []"
    "readThresholdValues T (layout_for T cache) b = Some v"
  using storage_layout.pathThresholds_reads [OF layout_for_cases(1) [OF assms(1)], of addr cache "replicate sizePathThresholdsKernel64 0" T assoc v]
    layout_for_cases(4) [OF assms(1), of cache] assms(2) layout_sizes_pos(1) [OF assms(1), of cache]
  by fastforce

lemma readThresholds_cur:
  assumes "wf_target T" "layout_known T cache" "length addr \<le> 28"
    "kernel_thresholds T K (layout_for T cache) (c_assoc c) addr cur"
  shows "readThresholds T K cache addr c k = Some (Inr (cur k), k)"
proof -
  let ?l = "layout_for T cache" and ?z = "\<lparr>tv_maxRetrans = 0, tv_pf = 0, tv_switchover = 0\<rparr>"
  from thresholds_named [OF assms(1,3), of cache "c_assoc c" ?z] obtain b where
    b: "pathThresholds T ?l (replicate sizePathThresholdsKernel64 0) (c_assoc c) addr ?z = Some b"
      "length b = sl_sizePathThresholds ?l" "names ?l T (c_assoc c) addr b" by blast
  with assms(4) obtain r n where r: "y_get K k (Sctp optPathThresholds) b = (Inr (r, n), k)"
    "length r = sl_sizePathThresholds ?l" "readThresholdValues T ?l r = Some (cur k)" "\<not> y_released K k"
    unfolding kernel_thresholds_def by blast
  then show ?thesis
    using b by (simp add: readThresholds_def storageLayout_known [OF assms(2)])
      (simp add: io_bind_def getsockopt_def go_copy_same io_total_def)
qed

text \<open>A nil threshold stays as it is: with what Linux does as hypotheses (a write applies all three thresholds of the
  path), a \<open>SetPathThresholds\<close> on an open connection never panics; when Linux accepts the write, each field given has
  been set and each nil field keeps the value it had, and \<open>PathThresholds\<close> then reports exactly these; when Linux refuses, its
  errno is reported.\<close>

theorem thresholds_nil_unchanged:
  assumes "wf_target T" "layout_known T cache" "c_life c \<noteq> lifeClosed" "pt_PathMaxRetrans t \<noteq> Some 0"
    and "pathBytes T zi ''SetPathThresholds'' path c = Some (Inr addr)" "pathBytes T zi ''PathThresholds'' path c = Some (Inr addr)"
    and "kernel_thresholds T K (layout_for T cache) (c_assoc c) addr cur"
  shows "case Conn_SetPathThresholds T zi K cache path (Some t) c k of
      None \<Rightarrow> False
    | Some (Inr u, k') \<Rightarrow> cur k' = merged (cur k) t \<and>
        Conn_PathThresholds T zi K cache path c k' =
          Some (Inr \<lparr>pt_PathMaxRetrans = Some (tv_maxRetrans (merged (cur k) t)), pt_PFThreshold = Some (tv_pf (merged (cur k) t)),
            pt_PrimarySwitchover = Some (tv_switchover (merged (cur k) t))\<rparr>, k')
    | Some (Inl e, k') \<Rightarrow> \<exists>b x. y_set K k (Sctp optPathThresholds) b = (Some x, k') \<and> isAn e (Errno x)"
proof -
  let ?l = "layout_for T cache" and ?v = "merged (cur k) t"
  have len: "length addr \<le> 28" using checks_pathBytes [of T zi "''SetPathThresholds''" path c] assms(5) by simp
  note reads = readThresholds_cur [OF assms(1,2) len assms(7)]
  from thresholds_named [OF assms(1) len, of cache "c_assoc c" ?v] obtain b where
    b: "pathThresholds T ?l (replicate sizePathThresholdsKernel64 0) (c_assoc c) addr ?v = Some b" "b \<noteq> []"
      "names ?l T (c_assoc c) addr b" "readThresholdValues T ?l b = Some ?v" by blast
  have "Conn_SetPathThresholds T zi K cache path (Some t) c k = setOpt K optPathThresholds b c k"
    using assms(3-5) b reads
    by (simp add: Conn_SetPathThresholds_def whenOpen_def checked_def given_def refuseIf_def mergePathThresholds_merged
        storageLayout_known [OF assms(2)]) (simp add: io_bind_def io_wrap_def io_check_def mergePathThresholds_merged io_total_def io_ret_def)
  moreover obtain x k' where y: "y_set K k (Sctp optPathThresholds) b = (x, k')" by fastforce
  moreover have rel: "\<not> y_released K k" using assms(7) by (simp add: kernel_thresholds_def)
  moreover have "cur k' = ?v" if "x = None"
    using assms(7) y b(3,4) that unfolding kernel_thresholds_def by force
  moreover have "Conn_PathThresholds T zi K cache path c k' = Some (Inr
      \<lparr>pt_PathMaxRetrans = Some (tv_maxRetrans (cur k')), pt_PFThreshold = Some (tv_pf (cur k')),
       pt_PrimarySwitchover = Some (tv_switchover (cur k'))\<rparr>, k')"
    using assms(3,6) reads [of k']
    by (simp add: Conn_PathThresholds_def whenOpen_def checked_def io_bind_def io_wrap_def io_ret_def io_check_def)
  ultimately show ?thesis
    using b(2) assms(3)
    by (cases x) (auto simp: setOpt_def whenOpen_def io_wrap_def setsockopt_def isAn_def intro!: exI [of _ b])
qed

text \<open>A kernel that keeps the thresholds of one path.\<close>

definition thresholds_sys :: "thresholdValues sys" where
  "thresholds_sys =
     \<lparr>y_released = (\<lambda>k. False),
      y_get = (\<lambda>k so b. (case pathThresholds amd64 (nativeStorageLayout amd64) (replicate sizePathThresholdsKernel64 0) 0 [] k of
        None \<Rightarrow> Inl EINVAL | Some r \<Rightarrow> Inr (r, of_nat (length r)), k)),
      y_set = (\<lambda>k so b. case readThresholdValues amd64 (nativeStorageLayout amd64) b of None \<Rightarrow> (Some EINVAL, k) | Some v \<Rightarrow> (None, v))\<rparr>"

lemma kernel_thresholds_sys: "kernel_thresholds amd64 thresholds_sys (layout_for amd64 0) assoc addr (\<lambda>k. k)"
proof -
  have l: "layout_for amd64 0 = nativeStorageLayout amd64" by (simp add: layout_for_def amd64_def)
  have "\<exists>r n. y_get thresholds_sys k (Sctp optPathThresholds) b = (Inr (r, n), k) \<and>
      length r = sl_sizePathThresholds (layout_for amd64 0) \<and> readThresholdValues amd64 (layout_for amd64 0) r = Some k" for k b
    by (rule thresholds_named [of amd64 "[]" 0 0 k]) (simp_all add: thresholds_sys_def l)
  then show ?thesis
    unfolding kernel_thresholds_def by (auto simp: thresholds_sys_def l split: option.splits)
qed

theorem thresholds_nil_unchanged_witness:
  "Conn_SetPathThresholds amd64 (\<lambda>_. None) thresholds_sys 0 IPZero
     (Some \<lparr>pt_PathMaxRetrans = None, pt_PFThreshold = Some 3, pt_PrimarySwitchover = None\<rparr>) option_conn
     \<lparr>tv_maxRetrans = 5, tv_pf = 1, tv_switchover = 9\<rparr> = Some (Inr (), \<lparr>tv_maxRetrans = 5, tv_pf = 3, tv_switchover = 9\<rparr>)"
proof -
  have path: "pathBytes amd64 (\<lambda>_. None) name IPZero option_conn = Some (Inr [])" for name
    by (simp add: pathBytes_def pathAddr_def encodePathAddr_def)
  have "layout_known amd64 0" "c_life option_conn \<noteq> lifeClosed" by (simp_all add: layout_known_def amd64_def option_conn_def)
  then have "case Conn_SetPathThresholds amd64 (\<lambda>_. None) thresholds_sys 0 IPZero
     (Some \<lparr>pt_PathMaxRetrans = None, pt_PFThreshold = Some 3, pt_PrimarySwitchover = None\<rparr>) option_conn
     \<lparr>tv_maxRetrans = 5, tv_pf = 1, tv_switchover = 9\<rparr> of
      None \<Rightarrow> False
    | Some (Inr u, k') \<Rightarrow> k' = \<lparr>tv_maxRetrans = 5, tv_pf = 3, tv_switchover = 9\<rparr>
    | Some (Inl e, k') \<Rightarrow> \<exists>b x. y_set thresholds_sys \<lparr>tv_maxRetrans = 5, tv_pf = 1, tv_switchover = 9\<rparr> (Sctp optPathThresholds) b = (Some x, k') \<and> isAn e (Errno x)"
    using thresholds_nil_unchanged [where T = amd64 and cache = 0 and c = option_conn and K = thresholds_sys and path = IPZero
        and zi = "\<lambda>_. None" and t = "\<lparr>pt_PathMaxRetrans = None, pt_PFThreshold = Some 3, pt_PrimarySwitchover = None\<rparr>"
        and k = "\<lparr>tv_maxRetrans = 5, tv_pf = 1, tv_switchover = 9\<rparr>", OF wf_amd64 _ _ _ path path kernel_thresholds_sys]
    by (auto simp: merged_def split: option.splits sum.splits)
  moreover have "map_option (isl \<circ> fst) (Conn_SetPathThresholds amd64 (\<lambda>_. None) thresholds_sys 0 IPZero
     (Some \<lparr>pt_PathMaxRetrans = None, pt_PFThreshold = Some 3, pt_PrimarySwitchover = None\<rparr>) option_conn
     \<lparr>tv_maxRetrans = 5, tv_pf = 1, tv_switchover = 9\<rparr>) = Some False" by code_simp
  then obtain a b where "Conn_SetPathThresholds amd64 (\<lambda>_. None) thresholds_sys 0 IPZero
     (Some \<lparr>pt_PathMaxRetrans = None, pt_PFThreshold = Some 3, pt_PrimarySwitchover = None\<rparr>) option_conn
     \<lparr>tv_maxRetrans = 5, tv_pf = 1, tv_switchover = 9\<rparr> = Some (a, b)" "\<not> isl a" by auto
  ultimately show ?thesis by (cases a) auto
qed

section \<open>Set, then get\<close>

text \<open>What Linux does with an option it keeps as it is given: after an accepted write, a query of the same size reports the bytes written.\<close>

definition kernel_keeps :: "'k sys \<Rightarrow> sockopt \<Rightarrow> bool" where
  "kernel_keeps K so \<longleftrightarrow> (\<forall>k. \<not> y_released K k) \<and>
     (\<forall>k b k' req. y_set K k so b = (None, k') \<and> length req = length b \<longrightarrow>
        (\<exists>k''. y_get K k' so req = (Inr (b, of_nat (length b)), k'')))"

lemma set_then_get:
  assumes "kernel_keeps K so" "io_wrap w (setsockopt K so b) k = Some (Inr u, k')" "length req = length b"
  shows "\<exists>k''. io_wrap w' (getsockopt K so req) k' = Some (Inr (b, of_nat (length b)), k'')"
proof -
  have "y_set K k so b = (None, k')"
    using assms(1,2) by (auto simp: io_wrap_def setsockopt_def kernel_keeps_def split: if_splits prod.splits option.splits)
  with assms(1,3) obtain k'' where "y_get K k' so req = (Inr (b, of_nat (length b)), k'')" "\<not> y_released K k'"
    unfolding kernel_keeps_def by blast
  then show ?thesis using assms(3) by (auto simp: io_wrap_def getsockopt_def go_copy_same)
qed

lemma assocValue_stored:
  assumes "kernel_keeps K (Sctp opt)" "setAssocValueOption T K opt v c k = Some (Inr u, k')"
  shows "\<exists>k''. assocValueOption T K opt c k' = Some (Inr v, k'')"
proof (cases "c_life c = lifeClosed")
  case False
  let ?b = "splice 4 (enc_int (native T) v) (splice 0 (enc_int (native T) (c_assoc c)) (replicate 8 0))"
  let ?r = "splice 0 (enc_int (native T) (c_assoc c)) (replicate 8 0)"
  have ne: "?b \<noteq> []" "?r \<noteq> []" by (simp_all add: length_0_conv [symmetric] del: length_0_conv)
  have "io_wrap (\<lambda>e. optionError ''set'' e c) (setsockopt K (Sctp opt) ?b) k = Some (Inr u, k')"
    using assms(2) False ne by (simp add: setAssocValueOption_def no_panic setOpt_def whenOpen_def)
  from set_then_get [OF assms(1) this, of ?r "\<lambda>e. optionError ''get'' e c"] False ne show ?thesis
    by (auto simp: assocValueOption_def no_panic getOpt_def whenOpen_def io_bind_def io_total_def codec_rw)
qed (use assms(2) in \<open>simp add: setAssocValueOption_def no_panic setOpt_def whenOpen_def io_err_def\<close>)

lemma intOption_stored:
  assumes "kernel_keeps K so" "setIntOption T K so v c k = Some (Inr u, k')"
  shows "\<exists>k''. intOption T K so c k' = Some (Inr v, k'')"
proof (cases "c_life c = lifeClosed")
  case False
  have "io_wrap (\<lambda>e. optionError ''set'' e c) (setsockopt K so (splice 0 (enc_int (native T) v) (replicate 4 0))) k = Some (Inr u, k')"
    using assms(2) False by (simp add: setIntOption_def no_panic whenOpen_def)
  from set_then_get [OF assms(1) this, of "replicate 4 0" "\<lambda>e. optionError ''get'' e c"] False show ?thesis
    by (auto simp: intOption_def no_panic whenOpen_def io_bind_def io_total_def codec_rw)
qed (use assms(2) in \<open>simp add: setIntOption_def whenOpen_def io_err_def\<close>)

lemma boolOption_stored:
  assumes "kernel_keeps K (Sctp opt)" "setBoolOption T K opt on c k = Some (Inr u, k')"
  shows "\<exists>k''. boolOption T K opt c k' = Some (Inr on, k'')"
  using intOption_stored [OF assms(1), of T "boolValue on" c k u k'] assms(2)
  by (auto simp: setBoolOption_def boolOption_def io_bind_def io_ret_def boolValue_def)

lemma whenOpen_checked:
  assumes "whenOpen op c (io_bind (checked op' c r) f) k = Some (Inr u, k')"
  obtains x where "r = Some (Inr x)" "f x k = Some (Inr u, k')" "c_life c \<noteq> lifeClosed"
  using assms by (auto simp: whenOpen_def checked_def io_bind_def io_check_def io_err_def split: if_splits option.splits sum.splits)

text \<open>An option reads back as it was set: with what Linux does as hypothesis (a query after an accepted write reports the
  bytes written), each of the plain options returns from its getter the value its setter was given, on every target.\<close>

theorem plain_options_roundtrip:
  assumes "\<forall>so. kernel_keeps K so"
  shows "(Conn_SetDefaultContext T K v c k = Some (Inr u, k') \<longrightarrow> (\<exists>k''. Conn_DefaultContext T K c k' = Some (Inr v, k''))) \<and>
    (Conn_SetPFExposure T K v c k = Some (Inr u, k') \<longrightarrow> (\<exists>k''. Conn_PFExposure T K c k' = Some (Inr v, k''))) \<and>
    (Conn_SetStreamResetMask T K v c k = Some (Inr u, k') \<longrightarrow> (\<exists>k''. Conn_StreamResetMask T K c k' = Some (Inr v, k''))) \<and>
    (Conn_SetStreamScheduler T K v c k = Some (Inr u, k') \<longrightarrow> (\<exists>k''. Conn_StreamScheduler T K c k' = Some (Inr v, k''))) \<and>
    (Conn_SetFragmentInterleave T K v c k = Some (Inr u, k') \<longrightarrow> (\<exists>k''. Conn_FragmentInterleave T K c k' = Some (Inr v, k''))) \<and>
    (Conn_SetNoDelay T K on c k = Some (Inr u, k') \<longrightarrow> (\<exists>k''. Conn_NoDelay T K c k' = Some (Inr on, k''))) \<and>
    (Conn_SetAutoASCONF T K on c k = Some (Inr u, k') \<longrightarrow> (\<exists>k''. Conn_AutoASCONF T K c k' = Some (Inr on, k''))) \<and>
    (Conn_SetFragmentsDisabled T K on c k = Some (Inr u, k') \<longrightarrow> (\<exists>k''. Conn_FragmentsDisabled T K c k' = Some (Inr on, k''))) \<and>
    (Conn_SetReceiveNxtInfo T K on c k = Some (Inr u, k') \<longrightarrow> (\<exists>k''. Conn_ReceiveNxtInfo T K c k' = Some (Inr on, k''))) \<and>
    (Conn_SetMaxBurst T K n c k = Some (Inr u, k') \<and> (wordSize T = 4 \<longrightarrow> n < 2 ^ 31) \<longrightarrow>
      (\<exists>k''. Conn_MaxBurst T K c k' = Some (Inr n, k'')))"
proof -
  have kept: "kernel_keeps K so" for so using assms by blast
  have "\<exists>k''. Conn_MaxBurst T K c k' = Some (Inr n, k'')"
    if "Conn_SetMaxBurst T K n c k = Some (Inr u, k')" "wordSize T = 4 \<longrightarrow> n < 2 ^ 31"
  proof -
    from that(1) obtain w where w: "uint32Arg ''SetMaxBurst'' n = Inr w" "setAssocValueOption T K optMaxBurst w c k = Some (Inr u, k')"
      unfolding Conn_SetMaxBurst_def by (auto elim!: whenOpen_checked)
    have "uint w = n" using checks_args(3) [of "''SetMaxBurst''" n] w(1) by simp
    moreover have "0 \<le> n" using \<open>uint w = n\<close> by auto
    moreover have "sint w = uint w" if "uint w < 2 ^ 31"
    proof -
      have "- 2147483648 \<le> uint w" using uint_ge_0 [of w] by linarith
      then show ?thesis using that signed_take_bit_int_eq_self [of 31 "uint w"] by (simp add: sint_uint)
    qed
    ultimately have "goInt T w = n" using that(2) by (auto simp: goInt_def)
    with assocValue_stored [OF kept w(2)] show ?thesis by (auto simp: Conn_MaxBurst_def io_bind_def io_ret_def)
  qed
  then show ?thesis
    using assocValue_stored [OF kept, of T _ v c k u k'] intOption_stored [OF kept, of T _ v c k u k'] boolOption_stored [OF kept, of T _ on c k u k']
    by (auto simp: setter_defs Conn_DefaultContext_def Conn_PFExposure_def Conn_StreamResetMask_def Conn_StreamScheduler_def
      Conn_FragmentInterleave_def Conn_NoDelay_def Conn_AutoASCONF_def Conn_FragmentsDisabled_def Conn_ReceiveNxtInfo_def
      simp del: One_nat_def elim!: whenOpen_checked)
qed

text \<open>A kernel that keeps every option it is given.\<close>

definition keeper :: "(sockopt \<Rightarrow> bytes) sys" where
  "keeper = \<lparr>y_released = (\<lambda>k. False), y_get = (\<lambda>k so b. (Inr (k so, of_nat (length (k so))), k)),
     y_set = (\<lambda>k so b. (None, k(so := b)))\<rparr>"

theorem plain_options_roundtrip_witness:
  "\<forall>k. \<exists>k' k''. Conn_SetDefaultContext s390x keeper 77 option_conn k = Some (Inr (), k') \<and>
     Conn_DefaultContext s390x keeper option_conn k' = Some (Inr 77, k'')"
proof
  fix k
  have kept: "\<forall>so. kernel_keeps keeper so" by (simp add: kernel_keeps_def keeper_def)
  have "splice 4 (enc_int BigEndian (77 :: u32)) (splice 0 (enc_int BigEndian (7 :: u32)) (replicate 8 0)) \<noteq> []"
    by (simp add: length_0_conv [symmetric] del: length_0_conv)
  then have "Conn_SetDefaultContext s390x keeper 77 option_conn k = Some (Inr (),
      k(Sctp optContext := splice 4 (enc_int BigEndian (77 :: u32)) (splice 0 (enc_int BigEndian (7 :: u32)) (replicate 8 0))))"
    by (simp add: Conn_SetDefaultContext_def setAssocValueOption_def no_panic setOpt_def whenOpen_def option_conn_def
      io_wrap_def setsockopt_def keeper_def s390x_def)
  then show "\<exists>k' k''. Conn_SetDefaultContext s390x keeper 77 option_conn k = Some (Inr (), k') \<and>
      Conn_DefaultContext s390x keeper option_conn k' = Some (Inr 77, k'')"
    using plain_options_roundtrip [OF kept] by blast
qed

end
