(* ===== verification/Addrs.thy ===== *)
theory Addrs
  imports Sockaddr Enums
begin

text \<open>
  Addresses as the package shows and checks them: \<open>addr.go\<close> (the text of an Addr, network names, the addresses a resolver gives), and the
  checks on address lists of \<open>socket_linux.go\<close> (the family of a socket, the list to bind and its duplicates), \<open>conn_linux.go\<close> (what
  \<open>BindAdd\<close> and \<open>BindRemove\<close> are given) and \<open>dial_linux.go\<close> (self-connections). No system call is made here.
\<close>

section \<open>The text of an address\<close>

text \<open>\<open>netip.Addr.String\<close>: dotted decimal, and the eight groups of RFC 5952, whose first longest run of at least two
  zero groups is written as two colons. \<open>zeroRun\<close> is the loop that finds the run, from group \<open>i\<close> on, with the best one so far.\<close>

definition octet :: "u32 \<Rightarrow> nat \<Rightarrow> nat" where
  "octet v i = unat (drop_bit (8 * (3 - i)) v AND 255)"

definition ip4_String :: "u32 \<Rightarrow> string" where
  "ip4_String v = show_base 10 (octet v 0) @ ''.'' @ show_base 10 (octet v 1) @ ''.'' @ show_base 10 (octet v 2) @ ''.'' @
     show_base 10 (octet v 3)"

definition v6u16 :: "128 word \<Rightarrow> nat \<Rightarrow> nat" where
  "v6u16 w i = unat (drop_bit (16 * (7 - i)) w AND 65535)"

definition zerosFrom :: "nat list \<Rightarrow> nat" where
  "zerosFrom gs = length (takeWhile (\<lambda>g. g = 0) gs)"

fun zeroRun :: "nat \<Rightarrow> nat list \<Rightarrow> nat \<times> nat \<Rightarrow> nat \<times> nat" where
  "zeroRun i [] best = best"
| "zeroRun i (g # gs) (start, stop) =
     (let l = zerosFrom (g # gs) in
      zeroRun (i + 1) gs (if l \<ge> 2 \<and> l > stop - start then (i, i + l) else (start, stop)))"

definition hexGroups :: "nat list \<Rightarrow> string" where
  "hexGroups gs = concat (List.map (\<lambda>(i, g). (if i > 0 then '':'' else []) @ show_base 16 g) (enumerate 0 gs))"

definition ip6_groups :: "nat list \<Rightarrow> string" where
  "ip6_groups gs =
     (let (start, stop) = zeroRun 0 gs (255, 255) in
      if start = 255 then hexGroups gs
      else hexGroups (take start gs) @ ''::'' @ hexGroups (drop stop gs))"

fun ip_String :: "ipaddr \<Rightarrow> string" where
  "ip_String IPZero = ''invalid IP''"
| "ip_String (IP4 v) = ip4_String v"
| "ip_String (IP6 w z) =
     (if v4InV6 w then ''::ffff:'' @ ip4_String (ucast w) else ip6_groups (List.map (v6u16 w) [0..<8])) @
     (if z = [] then [] else ''%'' @ z)"

section \<open>Addr\<close>

record Addr =
  ad_IPs :: "ipaddr list"
  ad_Port :: u16

definition Addr_zero :: Addr where
  "Addr_zero = \<lparr>ad_IPs = [], ad_Port = 0\<rparr>"

definition Addr_elem :: "ipaddr \<Rightarrow> string" where
  "Addr_elem ip = (let u = Unmap ip in if Is4 u then ip_String u else ''['' @ ip_String u @ '']'')"

fun Addr_String :: "Addr option \<Rightarrow> string" where
  "Addr_String None = ''<nil>''"
| "Addr_String (Some a) =
     concat (List.map (\<lambda>(i, ip). (if i > 0 then ''/'' else []) @ Addr_elem ip) (enumerate 0 (ad_IPs a))) @
     '':'' @ show_base 10 (unat (ad_Port a))"

text \<open>\<open>netAddr\<close>: the nil interface for a nil pointer, otherwise a copy, here its text.\<close>

definition netAddr :: "Addr option \<Rightarrow> netaddr" where
  "netAddr a = (case a of None \<Rightarrow> None | Some x \<Rightarrow> Some (Addr_String (Some x)))"

definition canonicalName :: "string \<Rightarrow> string" where
  "canonicalName network = (if network = [] then ''sctp'' else network)"

definition canonicalNetwork :: "string \<Rightarrow> ipaddr list \<Rightarrow> goerr + u16" where
  "canonicalNetwork network ips =
     (if network = [] \<or> network = ''sctp'' then
        (if list_ex (\<lambda>ip. \<not> Is4 (Unmap ip)) ips then Inr afInet6 else Inr afInet)
      else if network = ''sctp4'' then
        (if list_ex (\<lambda>ip. \<not> Is4 (Unmap ip)) ips then Inl (InvalidArg ''sctp4 address %d (%s) is not IPv4'') else Inr afInet)
      else if network = ''sctp6'' then Inr afInet6
      else Inl (InvalidArg ''network %q must be sctp, sctp4 or sctp6''))"

definition normalizeResolvedAddr :: "ipaddr \<Rightarrow> goerr + ipaddr" where
  "normalizeResolvedAddr ip =
     (if Zone ip \<noteq> [] \<and> \<not> IsLinkLocalUnicast ip then Inl (InvalidArg ''address %s has a zone but is not link-local'')
      else if Is4In6 ip then
        (if Zone ip \<noteq> [] then Inl (InvalidArg ''address %s has a zone but is IPv4'') else Inr (Unmap ip))
      else Inr ip)"

definition isWildcard :: "Addr option \<Rightarrow> bool" where
  "isWildcard a = (case a of None \<Rightarrow> True | Some x \<Rightarrow> ad_IPs x = [] \<or> (length (ad_IPs x) = 1 \<and> IsUnspecified (ad_IPs x ! 0)))"

text \<open>\<open>noIPv6\<close> is what \<open>ipv6Unavailable\<close> found of this kernel.\<close>

definition socketFamily :: "bool \<Rightarrow> string \<Rightarrow> Addr option \<Rightarrow> Addr option \<Rightarrow> goerr + u16" where
  "socketFamily noIPv6 network laddr raddr =
     (let ips = (case laddr of None \<Rightarrow> [] | Some a \<Rightarrow> ad_IPs a) @ (case raddr of None \<Rightarrow> [] | Some a \<Rightarrow> ad_IPs a) in
      case canonicalNetwork network ips of
        Inl e \<Rightarrow> Inl e
      | Inr family \<Rightarrow>
          if (network = [] \<or> network = ''sctp'') \<and> isWildcard laddr \<and> \<not> noIPv6 then Inr afInet6 else Inr family)"

text \<open>\<open>validateLocalIPs\<close>: \<open>seen\<close> is the map of the keys so far.\<close>

definition bindKey :: "u16 \<Rightarrow> ipaddr \<Rightarrow> ipaddr" where
  "bindKey family ip = (let key = Unmap ip in if family = afInet6 \<and> Is4 key \<and> IsUnspecified key then IP6 0 [] else key)"

fun validate_loop :: "u16 \<Rightarrow> (ipaddr \<rightharpoonup> nat) \<Rightarrow> nat \<Rightarrow> ipaddr list \<Rightarrow> goerr option" where
  "validate_loop family seen i [] = None"
| "validate_loop family seen i (ip # ips) =
     (case seen (bindKey family ip) of
        Some j \<Rightarrow> Some (InvalidArg ''local address %d (%s) duplicates address %d'')
      | None \<Rightarrow> validate_loop family (seen(bindKey family ip \<mapsto> i)) (i + 1) ips)"

definition validateLocalIPs :: "u16 \<Rightarrow> ipaddr list \<Rightarrow> goerr option" where
  "validateLocalIPs family ips = validate_loop family Map.empty 0 ips"

definition localBindAddrs :: "target \<Rightarrow> zoneEnv \<Rightarrow> u16 \<Rightarrow> Addr \<Rightarrow> (goerr + bytes) option" where
  "localBindAddrs T zi family laddr =
     (if ad_IPs laddr \<noteq> []
      then (case validateLocalIPs family (ad_IPs laddr) of
              Some e \<Rightarrow> Some (Inl e)
            | None \<Rightarrow> encodeAddrs T zi family (ad_IPs laddr) (ad_Port laddr))
      else encodeAddrs T zi family [if family = afInet6 then IP6 0 [] else IP4 0] (ad_Port laddr))"

definition bindxAddrs :: "target \<Rightarrow> zoneEnv \<Rightarrow> u16 \<Rightarrow> string \<Rightarrow> ipaddr list \<Rightarrow> (goerr + bytes) option" where
  "bindxAddrs T zi family name ips =
     (if ips = [] then Some (Inl (InvalidArg (name @ '' needs at least one address'')))
      else case validateLocalIPs family ips of
        Some e \<Rightarrow> Some (Inl e)
      | None \<Rightarrow> encodeAddrs T zi family ips 0)"

definition removesEveryAddress :: "ipaddr list \<Rightarrow> ipaddr list \<Rightarrow> bool" where
  "removesEveryAddress bound remove =
     (if list_ex IsUnspecified remove then True
      else if bound = [] then False
      else list_all (\<lambda>b. list_ex (\<lambda>r. Unmap b = Unmap r) remove) bound)"

definition peerIsLocal :: "ipaddr \<Rightarrow> ipaddr \<Rightarrow> bool" where
  "peerIsLocal peer ip \<longleftrightarrow> peer = ip \<or> (Zone peer = [] \<and> IsLinkLocalUnicast peer \<and> peer = WithZone ip [])"

definition selfConnected :: "Addr option \<Rightarrow> Addr option \<Rightarrow> bool" where
  "selfConnected laddr raddr =
     (case (laddr, raddr) of
        (Some l, Some r) \<Rightarrow>
          if ad_Port l = 0 \<or> ad_Port l \<noteq> ad_Port r \<or> ad_IPs r = [] then False
          else list_all (\<lambda>peer. list_ex (peerIsLocal peer) (ad_IPs l)) (ad_IPs r)
      | _ \<Rightarrow> False)"

end
