(* ===== verification/Sockets.thy ===== *)
theory Sockets
  imports Addrs ConnOptions
begin

text \<open>
  A socket's own operations: the address and status queries and \<open>bindx\<close> of \<open>socket_linux.go\<close>, with the setup every constructor shares,
  the application of a prepared Config (\<open>config_linux.go\<close>), one operation per field, and the subscriptions (\<open>recv_linux.go\<close>).
\<close>

unbundle bit_operations_syntax

section \<open>Opening and asking\<close>

definition socketError :: "errno \<Rightarrow> goerr" where
  "socketError e = (if e = EPROTONOSUPPORT \<or> e = ESOCKTNOSUPPORT then unsupportedErr e else SyscallError ''socket'' (Errno e))"

definition maxAddrsBuf :: nat where
  "maxAddrsBuf = 262144"

text \<open>The loop of \<open>getAddrs\<close> on a buffer of \<open>sz\<close> bytes. An answer that does not return is \<open>None\<close>, like a panic.\<close>

partial_function (option) getAddrs_loop ::
  "target \<Rightarrow> ifaceEnv \<Rightarrow> 'k sys \<Rightarrow> nat \<Rightarrow> AssocID \<Rightarrow> nat \<Rightarrow> 'k \<Rightarrow> ((goerr option + Addr) \<times> 'k) option" where
  "getAddrs_loop T ifx K opt assoc sz k =
     Option.bind (put32 (native T) getAddrsAssocIDOff assoc (replicate sz 0)) (\<lambda>buf.
     Option.bind (getsockopt K (Sctp opt) buf k) (\<lambda>(r, k').
       case r of
         Inl e \<Rightarrow>
           if isAn e (Errno ENOMEM) \<and> sz * 4 \<le> maxAddrsBuf then getAddrs_loop T ifx K opt assoc (sz * 4) k'
           else Some (Inl e, k')
       | Inr (b, l) \<Rightarrow>
           Option.bind (get32 (native T) b getAddrsAddrNumOff) (\<lambda>n.
           Option.bind (decodeAddrs T ifx (drop getAddrsAddrsOff b) (sint n)) (\<lambda>d.
             Some (case d of Inl e \<Rightarrow> Inl (Some e) | Inr (ips, port) \<Rightarrow> Inr \<lparr>ad_IPs = ips, ad_Port = port\<rparr>, k')))))"

text \<open>The sizes it tries grow up to the bound: what holds of a size when it holds of the next one holds of every size.\<close>

lemma sizes_induct [consumes 1, case_names grow]:
  assumes "0 < (sz :: nat)" and "\<And>sz. 0 < sz \<Longrightarrow> (sz * 4 \<le> maxAddrsBuf \<Longrightarrow> P (sz * 4)) \<Longrightarrow> P sz"
  shows "P sz"
  using assms(1)
proof (induction "maxAddrsBuf - sz" arbitrary: sz rule: less_induct)
  case less
  show ?case by (rule assms(2) [OF less.prems]) (rule less.hyps, use less.prems in simp_all)
qed

definition getAddrs :: "target \<Rightarrow> ifaceEnv \<Rightarrow> 'k sys \<Rightarrow> nat \<Rightarrow> AssocID \<Rightarrow> ('k, Addr) io" where
  "getAddrs T ifx K opt assoc = getAddrs_loop T ifx K opt assoc 4096"

definition socket_status :: "target \<Rightarrow> 'k sys \<Rightarrow> ('k, AssocID \<times> AssocState) io" where
  "socket_status T K =
     io_bind (getsockopt K (Sctp optStatus) (replicate sizeStatus 0)) (\<lambda>(b, l).
     io_total (do {
       i \<leftarrow> get32 (native T) b statusAssocIDOff;
       st \<leftarrow> get32 (native T) b statusStateOff;
       Some (i, st) }))"

text \<open>\<open>socket.bindx\<close>; \<open>&addrs[0]\<close> panics on an empty array.\<close>

definition socket_bindx :: "'k sys \<Rightarrow> nat \<Rightarrow> bytes \<Rightarrow> ('k, unit) io" where
  "socket_bindx K opt addrs = (if addrs = [] then io_total None else setsockopt K (Sctp opt) addrs)"

section \<open>Configuration operations\<close>

text \<open>Inside one \<open>raw.Control\<close> the descriptor stays open: the calls are made on it directly, and their error is the bare errno.\<close>

type_synonym 'k raw = "'k \<Rightarrow> (errno option \<times> 'k) option"

definition raw_set :: "'k sys \<Rightarrow> sockopt \<Rightarrow> bytes option \<Rightarrow> 'k raw" where
  "raw_set K so b = (\<lambda>k. case b of None \<Rightarrow> None | Some bs \<Rightarrow> Some (y_set K k so bs))"

definition raw_then :: "'k raw \<Rightarrow> 'k raw \<Rightarrow> 'k raw" where
  "raw_then m m' = (\<lambda>k. case m k of None \<Rightarrow> None | Some (Some e, k') \<Rightarrow> Some (Some e, k') | Some (None, k') \<Rightarrow> m' k')"

definition setIntOpt :: "target \<Rightarrow> 'k sys \<Rightarrow> sockopt \<Rightarrow> u32 \<Rightarrow> 'k raw" where
  "setIntOpt T K so v = raw_set K so (put32 (native T) 0 v (replicate sizeInt 0))"

definition setAssocValue :: "target \<Rightarrow> 'k sys \<Rightarrow> nat \<Rightarrow> u32 \<Rightarrow> 'k raw" where
  "setAssocValue T K opt v = raw_set K (Sctp opt) (put32 (native T) assocValueValueOff v (replicate sizeAssocValue 0))"

definition setEvent :: "target \<Rightarrow> 'k sys \<Rightarrow> EventType \<Rightarrow> bool \<Rightarrow> 'k raw" where
  "setEvent T K t on = raw_set K (Sctp optEvent) (do {
     b \<leftarrow> put16 (native T) eventTypeFieldOff t (replicate sizeEvent 0);
     Some (if on then b[eventOnOff := 1] else b) })"

definition getEvent :: "target \<Rightarrow> 'k sys \<Rightarrow> EventType \<Rightarrow> 'k \<Rightarrow> ((errno + bool) \<times> 'k) option" where
  "getEvent T K t k = do {
     b \<leftarrow> put16 (native T) eventTypeFieldOff t (replicate sizeEvent 0);
     (case y_get K k (Sctp optEvent) b of
        (Inl e, k') \<Rightarrow> Some (Inl e, k')
      | (Inr (r, l), k') \<Rightarrow> do { v \<leftarrow> get8 (go_copy b r) eventOnOff; Some (Inr (v \<noteq> 0), k') }) }"

fun putIdents :: "byte_order \<Rightarrow> nat \<Rightarrow> HMACID list \<Rightarrow> bytes \<Rightarrow> bytes option" where
  "putIdents bo i [] b = Some b"
| "putIdents bo i (x # xs) b = do { b' \<leftarrow> put16 bo (hmacAlgoIdentsOff + 2 * i) x b; putIdents bo (i + 1) xs b' }"

definition kernel_of :: "'k sys \<Rightarrow> 'k kernel" where
  "kernel_of K = \<lparr>k_get = (\<lambda>k opt. case fst (y_get K k (Sctp opt)
       (replicate (if opt = optDefaultPRInfo then sizeDefaultPRInfo else sizeSndInfo) 0)) of Inl e \<Rightarrow> Inl e | Inr (r, l) \<Rightarrow> Inr r),
     k_set = (\<lambda>k opt b. y_set K k (Sctp opt) b)\<rparr>"

fun applyOp :: "target \<Rightarrow> 'k sys \<Rightarrow> configOp \<Rightarrow> 'k raw" where
  "applyOp T K OpRecvRcvInfo = setIntOpt T K (Sctp optRecvRcvInfo) 1"
| "applyOp T K OpAssocChange = raw_then (setEvent T K EventAssocChange True) (setEvent T K EventPartialDelivery True)"
| "applyOp T K (OpReadBuffer n) = setIntOpt T K SoRcvbuf n"
| "applyOp T K (OpWriteBuffer n) = setIntOpt T K SoSndbuf n"
| "applyOp T K (OpInitMsg os mi ma mt) = raw_set K (Sctp optInitMsg) (do {
     b1 \<leftarrow> put16 (native T) initMsgOutStreamsOff os (replicate sizeInitMsg 0);
     b2 \<leftarrow> put16 (native T) initMsgMaxInStreamsOff mi b1;
     b3 \<leftarrow> put16 (native T) initMsgMaxAttemptsOff ma b2;
     put16 (native T) initMsgMaxInitTimeoOff (ucast mt) b3 })"
| "applyOp T K (OpFragmentInterleave l) = setIntOpt T K (Sctp optFragmentInterleave) l"
| "applyOp T K (OpAuthentication on) = setAssocValue T K optAuthSupported (boolValue on)"
| "applyOp T K (OpHMACIdentifiers ids) = raw_set K (Sctp optHMACIdent) (do {
     b1 \<leftarrow> put32 (native T) hmacAlgoNumIdentsOff (of_nat (length ids)) (replicate (sizeHMACAlgo + 2 * length ids) 0);
     putIdents (native T) 0 ids b1 })"
| "applyOp T K (OpAuthChunk ct) = raw_set K (Sctp optAuthChunk) (Some [ct])"
| "applyOp T K (OpDynamicAddressReconfiguration on) = setAssocValue T K optASCONFSupported (boolValue on)"
| "applyOp T K (OpPartialReliability on) = setAssocValue T K optPRSupported (boolValue on)"
| "applyOp T K (OpStreamReconfiguration on) = setAssocValue T K optReconfigSupported (boolValue on)"
| "applyOp T K (OpStreamResetMask m) = setAssocValue T K optEnableStreamReset m"
| "applyOp T K (OpMessageInterleaving on) = setAssocValue T K optInterleavingSupported (boolValue on)"
| "applyOp T K (OpExperimentalECN on) = setAssocValue T K optECNSupported (boolValue on)"
| "applyOp T K (OpAdaptationLayer v) = raw_set K (Sctp optAdaptationLayer) (put32 (native T) 0 v (replicate sizeSetAdaptation 0))"
| "applyOp T K (OpRTOInfo i mx mn) = raw_set K (Sctp optRTOInfo) (do {
     b1 \<leftarrow> put32 (native T) rtoInfoInitialOff i (replicate sizeRTOInfo 0);
     b2 \<leftarrow> put32 (native T) rtoInfoMaxOff mx b1;
     put32 (native T) rtoInfoMinOff mn b2 })"
| "applyOp T K (OpDelayedSACK d f) = raw_set K (Sctp optDelayedAckTime) (do {
     b1 \<leftarrow> put32 (native T) delayedSACKDelayOff d (replicate sizeDelayedSACK 0);
     put32 (native T) delayedSACKFrequencyOff f b1 })"
| "applyOp T K (OpFragmentsDisabled on) = setIntOpt T K (Sctp optDisableFragments) (boolValue on)"
| "applyOp T K (OpReusePort on) = setIntOpt T K (Sctp optReusePort) (boolValue on)"
| "applyOp T K (OpReceiveNxtInfo on) = setIntOpt T K (Sctp optRecvNxtInfo) (boolValue on)"
| "applyOp T K (OpNoDelay on) = setIntOpt T K (Sctp optNoDelay) (boolValue on)"
| "applyOp T K (OpDefaultSndInfo st fl pp ct) = setDefaultSndInfo T (kernel_of K) st fl pp ct"
| "applyOp T K (OpDefaultPrInfo pol v) = setDefaultPrInfo T (kernel_of K) pol v"
| "applyOp T K (OpNotification t) = setEvent T K t True"

fun opField :: "configOp \<Rightarrow> string" where
  "opField OpRecvRcvInfo = ''SCTP_RECVRCVINFO, which the package always enables''"
| "opField OpAssocChange = ''the SCTP_ASSOC_CHANGE and SCTP_PARTIAL_DELIVERY_EVENT subscriptions the package always keeps''"
| "opField (OpReadBuffer n) = ''Config.ReadBuffer''"
| "opField (OpWriteBuffer n) = ''Config.WriteBuffer''"
| "opField (OpInitMsg os mi ma mt) = ''Config.InitMsg''"
| "opField (OpFragmentInterleave l) = ''Config.FragmentInterleave''"
| "opField (OpAuthentication on) = ''Config.Authentication''"
| "opField (OpHMACIdentifiers ids) = ''Config.HMACIdentifiers''"
| "opField (OpAuthChunk ct) = ''Config.AuthChunks (chunk type '' @ showUnsigned ct @ '')''"
| "opField (OpDynamicAddressReconfiguration on) = ''Config.DynamicAddressReconfiguration''"
| "opField (OpPartialReliability on) = ''Config.PartialReliability''"
| "opField (OpStreamReconfiguration on) = ''Config.StreamReconfiguration''"
| "opField (OpStreamResetMask m) = ''Config.StreamResetMask''"
| "opField (OpMessageInterleaving on) = ''Config.MessageInterleaving''"
| "opField (OpExperimentalECN on) = ''Config.ExperimentalECN''"
| "opField (OpAdaptationLayer v) = ''Config.AdaptationLayer''"
| "opField (OpRTOInfo i mx mn) = ''Config.RTOInfo''"
| "opField (OpDelayedSACK d f) = ''Config.DelayedSACK''"
| "opField (OpFragmentsDisabled on) = ''Config.FragmentsDisabled''"
| "opField (OpReusePort on) = ''Config.ReusePort''"
| "opField (OpReceiveNxtInfo on) = ''Config.ReceiveNxtInfo''"
| "opField (OpNoDelay on) = ''Config.NoDelay''"
| "opField (OpDefaultSndInfo st fl pp ct) = ''Config.DefaultSndInfo''"
| "opField (OpDefaultPrInfo pol v) = ''Config.DefaultPrInfo''"
| "opField (OpNotification t) = ''Config.Notifications ('' @ EventType_String t @ '')''"

fun applyOps :: "target \<Rightarrow> 'k sys \<Rightarrow> configOp list \<Rightarrow> ('k, unit) io" where
  "applyOps T K [] k = Some (Inr (), k)"
| "applyOps T K (x # xs) k =
     (case applyOp T K x k of
        None \<Rightarrow> None
      | Some (Some e, k') \<Rightarrow> Some (Inl (Some (Wrapped (''sctp: applying '' @ opField x) (SyscallError ''setsockopt'' (Errno e)))), k')
      | Some (None, k') \<Rightarrow> applyOps T K xs k')"

definition applyConfig :: "target \<Rightarrow> 'k sys \<Rightarrow> configOp list \<Rightarrow> ('k, unit) io" where
  "applyConfig T K ops = (\<lambda>k. if y_released K k then Some (Inl (Some NetErrClosed), k) else applyOps T K ops k)"

text \<open>A sequence of raw calls inside \<open>socket.control\<close>.\<close>

definition control_raw :: "'k sys \<Rightarrow> 'k raw \<Rightarrow> ('k, unit) io" where
  "control_raw K m = (\<lambda>k.
     if y_released K k then Some (Inl (Some NetErrClosed), k)
     else case m k of
       None \<Rightarrow> None
     | Some (Some e, k') \<Rightarrow> Some (Inl (Some (Errno e)), k')
     | Some (None, k') \<Rightarrow> Some (Inr (), k'))"

text \<open>\<open>os.NewSyscallError\<close> keeps nil.\<close>

definition syscallError :: "string \<Rightarrow> goerr option \<Rightarrow> goerr option" where
  "syscallError name e = map_option (SyscallError name) e"

text \<open>\<open>setupSocket\<close>: the dual-stack switch, then Control (\<open>ctl\<close>, the caller's, a parameter), then the typed settings.\<close>

definition setupSocket ::
  "target \<Rightarrow> 'k sys \<Rightarrow> u16 \<Rightarrow> ('k, unit) io option \<Rightarrow> configOp list \<Rightarrow> ('k, unit) io" where
  "setupSocket T K family ctl ops =
     io_bind (if family = afInet6
              then io_wrap (syscallError ''setsockopt'') (control_raw K (raw_set K Ipv6V6only (put32 (native T) 0 0 (replicate 4 0))))
              else io_ret ()) (\<lambda>_.
     io_bind (case ctl of None \<Rightarrow> io_ret () | Some f \<Rightarrow> f) (\<lambda>_. applyConfig T K ops))"

fun subscriptions_loop :: "target \<Rightarrow> 'k sys \<Rightarrow> EventType list \<Rightarrow> eventSet \<Rightarrow> 'k \<Rightarrow> (eventSet \<times> 'k) option" where
  "subscriptions_loop T K [] s k = Some (s, k)"
| "subscriptions_loop T K (t # ts) s k =
     (if t = EventAssocChange \<or> t = EventPartialDelivery then subscriptions_loop T K ts s k
      else case getEvent T K t k of
        None \<Rightarrow> None
      | Some (Inl e, k') \<Rightarrow> subscriptions_loop T K ts s k'
      | Some (Inr on, k') \<Rightarrow> subscriptions_loop T K ts (if on then s OR eventBit t else s) k')"

text \<open>\<open>kernelSubscriptions\<close>; \<open>ts\<close> is the order in which Go's \<open>range\<close> visits the map of names.\<close>

definition kernelSubscriptions :: "target \<Rightarrow> 'k sys \<Rightarrow> EventType list \<Rightarrow> ('k, eventSet) io" where
  "kernelSubscriptions T K ts = (\<lambda>k.
     if y_released K k then Some (Inl (Some NetErrClosed), k)
     else case subscriptions_loop T K ts 0 k of None \<Rightarrow> None | Some (s, k') \<Rightarrow> Some (Inr s, k'))"

section \<open>Subscribe\<close>

text \<open>\<open>subs\<close> is the caller's logical subscription set.\<close>

definition Subscribe :: "target \<Rightarrow> 'k sys \<Rightarrow> EventType \<Rightarrow> bool \<Rightarrow> sendConn \<Rightarrow> eventSet \<Rightarrow> ('k, eventSet) io" where
  "Subscribe T K t on c subs = whenOpen ''set'' c
     (io_bind (checked ''set'' c (refuseIf (map_of eventTypeNames t = None) ''Subscribe: %v is not a notification type'')) (\<lambda>_.
      io_bind (if t \<noteq> EventAssocChange \<and> t \<noteq> EventPartialDelivery
               then io_wrap (\<lambda>e. optionError ''set'' e c) (control_raw K (setEvent T K t on)) else io_ret ()) (\<lambda>_.
        io_ret (if on then subs OR eventBit t else and_not subs (eventBit t)))))"

definition Subscribed :: "EventType \<Rightarrow> sendConn \<Rightarrow> eventSet \<Rightarrow> goerr option + bool" where
  "Subscribed t c subs =
     (if c_life c = lifeClosed then Inl (optionError ''get'' (Some NetErrClosed) c)
      else if map_of eventTypeNames t = None
      then Inl (argError ''get'' (Some (InvalidArg ''Subscribed: %v is not a notification type'')) c)
      else Inr (eventSet_has subs t))"

section \<open>Keys before the association exists\<close>

text \<open>\<open>InstallAuthKey\<close> and \<open>ActivateAuthKey\<close>, made inside \<open>Config.Control\<close> on the raw connection it is given (\<open>hasConn\<close>: not nil). Each
  switches AUTH on first; the second call of the callback is made when that succeeded.\<close>

definition enableAuth :: "target \<Rightarrow> 'k sys \<Rightarrow> 'k raw" where
  "enableAuth T K = setAssocValue T K optAuthSupported 1"

definition authControl :: "target \<Rightarrow> 'k sys \<Rightarrow> nat \<Rightarrow> bytes \<Rightarrow> ('k, unit) io" where
  "authControl T K opt b =
     io_wrap (\<lambda>e. if isAn e NetErrClosed then e else syscallError ''setsockopt'' e)
       (control_raw K (raw_then (enableAuth T K) (raw_set K (Sctp opt) (Some b))))"

definition authKey_arg :: "target \<Rightarrow> u16 \<Rightarrow> bytes \<Rightarrow> bytes option" where
  "authKey_arg T key secret = do {
     let b0 = replicate (sizeAuthKey + length secret) 0;
     b1 \<leftarrow> put16 (native T) authKeyKeyNumberOff key b0;
     b2 \<leftarrow> put16 (native T) authKeyKeyLengthOff (of_nat (length secret)) b1;
     copy_into authKeyKeyOff (length b2) secret b2
   }"

definition InstallAuthKey :: "target \<Rightarrow> 'k sys \<Rightarrow> bool \<Rightarrow> u16 \<Rightarrow> bytes \<Rightarrow> ('k, unit) io" where
  "InstallAuthKey T K hasConn key secret =
     (if \<not> hasConn then io_err (Some (InvalidArg ''InstallAuthKey needs a non-nil syscall.RawConn''))
      else if secret = [] then io_err (Some (InvalidArg ''InstallAuthKey secret is empty; Linux refuses a zero-length key''))
      else if length secret > 65535 then io_err (Some (InvalidArg ''InstallAuthKey secret is %d bytes, more than the 65535 sca_keylength can describe''))
      else io_bind (io_total (authKey_arg T key secret)) (\<lambda>b. authControl T K optAuthKey b))"

definition ActivateAuthKey :: "target \<Rightarrow> 'k sys \<Rightarrow> bool \<Rightarrow> u16 \<Rightarrow> ('k, unit) io" where
  "ActivateAuthKey T K hasConn key =
     (if \<not> hasConn then io_err (Some (InvalidArg ''ActivateAuthKey needs a non-nil syscall.RawConn''))
      else io_bind (io_total (put16 (native T) authKeyIDKeyNumberOff key (replicate sizeAuthKeyID 0))) (\<lambda>b. authControl T K optAuthActiveKey b))"

end
