(* ===== verification/SocketProps.thy ===== *)
theory SocketProps
  imports Sockets GetterProps
begin

text \<open>
  What a socket's queries and its configuration promise: an address query always returns, the duplicates refused before a bind are those
  of the addresses bound, and what a Config says reaches the kernel.
\<close>

section \<open>Address queries\<close>

text \<open>The state after queries with the given buffers.\<close>

fun asked :: "'k sys \<Rightarrow> nat \<Rightarrow> bytes list \<Rightarrow> 'k \<Rightarrow> 'k" where
  "asked K opt [] k = k"
| "asked K opt (b # bs) k = asked K opt bs (snd (y_get K k (Sctp opt) b))"

lemma decodeAddrs_total: "\<exists>r. decodeAddrs T ifx b n = Some r"
proof -
  obtain r where r: "decodeAddrs_check T b (nat n) 0 = Some r" using decodeAddrs_check_total [of T b "nat n" 0] by blast
  then show ?thesis using decodeAddrs_walk_total [of T b "nat n" 0 _ ifx] by (cases r) (auto simp: decodeAddrs_def)
qed

text \<open>One round of the loop: it goes on only after \<open>ENOMEM\<close>, and with a buffer that is still allowed.\<close>

lemma getAddrs_round:
  assumes "8 \<le> sz"
  obtains buf k1 where "length buf = sz" "k1 = k \<or> k1 = snd (y_get K k (Sctp opt) buf)"
    "sz * 4 \<le> maxAddrsBuf \<and> k1 = snd (y_get K k (Sctp opt) buf) \<and>
       getAddrs_loop T ifx K opt assoc sz k = getAddrs_loop T ifx K opt assoc (sz * 4) k1 \<or>
     (\<exists>r. getAddrs_loop T ifx K opt assoc sz k = Some (r, k1))"
proof -
  obtain buf where buf: "put32 (native T) 0 assoc (replicate sz 0) = Some buf" "length buf = sz"
    using assms by (simp add: no_panic)
  obtain x k1 where x: "y_get K k (Sctp opt) buf = (x, k1)" by fastforce
  have loop: "getAddrs_loop T ifx K opt assoc sz k =
      (case getsockopt K (Sctp opt) buf k of
         Some (Inl e, k') \<Rightarrow> if isAn e (Errno ENOMEM) \<and> sz * 4 \<le> maxAddrsBuf then getAddrs_loop T ifx K opt assoc (sz * 4) k' else Some (Inl e, k')
       | Some (Inr (b, l), k') \<Rightarrow> (case decodeAddrs T ifx (drop getAddrsAddrsOff b) (sint (rd32 (native T) b getAddrsAddrNumOff)) of
           Some d \<Rightarrow> Some (case d of Inl e \<Rightarrow> Inl (Some e) | Inr (ips, port) \<Rightarrow> Inr \<lparr>ad_IPs = ips, ad_Port = port\<rparr>, k') | None \<Rightarrow> None)
       | None \<Rightarrow> None)"
  proof -
    have "get32 (native T) b getAddrsAddrNumOff = Some (rd32 (native T) b getAddrsAddrNumOff)"
      if "getsockopt K (Sctp opt) buf k = Some (Inr (b, l), k')" for b l k'
      using that assms buf(2) by (auto simp: getsockopt_def no_panic split: if_splits prod.splits sum.splits)
    then show ?thesis
      by (subst getAddrs_loop.simps) (auto simp: buf(1) split: option.splits sum.splits prod.splits)
  qed
  show thesis
  proof (cases "y_released K k")
    case True
    with loop buf show ?thesis by (intro that [of buf k]) (auto simp: getsockopt_def isAn_def)
  next
    case False
    then show ?thesis
    proof (cases x)
      case (Inl e)
      with False loop buf x show ?thesis by (intro that [of buf k1]) (auto simp: getsockopt_def)
    next
      case (Inr w)
      obtain d where "decodeAddrs T ifx (drop getAddrsAddrsOff (go_copy buf (fst w)))
          (sint (rd32 (native T) (go_copy buf (fst w)) getAddrsAddrNumOff)) = Some d" using decodeAddrs_total by blast
      with Inr False loop buf x show ?thesis by (intro that [of buf k1]) (auto simp: getsockopt_def split: prod.splits)
    qed
  qed
qed

lemma getAddrs_loop_returns:
  assumes "0 < sz"
  shows "8 \<le> sz \<Longrightarrow> \<exists>bufs r. getAddrs_loop T ifx K opt assoc sz k = Some (r, asked K opt bufs k) \<and>
    (\<forall>i < length bufs. length (bufs ! i) = sz * 4 ^ i) \<and> (bufs \<noteq> [] \<longrightarrow> sz * 4 ^ (length bufs - 1) \<le> max sz maxAddrsBuf)"
  using assms
proof (induction sz arbitrary: k rule: sizes_induct)
  case (grow sz)
  obtain buf k1 where b: "length buf = sz" "k1 = k \<or> k1 = snd (y_get K k (Sctp opt) buf)"
    "sz * 4 \<le> maxAddrsBuf \<and> k1 = snd (y_get K k (Sctp opt) buf) \<and>
       getAddrs_loop T ifx K opt assoc sz k = getAddrs_loop T ifx K opt assoc (sz * 4) k1 \<or>
     (\<exists>r. getAddrs_loop T ifx K opt assoc sz k = Some (r, k1))"
    by (rule getAddrs_round [OF grow(3)])
  from b(3) show ?case
  proof
    assume go: "sz * 4 \<le> maxAddrsBuf \<and> k1 = snd (y_get K k (Sctp opt) buf) \<and>
       getAddrs_loop T ifx K opt assoc sz k = getAddrs_loop T ifx K opt assoc (sz * 4) k1"
    then obtain bufs r where r: "getAddrs_loop T ifx K opt assoc (sz * 4) k1 = Some (r, asked K opt bufs k1)"
      "\<forall>i < length bufs. length (bufs ! i) = sz * 4 * 4 ^ i" "bufs \<noteq> [] \<longrightarrow> sz * 4 * 4 ^ (length bufs - 1) \<le> max (sz * 4) maxAddrsBuf"
      using grow(2) [of k1, OF conjunct1 [OF go]] grow(3) by force
    have "length ((buf # bufs) ! i) = sz * 4 ^ i" if "i < length (buf # bufs)" for i
      using that r(2) b(1) by (cases i) (simp_all add: algebra_simps)
    moreover have "sz * 4 ^ (length (buf # bufs) - 1) \<le> max sz maxAddrsBuf"
      using r(3) go by (cases bufs) (auto simp: algebra_simps)
    ultimately show ?thesis
      using r(1) go by (intro exI [of _ "buf # bufs"] exI [of _ r]) auto
  next
    assume "\<exists>r. getAddrs_loop T ifx K opt assoc sz k = Some (r, k1)"
    with b(1,2) show ?thesis
      by (auto intro: exI [of _ "[]"] intro!: exI [of _ "if k1 = k then [] else [buf]"])
  qed
qed

text \<open>C37: an address query always returns, whatever the kernel answers. It makes at most four calls, with buffers of 4, 16, 64 and 256 KiB in
  this order, and gives a list or an error: it neither panics nor asks for ever, and never for more than 256 KiB.\<close>

theorem getAddrs_returns:
  "\<exists>bufs r. getAddrs T ifx K opt assoc k = Some (r, asked K opt bufs k) \<and>
     List.map length bufs = take (length bufs) [4096, 16384, 65536, 262144]"
proof -
  obtain bufs r where b: "getAddrs_loop T ifx K opt assoc 4096 k = Some (r, asked K opt bufs k)"
    "\<forall>i < length bufs. length (bufs ! i) = 4096 * 4 ^ i" "bufs \<noteq> [] \<longrightarrow> 4096 * 4 ^ (length bufs - 1) \<le> max 4096 maxAddrsBuf"
    using getAddrs_loop_returns [of 4096 T ifx K opt assoc k] by auto
  have len: "length bufs \<le> 4"
  proof (rule ccontr)
    assume "\<not> length bufs \<le> 4"
    then have "(4::nat) ^ 4 \<le> 4 ^ (length bufs - 1)" by (intro power_increasing) auto
    with b(3) \<open>\<not> length bufs \<le> 4\<close> show False by (cases bufs) (auto simp: maxAddrsBuf_def)
  qed
  have "List.map length bufs = take (length bufs) [4096, 16384, 65536, 262144]"
  proof (rule nth_equalityI)
    fix i assume "i < length (List.map length bufs)"
    then have i: "i < length bufs" by simp
    with len consider "i = 0" | "i = 1" | "i = 2" | "i = 3" by force
    then show "List.map length bufs ! i = take (length bufs) [4096, 16384, 65536, 262144] ! i"
      using b(2) i by cases simp_all
  qed (use len in simp)
  with b(1) show ?thesis unfolding getAddrs_def by blast
qed

section \<open>Repeated local addresses\<close>

lemma validate_loop_keys:
  "validate_loop family seen i ips = None \<longleftrightarrow>
     distinct (List.map (bindKey family) ips) \<and> dom seen \<inter> set (List.map (bindKey family) ips) = {}"
  by (induction ips arbitrary: seen i) (auto split: option.splits if_splits)

lemma validateLocalIPs_keys: "validateLocalIPs family ips = None \<longleftrightarrow> distinct (List.map (bindKey family) ips)"
  by (simp add: validateLocalIPs_def validate_loop_keys)

lemma wire_in_inject: "wire_in T v port = wire_in T v' port \<longleftrightarrow> v = v'"
  by (metis decode_wire_in option.inject prod.inject ipaddr.inject(1))

lemma wire_in6_inject: "wire_in6 T w port s = wire_in6 T w' port s' \<longleftrightarrow> w = w' \<and> s = s'"
proof
  assume "wire_in6 T w port s = wire_in6 T w' port s'"
  then have "enc_int BigEndian w = enc_int BigEndian w'" "enc_int (native T) s = enc_int (native T) s'"
    by (simp_all add: wire_in6_def)
  then show "w = w' \<and> s = s'" by (metis c128.dec_enc c32.dec_enc)
qed simp

lemma mapped_inject: "mapped v = mapped v' \<longleftrightarrow> v = v'"
  by (metis v4InV6_mapped(2))

text \<open>On the addresses a family can carry, two keys are equal exactly when the sockaddrs bound are.\<close>

lemma bindKey_wireOf:
  assumes "encodable zi family ip" "encodable zi family ip'"
    and "encodeZone zi (Zone ip) = encodeZone zi (Zone ip') \<longrightarrow> Zone ip = Zone ip'"
  shows "bindKey family ip = bindKey family ip' \<longleftrightarrow> wireOf T zi family ip port = wireOf T zi family ip' port"
proof -
  have valid: "IsValid ip" "IsValid ip'" using assms by (auto simp: encodable_def)
  have six: "\<not> v4InV6 w \<Longrightarrow> w \<noteq> mapped v" for w v using v4InV6_mapped(1) by metis
  have mapped0: "mapped v \<noteq> 0" for v using v4InV6_mapped(1) [of v] v4InV6_0 by metis
  note facts = six six [symmetric] mapped0 mapped0 [symmetric]
  from valid(1) show ?thesis
  proof (cases rule: Unmap_cases)
    case (v4 v)
    from valid(2) v4 show ?thesis
      by (cases rule: Unmap_cases) (use assms facts in \<open>auto simp: bindKey_def wireOf_def encodable_def wire_in_inject wire_in6_inject mapped_inject split: sum.splits\<close>)
  next
    case (v6 w z)
    from valid(2) v6 show ?thesis
      by (cases rule: Unmap_cases) (use assms facts in \<open>auto simp: bindKey_def wireOf_def encodable_def wire_in_inject wire_in6_inject mapped_inject split: sum.splits\<close>)
  qed
qed

text \<open>C35: the check of a bind list is the check of what it binds. For addresses the family can carry, whose zones name different
  interfaces when they differ, \<open>validateLocalIPs\<close> accepts a list exactly when the sockaddrs \<open>encodeAddr\<close> makes of it are
  pairwise distinct; so an IPv4 address and its mapped form, and on an AF_INET6 socket both wildcards, count as one.\<close>

theorem validateLocalIPs_iff_distinct:
  assumes "list_all (encodable zi family) ips" "inj_on (encodeZone zi) (Zone ` set ips)"
  shows "validateLocalIPs family ips = None \<longleftrightarrow>
    distinct (List.map (\<lambda>ip. encodeAddr T zi (replicate 28 0) family ip port) ips)"
proof -
  have enc: "encodeAddr T zi (replicate 28 0) family ip port =
      Some (Inr (entrySize family, wireOf T zi family ip port @ replicate (28 - entrySize family) 0))" if "ip \<in> set ips" for ip
    using assms(1) that encodeAddr_encodable [of zi family ip "replicate 28 0" T port]
    by (auto simp: list_all_iff entrySize_def)
  have same: "bindKey family ip = bindKey family ip' \<longleftrightarrow>
      encodeAddr T zi (replicate 28 0) family ip port = encodeAddr T zi (replicate 28 0) family ip' port"
    if "ip \<in> set ips" "ip' \<in> set ips" for ip ip'
    using assms that enc bindKey_wireOf [of zi family ip ip' T port] by (auto simp: list_all_iff inj_on_def)
  have "inj_on (bindKey family) (set ips) \<longleftrightarrow> inj_on (\<lambda>ip. encodeAddr T zi (replicate 28 0) family ip port) (set ips)"
    unfolding inj_on_def using same by blast
  then show ?thesis by (simp add: validateLocalIPs_keys distinct_map)
qed

definition linkLocal :: "string \<Rightarrow> ipaddr" where
  "linkLocal zone = IP6 0xfe800000000000000000000000000001 zone"

theorem validateLocalIPs_iff_distinct_witness:
  "validateLocalIPs afInet6 [IP4 0, IP6 0 []] \<noteq> None \<and>
   encodeAddr amd64 (\<lambda>_. None) (replicate 28 0) afInet6 (IP4 0) 7 = encodeAddr amd64 (\<lambda>_. None) (replicate 28 0) afInet6 (IP6 0 []) 7"
proof -
  have "list_all (encodable (\<lambda>_. None) afInet6) [IP4 0, IP6 0 []]" by (simp add: encodable_def)
  moreover have "inj_on (encodeZone (\<lambda>_. None)) (Zone ` set [IP4 0, IP6 0 []])" by simp
  ultimately have "validateLocalIPs afInet6 [IP4 0, IP6 0 []] = None \<longleftrightarrow>
      distinct (List.map (\<lambda>ip. encodeAddr amd64 (\<lambda>_. None) (replicate 28 0) afInet6 ip 7) [IP4 0, IP6 0 []])"
    by (rule validateLocalIPs_iff_distinct)
  moreover have "encodeAddr amd64 (\<lambda>_. None) (replicate 28 0) afInet6 (IP4 0) 7 =
      encodeAddr amd64 (\<lambda>_. None) (replicate 28 0) afInet6 (IP6 0 []) 7" by code_simp
  ultimately show ?thesis by simp
qed

text \<open>The hypothesis on zones is needed: a name and the decimal index of one interface are two keys and one sockaddr.\<close>

lemma zone_alias_not_refused:
  "validateLocalIPs afInet6 [linkLocal ''eth0'', linkLocal ''2''] = None"
  "\<exists>b. encodeAddr amd64 [''eth0'' \<mapsto> 2] (replicate 28 0) afInet6 (linkLocal ''eth0'') 7 = Some (Inr b) \<and>
     encodeAddr amd64 [''eth0'' \<mapsto> 2] (replicate 28 0) afInet6 (linkLocal ''2'') 7 = Some (Inr b)"
proof -
  have w: "\<not> v4InV6 0xfe800000000000000000000000000001" by code_simp
  then show "validateLocalIPs afInet6 [linkLocal ''eth0'', linkLocal ''2''] = None"
    by (simp add: validateLocalIPs_keys bindKey_def linkLocal_def)
  have "parseUint32 ''2'' = Some 2" by (simp add: parseUint32_def decDigit_def)
  then have z: "encodeZone [''eth0'' \<mapsto> 2] ''eth0'' = Inr 2" "encodeZone [''eth0'' \<mapsto> 2] ''2'' = Inr 2"
    by (simp_all add: encodeZone_def)
  have "drop_bit 118 (0xfe800000000000000000000000000001 :: 128 word) = 0x3fa" by simp
  with w z have "encodable [''eth0'' \<mapsto> 2] afInet6 (linkLocal zone)" if "zone = ''eth0'' \<or> zone = ''2''" for zone
    using that by (auto simp: encodable_def linkLocal_def)
  moreover have "wireOf amd64 [''eth0'' \<mapsto> 2] afInet6 (linkLocal ''eth0'') 7 = wireOf amd64 [''eth0'' \<mapsto> 2] afInet6 (linkLocal ''2'') 7"
    using w z by (simp add: wireOf_def linkLocal_def)
  ultimately show "\<exists>b. encodeAddr amd64 [''eth0'' \<mapsto> 2] (replicate 28 0) afInet6 (linkLocal ''eth0'') 7 = Some (Inr b) \<and>
     encodeAddr amd64 [''eth0'' \<mapsto> 2] (replicate 28 0) afInet6 (linkLocal ''2'') 7 = Some (Inr b)"
    using encodeAddr_encodable [of "[''eth0'' \<mapsto> 2]" afInet6 _ "replicate 28 0" amd64 7] by (simp add: entrySize_def)
qed

end
