(* ===== verification/AppliedProps.thy ===== *)
theory AppliedProps
  imports SocketProps ConfigProps StoredProps
begin

text \<open>
  A Config from its fields to the kernel and back: \<open>prepare\<close>, \<open>applyConfig\<close> and the option getters of the connection, composed.
\<close>

section \<open>A kernel that keeps the plain options\<close>

text \<open>The options that Linux keeps as they are written and reports as they are kept, with the kind of the operation that writes each.\<close>

definition plain_opts :: "(sockopt \<times> nat) list" where
  "plain_opts = [(Sctp optEnableStreamReset, 12), (Sctp optDisableFragments, 18), (Sctp optRecvNxtInfo, 20), (Sctp optNoDelay, 21)]"

text \<open>What Linux does with them: an accepted write replaces the bytes kept, any other call leaves them, and a query for as many bytes
  reports them.\<close>

definition kernel_stores :: "'k sys \<Rightarrow> ('k \<Rightarrow> sockopt \<Rightarrow> bytes) \<Rightarrow> bool" where
  "kernel_stores K st \<longleftrightarrow> (\<forall>k. \<not> y_released K k) \<and>
     (\<forall>k so b e k' p. y_set K k so b = (e, k') \<and> p \<in> fst ` set plain_opts \<longrightarrow> st k' p = (if p = so \<and> e = None then b else st k p)) \<and>
     (\<forall>k p req. p \<in> fst ` set plain_opts \<and> length req = length (st k p) \<longrightarrow>
        (\<exists>k'. y_get K k p req = (Inr (st k p, of_nat (length (st k p))), k')))"

lemma stores_set:
  "kernel_stores K st \<Longrightarrow> y_set K k so b = (e, k') \<Longrightarrow> p \<in> fst ` set plain_opts \<Longrightarrow> st k' p = (if p = so \<and> e = None then b else st k p)"
  unfolding kernel_stores_def by blast

lemma applyOp_other:
  assumes "kernel_stores K st" "applyOp T K x k = Some (e, k')" "(p, n) \<in> set plain_opts" "opKind x \<noteq> n"
  shows "st k' p = st k p"
proof -
  have set: "st k2 p = st k1 p" if "y_set K k1 so b = (r, k2)" "so \<noteq> p" for k1 so b r k2
    using stores_set [OF assms(1) that(1), of p] that(2) assms(3) by force
  show ?thesis
    using assms(2-4)
    by (cases x)
       (auto simp: plain_opts_def raw_set_def raw_then_def setIntOpt_def setAssocValue_def setEvent_def setDefaultSndInfo_def setDefaultPrInfo_def
          kernel_of_def Let_def opt_numbers dest!: set split: option.splits prod.splits sum.splits if_splits bind_splits)
qed

lemma applyOps_other:
  assumes "kernel_stores K st" "applyOps T K xs k = Some (Inr (), k')" "(p, n) \<in> set plain_opts" "n \<notin> opKind ` set xs"
  shows "st k' p = st k p"
  using assms(2,4)
  by (induction xs arbitrary: k)
     (auto dest: applyOp_other [OF assms(1) _ assms(3)] split: option.splits prod.splits)

lemma applyOps_append:
  "applyOps T K (xs @ ys) k = Some (Inr (), k') \<longleftrightarrow>
     (\<exists>k1. applyOps T K xs k = Some (Inr (), k1) \<and> applyOps T K ys k1 = Some (Inr (), k'))"
  by (induction xs arbitrary: k) (auto split: option.splits prod.splits)

text \<open>An operation whose kind is the only one of its list is the last to write its option.\<close>

lemma applyOps_only:
  assumes "kernel_stores K st" "applyOps T K xs k = Some (Inr (), k')" "(p, n) \<in> set plain_opts"
    and "x \<in> set xs" "\<forall>y \<in> set xs. opKind y = n \<longrightarrow> y = x" "opKind x = n"
  shows "\<exists>k1 k2. applyOp T K x k1 = Some (None, k2) \<and> st k' p = st k2 p"
proof -
  obtain ys zs where xs: "xs = ys @ x # zs" "x \<notin> set zs" using split_list_last [OF assms(4)] by blast
  then obtain k1 k2 where "applyOp T K x k1 = Some (None, k2)" and z: "applyOps T K zs k2 = Some (Inr (), k')"
    using assms(2) by (auto simp: applyOps_append split: option.splits prod.splits)
  moreover have "n \<notin> opKind ` set zs" using assms(5) xs by auto
  ultimately show ?thesis using applyOps_other [OF assms(1) z assms(3)] by blast
qed

section \<open>The operations of a Config\<close>

text \<open>The operations of one kind.\<close>

definition ops_of_kind :: "nat \<Rightarrow> configOp list \<Rightarrow> configOp set" where
  "ops_of_kind n ops = {x \<in> set ops. opKind x = n}"

lemma ops_of_kind_simps [simp]:
  "ops_of_kind n [] = {}" "ops_of_kind n [x] = (if opKind x = n then {x} else {})"
  by (auto simp: ops_of_kind_def)

lemma ranged_key: "ranged E lo bs hi \<Longrightarrow> (n, b) \<in> set bs \<Longrightarrow> lo \<le> n"
  by (induction E lo bs hi rule: ranged.induct) auto

text \<open>Since the blocks go through the kinds in order, the operations of one kind are those of its block.\<close>

lemma ops_of_kind_block:
  "ranged E lo bs hi \<Longrightarrow> collect (List.map snd bs) = Some (Inr ops) \<Longrightarrow> (n, Some (Inr ys)) \<in> set bs \<Longrightarrow>
   ops_of_kind n ops = ops_of_kind n ys"
proof (induction E lo bs hi arbitrary: ops rule: ranged.induct)
  case (2 E lo k b bs hi)
  from 2(3) obtain xs zs where c: "b = Some (Inr xs)" "collect (List.map snd bs) = Some (Inr zs)" "ops = xs @ zs"
    by (auto simp: andThen_def split: option.splits sum.splits)
  have low: "\<forall>x \<in> set xs. opKind x \<le> k" and high: "\<forall>x \<in> set zs. k < opKind x"
    using 2(2) c collect_good [of E "Suc k" bs hi] by (auto simp: good_def list_all_iff)
  show ?case
  proof (cases "(n, Some (Inr ys)) \<in> set bs")
    case True
    moreover have "Suc k \<le> n" using 2(2) ranged_key [of E "Suc k" bs hi] True by auto
    ultimately have "ops_of_kind n zs = ops_of_kind n ys" "ops_of_kind n xs = {}"
      using 2(1) [of zs] 2(2) c(2) low by (auto simp: ops_of_kind_def)
    then show ?thesis using c(3) by (auto simp: ops_of_kind_def)
  next
    case False
    with 2(4) c(1) have "n = k" "xs = ys" by auto
    then show ?thesis using c(3) high by (auto simp: ops_of_kind_def)
  qed
qed simp

definition numbered :: "target \<Rightarrow> Config \<Rightarrow> socketStyle \<Rightarrow> (nat \<times> block) list" where
  "numbered T c style = zip [1, 2, 3, 4, 5, 6, 7, 8, 9, 10, 11, 12, 13, 14, 15, 16, 17, 18, 19, 20, 21, 22, 23]
     (blocks T c style (fragLevelOf c style))"

lemma prepared_kind:
  assumes "prepare T (Some cf) style = Some (Inr p)" "style \<noteq> styleFile" "(n, b) \<in> set (numbered T cf style)"
  shows "\<exists>ys. b = Some (Inr ys) \<and> ops_of_kind n (p_ops p) = ops_of_kind n ys"
proof -
  let ?bs = "blocks T cf style (fragLevelOf cf style)"
  from prepare_accepted [OF assms(1,2)] obtain ops sub where
    ops: "collect ?bs = Some (Inr ops)"
      "buildSubscriptions (case cf_Notifications cf of None \<Rightarrow> [] | Some ts \<Rightarrow> ts) 0 ops = Inr (sub, p_ops p)"
    by (auto simp: config_of_def)
  from buildSubscriptions_ok [OF ops(2)] obtain ns where ns: "p_ops p = ops @ List.map OpNotification ns" by blast
  have r: "ranged (ConfigProps.refusal cf) 0 (numbered T cf style) 23" "List.map snd (numbered T cf style) = ?bs"
    by (simp_all add: numbered_def blocks_def blocks_good)
  have "b \<in> set ?bs" using assms(3) by (auto simp: numbered_def dest: set_zip_rightD)
  then obtain ys where ys: "b = Some (Inr ys)" using collect_block [OF ops(1)] by blast
  have "n \<le> 23" using assms(3) by (auto simp: numbered_def dest!: set_zip_leftD)
  have "ops_of_kind n ops = ops_of_kind n ys"
    by (rule ops_of_kind_block [OF r(1)]) (use r(2) ops(1) assms(3) ys in simp_all)
  moreover have "ops_of_kind n (p_ops p) = ops_of_kind n ops" using \<open>n \<le> 23\<close> unfolding ns by (auto simp: ops_of_kind_def)
  ultimately show ?thesis using ys by simp
qed

lemma prepared_plain:
  assumes "prepare T (Some cf) style = Some (Inr p)" "style \<noteq> styleFile"
  shows "ops_of_kind 12 (p_ops p) = OpStreamResetMask ` set_option (cf_StreamResetMask cf)"
    "ops_of_kind 18 (p_ops p) = OpFragmentsDisabled ` set_option (cf_FragmentsDisabled cf)"
    "ops_of_kind 20 (p_ops p) = OpReceiveNxtInfo ` set_option (cf_ReceiveNxtInfo cf)"
    "ops_of_kind 21 (p_ops p) = OpNoDelay ` set_option (cf_NoDelay cf)"
proof -
  note kind = prepared_kind [OF assms]
  have mem: "(12, resetMaskOps cf) \<in> set (numbered T cf style)"
    "(18, boolOps OpFragmentsDisabled (cf_FragmentsDisabled cf)) \<in> set (numbered T cf style)"
    "(20, boolOps OpReceiveNxtInfo (cf_ReceiveNxtInfo cf)) \<in> set (numbered T cf style)"
    "(21, boolOps OpNoDelay (cf_NoDelay cf)) \<in> set (numbered T cf style)"
    by (simp_all add: numbered_def blocks_def)
  show "ops_of_kind 12 (p_ops p) = OpStreamResetMask ` set_option (cf_StreamResetMask cf)"
    using kind [OF mem(1)] by (cases "cf_StreamResetMask cf") (auto simp: resetMaskOps_def emit_def refuse_def split: if_splits)
  show "ops_of_kind 18 (p_ops p) = OpFragmentsDisabled ` set_option (cf_FragmentsDisabled cf)"
    "ops_of_kind 20 (p_ops p) = OpReceiveNxtInfo ` set_option (cf_ReceiveNxtInfo cf)"
    "ops_of_kind 21 (p_ops p) = OpNoDelay ` set_option (cf_NoDelay cf)"
    using kind [OF mem(2)] kind [OF mem(3)] kind [OF mem(4)]
    by (auto simp: boolOps_def emit_def split: option.splits)
qed

section \<open>From the Config to the getters\<close>

lemma field_applied:
  assumes "kernel_stores K st" "applyConfig T K ops k = Some (Inr (), k')" "(p, n) \<in> set plain_opts"
    and "ops_of_kind n ops = mk ` set_option v"
  shows "case v of None \<Rightarrow> st k' p = st k p | Some x \<Rightarrow> \<exists>k1 k2. applyOp T K (mk x) k1 = Some (None, k2) \<and> st k' p = st k2 p"
proof -
  have ops: "applyOps T K ops k = Some (Inr (), k')" using assms(2) by (simp add: applyConfig_def split: if_splits)
  show ?thesis
  proof (cases v)
    case None
    then have "n \<notin> opKind ` set ops" using assms(4) by (auto simp: ops_of_kind_def)
    then show ?thesis using None applyOps_other [OF assms(1) ops assms(3)] by simp
  next
    case (Some x)
    then have "ops_of_kind n ops = {mk x}" using assms(4) by simp
    then have m: "mk x \<in> set ops" "opKind (mk x) = n" "\<forall>y \<in> set ops. opKind y = n \<longrightarrow> y = mk x" unfolding ops_of_kind_def by blast+
    from applyOps_only [OF assms(1) ops assms(3) m(1,3,2)] Some show ?thesis by simp
  qed
qed

lemma stored_set:
  assumes "kernel_stores K st" "raw_set K so (Some b) k1 = Some (None, k2)" "so \<in> fst ` set plain_opts"
  shows "st k2 so = b"
  using stores_set [OF assms(1) _ assms(3)] assms(2) by (auto simp: raw_set_def)

lemma stored_get:
  assumes "kernel_stores K st" "p \<in> fst ` set plain_opts" "length req = length (st k p)"
  shows "\<exists>k'. getsockopt K p req k = Some (Inr (st k p, of_nat (length (st k p))), k')"
proof -
  obtain k' where "y_get K k p req = (Inr (st k p, of_nat (length (st k p))), k')" "\<not> y_released K k"
    using assms unfolding kernel_stores_def by blast
  then show ?thesis using assms(3) by (simp add: getsockopt_def go_copy_same)
qed

lemma boolOption_reads:
  assumes "kernel_stores K st" "Sctp opt \<in> fst ` set plain_opts" "c_life c \<noteq> lifeClosed"
    and "st k (Sctp opt) = splice 0 (enc_int (native T) (boolValue on)) (replicate 4 0)"
  shows "\<exists>k'. boolOption T K opt c k = Some (Inr on, k')"
  using stored_get [OF assms(1,2), of "replicate 4 0" k] assms(3,4)
  by (auto simp: boolOption_def intOption_def whenOpen_def io_bind_def io_wrap_def io_total_def io_ret_def no_panic codec_rw boolValue_def)

lemma mask_reads:
  assumes "kernel_stores K st" "c_life c \<noteq> lifeClosed"
    and "st k (Sctp optEnableStreamReset) = splice 4 (enc_int (native T) m) (replicate 8 0)"
  shows "\<exists>k'. Conn_StreamResetMask T K c k = Some (Inr m, k')"
proof -
  have "splice 0 (enc_int (native T) (c_assoc c)) (replicate 8 0) \<noteq> []" by (simp add: length_0_conv [symmetric] del: length_0_conv)
  then show ?thesis
    using stored_get [OF assms(1), of "Sctp optEnableStreamReset" "splice 0 (enc_int (native T) (c_assoc c)) (replicate 8 0)" k] assms(2,3)
    by (auto simp: Conn_StreamResetMask_def assocValueOption_def no_panic getOpt_def whenOpen_def io_bind_def io_wrap_def io_total_def codec_rw
      plain_opts_def)
qed



end
