(* ===== verification/Descriptors.thy ===== *)
theory Descriptors
  imports Sockets
begin

text \<open>
  The life of a descriptor (\<open>socket_linux.go\<close>, \<open>close_linux.go\<close>): opening it and handing it to its \<open>*os.File\<close>, adopting one of
  the caller's, and the steps that end it, \<open>sockCloseOps\<close>. A \<open>net\<close> is a \<open>sys\<close> with the other calls the package makes on one
  descriptor; every call gives the state of the world after it.
\<close>

section \<open>Descriptors\<close>

text \<open>The calls that make and end a descriptor, beside its option calls: \<open>n_socket\<close> opens one, which the later calls are made on,
  \<open>n_register\<close> clears its deadlines, which checks its registration with the runtime poller, \<open>n_raw\<close> is the \<open>SyscallConn\<close> of its
  file, \<open>n_linger\<close> and \<open>n_shutdown\<close> prepare its end (\<open>SHUT_RD\<close> when true, otherwise \<open>SHUT_WR\<close>),
  \<open>n_close\<close> is the Close of its \<open>*os.File\<close> and \<open>n_rawclose\<close> the \<open>close(2)\<close> of one that has none; \<open>n_dup\<close> duplicates the caller's
  descriptor (\<open>Inl\<close> when its file is closed), \<open>n_nonblock\<close> makes it non-blocking; \<open>n_sendend\<close> is a \<open>sendmsg\<close> of a control buffer and a
  payload; \<open>n_listen\<close> and \<open>n_accept\<close> are of a listening descriptor, \<open>n_somaxconn\<close> what \<open>readSomaxconn\<close> finds;
  \<open>n_connectx\<close> is \<open>SCTP_SOCKOPT_CONNECTX3\<close> with the packed addresses its argument points to, and answers the argument's association id
  beside the error; \<open>n_spare\<close> duplicates the descriptor itself and \<open>n_peeloff\<close> is \<open>SCTP_SOCKOPT_PEELOFF_FLAGS\<close>, which makes a new one; \<open>n_wait\<close> is a wait for readability, \<open>n_peek\<close> a \<open>MSG_PEEK\<close> of twelve bytes, \<open>n_clear\<close> the
  clearing of the read deadline, and \<open>n_ctx\<close> the error of the caller's context.\<close>

record 'k net = "'k sys" +
  n_socket :: "'k \<Rightarrow> u16 \<Rightarrow> errno option \<times> 'k"
  n_register :: "'k \<Rightarrow> goerr option \<times> 'k"
  n_raw :: "'k \<Rightarrow> goerr option \<times> 'k"
  n_linger :: "'k \<Rightarrow> errno option \<times> 'k"
  n_shutdown :: "'k \<Rightarrow> bool \<Rightarrow> errno option \<times> 'k"
  n_close :: "'k \<Rightarrow> goerr option \<times> 'k"
  n_prepare :: "'k \<Rightarrow> goerr option \<times> 'k"
  n_wait :: "'k \<Rightarrow> goerr option \<times> 'k"
  n_peek :: "'k \<Rightarrow> (errno + bytes \<times> u32) \<times> 'k"
  n_clear :: "'k \<Rightarrow> goerr option \<times> 'k"
  n_ctx :: "'k \<Rightarrow> goerr option \<times> 'k"
  n_rawclose :: "'k \<Rightarrow> 'k"
  n_dup :: "'k \<Rightarrow> (unit + errno option) \<times> 'k"
  n_nonblock :: "'k \<Rightarrow> errno option \<times> 'k"
  n_sendend :: "'k \<Rightarrow> bytes \<Rightarrow> bytes \<Rightarrow> errno option \<times> 'k"
  n_somaxconn :: "'k \<Rightarrow> int option \<times> 'k"
  n_listen :: "'k \<Rightarrow> int \<Rightarrow> errno option \<times> 'k"
  n_accept :: "'k \<Rightarrow> errno option \<times> 'k"
  n_deadline :: "'k \<Rightarrow> int option \<Rightarrow> goerr option \<times> 'k"
  n_connectx :: "'k \<Rightarrow> bytes \<Rightarrow> (errno option \<times> AssocID) \<times> 'k"
  n_spare :: "'k \<Rightarrow> errno option \<times> 'k"
  n_peeloff :: "'k \<Rightarrow> bytes \<Rightarrow> errno option \<times> 'k"

text \<open>What else a connection's setup asks of the host: interface indexes and names, the holders of an address, the
  platform's errno numbers, and the order in which Go visits the map of event types.\<close>

record hostEnv =
  h_zi :: zoneEnv
  h_ifx :: ifaceEnv
  h_holders :: "ipaddr \<Rightarrow> u32 list"
  h_errno :: "u32 \<Rightarrow> errno"
  h_types :: "EventType list"

definition sys_of :: "'k net \<Rightarrow> 'k sys" where
  "sys_of N = sys.truncate N"

definition io_call :: "('k \<Rightarrow> goerr option \<times> 'k) \<Rightarrow> ('k, unit) io" where
  "io_call f = (\<lambda>k. case f k of (None, k') \<Rightarrow> Some (Inr (), k') | (Some e, k') \<Rightarrow> Some (Inl (Some e), k'))"

text \<open>A failure that is dropped, as \<open>_ =\<close> does, and an error returned after it.\<close>

definition io_fail_after :: "('k, 'b) io \<Rightarrow> goerr option \<Rightarrow> ('k, 'a) io" where
  "io_fail_after m e = (\<lambda>k. case m k of None \<Rightarrow> None | Some (r, k') \<Rightarrow> Some (Inl e, k'))"

text \<open>\<open>io_catch m h\<close>: \<open>if err := m; err != nil { h }\<close>.\<close>

definition io_catch :: "('k, 'a) io \<Rightarrow> (goerr option \<Rightarrow> ('k, 'a) io) \<Rightarrow> ('k, 'a) io" where
  "io_catch m h = (\<lambda>k. case m k of None \<Rightarrow> None | Some (Inl e, k') \<Rightarrow> h e k' | Some (Inr x, k') \<Rightarrow> Some (Inr x, k'))"

definition wrapSocketFile :: "'k net \<Rightarrow> ('k, unit) io" where
  "wrapSocketFile N =
     io_bind (io_catch (io_call (n_register N)) (\<lambda>e.
       io_fail_after (io_call (n_close N)) (map_option (Wrapped ''sctp: registering socket with the runtime poller'') e))) (\<lambda>_.
     io_catch (io_call (n_raw N)) (\<lambda>e. io_fail_after (io_call (n_close N)) e))"

definition openSocket :: "'k net \<Rightarrow> u16 \<Rightarrow> ('k, unit) io" where
  "openSocket N family = io_bind (\<lambda>k. case n_socket N k family of
       (Some e, k') \<Rightarrow> Some (Inl (Some (socketError e)), k') | (None, k') \<Rightarrow> Some (Inr (), k')) (\<lambda>_. wrapSocketFile N)"

section \<open>Adopting a descriptor\<close>

text \<open>\<open>syscall.GetsockoptInt\<close>: an \<open>int\<close> option.\<close>

definition GetsockoptInt :: "target \<Rightarrow> 'k sys \<Rightarrow> sockopt \<Rightarrow> 'k \<Rightarrow> (errno + u32) \<times> 'k" where
  "GetsockoptInt T K so k = (case y_get K k so (replicate 4 0) of
     (Inl e, k') \<Rightarrow> (Inl e, k')
   | (Inr (r, l), k') \<Rightarrow> (Inr (rd32 (native T) (go_copy (replicate 4 0) r) 0), k'))"

definition getInt :: "target \<Rightarrow> 'k sys \<Rightarrow> sockopt \<Rightarrow> ('k, u32) io" where
  "getInt T K so = (\<lambda>k. case GetsockoptInt T K so k of
     (Inl e, k') \<Rightarrow> Some (Inl (Some (SyscallError ''getsockopt'' (Errno e))), k') | (Inr v, k') \<Rightarrow> Some (Inr v, k'))"

definition SOCK_STREAM :: u32 where
  "SOCK_STREAM = 1"

definition checkAdoptable :: "target \<Rightarrow> 'k sys \<Rightarrow> bool \<Rightarrow> ('k, u16) io" where
  "checkAdoptable T K listening =
     io_bind (getInt T K SoProtocol) (\<lambda>proto.
     if proto \<noteq> ipprotoSCTP then io_err (Some (InvalidArg ''the descriptor is not an SCTP socket (SO_PROTOCOL %d, not IPPROTO_SCTP)''))
     else io_bind (getInt T K SoType) (\<lambda>t.
     if t \<noteq> SOCK_STREAM then io_err (Some (InvalidArg ''the descriptor is not a one-to-one SCTP socket (SO_TYPE %d, not SOCK_STREAM)''))
     else io_bind (getInt T K SoDomain) (\<lambda>family.
     if listening then io_bind (getInt T K SoAcceptconn) (\<lambda>acc.
       if acc = 0 then io_err (Some (InvalidArg ''the descriptor is not a listening socket (SO_ACCEPTCONN is 0)''))
       else io_ret (ucast family))
     else (\<lambda>k. case y_get K k (Sctp optStatus) (replicate sizeStatus 0) of
         (Inr (r, l), k') \<Rightarrow>
           if rd32 (native T) (go_copy (replicate sizeStatus 0) r) statusStateOff \<noteq> StateClosed then Some (Inr (ucast family), k')
           else Some (Inl (Some (InvalidArg ''the descriptor holds no established association (SCTP_STATUS finds none)'')), k')
       | (Inl e, k') \<Rightarrow>
           Some (Inl (Some (if e = EINVAL
             then InvalidArg ''the descriptor holds no established association (SCTP_STATUS finds none)''
             else SyscallError ''getsockopt'' (Errno e))), k')))))"

text \<open>\<open>adoptFile\<close>; a nil file is \<open>hasFile = False\<close>.\<close>

definition adoptFile :: "target \<Rightarrow> 'k net \<Rightarrow> bool \<Rightarrow> bool \<Rightarrow> ('k, u16) io" where
  "adoptFile T N hasFile listening =
     (if \<not> hasFile then io_err (Some (InvalidArg ''the *os.File is nil''))
      else (\<lambda>k. case n_dup N k of
          (Inl u, k') \<Rightarrow> Some (Inl (Some (SyscallError ''fcntl'' (Errno EBADF))), k')
        | (Inr (Some e), k') \<Rightarrow> Some (Inl (Some (SyscallError ''fcntl'' (Errno e))), k')
        | (Inr None, k') \<Rightarrow>
            io_bind (io_catch
              (io_bind (checkAdoptable T (sys_of N) listening) (\<lambda>family k1. case n_nonblock N k1 of
                 (None, k2) \<Rightarrow> Some (Inr family, k2)
               | (Some e, k2) \<Rightarrow> Some (Inl (Some (SyscallError ''fcntl'' (Errno e))), k2)))
              (\<lambda>e k1. Some (Inl e, n_rawclose N k1))) (\<lambda>family.
            io_bind (wrapSocketFile N) (\<lambda>_. io_ret family)) k'))"

section \<open>Starting an association\<close>

definition connectxLength :: "nat \<Rightarrow> goerr option" where
  "connectxLength n = (if n = 0 \<or> n > 2147483647 then Some (InvalidArg ''packed connectx address length'') else None)"

text \<open>\<open>connectxID\<close>: the id, which is 0 on every error but \<open>EINPROGRESS\<close>, and the error.\<close>

definition connectxID :: "'k net \<Rightarrow> bytes \<Rightarrow> 'k \<Rightarrow> (AssocID \<times> goerr option) \<times> 'k" where
  "connectxID N addrs k =
     (case connectxLength (length addrs) of
        Some e \<Rightarrow> ((0, Some e), k)
      | None \<Rightarrow>
          if y_released N k then ((0, Some NetErrClosed), k)
          else (case n_connectx N k addrs of
              ((None, i), k') \<Rightarrow> ((i, None), k')
            | ((Some e, i), k') \<Rightarrow> ((if e = EINPROGRESS then i else 0, Some (Errno e)), k')))"

section \<open>Closing\<close>

definition ops_release :: "'k net \<Rightarrow> ('k, unit) io" where
  "ops_release N = io_call (n_close N)"

text \<open>\<open>sockCloseOps.abortive\<close>: the two steps before the release are made when the descriptor is still there, and the release
  whatever they report.\<close>

definition ops_step :: "'k net \<Rightarrow> ('k \<Rightarrow> errno option \<times> 'k) \<Rightarrow> 'k \<Rightarrow> goerr option \<times> 'k" where
  "ops_step N f k = (if y_released N k then (Some NetErrClosed, k) else (case f k of (e, k') \<Rightarrow> (map_option Errno e, k')))"

definition ops_abortive :: "'k net \<Rightarrow> ('k, unit) io" where
  "ops_abortive N = (\<lambda>k.
     let (lerr, k1) = ops_step N (n_linger N) k;
         lerr' = (if lerr \<noteq> None \<and> \<not> isAn lerr NetErrClosed then syscallError ''setsockopt'' lerr else lerr);
         (serr, k2) = ops_step N (\<lambda>k. n_shutdown N k True) k1;
         (cerr, k3) = n_close N k2
     in Some (case errorsJoin [lerr', cerr] of None \<Rightarrow> Inr () | Some e \<Rightarrow> Inl (Some e), k3))"

text \<open>\<open>assocGone\<close>; the lifecycle's status query is answered by it.\<close>

definition assocGone :: "target \<Rightarrow> 'k sys \<Rightarrow> ('k, bool) io" where
  "assocGone T K = (\<lambda>k. case socket_status T K k of
     None \<Rightarrow> None
   | Some (Inr (i, st), k') \<Rightarrow> Some (Inr (st = StateClosed), k')
   | Some (Inl e, k') \<Rightarrow>
       if isAn e (Errno EINVAL) \<or> isAn e (Errno ENOTCONN) then Some (Inr True, k')
       else Some (Inl (syscallError ''getsockopt'' e), k'))"

definition eofSendError :: "goerr option \<Rightarrow> goerr option" where
  "eofSendError e = syscallError ''sendmsg'' e"

text \<open>\<open>rawSendEnd\<close>: one \<open>SCTP_SNDINFO\<close> record with the flag, and the cause as payload.\<close>

definition rawSendEnd :: "target \<Rightarrow> 'k net \<Rightarrow> u16 \<Rightarrow> AssocID \<Rightarrow> bytes \<Rightarrow> 'k raw" where
  "rawSendEnd T N flag assoc cause = (\<lambda>k.
     case appendSendCmsgs T 0 (replicate (sndCmsgSpace T) 0)
            (Some \<lparr>snd_Stream = 0, snd_Flags = flag, snd_PPID = 0, snd_Context = 0\<rparr>) assoc None None of
       None \<Rightarrow> None
     | Some (n, buf) \<Rightarrow> Some (n_sendend N k (take n buf) cause))"

definition rawSendEOF :: "target \<Rightarrow> 'k net \<Rightarrow> 'k raw" where
  "rawSendEOF T N = rawSendEnd T N sndFlagEOF 0 []"

text \<open>\<open>sendEOF\<close> on a connection's latch, while its mutex is held: the error it returns, and the latch after it.\<close>

definition sendEOF :: "target \<Rightarrow> 'k net \<Rightarrow> termState \<Rightarrow> 'k \<Rightarrow> ((goerr option \<times> termState) \<times> 'k) option" where
  "sendEOF T N t k =
     (if t_err t \<noteq> None then Some ((eofSendError (t_err t), t), k)
      else case rawSendEOF T N k of
        None \<Rightarrow> None
      | Some (None, k') \<Rightarrow> Some ((None, t), k')
      | Some (Some e, k') \<Rightarrow> (case sendErrorLocked (Some (Errno e)) t of (err, t') \<Rightarrow> Some ((eofSendError err, t'), k')))"

text \<open>\<open>startShutdown\<close>, with the time at which a writer is woken.\<close>

definition startShutdown ::
  "target \<Rightarrow> 'k net \<Rightarrow> connKind \<Rightarrow> int \<Rightarrow> termState \<Rightarrow> sendState \<Rightarrow> 'k \<Rightarrow> ((goerr option \<times> termState \<times> sendState) \<times> 'k) option" where
  "startShutdown T N kind now t s k =
     (if kind = kindPeeled
      then if y_released N k then Some ((Some NetErrClosed, t, s), k)
           else (case sendEOF T N t k of
               None \<Rightarrow> None
             | Some ((e, t'), k') \<Rightarrow> Some ((e, t', if e = None then wakeShutdown now s else s), k'))
      else (case ops_step N (\<lambda>k. n_shutdown N k False) k of
          (None, k') \<Rightarrow> Some ((None, t, wakeShutdown now s), k')
        | (Some e, k') \<Rightarrow> Some ((if isAn (Some e) NetErrClosed then Some e else syscallError ''shutdown'' (Some e), t, s), k')))"

end
