(* ===== verification/Conns.thy ===== *)
theory Conns
  imports Descriptors
begin

text \<open>
  A connection from its descriptor to its first use (\<open>conn_linux.go\<close>): \<open>newConn\<close> and \<open>init\<close>, the address snapshots, \<open>BindAdd\<close> and
  \<open>BindRemove\<close>, the live address queries, deadlines, and \<open>FileConn\<close>.
\<close>

section \<open>Connections\<close>

text \<open>A Conn with its address snapshots, which \<open>c_laddr\<close> and \<open>c_raddr\<close> show as text, and its subscription set.\<close>

record netConn = sendConn +
  n_laddr :: "Addr option"
  n_raddr :: "Addr option"
  n_subs :: eventSet
  n_closeWait :: int

definition plain :: "netConn \<Rightarrow> sendConn" where
  "plain c = sendConn.truncate c"

definition storeLocal :: "Addr \<Rightarrow> netConn \<Rightarrow> netConn" where
  "storeLocal a c = c\<lparr>n_laddr := Some a, c_laddr := netAddr (Some a)\<rparr>"

definition storeRemote :: "Addr \<Rightarrow> netConn \<Rightarrow> netConn" where
  "storeRemote a c = c\<lparr>n_raddr := Some a, c_raddr := netAddr (Some a)\<rparr>"

text \<open>One list of \<open>refreshSnapshots\<close>: a list that cannot be read leaves the snapshot, or an empty one.\<close>

definition refreshOne ::
  "(netConn \<Rightarrow> Addr option) \<Rightarrow> (Addr \<Rightarrow> netConn \<Rightarrow> netConn) \<Rightarrow> ('k, Addr) io \<Rightarrow> netConn \<Rightarrow> ('k, netConn) io" where
  "refreshOne load store m c = (\<lambda>k. case m k of
     None \<Rightarrow> None
   | Some (Inr a, k') \<Rightarrow> Some (Inr (store a c), k')
   | Some (Inl e, k') \<Rightarrow> Some (Inr (if load c = None then store Addr_zero c else c), k'))"

definition ips_of :: "Addr option \<Rightarrow> ipaddr list" where
  "ips_of a = (case a of None \<Rightarrow> [] | Some x \<Rightarrow> ad_IPs x)"

definition refreshSnapshots :: "target \<Rightarrow> hostEnv \<Rightarrow> 'k sys \<Rightarrow> netConn \<Rightarrow> ('k, netConn) io" where
  "refreshSnapshots T H K c =
     io_bind (refreshOne n_laddr storeLocal (getAddrs T (h_ifx H) K optGetLocalAddrs (c_assoc c)) c) (\<lambda>c1.
     io_bind (refreshOne n_raddr storeRemote (getAddrs T (h_ifx H) K optGetPeerAddrs (c_assoc c1)) c1) (\<lambda>c2.
       io_ret (if c_family c2 = afInet6
               then c2\<lparr>c_pathScope := linkLocalPathScope (h_zi H) (ips_of (n_laddr c2)) (ips_of (n_raddr c2)) (h_holders H)\<rparr>
               else c2)))"

text \<open>\<open>recvState.bind\<close>: the connection's latch, which holds nothing yet, and its subscriptions.\<close>

definition recv_bind :: "eventSet \<Rightarrow> recvState \<Rightarrow> recvState" where
  "recv_bind subs r = r\<lparr>r_term := Some term_zero, r_subs := ucast subs\<rparr>"

definition init_subs :: "target \<Rightarrow> hostEnv \<Rightarrow> 'k sys \<Rightarrow> prepared \<Rightarrow> netConn \<Rightarrow> ('k, netConn) io" where
  "init_subs T H K p c =
     io_bind (if p_adopted p then kernelSubscriptions T K (h_types H) else io_ret (p_subscribed p)) (\<lambda>subs.
     io_bind (if c_kind c = kindDialed then io_ret ()
              else io_wrap (syscallError ''setsockopt'') (control_raw K
                (raw_then (setEvent T K EventAssocChange True) (setEvent T K EventPartialDelivery True)))) (\<lambda>_.
       io_ret (c\<lparr>n_subs := subs, c_recv := recv_bind subs (c_recv c)\<rparr>)))"

text \<open>The association id, and whether the association has already ended.\<close>

definition init_assoc :: "target \<Rightarrow> 'k sys \<Rightarrow> netConn \<Rightarrow> ('k, netConn \<times> bool) io" where
  "init_assoc T K c = (\<lambda>k.
     case socket_status T K k of
       None \<Rightarrow> None
     | Some (Inr (i, st), k') \<Rightarrow>
         Some (Inr (if st \<noteq> StateClosed then (c\<lparr>c_assoc := i\<rparr>, False)
                    else (storeRemote Addr_zero (storeLocal Addr_zero c), True)), k')
     | Some (Inl e, k') \<Rightarrow>
         if isAn e (Errno EINVAL) then Some (Inr (storeRemote Addr_zero (storeLocal Addr_zero c), True), k')
         else Some (Inl (syscallError ''getsockopt'' e), k'))"

definition init_interleaved :: "target \<Rightarrow> 'k sys \<Rightarrow> bool \<Rightarrow> netConn \<Rightarrow> ('k, netConn) io" where
  "init_interleaved T K ended c = (\<lambda>k.
     case Conn_InterleavingSupported T K (plain c) k of
       None \<Rightarrow> None
     | Some (Inr on, k') \<Rightarrow> Some (Inr (c\<lparr>c_recv := (c_recv c)\<lparr>r_interleaved := on\<rparr>\<rparr>), k')
     | Some (Inl e, k') \<Rightarrow>
         if \<not> ended then Some (Inl e, k')
         else Some (Inr (c\<lparr>c_recv := (c_recv c)\<lparr>r_interleaved := False\<rparr>\<rparr>), k'))"

definition send_init :: "target \<Rightarrow> 'k sys \<Rightarrow> netConn \<Rightarrow> ('k, netConn) io" where
  "send_init T K c = (\<lambda>k. Some (Inr (c\<lparr>c_send :=
     readDefaults T (if y_released K k then Some NetErrClosed else None)
       (k_get (kernel_of K) k optDefaultSndInfo) (k_get (kernel_of K) k optDefaultPRInfo)
       (sendState_bind (Some term_zero) False)\<rparr>), k))"

definition Conn_init :: "target \<Rightarrow> hostEnv \<Rightarrow> 'k sys \<Rightarrow> prepared \<Rightarrow> netConn \<Rightarrow> ('k, netConn) io" where
  "Conn_init T H K p c =
     io_bind (init_subs T H K p c) (\<lambda>c1.
     io_bind (init_assoc T K c1) (\<lambda>(c2, ended).
     io_bind (init_interleaved T K ended c2) (\<lambda>c3.
     io_bind (if ended then io_ret c3
              else io_bind (refreshSnapshots T H K c3) (\<lambda>c4.
                io_ret (case n_raddr c4 of None \<Rightarrow> c4 | Some ra \<Rightarrow> c4\<lparr>c_peerPort := ad_Port ra\<rparr>))) (\<lambda>c5.
       send_init T K c5))))"

text \<open>The Conn before \<open>init\<close>: everything zero but what \<open>newConn\<close> is given.\<close>

definition blank_conn :: "recvState \<Rightarrow> bool \<Rightarrow> connKind \<Rightarrow> u16 \<Rightarrow> string \<Rightarrow> prepared \<Rightarrow> netConn" where
  "blank_conn r captured kind family network p =
     \<lparr>c_recv = r, c_life = lifeOpen, c_handler = p_handler p, c_captured = captured, c_abortErr = None, c_aborts = 0,
      c_handled = [], c_network = network, c_laddr = None, c_raddr = None, c_kind = kind, c_family = family,
      c_peerPort = 0, c_pathScope = 0, c_assoc = 0, c_send = sendState_bind None False,
      n_laddr = None, n_raddr = None, n_subs = 0, n_closeWait = p_closeTimeout p\<rparr>"

definition newConn :: "target \<Rightarrow> hostEnv \<Rightarrow> 'k net \<Rightarrow> prepared \<Rightarrow> netConn \<Rightarrow> ('k, netConn) io" where
  "newConn T H N p c = io_catch (Conn_init T H (sys_of N) p c) (\<lambda>e.
     io_fail_after (if c_kind c = kindAdopted then io_call (n_close N) else ops_abortive N) e)"

section \<open>Binding addresses\<close>

definition bindError :: "goerr option \<Rightarrow> netConn \<Rightarrow> goerr option" where
  "bindError e c = opError (c_captured c) ''bindx'' (c_network c) None (c_laddr c) e"

definition conn_bindx ::
  "target \<Rightarrow> hostEnv \<Rightarrow> 'k sys \<Rightarrow> nat \<Rightarrow> string \<Rightarrow> ipaddr list \<Rightarrow> netConn \<Rightarrow> ('k, netConn) io" where
  "conn_bindx T H K opt name ips c =
     (if c_life c = lifeClosed then io_err (bindError (Some NetErrClosed) c)
      else io_bind (io_check (\<lambda>e. bindError e c) (bindxAddrs T (h_zi H) (c_family c) name ips)) (\<lambda>buf.
        io_bind (if opt = optSockoptBindxRemove
                 then (\<lambda>k. case getAddrs T (h_ifx H) K optGetLocalAddrs 0 k of
                     None \<Rightarrow> None
                   | Some (Inr bound, k') \<Rightarrow>
                       if removesEveryAddress (ad_IPs bound) ips
                       then Some (Inl (bindError (Some (InvalidArg (name @ '' would remove every local address''))) c), k')
                       else Some (Inr (), k')
                   | Some (Inl e, k') \<Rightarrow> Some (Inr (), k'))
                 else io_ret ()) (\<lambda>_.
        io_bind (io_wrap (\<lambda>e. optError (c_captured c) ''bindx'' ''setsockopt'' (c_network c) None (c_laddr c) e)
                   (socket_bindx K opt buf)) (\<lambda>_.
          if c_assoc c \<noteq> 0 then refreshSnapshots T H K c else io_ret c))))"

definition Conn_BindAdd :: "target \<Rightarrow> hostEnv \<Rightarrow> 'k sys \<Rightarrow> ipaddr list \<Rightarrow> netConn \<Rightarrow> ('k, netConn) io" where
  "Conn_BindAdd T H K ips c = conn_bindx T H K optSockoptBindxAdd ''BindAdd'' ips c"

definition Conn_BindRemove :: "target \<Rightarrow> hostEnv \<Rightarrow> 'k sys \<Rightarrow> ipaddr list \<Rightarrow> netConn \<Rightarrow> ('k, netConn) io" where
  "Conn_BindRemove T H K ips c = conn_bindx T H K optSockoptBindxRemove ''BindRemove'' ips c"

text \<open>\<open>errors.As(err, &errno)\<close>.\<close>

fun asErrno :: "goerr \<Rightarrow> errno option" and asErrnos :: "goerr list \<Rightarrow> errno option" where
  "asErrno (Errno x) = Some x"
| "asErrno (InvalidArg m) = Some EINVAL"
| "asErrno (UnsupportedErr x) = Some x"
| "asErrno (SyscallError n e) = asErrno e"
| "asErrno (OpError op n s a e) = asErrno e"
| "asErrno (Wrapped m e) = asErrno e"
| "asErrno (Join es) = asErrnos es"
| "asErrno _ = None"
| "asErrnos [] = None"
| "asErrnos (e # es) = (case asErrno e of Some x \<Rightarrow> Some x | None \<Rightarrow> asErrnos es)"

text \<open>\<open>liveAddrs\<close>; an association that ended before Accept is answered without asking.\<close>

definition liveAddrs :: "target \<Rightarrow> hostEnv \<Rightarrow> 'k sys \<Rightarrow> nat \<Rightarrow> netConn \<Rightarrow> ('k, Addr) io" where
  "liveAddrs T H K opt c =
     (if c_life c = lifeClosed then io_err (opError (c_captured c) ''get'' (c_network c) None (c_laddr c) (Some NetErrClosed))
      else if c_assoc c = 0
      then io_err (optError (c_captured c) ''get'' ''getsockopt'' (c_network c) None (c_laddr c) (Some (Errno EINVAL)))
      else io_wrap (\<lambda>e. case Option.bind e asErrno of
             Some x \<Rightarrow> optError (c_captured c) ''get'' ''getsockopt'' (c_network c) None (c_laddr c) (Some (Errno x))
           | None \<Rightarrow> opError (c_captured c) ''get'' (c_network c) None (c_laddr c) e)
         (getAddrs T (h_ifx H) K opt (c_assoc c)))"

definition LocalAddrs :: "target \<Rightarrow> hostEnv \<Rightarrow> 'k sys \<Rightarrow> netConn \<Rightarrow> ('k, Addr) io" where
  "LocalAddrs T H K c = liveAddrs T H K optGetLocalAddrs c"

definition PeerAddrs :: "target \<Rightarrow> hostEnv \<Rightarrow> 'k sys \<Rightarrow> netConn \<Rightarrow> ('k, Addr) io" where
  "PeerAddrs T H K c = liveAddrs T H K optGetPeerAddrs c"

definition closeError :: "goerr option \<Rightarrow> netConn \<Rightarrow> goerr option" where
  "closeError e c = (if e = None then None else opError (c_captured c) ''close'' (c_network c) (c_laddr c) (c_raddr c) e)"

section \<open>Deadlines and closing\<close>

text \<open>\<open>setDeadline\<close>: \<open>err\<close> is what the file's own setting of the deadline returned.\<close>

definition Conn_setDeadline :: "int \<Rightarrow> goerr option \<Rightarrow> int option \<Rightarrow> deadlineMode \<Rightarrow> netConn \<Rightarrow> goerr option \<times> netConn" where
  "Conn_setDeadline now err t mode c =
     (let wrap = opError (c_captured c) ''set'' (c_network c) None (c_laddr c) in
      if c_life c = lifeClosed then (wrap (Some NetErrClosed), c)
      else (wrap err, c\<lparr>c_send := send_setDeadline now t mode (c_send c)\<rparr>))"

text \<open>The call of the lifecycle (theory \<open>Lifecycle\<close>) each method makes; it returns \<open>closeError\<close> of what that call returns.\<close>

definition Conn_Close :: "netConn \<Rightarrow> pc" where
  "Conn_Close c = CloseStart (n_closeWait c)"

definition CloseWithTimeout :: "int \<Rightarrow> netConn \<Rightarrow> pc" where
  "CloseWithTimeout d c = CloseStart d"

definition Conn_Abort :: "netConn \<Rightarrow> pc" where
  "Conn_Abort c = AbortStart"

definition Conn_Shutdown :: "netConn \<Rightarrow> pc" where
  "Conn_Shutdown c = ShutStart"

section \<open>Adopted connections\<close>

text \<open>\<open>fileConn\<close> and \<open>FileConn\<close>.\<close>

definition fileConn :: "target \<Rightarrow> hostEnv \<Rightarrow> 'k net \<Rightarrow> recvState \<Rightarrow> bool \<Rightarrow> Config option \<Rightarrow> bool \<Rightarrow> ('k, netConn) io" where
  "fileConn T H N r captured cfg hasFile =
     io_bind (io_check id (prepare T cfg styleFile)) (\<lambda>p.
     io_bind (adoptFile T N hasFile False) (\<lambda>family.
     io_bind (io_catch (applyConfig T (sys_of N) (p_ops p)) (\<lambda>e. io_fail_after (io_call (n_close N)) e)) (\<lambda>_.
       newConn T H N p (blank_conn r captured kindAdopted family ''sctp'' p))))"

definition FileConn :: "target \<Rightarrow> hostEnv \<Rightarrow> 'k net \<Rightarrow> recvState \<Rightarrow> bool \<Rightarrow> Config option \<Rightarrow> bool \<Rightarrow> ('k, netConn) io" where
  "FileConn T H N r captured cfg hasFile =
     io_wrap (opError captured ''file'' ''sctp'' None None) (fileConn T H N r captured cfg hasFile)"

end
