(* ===== verification/Dialing.thy ===== *)
theory Dialing
  imports Conns
begin

text \<open>
  Dial (\<open>dial_linux.go\<close>): the checks of \<open>Config.dial\<close>, one attempt (\<open>dialAttempt.run\<close>) with its setup, its start and the wait for
  establishment, what an abandoned attempt does with its descriptor, and the loop that starts over after a self-connection.
\<close>

section \<open>Waiting for establishment\<close>

definition maxSelfConnectRetries :: nat where
  "maxSelfConnectRetries = 2"

text \<open>What one look at a socket being set up finds.\<close>

datatype verdict = Undecided | Established | SetupFailed goerr

definition setupFailedNotification :: "target \<Rightarrow> bytes \<Rightarrow> u32 \<Rightarrow> bool" where
  "setupFailedNotification T b flags \<longleftrightarrow> length b \<ge> 12 \<and> has_flag flags msgNotification \<and>
     rd16 (native T) b assocChangeTypeOff = EventAssocChange \<and> rd16 (native T) b assocChangeStateOff = AssocCantStart"

definition soError :: "target \<Rightarrow> 'k sys \<Rightarrow> 'k \<Rightarrow> (errno + u32) \<times> 'k" where
  "soError T K = GetsockoptInt T K SoError"

definition failedSetupError :: "target \<Rightarrow> hostEnv \<Rightarrow> 'k sys \<Rightarrow> 'k \<Rightarrow> goerr \<times> 'k" where
  "failedSetupError T H K k = (case soError T K k of
     (Inl e, k') \<Rightarrow> (SyscallError ''getsockopt'' (Errno e), k')
   | (Inr v, k') \<Rightarrow> (SyscallError ''sctp_connectx'' (Errno (if v = 0 then ECONNREFUSED else h_errno H v)), k'))"

definition setup_check :: "target \<Rightarrow> hostEnv \<Rightarrow> 'k net \<Rightarrow> 'k \<Rightarrow> verdict \<times> 'k" where
  "setup_check T H N k =
     (case soError T (sys_of N) k of
        (Inl e, k1) \<Rightarrow> (SetupFailed (SyscallError ''getsockopt'' (Errno e)), k1)
      | (Inr v, k1) \<Rightarrow>
          if v \<noteq> 0 then (SetupFailed (SyscallError ''sctp_connectx'' (Errno (h_errno H v))), k1)
          else (case y_get N k1 (Sctp optStatus) (replicate sizeStatus 0) of
              (Inr w, k2) \<Rightarrow> (Established, k2)
            | (Inl e, k2) \<Rightarrow>
                if e \<noteq> EINVAL then (SetupFailed (SyscallError ''getsockopt'' (Errno e)), k2)
                else (case n_peek N k2 of
                    (Inl e, k3) \<Rightarrow> (Undecided, k3)
                  | (Inr (b, flags), k3) \<Rightarrow>
                      if b \<noteq> [] \<or> has_flag flags msgNotification
                      then (if setupFailedNotification T b flags
                            then (let (e, k4) = failedSetupError T H (sys_of N) k3 in (SetupFailed e, k4))
                            else (Established, k3))
                      else (Undecided, k3))))"

text \<open>\<open>raw.Read\<close> with that look as its callback: \<open>prepareRead\<close> was done, a look that decides ends it, otherwise it waits and looks
  again, until a wait fails.\<close>

partial_function (option) setup_wait ::
  "target \<Rightarrow> hostEnv \<Rightarrow> 'k net \<Rightarrow> 'k \<Rightarrow> ((goerr option \<times> verdict) \<times> 'k) option" where
  "setup_wait T H N k =
     (case setup_check T H N k of
        (Undecided, k') \<Rightarrow> (case n_wait N k' of (None, k2) \<Rightarrow> setup_wait T H N k2 | (Some e, k2) \<Rightarrow> Some ((Some e, Undecided), k2))
      | (v, k') \<Rightarrow> Some ((None, v), k'))"

definition setup_read :: "target \<Rightarrow> hostEnv \<Rightarrow> 'k net \<Rightarrow> 'k \<Rightarrow> ((goerr option \<times> verdict) \<times> 'k) option" where
  "setup_read T H N k = (case n_prepare N k of (Some e, k') \<Rightarrow> Some ((Some e, Undecided), k') | (None, k') \<Rightarrow> setup_wait T H N k')"

definition awaitEstablished :: "target \<Rightarrow> hostEnv \<Rightarrow> 'k net \<Rightarrow> ('k, unit) io" where
  "awaitEstablished T H N = (\<lambda>k.
     case setup_read T H N k of
       None \<Rightarrow> None
     | Some ((err, v), k1) \<Rightarrow>
         (let (v, k2) = (if err \<noteq> None \<and> \<not> y_released N k1 then setup_check T H N k1 else (v, k1)) in
          case v of
            Undecided \<Rightarrow>
              (let (cerr, k3) = n_ctx N k2
               in Some (Inl (if isAn err DeadlineExceeded \<and> cerr \<noteq> None then cerr else err), k3))
          | SetupFailed e \<Rightarrow> Some (Inl (Some e), k2)
          | Established \<Rightarrow> io_call (n_clear N) k2))"

definition connectx :: "'k net \<Rightarrow> bytes \<Rightarrow> ('k, unit) io" where
  "connectx N addrs = (\<lambda>k. case connectxID N addrs k of
     ((i, None), k') \<Rightarrow> Some (Inr (), k') | ((i, Some e), k') \<Rightarrow> Some (Inl (Some e), k'))"

definition connectSocket :: "target \<Rightarrow> hostEnv \<Rightarrow> 'k net \<Rightarrow> bytes option \<Rightarrow> bytes \<Rightarrow> ('k, unit) io" where
  "connectSocket T H N laddrs peer =
     io_bind (case laddrs of None \<Rightarrow> io_ret () | Some b \<Rightarrow> io_wrap (syscallError ''sctp_bindx'') (socket_bindx (sys_of N) optSockoptBindxAdd b)) (\<lambda>_.
     io_bind (io_catch (connectx N peer) (\<lambda>e.
        if e = Some (Errno EINPROGRESS) \<or> e = Some (Errno EALREADY) then io_ret () else io_err (syscallError ''sctp_connectx'' e))) (\<lambda>_.
       awaitEstablished T H N))"

section \<open>One attempt\<close>

definition abandonDial :: "'k net \<Rightarrow> AbandonPolicy \<Rightarrow> ('k, unit) io" where
  "abandonDial N policy = (if policy = AbandonQuiet then ops_release N else ops_abortive N)"

record dialAttempt =
  d_network :: string
  d_family :: u16
  d_p :: prepared
  d_bind :: "bytes option"
  d_peer :: bytes

definition setDialRTOInitial :: "target \<Rightarrow> 'k sys \<Rightarrow> u32 \<Rightarrow> string \<Rightarrow> ('k, unit) io" where
  "setDialRTOInitial T K ms what =
     io_bind (io_total (put32 (native T) rtoInfoInitialOff ms (replicate sizeRTOInfo 0))) (\<lambda>b.
     io_wrap (\<lambda>e. map_option (Wrapped (''sctp: '' @ what @ '' Config.SetupRTOInitial'')) (syscallError ''setsockopt'' e))
       (setsockopt K (Sctp optRTOInfo) b))"

definition dial_setup :: "target \<Rightarrow> 'k sys \<Rightarrow> dialAttempt \<Rightarrow> ('k, unit) io option \<Rightarrow> ('k, u32) io" where
  "dial_setup T K d ctl =
     io_bind (setupSocket T K (d_family d) ctl (p_ops (d_p d))) (\<lambda>_.
     if p_setupRTOInitialMS (d_p d) = 0 then io_ret 0
     else io_bind (io_wrap (\<lambda>e. map_option (Wrapped ''sctp: reading RTO.Initial for Config.SetupRTOInitial'') (syscallError ''getsockopt'' e))
            (getsockopt K (Sctp optRTOInfo) (replicate sizeRTOInfo 0))) (\<lambda>(b, l).
          io_bind (io_total (get32 (native T) b rtoInfoInitialOff)) (\<lambda>lasting.
          io_bind (setDialRTOInitial T K (p_setupRTOInitialMS (d_p d)) ''applying'') (\<lambda>_. io_ret lasting))))"

definition dial_run ::
  "target \<Rightarrow> hostEnv \<Rightarrow> 'k net \<Rightarrow> recvState \<Rightarrow> bool \<Rightarrow> dialAttempt \<Rightarrow> ('k, unit) io option \<Rightarrow> ('k, netConn) io" where
  "dial_run T H N r captured d ctl =
     io_bind (io_call (n_ctx N)) (\<lambda>_.
     io_bind (openSocket N (d_family d)) (\<lambda>_.
     io_bind (io_catch (io_bind (dial_setup T (sys_of N) d ctl) (\<lambda>lasting.
           io_bind (connectSocket T H N (d_bind d) (d_peer d)) (\<lambda>_. io_ret lasting)))
         (\<lambda>e. io_fail_after (abandonDial N (p_abandon (d_p d))) e)) (\<lambda>lasting.
     io_bind (if p_setupRTOInitialMS (d_p d) \<noteq> 0
              then io_catch (setDialRTOInitial T (sys_of N) lasting ''restoring RTO.Initial after'') (\<lambda>e. io_fail_after (ops_abortive N) e)
              else io_ret ()) (\<lambda>_.
       newConn T H N (d_p d) (blank_conn r captured kindDialed (d_family d) (d_network d) (d_p d))))))"

text \<open>The loop of \<open>dial\<close>, with \<open>n\<close> more times to start over. The Abort of a fresh Conn is the abortive close.\<close>

fun dial_loop ::
  "target \<Rightarrow> hostEnv \<Rightarrow> 'k net \<Rightarrow> recvState \<Rightarrow> bool \<Rightarrow> dialAttempt \<Rightarrow> ('k, unit) io option \<Rightarrow> bool \<Rightarrow> nat \<Rightarrow> ('k, netConn) io" where
  "dial_loop T H N r captured d ctl guard n =
     io_bind (dial_run T H N r captured d ctl) (\<lambda>c.
       if \<not> guard \<or> \<not> selfConnected (n_laddr c) (n_raddr c) then io_ret c
       else (\<lambda>k. case ops_abortive N k of
           None \<Rightarrow> None
         | Some (e, k') \<Rightarrow>
             (case n of 0 \<Rightarrow> Some (Inl (Some (SyscallError ''sctp_connectx'' (Errno ECONNREFUSED))), k')
              | Suc m \<Rightarrow> dial_loop T H N r captured d ctl guard m k')))"

declare dial_loop.simps [simp del]

text \<open>\<open>Config.dial\<close> after its argument checks; \<open>prep\<close> is what \<open>c.prepare(styleDial)\<close> gives and \<open>noIPv6\<close> what \<open>ipv6Unavailable\<close>
  found. A nil context is \<open>hasCtx = False\<close>.\<close>

definition dial ::
  "target \<Rightarrow> hostEnv \<Rightarrow> 'k net \<Rightarrow> recvState \<Rightarrow> bool \<Rightarrow> bool \<Rightarrow> Config option \<Rightarrow> ('k, unit) io option \<Rightarrow> bool \<Rightarrow>
   string \<Rightarrow> Addr option \<Rightarrow> Addr option \<Rightarrow> ('k, netConn) io" where
  "dial T H N r captured noIPv6 cfg ctl hasCtx network laddr raddr =
     (if \<not> hasCtx then io_err (Some (InvalidArg ''Dial needs a non-nil context''))
      else case raddr of
        None \<Rightarrow> io_err (Some (InvalidArg ''Dial needs a remote address with at least one IP''))
      | Some ra \<Rightarrow>
          if ad_IPs ra = [] then io_err (Some (InvalidArg ''Dial needs a remote address with at least one IP''))
          else if ad_Port ra = 0 then io_err (Some (InvalidArg ''Dial needs a non-zero remote port (RFC 9260 3.1)''))
          else
            io_bind (io_check id (Some (socketFamily noIPv6 network laddr raddr))) (\<lambda>family.
            io_bind (io_check id (prepare T cfg styleDial)) (\<lambda>p.
            io_bind (case laddr of
                None \<Rightarrow> io_ret None
              | Some la \<Rightarrow> io_bind (io_check id (localBindAddrs T (h_zi H) family la)) (\<lambda>b. io_ret (Some b))) (\<lambda>laddrs.
            io_bind (io_check id (encodeAddrs T (h_zi H) family (ad_IPs ra) (ad_Port ra))) (\<lambda>peer.
              dial_loop T H N r captured
                \<lparr>d_network = canonicalName network, d_family = family, d_p = p, d_bind = laddrs, d_peer = peer\<rparr> ctl
                (case laddr of None \<Rightarrow> True | Some la \<Rightarrow> ad_Port la = 0) maxSelfConnectRetries)))))"

definition Dial ::
  "target \<Rightarrow> hostEnv \<Rightarrow> 'k net \<Rightarrow> recvState \<Rightarrow> bool \<Rightarrow> bool \<Rightarrow> Config option \<Rightarrow> ('k, unit) io option \<Rightarrow> bool \<Rightarrow>
   string \<Rightarrow> Addr option \<Rightarrow> Addr option \<Rightarrow> ('k, netConn) io" where
  "Dial T H N r captured noIPv6 cfg ctl hasCtx network laddr raddr =
     io_wrap (\<lambda>e. opError captured ''dial'' (canonicalName network) (netAddr laddr) (netAddr raddr) e)
       (dial T H N r captured noIPv6 cfg ctl hasCtx network laddr raddr)"

end
