(* ===== verification/Listeners.thy ===== *)
theory Listeners
  imports Conns
begin

text \<open>
  Listeners (\<open>listener_linux.go\<close>): \<open>Listen\<close> with its setup, the accept loop on the runtime poller, the address snapshot, \<open>BindAdd\<close> and
  \<open>BindRemove\<close>, deadlines, Close, and \<open>FileListener\<close>. A Listener is the record of its family, network, prepared Config and snapshot;
  its calls are made on the net \<open>L\<close> of its descriptor, those of an accepted connection on the net \<open>N\<close> of the new one.
\<close>

record Listener =
  li_family :: u16
  li_network :: string
  li_prep :: prepared
  li_addr :: "Addr option"

definition Listener_network :: "Listener \<Rightarrow> string" where
  "Listener_network l = (if li_network l = [] then ''sctp'' else li_network l)"

definition Listener_Addr :: "Listener \<Rightarrow> netaddr" where
  "Listener_Addr l = netAddr (li_addr l)"

definition refreshAddr :: "target \<Rightarrow> hostEnv \<Rightarrow> 'k sys \<Rightarrow> Listener \<Rightarrow> ('k, Listener) io" where
  "refreshAddr T H K l = (\<lambda>k. case getAddrs T (h_ifx H) K optGetLocalAddrs 0 k of
     None \<Rightarrow> None
   | Some (Inr a, k') \<Rightarrow> Some (Inr (l\<lparr>li_addr := Some a\<rparr>), k')
   | Some (Inl e, k') \<Rightarrow> Some (Inr (if li_addr l = None then l\<lparr>li_addr := Some Addr_zero\<rparr> else l), k'))"

definition newListener :: "target \<Rightarrow> hostEnv \<Rightarrow> 'k sys \<Rightarrow> u16 \<Rightarrow> string \<Rightarrow> prepared \<Rightarrow> ('k, Listener) io" where
  "newListener T H K family network p =
     refreshAddr T H K \<lparr>li_family = family, li_network = network, li_prep = p, li_addr = None\<rparr>"

section \<open>Listen\<close>

definition SOMAXCONN :: int where
  "SOMAXCONN = 128"

definition listen_backlog :: "int option \<Rightarrow> int" where
  "listen_backlog n = (case n of Some m \<Rightarrow> if m > SOMAXCONN then m else SOMAXCONN | None \<Rightarrow> SOMAXCONN)"

definition setupListener ::
  "target \<Rightarrow> 'k net \<Rightarrow> u16 \<Rightarrow> ('k, unit) io option \<Rightarrow> configOp list \<Rightarrow> bytes option \<Rightarrow> ('k, unit) io" where
  "setupListener T L family ctl ops laddrs =
     io_bind (setupSocket T (sys_of L) family ctl ops) (\<lambda>_.
     io_bind (case laddrs of
         None \<Rightarrow> io_ret ()
       | Some b \<Rightarrow> io_wrap (syscallError ''sctp_bindx'') (socket_bindx (sys_of L) optSockoptBindxAdd b)) (\<lambda>_ k.
     case n_somaxconn L k of (n, k1) \<Rightarrow>
       (case ops_step L (\<lambda>k. n_listen L k (listen_backlog n)) k1 of
          (None, k2) \<Rightarrow> Some (Inr (), k2)
        | (e, k2) \<Rightarrow> Some (Inl (syscallError ''listen'' e), k2))))"

definition listen ::
  "target \<Rightarrow> hostEnv \<Rightarrow> 'k net \<Rightarrow> bool \<Rightarrow> Config option \<Rightarrow> ('k, unit) io option \<Rightarrow> string \<Rightarrow> Addr option \<Rightarrow> ('k, Listener) io" where
  "listen T H L noIPv6 cfg ctl network laddr =
     io_bind (io_check id (Some (socketFamily noIPv6 network laddr None))) (\<lambda>family.
     io_bind (io_check id (prepare T cfg styleListen)) (\<lambda>p.
     io_bind (case laddr of
         None \<Rightarrow> io_ret None
       | Some la \<Rightarrow> io_bind (io_check id (localBindAddrs T (h_zi H) family la)) (\<lambda>b. io_ret (Some b))) (\<lambda>laddrs.
     io_bind (openSocket L family) (\<lambda>_.
     io_bind (io_catch (setupListener T L family ctl (p_ops p) laddrs) (\<lambda>e. io_fail_after (io_call (n_close L)) e)) (\<lambda>_.
       newListener T H (sys_of L) family (canonicalName network) p)))))"

definition Listen ::
  "target \<Rightarrow> hostEnv \<Rightarrow> 'k net \<Rightarrow> bool \<Rightarrow> bool \<Rightarrow> Config option \<Rightarrow> ('k, unit) io option \<Rightarrow> string \<Rightarrow> Addr option \<Rightarrow> ('k, Listener) io" where
  "Listen T H L captured noIPv6 cfg ctl network laddr =
     io_wrap (opError captured ''listen'' (canonicalName network) None (netAddr laddr)) (listen T H L noIPv6 cfg ctl network laddr)"

definition fileListener :: "target \<Rightarrow> hostEnv \<Rightarrow> 'k net \<Rightarrow> Config option \<Rightarrow> bool \<Rightarrow> ('k, Listener) io" where
  "fileListener T H L cfg hasFile =
     io_bind (io_check id (prepare T cfg styleFile)) (\<lambda>p.
     io_bind (adoptFile T L hasFile True) (\<lambda>family.
     io_bind (io_catch (applyConfig T (sys_of L) (p_ops p)) (\<lambda>e. io_fail_after (io_call (n_close L)) e)) (\<lambda>_.
       newListener T H (sys_of L) family ''sctp'' p)))"

definition FileListener :: "target \<Rightarrow> hostEnv \<Rightarrow> 'k net \<Rightarrow> bool \<Rightarrow> Config option \<Rightarrow> bool \<Rightarrow> ('k, Listener) io" where
  "FileListener T H L captured cfg hasFile = io_wrap (opError captured ''file'' ''sctp'' None None) (fileListener T H L cfg hasFile)"

section \<open>Accept\<close>

text \<open>\<open>raw.Read\<close> with the accept loop as its callback: \<open>EINTR\<close> and \<open>ECONNABORTED\<close> try again at once, \<open>EAGAIN\<close> waits for the
  listener to be readable, anything else is the answer. The result is the wait's error, or what \<open>accept4\<close> answered.\<close>

partial_function (option) accept_wait :: "'k net \<Rightarrow> 'k \<Rightarrow> ((goerr + errno option) \<times> 'k) option" where
  "accept_wait L k =
     (case n_accept L k of
        (None, k') \<Rightarrow> Some (Inr None, k')
      | (Some e, k') \<Rightarrow>
          if e = EINTR \<or> e = ECONNABORTED then accept_wait L k'
          else if e = EAGAIN
          then (case n_wait L k' of (None, k2) \<Rightarrow> accept_wait L k2 | (Some w, k2) \<Rightarrow> Some (Inl w, k2))
          else Some (Inr (Some e), k'))"

definition accept_read :: "'k net \<Rightarrow> ('k, unit) io" where
  "accept_read L = (\<lambda>k. case n_prepare L k of
     (Some e, k') \<Rightarrow> Some (Inl (Some e), k')
   | (None, k') \<Rightarrow> (case accept_wait L k' of
       None \<Rightarrow> None
     | Some (Inl w, k2) \<Rightarrow> Some (Inl (Some w), k2)
     | Some (Inr (Some e), k2) \<Rightarrow> Some (Inl (Some (SyscallError ''accept4'' (Errno e))), k2)
     | Some (Inr None, k2) \<Rightarrow> Some (Inr (), k2)))"

definition accept :: "target \<Rightarrow> hostEnv \<Rightarrow> 'k net \<Rightarrow> 'k net \<Rightarrow> recvState \<Rightarrow> bool \<Rightarrow> Listener \<Rightarrow> ('k, netConn) io" where
  "accept T H L N r captured l =
     io_bind (accept_read L) (\<lambda>_.
     io_bind (wrapSocketFile N) (\<lambda>_.
       newConn T H N (li_prep l) (blank_conn r captured kindAccepted (li_family l) (li_network l) (li_prep l))))"

definition AcceptSCTP :: "target \<Rightarrow> hostEnv \<Rightarrow> 'k net \<Rightarrow> 'k net \<Rightarrow> recvState \<Rightarrow> bool \<Rightarrow> Listener \<Rightarrow> ('k, netConn) io" where
  "AcceptSCTP T H L N r captured l =
     io_wrap (opError captured ''accept'' (Listener_network l) None (Listener_Addr l)) (accept T H L N r captured l)"

section \<open>Close, deadlines and addresses\<close>

definition Listener_Close :: "'k net \<Rightarrow> bool \<Rightarrow> Listener \<Rightarrow> ('k, unit) io" where
  "Listener_Close L captured l =
     io_wrap (opError captured ''close'' (Listener_network l) None (Listener_Addr l)) (io_call (n_close L))"

definition Listener_SetDeadline :: "'k net \<Rightarrow> bool \<Rightarrow> int option \<Rightarrow> Listener \<Rightarrow> ('k, unit) io" where
  "Listener_SetDeadline L captured t l =
     io_wrap (opError captured ''set'' (Listener_network l) None (Listener_Addr l)) (io_call (\<lambda>k. n_deadline L k t))"

definition Listener_bindx ::
  "target \<Rightarrow> hostEnv \<Rightarrow> 'k sys \<Rightarrow> bool \<Rightarrow> nat \<Rightarrow> string \<Rightarrow> ipaddr list \<Rightarrow> Listener \<Rightarrow> ('k, Listener) io" where
  "Listener_bindx T H K captured opt name ips l =
     (let err = opError captured ''bindx'' (Listener_network l) None (Listener_Addr l) in
      io_bind (io_check err (bindxAddrs T (h_zi H) (li_family l) name ips)) (\<lambda>buf.
      io_bind (if opt = optSockoptBindxRemove
               then (\<lambda>k. case getAddrs T (h_ifx H) K optGetLocalAddrs 0 k of
                   None \<Rightarrow> None
                 | Some (Inr bound, k') \<Rightarrow>
                     if removesEveryAddress (ad_IPs bound) ips
                     then Some (Inl (err (Some (InvalidArg (name @ '' would remove every local address'')))), k')
                     else Some (Inr (), k')
                 | Some (Inl e, k') \<Rightarrow> Some (Inr (), k'))
               else io_ret ()) (\<lambda>_.
      io_bind (io_wrap (optError captured ''bindx'' ''setsockopt'' (Listener_network l) None (Listener_Addr l)) (socket_bindx K opt buf)) (\<lambda>_.
        refreshAddr T H K l))))"

definition Listener_BindAdd :: "target \<Rightarrow> hostEnv \<Rightarrow> 'k sys \<Rightarrow> bool \<Rightarrow> ipaddr list \<Rightarrow> Listener \<Rightarrow> ('k, Listener) io" where
  "Listener_BindAdd T H K captured ips l = Listener_bindx T H K captured optSockoptBindxAdd ''BindAdd'' ips l"

definition Listener_BindRemove :: "target \<Rightarrow> hostEnv \<Rightarrow> 'k sys \<Rightarrow> bool \<Rightarrow> ipaddr list \<Rightarrow> Listener \<Rightarrow> ('k, Listener) io" where
  "Listener_BindRemove T H K captured ips l = Listener_bindx T H K captured optSockoptBindxRemove ''BindRemove'' ips l"

end
