(* ===== verification/Ledger.thy ===== *)
theory Ledger
  imports Dialing Listeners Reads
begin

text \<open>
  Who owns a descriptor. A \<open>ledger\<close> of a net is a history of the descriptors opened and closed on it: the locale's laws say which call
  writes which entry, and that the others write none. Every constructor's entries are worked out under these laws: the calls between
  opening and closing are \<open>silent\<close>, proved once per function of the model, in the order the code composes them.
\<close>

datatype ledgerEntry = Opened | Closed

text \<open>A computation that writes entries which, with its result, satisfy \<open>P\<close>.\<close>

definition logs :: "('k \<Rightarrow> ledgerEntry list) \<Rightarrow> ('a \<Rightarrow> ledgerEntry list \<Rightarrow> bool) \<Rightarrow> ('k \<Rightarrow> ('a \<times> 'k) option) \<Rightarrow> bool" where
  "logs led P m \<longleftrightarrow> (\<forall>k r k'. m k = Some (r, k') \<longrightarrow> (\<exists>d. led k' = led k @ d \<and> P r d))"

abbreviation silent :: "('k \<Rightarrow> ledgerEntry list) \<Rightarrow> ('k \<Rightarrow> ('a \<times> 'k) option) \<Rightarrow> bool" where
  "silent led m \<equiv> logs led (\<lambda>r d. d = []) m"

lemma silentI: "(\<And>k r k'. m k = Some (r, k') \<Longrightarrow> led k' = led k) \<Longrightarrow> silent led m"
  by (simp add: logs_def)

lemma silentD: "silent led m \<Longrightarrow> m k = Some (r, k') \<Longrightarrow> led k' = led k"
  by (auto simp: logs_def)

lemma logs_mono: "logs led P m \<Longrightarrow> (\<And>r d. P r d \<Longrightarrow> Q r d) \<Longrightarrow> logs led Q m"
  unfolding logs_def by meson

lemma logs_bind:
  assumes "logs led P m" "\<And>x. logs led (Q x) (f x)"
    and "\<And>e d. P (Inl e) d \<Longrightarrow> R (Inl e) d" "\<And>x d r d'. P (Inr x) d \<Longrightarrow> Q x r d' \<Longrightarrow> R r (d @ d')"
  shows "logs led R (io_bind m f)"
  unfolding logs_def
proof (intro allI impI)
  fix k r k' assume "io_bind m f k = Some (r, k')"
  then consider e where "m k = Some (Inl e, k')" "r = Inl e" | x k1 where "m k = Some (Inr x, k1)" "f x k1 = Some (r, k')"
    by (auto simp: io_bind_def split: option.splits sum.splits prod.splits)
  then show "\<exists>d. led k' = led k @ d \<and> R r d"
  proof cases
    case 1 with assms(1,3) show ?thesis unfolding logs_def by blast
  next
    case 2
    from assms(1) 2(1) obtain d where "led k1 = led k @ d" "P (Inr x) d" unfolding logs_def by blast
    moreover from assms(2) [of x] 2(2) obtain d' where "led k' = led k1 @ d'" "Q x r d'" unfolding logs_def by blast
    ultimately show ?thesis using assms(4) by (intro exI [of _ "d @ d'"]) simp
  qed
qed

lemma logs_catch:
  assumes "logs led P m" "\<And>e. logs led (Q e) (h e)"
    and "\<And>x d. P (Inr x) d \<Longrightarrow> R (Inr x) d" "\<And>e d r d'. P (Inl e) d \<Longrightarrow> Q e r d' \<Longrightarrow> R r (d @ d')"
  shows "logs led R (io_catch m h)"
  unfolding logs_def
proof (intro allI impI)
  fix k r k' assume "io_catch m h k = Some (r, k')"
  then consider x where "m k = Some (Inr x, k')" "r = Inr x" | e k1 where "m k = Some (Inl e, k1)" "h e k1 = Some (r, k')"
    by (auto simp: io_catch_def split: option.splits sum.splits prod.splits)
  then show "\<exists>d. led k' = led k @ d \<and> R r d"
  proof cases
    case 1 with assms(1,3) show ?thesis unfolding logs_def by blast
  next
    case 2
    from assms(1) 2(1) obtain d where "led k1 = led k @ d" "P (Inl e) d" unfolding logs_def by blast
    moreover from assms(2) [of e] 2(2) obtain d' where "led k' = led k1 @ d'" "Q e r d'" unfolding logs_def by blast
    ultimately show ?thesis using assms(4) by (intro exI [of _ "d @ d'"]) simp
  qed
qed

lemma logs_fail_after:
  "logs led (\<lambda>r d. P d) m \<Longrightarrow> (\<And>d. P d \<Longrightarrow> Q (Inl e) d) \<Longrightarrow> logs led Q (io_fail_after m e)"
  unfolding logs_def io_fail_after_def by (fastforce split: option.splits)

named_theorems silents

lemma silent_basic [silents]:
  "silent led (io_ret x)" "silent led (io_err e)" "silent led (io_total v)" "silent led (io_check w u)"
  by (auto simp: logs_def io_defs split: option.splits sum.splits)

lemma silent_bind [silents]: "silent led m \<Longrightarrow> (\<And>x. silent led (f x)) \<Longrightarrow> silent led (io_bind m f)"
  by (rule logs_bind [where P = "\<lambda>r d. d = []" and Q = "\<lambda>x r d. d = []"]) auto

lemma silent_catch [silents]: "silent led m \<Longrightarrow> (\<And>e. silent led (h e)) \<Longrightarrow> silent led (io_catch m h)"
  by (rule logs_catch [where P = "\<lambda>r d. d = []" and Q = "\<lambda>x r d. d = []"]) auto

lemma silent_wrap [silents]: "silent led m \<Longrightarrow> silent led (io_wrap w m)"
  by (fastforce simp: logs_def io_wrap_def split: option.splits sum.splits prod.splits)

lemma logs_wrap: "logs led P m \<Longrightarrow> (\<And>e d. P (Inl e) d \<Longrightarrow> P (Inl (w e)) d) \<Longrightarrow> logs led P (io_wrap w m)"
  unfolding logs_def io_wrap_def by (fastforce split: option.splits sum.splits prod.splits)

lemma silent_if [silents]: "(b \<Longrightarrow> silent led m) \<Longrightarrow> (\<not> b \<Longrightarrow> silent led m') \<Longrightarrow> silent led (if b then m else m')"
  by simp

lemma silent_ifk [silents]:
  "silent led m \<Longrightarrow> silent led m' \<Longrightarrow> silent led (\<lambda>k. if b k then m k else m' k)"
  by (auto simp: logs_def)

lemma silent_some [silents]: "silent led (\<lambda>k. Some (g k, k))"
  by (simp add: logs_def)

lemma silent_call [silents]: "(\<And>k x k'. f k = (x, k') \<Longrightarrow> led k' = led k) \<Longrightarrow> silent led (io_call f)"
  by (auto simp: logs_def io_call_def split: prod.splits option.splits)

lemma silent_raw_then [silents]: "silent led m \<Longrightarrow> silent led m' \<Longrightarrow> silent led (raw_then m m')"
  unfolding logs_def raw_then_def by (fastforce split: option.splits prod.splits)

lemma silent_option [silents]: "(x = None \<Longrightarrow> silent led m) \<Longrightarrow> (\<And>y. x = Some y \<Longrightarrow> silent led (f y)) \<Longrightarrow> silent led (case x of None \<Rightarrow> m | Some y \<Rightarrow> f y)"
  by (cases x) auto

lemma silent_prod [silents]: "(\<And>a b. silent led (f a b)) \<Longrightarrow> silent led (case x of (a, b) \<Rightarrow> f a b)"
  by (cases x) simp

section \<open>Opened and handed on\<close>

text \<open>What a constructor that opens a descriptor writes: nothing, or an open and a close, when it fails, and an open when it succeeds.\<close>

definition owns :: "goerr option + 'a \<Rightarrow> ledgerEntry list \<Rightarrow> bool" where
  "owns r d \<longleftrightarrow> (case r of Inl e \<Rightarrow> d = [] \<or> d = [Opened, Closed] | Inr x \<Rightarrow> d = [Opened])"

definition hands_on :: "goerr option + 'a \<Rightarrow> ledgerEntry list \<Rightarrow> bool" where
  "hands_on r d \<longleftrightarrow> (case r of Inl e \<Rightarrow> d = [Closed] | Inr x \<Rightarrow> d = [])"

lemma owns_first: "silent led m \<Longrightarrow> (\<And>x. logs led owns (f x)) \<Longrightarrow> logs led owns (io_bind m f)"
  by (rule logs_bind [where P = "\<lambda>r d. d = []" and Q = "\<lambda>x. owns"]) (auto simp: owns_def)

lemma owns_then: "logs led owns m \<Longrightarrow> (\<And>x. logs led hands_on (f x)) \<Longrightarrow> logs led owns (io_bind m f)"
  by (rule logs_bind [where P = owns and Q = "\<lambda>x. hands_on"]) (auto simp: owns_def hands_on_def split: sum.splits)

lemma hands_on_then: "logs led hands_on m \<Longrightarrow> (\<And>x. logs led hands_on (f x)) \<Longrightarrow> logs led hands_on (io_bind m f)"
  by (rule logs_bind [where P = hands_on and Q = "\<lambda>x. hands_on"]) (auto simp: hands_on_def split: sum.splits)

lemma hands_on_catch:
  "silent led m \<Longrightarrow> (\<And>e. logs led (\<lambda>r d. d = [Closed]) (h e)) \<Longrightarrow> logs led hands_on (io_catch m (\<lambda>e. io_fail_after (h e) (g e)))"
  by (rule logs_catch [where P = "\<lambda>r d. d = []" and Q = "\<lambda>e. hands_on", OF _ logs_fail_after [where P = "\<lambda>d. d = [Closed]"]])
     (auto simp: hands_on_def)

lemma hands_on_ret: "logs led hands_on (io_ret x)"
  by (simp add: logs_def io_ret_def hands_on_def)

lemma hands_on_if: "logs led hands_on m \<Longrightarrow> logs led hands_on m' \<Longrightarrow> logs led hands_on (if b then m else m')"
  by simp

lemmas ownership = owns_first owns_then hands_on_then hands_on_catch hands_on_ret hands_on_if

section \<open>Option calls\<close>

locale sys_ledger =
  fixes K :: "'k sys" and led :: "'k \<Rightarrow> ledgerEntry list"
  assumes keep_get: "y_get K k so b = (r, k') \<Longrightarrow> led k' = led k"
    and keep_set: "y_set K k so b = (e, k') \<Longrightarrow> led k' = led k"
begin

lemma silent_getsockopt [silents]: "silent led (getsockopt K so b)"
  by (auto simp: logs_def getsockopt_def dest!: keep_get split: if_splits prod.splits sum.splits)

lemma silent_setsockopt [silents]: "silent led (setsockopt K so b)"
  by (auto simp: logs_def setsockopt_def dest!: keep_set split: if_splits prod.splits option.splits)

lemma silent_raw_set [silents]: "silent led (raw_set K so b)"
  by (auto simp: logs_def raw_set_def dest: keep_set split: option.splits)

lemma silent_setters [silents]:
  "silent led (setIntOpt T K so v)" "silent led (setAssocValue T K opt v)" "silent led (setEvent T K t on)"
  by (simp_all add: setIntOpt_def setAssocValue_def setEvent_def silents)

lemma silent_control_raw [silents]: "silent led m \<Longrightarrow> silent led (control_raw K m)"
  by (fastforce simp: logs_def control_raw_def split: if_splits option.splits prod.splits)

lemma silent_defaults [silents]:
  "silent led (setDefaultSndInfo T (kernel_of K) st fl pp ct)" "silent led (setDefaultPrInfo T (kernel_of K) pol v)"
  by (auto simp: logs_def setDefaultSndInfo_def setDefaultPrInfo_def kernel_of_def Let_def dest!: keep_set
      split: if_splits option.splits prod.splits sum.splits bind_splits)

lemma silent_applyOp [silents]: "silent led (applyOp T K x)"
  by (cases x) (auto intro!: silents)

lemma silent_applyConfig [silents]: "silent led (applyConfig T K ops)"
proof -
  have "silent led (applyOps T K ops)"
  proof (induction ops)
    case (Cons x xs)
    then show ?case using silent_applyOp [of T x]
      by (fastforce simp: logs_def split: option.splits prod.splits)
  qed (simp add: logs_def)
  then show ?thesis by (auto simp: applyConfig_def intro!: silents)
qed

lemma silent_setupSocket [silents]: "(\<And>f. ctl = Some f \<Longrightarrow> silent led f) \<Longrightarrow> silent led (setupSocket T K family ctl ops)"
  unfolding setupSocket_def by (auto intro!: silents split: option.splits)

lemma silent_getAddrs [silents]: "silent led (getAddrs T ifx K opt assoc)"
proof -
  have "silent led (getAddrs_loop T ifx K opt assoc sz)" if "0 < sz" for sz
    using that
  proof (induction sz rule: sizes_induct)
    case (grow sz)
    show ?case
    proof (rule silentI)
      fix k r k' assume "getAddrs_loop T ifx K opt assoc sz k = Some (r, k')"
      then obtain buf r1 k1 where g: "getsockopt K (Sctp opt) buf k = Some (r1, k1)"
        and "sz * 4 \<le> maxAddrsBuf \<and> getAddrs_loop T ifx K opt assoc (sz * 4) k1 = Some (r, k') \<or> k' = k1"
        unfolding getAddrs_loop.simps [of T ifx K opt assoc sz k] 
        by (auto split: Option.bind_split_asm sum.split_asm if_split_asm prod.split_asm)
      then show "led k' = led k" using silentD [OF silent_getsockopt g] silentD [OF grow(2)] by auto
    qed
  qed
  then show ?thesis by (simp add: getAddrs_def)
qed

lemma silent_socket_calls [silents]:
  "silent led (socket_status T K)" "silent led (socket_bindx K opt addrs)"
  unfolding socket_status_def socket_bindx_def
  by (auto intro!: silents split: option.splits)

lemma silent_kernelSubscriptions [silents]: "silent led (kernelSubscriptions T K ts)"
proof -
  have "silent led (getEvent T K t)" for t
    by (auto simp: logs_def getEvent_def dest!: keep_get split: bind_splits prod.splits sum.splits)
  then have ev: "led k' = led k" if "getEvent T K t k = Some (x, k')" for t k x k' using that by (rule silentD)
  have "led k' = led k" if "subscriptions_loop T K ts s k = Some (x, k')" for s k x k'
    using that
    by (induction ts arbitrary: s k) (force dest!: ev split: if_splits option.splits prod.splits sum.splits)+
  then show ?thesis by (fastforce simp: logs_def kernelSubscriptions_def split: if_splits option.splits)
qed

lemma silent_InterleavingSupported [silents]: "silent led (Conn_InterleavingSupported T K c)"
  unfolding Conn_InterleavingSupported_def negotiated_def assocValueOption_def getOpt_def whenOpen_def
  by (intro silents)

end

section \<open>Descriptor calls\<close>

locale ledger =
  fixes N :: "'k net" and led :: "'k \<Rightarrow> ledgerEntry list"
  assumes opens: "n_socket N k family = (e, k') \<Longrightarrow> led k' = led k @ (if e = None then [Opened] else [])"
    and dups: "n_dup N k = (w, k') \<Longrightarrow> led k' = led k @ (if w = Inr None then [Opened] else [])"
    and closes: "n_close N k = (c, k') \<Longrightarrow> led k' = led k @ [Closed]"
    and rawcloses: "led (n_rawclose N k) = led k @ [Closed]"
    and accepts: "n_accept N k = (e, k') \<Longrightarrow> led k' = led k @ (if e = None then [Opened] else [])"
    and keeps_opt: "y_get N k so b = (r, k') \<Longrightarrow> led k' = led k" "y_set N k so b = (e, k') \<Longrightarrow> led k' = led k"
    and keeps_file: "n_register N k = (c, k') \<Longrightarrow> led k' = led k" "n_raw N k = (c, k') \<Longrightarrow> led k' = led k"
      "n_clear N k = (c, k') \<Longrightarrow> led k' = led k" "n_ctx N k = (c, k') \<Longrightarrow> led k' = led k"
      "n_prepare N k = (c, k') \<Longrightarrow> led k' = led k" "n_wait N k = (c, k') \<Longrightarrow> led k' = led k"
    and keeps_sock: "n_linger N k = (e, k') \<Longrightarrow> led k' = led k" "n_shutdown N k rd = (e, k') \<Longrightarrow> led k' = led k"
      "n_nonblock N k = (e, k') \<Longrightarrow> led k' = led k" "n_listen N k n = (e, k') \<Longrightarrow> led k' = led k"
    and keeps_peek: "n_peek N k = (p, k') \<Longrightarrow> led k' = led k"
    and keeps_connectx: "n_connectx N k b = (q, k') \<Longrightarrow> led k' = led k"
    and spares: "n_spare N k = (e, k') \<Longrightarrow> led k' = led k @ (if e = None then [Opened] else [])"
    and peels: "n_peeloff N k b = (e, k') \<Longrightarrow> led k' = led k @ (if e = None then [Opened] else [])"
    and keeps_somaxconn: "n_somaxconn N k = (i, k') \<Longrightarrow> led k' = led k"

sublocale ledger \<subseteq> k: sys_ledger "sys_of N" led
  by unfold_locales (auto simp: sys_of_def sys.defs dest: keeps_opt)

context ledger
begin

lemma logs_release: "logs led (\<lambda>r d. d = [Closed]) (io_call (n_close N))"
  by (auto simp: logs_def io_call_def dest!: closes split: prod.splits option.splits)

lemma logs_abortive: "logs led (\<lambda>r d. d = [Closed]) (ops_abortive N)"
  unfolding logs_def
proof (intro allI impI)
  fix k r k' assume "ops_abortive N k = Some (r, k')"
  then obtain le k1 se k2 ce where
    "ops_step N (n_linger N) k = (le, k1)" "ops_step N (\<lambda>k. n_shutdown N k True) k1 = (se, k2)" "n_close N k2 = (ce, k')"
    by (auto simp: ops_abortive_def Let_def split: prod.splits)
  then show "\<exists>d. led k' = led k @ d \<and> d = [Closed]"
    by (auto simp: ops_step_def dest!: closes keeps_sock split: if_splits prod.splits)
qed

lemma logs_wrapSocketFile: "logs led hands_on (wrapSocketFile N)"
  unfolding wrapSocketFile_def
  by (rule hands_on_then [OF hands_on_catch hands_on_catch]) (auto intro: logs_release silent_call keeps_file)

lemma logs_openSocket: "logs led owns (openSocket N family)"
  unfolding openSocket_def
  by (rule logs_bind [where P = "\<lambda>r d. d = (if isl r then [] else [Opened])", OF _ logs_wrapSocketFile])
     (auto simp: logs_def hands_on_def owns_def dest!: opens split: prod.splits option.splits sum.splits)

lemma silent_refreshSnapshots [silents]: "silent led (refreshSnapshots T H (sys_of N) c)"
proof -
  have one: "silent led (refreshOne load store m c)" if "silent led m" for load store m c
    using that by (fastforce simp: logs_def refreshOne_def split: option.splits prod.splits sum.splits)
  show ?thesis unfolding refreshSnapshots_def by (intro silents one)
qed

lemma silent_Conn_init [silents]: "silent led (Conn_init T H (sys_of N) p c)"
proof -
  have "silent led (init_assoc T (sys_of N) c)" for c
    using k.silent_socket_calls(1) [of T]
    by (fastforce simp: logs_def init_assoc_def split: option.splits prod.splits sum.splits if_splits)
  moreover have "silent led (init_interleaved T (sys_of N) ended c)" for ended c
    using k.silent_InterleavingSupported [of T "plain c"]
    by (fastforce simp: logs_def init_interleaved_def split: option.splits prod.splits sum.splits if_splits)
  moreover have "silent led (init_subs T H (sys_of N) p c)" for c
    unfolding init_subs_def by (intro silents)
  moreover have "silent led (send_init T (sys_of N) c)" for c
    by (simp add: logs_def send_init_def)
  ultimately show ?thesis unfolding Conn_init_def by (intro silents)
qed

lemma logs_newConn: "logs led hands_on (newConn T H N p c)"
  unfolding newConn_def
  by (rule hands_on_catch) (auto intro: logs_release logs_abortive silent_Conn_init)

section \<open>Dial\<close>

lemma silent_awaitEstablished [silents]: "silent led (awaitEstablished T H N)"
proof -
  have so: "led k' = led k" if "GetsockoptInt T (sys_of N) so k = (r, k')" for so k r k'
    using that by (auto simp: GetsockoptInt_def sys_of_def sys.defs dest!: keeps_opt split: prod.splits sum.splits)
  have failed: "led k' = led k" if "failedSetupError T H (sys_of N) k = (e, k')" for k e k'
    using that by (auto simp: failedSetupError_def soError_def dest!: so split: prod.splits sum.splits)
  have look: "led k' = led k" if "setup_check T H N k = (v, k')" for k v k'
    using that
    by (auto simp: setup_check_def soError_def dest!: so keeps_opt keeps_peek failed split: prod.splits sum.splits if_splits)
  have wait: "led (snd x) = led k" if "setup_wait T H N k = Some x" for k x
  proof -
    have "N' = N \<Longrightarrow> T' = T \<Longrightarrow> H' = H \<Longrightarrow> led (snd x) = led k" if "setup_wait T' H' N' k = Some x" for T' H' N' k x
      using that
    proof (induction rule: setup_wait.raw_induct [rotated, consumes 1])
      case (1 f T' H' N' k x)
      obtain v k1 where v: "setup_check T H N k = (v, k1)" by fastforce
      obtain w k2 where w: "n_wait N k1 = (w, k2)" by fastforce
      show ?case
        using look [OF v] keeps_file(6) [OF w] 1 v w by (cases v; cases w) auto
    qed
    then show ?thesis using that by blast
  qed
  show ?thesis
    by (rule silentI) (fastforce simp: awaitEstablished_def setup_read_def Let_def io_call_def dest!: look keeps_file wait
      split: option.splits prod.splits verdict.splits if_splits)
qed

lemma connectxID_keeps: "connectxID N addrs k = (q, k') \<Longrightarrow> led k' = led k"
  by (auto simp: connectxID_def dest!: keeps_connectx split: option.splits if_splits prod.splits)

lemma silent_connectSocket [silents]: "silent led (connectSocket T H N laddrs peer)"
proof -
  have "silent led (connectx N addrs)" for addrs
    by (rule silentI) (auto simp: connectx_def dest!: connectxID_keeps split: prod.splits option.splits)
  then show ?thesis unfolding connectSocket_def by (intro silents)
qed

lemma silent_dial_setup [silents]:
  "silent led (setDialRTOInitial T (sys_of N) ms what)"
  "(\<And>f. ctl = Some f \<Longrightarrow> silent led f) \<Longrightarrow> silent led (dial_setup T (sys_of N) d ctl)"
  unfolding dial_setup_def setDialRTOInitial_def by (intro silents; assumption)+

lemma logs_abandonDial: "logs led (\<lambda>r d. d = [Closed]) (abandonDial N policy)"
  by (simp add: abandonDial_def ops_release_def logs_release logs_abortive)

lemma logs_dial_run:
  assumes "\<And>f. ctl = Some f \<Longrightarrow> silent led f"
  shows "logs led owns (dial_run T H N r captured d ctl)"
  unfolding dial_run_def
  by (intro ownership logs_openSocket logs_newConn logs_abandonDial logs_abortive silents keeps_file assms)

text \<open>What Dial writes: an open and a close for every attempt it gave up, and a last open when it succeeds.\<close>

end

definition redials :: "nat \<Rightarrow> goerr option + 'a \<Rightarrow> ledgerEntry list \<Rightarrow> bool" where
  "redials n r d \<longleftrightarrow> (\<exists>i. d = concat (replicate i [Opened, Closed]) @ (if isl r then [] else [Opened]) \<and>
     i \<le> (if isl r then n + 1 else n))"

context ledger
begin

lemma logs_redial:
  assumes "logs led owns m" "logs led Q m'"
    and step: "\<And>r d. Q r d \<Longrightarrow> redials n r (Opened # Closed # d)"
  shows "logs led (redials n) (io_bind m (\<lambda>c. if good c then io_ret c
    else (\<lambda>k. case ops_abortive N k of None \<Rightarrow> None | Some (e, k') \<Rightarrow> m' k')))"
proof (rule logs_bind [where P = owns and Q = "\<lambda>x r d. d = [] \<and> \<not> isl r \<or> (\<exists>d'. d = Closed # d' \<and> Q r d')", OF assms(1)])
  show "logs led (\<lambda>r d. d = [] \<and> \<not> isl r \<or> (\<exists>d'. d = Closed # d' \<and> Q r d')) (if good c then io_ret c
      else (\<lambda>k. case ops_abortive N k of None \<Rightarrow> None | Some (e, k') \<Rightarrow> m' k'))" for c
    using logs_abortive assms(2)
    by (fastforce simp: logs_def io_ret_def split: option.splits prod.splits)
next
  have "redials n (Inl e) []" "redials n (Inl e) [Opened, Closed]" for e
    unfolding redials_def by (simp add: exI [of _ 0]) (auto intro: exI [of _ 1])
  then show "owns (Inl e) d \<Longrightarrow> redials n (Inl e) d" for e d by (auto simp: owns_def)
  have "redials n r [Opened]" if "\<not> isl r" for r using that by (auto simp: redials_def intro: exI [of _ 0])
  then show "owns (Inr c) d \<Longrightarrow> d' = [] \<and> \<not> isl r \<or> (\<exists>d''. d' = Closed # d'' \<and> Q r d'') \<Longrightarrow> redials n r (d @ d')" for c d r d'
    by (auto simp: owns_def step)
qed

lemma logs_dial_loop:
  assumes "\<And>f. ctl = Some f \<Longrightarrow> silent led f"
  shows "logs led (redials n) (dial_loop T H N r captured d ctl guard n)"
proof (induction n)
  case 0
  have "logs led (\<lambda>r d. isl r \<and> d = []) (\<lambda>k. Some (Inl (Some e), k))" for e by (simp add: logs_def)
  note last = logs_redial [OF logs_dial_run [OF assms] this]
  show ?case by (subst dial_loop.simps) (simp only: nat.case, rule last, auto simp: redials_def intro: exI [of _ 1])
next
  case (Suc n)
  have "redials (Suc n) r (Opened # Closed # d)" if "redials n r d" for r d
    using that unfolding redials_def by (auto intro: exI [of _ "Suc i" for i])
  note again = logs_redial [OF logs_dial_run [OF assms] Suc this]
  show ?case by (subst dial_loop.simps) (simp only: nat.case, rule again)
qed

lemma logs_dial:
  assumes "\<And>f. ctl = Some f \<Longrightarrow> silent led f"
  shows "logs led (redials maxSelfConnectRetries) (dial T H N r captured noIPv6 cfg ctl hasCtx network laddr raddr)"
proof -
  have "redials n (Inl e) []" for n e by (auto simp: redials_def intro: exI [of _ 0])
  then have first: "logs led (redials n) (io_bind m f)" if "silent led m" "\<And>x. logs led (redials n) (f x)"
    for n and m :: "('k, 'a) io" and f :: "'a \<Rightarrow> ('k, 'b) io"
    using that by (intro logs_bind [where P = "\<lambda>r d. d = []" and Q = "\<lambda>x. redials n"]) auto
  have "logs led (redials n) (io_err e)" for n e by (auto simp: logs_def io_err_def redials_def intro: exI [of _ 0])
  then show ?thesis unfolding dial_def by (auto intro!: first silents logs_dial_loop assms split: option.splits)
qed

section \<open>Listen, Accept and adoption\<close>

lemma silent_setupListener [silents]:
  "(\<And>f. ctl = Some f \<Longrightarrow> silent led f) \<Longrightarrow> silent led (setupListener T N family ctl ops laddrs)"
proof -
  have "silent led (\<lambda>k. case n_somaxconn N k of (n, k1) \<Rightarrow>
       (case ops_step N (\<lambda>k. n_listen N k (listen_backlog n)) k1 of
          (None, k2) \<Rightarrow> Some (Inr (), k2)
        | (e, k2) \<Rightarrow> Some (Inl (syscallError ''listen'' e), k2)))"
    by (rule silentI) (auto simp: ops_step_def dest!: keeps_somaxconn keeps_sock split: prod.splits if_splits option.splits)
  note silent_listen = this
  show "silent led (setupListener T N family ctl ops laddrs)" if "\<And>f. ctl = Some f \<Longrightarrow> silent led f"
    unfolding setupListener_def by (intro silents silent_listen; rule that; assumption)
qed

lemma silent_newListener [silents]: "silent led (newListener T H (sys_of N) family network p)"
  using k.silent_getAddrs [of T "h_ifx H" optGetLocalAddrs 0]
  by (fastforce simp: logs_def newListener_def refreshAddr_def split: option.splits prod.splits sum.splits)

lemma newListener_succeeds: "newListener T H K family network p k \<noteq> Some (Inl e, k')"
  by (auto simp: newListener_def refreshAddr_def split: option.splits prod.splits sum.splits)

lemma hands_on_newListener: "logs led hands_on (newListener T H (sys_of N) family network p)"
  using silent_newListener [of T H family network p] newListener_succeeds [of T H "sys_of N" family network p]
  unfolding logs_def hands_on_def by (auto split: sum.splits)

lemma logs_listen:
  assumes "\<And>f. ctl = Some f \<Longrightarrow> silent led f"
  shows "logs led owns (listen T H N noIPv6 cfg ctl network laddr)"
  unfolding listen_def
  by (intro ownership logs_openSocket logs_release hands_on_newListener silents assms)

lemma silent_checkAdoptable [silents]: "silent led (checkAdoptable T (sys_of N) listening)"
proof -
  have int: "silent led (getInt T (sys_of N) so)" for so
    by (rule silentI) (auto simp: getInt_def GetsockoptInt_def sys_of_def sys.defs dest!: keeps_opt split: prod.splits sum.splits)
  have "silent led (\<lambda>k. case y_get (sys_of N) k so req of
      (Inr (r, l), k') \<Rightarrow> if ok r then Some (Inr x, k') else Some (Inl w, k') | (Inl e, k') \<Rightarrow> Some (Inl (h e), k'))" for so req ok x w h
    by (rule silentI) (auto simp: sys_of_def sys.defs dest!: keeps_opt split: prod.splits sum.splits if_splits)
  then show ?thesis unfolding checkAdoptable_def by (intro silents int)
qed

lemma logs_adoptFile: "logs led owns (adoptFile T N hasFile listening)"
proof -
  let ?check = "io_catch (io_bind (checkAdoptable T (sys_of N) listening) (\<lambda>family k1. case n_nonblock N k1 of
      (None, k2) \<Rightarrow> Some (Inr family, k2) | (Some e, k2) \<Rightarrow> Some (Inl (Some (SyscallError ''fcntl'' (Errno e))), k2)))
    (\<lambda>e k1. Some (Inl e, n_rawclose N k1))"
  have nb: "silent led (\<lambda>k1. case n_nonblock N k1 of (None, k2) \<Rightarrow> Some (Inr family, k2) | (Some e, k2) \<Rightarrow> Some (Inl (g e), k2))" for family g
    by (rule silentI) (auto dest!: keeps_sock split: prod.splits option.splits)
  have raw: "logs led (\<lambda>r d. isl r \<and> d = [Closed]) (\<lambda>k1. Some (Inl e, n_rawclose N k1))" for e
    by (simp add: logs_def rawcloses)
  have "logs led hands_on ?check"
    by (rule logs_catch [OF silent_bind [OF silent_checkAdoptable nb] raw]) (auto simp: hands_on_def isl_def)
  then have rest: "logs led hands_on (io_bind ?check (\<lambda>family. io_bind (wrapSocketFile N) (\<lambda>_. io_ret family)))"
    by (intro hands_on_then logs_wrapSocketFile hands_on_ret)
  have "\<exists>d. led k' = led k @ d \<and> owns r d"
    if "hasFile" "adoptFile T N hasFile listening k = Some (r, k')" for k r k'
  proof -
    obtain w k1 where w: "n_dup N k = (w, k1)" by fastforce
    from rest obtain d where "led k' = led k1 @ d" "hands_on r d" if "w = Inr None"
      using that \<open>adoptFile T N hasFile listening k = Some (r, k')\<close> w \<open>hasFile\<close> unfolding logs_def adoptFile_def by force
    then show ?thesis
      using dups [OF w] w that
      by (cases w) (auto simp: adoptFile_def hands_on_def owns_def split: option.splits sum.splits)
  qed
  then show ?thesis
    unfolding logs_def by (cases hasFile) (auto simp: adoptFile_def io_err_def owns_def)
qed

lemma logs_fileConn: "logs led owns (fileConn T H N r captured cfg hasFile)"
  unfolding fileConn_def
  by (intro ownership logs_adoptFile logs_release logs_newConn silents)

lemma logs_fileListener: "logs led owns (fileListener T H N cfg hasFile)"
  unfolding fileListener_def
  by (intro ownership logs_adoptFile logs_release hands_on_newListener silents)

lemma logs_accept_read: "logs led (\<lambda>r d. d = (if isl r then [] else [Opened])) (accept_read N)"
proof -
  have wait: "led (snd x) = led k @ (if fst x = Inr None then [Opened] else [])" if "accept_wait N k = Some x" for k x
  proof -
    have "N' = N \<Longrightarrow> led (snd x) = led k @ (if fst x = Inr None then [Opened] else [])" if "accept_wait N' k = Some x" for N' k x
      using that
    proof (induction rule: accept_wait.raw_induct [rotated, consumes 1])
      case (1 f N' k x)
      obtain e k1 where e: "n_accept N k = (e, k1)" by fastforce
      obtain w k2 where w: "n_wait N k1 = (w, k2)" by fastforce
      show ?case
        using accepts [OF e] keeps_file(6) [OF w] 1 e w by (cases e; cases w) (auto split: if_splits)
    qed
    then show ?thesis using that by blast
  qed
  show ?thesis
    unfolding logs_def accept_read_def
    by (fastforce dest!: keeps_file wait split: prod.splits option.splits sum.splits)
qed

end

text \<open>A listening descriptor and the one it accepts, in one history.\<close>

locale ledgers = l: ledger L led + n: ledger N led for L N :: "'k net" and led
begin

lemma logs_accept: "logs led owns (accept T H L N r captured l)"
  unfolding accept_def
proof (rule logs_bind [OF l.logs_accept_read])
  show "logs led hands_on (io_bind (wrapSocketFile N) (\<lambda>_.
      newConn T H N (li_prep l) (blank_conn r captured kindAccepted (li_family l) (li_network l) (li_prep l))))" for x :: unit
    by (intro hands_on_then n.logs_wrapSocketFile n.logs_newConn)
qed (auto simp: owns_def hands_on_def split: sum.splits)

end

section \<open>A history for any net\<close>

text \<open>Any net can be given a ledger: \<open>logged N\<close> is \<open>N\<close> with the history beside its state.\<close>

definition pass :: "('k \<Rightarrow> 'a \<times> 'k) \<Rightarrow> 'k \<times> 'h \<Rightarrow> 'a \<times> ('k \<times> 'h)" where
  "pass f s = (case f (fst s) of (x, k') \<Rightarrow> (x, (k', snd s)))"

definition jot :: "('a \<Rightarrow> ledgerEntry list) \<Rightarrow> ('k \<Rightarrow> 'a \<times> 'k) \<Rightarrow> 'k \<times> ledgerEntry list \<Rightarrow> 'a \<times> ('k \<times> ledgerEntry list)" where
  "jot es f s = (case f (fst s) of (x, k') \<Rightarrow> (x, (k', snd s @ es x)))"

definition on_success :: "errno option \<Rightarrow> ledgerEntry list" where
  "on_success e = (if e = None then [Opened] else [])"

definition logged :: "'k net \<Rightarrow> ('k \<times> ledgerEntry list) net" where
  "logged N =
     \<lparr>y_released = (\<lambda>s. y_released N (fst s)), y_get = (\<lambda>s so b. pass (\<lambda>k. y_get N k so b) s),
      y_set = (\<lambda>s so b. pass (\<lambda>k. y_set N k so b) s),
      n_socket = (\<lambda>s family. jot on_success (\<lambda>k. n_socket N k family) s),
      n_register = pass (n_register N), n_raw = pass (n_raw N), n_linger = pass (n_linger N),
      n_shutdown = (\<lambda>s rd. pass (\<lambda>k. n_shutdown N k rd) s), n_close = jot (\<lambda>_. [Closed]) (n_close N),
      n_prepare = pass (n_prepare N), n_wait = pass (n_wait N), n_peek = pass (n_peek N), n_clear = pass (n_clear N),
      n_ctx = pass (n_ctx N), n_rawclose = (\<lambda>s. (n_rawclose N (fst s), snd s @ [Closed])),
      n_dup = jot (\<lambda>w. case w of Inl u \<Rightarrow> [] | Inr e \<Rightarrow> on_success e) (n_dup N), n_nonblock = pass (n_nonblock N),
      n_sendend = (\<lambda>s c p. pass (\<lambda>k. n_sendend N k c p) s), n_somaxconn = pass (n_somaxconn N),
      n_listen = (\<lambda>s n. pass (\<lambda>k. n_listen N k n) s), n_accept = jot on_success (n_accept N),
      n_deadline = (\<lambda>s t. pass (\<lambda>k. n_deadline N k t) s),
      n_connectx = (\<lambda>s b. pass (\<lambda>k. n_connectx N k b) s), n_spare = jot on_success (n_spare N),
      n_peeloff = (\<lambda>s b. jot on_success (\<lambda>k. n_peeloff N k b) s)\<rparr>"

interpretation logged: ledger "logged N" snd for N :: "'k net"
  by unfold_locales (auto simp: logged_def pass_def jot_def on_success_def split: prod.splits sum.splits if_splits)

interpretation logged: ledgers "logged L" "logged N" snd for L N :: "'k net"
  by unfold_locales

text \<open>C15: no descriptor leaks and none is closed twice. In any history of the descriptors opened and closed, whatever the kernel answers
  and whatever fails on the way, Listen, Accept, FileConn and FileListener leave exactly one more descriptor open when they succeed, and
  when they fail none, having closed once the one they had opened; Dial does so too, after at most two self-connected attempts,
  or three in all that fail, each opened and closed in turn.\<close>

theorem constructors_own_descriptors:
  assumes "ledger N led" "ledger L led" "\<forall>f. ctl = Some f \<longrightarrow> logs led (\<lambda>x d. d = []) f"
  shows "logs led (redials 2) (Dial T H N r captured noIPv6 cfg ctl hasCtx network laddr raddr) \<and>
    logs led owns (Listen T H N captured noIPv6 cfg ctl network laddr) \<and>
    logs led owns (AcceptSCTP T H L N r captured l) \<and>
    logs led owns (FileConn T H N r captured cfg hasFile) \<and>
    logs led owns (FileListener T H N captured cfg hasFile)"
proof -
  have silent_ctl: "ctl = Some f \<Longrightarrow> silent led f" for f using assms(3) by blast
  have both: "ledgers L N led" using assms(1,2) by (simp add: ledgers_def)
  note dialing = ledger.logs_dial [OF assms(1) silent_ctl, unfolded maxSelfConnectRetries_def]
  show ?thesis
    unfolding Dial_def Listen_def AcceptSCTP_def FileConn_def FileListener_def
    by (intro conjI logs_wrap dialing ledger.logs_listen [OF assms(1) silent_ctl] ledgers.logs_accept [OF both]
      ledger.logs_fileConn [OF assms(1)] ledger.logs_fileListener [OF assms(1)]) (simp_all add: owns_def redials_def)
qed

text \<open>A world whose sockets open but cannot be registered with the poller.\<close>

definition unpollable :: "unit net" where
  "unpollable =
     \<lparr>y_released = (\<lambda>k. False), y_get = (\<lambda>k so b. (Inr (b, 0), k)),
      y_set = (\<lambda>k so b. (None, k)), n_socket = (\<lambda>k family. (None, k)), n_register = (\<lambda>k. (Some (OtherErr 1), k)), n_raw = (\<lambda>k. (None, k)),
      n_linger = (\<lambda>k. (None, k)), n_shutdown = (\<lambda>k rd. (None, k)), n_close = (\<lambda>k. (None, k)), n_prepare = (\<lambda>k. (None, k)),
      n_wait = (\<lambda>k. (Some DeadlineExceeded, k)), n_peek = (\<lambda>k. (Inl EAGAIN, k)), n_clear = (\<lambda>k. (None, k)), n_ctx = (\<lambda>k. (None, k)),
      n_rawclose = (\<lambda>k. k), n_dup = (\<lambda>k. (Inr None, k)), n_nonblock = (\<lambda>k. (None, k)), n_sendend = (\<lambda>k c p. (None, k)),
      n_somaxconn = (\<lambda>k. (Some 4096, k)), n_listen = (\<lambda>k n. (None, k)), n_accept = (\<lambda>k. (None, k)), n_deadline = (\<lambda>k t. (None, k)),
      n_connectx = (\<lambda>k b. ((Some EINPROGRESS, 3), k)), n_spare = (\<lambda>k. (None, k)), n_peeloff = (\<lambda>k b. (None, k))\<rparr>"

definition quietHost :: hostEnv where
  "quietHost = \<lparr>h_zi = (\<lambda>_. None), h_ifx = (\<lambda>_. None), h_holders = (\<lambda>_. []), h_errno = (\<lambda>n. EOTHER (unat n)), h_types = []\<rparr>"

definition loopback :: Addr where
  "loopback = \<lparr>ad_IPs = [IP4 0x7F000001], ad_Port = 3868\<rparr>"

lemma loopback_prepared:
  "\<exists>p. prepare amd64 None styleDial = Some (Inr p)"
  "\<exists>b. encodeAddrs amd64 (\<lambda>_. None) afInet6 [IP4 0x7F000001] 3868 = Some (Inr b)"
  "socketFamily False ''sctp'' None (Some loopback) = Inr afInet6"
proof -
  have "(case prepare amd64 None styleDial of Some (Inr p) \<Rightarrow> True | _ \<Rightarrow> False)" by code_simp
  then show "\<exists>p. prepare amd64 None styleDial = Some (Inr p)" by (auto split: option.splits sum.splits)
  have "(case encodeAddrs amd64 (\<lambda>_. None) afInet6 [IP4 0x7F000001] 3868 of Some (Inr b) \<Rightarrow> True | _ \<Rightarrow> False)" by code_simp
  then show "\<exists>b. encodeAddrs amd64 (\<lambda>_. None) afInet6 [IP4 0x7F000001] 3868 = Some (Inr b)" by (auto split: option.splits sum.splits)
  show "socketFamily False ''sctp'' None (Some loopback) = Inr afInet6" by code_simp
qed

lemma failed_dial:
  "\<exists>e. Dial amd64 quietHost (logged unpollable) recvState_zero True False None None True ''sctp'' None (Some loopback) ((), []) =
    Some (Inl e, ((), [Opened, Closed]))"
proof -
  obtain p where p: "prepare amd64 None styleDial = Some (Inr p)" using loopback_prepared(1) by blast
  obtain b where b: "encodeAddrs amd64 (\<lambda>_. None) afInet6 [IP4 0x7F000001] 3868 = Some (Inr b)" using loopback_prepared(2) by blast
  have "\<exists>e. dial_loop amd64 quietHost (logged unpollable) recvState_zero True d None g n ((), []) = Some (Inl e, ((), [Opened, Closed]))" for d g n
    by (simp add: dial_loop.simps dial_run_def io_bind_def openSocket_def wrapSocketFile_def io_call_def io_catch_def io_fail_after_def
      logged_def pass_def jot_def on_success_def unpollable_def)
  then obtain e where e: "dial_loop amd64 quietHost (logged unpollable) recvState_zero True
      \<lparr>d_network = canonicalName ''sctp'', d_family = afInet6, d_p = p, d_bind = None, d_peer = b\<rparr> None True maxSelfConnectRetries ((), []) =
      Some (Inl e, ((), [Opened, Closed]))" by blast
  have "h_zi quietHost = (\<lambda>_. None)" "ad_IPs loopback = [IP4 0x7F000001]" "ad_Port loopback = 3868"
    by (simp_all add: quietHost_def loopback_def)
  with e b show ?thesis by (simp add: Dial_def dial_def io_wrap_def loopback_prepared(3) p)
qed

theorem constructors_own_descriptors_witness:
  "(\<exists>e. Dial amd64 quietHost (logged unpollable) recvState_zero True False None None True ''sctp'' None (Some loopback) ((), []) =
      Some (Inl e, ((), [Opened, Closed]))) \<and> redials 2 (Inl None :: goerr option + netConn) [Opened, Closed]"
proof -
  obtain e where e: "Dial amd64 quietHost (logged unpollable) recvState_zero True False None None True ''sctp'' None (Some loopback) ((), []) =
      Some (Inl e, ((), [Opened, Closed]))" using failed_dial by blast
  have "logs snd (redials 2) (Dial amd64 quietHost (logged unpollable) recvState_zero True False None None True ''sctp'' None (Some loopback))"
    using constructors_own_descriptors [OF logged.ledger_axioms logged.ledger_axioms, of None] by blast
  with e have "redials 2 (Inl e :: goerr option + netConn) [Opened, Closed]" unfolding logs_def by fastforce
  with e show ?thesis by (simp add: redials_def)
qed

end
