(* ===== verification/DialProps.thy ===== *)
theory DialProps
  imports Ledger
begin

text \<open>
  What Dial promises: it never returns a connection to itself when the kernel chose its port, and it takes an association for
  established only on evidence that it is.
\<close>

section \<open>Self-connections\<close>

lemma io_bind_Inr: "io_bind m f k = Some (Inr y, k') \<Longrightarrow> \<exists>x k1. m k = Some (Inr x, k1) \<and> f x k1 = Some (Inr y, k')"
  by (auto simp: io_bind_def split: option.splits sum.splits)

lemma dial_loop_not_self:
  "dial_loop T H N r captured d ctl True n k = Some (Inr c, k') \<Longrightarrow> \<not> selfConnected (n_laddr c) (n_raddr c)"
proof (induction n arbitrary: k)
  case 0
  then show ?case
    by (subst (asm) dial_loop.simps) (auto dest!: io_bind_Inr simp: io_ret_def split: if_splits option.splits)
next
  case (Suc n)
  then show ?case
    by (subst (asm) dial_loop.simps) (auto dest!: io_bind_Inr simp: io_ret_def split: if_splits option.splits)
qed


section \<open>Establishment\<close>

text \<open>Evidence that the setup has completed: no error on the socket, and an association that answers, or a record queued on the
  socket that is not the one of a failed setup.\<close>

definition evidence :: "target \<Rightarrow> 'k net \<Rightarrow> 'k \<Rightarrow> 'k \<Rightarrow> bool" where
  "evidence T N k k' \<longleftrightarrow> (\<exists>k1. soError T (sys_of N) k = (Inr 0, k1) \<and>
     ((\<exists>w. y_get N k1 (Sctp optStatus) (replicate sizeStatus 0) = (Inr w, k')) \<or>
      (\<exists>k2 b flags. y_get N k1 (Sctp optStatus) (replicate sizeStatus 0) = (Inl EINVAL, k2) \<and> n_peek N k2 = (Inr (b, flags), k') \<and>
        (b \<noteq> [] \<or> has_flag flags msgNotification) \<and> \<not> setupFailedNotification T b flags)))"

lemma setup_check_established: "setup_check T H N k = (Established, k') \<Longrightarrow> evidence T N k k'"
  unfolding evidence_def
  by (auto simp: setup_check_def split: prod.splits sum.splits if_splits)

lemma setup_wait_verdict:
  assumes "setup_wait T H N k = Some x"
  shows "case x of ((e, v), k') \<Rightarrow> if v = Undecided then e \<noteq> None else e = None \<and> (\<exists>k1. setup_check T H N k1 = (v, k'))"
  using assms
proof (induction rule: setup_wait.raw_induct [rotated, consumes 1])
  case (1 f T H N k x)
  obtain v k1 where v: "setup_check T H N k = (v, k1)" by fastforce
  obtain w k2 where w: "n_wait N k1 = (w, k2)" by fastforce
  show ?case using 1 v w by (cases v; cases w) auto
qed

lemma setup_read_verdict:
  assumes "setup_read T H N k = Some ((e, v), k')"
  shows "if v = Undecided then e \<noteq> None else e = None \<and> (\<exists>k1. setup_check T H N k1 = (v, k'))"
  using assms setup_wait_verdict unfolding setup_read_def by (fastforce split: prod.splits option.splits)


section \<open>A world that connects\<close>

text \<open>Every call succeeds, options read as zero, and the association is one that was established and ended before Dial looked: it
  answers no status query, and data is queued on its socket.\<close>

definition connecting :: "unit net" where
  "connecting = unpollable\<lparr>n_register := (\<lambda>k. (None, k)), n_peek := (\<lambda>k. (Inr ([1], 0), k)),
     y_get := (\<lambda>k so b. (if so = Sctp optStatus then Inl EINVAL else Inr (b, 0), k))\<rparr>"

lemma connecting_simps [simp]:
  "y_released connecting k = False" "y_get connecting k so b = (if so = Sctp optStatus then Inl EINVAL else Inr (b, 0), k)"
  "y_set connecting k so b = (None, k)"
  "n_socket connecting k family = (None, k)" "n_register connecting k = (None, k)" "n_raw connecting k = (None, k)"
  "n_ctx connecting k = (None, k)" "n_prepare connecting k = (None, k)" "n_clear connecting k = (None, k)"
  "n_peek connecting k = (Inr ([1], 0), k)" "n_connectx connecting k b = ((Some EINPROGRESS, 3), k)"
  by (simp_all add: connecting_def unpollable_def)

lemma sys_connecting [simp]:
  "y_released (sys_of connecting) k = False" "y_set (sys_of connecting) k so b = (None, k)"
  "y_get (sys_of connecting) k so b = (if so = Sctp optStatus then Inl EINVAL else Inr (b, 0), k)"
  by (simp_all add: connecting_def unpollable_def sys_of_def sys.defs)

lemma go_copy_self [simp]: "go_copy b b = b"
  by (simp add: go_copy_def)

lemma connecting_awaits: "awaitEstablished amd64 H connecting k = Some (Inr (), k)"
proof -
  have "rd32 LittleEndian (replicate 4 0) 0 = 0" by code_simp
  then have "setup_check amd64 H connecting k = (Established, k)"
    by (simp add: setup_check_def soError_def GetsockoptInt_def amd64_def setupFailedNotification_def)
  then show ?thesis by (simp add: awaitEstablished_def setup_read_def setup_wait.simps io_call_def)
qed


lemma connecting_setup:
  "setupSocket amd64 (sys_of connecting) family None [OpRecvRcvInfo, OpAssocChange] k = Some (Inr (), k)"
  by (simp add: setupSocket_def io_bind_def io_wrap_def io_ret_def control_raw_def applyConfig_def raw_set_def raw_then_def setIntOpt_def
    setEvent_def no_panic)

lemma connecting_init:
  assumes "c_kind c = kindDialed" "c_life c \<noteq> lifeClosed" "\<not> p_adopted p"
  shows "\<exists>c'. Conn_init amd64 H (sys_of connecting) p c k = Some (Inr c', k) \<and> n_laddr c' = Some Addr_zero \<and> n_raddr c' = Some Addr_zero"
proof -
  have "\<exists>on. Conn_InterleavingSupported amd64 (sys_of connecting) c' k = Some (Inr on, k)" if "c_life c' \<noteq> lifeClosed" for c'
    using that by (simp add: Conn_InterleavingSupported_def negotiated_def assocValueOption_def no_panic getOpt_def whenOpen_def io_bind_def
      io_wrap_def io_total_def io_ret_def getsockopt_def length_0_conv [symmetric] optInterleavingSupported_def optStatus_def del: length_0_conv)
  note interleaving = this
  let ?c1 = "c\<lparr>n_subs := p_subscribed p, c_recv := recv_bind (p_subscribed p) (c_recv c)\<rparr>"
  let ?c2 = "storeRemote Addr_zero (storeLocal Addr_zero ?c1)"
  have "init_subs amd64 H (sys_of connecting) p c k = Some (Inr ?c1, k)"
    using assms(1,3) by (simp add: init_subs_def io_bind_def io_ret_def)
  moreover have "init_assoc amd64 (sys_of connecting) ?c1 k = Some (Inr (?c2, True), k)"
    by (simp add: init_assoc_def socket_status_def getsockopt_def isAn_def io_bind_def)
  moreover have "c_life (plain ?c2) \<noteq> lifeClosed" using assms(2) by (simp add: plain_def sendConn.defs storeLocal_def storeRemote_def)
  then obtain on where "Conn_InterleavingSupported amd64 (sys_of connecting) (plain ?c2) k = Some (Inr on, k)" using interleaving by blast
  then have "init_interleaved amd64 (sys_of connecting) True ?c2 k = Some (Inr (?c2\<lparr>c_recv := (c_recv ?c2)\<lparr>r_interleaved := on\<rparr>\<rparr>), k)"
    by (simp add: init_interleaved_def)
  ultimately show ?thesis
    by (simp add: Conn_init_def io_bind_def io_ret_def send_init_def) (simp add: storeLocal_def storeRemote_def)
qed

lemma connecting_dials:
  "\<exists>c. Dial amd64 quietHost connecting recvState_zero True False None None True ''sctp'' None (Some loopback) () = Some (Inr c, ()) \<and>
    n_laddr c = Some Addr_zero \<and> n_raddr c = Some Addr_zero"
proof -
  let ?p = "\<lparr>p_ops = [OpRecvRcvInfo, OpAssocChange], p_handler = False, p_closeTimeout = 3000000000, p_abandon = 0,
      p_setupRTOInitialMS = 0, p_subscribed = 0, p_fragLevel = 0, p_adopted = False\<rparr>"
  have p: "prepare amd64 None styleDial = Some (Inr ?p)" by code_simp
  obtain b where b: "encodeAddrs amd64 (\<lambda>_. None) afInet6 [IP4 0x7F000001] 3868 = Some (Inr b)" using loopback_prepared(2) by blast
  have "(case encodeAddrs amd64 (\<lambda>_. None) afInet6 [IP4 0x7F000001] 3868 of Some (Inr b) \<Rightarrow> length b = 28 | _ \<Rightarrow> False)" by code_simp
  then have len: "length b = 28" by (simp only: b) simp
  let ?d = "\<lparr>d_network = canonicalName ''sctp'', d_family = afInet6, d_p = ?p, d_bind = None, d_peer = b\<rparr>"
  let ?c = "blank_conn recvState_zero True kindDialed afInet6 (canonicalName ''sctp'') ?p"
  obtain c where c: "Conn_init amd64 quietHost (sys_of connecting) ?p ?c () = Some (Inr c, ())" "n_laddr c = Some Addr_zero" "n_raddr c = Some Addr_zero"
    using connecting_init [of ?c ?p quietHost "()"] by (auto simp: blank_conn_def)
  have "dial_run amd64 quietHost connecting recvState_zero True ?d None () = Some (Inr c, ())"
    using c(1) len by (simp add: dial_run_def io_bind_def io_call_def openSocket_def wrapSocketFile_def io_catch_def dial_setup_def connecting_setup
      io_ret_def connectSocket_def connectx_def connectxID_def connectxLength_def connecting_awaits newConn_def)
  then have "dial_loop amd64 quietHost connecting recvState_zero True ?d None True n () = Some (Inr c, ())" for n
    using c by (simp add: dial_loop.simps [of _ _ _ _ _ _ _ _ n] io_bind_def io_ret_def selfConnected_def Addr_zero_def)
  moreover have "h_zi quietHost = (\<lambda>_. None)" "ad_IPs loopback = [IP4 0x7F000001]" "ad_Port loopback = 3868"
    by (simp_all add: quietHost_def loopback_def)
  ultimately show ?thesis using b c by (simp add: Dial_def dial_def io_wrap_def loopback_prepared(3) p)
qed


end
