(* ===== verification/Endpoints.thy ===== *)
theory Endpoints
  imports Listeners
begin

unbundle bit_operations_syntax

text \<open>
  One-to-many endpoints (\<open>endpoint.go\<close>, \<open>endpoint_linux.go\<close>): the association ids, the list of them and the control data that names
  one, opening an endpoint, its associations (\<open>Connect\<close>, \<open>CloseAssoc\<close>, \<open>AbortAssoc\<close>, the queries), sending and receiving, \<open>PeelOff\<close>, and the
  steps by which an endpoint closes. An Endpoint's calls are made on the net \<open>L\<close> of its descriptor; its receive state and the
  answers of recvmsg are those of theory \<open>Recv\<close>, with no association-error latch.
\<close>

section \<open>Association ids\<close>

definition realAssocID :: "AssocID \<Rightarrow> bool" where
  "realAssocID i \<longleftrightarrow> sint i > sint (assocScopeAll :: u32)"

definition assocIDArg :: "string \<Rightarrow> AssocID \<Rightarrow> goerr option" where
  "assocIDArg meth i =
     (if realAssocID i then None
      else if i = assocScopeFuture then Some (InvalidArg (meth @ '': association id 0 is the scope selector SCTP_FUTURE_ASSOC''))
      else if i = assocScopeCurrent then Some (InvalidArg (meth @ '': association id 1 is the scope selector SCTP_CURRENT_ASSOC''))
      else if i = assocScopeAll then Some (InvalidArg (meth @ '': association id 2 is the scope selector SCTP_ALL_ASSOC''))
      else Some (InvalidArg (meth @ '': association id %d is negative'')))"

definition assocIDListLimit :: nat where
  "assocIDListLimit = 1048576"

text \<open>The loop that reads \<open>n\<close> ids from index \<open>i\<close> on, and the one that compares neighbours of the sorted slice.\<close>

fun decodeIDs_loop :: "target \<Rightarrow> bytes \<Rightarrow> nat \<Rightarrow> nat \<Rightarrow> (goerr + AssocID list) option" where
  "decodeIDs_loop T b i 0 = Some (Inr [])"
| "decodeIDs_loop T b i (Suc n) = do {
     x \<leftarrow> get32 (native T) b (sizeAssocIDs + i * sizeAssocID);
     (if \<not> realAssocID x then Some (Inl (Wrapped ''id %d at index %d is not an association id'' ErrInvalidAssocList))
      else do {
        r \<leftarrow> decodeIDs_loop T b (i + 1) n;
        Some (case r of Inl e \<Rightarrow> Inl e | Inr xs \<Rightarrow> Inr (x # xs))
      })
   }"

fun repeated :: "AssocID list \<Rightarrow> bool" where
  "repeated (x # y # ys) \<longleftrightarrow> x = y \<or> repeated (y # ys)"
| "repeated _ \<longleftrightarrow> False"

definition decodeAssocIDs :: "target \<Rightarrow> bytes \<Rightarrow> (goerr + AssocID list) option" where
  "decodeAssocIDs T b =
     (if length b < sizeAssocIDs then Some (Inl (Wrapped ''%d bytes, shorter than its %d-byte header'' ErrInvalidAssocList))
      else do {
        count \<leftarrow> get32 (native T) b assocIDsNumIDsOff;
        (if unat count > assocIDListLimit then Some (Inl (Wrapped ''%d ids, more than %d'' ErrAssocListTooLarge))
         else if length b \<noteq> sizeAssocIDs + unat count * sizeAssocID
         then Some (Inl (Wrapped ''%d ids need %d bytes, got %d'' ErrInvalidAssocList))
         else do {
           r \<leftarrow> decodeIDs_loop T b 0 (unat count);
           Some (case r of
             Inl e \<Rightarrow> Inl e
           | Inr xs \<Rightarrow>
               let ids = sort_key sint xs in
               if repeated ids then Inl (Wrapped ''id %d appears twice'' ErrInvalidAssocList) else Inr ids)
         })
      })"

section \<open>Whose message it is\<close>

text \<open>\<open>checkRcvInfoRecord\<close>: the walk of \<open>parseRecvCmsgs\<close> once more, counting the \<open>SCTP_RCVINFO\<close> records.\<close>

definition rcvInfoVerdict :: "nat \<Rightarrow> AssocID \<Rightarrow> goerr option" where
  "rcvInfoVerdict records i =
     (if records = 0 then Some ErrMissingRcvInfo
      else if records > 1 then Some (Wrapped ''%d SCTP_RCVINFO records on one message'' ErrInvalidRcvInfo)
      else if \<not> realAssocID i then Some (Wrapped ''association id %d'' ErrInvalidRcvInfo)
      else None)"

function checkRcvInfo_loop :: "target \<Rightarrow> AssocID \<Rightarrow> nat \<Rightarrow> bytes \<Rightarrow> (goerr option) option" where
  "checkRcvInfo_loop T i records oob =
     (if length oob < sizeCmsghdr T then Some (rcvInfoVerdict records i)
      else do {
        len \<leftarrow> readWord T oob;
        (if unat len < sizeCmsghdr T \<or> unat len > length oob
         then Some (Some (Wrapped ''a control message header declares %d bytes where %d remain'' ErrInvalidRcvInfo))
         else do {
           level \<leftarrow> get32 (native T) oob (cmsghdrLevelOff T);
           ty \<leftarrow> get32 (native T) oob (cmsghdrTypeOff T);
           let found = (level = ipprotoSCTP \<and> ty = cmsgRcvInfo);
           let records' = (if found then records + 1 else records);
           (if found \<and> unat len - sizeCmsghdr T < sizeRcvInfo
            then Some (Some (Wrapped ''a %d-byte record, shorter than struct sctp_rcvinfo's %d'' ErrInvalidRcvInfo))
            else let adv = cmsgAlign T (unat len) in
              if adv > length oob then Some (rcvInfoVerdict records' i) else checkRcvInfo_loop T i records' (drop adv oob))
         })
      })"
  by pat_completeness auto
termination
proof (relation "measure (\<lambda>(T, i, records, oob). length oob)", goal_cases)
  case (2 T i records oob len level ty found records' adv)
  have "0 < adv" using 2 cmsgAlign_ge [of "unat len" T] by simp
  with 2 show ?case by auto
qed simp

declare checkRcvInfo_loop.simps [simp del]

definition checkRcvInfoRecord :: "target \<Rightarrow> bytes \<Rightarrow> AssocID \<Rightarrow> (goerr option) option" where
  "checkRcvInfoRecord T oob i = checkRcvInfo_loop T i 0 oob"

definition parseEndpointRecvCmsgs :: "target \<Rightarrow> bytes \<Rightarrow> u32 \<Rightarrow> (goerr option \<times> MsgInfo) option" where
  "parseEndpointRecvCmsgs T oob flags = do {
     (err, info) \<leftarrow> parseRecvCmsgs T oob flags;
     (if mi_Notification info then Some (err, info)
      else do {
        cerr \<leftarrow> checkRcvInfoRecord T oob (rcv_AssocID (mi_Rcv info));
        Some (case cerr of
          None \<Rightarrow> (err, info)
        | Some e \<Rightarrow> (if err = None then Some e else err, info\<lparr>mi_Rcv := RcvInfo_zero\<rparr>))
      })
   }"

section \<open>State\<close>

text \<open>As for a connection (\<open>Recv\<close>), \<open>e_captured\<close> says whether the closed-file error could be captured, \<open>e_abortErr\<close> is what an Abort would
  return, \<open>e_aborts\<close> counts the aborts and \<open>e_handled\<close> lists the notifications the handler was given.\<close>

record Endpoint =
  e_family :: u16
  e_network :: string
  e_peel :: prepared
  e_addr :: "Addr option"
  e_handler :: bool
  e_closeWait :: int
  e_subs :: eventSet
  e_life :: lifeState
  e_send :: sendState
  e_recv :: recvState
  e_captured :: bool
  e_abortErr :: "goerr option"
  e_aborts :: nat
  e_handled :: "Notification list"

definition Endpoint_network :: "Endpoint \<Rightarrow> string" where
  "Endpoint_network e = (if e_network e = [] then ''sctp'' else e_network e)"

definition Endpoint_Addr :: "Endpoint \<Rightarrow> netaddr" where
  "Endpoint_Addr e = netAddr (e_addr e)"

definition Endpoint_opened :: "Endpoint \<Rightarrow> bool" where
  "Endpoint_opened e \<longleftrightarrow> e_life e \<noteq> lifeClosed"

definition Endpoint_ioError :: "string \<Rightarrow> goerr option \<Rightarrow> Endpoint \<Rightarrow> goerr option" where
  "Endpoint_ioError op err e = ioOpError (e_captured e) op (Endpoint_network e) (Endpoint_Addr e) None err"

definition Endpoint_optionError :: "string \<Rightarrow> goerr option \<Rightarrow> Endpoint \<Rightarrow> goerr option" where
  "Endpoint_optionError op err e =
     optError (e_captured e) op (if op = ''set'' then ''setsockopt'' else ''getsockopt'') (Endpoint_network e) None (Endpoint_Addr e) err"

definition Endpoint_argError :: "string \<Rightarrow> goerr option \<Rightarrow> Endpoint \<Rightarrow> goerr option" where
  "Endpoint_argError op err e = opError (e_captured e) op (Endpoint_network e) None (Endpoint_Addr e) err"

definition Endpoint_getError :: "goerr option \<Rightarrow> Endpoint \<Rightarrow> goerr option" where
  "Endpoint_getError err e =
     (case Option.bind err asErrno of
        Some x \<Rightarrow> Endpoint_optionError ''get'' (Some (Errno x)) e
      | None \<Rightarrow> Endpoint_argError ''get'' err e)"

definition Endpoint_closeError :: "goerr option \<Rightarrow> Endpoint \<Rightarrow> goerr option" where
  "Endpoint_closeError err e =
     (if err = None then None else opError (e_captured e) ''close'' (Endpoint_network e) (Endpoint_Addr e) None err)"

definition dialError :: "Addr option \<Rightarrow> goerr option \<Rightarrow> Endpoint \<Rightarrow> goerr option" where
  "dialError raddr err e = opError (e_captured e) ''dial'' (Endpoint_network e) (Endpoint_Addr e) (netAddr raddr) err"

definition peelError :: "goerr option \<Rightarrow> Endpoint \<Rightarrow> goerr option" where
  "peelError err e = opError (e_captured e) ''peeloff'' (Endpoint_network e) None (Endpoint_Addr e) err"

definition whenOpened :: "(goerr option \<Rightarrow> goerr option) \<Rightarrow> Endpoint \<Rightarrow> ('k, 'a) io \<Rightarrow> ('k, 'a) io" where
  "whenOpened w e m = (if Endpoint_opened e then m else io_err (w (Some NetErrClosed)))"

text \<open>A refusal before any system call.\<close>

definition io_refuse :: "(goerr option \<Rightarrow> goerr option) \<Rightarrow> goerr option \<Rightarrow> ('k, unit) io" where
  "io_refuse w err = (case err of None \<Rightarrow> io_ret () | Some x \<Rightarrow> io_err (w (Some x)))"

section \<open>Opening\<close>

definition Endpoint_refreshAddr :: "target \<Rightarrow> hostEnv \<Rightarrow> 'k sys \<Rightarrow> Endpoint \<Rightarrow> ('k, Endpoint) io" where
  "Endpoint_refreshAddr T H K e = (\<lambda>k. case getAddrs T (h_ifx H) K optGetLocalAddrs 0 k of
     None \<Rightarrow> None
   | Some (Inr a, k') \<Rightarrow> Some (Inr (e\<lparr>e_addr := Some a\<rparr>), k')
   | Some (Inl x, k') \<Rightarrow> Some (Inr (if e_addr e = None then e\<lparr>e_addr := Some Addr_zero\<rparr> else e), k'))"

definition setupEndpoint ::
  "target \<Rightarrow> 'k net \<Rightarrow> u16 \<Rightarrow> ('k, unit) io option \<Rightarrow> configOp list \<Rightarrow> bytes option \<Rightarrow> bool \<Rightarrow> ('k, unit) io" where
  "setupEndpoint T L family ctl ops laddrs listening =
     (if listening then setupListener T L family ctl ops laddrs
      else io_bind (setupSocket T (sys_of L) family ctl ops) (\<lambda>_.
        case laddrs of
          None \<Rightarrow> io_ret ()
        | Some b \<Rightarrow> io_wrap (syscallError ''sctp_bindx'') (socket_bindx (sys_of L) optSockoptBindxAdd b)))"

definition ownSubscriptions :: "Config option \<Rightarrow> eventSet" where
  "ownSubscriptions cfg =
     (case cfg of None \<Rightarrow> 0 | Some c \<Rightarrow> foldl (\<lambda>s t. s OR eventBit t) 0 (case cf_Notifications c of None \<Rightarrow> [] | Some ts \<Rightarrow> ts))"

text \<open>\<open>newEndpoint\<close>; \<open>r\<close> is a fresh receive state, which is bound to no latch and to the endpoint's subscriptions.\<close>

definition newEndpoint ::
  "target \<Rightarrow> hostEnv \<Rightarrow> 'k sys \<Rightarrow> recvState \<Rightarrow> bool \<Rightarrow> u16 \<Rightarrow> string \<Rightarrow> prepared \<Rightarrow> eventSet \<Rightarrow> ('k, Endpoint) io" where
  "newEndpoint T H K r captured family network p own = (\<lambda>k.
     Endpoint_refreshAddr T H K
       \<lparr>e_family = family, e_network = network, e_peel = p\<lparr>p_subscribed := own\<rparr>, e_addr = None, e_handler = p_handler p,
        e_closeWait = p_closeTimeout p, e_subs = p_subscribed p, e_life = lifeOpen,
        e_send = readDefaults T (if y_released K k then Some NetErrClosed else None)
          (k_get (kernel_of K) k optDefaultSndInfo) (k_get (kernel_of K) k optDefaultPRInfo) (sendState_bind None True),
        e_recv = r\<lparr>r_term := None, r_subs := ucast (p_subscribed p)\<rparr>, e_captured = captured, e_abortErr = None, e_aborts = 0, e_handled = []\<rparr> k)"

definition openEndpoint ::
  "target \<Rightarrow> hostEnv \<Rightarrow> 'k net \<Rightarrow> recvState \<Rightarrow> bool \<Rightarrow> bool \<Rightarrow> Config option \<Rightarrow> ('k, unit) io option \<Rightarrow> socketStyle \<Rightarrow>
   string \<Rightarrow> Addr option \<Rightarrow> ('k, Endpoint) io" where
  "openEndpoint T H L r captured noIPv6 cfg ctl style network laddr =
     io_bind (io_check id (Some (socketFamily noIPv6 network laddr None))) (\<lambda>family.
     io_bind (io_check id (prepare T cfg style)) (\<lambda>p.
     io_bind (case laddr of
         None \<Rightarrow> io_ret None
       | Some la \<Rightarrow> io_bind (io_check id (localBindAddrs T (h_zi H) family la)) (\<lambda>b. io_ret (Some b))) (\<lambda>laddrs.
     io_bind (openSocket L family) (\<lambda>_.
     io_bind (io_catch (setupEndpoint T L family ctl (p_ops p) laddrs (style = styleListenEndpoint)) (\<lambda>e. io_fail_after (ops_abortive L) e)) (\<lambda>_.
       newEndpoint T H (sys_of L) r captured family (canonicalName network) p (ownSubscriptions cfg))))))"

definition ListenEndpoint ::
  "target \<Rightarrow> hostEnv \<Rightarrow> 'k net \<Rightarrow> recvState \<Rightarrow> bool \<Rightarrow> bool \<Rightarrow> Config option \<Rightarrow> ('k, unit) io option \<Rightarrow> string \<Rightarrow> Addr option \<Rightarrow> ('k, Endpoint) io" where
  "ListenEndpoint T H L r captured noIPv6 cfg ctl network laddr =
     io_wrap (opError captured ''listen'' (canonicalName network) None (netAddr laddr))
       (openEndpoint T H L r captured noIPv6 cfg ctl styleListenEndpoint network laddr)"

definition OpenEndpoint ::
  "target \<Rightarrow> hostEnv \<Rightarrow> 'k net \<Rightarrow> recvState \<Rightarrow> bool \<Rightarrow> bool \<Rightarrow> Config option \<Rightarrow> ('k, unit) io option \<Rightarrow> string \<Rightarrow> Addr option \<Rightarrow> ('k, Endpoint) io" where
  "OpenEndpoint T H L r captured noIPv6 cfg ctl network laddr =
     io_wrap (opError captured ''listen'' (canonicalName network) None (netAddr laddr))
       (openEndpoint T H L r captured noIPv6 cfg ctl styleOpenEndpoint network laddr)"

section \<open>Associations\<close>

text \<open>\<open>Connect\<close>: the id, and the endpoint with its snapshot refreshed when the setup bound it.\<close>

definition Connect :: "target \<Rightarrow> hostEnv \<Rightarrow> 'k net \<Rightarrow> Addr option \<Rightarrow> Endpoint \<Rightarrow> ('k, AssocID \<times> Endpoint) io" where
  "Connect T H L raddr e = whenOpened (\<lambda>x. dialError raddr x e) e
     (case raddr of
        None \<Rightarrow> io_err (dialError raddr (Some (InvalidArg ''Connect needs a remote address with at least one IP'')) e)
      | Some ra \<Rightarrow>
          if ad_IPs ra = [] then io_err (dialError raddr (Some (InvalidArg ''Connect needs a remote address with at least one IP'')) e)
          else if ad_Port ra = 0 then io_err (dialError raddr (Some (InvalidArg ''Connect needs a non-zero remote port (RFC 9260 3.1)'')) e)
          else io_bind (io_check (\<lambda>x. dialError raddr x e) (encodeAddrs T (h_zi H) (e_family e) (ad_IPs ra) (ad_Port ra))) (\<lambda>peer.
            io_bind (\<lambda>k. case connectxID L peer k of ((i, err), k') \<Rightarrow>
                if err \<noteq> None \<and> err \<noteq> Some (Errno EINPROGRESS)
                then Some (Inl (dialError raddr (syscallError ''sctp_connectx'' err) e), k')
                else Some (Inr i, k')) (\<lambda>i.
            io_bind (if (case e_addr e of None \<Rightarrow> True | Some a \<Rightarrow> ad_Port a = 0)
                     then Endpoint_refreshAddr T H (sys_of L) e else io_ret e) (\<lambda>e'.
              io_ret (i, e')))))"

definition maxAbortCause :: nat where
  "maxAbortCause = 65532 - 8"

definition endAssoc :: "target \<Rightarrow> 'k net \<Rightarrow> string \<Rightarrow> AssocID \<Rightarrow> u16 \<Rightarrow> bytes \<Rightarrow> Endpoint \<Rightarrow> ('k, unit) io" where
  "endAssoc T L meth i flag cause e = whenOpened (\<lambda>x. Endpoint_closeError x e) e
     (io_bind (io_refuse (\<lambda>x. Endpoint_closeError x e) (assocIDArg meth i)) (\<lambda>_.
      if length cause > maxAbortCause
      then io_err (Endpoint_closeError (Some (InvalidArg (meth @ '': a cause longer than one ABORT chunk carries''))) e)
      else (\<lambda>k. if y_released L k then Some (Inl (Endpoint_closeError (Some NetErrClosed) e), k)
            else case rawSendEnd T L flag i cause k of
              None \<Rightarrow> None
            | Some (None, k') \<Rightarrow> Some (Inr (), k')
            | Some (Some x, k') \<Rightarrow> Some (Inl (Endpoint_closeError (eofSendError (Some (Errno x))) e), k'))))"

definition CloseAssoc :: "target \<Rightarrow> 'k net \<Rightarrow> AssocID \<Rightarrow> Endpoint \<Rightarrow> ('k, unit) io" where
  "CloseAssoc T L i e = endAssoc T L ''CloseAssoc'' i sndFlagEOF [] e"

definition AbortAssoc :: "target \<Rightarrow> 'k net \<Rightarrow> AssocID \<Rightarrow> bytes \<Rightarrow> Endpoint \<Rightarrow> ('k, unit) io" where
  "AbortAssoc T L i cause e = endAssoc T L ''AbortAssoc'' i sndFlagAbort cause e"

definition assocIDsFirstBuffer :: nat where
  "assocIDsFirstBuffer = 16"

text \<open>The loop of \<open>assocIDs\<close> with room for \<open>room\<close> ids. \<open>int(l)\<close> is negative on a 32-bit target for a length of \<open>2^31\<close> and above.\<close>

partial_function (option) assocIDs_loop ::
  "target \<Rightarrow> 'k sys \<Rightarrow> nat \<Rightarrow> 'k \<Rightarrow> ((goerr option + AssocID list) \<times> 'k) option" where
  "assocIDs_loop T K room k =
     Option.bind (getsockopt K (Sctp optGetAssocIDList) (replicate (sizeAssocIDs + room * sizeAssocID) 0) k) (\<lambda>(r, k').
       case r of
         Inl err \<Rightarrow>
           if err = Some (Errno EINVAL) \<and> room < assocIDListLimit then assocIDs_loop T K (room * 2) k'
           else if err = Some (Errno EINVAL) then Some (Inl (Some (Wrapped ''more than %d ids'' ErrAssocListTooLarge)), k')
           else Some (Inl err, k')
       | Inr (b, l) \<Rightarrow>
           if goInt T l > int (length b)
           then Some (Inl (Some (Wrapped ''the kernel reported %d bytes of a %d-byte buffer'' ErrInvalidAssocList)), k')
           else Option.bind (subslice 0 (unat l) b) (\<lambda>b'.
             Option.bind (decodeAssocIDs T b') (\<lambda>d. Some (case d of Inl x \<Rightarrow> Inl (Some x) | Inr ids \<Rightarrow> Inr ids, k'))))"

definition socket_assocIDs :: "target \<Rightarrow> 'k sys \<Rightarrow> ('k, AssocID list) io" where
  "socket_assocIDs T K = assocIDs_loop T K assocIDsFirstBuffer"

definition AssocIDs :: "target \<Rightarrow> 'k sys \<Rightarrow> Endpoint \<Rightarrow> ('k, AssocID list) io" where
  "AssocIDs T K e = whenOpened (\<lambda>x. Endpoint_optionError ''get'' x e) e (io_wrap (\<lambda>x. Endpoint_getError x e) (socket_assocIDs T K))"

definition AssocCount :: "target \<Rightarrow> 'k sys \<Rightarrow> Endpoint \<Rightarrow> ('k, int) io" where
  "AssocCount T K e = whenOpened (\<lambda>x. Endpoint_optionError ''get'' x e) e
     (io_bind (io_wrap (\<lambda>x. Endpoint_optionError ''get'' x e) (getsockopt K (Sctp optGetAssocNumber) (replicate sizeInt 0))) (\<lambda>(b, l).
      io_bind (io_total (get32 (native T) b 0)) (\<lambda>v. io_ret (goInt T v))))"

definition assocAddrs :: "target \<Rightarrow> hostEnv \<Rightarrow> 'k sys \<Rightarrow> string \<Rightarrow> nat \<Rightarrow> AssocID \<Rightarrow> Endpoint \<Rightarrow> ('k, Addr) io" where
  "assocAddrs T H K meth opt i e = whenOpened (\<lambda>x. Endpoint_optionError ''get'' x e) e
     (io_bind (io_refuse (\<lambda>x. Endpoint_argError ''get'' x e) (assocIDArg meth i)) (\<lambda>_.
      io_wrap (\<lambda>x. Endpoint_getError x e) (getAddrs T (h_ifx H) K opt i)))"

definition Endpoint_LocalAddrs :: "target \<Rightarrow> hostEnv \<Rightarrow> 'k sys \<Rightarrow> AssocID \<Rightarrow> Endpoint \<Rightarrow> ('k, Addr) io" where
  "Endpoint_LocalAddrs T H K i e = assocAddrs T H K ''LocalAddrs'' optGetLocalAddrs i e"

definition Endpoint_PeerAddrs :: "target \<Rightarrow> hostEnv \<Rightarrow> 'k sys \<Rightarrow> AssocID \<Rightarrow> Endpoint \<Rightarrow> ('k, Addr) io" where
  "Endpoint_PeerAddrs T H K i e = assocAddrs T H K ''PeerAddrs'' optGetPeerAddrs i e"

text \<open>Durations in nanoseconds; \<open>time.Duration\<close> of a 32-bit count of seconds does not wrap.\<close>

definition AutoClose :: "target \<Rightarrow> 'k sys \<Rightarrow> Endpoint \<Rightarrow> ('k, int) io" where
  "AutoClose T K e = whenOpened (\<lambda>x. Endpoint_optionError ''get'' x e) e
     (io_bind (io_wrap (\<lambda>x. Endpoint_optionError ''get'' x e) (getsockopt K (Sctp optAutoClose) (replicate sizeInt 0))) (\<lambda>(b, l).
      io_bind (io_total (get32 (native T) b 0)) (\<lambda>v. io_ret (uint v * Second))))"

definition SetAutoClose :: "target \<Rightarrow> 'k sys \<Rightarrow> int \<Rightarrow> Endpoint \<Rightarrow> ('k, unit) io" where
  "SetAutoClose T K d e = whenOpened (\<lambda>x. Endpoint_optionError ''set'' x e) e
     (io_bind (io_check (\<lambda>x. Endpoint_argError ''set'' x e) (durationToSeconds ''SetAutoClose'' d MaxUint32)) (\<lambda>secs.
      io_bind (io_total (put32 (native T) 0 secs (replicate sizeInt 0))) (\<lambda>b.
        io_wrap (\<lambda>x. Endpoint_optionError ''set'' x e) (setsockopt K (Sctp optAutoClose) b))))"

definition Endpoint_bindx ::
  "target \<Rightarrow> hostEnv \<Rightarrow> 'k sys \<Rightarrow> nat \<Rightarrow> string \<Rightarrow> ipaddr list \<Rightarrow> Endpoint \<Rightarrow> ('k, Endpoint) io" where
  "Endpoint_bindx T H K opt name ips e =
     (let err = opError (e_captured e) ''bindx'' (Endpoint_network e) None (Endpoint_Addr e) in
      whenOpened err e
      (io_bind (io_check err (bindxAddrs T (h_zi H) (e_family e) name ips)) (\<lambda>buf.
      io_bind (if opt = optSockoptBindxRemove
               then (\<lambda>k. case getAddrs T (h_ifx H) K optGetLocalAddrs 0 k of
                   None \<Rightarrow> None
                 | Some (Inr bound, k') \<Rightarrow>
                     if removesEveryAddress (ad_IPs bound) ips
                     then Some (Inl (err (Some (InvalidArg (name @ '' would remove every local address'')))), k')
                     else Some (Inr (), k')
                 | Some (Inl x, k') \<Rightarrow> Some (Inr (), k'))
               else io_ret ()) (\<lambda>_.
      io_bind (io_wrap (optError (e_captured e) ''bindx'' ''setsockopt'' (Endpoint_network e) None (Endpoint_Addr e)) (socket_bindx K opt buf)) (\<lambda>_.
        Endpoint_refreshAddr T H K e)))))"

definition Endpoint_BindAdd :: "target \<Rightarrow> hostEnv \<Rightarrow> 'k sys \<Rightarrow> ipaddr list \<Rightarrow> Endpoint \<Rightarrow> ('k, Endpoint) io" where
  "Endpoint_BindAdd T H K ips e = Endpoint_bindx T H K optSockoptBindxAdd ''BindAdd'' ips e"

definition Endpoint_BindRemove :: "target \<Rightarrow> hostEnv \<Rightarrow> 'k sys \<Rightarrow> ipaddr list \<Rightarrow> Endpoint \<Rightarrow> ('k, Endpoint) io" where
  "Endpoint_BindRemove T H K ips e = Endpoint_bindx T H K optSockoptBindxRemove ''BindRemove'' ips e"

section \<open>Sending\<close>

definition checkEndpointSend :: "int \<Rightarrow> AssocID \<Rightarrow> bytes \<Rightarrow> SendOptions \<Rightarrow> goerr option" where
  "checkEndpointSend pagesize i b opts =
     (case assocIDArg ''SendMsg'' i of Some x \<Rightarrow> Some x | None \<Rightarrow>
      case checkSendSize pagesize (length b) of Some x \<Rightarrow> Some x | None \<Rightarrow>
      case validateSendOptions (SendCtl.truncate opts) of Some x \<Rightarrow> Some x | None \<Rightarrow>
      if IsValid (so_Path opts) then Some (InvalidArg ''SendOptions.Path is set on an Endpoint'') else None)"

text \<open>\<open>sendMsg\<close> and \<open>SendMsgContext\<close> up to the call of \<open>send\<close>, the send's start (\<open>send\<close> is given no destination and the id), and
  the result once \<open>send\<close> has returned. The steps in between are those of theory \<open>SendMachine\<close>.\<close>

definition Endpoint_sendMsg_enter :: "int \<Rightarrow> AssocID \<Rightarrow> bytes \<Rightarrow> SendOptions \<Rightarrow> Endpoint \<Rightarrow> goerr option" where
  "Endpoint_sendMsg_enter pagesize i b opts e =
     (if \<not> Endpoint_opened e then Endpoint_ioError ''write'' (Some NetErrClosed) e
      else case checkEndpointSend pagesize i b opts of
        Some x \<Rightarrow> Endpoint_ioError ''write'' (Some x) e
      | None \<Rightarrow> None)"

definition Endpoint_SendMsgContext_enter ::
  "int \<Rightarrow> (goerr option) option \<Rightarrow> AssocID \<Rightarrow> bytes \<Rightarrow> SendOptions \<Rightarrow> Endpoint \<Rightarrow> goerr option" where
  "Endpoint_SendMsgContext_enter pagesize ctx i b opts e =
     (case ctx of
        None \<Rightarrow> Endpoint_ioError ''write'' (Some (InvalidArg ''SendMsgContext needs a non-nil context'')) e
      | Some (Some x) \<Rightarrow> Endpoint_ioError ''write'' (Some x) e
      | Some None \<Rightarrow> Endpoint_sendMsg_enter pagesize i b opts e)"

definition Endpoint_send_start :: "target \<Rightarrow> sendCtx \<Rightarrow> AssocID \<Rightarrow> bytes \<Rightarrow> SendOptions \<Rightarrow> Endpoint \<Rightarrow> Endpoint option" where
  "Endpoint_send_start T ctx i b opts e = map_option (\<lambda>s. e\<lparr>e_send := s\<rparr>) (send_start T ctx b opts [] i (e_send e))"

definition Endpoint_send_result :: "int \<times> goerr option \<Rightarrow> Endpoint \<Rightarrow> int \<times> goerr option" where
  "Endpoint_send_result r e = (case r of (n, Some x) \<Rightarrow> (n, Endpoint_ioError ''write'' (Some x) e) | (n, None) \<Rightarrow> (n, None))"

section \<open>Receiving\<close>

definition Endpoint_readEnded :: "goerr option \<Rightarrow> Endpoint \<Rightarrow> goerr option" where
  "Endpoint_readEnded err e = (if e_life e \<noteq> lifeOpen then Some NetErrClosed else closedCause (e_captured e) err)"

definition Endpoint_abortInterrupted :: "goerr option \<Rightarrow> Endpoint \<Rightarrow> goerr option \<times> Endpoint" where
  "Endpoint_abortInterrupted cause e =
     (let a = r_notes (e_recv e) in
      (joinAbortCause (errorsJoin [Some (acc_interrupted a), closedCause (e_captured e) cause]) (e_abortErr e),
       e\<lparr>e_recv := (e_recv e)\<lparr>r_notes := acc_reset a\<rparr>, e_life := lifeClosed, e_aborts := e_aborts e + 1\<rparr>))"

text \<open>The \<open>record\<close> case of \<open>recvNext\<close>, \<open>None\<close> as the result being its \<open>continue\<close>, and the data case.\<close>

definition Endpoint_recvRecord :: "target \<Rightarrow> ifaceEnv \<Rightarrow> nat \<Rightarrow> u32 \<Rightarrow> Endpoint \<Rightarrow> (recvd option \<times> Endpoint) option" where
  "Endpoint_recvRecord T ifx blen flags e =
     (let s = e_recv e; clean = e\<lparr>e_recv := s\<lparr>r_notes := acc_reset (r_notes s)\<rparr>\<rparr> in
      if \<not> r_kept s then (case dropRecord s of (x, s1) \<Rightarrow> Some (map_option Fails x, e\<lparr>e_recv := s1\<rparr>))
      else case acc_finish (r_notes s) of
        Inl x \<Rightarrow> Some (Some (Fails x), clean)
      | Inr dat \<Rightarrow>
          if e_handler e then do {
            r \<leftarrow> ParseNotification T ifx dat;
            Some (Some (case r of Inl x \<Rightarrow> Fails x | Inr n \<Rightarrow> Note n None), clean)
          }
          else do {
            (_, info) \<leftarrow> parseRecvCmsgs T (r_control s) flags;
            ((piece, mi), s2) \<leftarrow> servePiece blen (s\<lparr>r_serveInfo := info, r_serving := True, r_served := 0\<rparr>);
            Some (Some (Data piece mi None), e\<lparr>e_recv := s2\<rparr>)
          })"

definition Endpoint_recvData :: "target \<Rightarrow> outcome \<Rightarrow> Endpoint \<Rightarrow> (recvd \<times> Endpoint) option" where
  "Endpoint_recvData T x e = do {
     (err, info) \<leftarrow> parseEndpointRecvCmsgs T (r_control (e_recv e)) (o_flags x);
     Some (Data (o_data x) info err, e)
   }"

definition Endpoint_recvSwitch ::
  "target \<Rightarrow> ifaceEnv \<Rightarrow> nat \<Rightarrow> outcome polled \<Rightarrow> Endpoint \<Rightarrow> (recvd option \<times> Endpoint) option" where
  "Endpoint_recvSwitch T ifx blen p e =
     (case p of
        Parked \<Rightarrow> Some (Some recvd.Waits, e)
      | PollFails x \<Rightarrow> Some (Some (Fails (the (Endpoint_readEnded (Some x) e))), e)
      | Polled x \<Rightarrow>
          if o_cut x then (case Endpoint_abortInterrupted (o_err x) e of (err, e1) \<Rightarrow> Some (Some (Fails (the err)), e1))
          else if o_err x \<noteq> None then Some (Some (Fails (the (Endpoint_readEnded (o_err x) e))), e)
          else if o_record x then Endpoint_recvRecord T ifx blen (o_flags x) e
          else map_option (apfst Some) (Endpoint_recvData T x e))"

definition Endpoint_recvRound ::
  "target \<Rightarrow> ifaceEnv \<Rightarrow> nat \<Rightarrow> answer list \<Rightarrow> Endpoint \<Rightarrow> (recvd option \<times> answer list \<times> Endpoint) option" where
  "Endpoint_recvRound T ifx blen as e =
     (if r_serving (e_recv e)
      then do {
        ((piece, mi), s') \<leftarrow> servePiece blen (e_recv e);
        Some (Some (Data piece mi None), as, e\<lparr>e_recv := s'\<rparr>)
      }
      else do {
        (p, as', s1) \<leftarrow> rawRead T as ((e_recv e)\<lparr>r_keepNotes := True\<rparr>);
        (r, e1) \<leftarrow> Endpoint_recvSwitch T ifx blen p (e\<lparr>e_recv := s1\<rparr>);
        Some (r, as', e1)
      })"

lemma Endpoint_recvSwitch_record:
  "Endpoint_recvSwitch T ifx blen p e = Some (r, e') \<Longrightarrow> r = None \<or> (\<exists>n x. r = Some (Note n x)) \<Longrightarrow>
     \<exists>x. p = Polled x \<and> o_record x"
  by (auto simp: Endpoint_recvSwitch_def Endpoint_recvData_def split: polled.splits if_splits bind_splits prod.splits)

lemma Endpoint_recvRound_consumes:
  assumes "Endpoint_recvRound T ifx blen as e = Some (r, as', e')" "r = None \<or> (\<exists>n x. r = Some (Note n x))"
  shows "length as' < length as"
proof -
  from assms obtain p s1 where "rawRead T as ((e_recv e)\<lparr>r_keepNotes := True\<rparr>) = Some (p, as', s1)"
      "Endpoint_recvSwitch T ifx blen p (e\<lparr>e_recv := s1\<rparr>) = Some (r, e')"
    by (auto simp: Endpoint_recvRound_def split: bind_splits if_splits)
  with Endpoint_recvSwitch_record [OF _ assms(2)] show ?thesis using rawRead_consumes by blast
qed

function Endpoint_recvNext ::
  "target \<Rightarrow> ifaceEnv \<Rightarrow> nat \<Rightarrow> answer list \<Rightarrow> Endpoint \<Rightarrow> (recvd \<times> answer list \<times> Endpoint) option" where
  "Endpoint_recvNext T ifx blen as e = do {
     (r, as', e') \<leftarrow> Endpoint_recvRound T ifx blen as e;
     (case r of Some x \<Rightarrow> Some (x, as', e') | None \<Rightarrow> Endpoint_recvNext T ifx blen as' e')
   }"
  by pat_completeness auto
termination
  by (relation "measure (\<lambda>(T, ifx, blen, as, e). length as)") (auto dest: Endpoint_recvRound_consumes)

declare Endpoint_recvNext.simps [simp del]

lemma Endpoint_recvNext_note_consumes:
  "Endpoint_recvNext T ifx blen as e = Some (Note n x, as', e') \<Longrightarrow> length as' < length as"
proof (induction T ifx blen as e rule: Endpoint_recvNext.induct)
  case (1 T ifx blen as e)
  from "1.prems" obtain r as1 e1 where r: "Endpoint_recvRound T ifx blen as e = Some (r, as1, e1)"
    by (auto simp: Endpoint_recvNext.simps [of T ifx blen as e] split: bind_splits)
  show ?case
  proof (cases r)
    case None
    with "1.prems" r have "Endpoint_recvNext T ifx blen as1 e1 = Some (Note n x, as', e')"
      by (simp add: Endpoint_recvNext.simps [of T ifx blen as e])
    with "1.IH" [OF r refl refl None] Endpoint_recvRound_consumes [OF r] None show ?thesis by simp
  next
    case (Some y)
    with "1.prems" r Endpoint_recvRound_consumes [OF r] show ?thesis
      by (simp add: Endpoint_recvNext.simps [of T ifx blen as e])
  qed
qed

function Endpoint_RecvMsg_loop ::
  "target \<Rightarrow> ifaceEnv \<Rightarrow> (Notification \<Rightarrow> goerr option) \<Rightarrow> nat \<Rightarrow> answer list \<Rightarrow> Endpoint \<Rightarrow>
     ((bytes \<times> MsgInfo \<times> goerr option) option \<times> answer list \<times> Endpoint) option" where
  "Endpoint_RecvMsg_loop T ifx h blen as e = do {
     (r, as', e1) \<leftarrow> Endpoint_recvNext T ifx blen as e;
     (case r of
        recvd.Waits \<Rightarrow> Some (None, as', e1)
      | Note n _ \<Rightarrow>
          let e2 = e1\<lparr>e_handled := e_handled e1 @ [n]\<rparr> in
          (case h n of
             Some x \<Rightarrow> Some (Some ([], MsgInfo_zero, Endpoint_ioError ''read'' (Some x) e2), as', e2)
           | None \<Rightarrow> Endpoint_RecvMsg_loop T ifx h blen as' e2)
      | Fails x \<Rightarrow> Some (Some ([], MsgInfo_zero, Endpoint_ioError ''read'' (Some x) e1), as', e1)
      | Data p mi None \<Rightarrow> Some (Some (p, mi, None), as', e1)
      | Data p mi (Some x) \<Rightarrow> Some (Some (p, mi, Endpoint_ioError ''read'' (Some x) e1), as', e1))
   }"
  by pat_completeness auto
termination
  by (relation "measure (\<lambda>(T, ifx, h, blen, as, e). length as)") (auto dest: Endpoint_recvNext_note_consumes)

declare Endpoint_RecvMsg_loop.simps [simp del]

definition Endpoint_RecvMsg ::
  "target \<Rightarrow> ifaceEnv \<Rightarrow> (Notification \<Rightarrow> goerr option) \<Rightarrow> nat \<Rightarrow> answer list \<Rightarrow> Endpoint \<Rightarrow>
     ((bytes \<times> MsgInfo \<times> goerr option) option \<times> answer list \<times> Endpoint) option" where
  "Endpoint_RecvMsg T ifx h blen as e =
     (if \<not> Endpoint_opened e then Some (Some ([], MsgInfo_zero, Endpoint_ioError ''read'' (Some NetErrClosed) e), as, e)
      else if blen = 0 then Some (Some ([], MsgInfo_zero, None), as, e)
      else Endpoint_RecvMsg_loop T ifx h blen as e)"

section \<open>PeelOff\<close>

definition checkPeelOffState :: "AssocState \<Rightarrow> goerr option" where
  "checkPeelOffState st =
     (if st = StateCookieWait \<or> st = StateCookieEchoed
      then Some (Wrapped ''PeelOff: wait for AssocCommUp before peeling off an association in %v'' (Errno EINPROGRESS)) else None)"

text \<open>\<open>flags\<close> is the platform's \<open>SOCK_CLOEXEC | SOCK_NONBLOCK\<close>.\<close>

definition peelOff_arg :: "target \<Rightarrow> u32 \<Rightarrow> AssocID \<Rightarrow> bytes option" where
  "peelOff_arg T flags i = do {
     b \<leftarrow> put32 (native T) peeloffFlagsArgAssocIDOff i (replicate sizePeeloffFlagsArg 0);
     put32 (native T) peeloffFlagsArgFlagsOff flags b
   }"

text \<open>\<open>peelOff\<close> inside \<open>sock.control\<close>, on the endpoint's descriptor: the status, the spare descriptor, which is closed at once, and
  the peel-off, whose descriptor the caller goes on with.\<close>

definition peelOff :: "target \<Rightarrow> 'k net \<Rightarrow> u32 \<Rightarrow> AssocID \<Rightarrow> ('k, unit) io" where
  "peelOff T L flags i =
     io_bind (io_total (put32 (native T) statusAssocIDOff i (replicate sizeStatus 0))) (\<lambda>req.
     io_bind (\<lambda>k. case y_get L k (Sctp optStatus) req of
         (Inl x, k') \<Rightarrow> Some (Inl (syscallError ''getsockopt'' (Some (Errno x))), k')
       | (Inr (r, l), k') \<Rightarrow> Some (Inr (go_copy req r), k')) (\<lambda>status.
     io_bind (io_total (get32 (native T) status statusStateOff)) (\<lambda>st.
     io_bind (io_refuse id (checkPeelOffState st)) (\<lambda>_.
     io_bind (\<lambda>k. case n_spare L k of
         (Some x, k') \<Rightarrow> Some (Inl (Some (Wrapped ''no descriptor to spare for the peeled-off association'' (SyscallError ''fcntl'' (Errno x)))), k')
       | (None, k') \<Rightarrow> Some (Inr (), n_rawclose L k')) (\<lambda>_.
     io_bind (io_total (peelOff_arg T flags i)) (\<lambda>arg.
     (\<lambda>k. case n_peeloff L k arg of
         (Some x, k') \<Rightarrow> Some (Inl (syscallError ''getsockopt'' (Some (Errno x))), k')
       | (None, k') \<Rightarrow> Some (Inr (), k'))))))))"

text \<open>\<open>PeelOff\<close>: \<open>L\<close> is the net of the endpoint's descriptor and \<open>N\<close> that of the new one.\<close>

definition PeelOff :: "target \<Rightarrow> hostEnv \<Rightarrow> 'k net \<Rightarrow> 'k net \<Rightarrow> recvState \<Rightarrow> u32 \<Rightarrow> AssocID \<Rightarrow> Endpoint \<Rightarrow> ('k, netConn) io" where
  "PeelOff T H L N r flags i e = whenOpened (\<lambda>x. peelError x e) e
     (io_wrap (\<lambda>x. peelError x e)
       (io_bind (io_refuse id (assocIDArg ''PeelOff'' i)) (\<lambda>_.
        io_bind (\<lambda>k. if y_released L k then Some (Inl (Some NetErrClosed), k) else peelOff T L flags i k) (\<lambda>_.
        io_bind (wrapSocketFile N) (\<lambda>_.
          newConn T H N (e_peel e) (blank_conn r (e_captured e) kindPeeled (e_family e) (e_network e) (e_peel e)))))))"

section \<open>Deadlines and closing\<close>

text \<open>\<open>setDeadline\<close>: \<open>err\<close> is what the file's own setting of the deadline returned.\<close>

definition Endpoint_setDeadline :: "int \<Rightarrow> goerr option \<Rightarrow> int option \<Rightarrow> deadlineMode \<Rightarrow> Endpoint \<Rightarrow> goerr option \<times> Endpoint" where
  "Endpoint_setDeadline now err t mode e =
     (if \<not> Endpoint_opened e then (Endpoint_argError ''set'' (Some NetErrClosed) e, e)
      else (case err of None \<Rightarrow> None | Some x \<Rightarrow> Endpoint_argError ''set'' (Some x) e, e\<lparr>e_send := send_setDeadline now t mode (e_send e)\<rparr>))"

text \<open>\<open>endpointCloseOps\<close>: \<open>shut\<close> holds the ids an \<open>SCTP_EOF\<close> send has been made for as of the last look at the list.\<close>

fun shutdownEach_loop :: "target \<Rightarrow> 'k net \<Rightarrow> AssocID list \<Rightarrow> AssocID list \<Rightarrow> 'k \<Rightarrow> 'k option" where
  "shutdownEach_loop T L shut [] k = Some k"
| "shutdownEach_loop T L shut (i # is) k =
     (if i \<in> set shut \<or> y_released L k then shutdownEach_loop T L shut is k
      else case rawSendEnd T L sndFlagEOF i [] k of
        None \<Rightarrow> None
      | Some (x, k') \<Rightarrow> shutdownEach_loop T L shut is k')"

definition shutdownEach :: "target \<Rightarrow> 'k net \<Rightarrow> AssocID list \<Rightarrow> AssocID list \<Rightarrow> ('k, AssocID list) io" where
  "shutdownEach T L shut ids = (\<lambda>k. map_option (\<lambda>k'. (Inr ids, k')) (shutdownEach_loop T L shut ids k))"

definition Endpoint_startShutdown :: "target \<Rightarrow> 'k net \<Rightarrow> AssocID list \<Rightarrow> ('k, AssocID list) io" where
  "Endpoint_startShutdown T L shut = io_bind (socket_assocIDs T (sys_of L)) (\<lambda>ids. shutdownEach T L shut ids)"

definition Endpoint_assocGone :: "target \<Rightarrow> 'k net \<Rightarrow> AssocID list \<Rightarrow> ('k, bool \<times> AssocID list) io" where
  "Endpoint_assocGone T L shut =
     io_bind (socket_assocIDs T (sys_of L)) (\<lambda>ids.
       if ids = [] then io_ret (True, shut) else io_bind (shutdownEach T L shut ids) (\<lambda>shut'. io_ret (False, shut')))"

text \<open>The calls of the lifecycle (theory \<open>Lifecycle\<close>) that \<open>Close\<close> and \<open>Abort\<close> make with these steps; they return \<open>closeError\<close> of what those
  return.\<close>

definition Endpoint_Close :: "Endpoint \<Rightarrow> pc" where
  "Endpoint_Close e = CloseStart (e_closeWait e)"

definition Endpoint_Abort :: "Endpoint \<Rightarrow> pc" where
  "Endpoint_Abort e = AbortStart"

end
