(* ===== verification/EndpointProps.thy ===== *)
theory EndpointProps
  imports Endpoints Ledger OptionsProps SendProps
begin

text \<open>
  What an endpoint promises: its reads name the association they are of and its sends the one they are for, the list of its associations
  is read exactly and in bounded time, closing shuts every association down once, and no descriptor is leaked. The locale
  \<open>eof_sender\<close> is the interface of the shutdowns; ownership is worked out under the laws of theory \<open>Ledger\<close>.
\<close>

unbundle bit_operations_syntax

section \<open>The list of associations\<close>

text \<open>The list the kernel answers with: a count and the ids.\<close>

definition id_list :: "byte_order \<Rightarrow> AssocID list \<Rightarrow> bytes" where
  "id_list bo xs = enc_int bo (of_nat (length xs) :: u32) @ concat (List.map (enc_int bo) xs)"

lemma decodeIDs_loop_returns:
  "4 + 4 * (i + n) \<le> length b \<Longrightarrow> \<exists>r. decodeIDs_loop T b i n = Some r"
proof (induction n arbitrary: i)
  case (Suc n)
  then obtain r where "decodeIDs_loop T b (i + 1) n = Some r" by fastforce
  then show ?case using Suc.prems by (simp add: no_panic)
qed simp

lemma decodeIDs_loop_exact:
  "length b = 4 + 4 * (i + n) \<Longrightarrow>
     decodeIDs_loop T b i n = Some (Inr xs) \<longleftrightarrow>
       length xs = n \<and> drop (4 + 4 * i) b = concat (List.map (enc_int (native T)) xs) \<and> list_all realAssocID xs"
proof (induction n arbitrary: i xs)
  case (Suc n)
  let ?x = "rd32 (native T) b (4 + i * 4)"
  have split: "drop (4 + 4 * i) b = slice (4 + i * 4) 4 b @ drop (4 + 4 * (i + 1)) b"
    using append_take_drop_id [of 4 "drop (4 + 4 * i) b"] by (simp add: slice_def mult.commute add.commute)
  have four: "length (slice (4 + i * 4) 4 b) = 4" using Suc.prems by simp
  have word: "?x = y \<longleftrightarrow> slice (4 + i * 4) 4 b = enc_int (native T) y" for y
    using Suc.prems by (intro rd32_count) simp
  have len: "length b = 4 + 4 * (i + 1 + n)" using Suc.prems by simp
  obtain r where r: "decodeIDs_loop T b (i + 1) n = Some r" using decodeIDs_loop_returns len by fastforce
  show ?case
  proof (cases xs)
    case Nil
    then show ?thesis using Suc.prems r by (auto simp: no_panic split: sum.splits)
  next
    case (Cons y ys)
    have "decodeIDs_loop T b i (Suc n) = Some (Inr xs) \<longleftrightarrow>
        ?x = y \<and> realAssocID y \<and> decodeIDs_loop T b (i + 1) n = Some (Inr ys)"
      using Suc.prems r Cons by (auto simp: no_panic split: sum.splits)
    then show ?thesis unfolding Suc.IH [OF len, of ys] word using four by (auto simp: Cons split simp del: decodeIDs_loop.simps)
  qed
qed auto

lemma repeated_iff: "sorted (List.map sint xs) \<Longrightarrow> repeated xs \<longleftrightarrow> \<not> distinct xs"
proof (induction xs rule: repeated.induct)
  case (1 x y ys)
  have "x = y" if "x \<in> set ys" using that "1.prems" by (auto intro!: signed_word_eqI antisym)
  with 1 show ?case by auto
qed auto

lemma id_list_length: "length (id_list bo xs) = 4 + 4 * length xs"
  by (induction xs) (simp_all add: id_list_def)

lemma decodeAssocIDs_accepts:
  "decodeAssocIDs T b \<noteq> None \<and>
    (decodeAssocIDs T b = Some (Inr ids)) =
      (\<exists>xs. b = id_list (native T) xs \<and> length xs \<le> 1048576 \<and> list_all realAssocID xs \<and> distinct xs \<and> ids = sort_key sint xs)"
proof (cases "4 \<le> length b")
  case long: True
  define n where "n = unat (rd32 (native T) b 0)"
  show ?thesis
  proof (cases "n \<le> 1048576 \<and> length b = 4 + 4 * n")
    case True
    then obtain r where r: "decodeIDs_loop T b 0 n = Some r" using decodeIDs_loop_returns [of 0 n b] by auto
    have dec: "decodeAssocIDs T b = Some (case r of Inl e \<Rightarrow> Inl e | Inr xs \<Rightarrow>
        if distinct xs then Inr (sort_key sint xs) else Inl (Wrapped ''id %d appears twice'' ErrInvalidAssocList))"
      using True long r
      by (auto simp: decodeAssocIDs_def no_panic n_def [symmetric] assocIDListLimit_def repeated_iff Let_def split: sum.splits)
    have "b = id_list (native T) xs \<longleftrightarrow> length xs = n \<and> drop 4 b = concat (List.map (enc_int (native T)) xs)" for xs
    proof -
      have "b = slice 0 4 b @ drop 4 b" "length (slice 0 4 b) = 4" using long by (simp_all add: slice_def)
      moreover have "slice 0 4 b = enc_int (native T) (of_nat (length xs) :: u32) \<longleftrightarrow> rd32 (native T) b 0 = of_nat (length xs)"
        using rd32_count [of 0 b] long by simp
      moreover have "length b = 4 + 4 * length xs" if "b = id_list (native T) xs" using that by (simp add: id_list_length)
      moreover have "rd32 (native T) b 0 = of_nat n" by (simp add: n_def)
      ultimately show ?thesis
        unfolding id_list_def using True
        by (metis append_eq_append_conv add_left_cancel length_enc_int mult_left_cancel zero_neq_numeral)
    qed
    then have "r = Inr xs \<longleftrightarrow> b = id_list (native T) xs \<and> list_all realAssocID xs" for xs
      using decodeIDs_loop_exact [of b 0 n T xs] True r by auto
    then have eq: "(\<exists>xs. b = id_list (native T) xs \<and> length xs \<le> 1048576 \<and> list_all realAssocID xs \<and> distinct xs \<and> ids = sort_key sint xs)
        \<longleftrightarrow> (\<exists>xs. r = Inr xs \<and> length xs \<le> 1048576 \<and> distinct xs \<and> ids = sort_key sint xs)" by auto
    have "length xs \<le> 1048576" if "r = Inr xs" for xs
      using that True decodeIDs_loop_exact [of b 0 n T xs] r by simp
    then show ?thesis unfolding eq using dec by (cases r) auto
  next
    case False
    have "n = length xs" if "b = id_list (native T) xs" "length xs \<le> 1048576" for xs
      using that rd32_count [of 0 b "native T" "of_nat (length xs)"] long by (simp add: n_def id_list_def slice_def unat_of_nat)
    then show ?thesis
      using False long by (auto simp: decodeAssocIDs_def no_panic n_def [symmetric] assocIDListLimit_def id_list_length)
  qed
next
  case False
  then show ?thesis by (auto simp: decodeAssocIDs_def id_list_length)
qed


lemma getsockopt_returns: "\<exists>g k'. getsockopt K so b k = Some (g, k')"
  by (cases "y_get K k so b"; cases "fst (y_get K k so b)") (auto simp: getsockopt_def)

lemma assocIDs_loop_returns:
  assumes "wordSize T = 8"
  shows "0 < room \<Longrightarrow> \<exists>r k'. assocIDs_loop T K room k = Some (r, k') \<and> r \<noteq> Inl None \<and>
    (\<forall>ids. r = Inr ids \<longrightarrow> (\<exists>b. decodeAssocIDs T b = Some (Inr ids)))"
proof (induction "2 * assocIDListLimit - room" arbitrary: room k rule: less_induct)
  case less
  let ?buf = "replicate (sizeAssocIDs + room * sizeAssocID) 0 :: bytes"
  obtain g k1 where g: "getsockopt K (Sctp optGetAssocIDList) ?buf k = Some (g, k1)"
    using getsockopt_returns [of K "Sctp optGetAssocIDList" ?buf k] by (elim exE)
  note g = g [simplified]
  show ?case
  proof (cases g)
    case (Inl err)
    show ?thesis
    proof (cases "err = Some (Errno EINVAL) \<and> room < assocIDListLimit")
      case True
      then have "2 * assocIDListLimit - room * 2 < 2 * assocIDListLimit - room" using less.prems by linarith
      from less.hyps [OF this, of k1] True less.prems show ?thesis
        by (subst assocIDs_loop.simps) (simp add: g Inl)
    next
      case False
      have "err \<noteq> None" using g Inl by (auto simp: getsockopt_def split: if_splits prod.splits sum.splits)
      then show ?thesis using False by (subst assocIDs_loop.simps) (auto simp: g Inl)
    qed
  next
    case (Inr q)
    obtain b l where q: "q = (b, l)" by (cases q) auto
    obtain d where d: "decodeAssocIDs T (slice 0 (unat l) b) = Some d" using decodeAssocIDs_accepts by blast
    have "subslice 0 (unat l) b = Some (slice 0 (unat l) b)" if "\<not> goInt T l > int (length b)"
      using that assms by (simp add: goInt_def subslice_def nat_uint_eq [symmetric] nat_le_iff del: nat_uint_eq)
    then show ?thesis using d
      by (subst assocIDs_loop.simps) (cases d; auto simp: g Inr q)
  qed
qed


section \<open>Whose message it is\<close>

lemma rcvInfoVerdict_None: "rcvInfoVerdict n i = None \<Longrightarrow> n = 1 \<and> realAssocID i"
  by (auto simp: rcvInfoVerdict_def split: if_splits)

lemma checkRcvInfo_real: "checkRcvInfo_loop T i n oob = Some None \<Longrightarrow> realAssocID i"
proof (induction T i n oob rule: checkRcvInfo_loop.induct)
  case (1 T i n oob)
  show ?case
  proof (cases "length oob < sizeCmsghdr T")
    case True
    with "1.prems" show ?thesis by (auto simp: checkRcvInfo_loop.simps [of T i n oob] dest: rcvInfoVerdict_None)
  next
    case False
    from "1.prems" False obtain len where len: "readWord T oob = Some len" 
        and fits: "\<not> (unat len < sizeCmsghdr T \<or> unat len > length oob)"
      by (auto simp: checkRcvInfo_loop.simps [of T i n oob] split: bind_splits if_splits)
    from "1.prems" False len fits obtain level ty where lt: "get32 (native T) oob (cmsghdrLevelOff T) = Some level"
        "get32 (native T) oob (cmsghdrTypeOff T) = Some ty"
      by (auto simp: checkRcvInfo_loop.simps [of T i n oob] split: bind_splits)
    define found where "found = (level = ipprotoSCTP \<and> ty = cmsgRcvInfo)"
    have "\<not> (found \<and> unat len - sizeCmsghdr T < sizeRcvInfo)"
      using "1.prems" False len fits lt by (auto simp: checkRcvInfo_loop.simps [of T i n oob] Let_def found_def)
    then show ?thesis
      using "1.prems" False len fits lt "1.IH" [OF False len fits lt found_def refl _ refl]
      by (auto simp: checkRcvInfo_loop.simps [of T i n oob] Let_def found_def split: if_splits dest: rcvInfoVerdict_None)
  qed
qed

text \<open>What a read says of the association: a notification, a real one, or none and an error.\<close>

definition routed :: "MsgInfo \<Rightarrow> goerr option \<Rightarrow> bool" where
  "routed mi err \<longleftrightarrow> mi_Notification mi \<or> realAssocID (rcv_AssocID (mi_Rcv mi)) \<or> mi_Rcv mi = RcvInfo_zero \<and> err \<noteq> None"

lemma parseEndpointRecvCmsgs_routed: "parseEndpointRecvCmsgs T oob flags = Some (err, mi) \<Longrightarrow> routed mi err"
  by (auto simp: parseEndpointRecvCmsgs_def checkRcvInfoRecord_def routed_def dest: checkRcvInfo_real
      split: bind_splits if_splits option.splits prod.splits)

lemma servePiece_notification: "servePiece blen s = Some ((p, mi), s') \<Longrightarrow> mi_Notification mi"
  by (auto simp: servePiece_def Let_def split: bind_splits)

lemma Endpoint_recvRound_routed: "Endpoint_recvRound T ifx blen as e = Some (Some (Data p mi err), as', e') \<Longrightarrow> routed mi err"
  by (auto simp: Endpoint_recvRound_def Endpoint_recvSwitch_def Endpoint_recvRecord_def Endpoint_recvData_def Let_def routed_def
      dest!: servePiece_notification dest: parseEndpointRecvCmsgs_routed [unfolded routed_def]
      split: bind_splits if_splits option.splits prod.splits polled.splits sum.splits)

lemma Endpoint_recvNext_routed: "Endpoint_recvNext T ifx blen as e = Some (Data p mi err, as', e') \<Longrightarrow> routed mi err"
proof (induction T ifx blen as e rule: Endpoint_recvNext.induct)
  case (1 T ifx blen as e)
  from "1.prems" obtain r as1 e1 where r: "Endpoint_recvRound T ifx blen as e = Some (r, as1, e1)"
    by (auto simp: Endpoint_recvNext.simps [of T ifx blen as e] split: bind_splits)
  show ?case
  proof (cases r)
    case None
    with "1.prems" r have "Endpoint_recvNext T ifx blen as1 e1 = Some (Data p mi err, as', e')"
      by (simp add: Endpoint_recvNext.simps [of T ifx blen as e])
    with "1.IH" [OF r refl refl None] show ?thesis .
  next
    case (Some x)
    with "1.prems" r Endpoint_recvRound_routed show ?thesis by (auto simp: Endpoint_recvNext.simps [of T ifx blen as e])
  qed
qed


text \<open>Records of the kernel's layout.\<close>

lemma checkRcvInfo_cmsg_bytes:
  assumes "wf_target T" "cmsgLen T (length body) < 2 ^ 32"
  shows "checkRcvInfo_loop T i n (cmsg_bytes T (level, ty, body) @ rest) =
    (if level = ipprotoSCTP \<and> ty = cmsgRcvInfo
     then if length body < sizeRcvInfo
       then Some (Some (Wrapped ''a %d-byte record, shorter than struct sctp_rcvinfo's %d'' ErrInvalidRcvInfo))
       else checkRcvInfo_loop T i (n + 1) rest
     else checkRcvInfo_loop T i n rest)"
proof -
  let ?m = "length body"
  let ?pad = "replicate (cmsgSpace T ?m - cmsgLen T ?m) (0::byte)"
  let ?b = "cmsg_bytes T (level, ty, body) @ rest"
  have b: "?b = cmsg_header T ?m level ty @ (body @ ?pad @ rest)" by (simp add: cmsg_bytes_def)
  obtain w where w: "readWord T ?b = Some w" "unat w = cmsgLen T ?m"
    using readWord_header [OF assms, of level ty "body @ ?pad @ rest"] unfolding b by auto
  have len: "length ?b = cmsgSpace T ?m + length rest" using assms(1) by simp
  have fits: "\<not> (cmsgLen T ?m < sizeCmsghdr T \<or> length ?b < cmsgLen T ?m)"
    using cmsgLen_le_space [of T ?m] len by (simp add: cmsgLen_def)
  have "\<not> length ?b < sizeCmsghdr T" unfolding len by (simp add: cmsgSpace_def)
  moreover have "get32 (native T) ?b (cmsghdrLevelOff T) = Some level" "get32 (native T) ?b (cmsghdrTypeOff T) = Some ty"
    using header_level_ty [OF assms(1)] len by (simp_all add: no_panic b cmsgSpace_def get32_def del: append_assoc)
  moreover have "drop (cmsgSpace T ?m) ?b = rest" using assms(1) by simp
  moreover have "cmsgLen T ?m - sizeCmsghdr T = ?m" by (simp add: cmsgLen_def)
  ultimately show ?thesis
    using fits len w cmsgAlign_cmsgLen [OF assms(1)]
    by (subst checkRcvInfo_loop.simps) (auto simp: Let_def split: bind_splits)
qed

lemma checkRcvInfo_Nil: "wf_target T \<Longrightarrow> checkRcvInfo_loop T i n [] = Some (rcvInfoVerdict n i)"
  by (subst checkRcvInfo_loop.simps) auto

text \<open>What the check of the routing adds to a message's control data.\<close>

definition route_error :: "RcvInfo option \<Rightarrow> goerr option" where
  "route_error rcv =
     (case rcv of
        None \<Rightarrow> Some ErrMissingRcvInfo
      | Some r \<Rightarrow> if realAssocID (rcv_AssocID r) then None else Some (Wrapped ''association id %d'' ErrInvalidRcvInfo))"

lemma checkRcvInfoRecord_records:
  assumes "wf_target T" "\<forall>(level, ty, body) \<in> set foreign. level \<noteq> ipprotoSCTP \<and> length body < 2 ^ 31"
  shows "checkRcvInfoRecord T (concat (List.map (cmsg_bytes T) (foreign @ recv_records T nxt rcv)))
      (rcv_AssocID (case rcv of None \<Rightarrow> RcvInfo_zero | Some r \<Rightarrow> r)) = Some (route_error rcv)"
proof -
  have ws: "sizeCmsghdr T \<le> 16" using wf_wordSize [OF assms(1)] by auto
  have "checkRcvInfo_loop T i 0 (concat (List.map (cmsg_bytes T) foreign) @ rest) = checkRcvInfo_loop T i 0 rest" for i rest
    using assms(2)
  proof (induction foreign)
    case (Cons x xs)
    obtain level ty body where x: "x = (level, ty, body)" by (cases x) auto
    have "cmsgLen T (length body) < 2 ^ 32" using Cons.prems ws by (auto simp: x cmsgLen_def)
    with Cons checkRcvInfo_cmsg_bytes [OF assms(1)] show ?case by (simp add: x)
  qed simp
  note skip = this this [where rest = "[]", unfolded append_Nil2]
  have "cmsgLen T 16 < 2 ^ 32" "cmsgLen T 28 < 2 ^ 32" using ws by (simp_all add: cmsgLen_def)
  then have "checkRcvInfo_loop T i n (cmsg_bytes T (ipprotoSCTP, cmsgNxtInfo, nxt_payload T x) @ rest) = checkRcvInfo_loop T i n rest"
      "checkRcvInfo_loop T i n (cmsg_bytes T (ipprotoSCTP, cmsgRcvInfo, rcv_payload T y) @ rest) = checkRcvInfo_loop T i (n + 1) rest"
    for i n x y rest
    by (simp_all add: checkRcvInfo_cmsg_bytes [OF assms(1)])
  note walk = this this [where rest = "[]", unfolded append_Nil2] checkRcvInfo_Nil [OF assms(1)]
  show ?thesis
    unfolding checkRcvInfoRecord_def map_append concat_append skip
    by (cases nxt; cases rcv) (simp_all only: recv_records_def option.case append_Nil append_Nil2 append.simps list.map concat.simps walk skip,
      simp_all add: route_error_def rcvInfoVerdict_def)
qed


lemma Endpoint_ioError_Some: "Endpoint_ioError op (Some x) e \<noteq> None"
  by (simp add: Endpoint_ioError_def ioOpError_def opError_Some del: not_None_eq)

lemma Endpoint_ioError_None [simp]: "Endpoint_ioError op None e = None"
  by (simp add: Endpoint_ioError_def ioOpError_def opError_def)

lemma Endpoint_RecvMsg_loop_routed:
  "Endpoint_RecvMsg_loop T ifx h blen as e = Some (Some (p, mi, err), as', e') \<Longrightarrow> routed mi err"
proof (induction T ifx h blen as e rule: Endpoint_RecvMsg_loop.induct)
  case (1 T ifx h blen as e)
  from "1.prems" obtain r as1 e1 where r: "Endpoint_recvNext T ifx blen as e = Some (r, as1, e1)"
    by (auto simp: Endpoint_RecvMsg_loop.simps [of T ifx h blen as e] split: bind_splits)
  note unfold = Endpoint_RecvMsg_loop.simps [of T ifx h blen as e]
  note wrapped = Endpoint_ioError_Some
  show ?case
  proof (cases r)
    case (Data q m w)
    from Endpoint_recvNext_routed [OF r [unfolded Data]] "1.prems" r Data wrapped show ?thesis
      by (auto simp: unfold routed_def split: option.splits)
  next
    case (Note n x)
    with "1.prems" r wrapped "1.IH" [OF r refl refl Note refl] show ?thesis
      by (auto simp: unfold Let_def routed_def MsgInfo_zero_def split: option.splits)
  next
    case (Fails x)
    with "1.prems" r wrapped show ?thesis by (auto simp: unfold routed_def MsgInfo_zero_def)
  next
    case Waits
    with "1.prems" r show ?thesis by (simp add: unfold)
  qed
qed

text \<open>C12: an endpoint never returns bytes as another association's. Whatever the kernel answers, over any notifications on the way, a read
  of an endpoint returns a piece of a notification, or data whose \<open>Rcv\<close> names a real association, or an error, with a zero \<open>Rcv\<close>.\<close>

theorem endpoint_reads_routed:
  assumes "Endpoint_RecvMsg T ifx h blen as e = Some (Some (p, mi, err), as', e')" "0 < blen"
  shows "mi_Notification mi \<or> realAssocID (rcv_AssocID (mi_Rcv mi)) \<or> mi_Rcv mi = RcvInfo_zero \<and> err \<noteq> None"
proof (cases "Endpoint_opened e")
  case True
  with assms Endpoint_RecvMsg_loop_routed show ?thesis by (auto simp: Endpoint_RecvMsg_def routed_def)
next
  case False
  with assms show ?thesis using Endpoint_ioError_Some by (auto simp: Endpoint_RecvMsg_def MsgInfo_zero_def)
qed

text \<open>A message whose control data is of the kernel's layout.\<close>

lemma rawRead_data:
  assumes "\<not> has_flag flags msgNotification" "p \<noteq> []" "\<not> r_noting s"
  shows "rawRead T (RMsg p flags ctl # as) s =
    Some (Polled \<lparr>o_data = p, o_flags = flags, o_record = False, o_cut = False, o_err = None\<rparr>, as, s\<lparr>r_control := ctl\<rparr>)"
  using assms by (simp add: rawRead_def rawLoop.simps attemptEnds_def Let_def split: option.splits)

text \<open>C13: an endpoint's message comes out with its association. The data the kernel returns with an \<open>SCTP_RCVINFO\<close> record of a real
  association, behind records of other levels and a next-message record or none, is returned whole with every field of that record
  and no error but that of a truncated buffer; without the record, or with a scope selector in it, the bytes are returned
  with a zero \<open>Rcv\<close> and the error that says so. The answers behind it stay queued.\<close>

theorem endpoint_read_names_association:
  assumes "wf_target T" "\<forall>(level, ty, body) \<in> set foreign. level \<noteq> ipprotoSCTP \<and> length body < 2 ^ 31"
    "Endpoint_opened e" "0 < blen" "\<not> r_serving (e_recv e)" "\<not> r_noting (e_recv e)" "p \<noteq> []" "\<not> has_flag flags msgNotification"
  shows "\<exists>e'. Endpoint_RecvMsg T ifx h blen
      (RMsg p flags (concat (List.map (cmsg_bytes T) (foreign @ recv_records T nxt rcv))) # as) e =
    Some (Some (p,
      \<lparr>mi_EOR = has_flag flags msgEOR, mi_Notification = False,
       mi_Rcv = (case rcv of None \<Rightarrow> RcvInfo_zero | Some r \<Rightarrow> if realAssocID (rcv_AssocID r) then r else RcvInfo_zero),
       mi_Nxt = (case nxt of None \<Rightarrow> NxtInfo_zero | Some n \<Rightarrow> n), mi_HasNxt = (nxt \<noteq> None)\<rparr>,
      Endpoint_ioError ''read'' (if has_flag flags msgCtrunc then Some ErrControlTruncated else route_error rcv) e), as, e')"
proof -
  define ctl where "ctl = concat (List.map (cmsg_bytes T) (foreign @ recv_records T nxt rcv))"
  define err where "err = (if has_flag flags msgCtrunc then Some ErrControlTruncated else route_error rcv)"
  define mi where "mi = \<lparr>mi_EOR = has_flag flags msgEOR, mi_Notification = False,
       mi_Rcv = (case rcv of None \<Rightarrow> RcvInfo_zero | Some r \<Rightarrow> if realAssocID (rcv_AssocID r) then r else RcvInfo_zero),
       mi_Nxt = (case nxt of None \<Rightarrow> NxtInfo_zero | Some n \<Rightarrow> n), mi_HasNxt = (nxt \<noteq> None)\<rparr>"
  let ?e = "e\<lparr>e_recv := (e_recv e)\<lparr>r_keepNotes := True, r_control := ctl\<rparr>\<rparr>"
  note parsed = parseRecvCmsgs_decodes [OF assms(1,2), of nxt rcv flags, folded ctl_def]
  note checked = checkRcvInfoRecord_records [OF assms(1,2), of nxt rcv, folded ctl_def]
  have "parseEndpointRecvCmsgs T ctl flags = Some (err, mi)"
    using assms(8) checked unfolding parseEndpointRecvCmsgs_def parsed err_def mi_def
    by (cases rcv) (auto simp: route_error_def)
  then have next_read: "Endpoint_recvNext T ifx blen (RMsg p flags ctl # as) e = Some (Data p mi err, as, ?e)"
    using assms(5,6) rawRead_data [OF assms(8,7), of "(e_recv e)\<lparr>r_keepNotes := True\<rparr>" T ctl as]
    by (subst Endpoint_recvNext.simps) (simp add: Endpoint_recvRound_def Endpoint_recvSwitch_def Endpoint_recvData_def)
  have same: "Endpoint_ioError op x ?e = Endpoint_ioError op x e" for op x
    by (simp add: Endpoint_ioError_def Endpoint_network_def Endpoint_Addr_def)
  have none: "Endpoint_ioError op None e = None" for op
    by (simp add: Endpoint_ioError_def ioOpError_def opError_def)
  show ?thesis
    unfolding ctl_def [symmetric] err_def [symmetric] mi_def [symmetric]
    using assms(3,4) next_read same none
    by (cases err) (auto simp: Endpoint_RecvMsg_def Endpoint_RecvMsg_loop.simps [of T ifx h blen "RMsg p flags ctl # as" e])
qed


definition plainEndpoint :: Endpoint where
  "plainEndpoint =
     \<lparr>e_family = afInet6, e_network = ''sctp'', e_peel = \<lparr>p_ops = [], p_handler = False, p_closeTimeout = 0, p_abandon = 0, p_setupRTOInitialMS = 0,
        p_subscribed = 0, p_fragLevel = 0, p_adopted = False\<rparr>,
      e_addr = None, e_handler = False, e_closeWait = 0, e_subs = 0, e_life = lifeOpen, e_send = sendState_bind None True,
      e_recv = recvState_zero, e_captured = True, e_abortErr = None, e_aborts = 0, e_handled = []\<rparr>"

lemma plainEndpoint_simps [simp]:
  "Endpoint_opened plainEndpoint" "e_recv plainEndpoint = recvState_zero" "e_send plainEndpoint = sendState_bind None True"
  by (simp_all add: plainEndpoint_def Endpoint_opened_def)

theorem endpoint_read_names_association_witness:
  "\<exists>e'. Endpoint_RecvMsg amd64 (\<lambda>_. None) (\<lambda>_. None) 64
      (RMsg [1, 2] msgEOR (concat (List.map (cmsg_bytes amd64) ([] @ recv_records amd64 None (Some (RcvInfo_zero\<lparr>rcv_AssocID := 7\<rparr>))))) # [RErr EAGAIN]) plainEndpoint =
    Some (Some ([1, 2], \<lparr>mi_EOR = True, mi_Notification = False, mi_Rcv = RcvInfo_zero\<lparr>rcv_AssocID := 7\<rparr>,
      mi_Nxt = NxtInfo_zero, mi_HasNxt = False\<rparr>, None), [RErr EAGAIN], e')"
proof -
  have real: "realAssocID 7" by (simp add: realAssocID_def)
  have none: "Endpoint_ioError op None plainEndpoint = None" for op
    by (simp add: Endpoint_ioError_def ioOpError_def opError_def)
  have "wf_target amd64" by (simp add: wf_target_def amd64_def)
  moreover have "\<forall>(level, ty, body) \<in> set []. level \<noteq> ipprotoSCTP \<and> length body < 2 ^ 31" by simp
  moreover have "\<not> r_serving (e_recv plainEndpoint)" "\<not> r_noting (e_recv plainEndpoint)" by (simp_all add: recvState_zero_def)
  moreover have "[1, 2 :: byte] \<noteq> []" "\<not> has_flag msgEOR msgNotification" by (simp_all add: has_flag_def)
  ultimately show ?thesis
    using endpoint_read_names_association [of amd64 "[]" plainEndpoint 64 "[1, 2]" msgEOR "\<lambda>_. None" "\<lambda>_. None" None
      "Some (RcvInfo_zero\<lparr>rcv_AssocID := 7\<rparr>)" "[RErr EAGAIN]"] real none
    by (simp add: has_flag_def route_error_def)
qed

theorem endpoint_reads_routed_witness:
  "\<exists>err e'. Endpoint_RecvMsg amd64 (\<lambda>_. None) (\<lambda>_. None) 64 [RMsg [1, 2] msgEOR []] plainEndpoint =
      Some (Some ([1, 2], MsgInfo_zero\<lparr>mi_EOR := True\<rparr>, err), [], e') \<and> err \<noteq> None"
proof -
  let ?r = "Endpoint_RecvMsg amd64 (\<lambda>_. None) (\<lambda>_. None) 64 [RMsg [1, 2] msgEOR []] plainEndpoint"
  have "(case ?r of Some (Some (p, mi, err), as, e') \<Rightarrow> p = [1, 2] \<and> mi = MsgInfo_zero\<lparr>mi_EOR := True\<rparr> \<and> as = [] | _ \<Rightarrow> False)"
    by code_simp
  then obtain err e' where r: "?r = Some (Some ([1, 2], MsgInfo_zero\<lparr>mi_EOR := True\<rparr>, err), [], e')"
    by (auto split: option.splits)
  have "\<not> realAssocID (rcv_AssocID RcvInfo_zero)" by code_simp
  with endpoint_reads_routed [OF r] have "err \<noteq> None" by (simp add: MsgInfo_zero_def)
  with r show ?thesis by blast
qed

section \<open>Which association a message goes to\<close>

text \<open>C14: an endpoint's message goes to the association named. A send the endpoint does not refuse carries no destination address
  and, first in its control data, an \<open>SCTP_SNDINFO\<close> record with the id given, which is a real association's, and the
  caller's \<open>Info\<close> or else the endpoint's default.\<close>

theorem endpoint_send_names_association:
  assumes "wf_target T" "s_explicit (e_send e)" "Endpoint_SendMsgContext_enter pagesize ctx i b opts e = None"
  shows "realAssocID i \<and> (\<exists>e' rest. Endpoint_send_start T c i b opts e = Some e' \<and> s_name (e_send e') = None \<and> s_data (e_send e') = b \<and>
    s_control (e_send e') =
      cmsg_bytes T (ipprotoSCTP, cmsgSndInfo, snd_payload T (case so_Info opts of None \<Rightarrow> s_defSnd (e_send e) | Some x \<Rightarrow> x) i) @ rest)"
proof -
  have enter: "checkEndpointSend pagesize i b opts = None"
    using assms(3)
    by (auto simp: Endpoint_SendMsgContext_enter_def Endpoint_sendMsg_enter_def Endpoint_ioError_Some simp del: not_None_eq
        split: option.splits if_splits)
  then have real: "realAssocID i" and b: "b \<noteq> []"
    by (auto simp: checkEndpointSend_def assocIDArg_def checkSendSize_def split: option.splits if_splits)
  obtain x where x: "so_Info opts = None \<and> x = s_defSnd (e_send e) \<or> so_Info opts = Some x" by (cases "so_Info opts") auto
  obtain pr where choice: "send_choice (e_send e) opts = (Some x, pr)"
    using assms(2) x by (auto simp: send_choice_def)
  have "sndCmsgSpace T \<le> length (replicate (sndCmsgSpace T) (0 :: byte))" by simp
  from appendSendCmsgs_records [OF assms(1) this, of "Some x" i pr "so_AuthKey opts"]
  obtain buf where "send_encode T (e_send e) opts i = Some (length (concat (List.map (cmsg_bytes T) (send_records T (Some x) i pr (so_AuthKey opts)))), buf)"
      and "take (length (concat (List.map (cmsg_bytes T) (send_records T (Some x) i pr (so_AuthKey opts))))) buf =
        concat (List.map (cmsg_bytes T) (send_records T (Some x) i pr (so_AuthKey opts)))"
    by (auto simp: send_encode_def choice)
  then show ?thesis
    using real b x by (auto simp: Endpoint_send_start_def send_start_def send_records_def)
qed

theorem endpoint_send_names_association_witness:
  "\<exists>e' rest. Endpoint_send_start amd64 NoContext 7 [1] SendOptions_zero plainEndpoint = Some e' \<and>
     s_control (e_send e') = cmsg_bytes amd64 (ipprotoSCTP, cmsgSndInfo, snd_payload amd64 SndInfo_zero 7) @ rest"
proof -
  have "wf_target amd64" by (simp add: wf_target_def amd64_def)
  moreover have "s_explicit (e_send plainEndpoint)" by (simp add: sendState_bind_def)
  moreover have "Endpoint_SendMsgContext_enter 4096 (Some None) 7 [1] SendOptions_zero plainEndpoint = None" by code_simp
  moreover have "so_Info SendOptions_zero = None" "s_defSnd (e_send plainEndpoint) = SndInfo_zero"
    by (simp_all add: SendOptions_zero_def sendState_bind_def)
  ultimately show ?thesis
    using endpoint_send_names_association [of amd64 plainEndpoint 4096 "Some None" 7 "[1]" SendOptions_zero NoContext] by auto
qed


section \<open>Closing\<close>

text \<open>The control data of the send that shuts an association down.\<close>

definition eof_record :: "target \<Rightarrow> AssocID \<Rightarrow> bytes" where
  "eof_record T i = cmsg_bytes T (ipprotoSCTP, cmsgSndInfo, snd_payload T \<lparr>snd_Stream = 0, snd_Flags = sndFlagEOF, snd_PPID = 0, snd_Context = 0\<rparr> i)"

lemma rawSendEnd_record: "wf_target T \<Longrightarrow> rawSendEnd T L sndFlagEOF i cause k = Some (n_sendend L k (eof_record T i) cause)"
  using appendSendCmsgs_records [of T "replicate (sndCmsgSpace T) 0"
      "Some \<lparr>snd_Stream = 0, snd_Flags = sndFlagEOF, snd_PPID = 0, snd_Context = 0\<rparr>" i None None]
  by (auto simp: rawSendEnd_def eof_record_def send_records_def)

text \<open>A net on which every end-of-association send is recorded and none of them closes the descriptor.\<close>

locale eof_sender =
  fixes L :: "'k net" and sent :: "'k \<Rightarrow> bytes list"
  assumes records: "sent (snd (n_sendend L k c p)) = sent k @ [c]"
    and stays_open: "\<not> y_released L k \<Longrightarrow> \<not> y_released L (snd (n_sendend L k c p))"
begin

lemma shutdownEach_sends:
  assumes "wf_target T" "\<not> y_released L k"
  shows "\<exists>k'. shutdownEach T L shut ids k = Some (Inr ids, k') \<and> sent k' = sent k @ List.map (eof_record T) (filter (\<lambda>i. i \<notin> set shut) ids)"
proof -
  have "\<exists>k'. shutdownEach_loop T L shut ids k = Some k' \<and> sent k' = sent k @ List.map (eof_record T) (filter (\<lambda>i. i \<notin> set shut) ids)"
    using assms(2)
  proof (induction ids arbitrary: k)
    case (Cons i ids)
    obtain x k1 where send: "n_sendend L k (eof_record T i) [] = (x, k1)" by fastforce
    then have "sent k1 = sent k @ [eof_record T i]" "\<not> y_released L k1"
      using records [of k "eof_record T i" "[]"] stays_open [OF Cons.prems, of "eof_record T i" "[]"] by simp_all
    with Cons.IH [of k1] Cons.IH [of k] Cons.prems send rawSendEnd_record [OF assms(1), of L i "[]" k] show ?case by auto
  qed simp
  then show ?thesis by (auto simp: shutdownEach_def)
qed

lemma assocGone_sends:
  assumes "wf_target T" "socket_assocIDs T (sys_of L) k = Some (Inr ids, k1)" "\<not> y_released L k1"
  shows "\<exists>k'. Endpoint_assocGone T L shut k = Some (Inr (ids = [], if ids = [] then shut else ids), k') \<and>
    sent k' = sent k1 @ List.map (eof_record T) (filter (\<lambda>i. i \<notin> set shut) ids)"
  using shutdownEach_sends [OF assms(1,3), of shut ids] assms(2)
  by (auto simp: Endpoint_assocGone_def io_bind_def io_ret_def)

lemma startShutdown_sends:
  assumes "wf_target T" "socket_assocIDs T (sys_of L) k = Some (Inr ids, k1)" "\<not> y_released L k1"
  shows "\<exists>k'. Endpoint_startShutdown T L shut k = Some (Inr ids, k') \<and>
    sent k' = sent k1 @ List.map (eof_record T) (filter (\<lambda>i. i \<notin> set shut) ids)"
  using shutdownEach_sends [OF assms(1,3), of shut ids] assms(2)
  by (auto simp: Endpoint_startShutdown_def io_bind_def)

end

text \<open>Any net can be given such a history: \<open>tapped N\<close> is \<open>N\<close> while its descriptor is open, with the sends beside its state.\<close>

definition tapped :: "'k net \<Rightarrow> ('k \<times> bytes list) net" where
  "tapped N =
     \<lparr>y_released = (\<lambda>s. False), y_get = (\<lambda>s so b. pass (\<lambda>k. y_get N k so b) s),
      y_set = (\<lambda>s so b. pass (\<lambda>k. y_set N k so b) s), n_socket = (\<lambda>s family. pass (\<lambda>k. n_socket N k family) s),
      n_register = pass (n_register N), n_raw = pass (n_raw N), n_linger = pass (n_linger N),
      n_shutdown = (\<lambda>s rd. pass (\<lambda>k. n_shutdown N k rd) s), n_close = pass (n_close N),
      n_prepare = pass (n_prepare N), n_wait = pass (n_wait N), n_peek = pass (n_peek N), n_clear = pass (n_clear N),
      n_ctx = pass (n_ctx N), n_rawclose = (\<lambda>s. (n_rawclose N (fst s), snd s)), n_dup = pass (n_dup N), n_nonblock = pass (n_nonblock N),
      n_sendend = (\<lambda>s c p. case n_sendend N (fst s) c p of (x, k') \<Rightarrow> (x, (k', snd s @ [c]))),
      n_somaxconn = pass (n_somaxconn N), n_listen = (\<lambda>s n. pass (\<lambda>k. n_listen N k n) s), n_accept = pass (n_accept N),
      n_deadline = (\<lambda>s t. pass (\<lambda>k. n_deadline N k t) s), n_connectx = (\<lambda>s b. pass (\<lambda>k. n_connectx N k b) s),
      n_spare = pass (n_spare N), n_peeloff = (\<lambda>s b. pass (\<lambda>k. n_peeloff N k b) s)\<rparr>"

interpretation tapped: eof_sender "tapped N" snd for N :: "'k net"
  by unfold_locales (simp_all add: tapped_def split: prod.splits)


text \<open>C19: an endpoint's Close shuts every association down once. Each look at the list of associations sends exactly one \<open>SCTP_EOF\<close> naming
  each one listed that was not listed at the look before, in the order of the list, and remembers the list; a list that is
  empty says that all are gone and sends nothing. So an association is shut down once for as long as it stays listed, one that appears while the
  endpoint closes is shut down too, and an id the kernel gives again is not taken for the old one.\<close>

theorem close_shuts_each_association_once:
  assumes "wf_target T" "eof_sender L sent" "\<not> y_released L k1" "socket_assocIDs T (sys_of L) k = Some (Inr ids, k1)"
  shows "(\<exists>k'. Endpoint_startShutdown T L shut k = Some (Inr ids, k') \<and>
      sent k' = sent k1 @ List.map (eof_record T) (filter (\<lambda>i. i \<notin> set shut) ids)) \<and>
    (\<exists>k'. Endpoint_assocGone T L shut k = Some (Inr (ids = [], if ids = [] then shut else ids), k') \<and>
      sent k' = sent k1 @ List.map (eof_record T) (filter (\<lambda>i. i \<notin> set shut) ids))"
  using eof_sender.startShutdown_sends [OF assms(2,1,4,3)] eof_sender.assocGone_sends [OF assms(2,1,4,3)] by blast

text \<open>A kernel that holds the associations 5 and 7.\<close>

definition holding :: "unit net" where
  "holding = unpollable\<lparr>y_get := \<lambda>k so b. (Inr (id_list LittleEndian [7, 5], 12), k)\<rparr>"

theorem close_shuts_each_association_once_witness:
  "\<exists>k'. Endpoint_assocGone amd64 (tapped holding) [5] ((), []) = Some (Inr (False, [5, 7]), k') \<and> snd k' = [eof_record amd64 7]"
proof -
  have "id_list LittleEndian [7, 5] = [2, 0, 0, 0, 7, 0, 0, 0, 5, 0, 0, 0 :: byte]" by code_simp
  moreover have "decodeAssocIDs amd64 (id_list LittleEndian [7, 5]) = Some (Inr [5, 7])"
  proof -
    have "native amd64 = LittleEndian" "list_all realAssocID [7, 5]" by (simp_all add: amd64_def realAssocID_def)
    then show ?thesis using decodeAssocIDs_accepts [of amd64 "id_list LittleEndian [7, 5]" "[5, 7]"]
      by (auto intro!: exI [of _ "[7, 5]"])
  qed
  ultimately have ids: "socket_assocIDs amd64 (sys_of (tapped holding)) ((), []) = Some (Inr [5, 7], ((), []))"
    unfolding socket_assocIDs_def
    by (subst assocIDs_loop.simps) (simp add: getsockopt_def sys_of_def sys.defs tapped_def pass_def holding_def unpollable_def
      go_copy_def subslice_def slice_def goInt_def amd64_def assocIDsFirstBuffer_def)
  have "wf_target amd64" by (simp add: wf_target_def amd64_def)
  moreover have "\<not> y_released (tapped holding) ((), [])" by (simp add: tapped_def)
  ultimately show ?thesis
    using close_shuts_each_association_once [OF _ tapped.eof_sender_axioms _ ids, of "[5]"] by auto
qed

section \<open>Queries\<close>

text \<open>C36: the list of associations is taken exactly when it is one. For every buffer the decoder does not panic, and it returns ids
  exactly when the bytes are a count of at most \<open>2^20\<close> followed by that many different real ids and nothing else, which come
  back sorted.\<close>

theorem decodeAssocIDs_exact:
  "decodeAssocIDs T b \<noteq> None \<and>
    (decodeAssocIDs T b = Some (Inr ids)) =
      (\<exists>xs. b = id_list (native T) xs \<and> length xs \<le> 1048576 \<and> list_all realAssocID xs \<and> distinct xs \<and> ids = sort_key sint xs)"
  by (rule decodeAssocIDs_accepts)

text \<open>C38: the query for the associations ends. Whatever the kernel answers, on a 64-bit target \<open>AssocIDs\<close> returns an error or
  at most \<open>2^20\<close> different real ids in increasing order.\<close>

theorem AssocIDs_returns:
  assumes "wordSize T = 8"
  shows "\<exists>r k'. AssocIDs T K e k = Some (r, k') \<and>
    (case r of
       Inl err \<Rightarrow> err \<noteq> None
     | Inr ids \<Rightarrow> sorted (List.map sint ids) \<and> distinct ids \<and> list_all realAssocID ids \<and> length ids \<le> 1048576)"
proof (cases "Endpoint_opened e")
  case True
  obtain r k' where r: "socket_assocIDs T K k = Some (r, k')"
      and err: "r \<noteq> Inl None" and ids: "r = Inr ids \<longrightarrow> (\<exists>b. decodeAssocIDs T b = Some (Inr ids))" for ids
    using assocIDs_loop_returns [OF assms, of assocIDsFirstBuffer K k] by (auto simp: socket_assocIDs_def assocIDsFirstBuffer_def)
  show ?thesis
  proof (cases r)
    case (Inl err)
    then obtain x where "err = Some x" using err by (cases err) auto
    then show ?thesis
      using True r Inl
      by (auto simp: AssocIDs_def whenOpened_def io_wrap_def Endpoint_getError_def Endpoint_argError_def Endpoint_optionError_def opError_Some
          simp del: not_None_eq split: option.splits)
  next
    case (Inr xs)
    then obtain b where "decodeAssocIDs T b = Some (Inr xs)" using ids by blast
    then show ?thesis
      using True r Inr decodeAssocIDs_accepts [of T b xs]
      by (auto simp: AssocIDs_def whenOpened_def io_wrap_def list_all_iff)
  qed
next
  case False
  then show ?thesis
    by (simp add: AssocIDs_def whenOpened_def io_err_def Endpoint_optionError_def opError_Some del: not_None_eq)
qed


theorem AssocIDs_returns_witness:
  "wordSize amd64 = 8 \<and> (\<exists>r k'. AssocIDs amd64 (sys_of unpollable) plainEndpoint () = Some (r, k') \<and> r \<noteq> Inl None)"
proof -
  have w: "wordSize amd64 = 8" by (simp add: amd64_def)
  have "r \<noteq> Inl None" if "case r of Inl err \<Rightarrow> err \<noteq> None | Inr ids \<Rightarrow> Q ids" for r :: "goerr option + AssocID list" and Q
    using that by auto
  with AssocIDs_returns [OF w, of "sys_of unpollable" plainEndpoint "()"] w show ?thesis by blast
qed

text \<open>On a 32-bit target the check of the reported length compares it as an \<open>int\<close>: a length of \<open>2^31\<close> passes it, and the slice panics.\<close>

lemma assocIDs_length_wraps:
  "socket_assocIDs i386 (sys_of (unpollable\<lparr>y_get := \<lambda>k so b. (Inr (b, 0x80000000), k)\<rparr>)) () = None"
proof -
  have "goInt i386 0x80000000 = - 2147483648" by (simp add: goInt_def i386_def)
  then show ?thesis
    unfolding socket_assocIDs_def
    by (subst assocIDs_loop.simps) (simp add: getsockopt_def sys_of_def sys.defs unpollable_def go_copy_def subslice_def assocIDsFirstBuffer_def)
qed

section \<open>Ownership\<close>

lemma whenOpened_logs: "logs led P m \<Longrightarrow> (\<And>e. P (Inl e) []) \<Longrightarrow> logs led P (whenOpened w e m)"
  by (auto simp: whenOpened_def logs_def io_err_def)

lemma silent_refuse [silents]: "silent led (io_refuse w x)"
  by (auto simp: io_refuse_def logs_def io_ret_def io_err_def split: option.splits)

text \<open>What PeelOff writes: the spare descriptor, opened and closed, and then the association's own.\<close>

definition peels_off :: "goerr option + 'a \<Rightarrow> ledgerEntry list \<Rightarrow> bool" where
  "peels_off r d \<longleftrightarrow>
     (case r of
        Inl e \<Rightarrow> d = [] \<or> d = [Opened, Closed] \<or> d = [Opened, Closed, Opened, Closed]
      | Inr x \<Rightarrow> d = [Opened, Closed, Opened])"

context ledger
begin

lemma hands_on_newEndpoint: "logs led hands_on (newEndpoint T H (sys_of N) r captured family network p own)"
  using k.silent_getAddrs [of T "h_ifx H" optGetLocalAddrs 0]
  unfolding logs_def newEndpoint_def Endpoint_refreshAddr_def hands_on_def
  by (fastforce split: option.splits prod.splits sum.splits)

lemma logs_openEndpoint:
  assumes "\<And>f. ctl = Some f \<Longrightarrow> silent led f"
  shows "logs led owns (openEndpoint T H N r captured noIPv6 cfg ctl style network laddr)"
  unfolding openEndpoint_def setupEndpoint_def
  by (intro ownership logs_openSocket logs_abortive hands_on_newEndpoint silents assms)

lemma logs_peelOff:
  "logs led (\<lambda>r d. case r of Inl e \<Rightarrow> d = [] \<or> d = [Opened, Closed] | Inr u \<Rightarrow> d = [Opened, Closed, Opened]) (peelOff T N flags i)"
proof -
  have status: "silent led (\<lambda>k. case y_get N k so req of (Inl x, k') \<Rightarrow> Some (Inl (f x), k') | (Inr (r, l), k') \<Rightarrow> Some (Inr (g r), k'))" for so req f g
    by (rule silentI) (auto dest!: keeps_opt split: prod.splits sum.splits)
  have spare: "logs led (\<lambda>r d. d = (if isl r then [] else [Opened, Closed]))
      (\<lambda>k. case n_spare N k of (Some x, k') \<Rightarrow> Some (Inl (f x), k') | (None, k') \<Rightarrow> Some (Inr (), n_rawclose N k'))" for f
    by (auto simp: logs_def rawcloses dest!: spares split: prod.splits option.splits)
  have peel: "logs led (\<lambda>r d. d = (if isl r then [] else [Opened]))
      (\<lambda>k. case n_peeloff N k arg of (Some x, k') \<Rightarrow> Some (Inl (f x), k') | (None, k') \<Rightarrow> Some (Inr (), k'))" for arg f
    by (auto simp: logs_def dest!: peels split: prod.splits option.splits)
  let ?P = "\<lambda>(r :: goerr option + unit) d. case r of Inl e \<Rightarrow> d = [] \<or> d = [Opened, Closed] | Inr u \<Rightarrow> d = [Opened, Closed, Opened]"
  have first: "logs led ?P (io_bind m f)" if "silent led m" "\<And>x. logs led ?P (f x)" for m :: "('k, 'a) io" and f
    using that by (intro logs_bind [where P = "\<lambda>r d. d = []" and Q = "\<lambda>x. ?P"]) (auto split: sum.splits)
  show ?thesis
    unfolding peelOff_def
    by (intro first silents status
      logs_bind [OF spare logs_bind [OF silent_basic(3) peel, where R = "\<lambda>r d. d = (if isl r then [] else [Opened])"]])
      (auto split: sum.splits)
qed

end

context ledgers
begin

lemma logs_PeelOff: "logs led peels_off (PeelOff T H L N r flags i e)"
proof -
  let ?P = "\<lambda>(r :: goerr option + unit) d. case r of Inl e \<Rightarrow> d = [] \<or> d = [Opened, Closed] | Inr u \<Rightarrow> d = [Opened, Closed, Opened]"
  have "logs led ?P (\<lambda>k. if y_released L k then Some (Inl (Some NetErrClosed), k) else peelOff T L flags i k)"
    using l.logs_peelOff [of T flags i] by (fastforce simp: logs_def)
  note moved = logs_bind [where P = ?P and Q = "\<lambda>u. hands_on" and R = peels_off, OF this hands_on_then [OF n.logs_wrapSocketFile n.logs_newConn]]
  show ?thesis
    unfolding PeelOff_def
    by (intro whenOpened_logs logs_wrap logs_bind [where Q = "\<lambda>u. peels_off", OF silent_refuse moved])
      (auto simp: peels_off_def hands_on_def split: sum.splits)
qed

end

text \<open>C16: no endpoint leaks a descriptor. In any history of descriptors opened and closed, whatever the kernel answers, ListenEndpoint and
  OpenEndpoint leave one more open when they succeed and none when they fail; PeelOff leaves the association's own open when it
  succeeds, and when it fails has closed every one it opened, the spare one included.\<close>

theorem endpoints_own_descriptors:
  assumes "ledger N led" "ledger L led" "\<forall>f. ctl = Some f \<longrightarrow> logs led (\<lambda>x d. d = []) f"
  shows "logs led owns (ListenEndpoint T H N r captured noIPv6 cfg ctl network laddr) \<and>
    logs led owns (OpenEndpoint T H N r captured noIPv6 cfg ctl network laddr) \<and>
    logs led peels_off (PeelOff T H L N r flags i e)"
proof -
  have "ctl = Some f \<Longrightarrow> silent led f" for f using assms(3) by blast
  note opened = ledger.logs_openEndpoint [OF assms(1) this]
  have "ledgers L N led" using assms(1,2) by (simp add: ledgers_def)
  with opened show ?thesis
    unfolding ListenEndpoint_def OpenEndpoint_def
    by (intro conjI logs_wrap ledgers.logs_PeelOff) (simp_all add: owns_def)
qed

theorem endpoints_own_descriptors_witness:
  "\<exists>x. PeelOff amd64 quietHost (logged unpollable) (logged unpollable) recvState_zero 0x80800 7 plainEndpoint ((), []) =
      Some (Inl x, ((), [Opened, Closed, Opened, Closed])) \<and>
    peels_off (Inl x :: goerr option + netConn) [Opened, Closed, Opened, Closed]"
proof -
  have "\<exists>x. PeelOff amd64 quietHost (logged unpollable) (logged unpollable) recvState_zero 0x80800 7 plainEndpoint ((), []) =
      Some (Inl x, ((), [Opened, Closed, Opened, Closed]))"
  proof -
    have "(case PeelOff amd64 quietHost (logged unpollable) (logged unpollable) recvState_zero 0x80800 7 plainEndpoint ((), []) of
        Some (Inl x, k) \<Rightarrow> k = ((), [Opened, Closed, Opened, Closed]) | _ \<Rightarrow> False)"
      by code_simp
    then show ?thesis by (simp split: option.split_asm prod.split_asm sum.split_asm)
  qed
  moreover have "logs snd peels_off (PeelOff amd64 quietHost (logged unpollable) (logged unpollable) recvState_zero 0x80800 7 plainEndpoint)"
    using endpoints_own_descriptors [OF logged.ledger_axioms logged.ledger_axioms, of None] by blast
  ultimately show ?thesis unfolding logs_def by fastforce
qed

end
