(* ===== verification/Resolve.thy ===== *)
theory Resolve
  imports Addrs
begin

text \<open>
  Reading addresses (\<open>addr.go\<close>: \<open>ResolveAddr\<close>, \<open>ResolveAddrContext\<close> and \<open>resolveHost\<close>), with what they use of the standard library: \<open>strings.Split\<close>,
  \<open>net.SplitHostPort\<close>, \<open>strconv.ParseUint\<close> and \<open>netip.ParseAddr\<close>. The resolver and the caller's context are a parameter. What an Addr
  prints, ResolveAddr reads back.
\<close>

unbundle bit_operations_syntax

section \<open>The standard library\<close>

definition indexByte :: "char \<Rightarrow> string \<Rightarrow> nat option" where
  "indexByte c s = (if c \<in> set s then Some (length (takeWhile (\<lambda>x. x \<noteq> c) s)) else None)"

definition lastIndexByte :: "char \<Rightarrow> string \<Rightarrow> nat option" where
  "lastIndexByte c s = (if c \<in> set s then Some (length s - 1 - length (takeWhile (\<lambda>x. x \<noteq> c) (rev s))) else None)"

fun splitSlash :: "string \<Rightarrow> string list" where
  "splitSlash [] = [[]]"
| "splitSlash (c # s) = (if c = CHR ''/'' then [] # splitSlash s else (case splitSlash s of [] \<Rightarrow> [[c]] | e # es \<Rightarrow> (c # e) # es))"

text \<open>\<open>net.SplitHostPort\<close>; its error is the text of the \<open>*net.AddrError\<close>.\<close>

definition splitBrackets :: "string \<Rightarrow> nat \<Rightarrow> string + string \<times> nat \<times> nat" where
  "splitBrackets hp i =
     (if hp ! 0 = CHR ''['' then
        (case indexByte (CHR '']'') hp of
           None \<Rightarrow> Inl ''missing ']' in address''
         | Some e \<Rightarrow>
             if e + 1 = length hp then Inl ''missing port in address''
             else if e + 1 = i then Inr (take (e - 1) (drop 1 hp), 1, e + 1)
             else if hp ! (e + 1) = CHR '':'' then Inl ''too many colons in address''
             else Inl ''missing port in address'')
      else if CHR '':'' \<in> set (take i hp) then Inl ''too many colons in address''
      else Inr (take i hp, 0, 0))"

definition SplitHostPort :: "string \<Rightarrow> string + string \<times> string" where
  "SplitHostPort hp =
     (case lastIndexByte (CHR '':'') hp of
        None \<Rightarrow> Inl ''missing port in address''
      | Some i \<Rightarrow>
          (case splitBrackets hp i of
             Inl e \<Rightarrow> Inl e
           | Inr (host, j, k) \<Rightarrow>
               if CHR ''['' \<in> set (drop j hp) then Inl ''unexpected '[' in address''
               else if CHR '']'' \<in> set (drop k hp) then Inl ''unexpected ']' in address''
               else Inr (host, drop (i + 1) hp)))"

definition isDigit :: "char \<Rightarrow> bool" where
  "isDigit c \<longleftrightarrow> of_char c \<ge> (48 :: nat) \<and> of_char c \<le> (57 :: nat)"

definition digitVal :: "char \<Rightarrow> nat" where
  "digitVal c = (if isDigit c then of_char c - 48 else if of_char c \<ge> (97 :: nat) then of_char c - 87 else of_char c - 55)"

definition isHex :: "char \<Rightarrow> bool" where
  "isHex c \<longleftrightarrow> isDigit c \<or> (of_char c \<ge> (97 :: nat) \<and> of_char c \<le> (102 :: nat)) \<or> (of_char c \<ge> (65 :: nat) \<and> of_char c \<le> (70 :: nat))"

definition readBase :: "nat \<Rightarrow> string \<Rightarrow> nat" where
  "readBase b s = foldl (\<lambda>v c. v * b + digitVal c) 0 s"

text \<open>\<open>strconv.ParseUint(s, 10, 16)\<close>.\<close>

definition ParseUint16 :: "string \<Rightarrow> u16 option" where
  "ParseUint16 s = (if s \<noteq> [] \<and> list_all isDigit s \<and> readBase 10 s < 65536 then Some (of_nat (readBase 10 s)) else None)"

text \<open>\<open>netip.parseIPv4Fields\<close>: the octets so far, the one being read and the number of its digits.\<close>

fun parse4_loop :: "nat list \<Rightarrow> nat \<Rightarrow> nat \<Rightarrow> string \<Rightarrow> nat list option" where
  "parse4_loop fs v n [] = (if length fs < 3 then None else Some (fs @ [v]))"
| "parse4_loop fs v n (c # s) =
     (if isDigit c then
        if n = 1 \<and> v = 0 then None
        else if v * 10 + digitVal c > 255 then None
        else parse4_loop fs (v * 10 + digitVal c) (n + 1) s
      else if c = CHR ''.'' then
        if n = 0 \<or> s = [] then None
        else if length fs = 3 then None
        else parse4_loop (fs @ [v]) 0 0 s
      else None)"

definition parse4 :: "string \<Rightarrow> nat list option" where
  "parse4 s = parse4_loop [] 0 0 s"

text \<open>\<open>netip.parseIPv6\<close>, with the groups so far and the position of the ellipsis.\<close>

function parse6_loop :: "nat list \<Rightarrow> nat option \<Rightarrow> string \<Rightarrow> (nat list \<times> nat option \<times> string) option" where
  "parse6_loop gs ell s =
     (if length gs \<ge> 8 then Some (gs, ell, s)
      else
        let ds = takeWhile isHex s; rest = drop (length ds) s; gs' = gs @ [readBase 16 ds] in
        if length ds > 4 \<or> ds = [] then None
        else case rest of
          [] \<Rightarrow> Some (gs', ell, [])
        | c # r \<Rightarrow>
            if c = CHR ''.'' then
              if ell = None \<and> length gs \<noteq> 6 \<or> length gs > 6 then None
              else (case parse4 s of
                Some [a, b, x, y] \<Rightarrow> Some (gs @ [a * 256 + b, x * 256 + y], ell, [])
              | _ \<Rightarrow> None)
            else if c \<noteq> CHR '':'' \<or> r = [] then None
            else if hd r = CHR '':'' then
              if ell \<noteq> None then None
              else if tl r = [] then Some (gs', Some (length gs'), [])
              else parse6_loop gs' (Some (length gs')) (tl r)
            else parse6_loop gs' ell r)"
  by pat_completeness auto
termination
  by (relation "measure (\<lambda>(gs, ell, s). 8 - length gs)") auto

declare parse6_loop.simps [simp del]

definition fromGroups :: "nat list \<Rightarrow> 128 word" where
  "fromGroups gs = of_nat (foldl (\<lambda>a g. a * 65536 + g) 0 gs)"

definition expand6 :: "nat list \<times> nat option \<times> string \<Rightarrow> nat list option" where
  "expand6 = (\<lambda>(gs, ell, s).
     if s \<noteq> [] then None
     else if length gs < 8 then map_option (\<lambda>e. take e gs @ replicate (8 - length gs) 0 @ drop e gs) ell
     else if ell \<noteq> None then None else Some gs)"

definition parseIPv6 :: "string \<Rightarrow> ipaddr option" where
  "parseIPv6 inp =
     (let s = takeWhile (\<lambda>c. c \<noteq> CHR ''%'') inp; zone = drop (length s + 1) inp in
      if CHR ''%'' \<in> set inp \<and> zone = [] then None
      else if s = ''::'' then Some (IP6 0 zone)
      else map_option (\<lambda>gs. IP6 (fromGroups gs) zone)
        (Option.bind (if take 2 s = ''::'' then parse6_loop [] (Some 0) (drop 2 s) else parse6_loop [] None s) expand6))"

definition parseIPv4 :: "string \<Rightarrow> ipaddr option" where
  "parseIPv4 s = map_option (\<lambda>fs. IP4 (of_nat (foldl (\<lambda>a f. a * 256 + f) 0 fs))) (parse4 s)"

text \<open>\<open>netip.ParseAddr\<close>: the first of a dot, a colon or a percent sign decides.\<close>

definition ParseAddr :: "string \<Rightarrow> ipaddr option" where
  "ParseAddr s =
     (case dropWhile (\<lambda>c. c \<notin> set ''.:%'') s of
        [] \<Rightarrow> None
      | c # _ \<Rightarrow> if c = CHR ''.'' then parseIPv4 s else if c = CHR '':'' then parseIPv6 s else None)"

section \<open>ResolveAddr\<close>

definition unbracketHost :: "string \<Rightarrow> string" where
  "unbracketHost host =
     (if length host \<ge> 2 \<and> host ! 0 = CHR ''['' \<and> host ! (length host - 1) = CHR '']'' then take (length host - 2) (drop 1 host) else host)"

text \<open>The resolver: the error of the caller's context when it is asked, and a lookup of a family and a host.\<close>

record 'k resolver =
  v_ctx :: "'k \<Rightarrow> goerr option \<times> 'k"
  v_lookup :: "'k \<Rightarrow> string \<Rightarrow> string \<Rightarrow> (goerr + ipaddr list) \<times> 'k"

definition pickAddr :: "string \<Rightarrow> ipaddr list \<Rightarrow> goerr + ipaddr" where
  "pickAddr network ips =
     (if ips = [] then
        Inl (InvalidArg (if network = ''sctp4'' then ''host %q has no IPv4 address'' else if network = ''sctp6'' then ''host %q has no IPv6 address''
           else ''host %q has no address''))
      else if network = ''sctp4'' \<or> network = ''sctp6'' then normalizeResolvedAddr (ips ! 0)
      else case find (\<lambda>ip. Is4 (Unmap ip)) ips of
        Some ip \<Rightarrow> normalizeResolvedAddr ip
      | None \<Rightarrow> normalizeResolvedAddr (ips ! 0))"

definition resolveHost :: "'k resolver \<Rightarrow> string \<Rightarrow> string \<Rightarrow> 'k \<Rightarrow> (goerr + ipaddr) \<times> 'k" where
  "resolveHost R network host k =
     (case ParseAddr host of
        Some ip \<Rightarrow> (normalizeResolvedAddr ip, k)
      | None \<Rightarrow>
          if CHR '':'' \<in> set host \<or> CHR ''%'' \<in> set host then (Inl (InvalidArg ''invalid host %q''), k)
          else case v_ctx R k of
            (Some e, k1) \<Rightarrow> (Inl e, k1)
          | (None, k1) \<Rightarrow>
              (case v_lookup R k1 (if network = ''sctp4'' then ''ip4'' else if network = ''sctp6'' then ''ip6'' else ''ip'') host of
                 (Inl e, k2) \<Rightarrow> (Inl e, k2)
               | (Inr ips, k2) \<Rightarrow> (pickAddr network ips, k2)))"

fun resolve_elems :: "'k resolver \<Rightarrow> string \<Rightarrow> string \<Rightarrow> string list \<Rightarrow> 'k \<Rightarrow> (goerr + ipaddr list) \<times> 'k" where
  "resolve_elems R network lastHost [] k = (Inr [], k)"
| "resolve_elems R network lastHost (e # es) k =
     (let host = unbracketHost (if es = [] then lastHost else e) in
      if host = [] then (Inl (InvalidArg ''address %q names no host''), k)
      else case resolveHost R network host k of
        (Inl x, k1) \<Rightarrow> (Inl x, k1)
      | (Inr ip, k1) \<Rightarrow>
          if network = ''sctp4'' \<and> \<not> Is4 (Unmap ip) then (Inl (InvalidArg ''sctp4 address %d (%s) is not IPv4''), k1)
          else (case resolve_elems R network lastHost es k1 of
            (Inl x, k2) \<Rightarrow> (Inl x, k2) | (Inr ips, k2) \<Rightarrow> (Inr (ip # ips), k2)))"

text \<open>\<open>hasCtx\<close>: the context is not nil; \<open>ResolveAddr\<close> passes one that is never done.\<close>

definition ResolveAddrContext :: "'k resolver \<Rightarrow> bool \<Rightarrow> string \<Rightarrow> string \<Rightarrow> 'k \<Rightarrow> (goerr + Addr) \<times> 'k" where
  "ResolveAddrContext R hasCtx network address k =
     (if \<not> hasCtx then (Inl (InvalidArg ''ResolveAddrContext needs a non-nil context''), k)
      else case canonicalNetwork network [] of
        Inl e \<Rightarrow> (Inl e, k)
      | Inr _ \<Rightarrow>
          let elems = splitSlash address in
          (case SplitHostPort (last elems) of
             Inl e \<Rightarrow> (Inl (InvalidArg e), k)
           | Inr (lastHost, portStr) \<Rightarrow>
               (case ParseUint16 portStr of
                  None \<Rightarrow> (Inl (InvalidArg ''address %q: invalid port %q''), k)
                | Some port \<Rightarrow>
                    if length elems = 1 \<and> lastHost = [] then (Inr \<lparr>ad_IPs = [], ad_Port = port\<rparr>, k)
                    else (case resolve_elems R network lastHost elems k of
                      (Inl e, k1) \<Rightarrow> (Inl e, k1)
                    | (Inr ips, k1) \<Rightarrow>
                        (case canonicalNetwork network ips of
                           Inl e \<Rightarrow> (Inl e, k1)
                         | Inr _ \<Rightarrow> (Inr \<lparr>ad_IPs = ips, ad_Port = port\<rparr>, k1)))))
     )"

definition ResolveAddr :: "'k resolver \<Rightarrow> string \<Rightarrow> string \<Rightarrow> 'k \<Rightarrow> (goerr + Addr) \<times> 'k" where
  "ResolveAddr R network address k = ResolveAddrContext (R\<lparr>v_ctx := \<lambda>k. (None, k)\<rparr>) True network address k"


section \<open>Numbers\<close>

lemma digit_char_val: "d < 16 \<Longrightarrow> digitVal (digit_char d) = d"
  by (auto simp: digitVal_def digit_char_def isDigit_def of_char_of)

lemma digit_char_digit: "d < 10 \<Longrightarrow> isDigit (digit_char d)"
  by (simp add: digit_char_def isDigit_def)

lemma digit_char_hex: "d < 16 \<Longrightarrow> isHex (digit_char d)"
  by (auto simp: digit_char_def isHex_def isDigit_def)

lemma show_base_chars: "1 < b \<Longrightarrow> (\<And>d. d < b \<Longrightarrow> P (digit_char d)) \<Longrightarrow> list_all P (show_base b n)"
  by (induction b n rule: show_base.induct) (subst show_base.simps, auto)

lemma readBase_snoc: "readBase b (s @ [c]) = readBase b s * b + digitVal c"
  by (simp add: readBase_def)

lemma readBase_show: "1 < b \<Longrightarrow> b \<le> 16 \<Longrightarrow> readBase b (show_base b n) = n"
proof (induction b n rule: show_base.induct)
  case (1 b n)
  show ?case
  proof (cases "n < b")
    case True
    then show ?thesis using 1 digit_char_val [of n] by (subst show_base.simps) (simp add: readBase_def)
  next
    case False
    have "n mod b < b" using "1.prems"(1) by simp
    then have "n mod b < 16" using "1.prems"(2) by linarith
    then show ?thesis using False 1 digit_char_val [of "n mod b"]
      by (subst show_base.simps) (simp add: readBase_snoc)
  qed
qed

lemma show_base_length: "1 < b \<Longrightarrow> n < b ^ Suc m \<Longrightarrow> length (show_base b n) \<le> Suc m"
proof (induction m arbitrary: n)
  case 0
  then show ?case by (subst show_base.simps) simp
next
  case (Suc m)
  then have "n div b < b ^ Suc m" by (simp add: less_mult_imp_div_less mult.commute)
  then have "length (show_base b (n div b)) \<le> Suc m" using Suc by blast
  then show ?case by (subst show_base.simps) simp
qed

lemma ParseUint16_show: "ParseUint16 (show_base 10 (unat p)) = Some p"
proof -
  have "list_all isDigit (show_base 10 (unat p))" by (rule show_base_chars) (simp_all add: digit_char_digit)
  moreover have "unat p < 65536" using unsigned_less [of p] by simp
  ultimately show ?thesis by (simp add: ParseUint16_def readBase_show)
qed


section \<open>IPv4\<close>

lemma show_base_10:
  assumes "d < 256"
  obtains "d < 10" "show_base 10 d = [digit_char d]"
  | "10 \<le> d" "d < 100" "show_base 10 d = [digit_char (d div 10), digit_char (d mod 10)]"
  | "100 \<le> d" "show_base 10 d = [digit_char (d div 100), digit_char (d div 10 mod 10), digit_char (d mod 10)]"
proof -
  consider "d < 10" | "10 \<le> d" "d < 100" | "100 \<le> d" by linarith
  then show thesis
  proof cases
    case 1
    then show ?thesis using that(1) by (simp add: show_base.simps)
  next
    case 2
    then show ?thesis using that(2) by (simp add: show_base.simps [of 10 d] show_base.simps [of 10 "d div 10"])
  next
    case 3
    have "show_base 10 (d div 100) = [digit_char (d div 100)]" using assms by (simp add: show_base.simps)
    then have "show_base 10 d = [digit_char (d div 100), digit_char (d div 10 mod 10), digit_char (d mod 10)]"
      using 3 assms by (simp add: show_base.simps [of 10 d] show_base.simps [of 10 "d div 10"] div_mult2_eq [symmetric])
    with 3 show ?thesis by (rule that(3))
  qed
qed

lemma parse4_digit:
  "x < 10 \<Longrightarrow> \<not> (n = 1 \<and> v = 0) \<Longrightarrow> v * 10 + x \<le> 255 \<Longrightarrow> parse4_loop fs v n (digit_char x # s) = parse4_loop fs (v * 10 + x) (n + 1) s"
  by (auto simp: digit_char_digit digit_char_val)

lemma parse4_octet:
  assumes "d < 256"
  shows "\<exists>n > 0. parse4_loop fs 0 0 (show_base 10 d @ rest) = parse4_loop fs d n rest"
proof (cases rule: show_base_10 [OF assms])
  case 1
  then show ?thesis using parse4_digit [of d 0 0 fs rest] by auto
next
  case 2
  then have "d div 10 < 10" "0 < d div 10" "d div 10 \<le> 255" "d mod 10 < 10" by auto
  moreover have "d div 10 * 10 + d mod 10 = d" by simp
  ultimately have "parse4_loop fs 0 0 (digit_char (d div 10) # digit_char (d mod 10) # rest) = parse4_loop fs d (Suc (Suc 0)) rest"
    using parse4_digit [of "d div 10" 0 0 fs] parse4_digit [of "d mod 10" 1 "d div 10" fs rest] assms by (simp del: parse4_loop.simps)
  with 2 show ?thesis by (auto simp del: parse4_loop.simps)
next
  case 3
  have "d div 100 < 10" "0 < d div 100" "d div 10 \<le> 255" "d div 10 mod 10 < 10" "d mod 10 < 10" using assms 3 by auto
  moreover have "d div 100 = d div 10 div 10" by (simp add: div_mult2_eq [symmetric])
  then have "d div 100 * 10 + d div 10 mod 10 = d div 10" by simp
  moreover have "d div 10 * 10 + d mod 10 = d" by simp
  ultimately have "parse4_loop fs 0 0 (digit_char (d div 100) # digit_char (d div 10 mod 10) # digit_char (d mod 10) # rest) = parse4_loop fs d (Suc (Suc (Suc 0))) rest"
    using parse4_digit [of "d div 100" 0 0 fs] parse4_digit [of "d div 10 mod 10" 1 "d div 100" fs]
      parse4_digit [of "d mod 10" "Suc (Suc 0)" "d div 10" fs rest] assms
    by (simp del: parse4_loop.simps)
  with 3 show ?thesis by (auto simp del: parse4_loop.simps)
qed

lemma parse4_octets:
  assumes "a < 256" "b < 256" "c < 256" "d < 256"
  shows "parse4 (show_base 10 a @ ''.'' @ show_base 10 b @ ''.'' @ show_base 10 c @ ''.'' @ show_base 10 d) = Some [a, b, c, d]"
proof -
  have dot: "parse4_loop fs v n (CHR ''.'' # s) = parse4_loop (fs @ [v]) 0 0 s" if "n > 0" "s \<noteq> []" "length fs < 3" for fs v n s
    using that by (simp add: isDigit_def)
  have octet: "parse4_loop fs 0 0 (show_base 10 x @ CHR ''.'' # s) = parse4_loop (fs @ [x]) 0 0 s"
    if "x < 256" "s \<noteq> []" "length fs < 3" for fs x s
    using parse4_octet [OF that(1), of fs "CHR ''.'' # s"] dot that by auto
  have "parse4_loop fs 0 0 (show_base 10 d) = Some (fs @ [d])" if "length fs = 3" for fs
    using parse4_octet [OF assms(4), of fs "[]"] that by auto
  then show ?thesis using assms by (simp add: parse4_def octet)
qed

lemma positional: "foldl (\<lambda>a g. a * B + g) 0 (List.map (\<lambda>i. n div B ^ (m - 1 - i) mod B) [0..<m]) = n mod (B :: nat) ^ m"
proof (induction m arbitrary: n)
  case (Suc m)
  have "List.map (\<lambda>i. n div B ^ (Suc m - 1 - i) mod B) [0..<m] = List.map (\<lambda>i. n div B div B ^ (m - 1 - i) mod B) [0..<m]"
  proof (intro map_cong refl)
    fix i assume "i \<in> set [0..<m]"
    then have "Suc m - 1 - i = Suc (m - 1 - i)" by auto
    then show "n div B ^ (Suc m - 1 - i) mod B = n div B div B ^ (m - 1 - i) mod B" by (simp add: div_mult2_eq)
  qed
  then have "foldl (\<lambda>a g. a * B + g) 0 (List.map (\<lambda>i. n div B ^ (Suc m - 1 - i) mod B) [0..<m]) = n div B mod B ^ m"
    using Suc.IH [of "n div B"] by (simp only:)
  moreover have "List.map (\<lambda>i. n div B ^ (Suc m - 1 - i) mod B) [0..<Suc m] = List.map (\<lambda>i. n div B ^ (Suc m - 1 - i) mod B) [0..<m] @ [n mod B]"
    by simp
  ultimately have "foldl (\<lambda>a g. a * B + g) 0 (List.map (\<lambda>i. n div B ^ (Suc m - 1 - i) mod B) [0..<Suc m]) =
      (n div B mod B ^ m) * B + n mod B" by (simp only: foldl_append foldl.simps)
  also have "\<dots> = n mod B ^ Suc m" by (simp add: mod_mult2_eq mult.commute)
  finally show ?case .
qed simp

lemma word_digit: "unat (drop_bit (w * j) (v :: 'a::len word) AND (2 ^ w - 1)) = unat v div (2 ^ w) ^ j mod 2 ^ w"
proof -
  have "unat (take_bit w (drop_bit (w * j) v)) = take_bit w (drop_bit (w * j) (unat v))"
    using take_bit_nat_eq_self [OF unsigned_less [of v]] by (simp add: unsigned_take_bit_eq unsigned_drop_bit_eq)
  then show ?thesis by (simp add: take_bit_eq_mod drop_bit_eq_div power_mult flip: mask_eq_exp_minus_1 take_bit_eq_mask)
qed


lemma octets_word: "of_nat (foldl (\<lambda>a f. a * 256 + f) 0 [octet v 0, octet v 1, octet v 2, octet v 3]) = (v :: u32)"
proof -
  have "octet v i = unat v div 256 ^ (4 - 1 - i) mod 256" for i
    using word_digit [of 8 "3 - i" v] by (simp add: octet_def)
  then have "[octet v 0, octet v 1, octet v 2, octet v 3] = List.map (\<lambda>i. unat v div 256 ^ (4 - 1 - i) mod 256) [0..<4]"
    by (simp add: upt_rec)
  then have "foldl (\<lambda>a f. a * 256 + f) 0 [octet v 0, octet v 1, octet v 2, octet v 3] = unat v mod 256 ^ 4"
    by (simp only: positional)
  also have "\<dots> = unat v"
  proof -
    have "unat v < 2 ^ LENGTH(32)" by (rule unsigned_less)
    then show ?thesis by simp
  qed
  finally show ?thesis by simp
qed

lemma octet_less: "octet v i < 256"
  using word_digit [of 8 "3 - i" v] by (simp add: octet_def)

lemma dropWhile_show: "(1 < b \<and> b \<le> 16) \<Longrightarrow> dropWhile (\<lambda>c. c \<notin> set ''.:%'') (show_base b n @ rest) = dropWhile (\<lambda>c. c \<notin> set ''.:%'') rest"
proof -
  assume b: "1 < b \<and> b \<le> 16"
  have "digit_char d \<notin> set ''.:%''" if "d < b" for d
  proof -
    have "isHex (digit_char d)" using that b by (intro digit_char_hex) simp
    then show ?thesis by (auto simp: isHex_def isDigit_def)
  qed
  then have "list_all (\<lambda>c. c \<notin> set ''.:%'') (show_base b n)" using b by (intro show_base_chars) auto
  then show ?thesis by (intro dropWhile_append2) (auto simp: list_all_iff)
qed

lemma ParseAddr_ip4: "ParseAddr (ip4_String v) = Some (IP4 v)"
proof -
  have "parse4 (ip4_String v) = Some [octet v 0, octet v 1, octet v 2, octet v 3]"
    unfolding ip4_String_def by (rule parse4_octets) (rule octet_less)+
  then have "parseIPv4 (ip4_String v) = Some (IP4 v)" using octets_word [of v] by (simp add: parseIPv4_def)
  then show ?thesis
    unfolding ParseAddr_def ip4_String_def by (subst dropWhile_show) simp_all
qed

section \<open>IPv6\<close>

definition tailGroups :: "nat list \<Rightarrow> string" where
  "tailGroups gs = concat (List.map (\<lambda>g. '':'' @ show_base 16 g) gs)"

lemma hexGroups_simps [simp]: "hexGroups [] = []" "hexGroups (g # gs) = show_base 16 g @ tailGroups gs"
proof -
  have "0 < n \<Longrightarrow> concat (List.map (\<lambda>(i, g). (if i > 0 then '':'' else []) @ show_base 16 g) (enumerate n gs)) = tailGroups gs" for n
    by (induction gs arbitrary: n) (simp_all add: tailGroups_def)
  then show "hexGroups [] = []" "hexGroups (g # gs) = show_base 16 g @ tailGroups gs" by (simp_all add: hexGroups_def)
qed

lemma tailGroups_simps [simp]: "tailGroups [] = []" "tailGroups (g # gs) = CHR '':'' # hexGroups (g # gs)"
  by (simp_all add: tailGroups_def)

lemma show_hex: "list_all isHex (show_base 16 g)"
  by (rule show_base_chars) (simp_all add: digit_char_hex)

lemma show_hex_hd: "show_base 16 g @ rest = c # r \<Longrightarrow> isHex c"
  using show_hex [of g] by (cases "show_base 16 g") auto

lemma parse6_group:
  assumes "g < 65536" "length acc < 8" "rest = [] \<or> \<not> isHex (hd rest)"
  shows "takeWhile isHex (show_base 16 g @ rest) = show_base 16 g" "length (show_base 16 g) \<le> 4" "readBase 16 (show_base 16 g) = g"
proof -
  have "takeWhile isHex rest = []" using assms(3) by (cases rest) auto
  then show "takeWhile isHex (show_base 16 g @ rest) = show_base 16 g"
    using show_hex [of g] by (simp add: takeWhile_append2 list_all_iff)
  show "length (show_base 16 g) \<le> 4" using show_base_length [of 16 g 3] assms(1) by simp
qed (simp add: readBase_show)

lemma colon_not_hex [simp]: "\<not> isHex (CHR '':'')"
  by (simp add: isHex_def isDigit_def)

lemma parse6_step:
  assumes "g < 65536" "length acc < 8" "rest = [] \<or> hd rest = CHR '':''"
  shows "parse6_loop acc ell (show_base 16 g @ rest) =
    (case rest of
       [] \<Rightarrow> Some (acc @ [g], ell, [])
     | c # r \<Rightarrow>
         if r = [] then None
         else if hd r = CHR '':'' then
           if ell \<noteq> None then None
           else if tl r = [] then Some (acc @ [g], Some (length acc + 1), [])
           else parse6_loop (acc @ [g]) (Some (length acc + 1)) (tl r)
         else parse6_loop (acc @ [g]) ell r)"
proof -
  have hex: "rest = [] \<or> \<not> isHex (hd rest)" using assms(3) by auto
  note group = parse6_group [OF assms(1,2) hex]
  show ?thesis
    using assms(2,3) group by (subst parse6_loop.simps) (auto simp: Let_def not_less split: list.splits)
qed

lemma parse6_groups:
  "list_all (\<lambda>g. g < 65536) (g # gs) \<Longrightarrow> length acc + length (g # gs) \<le> 8 \<Longrightarrow>
     parse6_loop acc ell (hexGroups (g # gs)) = Some (acc @ g # gs, ell, [])"
proof (induction gs arbitrary: acc g)
  case Nil
  then show ?case using parse6_step [of g acc "[]" ell] by simp
next
  case (Cons h gs)
  obtain c r where cr: "show_base 16 h @ tailGroups gs = c # r" by (cases "show_base 16 h @ tailGroups gs") auto
  then have "c \<noteq> CHR '':''" using colon_not_hex by (auto dest: show_hex_hd simp del: colon_not_hex)
  moreover have "parse6_loop (acc @ [g]) ell (c # r) = Some (acc @ g # h # gs, ell, [])"
    using Cons.IH [of h "acc @ [g]"] Cons.prems cr by simp
  ultimately show ?case using Cons.prems cr parse6_step [of g acc "tailGroups (h # gs)" ell] by simp
qed

lemma parse6_ellipsis:
  "list_all (\<lambda>g. g < 65536) (g # gs) \<Longrightarrow> length acc + length (g # gs) \<le> 8 \<Longrightarrow>
     parse6_loop acc None (hexGroups (g # gs) @ ''::'' @ s) =
       (if s = [] then Some (acc @ g # gs, Some (length acc + length (g # gs)), [])
        else parse6_loop (acc @ g # gs) (Some (length acc + length (g # gs))) s)"
proof (induction gs arbitrary: acc g)
  case Nil
  then show ?case using parse6_step [of g acc "''::'' @ s" None] by simp
next
  case (Cons h gs)
  obtain c r where cr: "show_base 16 h @ tailGroups gs @ ''::'' @ s = c # r"
    by (cases "show_base 16 h @ tailGroups gs @ ''::'' @ s") auto
  then have "c \<noteq> CHR '':''" using colon_not_hex by (auto dest: show_hex_hd simp del: colon_not_hex)
  moreover have "parse6_loop (acc @ [g]) None (c # r) =
      (if s = [] then Some (acc @ g # h # gs, Some (length acc + length (g # h # gs)), [])
       else parse6_loop (acc @ g # h # gs) (Some (length acc + length (g # h # gs))) s)"
    using Cons.IH [of h "acc @ [g]"] Cons.prems cr by simp
  ultimately show ?case using Cons.prems cr parse6_step [of g acc "tailGroups (h # gs) @ ''::'' @ s" None] by simp
qed


lemma zeroRun_zeros:
  "zeroRun i gs best = (a, b) \<Longrightarrow> (a, b) = best \<or> i \<le> a \<and> a + 2 \<le> b \<and> b \<le> i + length gs \<and> (\<forall>j. a \<le> j \<and> j < b \<longrightarrow> gs ! (j - i) = 0)"
proof (induction i gs best rule: zeroRun.induct)
  case (2 i g gs start stop)
  define l where "l = zerosFrom (g # gs)"
  have l: "l \<le> length (g # gs)" and zero: "j < l \<Longrightarrow> (g # gs) ! j = 0" for j
    using length_takeWhile_le [of "\<lambda>g. g = 0" "g # gs"] nth_mem [of j "takeWhile (\<lambda>g. g = 0) (g # gs)"]
      takeWhile_nth [of j "\<lambda>g. g = 0" "g # gs"] set_takeWhileD
    unfolding l_def zerosFrom_def by fastforce+
  have shift: "(g # gs) ! (j - i) = gs ! (j - (i + 1))" if "i + 1 \<le> j" for j using that by (simp add: nth_Cons')
  from "2.IH" [OF refl] "2.prems" consider "(a, b) = (if l \<ge> 2 \<and> l > stop - start then (i, i + l) else (start, stop))"
    | "i + 1 \<le> a" "a + 2 \<le> b" "b \<le> i + 1 + length gs" "\<forall>j. a \<le> j \<and> j < b \<longrightarrow> gs ! (j - (i + 1)) = 0"
    by (auto simp: Let_def l_def)
  then show ?case
  proof cases
    case 1
    then show ?thesis using l zero by (auto split: if_splits)
  next
    case 2
    then show ?thesis using shift by auto
  qed
qed auto

text \<open>What \<open>String\<close> writes of the groups: they are its two parts around a run of zeros, or all written.\<close>

lemma ip6_groups_split:
  assumes "length gs = 8"
  obtains "ip6_groups gs = hexGroups gs"
  | l n r where "ip6_groups gs = hexGroups l @ ''::'' @ hexGroups r" "gs = l @ replicate n 0 @ r" "2 \<le> n"
proof -
  obtain a b where ab: "zeroRun 0 gs (255, 255) = (a, b)" by fastforce
  show thesis
  proof (cases "a = 255")
    case True
    then show ?thesis using ab that(1) by (simp add: ip6_groups_def)
  next
    case False
    with zeroRun_zeros [OF ab] assms have run: "a + 2 \<le> b" "b \<le> 8" "\<forall>j. a \<le> j \<and> j < b \<longrightarrow> gs ! j = 0" by auto
    have "take (b - a) (drop a gs) = replicate (b - a) 0"
      using run assms by (intro nth_equalityI) auto
    then have "gs = take a gs @ replicate (b - a) 0 @ drop b gs"
      using run append_take_drop_id [of a gs] append_take_drop_id [of "b - a" "drop a gs"] by (simp add: add.commute)
    then show ?thesis using that(2) [of "take a gs" "drop b gs" "b - a"] ab False run by (simp add: ip6_groups_def)
  qed
qed

definition textOf :: "128 word \<Rightarrow> string \<Rightarrow> string" where
  "textOf w z = ip6_groups (List.map (v6u16 w) [0..<8]) @ (if z = [] then [] else ''%'' @ z)"

lemma groups_word: "fromGroups (List.map (v6u16 w) [0..<8]) = w"
proof -
  have "v6u16 w i = unat w div 65536 ^ (8 - 1 - i) mod 65536" for i
    using word_digit [of 16 "7 - i" w] by (simp add: v6u16_def)
  then have "v6u16 w = (\<lambda>i. unat w div 65536 ^ (8 - 1 - i) mod 65536)" by (rule ext)
  then have "foldl (\<lambda>a g. a * 65536 + g) 0 (List.map (v6u16 w) [0..<8]) = unat w mod 65536 ^ 8"
    by (simp only: positional)
  also have "\<dots> = unat w"
  proof -
    have "unat w < 2 ^ LENGTH(128)" by (rule unsigned_less)
    then show ?thesis by simp
  qed
  finally show ?thesis by (simp add: fromGroups_def)
qed


lemma v6u16_less: "v6u16 w i < 65536"
  using word_digit [of 16 "7 - i" w] by (simp add: v6u16_def)

lemma hexGroups_chars: "(\<And>c. isHex c \<Longrightarrow> P c) \<Longrightarrow> P (CHR '':'') \<Longrightarrow> list_all P (hexGroups gs)"
proof -
  assume P: "\<And>c. isHex c \<Longrightarrow> P c" "P (CHR '':'')"
  then have "list_all P (show_base 16 g)" for g using show_hex [of g] by (auto simp: list_all_iff)
  with P have "list_all P (tailGroups gs)" for gs by (auto simp: tailGroups_def list_all_iff)
  with \<open>\<And>g. list_all P (show_base 16 g)\<close> show ?thesis by (cases gs) simp_all
qed

lemma parse6_text:
  assumes "list_all (\<lambda>g. g < 65536) gs" "length gs = 8"
  shows "(if ip6_groups gs = ''::'' then Some (replicate 8 0)
    else Option.bind (if take 2 (ip6_groups gs) = ''::'' then parse6_loop [] (Some 0) (drop 2 (ip6_groups gs)) else parse6_loop [] None (ip6_groups gs)) expand6) = Some gs"
proof -
  have hexy: "take 2 (hexGroups (g # l) @ s) \<noteq> ''::''" for g l s
    using show_hex_hd [of g "tailGroups l @ s"] by (cases "show_base 16 g @ tailGroups l @ s") (auto simp: numeral_2_eq_2)
  show ?thesis
  proof (cases rule: ip6_groups_split [OF assms(2)])
    case 1
    obtain g l where "gs = g # l" using assms(2) by (cases gs) auto
    with 1 hexy [of g l "[]"] have "take 2 (ip6_groups gs) \<noteq> ''::''" by simp
    moreover from this have "ip6_groups gs \<noteq> ''::''" by auto
    moreover have "parse6_loop [] None (ip6_groups gs) = Some (gs, None, [])"
      using 1 assms \<open>gs = g # l\<close> parse6_groups [of g l "[]" None] by simp
    ultimately show ?thesis using assms by (simp add: expand6_def)
  next
    case (2 l n r)
    have right: "parse6_loop l (Some (length l)) (hexGroups r) = Some (l @ r, Some (length l), [])" if "r \<noteq> []"
      using that 2 assms parse6_groups [of "hd r" "tl r" l "Some (length l)"] by (cases r) auto
    have nonempty: "hexGroups r = [] \<longleftrightarrow> r = []" for r by (cases r) auto
    have whole: "expand6 (l @ r, Some (length l), []) = Some gs" using 2 assms by (simp add: expand6_def)
    show ?thesis
    proof (cases l)
      case Nil
      then show ?thesis using 2 right whole assms nonempty by (cases "r = []") auto
    next
      case (Cons g l')
      then have "parse6_loop [] None (ip6_groups gs) = Some (l @ r, Some (length l), [])"
        using 2 right assms parse6_ellipsis [of g l' "[]" "hexGroups r"] nonempty by (cases "r = []") auto
      moreover have "take 2 (ip6_groups gs) \<noteq> ''::''" using 2(1) hexy [of g l' "''::'' @ hexGroups r"] Cons by simp
      ultimately show ?thesis using whole by auto
    qed
  qed
qed

lemma ip6_groups_chars: "length gs = 8 \<Longrightarrow> (\<And>c. isHex c \<Longrightarrow> P c) \<Longrightarrow> P (CHR '':'') \<Longrightarrow> list_all P (ip6_groups gs)"
  by (rule ip6_groups_split [of gs]) (auto simp: hexGroups_chars)

lemma takeWhile_stop: "c \<notin> set s \<Longrightarrow> takeWhile (\<lambda>x. x \<noteq> c) (s @ c # r) = s"
  by (induction s) auto

lemma parseIPv6_text: "parseIPv6 (textOf w z) = Some (IP6 w z)"
proof -
  define gs where "gs = List.map (v6u16 w) [0..<8]"
  define t where "t = ip6_groups gs"
  have gs: "list_all (\<lambda>g. g < 65536) gs" "length gs = 8" by (auto simp: gs_def list_all_iff v6u16_less)
  have "list_all (\<lambda>c. c \<noteq> CHR ''%'') t"
    unfolding t_def by (rule ip6_groups_chars [OF gs(2)]) (auto simp: isHex_def isDigit_def)
  then have free: "CHR ''%'' \<notin> set t" by (auto simp: list_all_iff)
  have written: "textOf w z = t @ (if z = [] then [] else CHR ''%'' # z)" by (simp add: textOf_def t_def gs_def)
  then have cut: "takeWhile (\<lambda>c. c \<noteq> CHR ''%'') (textOf w z) = t" using free takeWhile_stop [of "CHR ''%''" t z] by (auto simp: takeWhile_eq_all_conv)
  have zone: "drop (length t + 1) (textOf w z) = z" by (simp add: written)
  have percent: "CHR ''%'' \<in> set (textOf w z) \<longleftrightarrow> z \<noteq> []" using free by (auto simp: written)
  let ?parsed = "Option.bind (if take 2 t = ''::'' then parse6_loop [] (Some 0) (drop 2 t) else parse6_loop [] None t) expand6"
  have eq: "parseIPv6 (textOf w z) = (if t = ''::'' then Some (IP6 0 z) else map_option (\<lambda>gs. IP6 (fromGroups gs) z) ?parsed)"
    unfolding parseIPv6_def Let_def cut zone percent by (rule if_not_P) simp
  have word: "fromGroups gs = w" using groups_word by (simp add: gs_def)
  note parsed = parse6_text [OF gs, folded t_def]
  show ?thesis
  proof (cases "t = ''::''")
    case True
    then have "gs = replicate 8 0" using parsed by simp
    moreover have "foldl (\<lambda>a g. a * 65536 + g) 0 (replicate n 0) = (0 :: nat)" for n by (induction n) simp_all
    ultimately have "w = 0" using word unfolding fromGroups_def by simp
    with True eq show ?thesis by simp
  next
    case False
    with parsed have "?parsed = Some gs" by (simp only: if_False)
    with False eq word show ?thesis by (simp only: if_False option.map)
  qed
qed

lemma ParseAddr_ip6: "ParseAddr (textOf w z) = Some (IP6 w z)"
proof -
  let ?gs = "List.map (v6u16 w) [0..<8]"
  have gs: "length ?gs = 8" by simp
  have "\<exists>r. dropWhile (\<lambda>c. c \<notin> set ''.:%'') (textOf w z) = CHR '':'' # r"
  proof (cases rule: ip6_groups_split [OF gs])
    case 1
    obtain a b l where "?gs = a # b # l" using gs by (cases ?gs; cases "tl ?gs") auto
    then show ?thesis unfolding textOf_def 1 by (simp add: dropWhile_show [simplified])
  next
    case (2 l n r)
    then show ?thesis unfolding textOf_def 2(1) by (cases l; cases "tl l") (simp_all add: dropWhile_show [simplified])
  qed
  then show ?thesis using parseIPv6_text by (auto simp: ParseAddr_def)
qed


section \<open>Reading back what is printed\<close>

lemma indexByte_here: "c \<notin> set s \<Longrightarrow> indexByte c (s @ c # r) = Some (length s)"
  by (simp add: indexByte_def takeWhile_stop)

lemma lastIndexByte_here: "c \<notin> set p \<Longrightarrow> lastIndexByte c (s @ c # p) = Some (length s)"
  by (simp add: lastIndexByte_def takeWhile_stop)

lemma splitSlash_one: "CHR ''/'' \<notin> set e \<Longrightarrow> splitSlash e = [e]"
  by (induction e) auto

lemma splitSlash_next: "CHR ''/'' \<notin> set e \<Longrightarrow> splitSlash (e @ CHR ''/'' # s) = e # splitSlash s"
  by (induction e) auto

text \<open>An address as the package produces it: IPv4 in plain form, and a zone, on link-local IPv6 only, without the characters that separate
  addresses.\<close>

fun resolvable :: "ipaddr \<Rightarrow> bool" where
  "resolvable IPZero \<longleftrightarrow> False"
| "resolvable (IP4 v) \<longleftrightarrow> True"
| "resolvable (IP6 w z) \<longleftrightarrow> \<not> v4InV6 w \<and> (z = [] \<or> IsLinkLocalUnicast (IP6 w z)) \<and> CHR ''/'' \<notin> set z \<and> CHR ''['' \<notin> set z \<and> CHR '']'' \<notin> set z"

lemma ip_String_ip6: "\<not> v4InV6 w \<Longrightarrow> ip_String (IP6 w z) = textOf w z"
  by (simp add: textOf_def)

lemma ip_text_chars:
  assumes "resolvable ip"
  shows "list_all (\<lambda>c. c \<noteq> CHR ''/'' \<and> c \<noteq> CHR ''['' \<and> c \<noteq> CHR '']'') (ip_String ip)" "ip_String ip \<noteq> []"
    and "Is4 ip \<Longrightarrow> CHR '':'' \<notin> set (ip_String ip)"
proof -
  let ?P = "\<lambda>c. c \<noteq> CHR ''/'' \<and> c \<noteq> CHR ''['' \<and> c \<noteq> CHR '']''"
  have hex: "isHex c \<Longrightarrow> ?P c \<and> c \<noteq> CHR '':''" for c by (auto simp: isHex_def isDigit_def)
  have ten: "list_all (\<lambda>c. ?P c \<and> c \<noteq> CHR '':'') (show_base 10 n)" for n
    by (rule show_base_chars) (use hex digit_char_hex in auto)
  have groups: "list_all ?P (textOf w z)" if "CHR ''/'' \<notin> set z" "CHR ''['' \<notin> set z" "CHR '']'' \<notin> set z" for w z
  proof -
    have "list_all ?P (ip6_groups gs)" if "length gs = 8" for gs by (rule ip6_groups_chars [OF that]) (use hex in auto)
    then have "list_all ?P (ip6_groups (List.map (v6u16 w) [0..<8]))" by (simp del: upt_rec_numeral)
    then show ?thesis using that by (auto simp: textOf_def list_all_iff simp del: upt_rec_numeral)
  qed
  have long: "textOf w z \<noteq> []" for w z
  proof -
    have "ip6_groups gs \<noteq> []" if "length gs = 8" for gs
      by (rule ip6_groups_split [OF that]) (use that in \<open>cases gs; auto\<close>)+
    then show ?thesis by (simp add: textOf_def del: upt_rec_numeral)
  qed
  have four: "list_all (\<lambda>c. ?P c \<and> c \<noteq> CHR '':'') (ip4_String v)" for v using ten by (simp add: ip4_String_def)
  show "list_all ?P (ip_String ip)"
  proof (cases ip)
    case (IP4 v)
    then show ?thesis using four [of v] by (auto simp: list_all_iff)
  next
    case (IP6 w z)
    then show ?thesis using assms groups [of z w] by (simp add: ip_String_ip6 del: ip_String.simps(3))
  qed (use assms in simp)
  show "ip_String ip \<noteq> []"
    using assms long by (cases ip) (auto simp: ip4_String_def ip_String_ip6 simp del: ip_String.simps(3))
  show "CHR '':'' \<notin> set (ip_String ip)" if "Is4 ip" using that four by (cases ip) (auto simp: list_all_iff)
qed

lemma resolvable_simps:
  assumes "resolvable ip"
  shows "ParseAddr (ip_String ip) = Some ip" "normalizeResolvedAddr ip = Inr ip" "Unmap ip = ip"
    "Addr_elem ip = (if Is4 ip then ip_String ip else CHR ''['' # ip_String ip @ '']'')"
proof -
  show "ParseAddr (ip_String ip) = Some ip"
    using assms ParseAddr_ip4 ParseAddr_ip6 by (cases ip) (auto simp: ip_String_ip6 simp del: ip_String.simps(3))
  show "normalizeResolvedAddr ip = Inr ip" using assms by (cases ip) (auto simp: normalizeResolvedAddr_def)
  show "Unmap ip = ip" using assms by (cases ip) auto
  then show "Addr_elem ip = (if Is4 ip then ip_String ip else CHR ''['' # ip_String ip @ '']'')" by (simp add: Addr_elem_def Let_def)
qed

lemma unbracket_text:
  assumes "resolvable ip"
  shows "unbracketHost (Addr_elem ip) = ip_String ip" "unbracketHost (ip_String ip) = ip_String ip"
proof -
  obtain c r where c: "ip_String ip = c # r" "c \<noteq> CHR ''[''" using ip_text_chars(1,2) [OF assms] by (cases "ip_String ip") auto
  then show plain: "unbracketHost (ip_String ip) = ip_String ip" by (simp add: unbracketHost_def)
  show "unbracketHost (Addr_elem ip) = ip_String ip"
    using plain by (simp add: resolvable_simps(4) [OF assms]) (simp add: unbracketHost_def nth_append)
qed

lemma SplitHostPort_text:
  assumes "resolvable ip" "list_all isDigit port"
  shows "SplitHostPort (Addr_elem ip @ CHR '':'' # port) = Inr (ip_String ip, port)"
proof -
  have port: "CHR '':'' \<notin> set port" "CHR ''['' \<notin> set port" "CHR '']'' \<notin> set port"
    using assms(2) by (auto simp: list_all_iff isDigit_def)
  note chars = ip_text_chars [OF assms(1)]
  show ?thesis
  proof (cases "Is4 ip")
    case True
    obtain c r where c: "ip_String ip = c # r" using chars(2) by (cases "ip_String ip") auto
    have "splitBrackets (ip_String ip @ CHR '':'' # port) (length (ip_String ip)) = Inr (ip_String ip, 0, 0)"
      using chars(1) chars(3) [OF True] c by (simp add: splitBrackets_def)
    then show ?thesis
      using True chars(1) port by (auto simp: SplitHostPort_def lastIndexByte_here resolvable_simps(4) [OF assms(1)] list_all_iff)
  next
    case False
    let ?t = "ip_String ip"
    let ?hp = "CHR ''['' # ?t @ CHR '']'' # CHR '':'' # port"
    have "indexByte (CHR '']'') ?hp = Some (length ?t + 1)"
      using indexByte_here [of "CHR '']''" "CHR ''['' # ?t" "CHR '':'' # port"] chars(1) by (auto simp: list_all_iff)
    then have "splitBrackets ?hp (length ?t + 2) = Inr (?t, 1, length ?t + 2)" by (simp add: splitBrackets_def)
    moreover have "lastIndexByte (CHR '':'') ?hp = Some (length ?t + 2)"
      using lastIndexByte_here [of "CHR '':''" port "CHR ''['' # ?t @ '']''"] port by simp
    ultimately show ?thesis
      using False chars(1) port by (auto simp: SplitHostPort_def resolvable_simps(4) [OF assms(1)] list_all_iff)
  qed
qed


text \<open>The text of a list of addresses: its elements, separated, the last with the port.\<close>

fun joined :: "string list \<Rightarrow> string" where
  "joined [] = []"
| "joined [e] = e"
| "joined (e # es) = e @ CHR ''/'' # joined es"

lemma joined_concat: "concat (List.map (\<lambda>(i, e). (if i > 0 then ''/'' else []) @ f e) (enumerate 0 xs)) = joined (List.map f xs)"
proof -
  have tail: "0 < n \<Longrightarrow> concat (List.map (\<lambda>(i, e). (if i > 0 then ''/'' else []) @ f e) (enumerate n xs)) = concat (List.map (\<lambda>e. ''/'' @ f e) xs)" for n xs
    by (induction xs arbitrary: n) simp_all
  have "joined (List.map f (x # xs)) = f x @ concat (List.map (\<lambda>e. ''/'' @ f e) xs)" for x xs
    by (induction xs arbitrary: x) simp_all
  with tail show ?thesis by (cases xs) simp_all
qed

lemma elem_chars: "resolvable ip \<Longrightarrow> CHR ''/'' \<notin> set (Addr_elem ip)"
  using ip_text_chars(1) [of ip] by (auto simp: resolvable_simps(4) list_all_iff)

lemma split_text:
  "ips \<noteq> [] \<Longrightarrow> list_all resolvable ips \<Longrightarrow> CHR ''/'' \<notin> set port \<Longrightarrow>
     splitSlash (joined (List.map Addr_elem ips) @ CHR '':'' # port) = List.map Addr_elem (butlast ips) @ [Addr_elem (last ips) @ CHR '':'' # port]"
proof (induction ips rule: induct_list012)
  case (2 ip)
  then show ?case using elem_chars [of ip] by (auto intro!: splitSlash_one)
next
  case (3 ip ip' ips)
  then show ?case using elem_chars [of ip] splitSlash_next by simp
qed simp

lemma resolve_text:
  assumes "list_all resolvable ips" "network \<noteq> ''sctp4'' \<or> list_all Is4 ips" "resolvable ip" "network \<noteq> ''sctp4'' \<or> Is4 ip"
  shows "resolve_elems R network (ip_String ip) (List.map Addr_elem ips @ [e]) k = (Inr (ips @ [ip]), k)"
proof -
  have host: "resolveHost R network (ip_String x) k = (Inr x, k)" if "resolvable x" for x k
    using resolvable_simps(1,2) [OF that] by (simp add: resolveHost_def)
  show ?thesis
    using assms(1,2)
  proof (induction ips)
    case Nil
    then show ?case
      using host [OF assms(3)] unbracket_text(2) [OF assms(3)] ip_text_chars(2) [OF assms(3)] assms(4) resolvable_simps(3) [OF assms(3)]
      by (simp add: Let_def)
  next
    case (Cons x ips)
    then have x: "resolvable x" by simp
    show ?case
      using Cons host [OF x] unbracket_text(1) [OF x] ip_text_chars(2) [OF x] resolvable_simps(3) [OF x]
      by (auto simp: Let_def)
  qed
qed

text \<open>C31: what an Addr prints, ResolveAddr reads back. For addresses as the package produces them, in any number, wildcard included, the
  text of an Addr resolves to the same Addr, its zones too, without a lookup and without looking at the context.\<close>

theorem String_resolves:
  assumes "network \<in> {[], ''sctp'', ''sctp4'', ''sctp6''}" "list_all resolvable (ad_IPs a)" "network = ''sctp4'' \<longrightarrow> list_all Is4 (ad_IPs a)"
  shows "ResolveAddrContext R True network (Addr_String (Some a)) k = (Inr a, k)"
proof -
  let ?port = "show_base 10 (unat (ad_Port a))"
  have digits: "list_all isDigit ?port" by (rule show_base_chars) (simp_all add: digit_char_digit)
  then have port: "CHR ''/'' \<notin> set ?port" "CHR '':'' \<notin> set ?port" "CHR ''['' \<notin> set ?port" "CHR '']'' \<notin> set ?port"
    by (auto simp: list_all_iff isDigit_def)
  have str: "Addr_String (Some a) = joined (List.map Addr_elem (ad_IPs a)) @ CHR '':'' # ?port"
    using joined_concat [of Addr_elem "ad_IPs a"] by simp
  obtain f0 where f0: "canonicalNetwork network [] = Inr f0" using assms(1) by (auto simp: canonicalNetwork_def)
  have all4: "list_all (\<lambda>ip. Is4 (Unmap ip)) ips" if "list_all resolvable ips" "list_all Is4 ips" for ips
    using that resolvable_simps(3) by (auto simp: list_all_iff)
  have "canonicalNetwork network (ad_IPs a) \<noteq> Inl e" for e
    using assms all4 [of "ad_IPs a"] by (auto simp: canonicalNetwork_def list_all_iff list_ex_iff split: if_splits)
  then obtain f1 where f1: "canonicalNetwork network (ad_IPs a) = Inr f1" by (cases "canonicalNetwork network (ad_IPs a)") auto
  show ?thesis
  proof (cases "ad_IPs a = []")
    case True
    have "splitSlash (CHR '':'' # ?port) = [CHR '':'' # ?port]" using port by (intro splitSlash_one) auto
    moreover have "SplitHostPort (CHR '':'' # ?port) = Inr ([], ?port)"
      using lastIndexByte_here [of "CHR '':''" ?port "[]"] port by (simp add: SplitHostPort_def splitBrackets_def)
    ultimately show ?thesis
      using True f0 str ParseUint16_show [of "ad_Port a"] by (simp add: ResolveAddrContext_def Let_def)
  next
    case False
    let ?l = "last (ad_IPs a)" and ?b = "butlast (ad_IPs a)"
    have ips: "ad_IPs a = ?b @ [?l]" using False by simp
    have res: "list_all resolvable ?b" "resolvable ?l" "network \<noteq> ''sctp4'' \<or> list_all Is4 ?b" "network \<noteq> ''sctp4'' \<or> Is4 ?l"
      using assms(2,3) False by (auto simp: list_all_iff dest: in_set_butlastD)
    have "splitSlash (Addr_String (Some a)) = List.map Addr_elem ?b @ [Addr_elem ?l @ CHR '':'' # ?port]"
      using split_text [OF False assms(2) port(1)] str by simp
    moreover have "resolve_elems R network (ip_String ?l) (List.map Addr_elem ?b @ [Addr_elem ?l @ CHR '':'' # ?port]) k = (Inr (ad_IPs a), k)"
      using resolve_text [OF res(1,3,2,4)] False by simp
    ultimately show ?thesis
      using f0 f1 SplitHostPort_text [OF res(2) digits] ParseUint16_show [of "ad_Port a"] ip_text_chars(2) [OF res(2)]
      by (simp add: ResolveAddrContext_def Let_def)
  qed
qed


section \<open>What a resolved address looks like, and when a host is looked up\<close>

lemma normalized_fixed: "normalizeResolvedAddr ip = Inr x \<Longrightarrow> normalizeResolvedAddr x = Inr x"
  by (cases ip) (auto simp: normalizeResolvedAddr_def split: if_splits)

lemma Is4_normalized: "normalizeResolvedAddr ip = Inr ip \<Longrightarrow> Is4 (Unmap ip) \<Longrightarrow> Is4 ip"
  by (cases ip) (auto simp: normalizeResolvedAddr_def split: if_splits)

lemma resolveHost_normalized: "resolveHost R network host k = (Inr ip, k') \<Longrightarrow> normalizeResolvedAddr ip = Inr ip"
  by (auto simp: resolveHost_def pickAddr_def split: option.splits prod.splits sum.splits if_splits intro: normalized_fixed)

lemma resolve_elems_normalized:
  "resolve_elems R network lastHost es k = (Inr ips, k') \<Longrightarrow>
   list_all (\<lambda>ip. normalizeResolvedAddr ip = Inr ip \<and> (network = ''sctp4'' \<longrightarrow> Is4 ip)) ips"
proof (induction es arbitrary: k ips)
  case (Cons e es)
  then show ?case
    by (fastforce simp: Let_def split: prod.splits sum.splits if_splits dest: resolveHost_normalized Is4_normalized)
qed simp

text \<open>Every address ResolveAddr returns is in plain form: it is not an IPv4-mapped IPv6 address, only a link-local one has a zone, and
  under sctp4 it is an IPv4 address.\<close>

lemma resolved_plain:
  assumes "ResolveAddrContext R c network address k = (Inr a, k')"
  shows "list_all (\<lambda>ip. \<not> Is4In6 ip \<and> (Zone ip \<noteq> [] \<longrightarrow> IsLinkLocalUnicast ip) \<and> (network = ''sctp4'' \<longrightarrow> Is4 ip)) (ad_IPs a)"
proof -
  have plain: "\<not> Is4In6 ip \<and> (Zone ip \<noteq> [] \<longrightarrow> IsLinkLocalUnicast ip)" if "normalizeResolvedAddr ip = Inr ip" for ip
    using that by (cases ip) (auto simp: normalizeResolvedAddr_def split: if_splits)
  have "list_all (\<lambda>ip. normalizeResolvedAddr ip = Inr ip \<and> (network = ''sctp4'' \<longrightarrow> Is4 ip)) (ad_IPs a)"
    using assms unfolding ResolveAddrContext_def Let_def
    by (auto split: if_splits sum.splits prod.splits option.splits dest!: resolve_elems_normalized)
  then show ?thesis using plain by (auto simp: list_all_iff)
qed

text \<open>A context that is already done starts no lookup: the answer is the same whatever the resolver would have said.\<close>

lemma done_context_no_lookup:
  assumes "\<And>k. v_ctx R k = (Some e, k)"
  shows "ResolveAddrContext (R\<lparr>v_lookup := f\<rparr>) c network address k = ResolveAddrContext R c network address k"
proof -
  have host: "resolveHost (R\<lparr>v_lookup := f\<rparr>) network host k = resolveHost R network host k" for host k
    using assms by (simp add: resolveHost_def split: option.splits)
  have "resolve_elems (R\<lparr>v_lookup := f\<rparr>) network lastHost es k = resolve_elems R network lastHost es k" for lastHost es k
    by (induction es arbitrary: k) (simp_all only: resolve_elems.simps host)
  then show ?thesis unfolding ResolveAddrContext_def by presburger
qed

text \<open>A resolver that knows no host, and two addresses of one host.\<close>

definition noHosts :: "unit resolver" where
  "noHosts = \<lparr>v_ctx = (\<lambda>k. (None, k)), v_lookup = (\<lambda>k family host. (Inl (TextErr ''no such host''), k))\<rparr>"

definition twoHomes :: Addr where
  "twoHomes = \<lparr>ad_IPs = [IP4 0x0A000001, IP6 0xFE800000000000000000000000000001 ''eth0''], ad_Port = 3868\<rparr>"

theorem String_resolves_witness:
  "ResolveAddrContext noHosts True ''sctp'' ''10.0.0.1/[fe80::1%eth0]:3868'' () = (Inr twoHomes, ())"
proof -
  have oct: "octet v i = unat v div 256 ^ (3 - i) mod 256" for v i using word_digit [of 8 "3 - i" v] by (simp add: octet_def)
  have grp: "v6u16 w i = unat w div 65536 ^ (7 - i) mod 65536" for w i using word_digit [of 16 "7 - i" w] by (simp add: v6u16_def)
  have dig: "digit_char 0 = CHR ''0''" "digit_char (Suc 0) = CHR ''1''" "digit_char 3 = CHR ''3''" "digit_char 6 = CHR ''6''"
    "digit_char 8 = CHR ''8''" "digit_char 14 = CHR ''e''" "digit_char 15 = CHR ''f''"
    by code_simp+
  have ll: "drop_bit 118 (0xFE800000000000000000000000000001 :: 128 word) = 0x3fa" "\<not> v4InV6 0xFE800000000000000000000000000001"
    unfolding v4InV6_def by code_simp+
  have "List.map (v6u16 0xFE800000000000000000000000000001) [0..<8] = [0xFE80, 0, 0, 0, 0, 0, 0, 1]" by (simp add: grp upt_rec)
  moreover have "zeroRun 0 [0xFE80, 0, 0, 0, 0, 0, 0, 1] (255, 255) = (1, 7)" by (simp add: zerosFrom_def)
  then have "ip6_groups [0xFE80, 0, 0, 0, 0, 0, 0, 1] = ''fe80::1''" by (simp only: ip6_groups_def) (simp add: show_base.simps dig)
  ultimately have "ip_String (IP6 0xFE800000000000000000000000000001 ''eth0'') = ''fe80::1%eth0''"
    using ll(2) by (simp only: ip_String.simps if_False) simp
  moreover have "ip_String (IP4 0x0A000001) = ''10.0.0.1''" by (simp add: ip4_String_def oct show_base.simps dig)
  ultimately have "Addr_String (Some twoHomes) = ''10.0.0.1/[fe80::1%eth0]:3868''"
    using ll by (simp add: twoHomes_def Addr_elem_def show_base.simps dig del: ip_String.simps)
  moreover have "list_all resolvable (ad_IPs twoHomes)" using ll by (simp add: twoHomes_def)
  ultimately show ?thesis using String_resolves [of "''sctp''" twoHomes noHosts "()"] by simp
qed

end
