(* ===== verification/Platforms.thy ===== *)
theory Platforms
  imports Endpoints DialProps ConfigProps
begin

text \<open>
  The thin parts around the descriptor: the raw access a \<open>syscall.RawConn\<close> gives (\<open>Conn.SyscallConn\<close>, \<open>Listener.SyscallConn\<close>,
  \<open>Endpoint.SyscallConn\<close> and the one \<open>Config.Control\<close> receives), the deadline methods, the snapshots a Conn reports, the reading of the
  interface table, the constructors with a zero Config, and the constructors of the platforms that are not Linux (\<open>unsupported.go\<close>).
\<close>

unbundle bit_operations_syntax

section \<open>Raw access\<close>

text \<open>\<open>raw\<close> is the descriptor's own call with the caller's callback: the state it leaves and the error it returns. The receive and
  send locks are held around it.\<close>

definition Conn_SyscallConn :: "netConn \<Rightarrow> goerr option" where
  "Conn_SyscallConn c =
     (if c_life c = lifeClosed then opError (c_captured c) ''syscallconn'' (c_network c) None (c_laddr c) (Some NetErrClosed) else None)"

definition connRaw_Control :: "('k \<Rightarrow> goerr option \<times> 'k) \<Rightarrow> netConn \<Rightarrow> ('k, unit) io" where
  "connRaw_Control raw c = io_wrap (opError (c_captured c) ''raw-control'' (c_network c) None (c_laddr c)) (io_call raw)"

definition connRaw_Read :: "('k \<Rightarrow> goerr option \<times> 'k) \<Rightarrow> netConn \<Rightarrow> ('k, unit) io" where
  "connRaw_Read raw c = io_wrap (opError (c_captured c) ''raw-read'' (c_network c) (c_laddr c) (c_raddr c)) (io_call raw)"

definition connRaw_Write :: "('k \<Rightarrow> goerr option \<times> 'k) \<Rightarrow> netConn \<Rightarrow> ('k, unit) io" where
  "connRaw_Write raw c = io_wrap (opError (c_captured c) ''raw-write'' (c_network c) (c_laddr c) (c_raddr c)) (io_call raw)"

definition Endpoint_SyscallConn :: "Endpoint \<Rightarrow> goerr option" where
  "Endpoint_SyscallConn e =
     (if Endpoint_opened e then None
      else opError (e_captured e) ''syscallconn'' (Endpoint_network e) None (Endpoint_Addr e) (Some NetErrClosed))"

definition endpointRaw_Control :: "('k \<Rightarrow> goerr option \<times> 'k) \<Rightarrow> Endpoint \<Rightarrow> ('k, unit) io" where
  "endpointRaw_Control raw e = io_wrap (opError (e_captured e) ''raw-control'' (Endpoint_network e) None (Endpoint_Addr e)) (io_call raw)"

definition endpointRaw_Read :: "('k \<Rightarrow> goerr option \<times> 'k) \<Rightarrow> Endpoint \<Rightarrow> ('k, unit) io" where
  "endpointRaw_Read raw e = io_wrap (opError (e_captured e) ''raw-read'' (Endpoint_network e) (Endpoint_Addr e) None) (io_call raw)"

definition endpointRaw_Write :: "('k \<Rightarrow> goerr option \<times> 'k) \<Rightarrow> Endpoint \<Rightarrow> ('k, unit) io" where
  "endpointRaw_Write raw e = io_wrap (opError (e_captured e) ''raw-write'' (Endpoint_network e) (Endpoint_Addr e) None) (io_call raw)"

text \<open>No Listener is a nil or a zero one. Its raw connection, and the one \<open>Config.Control\<close> is given, only reach the descriptor through \<open>Control\<close>.\<close>

definition Listener_SyscallConn :: "bool \<Rightarrow> Listener option \<Rightarrow> goerr option" where
  "Listener_SyscallConn captured l = (if l = None then opError captured ''syscallconn'' ''sctp'' None None (Some NetErrClosed) else None)"

definition listenerRaw_Control :: "bool \<Rightarrow> ('k \<Rightarrow> goerr option \<times> 'k) \<Rightarrow> Listener \<Rightarrow> ('k, unit) io" where
  "listenerRaw_Control captured raw l = io_wrap (opError captured ''raw-control'' (Listener_network l) None (Listener_Addr l)) (io_call raw)"

definition listenerRaw_ReadWrite :: "('k, unit) io" where
  "listenerRaw_ReadWrite = io_err (Some (Errno EINVAL))"

definition setupRaw_Control :: "('k \<Rightarrow> goerr option \<times> 'k) \<Rightarrow> ('k, unit) io" where
  "setupRaw_Control raw = io_call raw"

definition setupRaw_ReadWrite :: "('k, unit) io" where
  "setupRaw_ReadWrite = io_err (Some (Errno EINVAL))"

text \<open>Once the descriptor has been released, its raw calls answer with one of the errors of a closed file, and so every raw call of the
  package reports an error that matches \<open>net.ErrClosed\<close>, without running the callback.\<close>

lemma closed_opError:
  "x \<in> {NetErrClosed, OsErrClosed, ErrFileClosing} \<Longrightarrow> isAn (opError captured op network source addr (Some x)) NetErrClosed"
  by (auto simp: opError_def isClosedErr_def isFileClosingErr_def isAn_def)

lemma raw_released:
  assumes "raw k = (Some x, k)" "x \<in> {NetErrClosed, OsErrClosed, ErrFileClosing}"
    and "m \<in> {connRaw_Control raw c, connRaw_Read raw c, connRaw_Write raw c, endpointRaw_Control raw e, endpointRaw_Read raw e,
      endpointRaw_Write raw e, listenerRaw_Control captured raw l}"
  shows "\<exists>err. m k = Some (Inl err, k) \<and> isAn err NetErrClosed"
  using assms closed_opError [OF assms(2)]
  by (auto simp: connRaw_Control_def connRaw_Read_def connRaw_Write_def endpointRaw_Control_def endpointRaw_Read_def endpointRaw_Write_def
      listenerRaw_Control_def io_wrap_def io_call_def)

section \<open>Deadlines, snapshots and the interface table\<close>

definition Conn_SetDeadline :: "int \<Rightarrow> goerr option \<Rightarrow> int option \<Rightarrow> netConn \<Rightarrow> goerr option \<times> netConn" where
  "Conn_SetDeadline now err t c = Conn_setDeadline now err t ModeBoth c"

definition Conn_SetReadDeadline :: "int \<Rightarrow> goerr option \<Rightarrow> int option \<Rightarrow> netConn \<Rightarrow> goerr option \<times> netConn" where
  "Conn_SetReadDeadline now err t c = Conn_setDeadline now err t ModeRead c"

definition Conn_SetWriteDeadline :: "int \<Rightarrow> goerr option \<Rightarrow> int option \<Rightarrow> netConn \<Rightarrow> goerr option \<times> netConn" where
  "Conn_SetWriteDeadline now err t c = Conn_setDeadline now err t ModeWrite c"

definition Endpoint_SetDeadline :: "int \<Rightarrow> goerr option \<Rightarrow> int option \<Rightarrow> Endpoint \<Rightarrow> goerr option \<times> Endpoint" where
  "Endpoint_SetDeadline now err t e = Endpoint_setDeadline now err t ModeBoth e"

definition Endpoint_SetReadDeadline :: "int \<Rightarrow> goerr option \<Rightarrow> int option \<Rightarrow> Endpoint \<Rightarrow> goerr option \<times> Endpoint" where
  "Endpoint_SetReadDeadline now err t e = Endpoint_setDeadline now err t ModeRead e"

definition Endpoint_SetWriteDeadline :: "int \<Rightarrow> goerr option \<Rightarrow> int option \<Rightarrow> Endpoint \<Rightarrow> goerr option \<times> Endpoint" where
  "Endpoint_SetWriteDeadline now err t e = Endpoint_setDeadline now err t ModeWrite e"

definition Conn_AssocID :: "netConn option \<Rightarrow> AssocID" where
  "Conn_AssocID c = (case c of None \<Rightarrow> 0 | Some x \<Rightarrow> c_assoc x)"

definition Conn_LocalAddr :: "netConn option \<Rightarrow> netaddr" where
  "Conn_LocalAddr c = (case c of None \<Rightarrow> None | Some x \<Rightarrow> netAddr (n_laddr x))"

definition Conn_RemoteAddr :: "netConn option \<Rightarrow> netaddr" where
  "Conn_RemoteAddr c = (case c of None \<Rightarrow> None | Some x \<Rightarrow> netAddr (n_raddr x))"

text \<open>\<open>netip.AddrFromSlice\<close>, and the interface table: the index of each interface with its addresses, \<open>None\<close> where \<open>Addrs\<close> fails; an
  address that is no \<open>*net.IPNet\<close> is \<open>None\<close>.\<close>

definition AddrFromSlice :: "bytes \<Rightarrow> ipaddr option" where
  "AddrFromSlice b =
     (if length b = 4 then Some (IP4 (dec_int BigEndian b))
      else if length b = 16 then Some (IP6 (dec_int BigEndian b) [])
      else None)"

type_synonym ifaceTable = "(u32 \<times> bytes option list option) list"

definition hold :: "u32 \<Rightarrow> bytes option \<Rightarrow> (ipaddr \<Rightarrow> u32 list) \<Rightarrow> ipaddr \<Rightarrow> u32 list" where
  "hold idx a holders =
     (case Option.bind a AddrFromSlice of
        None \<Rightarrow> holders
      | Some held \<Rightarrow> holders(Unmap held := holders (Unmap held) @ [idx]))"

fun hold_iface :: "u32 \<times> bytes option list option \<Rightarrow> (ipaddr \<Rightarrow> u32 list) \<Rightarrow> ipaddr \<Rightarrow> u32 list" where
  "hold_iface (idx, None) holders = holders"
| "hold_iface (idx, Some addrs) holders = fold (hold idx) addrs holders"

definition holdersOf :: "ifaceTable \<Rightarrow> ipaddr \<Rightarrow> u32 list" where
  "holdersOf ifs = fold hold_iface ifs (\<lambda>_. [])"

text \<open>\<open>interfaceHolders\<close>; \<open>ifs\<close> is what \<open>net.Interfaces\<close> answers, \<open>None\<close> for its error.\<close>

definition interfaceHolders :: "ifaceTable option \<Rightarrow> ipaddr \<Rightarrow> u32 list" where
  "interfaceHolders ifs ip = (case ifs of None \<Rightarrow> [] | Some t \<Rightarrow> holdersOf t (WithZone ip []))"

lemma hold_mem: "i \<in> set (hold idx a h ip) \<longleftrightarrow> i \<in> set (h ip) \<or> i = idx \<and> (\<exists>x. Option.bind a AddrFromSlice = Some x \<and> Unmap x = ip)"
  by (auto simp: hold_def split: option.split)

lemma hold_fold: "i \<in> set (fold (hold idx) as h ip) \<longleftrightarrow>
    i \<in> set (h ip) \<or> i = idx \<and> (\<exists>a x. a \<in> set as \<and> Option.bind a AddrFromSlice = Some x \<and> Unmap x = ip)"
  by (induction as arbitrary: h) (auto simp: hold_mem)

lemma holdersOf_fold: "i \<in> set (fold hold_iface ifs h ip) \<longleftrightarrow>
    i \<in> set (h ip) \<or> (\<exists>as a x. (i, Some as) \<in> set ifs \<and> a \<in> set as \<and> Option.bind a AddrFromSlice = Some x \<and> Unmap x = ip)"
proof (induction ifs arbitrary: h)
  case (Cons p ifs)
  obtain idx addrs where p: "p = (idx, addrs)" by (cases p)
  have "i \<in> set (hold_iface p h ip) \<longleftrightarrow>
      i \<in> set (h ip) \<or> (\<exists>as a x. (i, Some as) = p \<and> a \<in> set as \<and> Option.bind a AddrFromSlice = Some x \<and> Unmap x = ip)"
    by (cases addrs) (auto simp: p hold_fold)
  then show ?case unfolding fold_simps comp_apply Cons.IH by (metis list.set_intros set_ConsD)
qed simp

text \<open>The interfaces reported for an address are those with an entry that is the address, in either form of an IPv4 address and
  whatever its zone; one whose addresses cannot be read is passed over.\<close>

lemma interfaceHolders_owners:
  "set (interfaceHolders (Some ifs) ip) =
     {i. \<exists>as a x. (i, Some as) \<in> set ifs \<and> a \<in> set as \<and> Option.bind a AddrFromSlice = Some x \<and> Unmap x = WithZone ip []}"
  using holdersOf_fold [of _ ifs "\<lambda>_. []" "WithZone ip []"] by (auto simp: interfaceHolders_def holdersOf_def)

section \<open>Constructors\<close>

text \<open>With a zero Config: \<open>Dial\<close>, \<open>Listen\<close>, \<open>FileConn\<close>, \<open>FileListener\<close>, \<open>ListenEndpoint\<close> and \<open>OpenEndpoint\<close> of the package.\<close>

definition sctp_Dial ::
  "target \<Rightarrow> hostEnv \<Rightarrow> 'k net \<Rightarrow> recvState \<Rightarrow> bool \<Rightarrow> bool \<Rightarrow> bool \<Rightarrow> string \<Rightarrow> Addr option \<Rightarrow> Addr option \<Rightarrow> ('k, netConn) io" where
  "sctp_Dial T H N r captured noIPv6 hasCtx network laddr raddr = Dial T H N r captured noIPv6 None None hasCtx network laddr raddr"

definition sctp_Listen :: "target \<Rightarrow> hostEnv \<Rightarrow> 'k net \<Rightarrow> bool \<Rightarrow> bool \<Rightarrow> string \<Rightarrow> Addr option \<Rightarrow> ('k, Listener) io" where
  "sctp_Listen T H L captured noIPv6 network laddr = Listen T H L captured noIPv6 None None network laddr"

definition sctp_FileConn :: "target \<Rightarrow> hostEnv \<Rightarrow> 'k net \<Rightarrow> recvState \<Rightarrow> bool \<Rightarrow> bool \<Rightarrow> ('k, netConn) io" where
  "sctp_FileConn T H N r captured hasFile = FileConn T H N r captured None hasFile"

definition sctp_FileListener :: "target \<Rightarrow> hostEnv \<Rightarrow> 'k net \<Rightarrow> bool \<Rightarrow> bool \<Rightarrow> ('k, Listener) io" where
  "sctp_FileListener T H L captured hasFile = FileListener T H L captured None hasFile"

definition sctp_ListenEndpoint ::
  "target \<Rightarrow> hostEnv \<Rightarrow> 'k net \<Rightarrow> recvState \<Rightarrow> bool \<Rightarrow> bool \<Rightarrow> string \<Rightarrow> Addr option \<Rightarrow> ('k, Endpoint) io" where
  "sctp_ListenEndpoint T H L r captured noIPv6 network laddr = ListenEndpoint T H L r captured noIPv6 None None network laddr"

definition sctp_OpenEndpoint ::
  "target \<Rightarrow> hostEnv \<Rightarrow> 'k net \<Rightarrow> recvState \<Rightarrow> bool \<Rightarrow> bool \<Rightarrow> string \<Rightarrow> Addr option \<Rightarrow> ('k, Endpoint) io" where
  "sctp_OpenEndpoint T H L r captured noIPv6 network laddr = OpenEndpoint T H L r captured noIPv6 None None network laddr"

text \<open>The constructors where SCTP is not supported (\<open>unsupported.go\<close>). They never succeed: the result is the error, \<open>None\<close> outside it
  a panic.\<close>

definition Dial_elsewhere :: "target \<Rightarrow> bool \<Rightarrow> Config option \<Rightarrow> string \<Rightarrow> Addr option \<Rightarrow> Addr option \<Rightarrow> goerr option option" where
  "Dial_elsewhere T captured cfg network laddr raddr =
     (case prepare T cfg styleDial of
        None \<Rightarrow> None
      | Some (Inl err) \<Rightarrow> Some (opError captured ''dial'' (canonicalName network) (netAddr laddr) (netAddr raddr) (Some err))
      | Some (Inr _) \<Rightarrow> Some (opError captured ''dial'' (canonicalName network) (netAddr laddr) (netAddr raddr) (Some ErrUnsupported)))"

definition Listen_elsewhere :: "target \<Rightarrow> bool \<Rightarrow> Config option \<Rightarrow> string \<Rightarrow> Addr option \<Rightarrow> goerr option option" where
  "Listen_elsewhere T captured cfg network laddr =
     (case prepare T cfg styleListen of
        None \<Rightarrow> None
      | Some (Inl err) \<Rightarrow> Some (opError captured ''listen'' (canonicalName network) None (netAddr laddr) (Some err))
      | Some (Inr _) \<Rightarrow> Some (opError captured ''listen'' (canonicalName network) None (netAddr laddr) (Some ErrUnsupported)))"

definition FileConn_elsewhere :: "target \<Rightarrow> bool \<Rightarrow> Config option \<Rightarrow> goerr option option" where
  "FileConn_elsewhere T captured cfg =
     (case prepare T cfg styleFile of
        None \<Rightarrow> None
      | Some (Inl err) \<Rightarrow> Some (opError captured ''file'' ''sctp'' None None (Some err))
      | Some (Inr _) \<Rightarrow> Some (opError captured ''file'' ''sctp'' None None (Some ErrUnsupported)))"

definition FileListener_elsewhere :: "target \<Rightarrow> bool \<Rightarrow> Config option \<Rightarrow> goerr option option" where
  "FileListener_elsewhere T captured cfg =
     (case prepare T cfg styleFile of
        None \<Rightarrow> None
      | Some (Inl err) \<Rightarrow> Some (opError captured ''file'' ''sctp'' None None (Some err))
      | Some (Inr _) \<Rightarrow> Some (opError captured ''file'' ''sctp'' None None (Some ErrUnsupported)))"

definition ListenEndpoint_elsewhere :: "target \<Rightarrow> bool \<Rightarrow> Config option \<Rightarrow> string \<Rightarrow> Addr option \<Rightarrow> goerr option option" where
  "ListenEndpoint_elsewhere T captured cfg network laddr =
     (case prepare T cfg styleListenEndpoint of
        None \<Rightarrow> None
      | Some (Inl err) \<Rightarrow> Some (opError captured ''listen'' (canonicalName network) None (netAddr laddr) (Some err))
      | Some (Inr _) \<Rightarrow> Some (opError captured ''listen'' (canonicalName network) None (netAddr laddr) (Some ErrUnsupported)))"

definition OpenEndpoint_elsewhere :: "target \<Rightarrow> bool \<Rightarrow> Config option \<Rightarrow> string \<Rightarrow> Addr option \<Rightarrow> goerr option option" where
  "OpenEndpoint_elsewhere T captured cfg network laddr =
     (case prepare T cfg styleOpenEndpoint of
        None \<Rightarrow> None
      | Some (Inl err) \<Rightarrow> Some (opError captured ''listen'' (canonicalName network) None (netAddr laddr) (Some err))
      | Some (Inr _) \<Rightarrow> Some (opError captured ''listen'' (canonicalName network) None (netAddr laddr) (Some ErrUnsupported)))"

section \<open>Platforms fail alike\<close>

text \<open>The same error, or two of the same operation, network and addresses whose causes both match \<open>ErrUnsupported\<close>.\<close>

definition alike :: "goerr option \<Rightarrow> goerr option \<Rightarrow> bool" where
  "alike x y \<longleftrightarrow> x = y \<or> (\<exists>op n s a e e'. x = Some (OpError op n s a e) \<and> y = Some (OpError op n s a e') \<and>
     errIs e ErrUnsupported \<and> errIs e' ErrUnsupported)"

definition noSCTP :: "'k net \<Rightarrow> bool" where
  "noSCTP N \<longleftrightarrow> (\<forall>k family. n_socket N k family = (Some EPROTONOSUPPORT, k) \<or> n_socket N k family = (Some ESOCKTNOSUPPORT, k))"

lemma openSocket_noSCTP:
  assumes "noSCTP N"
  obtains e where "openSocket N family k = Some (Inl (Some (UnsupportedErr e)), k)"
proof -
  from assms have "n_socket N k family = (Some EPROTONOSUPPORT, k) \<or> n_socket N k family = (Some ESOCKTNOSUPPORT, k)"
    by (auto simp: noSCTP_def)
  then have "\<exists>e. openSocket N family k = Some (Inl (Some (UnsupportedErr e)), k)"
    by (auto simp: openSocket_def io_bind_def socketError_def unsupportedErr_def)
  then show thesis using that by blast
qed

lemma alike_unsupported:
  "alike (opError captured op network source addr (Some (UnsupportedErr e))) (opError captured op network source addr (Some ErrUnsupported))"
  by (simp add: alike_def opError_def isClosedErr_def isFileClosingErr_def)

lemma alike_refl [simp]: "alike x x" by (simp add: alike_def)

lemma prepare_returns: obtains r where "prepare T co style = Some r"
proof -
  have "\<exists>r. prepare T co style = Some r"
  proof (cases "style = styleFile")
    case True
    then show ?thesis by (auto simp: prepare_def Let_def resolveCloseTimeout_def prepareFileStyle_def split: option.split sum.split)
  next
    case False
    have "\<exists>d. dialFields (config_of co) style = Some d" by (simp add: dialFields_def)
    then obtain d where d: "dialFields (config_of co) style = Some d" by blast
    have g: "good (refusal (config_of co)) 0 23 (collect (blocks T (config_of co) style (fragLevelOf (config_of co) style)))" by (rule collect_blocks)
    show ?thesis unfolding prepare_cases [OF False] using d g
      by (auto simp: andThen_def good_def resolveCloseTimeout_def split: option.splits sum.splits)
  qed
  then show thesis using that by blast
qed

text \<open>The arguments a constructor checks besides the Config: the network and the local address, and for \<open>Dial\<close> the peer's.\<close>

definition bindable :: "target \<Rightarrow> hostEnv \<Rightarrow> bool \<Rightarrow> string \<Rightarrow> Addr option \<Rightarrow> Addr option \<Rightarrow> bool" where
  "bindable T H noIPv6 network laddr raddr \<longleftrightarrow>
     (case socketFamily noIPv6 network laddr raddr of
        Inl _ \<Rightarrow> False
      | Inr family \<Rightarrow>
          (case laddr of
             None \<Rightarrow> True
           | Some la \<Rightarrow> (case localBindAddrs T (h_zi H) family la of Some (Inr _) \<Rightarrow> True | _ \<Rightarrow> False)))"

definition dialable :: "target \<Rightarrow> hostEnv \<Rightarrow> bool \<Rightarrow> string \<Rightarrow> Addr option \<Rightarrow> Addr \<Rightarrow> bool" where
  "dialable T H noIPv6 network laddr ra \<longleftrightarrow> bindable T H noIPv6 network laddr (Some ra) \<and> ad_IPs ra \<noteq> [] \<and> ad_Port ra \<noteq> 0 \<and>
     (case socketFamily noIPv6 network laddr (Some ra) of
        Inl _ \<Rightarrow> False
      | Inr family \<Rightarrow> (case encodeAddrs T (h_zi H) family (ad_IPs ra) (ad_Port ra) of Some (Inr _) \<Rightarrow> True | _ \<Rightarrow> False))"

definition fails_alike :: "((goerr option + 'a) \<times> 'k) option \<Rightarrow> 'k \<Rightarrow> goerr option option \<Rightarrow> bool" where
  "fails_alike r k y \<longleftrightarrow> (\<exists>x e. r = Some (Inl x, k) \<and> y = Some e \<and> alike x e)"

lemma bindableE:
  assumes "bindable T H noIPv6 network laddr raddr"
  obtains family laddrs where "socketFamily noIPv6 network laddr raddr = Inr family"
    "(case laddr of None \<Rightarrow> io_ret None | Some la \<Rightarrow> io_bind (io_check id (localBindAddrs T (h_zi H) family la)) (\<lambda>b. io_ret (Some b))) =
      (io_ret laddrs :: ('k, bytes option) io)"
proof -
  obtain family where f: "socketFamily noIPv6 network laddr raddr = Inr family" using assms by (auto simp: bindable_def split: sum.splits)
  show thesis
  proof (cases laddr)
    case None
    then show thesis using that [OF f, of None] by simp
  next
    case (Some la)
    then obtain b where "localBindAddrs T (h_zi H) family la = Some (Inr b)" using assms f by (auto simp: bindable_def split: option.splits sum.splits)
    then show thesis using that [OF f, of "Some b"] Some by simp
  qed
qed

lemma listen_alike:
  assumes "noSCTP N" "bindable T H noIPv6 network laddr None"
  shows "fails_alike (Listen T H N captured noIPv6 cfg ctl network laddr k) k (Listen_elsewhere T captured cfg network laddr)"
proof -
  obtain family laddrs where b: "socketFamily noIPv6 network laddr None = Inr family"
    "(case laddr of None \<Rightarrow> io_ret None | Some la \<Rightarrow> io_bind (io_check id (localBindAddrs T (h_zi H) family la)) (\<lambda>b. io_ret (Some b))) =
      (io_ret laddrs :: ('a, bytes option) io)" using bindableE [OF assms(2)] by metis
  obtain e where e: "openSocket N family k = Some (Inl (Some (UnsupportedErr e)), k)" using openSocket_noSCTP [OF assms(1)] by metis
  obtain r where r: "prepare T cfg styleListen = Some r" by (rule prepare_returns)
  then show ?thesis
    by (cases r) (simp_all add: Listen_def listen_def b Listen_elsewhere_def fails_alike_def io_wrap_def io_err_def e alike_unsupported io_bind_def [of "openSocket _ _"])
qed

lemma endpoint_alike:
  assumes "noSCTP N" "bindable T H noIPv6 network laddr None"
  shows "fails_alike (ListenEndpoint T H N r captured noIPv6 cfg ctl network laddr k) k (ListenEndpoint_elsewhere T captured cfg network laddr)"
    and "fails_alike (OpenEndpoint T H N r captured noIPv6 cfg ctl network laddr k) k (OpenEndpoint_elsewhere T captured cfg network laddr)"
proof -
  obtain family laddrs where b: "socketFamily noIPv6 network laddr None = Inr family"
    "(case laddr of None \<Rightarrow> io_ret None | Some la \<Rightarrow> io_bind (io_check id (localBindAddrs T (h_zi H) family la)) (\<lambda>b. io_ret (Some b))) =
      (io_ret laddrs :: ('a, bytes option) io)" using bindableE [OF assms(2)] by metis
  obtain e where e: "openSocket N family k = Some (Inl (Some (UnsupportedErr e)), k)" using openSocket_noSCTP [OF assms(1)] by metis
  note unfold = openEndpoint_def b fails_alike_def io_wrap_def io_err_def e alike_unsupported io_bind_def [of "openSocket _ _"]
  obtain x where "prepare T cfg styleListenEndpoint = Some x" by (rule prepare_returns)
  then show "fails_alike (ListenEndpoint T H N r captured noIPv6 cfg ctl network laddr k) k (ListenEndpoint_elsewhere T captured cfg network laddr)"
    by (cases x) (simp_all add: ListenEndpoint_def ListenEndpoint_elsewhere_def unfold)
  obtain x where "prepare T cfg styleOpenEndpoint = Some x" by (rule prepare_returns)
  then show "fails_alike (OpenEndpoint T H N r captured noIPv6 cfg ctl network laddr k) k (OpenEndpoint_elsewhere T captured cfg network laddr)"
    by (cases x) (simp_all add: OpenEndpoint_def OpenEndpoint_elsewhere_def unfold)
qed

lemma dial_alike:
  assumes "noSCTP N" "dialable T H noIPv6 network laddr ra" "n_ctx N k = (None, k)"
  shows "fails_alike (Dial T H N r captured noIPv6 cfg ctl True network laddr (Some ra) k) k (Dial_elsewhere T captured cfg network laddr (Some ra))"
proof -
  obtain family laddrs where b: "socketFamily noIPv6 network laddr (Some ra) = Inr family"
    "(case laddr of None \<Rightarrow> io_ret None | Some la \<Rightarrow> io_bind (io_check id (localBindAddrs T (h_zi H) family la)) (\<lambda>b. io_ret (Some b))) =
      (io_ret laddrs :: ('a, bytes option) io)" using bindableE [of T H noIPv6 network laddr "Some ra"] assms(2) unfolding dialable_def by metis
  obtain peer where p: "encodeAddrs T (h_zi H) family (ad_IPs ra) (ad_Port ra) = Some (Inr peer)" "ad_IPs ra \<noteq> []" "ad_Port ra \<noteq> 0"
    using assms(2) b(1) by (auto simp: dialable_def split: option.splits sum.splits)
  obtain e where e: "openSocket N family k = Some (Inl (Some (UnsupportedErr e)), k)" using openSocket_noSCTP [OF assms(1)] by metis
  have run: "dial_run T H N r captured d ctl k = Some (Inl (Some (UnsupportedErr e)), k)" if "d_family d = family" for d
    by (simp add: dial_run_def io_bind_def io_call_def assms(3) that e)
  obtain x where "prepare T cfg styleDial = Some x" by (rule prepare_returns)
  then show ?thesis
    by (cases x) (simp_all add: Dial_def dial_def b p Dial_elsewhere_def fails_alike_def io_wrap_def io_err_def alike_unsupported
        dial_loop.simps io_bind_def [of "dial_run _ _ _ _ _ _ _"] run)
qed

lemma file_refused_alike:
  assumes "prepare T cfg styleFile = Some (Inl x)"
  shows "\<exists>e. FileConn_elsewhere T captured cfg = Some e \<and> FileConn T H N r captured cfg hasFile k = Some (Inl e, k)"
    and "\<exists>e. FileListener_elsewhere T captured cfg = Some e \<and> FileListener T H N captured cfg hasFile k = Some (Inl e, k)"
  using assms by (simp_all add: FileConn_def fileConn_def FileListener_def fileListener_def FileConn_elsewhere_def FileListener_elsewhere_def
      io_wrap_def io_err_def)

text \<open>C39: programs fail the same way everywhere. On a Linux kernel without SCTP, every constructor that opens a socket returns, for
  arguments it accepts, what the other platforms return for the same Config: the very error when the Config is refused, and otherwise an
  operation error of the same operation, network and addresses that matches \<open>ErrUnsupported\<close>; no state is left behind. A Config that adopting
  a descriptor refuses is refused with the same error on every platform.\<close>

theorem platforms_fail_alike:
  assumes "noSCTP N" "bindable T H noIPv6 network laddr None" "dialable T H noIPv6 network laddr ra" "n_ctx N k = (None, k)"
  shows "fails_alike (Dial T H N r captured noIPv6 cfg ctl True network laddr (Some ra) k) k (Dial_elsewhere T captured cfg network laddr (Some ra)) \<and>
    fails_alike (Listen T H N captured noIPv6 cfg ctl network laddr k) k (Listen_elsewhere T captured cfg network laddr) \<and>
    fails_alike (ListenEndpoint T H N r captured noIPv6 cfg ctl network laddr k) k (ListenEndpoint_elsewhere T captured cfg network laddr) \<and>
    fails_alike (OpenEndpoint T H N r captured noIPv6 cfg ctl network laddr k) k (OpenEndpoint_elsewhere T captured cfg network laddr) \<and>
    (\<forall>x. prepare T cfg styleFile = Some (Inl x) \<longrightarrow>
       (\<exists>e. FileConn_elsewhere T captured cfg = Some e \<and> FileConn T H N r captured cfg hasFile k = Some (Inl e, k)) \<and>
       (\<exists>e. FileListener_elsewhere T captured cfg = Some e \<and> FileListener T H N captured cfg hasFile k = Some (Inl e, k)))"
  by (intro conjI allI impI dial_alike listen_alike endpoint_alike file_refused_alike assms)

definition withoutSCTP :: "unit net" where
  "withoutSCTP = connecting\<lparr>n_socket := (\<lambda>k family. (Some EPROTONOSUPPORT, k))\<rparr>"

theorem platforms_fail_alike_witness:
  "fails_alike (Dial amd64 quietHost withoutSCTP recvState_zero True False None None True ''sctp'' None (Some loopback) ()) ()
     (Dial_elsewhere amd64 True None ''sctp'' None (Some loopback)) \<and>
   (\<exists>e. FileConn_elsewhere amd64 True (Some (Config_zero\<lparr>cf_AbandonPolicy := 1\<rparr>)) = Some e \<and>
     FileConn amd64 quietHost withoutSCTP recvState_zero True (Some (Config_zero\<lparr>cf_AbandonPolicy := 1\<rparr>)) True () = Some (Inl e, ()))"
proof -
  have "socketFamily False ''sctp'' None None = Inr afInet6" by code_simp
  then have h: "noSCTP withoutSCTP" "bindable amd64 quietHost False ''sctp'' None None" "n_ctx withoutSCTP () = (None, ())"
    by (simp_all add: noSCTP_def withoutSCTP_def bindable_def connecting_def unpollable_def)
  have "dialable amd64 quietHost False ''sctp'' None loopback"
    using loopback_prepared(2,3) by (auto simp: dialable_def bindable_def loopback_def quietHost_def)
  note props = platforms_fail_alike [OF h(1,2) this h(3), of recvState_zero True _ None True]
  have "(case prepare amd64 (Some (Config_zero\<lparr>cf_AbandonPolicy := 1\<rparr>)) styleFile of Some (Inl x) \<Rightarrow> True | _ \<Rightarrow> False)" by code_simp
  then have "\<exists>x. prepare amd64 (Some (Config_zero\<lparr>cf_AbandonPolicy := 1\<rparr>)) styleFile = Some (Inl x)" by (auto split: option.splits sum.splits)
  with props [of None] props [of "Some (Config_zero\<lparr>cf_AbandonPolicy := 1\<rparr>)"] show ?thesis by blast
qed

end
