(* ===== verification/Spec2Isabelle.thy ===== *)
theory Spec2Isabelle
  imports Enums Term MsgInfo Cuts ConfigProps OptionsProps SendProps StoredProps AppliedProps DialProps SocketProps EndpointProps
    Resolve Platforms
begin

text \<open>
  A verification of go-sctp, a Go package for SCTP sockets on Linux. The package has no state of its own between its descriptors: a
  program makes a \<open>Conn\<close> (one association), a \<open>Listener\<close> (which accepts them) or an \<open>Endpoint\<close> (many associations on one socket), each the
  owner of one descriptor, and every method of them is some checks, an exchange of structs with the kernel, and an error wrapped in the
  shape of package \<open>net\<close>. What is hard is at the edges: the bytes of the kernel's structs on every architecture, records and messages
  that the kernel delivers in pieces, a send that its context, its deadline or a concurrent Shutdown may interrupt, the close that must
  release the descriptor once, and the descriptors that failed constructors must not leak.

  \<^bold>\<open>Conventions.\<close> A Go panic, and a loop that does not return, is \<open>None\<close>; a Go error is a value of \<open>goerr\<close> (theory \<open>Errors\<close>), nil being
  \<open>None\<close> of \<open>goerr option\<close>; a function that returns a value or an error is a sum. Integers keep their width (\<open>u16\<close>, \<open>u32\<close>, \<open>u64\<close> words) where the
  code's do; durations and times are \<open>int\<close> nanoseconds. A \<open>target\<close> record gives byte order, word size and the alignment of 64-bit integers,
  so that every statement about bytes holds on all of Go's Linux ports at once. A slice is a list of bytes, and each index or re-slice is
  guarded as Go's is. The text of a \<open>fmt\<close> message is its format string.

  \<^bold>\<open>The kernel\<close> is a parameter: \<open>'k sys\<close> (theory \<open>Sockopt\<close>) is the option calls of one descriptor on a state \<open>'k\<close>, \<open>'k net\<close> (theory \<open>Descriptors\<close>)
  adds the calls that open, bind, connect, accept, peel off and close. A computation with system calls is an \<open>io\<close>: from a kernel state to a
  panic, or an error or a result with the state after it. The poller, \<open>recvmsg\<close> and \<open>sendmsg\<close> are lists of answers or events, so that a
  theorem for all of them is one for every behaviour of the kernel and of the runtime. A theorem that needs more of Linux states it as a
  hypothesis with a name: that an option reads back as written (\<open>StoredProps\<close>, \<open>AppliedProps\<close>), or that socket(2) knows no SCTP (\<open>Platforms\<close>);
  each has a witness with a concrete kernel. Interface names and indexes, the resolver, and the interface table are parameters too.

  \<^bold>\<open>Theories and sources.\<close>
  \<^item> \<open>GoPrelude\<close>: bytes, slices, byte orders and guarded reads and writes, with the read-after-write laws (collection \<open>codec_rw\<close>), the facts
    that resolve a guard (\<open>no_panic\<close>) and the constants of the ABI (\<open>abi_layout\<close>); the locale \<open>fixed_codec\<close>, interpreted for 16, 32, 64 and
    128 bits.
  \<^item> \<open>Errors\<close> (\<open>errors.go\<close>): the errors, \<open>errors.Is\<close>, \<open>opError\<close> and the other wrappers. \<open>Enums\<close> (\<open>enums.go\<close>): the constants with their names; the
    locales \<open>named_enum\<close> and \<open>bit_table\<close> hold what every name table and flag table owes, and are interpreted on each.
  \<^item> \<open>Abi\<close>, \<open>Sockopt\<close> (\<open>abi.go\<close>): every number and every struct offset, and that the layouts are consistent on every target.
  \<^item> \<open>Sockaddr\<close> (\<open>sockaddr.go\<close>), \<open>MsgInfo\<close> (\<open>msginfo.go\<close>), \<open>Notifications\<close> (\<open>notification.go\<close>), \<open>Options\<close> and \<open>OptionsProps\<close> (\<open>options.go\<close>): the
    codecs. The locale \<open>reassembler\<close> is the interface of the record accumulator, \<open>storage_layout\<close> that of the two layouts of a path address.
  \<^item> \<open>Addrs\<close>, \<open>Resolve\<close> (\<open>addr.go\<close>): the Addr, its text and the families of a network; \<open>ResolveAddr\<close> with \<open>SplitHostPort\<close>, \<open>ParseUint\<close> and
    \<open>netip.ParseAddr\<close> of the standard library.
  \<^item> \<open>Term\<close> (\<open>term_linux.go\<close>): the latch of an association's error. \<open>Lifecycle\<close> (\<open>close.go\<close>): Close, Abort and Shutdown as a step relation over
    any number of concurrent calls, one atomic operation of the code a step.
  \<^item> \<open>Recv\<close>, \<open>ReadMsg\<close> (\<open>recv_linux.go\<close>): the receive state, one attempt, \<open>Read\<close>, \<open>RecvMsg\<close> and \<open>ReadMsg\<close>; \<open>Reads\<close>, \<open>Delivery\<close> and \<open>Cuts\<close> hold what they
    promise. \<open>Send\<close>, \<open>SendMachine\<close> (\<open>send_linux.go\<close>): the functions of a send, and the machine whose events are its critical sections and
    those of the calls beside it; \<open>SendProps\<close> what they promise.
  \<^item> \<open>Config\<close>, \<open>ConfigProps\<close> (\<open>config.go\<close>): \<open>prepare\<close>, which turns a Config into the list of operations. \<open>Sockets\<close> (\<open>socket_linux.go\<close>,
    \<open>config_linux.go\<close>): those operations as system calls, the address and status queries, the bind. \<open>ConnOptions\<close> (\<open>options_linux.go\<close>,
    \<open>options_ext_linux.go\<close>): the typed options, with \<open>SetterProps\<close>, \<open>GetterProps\<close>, \<open>StoredProps\<close>, \<open>SocketProps\<close>, \<open>AppliedProps\<close>.
  \<^item> \<open>Descriptors\<close> (\<open>socket_linux.go\<close>, \<open>close_linux.go\<close>), \<open>Conns\<close> (\<open>conn.go\<close>, \<open>conn_linux.go\<close>), \<open>Dialing\<close> (\<open>dial_linux.go\<close>), \<open>Listeners\<close>
    (\<open>listener.go\<close>, \<open>listener_linux.go\<close>), \<open>Endpoints\<close> (\<open>endpoint.go\<close>, \<open>endpoint_linux.go\<close>): the constructors and the methods of the three types, in the order of the
    code. A Conn is the record \<open>netConn\<close>, which extends the records of the send and receive paths; a Listener and an Endpoint have their own.
  \<^item> \<open>Ledger\<close>, \<open>DialProps\<close>, \<open>EndpointProps\<close>: what the constructors and endpoints promise. \<open>Platforms\<close> (\<open>unsupported.go\<close>, and the thin methods of the
    files above): raw access, deadlines, the interface table, and the constructors where SCTP is not supported.

  \<^bold>\<open>What is shown.\<close>
  \<^item> Nothing read is lost or misattributed: notifications reassemble whatever their cuts, \<open>Read\<close> delivers them in order before the data, \<open>ReadMsg\<close>
    returns a message whole, a record that is cut short aborts the connection, no read panics, and an endpoint's bytes carry
    their own association or none.
  \<^item> A send makes the kernel accept at most one message and reports just that, under every interleaving; it leaves the caller's deadline, names
    the cause that ended it, and cannot be left waiting. Absent options mean the socket's defaults.
  \<^item> A descriptor is released exactly once under any interleaving of Close, Abort and Shutdown, no waiter waits in vain, and a close does not
    poll for ever. Constructors own what they open: the locale \<open>ledger\<close> (with \<open>sys_ledger\<close> and, for a listener and its connections, \<open>ledgers\<close>)
    says which calls open and close, the balance of every constructor is worked out in it, and it is interpreted on any net with a log
    beside its state, so that the theorem is about every kernel. \<open>eof_sender\<close> counts the shutdowns of an endpoint's close in the same way.
  \<^item> Dial never returns a connection to itself and believes a setup only on evidence. A Config is refused cleanly or applied in its order,
    and reaches the getters; setters and getters make the one call they should, with the bytes they should.
  \<^item> Encodings round-trip: addresses, path parameters, notifications, the text of an Addr. Optimised or scanning checks agree with their
    specifications: the duplicate check before a bind, the list of associations, the scope of a link-local path. The other platforms
    fail as a Linux without SCTP does.

  \<^bold>\<open>Recursion, bounds and fuel.\<close> No definition uses fuel. Loops over answers recurse on the list of answers, which each round shortens, and a call
  that has used them up is still waiting, a result of its own (\<open>Waits\<close>). \<open>getAddrs_loop\<close>, \<open>assocIDs_loop\<close>, \<open>accept_wait\<close> and \<open>setup_wait\<close> are
  partial functions over the kernel's state: the first two are proved to return whatever the kernel answers (an address query
  after at most four calls; the list of associations, on 64-bit targets, with at most 2^20 ids), the other two wait for as long as the poller makes them, as the code does, and no
  theorem assumes that they return. \<open>dial_loop\<close> starts over at most \<open>maxSelfConnectRetries\<close> times.

  \<^bold>\<open>Findings.\<close> Two lemmas record where the code and its intent part: \<open>zone_alias_not_refused\<close> (an address given with an interface's name and
  with its index passes the duplicate check) and \<open>assocIDs_length_wraps\<close> (on 32-bit targets a kernel length of 2^31 or more passes its check and panics).

  \<^bold>\<open>Not modelled.\<close> The system call wrappers (\<open>syscall_linux_386.go\<close>, \<open>syscall_linux_other.go\<close>) pass pointers to the kernel, and are the parameters
  above. The stubs of \<open>unsupported.go\<close> other than its constructors return \<open>ErrUnsupported\<close> and a zero value. Locks appear as the atomicity of the steps
  in \<open>Lifecycle\<close> and \<open>SendMachine\<close>; elsewhere a call is one step, so that the mutual exclusion of reads with raw access and with \<open>PeelOff\<close> is
  not stated. Buffer pooling has no effect on values and is left out, as are the test hooks, the documentation (\<open>doc.go\<close>), the example
  program and the programs under \<open>testdata\<close>.
\<close>

end
